(* ===== verification/StateStore.thy ===== *)
theory StateStore
  imports Prelude
begin

text \<open>
  \<open>backends/core/store.go\<close>: the generic store \<open>StateStore[T]\<close> that every resource kind of the
  backend lives in. Its map is an association list; each operation is one critical section of the
  store's mutex, so it is one function from store to store. The contract the handlers rely on is
  the locale \<open>kv_store\<close>, discharged by \<open>StateStore\<close> at the end.
\<close>

section \<open>The operations\<close>

type_synonym 'v StateStore = "'v gomap"

definition NewStateStore :: "'v StateStore" where
  "NewStateStore = []"

definition StateStore_Get :: "string \<Rightarrow> 'v StateStore \<Rightarrow> 'v option" where
  "StateStore_Get ident s = mget s ident"

definition StateStore_Put :: "string \<Rightarrow> 'v \<Rightarrow> 'v StateStore \<Rightarrow> 'v StateStore" where
  "StateStore_Put ident item s = mput ident item s"

definition StateStore_Delete :: "string \<Rightarrow> 'v StateStore \<Rightarrow> 'v StateStore \<times> bool" where
  "StateStore_Delete ident s = (case mget s ident of None \<Rightarrow> (s, False) | Some _ \<Rightarrow> (mdel ident s, True))"

definition StateStore_List :: "'v StateStore \<Rightarrow> 'v list" where
  "StateStore_List s = map snd s"

definition StateStore_Filter :: "('v \<Rightarrow> bool) \<Rightarrow> 'v StateStore \<Rightarrow> 'v list" where
  "StateStore_Filter fn s = filter fn (map snd s)"

definition StateStore_Len :: "'v StateStore \<Rightarrow> nat" where
  "StateStore_Len s = length s"

definition StateStore_Update :: "string \<Rightarrow> ('v \<Rightarrow> 'v) \<Rightarrow> 'v StateStore \<Rightarrow> 'v StateStore \<times> bool" where
  "StateStore_Update ident fn s =
     (case mget s ident of None \<Rightarrow> (s, False) | Some v \<Rightarrow> (mput ident (fn v) s, True))"

text \<open>\<open>PruneIf\<close> visits the entries once; it returns the removed values in that order.\<close>

fun StateStore_PruneIf :: "(string \<Rightarrow> 'v \<Rightarrow> bool) \<Rightarrow> 'v StateStore \<Rightarrow> 'v StateStore \<times> 'v list" where
  "StateStore_PruneIf pred [] = ([], [])"
| "StateStore_PruneIf pred ((k, v) # s) =
     (let (s', pruned) = StateStore_PruneIf pred s
      in if pred k v then (s', v # pruned) else ((k, v) # s', pruned))"

definition StateStore_Keys :: "'v StateStore \<Rightarrow> string list" where
  "StateStore_Keys s = map fst s"

definition StateStore_Entries :: "'v StateStore \<Rightarrow> (string \<times> 'v) list" where
  "StateStore_Entries s = s"

text \<open>Most callers ignore the reported flag.\<close>

abbreviation ss_delete :: "string \<Rightarrow> 'v StateStore \<Rightarrow> 'v StateStore" where
  "ss_delete ident s \<equiv> fst (StateStore_Delete ident s)"

abbreviation ss_update :: "string \<Rightarrow> ('v \<Rightarrow> 'v) \<Rightarrow> 'v StateStore \<Rightarrow> 'v StateStore" where
  "ss_update ident fn s \<equiv> fst (StateStore_Update ident fn s)"

section \<open>Characteristic equations\<close>

lemma get_put [gomap, simp]:
  "StateStore_Get k (StateStore_Put k' v s) = (if k = k' then Some v else StateStore_Get k s)"
  by (simp add: StateStore_Get_def StateStore_Put_def)

lemma get_delete [gomap, simp]:
  "StateStore_Get k (ss_delete k' s) = (if k = k' then None else StateStore_Get k s)"
  by (simp add: StateStore_Get_def StateStore_Delete_def split: option.split)

lemma delete_found [gomap, simp]: "snd (StateStore_Delete k s) = (StateStore_Get k s \<noteq> None)"
  by (simp add: StateStore_Get_def StateStore_Delete_def split: option.split)

lemma get_update [gomap, simp]:
  "StateStore_Get k (ss_update k' f s) =
     (if k = k' then map_option f (StateStore_Get k s) else StateStore_Get k s)"
  by (simp add: StateStore_Get_def StateStore_Update_def split: option.split)

lemma update_found [gomap, simp]: "snd (StateStore_Update k f s) = (StateStore_Get k s \<noteq> None)"
  by (simp add: StateStore_Get_def StateStore_Update_def split: option.split)

lemma wf_put [gomap, simp, intro]: "wf_map s \<Longrightarrow> wf_map (StateStore_Put k v s)"
  by (simp add: StateStore_Put_def)

lemma wf_delete [gomap, simp, intro]: "wf_map s \<Longrightarrow> wf_map (ss_delete k s)"
  by (simp add: StateStore_Delete_def split: option.split)

lemma wf_update [gomap, simp, intro]: "wf_map s \<Longrightarrow> wf_map (ss_update k f s)"
  by (simp add: StateStore_Update_def split: option.split)

lemma PruneIf_filter:
  "StateStore_PruneIf pred s =
     (filter (\<lambda>(k, v). \<not> pred k v) s, map snd (filter (\<lambda>(k, v). pred k v) s))"
  by (induction s) auto

lemma get_PruneIf [gomap]:
  "wf_map s \<Longrightarrow> StateStore_Get k (fst (StateStore_PruneIf pred s)) =
     (case StateStore_Get k s of None \<Rightarrow> None | Some v \<Rightarrow> if pred k v then None else Some v)"
  by (simp add: PruneIf_filter StateStore_Get_def mget_filter split: option.split)

lemma wf_PruneIf [gomap, simp, intro]: "wf_map s \<Longrightarrow> wf_map (fst (StateStore_PruneIf pred s))"
  by (simp add: PruneIf_filter)

lemma in_List_iff:
  "wf_map s \<Longrightarrow> v \<in> set (StateStore_List s) \<longleftrightarrow> (\<exists>k. StateStore_Get k s = Some v)"
  by (auto simp: StateStore_List_def StateStore_Get_def image_iff mget_in_set [symmetric]
      intro: mget_Some_in_set) (metis mget_in_set snd_conv)+

lemma Get_in_List: "StateStore_Get k s = Some v \<Longrightarrow> v \<in> set (StateStore_List s)"
  by (force simp: StateStore_List_def StateStore_Get_def dest: mget_Some_in_set)

lemma Get_NewStateStore [simp]: "StateStore_Get k NewStateStore = None"
  by (simp add: StateStore_Get_def NewStateStore_def)

section \<open>The contract\<close>

text \<open>
  What a handler may assume of a store: reads see the last write of their key, a write or a
  removal touches no other key, an update of an absent key changes nothing and says so.
\<close>

locale kv_store =
  fixes get :: "'k \<Rightarrow> 's \<Rightarrow> 'v option"
    and put :: "'k \<Rightarrow> 'v \<Rightarrow> 's \<Rightarrow> 's"
    and del :: "'k \<Rightarrow> 's \<Rightarrow> 's \<times> bool"
    and upd :: "'k \<Rightarrow> ('v \<Rightarrow> 'v) \<Rightarrow> 's \<Rightarrow> 's \<times> bool"
    and invar :: "'s \<Rightarrow> bool"
  assumes put_get: "get k (put k' v s) = (if k = k' then Some v else get k s)"
    and del_get: "get k (fst (del k' s)) = (if k = k' then None else get k s)"
    and del_flag: "snd (del k s) = (get k s \<noteq> None)"
    and upd_get: "get k (fst (upd k' f s)) = (if k = k' then map_option f (get k s) else get k s)"
    and upd_flag: "snd (upd k f s) = (get k s \<noteq> None)"
    and put_invar: "invar s \<Longrightarrow> invar (put k v s)"
    and del_invar: "invar s \<Longrightarrow> invar (fst (del k s))"
    and upd_invar: "invar s \<Longrightarrow> invar (fst (upd k f s))"
begin

text \<open>A rename moves a name from one key to another, as the container name index does.\<close>

definition rename :: "'k \<Rightarrow> 'k \<Rightarrow> 'v \<Rightarrow> 's \<Rightarrow> 's" where
  "rename old new v s = put new v (fst (del old s))"

lemma rename_get:
  "get k (rename old new v s) = (if k = new then Some v else if k = old then None else get k s)"
  by (simp add: rename_def put_get del_get)

lemma rename_invar: "invar s \<Longrightarrow> invar (rename old new v s)"
  by (simp add: rename_def put_invar del_invar)

lemma upd_absent: "get k s = None \<Longrightarrow> get j (fst (upd k f s)) = get j s"
  by (simp add: upd_get)

lemma upd_as_put: "get k s = Some v \<Longrightarrow> get j (fst (upd k f s)) = get j (put k (f v) s)"
  by (simp add: upd_get put_get)

lemma del_twice: "\<not> snd (del k (fst (del k s)))"
  by (simp add: del_flag del_get)

lemma rename_injective:
  assumes inj: "\<And>a b w. get a s = Some w \<Longrightarrow> get b s = Some w \<Longrightarrow> a = b"
    and old: "get old s = Some v"
    and a: "get a (rename old new v s) = Some w" and b: "get b (rename old new v s) = Some w"
  shows "a = b"
proof -
  have fresh: "c = old" if "get c s = Some v" for c
    using inj [OF that old] .
  show ?thesis
  proof (cases "a = new \<or> b = new")
    case True
    with a b fresh [of a] fresh [of b] show ?thesis by (auto simp: rename_get split: if_splits)
  next
    case False
    with a b have "get a s = Some w" "get b s = Some w"
      by (simp_all add: rename_get split: if_splits)
    then show ?thesis by (rule inj)
  qed
qed

end

interpretation ss: kv_store StateStore_Get StateStore_Put StateStore_Delete StateStore_Update wf_map
  by unfold_locales auto

end
