(* ===== verification/Pods.thy ===== *)
theory Pods
  imports StateStore
begin

text \<open>
  \<open>backends/core/pod.go\<close>: the pod registry, a table of pods with three reverse indexes (by name,
  by container, by network). Every method is one critical section of the registry's mutex. A Go
  pair of a pointer and a flag is a pair of an option and a flag, so that a lookup that reports
  success with a nil pointer is visible.
\<close>

section \<open>State\<close>

record PodContext =
  pc_ID :: string
  pc_Name :: string
  pc_ContainerIDs :: "string list"
  pc_StartedIDs :: "string list"
  pc_NetworkName :: string
  pc_Status :: string
  pc_Labels :: "string gomap"
  pc_Hostname :: string
  pc_SharedNS :: "string list"
  pc_InfraID :: string
  pc_Created :: string

record PodRegistry =
  pr_pods :: "PodContext gomap"
  pr_byName :: "string gomap"
  pr_byContainer :: "string gomap"
  pr_byNetwork :: "string gomap"

definition NewPodRegistry :: PodRegistry where
  "NewPodRegistry = \<lparr>pr_pods = [], pr_byName = [], pr_byContainer = [], pr_byNetwork = []\<rparr>"

datatype pod_error = PodNotFoundError string

fun PodNotFoundError_Error :: "pod_error \<Rightarrow> string" where
  "PodNotFoundError_Error (PodNotFoundError ident) = ''pod not found: '' @ ident"

section \<open>Operations\<close>

text \<open>\<open>ident\<close> and \<open>now\<close> are the results of \<open>GenerateID\<close> and of the clock; a nil map or slice is \<open>None\<close>.\<close>

definition CreatePodWithOpts ::
  "string \<Rightarrow> string \<Rightarrow> string \<Rightarrow> string gomap option \<Rightarrow> string \<Rightarrow> string list option \<Rightarrow>
   PodRegistry \<Rightarrow> PodRegistry \<times> PodContext" where
  "CreatePodWithOpts ident now name labels hostname sharedNS pr =
     (let pod = \<lparr>pc_ID = ident, pc_Name = name, pc_ContainerIDs = [], pc_StartedIDs = [],
                 pc_NetworkName = [], pc_Status = ''created'',
                 pc_Labels = (case labels of None \<Rightarrow> [] | Some l \<Rightarrow> l),
                 pc_Hostname = hostname,
                 pc_SharedNS = (case sharedNS of None \<Rightarrow> [''ipc'', ''net'', ''uts''] | Some ns \<Rightarrow> ns),
                 pc_InfraID = [], pc_Created = now\<rparr>
      in (pr\<lparr>pr_pods := mput ident pod (pr_pods pr), pr_byName := mput name ident (pr_byName pr)\<rparr>, pod))"

definition CreatePod ::
  "string \<Rightarrow> string \<Rightarrow> string \<Rightarrow> string gomap option \<Rightarrow> PodRegistry \<Rightarrow> PodRegistry \<times> PodContext" where
  "CreatePod ident now name labels pr = CreatePodWithOpts ident now name labels [] None pr"

definition AddContainer :: "string \<Rightarrow> string \<Rightarrow> PodRegistry \<Rightarrow> PodRegistry \<times> (pod_error + unit)" where
  "AddContainer podID containerID pr =
     (case mget (pr_pods pr) podID of
        None \<Rightarrow> (pr, Inl (PodNotFoundError podID))
      | Some pod \<Rightarrow>
          if containerID \<in> set (pc_ContainerIDs pod) then (pr, Inr ())
          else (pr\<lparr>pr_pods := mput podID (pod\<lparr>pc_ContainerIDs := pc_ContainerIDs pod @ [containerID]\<rparr>) (pr_pods pr),
                   pr_byContainer := mput containerID podID (pr_byContainer pr)\<rparr>, Inr ()))"

definition RemoveContainer :: "string \<Rightarrow> string \<Rightarrow> PodRegistry \<Rightarrow> PodRegistry" where
  "RemoveContainer podID containerID pr =
     (case mget (pr_pods pr) podID of
        None \<Rightarrow> pr
      | Some pod \<Rightarrow>
          pr\<lparr>pr_pods := mput podID (pod\<lparr>pc_ContainerIDs := remove1 containerID (pc_ContainerIDs pod)\<rparr>) (pr_pods pr),
             pr_byContainer := mdel containerID (pr_byContainer pr)\<rparr>)"

definition GetPod :: "string \<Rightarrow> PodRegistry \<Rightarrow> PodContext option \<times> bool" where
  "GetPod nameOrID pr =
     (case mget (pr_pods pr) nameOrID of
        Some pod \<Rightarrow> (Some pod, True)
      | None \<Rightarrow>
          (case mget (pr_byName pr) nameOrID of
             Some podID \<Rightarrow> (mget (pr_pods pr) podID, True)
           | None \<Rightarrow>
               (case find (\<lambda>(ident, pod). HasPrefix ident nameOrID) (pr_pods pr) of
                  Some (ident, pod) \<Rightarrow> (Some pod, True)
                | None \<Rightarrow> (None, False))))"

definition GetPodForContainer :: "string \<Rightarrow> PodRegistry \<Rightarrow> PodContext option \<times> bool" where
  "GetPodForContainer containerID pr =
     (case mget (pr_byContainer pr) containerID of
        None \<Rightarrow> (None, False)
      | Some podID \<Rightarrow> (mget (pr_pods pr) podID, True))"

definition GetPodForNetwork :: "string \<Rightarrow> PodRegistry \<Rightarrow> PodContext option \<times> bool" where
  "GetPodForNetwork networkName pr =
     (case mget (pr_byNetwork pr) networkName of
        None \<Rightarrow> (None, False)
      | Some podID \<Rightarrow> (mget (pr_pods pr) podID, True))"

definition SetNetwork :: "string \<Rightarrow> string \<Rightarrow> PodRegistry \<Rightarrow> PodRegistry" where
  "SetNetwork podID networkName pr =
     (case mget (pr_pods pr) podID of
        None \<Rightarrow> pr
      | Some pod \<Rightarrow>
          pr\<lparr>pr_pods := mput podID (pod\<lparr>pc_NetworkName := networkName\<rparr>) (pr_pods pr),
             pr_byNetwork := mput networkName podID (pr_byNetwork pr)\<rparr>)"

definition SetStatus :: "string \<Rightarrow> string \<Rightarrow> PodRegistry \<Rightarrow> PodRegistry" where
  "SetStatus podID status pr =
     (case mget (pr_pods pr) podID of
        None \<Rightarrow> pr
      | Some pod \<Rightarrow> pr\<lparr>pr_pods := mput podID (pod\<lparr>pc_Status := status\<rparr>) (pr_pods pr)\<rparr>)"

definition MarkStarted :: "string \<Rightarrow> string \<Rightarrow> PodRegistry \<Rightarrow> PodRegistry \<times> bool \<times> string list" where
  "MarkStarted podID containerID pr =
     (case mget (pr_pods pr) podID of
        None \<Rightarrow> (pr, False, [])
      | Some pod \<Rightarrow>
          if containerID \<in> set (pc_StartedIDs pod) then
            (pr, length (pc_StartedIDs pod) < length (pc_ContainerIDs pod), pc_ContainerIDs pod)
          else
            (let pod' = pod\<lparr>pc_StartedIDs := pc_StartedIDs pod @ [containerID]\<rparr>
             in (pr\<lparr>pr_pods := mput podID pod' (pr_pods pr)\<rparr>,
                 length (pc_StartedIDs pod') < length (pc_ContainerIDs pod'), pc_ContainerIDs pod')))"

definition ListPods :: "PodRegistry \<Rightarrow> PodContext list" where
  "ListPods pr = map snd (pr_pods pr)"

definition DeletePod :: "string \<Rightarrow> PodRegistry \<Rightarrow> PodRegistry \<times> bool" where
  "DeletePod podID pr =
     (case mget (pr_pods pr) podID of
        None \<Rightarrow> (pr, False)
      | Some pod \<Rightarrow>
          (let byContainer = foldl (\<lambda>m cid. mdel cid m) (pr_byContainer pr) (pc_ContainerIDs pod);
               byNetwork = (if pc_NetworkName pod \<noteq> [] then mdel (pc_NetworkName pod) (pr_byNetwork pr)
                            else pr_byNetwork pr)
           in (pr\<lparr>pr_byContainer := byContainer, pr_byNetwork := byNetwork,
                  pr_byName := mdel (pc_Name pod) (pr_byName pr),
                  pr_pods := mdel podID (pr_pods pr)\<rparr>, True)))"

definition Exists :: "string \<Rightarrow> PodRegistry \<Rightarrow> bool" where
  "Exists nameOrID pr = snd (GetPod nameOrID pr)"

section \<open>Histories and the index invariant\<close>

text \<open>
  A history is a list of calls with the random identifiers they drew. The invariant says that an
  index entry always leads to a pod that owns it; \<open>net_ok\<close> is the same for the network index and
  needs a client that gives a pod one non-empty network name for life.
\<close>

datatype pod_op =
    Create string string string "string gomap option" string "string list option"
  | AddTo string string
  | RemoveFrom string string
  | Join_net string string
  | Status string string
  | Started string string
  | Delete string

fun pod_step :: "pod_op \<Rightarrow> PodRegistry \<Rightarrow> PodRegistry" where
  "pod_step (Create ident now name labels hostname ns) pr = fst (CreatePodWithOpts ident now name labels hostname ns pr)"
| "pod_step (AddTo p c) pr = fst (AddContainer p c pr)"
| "pod_step (RemoveFrom p c) pr = RemoveContainer p c pr"
| "pod_step (Join_net p n) pr = SetNetwork p n pr"
| "pod_step (Status p st) pr = SetStatus p st pr"
| "pod_step (Started p c) pr = fst (MarkStarted p c pr)"
| "pod_step (Delete p) pr = fst (DeletePod p pr)"

definition pod_run :: "pod_op list \<Rightarrow> PodRegistry \<Rightarrow> PodRegistry" where
  "pod_run ops pr = foldl (\<lambda>pr op. pod_step op pr) pr ops"

text \<open>\<open>GenerateID\<close> does not repeat an identifier that is in use.\<close>

fun fresh_ids :: "pod_op list \<Rightarrow> PodRegistry \<Rightarrow> bool" where
  "fresh_ids [] pr = True"
| "fresh_ids (op # ops) pr =
     ((case op of Create ident _ _ _ _ _ \<Rightarrow> mget (pr_pods pr) ident = None | _ \<Rightarrow> True)
      \<and> fresh_ids ops (pod_step op pr))"

fun one_network :: "pod_op list \<Rightarrow> PodRegistry \<Rightarrow> bool" where
  "one_network [] pr = True"
| "one_network (op # ops) pr =
     ((case op of
         Join_net p n \<Rightarrow> n \<noteq> [] \<and> (case mget (pr_pods pr) p of None \<Rightarrow> True
                                  | Some pod \<Rightarrow> pc_NetworkName pod = [] \<or> pc_NetworkName pod = n)
       | _ \<Rightarrow> True)
      \<and> one_network ops (pod_step op pr))"

definition pod_inv :: "PodRegistry \<Rightarrow> bool" where
  "pod_inv pr \<longleftrightarrow>
     (\<forall>i p. mget (pr_pods pr) i = Some p \<longrightarrow>
        pc_ID p = i \<and> distinct (pc_ContainerIDs p) \<and> distinct (pc_StartedIDs p)) \<and>
     (\<forall>n i. mget (pr_byName pr) n = Some i \<longrightarrow> (\<exists>p. mget (pr_pods pr) i = Some p \<and> pc_Name p = n)) \<and>
     (\<forall>c i. mget (pr_byContainer pr) c = Some i \<longrightarrow>
        (\<exists>p. mget (pr_pods pr) i = Some p \<and> c \<in> set (pc_ContainerIDs p)))"

definition net_ok :: "PodRegistry \<Rightarrow> bool" where
  "net_ok pr \<longleftrightarrow>
     (\<forall>n i. mget (pr_byNetwork pr) n = Some i \<longrightarrow>
        n \<noteq> [] \<and> (\<exists>p. mget (pr_pods pr) i = Some p \<and> pc_NetworkName p = n))"

lemma mget_foldl_mdel [gomap]:
  "mget (foldl (\<lambda>m c. mdel c m) m cs) k = (if k \<in> set cs then None else mget m k)"
  by (induction cs arbitrary: m) auto

lemmas pod_defs = CreatePodWithOpts_def AddContainer_def RemoveContainer_def SetNetwork_def
  SetStatus_def MarkStarted_def DeletePod_def Let_def

text \<open>The contract of a reverse index: what it finds exists and owns the key.\<close>

locale reverse_index =
  fixes tab :: "'s \<Rightarrow> 'k \<Rightarrow> 'v option"
    and idx :: "'s \<Rightarrow> 'n \<Rightarrow> 'k option"
    and owns :: "'v \<Rightarrow> 'n \<Rightarrow> bool"
    and invar :: "'s \<Rightarrow> bool"
  assumes sound: "invar s \<Longrightarrow> idx s n = Some k \<Longrightarrow> \<exists>v. tab s k = Some v \<and> owns v n"
begin

definition find_by :: "'n \<Rightarrow> 's \<Rightarrow> 'v option \<times> bool" where
  "find_by n s = (case idx s n of None \<Rightarrow> (None, False) | Some k \<Rightarrow> (tab s k, True))"

lemma found_not_nil: "invar s \<Longrightarrow> find_by n s = (r, True) \<Longrightarrow> \<exists>v. r = Some v \<and> owns v n"
  by (auto simp: find_by_def dest: sound split: option.splits)

lemma not_found_nil: "find_by n s = (r, False) \<Longrightarrow> r = None"
  by (auto simp: find_by_def split: option.splits)

end

interpretation name_index: reverse_index "\<lambda>pr. mget (pr_pods pr)" "\<lambda>pr. mget (pr_byName pr)"
    "\<lambda>p n. pc_Name p = n" pod_inv
  by unfold_locales (auto simp: pod_inv_def)

interpretation container_index: reverse_index "\<lambda>pr. mget (pr_pods pr)" "\<lambda>pr. mget (pr_byContainer pr)"
    "\<lambda>p c. c \<in> set (pc_ContainerIDs p)" pod_inv
  by unfold_locales (auto simp: pod_inv_def)

interpretation network_index: reverse_index "\<lambda>pr. mget (pr_pods pr)" "\<lambda>pr. mget (pr_byNetwork pr)"
    "\<lambda>p n. pc_NetworkName p = n" net_ok
  by unfold_locales (auto simp: net_ok_def)

lemma GetPodForContainer_find: "GetPodForContainer c pr = container_index.find_by c pr"
  by (simp add: GetPodForContainer_def container_index.find_by_def)

lemma GetPodForNetwork_find: "GetPodForNetwork n pr = network_index.find_by n pr"
  by (simp add: GetPodForNetwork_def network_index.find_by_def)

lemma pod_inv_step:
  assumes "pod_inv pr"
    and "case op of Create ident _ _ _ _ _ \<Rightarrow> mget (pr_pods pr) ident = None | _ \<Rightarrow> True"
  shows "pod_inv (pod_step op pr)"
proof (cases op)
  case (Create x1 x2 x3 x4 x5 x6)
  with assms show ?thesis by (fastforce simp: pod_defs pod_inv_def)
next
  case (AddTo p c)
  with assms show ?thesis by (cases "mget (pr_pods pr) p") (fastforce simp: pod_defs pod_inv_def)+
next
  case (RemoveFrom p c)
  with assms show ?thesis by (cases "mget (pr_pods pr) p") (fastforce simp: pod_defs pod_inv_def)+
next
  case (Join_net p n)
  with assms show ?thesis by (cases "mget (pr_pods pr) p") (fastforce simp: pod_defs pod_inv_def)+
next
  case (Status p st)
  with assms show ?thesis by (cases "mget (pr_pods pr) p") (fastforce simp: pod_defs pod_inv_def)+
next
  case (Started p c)
  with assms show ?thesis by (cases "mget (pr_pods pr) p") (fastforce simp: pod_defs pod_inv_def)+
next
  case (Delete p)
  with assms show ?thesis
    by (cases "mget (pr_pods pr) p") (fastforce simp: pod_defs pod_inv_def mget_foldl_mdel split: if_splits)+
qed

lemma pod_inv_run: "pod_inv pr \<Longrightarrow> fresh_ids ops pr \<Longrightarrow> pod_inv (pod_run ops pr)"
proof (induction ops arbitrary: pr)
  case (Cons op ops)
  then show ?case using pod_inv_step [of pr op] by (simp add: pod_run_def)
qed (simp add: pod_run_def)

lemma net_ok_step:
  assumes "net_ok pr"
    and "case op of Create ident _ _ _ _ _ \<Rightarrow> mget (pr_pods pr) ident = None | _ \<Rightarrow> True"
    and "case op of
         Join_net p n \<Rightarrow> n \<noteq> [] \<and> (case mget (pr_pods pr) p of None \<Rightarrow> True
                                  | Some pod \<Rightarrow> pc_NetworkName pod = [] \<or> pc_NetworkName pod = n)
       | _ \<Rightarrow> True"
  shows "net_ok (pod_step op pr)"
proof (cases op)
  case (Create x1 x2 x3 x4 x5 x6)
  with assms show ?thesis by (fastforce simp: pod_defs net_ok_def)
next
  case (AddTo p c)
  with assms show ?thesis by (cases "mget (pr_pods pr) p") (fastforce simp: pod_defs net_ok_def)+
next
  case (RemoveFrom p c)
  with assms show ?thesis by (cases "mget (pr_pods pr) p") (fastforce simp: pod_defs net_ok_def)+
next
  case (Join_net p n)
  with assms show ?thesis by (cases "mget (pr_pods pr) p") (fastforce simp: pod_defs net_ok_def)+
next
  case (Status p st)
  with assms show ?thesis by (cases "mget (pr_pods pr) p") (fastforce simp: pod_defs net_ok_def)+
next
  case (Started p c)
  with assms show ?thesis by (cases "mget (pr_pods pr) p") (fastforce simp: pod_defs net_ok_def)+
next
  case (Delete p)
  with assms show ?thesis
    by (cases "mget (pr_pods pr) p") (fastforce simp: pod_defs net_ok_def split: if_splits)+
qed

lemma net_ok_run:
  "net_ok pr \<Longrightarrow> fresh_ids ops pr \<Longrightarrow> one_network ops pr \<Longrightarrow> net_ok (pod_run ops pr)"
proof (induction ops arbitrary: pr)
  case (Cons op ops)
  then show ?case using net_ok_step [of pr op] by (simp add: pod_run_def)
qed (simp add: pod_run_def)

section \<open>Deferred start\<close>

text \<open>The answers of a series of \<open>MarkStarted\<close> calls.\<close>

fun mark_all :: "string \<Rightarrow> string list \<Rightarrow> PodRegistry \<Rightarrow> PodRegistry \<times> bool list" where
  "mark_all p [] pr = (pr, [])"
| "mark_all p (c # cs) pr =
     (let (pr', wait, ids) = MarkStarted p c pr; (pr'', answers) = mark_all p cs pr'
      in (pr'', wait # answers))"

lemma mark_all_answers:
  assumes "mget (pr_pods pr) p = Some pod" "distinct xs" "set xs \<inter> set (pc_StartedIDs pod) = {}"
  shows "snd (mark_all p xs pr)
    = map (\<lambda>k. Suc (length (pc_StartedIDs pod) + k) < length (pc_ContainerIDs pod)) [0..<length xs]"
  using assms
proof (induction xs arbitrary: pr pod)
  case (Cons c xs)
  let ?pod = "pod\<lparr>pc_StartedIDs := pc_StartedIDs pod @ [c]\<rparr>"
  let ?pr = "pr\<lparr>pr_pods := mput p ?pod (pr_pods pr)\<rparr>"
  have step: "MarkStarted p c pr =
      (?pr, Suc (length (pc_StartedIDs pod)) < length (pc_ContainerIDs pod), pc_ContainerIDs pod)"
    using Cons.prems by (simp add: MarkStarted_def Let_def)
  have "snd (mark_all p xs ?pr)
      = map (\<lambda>k. Suc (length (pc_StartedIDs ?pod) + k) < length (pc_ContainerIDs ?pod)) [0..<length xs]"
    using Cons.prems by (intro Cons.IH) auto
  then show ?case
    by (simp add: step map_upt_Suc case_prod_beta del: upt_Suc)
qed simp

lemma GetPod_in_list:
  assumes inv: "pod_inv pr" and get: "GetPod x pr = (r, True)"
  shows "\<exists>p. r = Some p \<and> p \<in> set (ListPods pr)"
proof -
  have in_list: "mget (pr_pods pr) i = Some p \<Longrightarrow> p \<in> set (ListPods pr)" for i p
    by (force simp: ListPods_def dest: mget_Some_in_set)
  consider (by_id) p where "mget (pr_pods pr) x = Some p"
    | (by_name) i where "mget (pr_pods pr) x = None" "mget (pr_byName pr) x = Some i"
    | (prefix) "mget (pr_pods pr) x = None" "mget (pr_byName pr) x = None"
    by (cases "mget (pr_pods pr) x"; cases "mget (pr_byName pr) x") auto
  then show ?thesis
  proof cases
    case by_id
    with get in_list show ?thesis by (auto simp: GetPod_def)
  next
    case by_name
    moreover obtain p where "mget (pr_pods pr) i = Some p"
      using name_index.sound [OF inv by_name(2)] by blast
    ultimately show ?thesis using get in_list [of i p] by (intro exI [of _ p]) (simp add: GetPod_def)
  next
    case prefix
    with get obtain i p where "find (\<lambda>(ident, pod). HasPrefix ident x) (pr_pods pr) = Some (i, p)" "r = Some p"
      by (auto simp: GetPod_def split: option.splits)
    moreover from this have "(i, p) \<in> set (pr_pods pr)"
      by (auto simp: find_Some_iff in_set_conv_nth)
    ultimately show ?thesis by (force simp: ListPods_def)
  qed
qed

text \<open>
  C31: index lookups of the registry never report success with a nil pod. After any history whose
  generated identifiers are fresh, a pod found by container lists that container, and a pod found
  by \<open>GetPod\<close> is a pod of the registry.
\<close>

theorem pod_lookups_sound:
  assumes "fresh_ids ops NewPodRegistry"
  defines "pr \<equiv> pod_run ops NewPodRegistry"
  shows "(\<forall>c r. GetPodForContainer c pr = (r, True) \<longrightarrow> (\<exists>p. r = Some p \<and> c \<in> set (pc_ContainerIDs p))) \<and>
         (\<forall>x r. GetPod x pr = (r, True) \<longrightarrow> (\<exists>p. r = Some p \<and> p \<in> set (ListPods pr)))"
proof -
  have inv: "pod_inv pr"
    unfolding pr_def by (rule pod_inv_run [OF _ assms(1)]) (simp add: pod_inv_def NewPodRegistry_def)
  have byC: "\<exists>p. r = Some p \<and> c \<in> set (pc_ContainerIDs p)" if "GetPodForContainer c pr = (r, True)" for c r
    using container_index.found_not_nil [OF inv] that by (simp add: GetPodForContainer_find)
  have byX: "\<exists>p. r = Some p \<and> p \<in> set (ListPods pr)" if "GetPod x pr = (r, True)" for x r
    using GetPod_in_list [OF inv that] .
  show ?thesis using byC byX by blast
qed

text \<open>
  the network index has the same guarantee when every pod keeps one non-empty network name.
\<close>

theorem pod_network_lookup_sound:
  assumes "fresh_ids ops NewPodRegistry" "one_network ops NewPodRegistry"
    and "GetPodForNetwork n (pod_run ops NewPodRegistry) = (r, True)"
  shows "\<exists>p. r = Some p \<and> pc_NetworkName p = n"
proof -
  have "net_ok (pod_run ops NewPodRegistry)"
    by (rule net_ok_run [OF _ assms(1,2)]) (simp add: net_ok_def NewPodRegistry_def)
  then show ?thesis
    using network_index.found_not_nil assms(3) by (simp add: GetPodForNetwork_find)
qed

text \<open>
  without that discipline it fails. \<open>SetNetwork\<close> keeps the old entry when a pod changes its
  network, and \<open>DeletePod\<close> removes the last one only: a lookup of the first network then reports
  success with a nil pod.
\<close>

theorem pod_network_index_dangles:
  assumes "mget (pr_pods pr) p = Some pod" "n1 \<noteq> n2"
  shows "GetPodForNetwork n1 (fst (DeletePod p (SetNetwork p n2 (SetNetwork p n1 pr)))) = (None, True)"
  using assms by (simp add: SetNetwork_def DeletePod_def GetPodForNetwork_def Let_def)

text \<open>
  the start of a pod is deferred until its last container. When every container of a pod is
  marked once, in any order, all answers but the last say wait, and the last one says go.
\<close>

theorem pod_start_deferred:
  assumes "mget (pr_pods pr) p = Some pod" "pc_StartedIDs pod = []" "distinct (pc_ContainerIDs pod)"
    and "distinct xs" "set xs = set (pc_ContainerIDs pod)" "xs \<noteq> []"
  shows "snd (mark_all p xs pr) = replicate (length xs - 1) True @ [False]"
proof -
  have len: "length (pc_ContainerIDs pod) = length xs"
    using assms by (metis distinct_card)
  obtain m where m: "length xs = Suc m"
    using assms by (cases xs) auto
  have "snd (mark_all p xs pr) = map (\<lambda>k. Suc k < length xs) [0..<length xs]"
    using mark_all_answers [OF assms(1,4)] assms(2) by (simp add: len)
  also have "\<dots> = replicate (length xs - 1) True @ [False]"
    by (simp add: m list_eq_iff_nth_eq nth_append)
  finally show ?thesis .
qed

definition pod_demo_ops :: "pod_op list" where
  "pod_demo_ops =
     [Create ''p1'' ''t'' ''web'' None [] None, AddTo ''p1'' ''c1'', AddTo ''p1'' ''c2'', Join_net ''p1'' ''net'']"

definition pod_demo :: PodRegistry where
  "pod_demo = pod_run pod_demo_ops NewPodRegistry"

lemma pod_demo_facts:
  "fresh_ids pod_demo_ops NewPodRegistry" "one_network pod_demo_ops NewPodRegistry"
  "GetPodForContainer ''c2'' pod_demo = (mget (pr_pods pod_demo) ''p1'', True)"
  "GetPod ''web'' pod_demo = (mget (pr_pods pod_demo) ''p1'', True)"
  "GetPodForNetwork ''net'' pod_demo = (mget (pr_pods pod_demo) ''p1'', True)"
  "map_option pc_ContainerIDs (mget (pr_pods pod_demo) ''p1'') = Some [''c1'', ''c2'']"
  "map_option pc_StartedIDs (mget (pr_pods pod_demo) ''p1'') = Some []"
  by code_simp+

theorem pod_lookups_sound_witness:
  "(\<exists>p. mget (pr_pods pod_demo) ''p1'' = Some p \<and> ''c2'' \<in> set (pc_ContainerIDs p)) \<and>
   (\<exists>p. mget (pr_pods pod_demo) ''p1'' = Some p \<and> p \<in> set (ListPods pod_demo))"
  using pod_lookups_sound [OF pod_demo_facts(1)] pod_demo_facts(3,4) unfolding pod_demo_def by blast

theorem pod_network_lookup_sound_witness:
  "\<exists>p. mget (pr_pods pod_demo) ''p1'' = Some p \<and> pc_NetworkName p = ''net''"
  using pod_network_lookup_sound [OF pod_demo_facts(1,2)] pod_demo_facts(5) unfolding pod_demo_def by blast

theorem pod_network_index_dangles_witness:
  "GetPodForNetwork ''n1'' (fst (DeletePod ''p1'' (SetNetwork ''p1'' ''n2'' (SetNetwork ''p1'' ''n1'' pod_demo))))
     = (None, True)"
proof -
  obtain pod where "mget (pr_pods pod_demo) ''p1'' = Some pod" using pod_demo_facts(6) by auto
  then show ?thesis using pod_network_index_dangles by simp
qed

theorem pod_start_deferred_witness:
  "snd (mark_all ''p1'' [''c2'', ''c1''] pod_demo) = [True, False]"
proof -
  obtain pod where pod: "mget (pr_pods pod_demo) ''p1'' = Some pod" "pc_ContainerIDs pod = [''c1'', ''c2'']"
      "pc_StartedIDs pod = []"
    using pod_demo_facts(6,7) by auto
  then show ?thesis
    using pod_start_deferred [OF pod(1), of "[''c2'', ''c1'']"] by auto
qed

end
