(* ===== verification/Ipam.thy ===== *)
theory Ipam
  imports StateStore
begin

text \<open>
  \<open>backends/core/ipam.go\<close>: the IP address allocator. Per network it keeps a textual base, the
  next host number and a stack of released host numbers; the mutex makes every operation atomic.
  Go's \<open>int\<close> is \<open>int\<close> here (a host number past \<open>2 ^ 63\<close> is out of reach, and the theorems that need
  it say so). The theory also holds the abstract contract of an address pool, the locale
  \<open>address_pool\<close>, and its interpretation on the allocator's subnet operations.
\<close>

section \<open>State\<close>

record IPAMConfig =
  cfg_Subnet :: string
  cfg_Gateway :: string

record subnetState =
  sn_base :: string
  sn_gateway :: string
  sn_mask :: int
  sn_nextHost :: int
  sn_released :: "int list"

record IPAllocator =
  ipa_subnets :: "subnetState gomap"
  ipa_nextByte :: int

definition NewIPAllocator :: IPAllocator where
  "NewIPAllocator = \<lparr>ipa_subnets = [], ipa_nextByte = 18\<rparr>"

section \<open>Operations\<close>

text \<open>\<open>s[:strings.LastIndex(s, ".")+1]\<close>; with no dot the index is \<open>-1\<close> and the slice is empty.\<close>

definition upto_last_dot :: "string \<Rightarrow> string" where
  "upto_last_dot s = (case LastIndexByte s CHR ''.'' of None \<Rightarrow> [] | Some i \<Rightarrow> take (Suc i) s)"

definition requested_gateway :: "IPAMConfig \<Rightarrow> string" where
  "requested_gateway req =
     (if cfg_Gateway req \<noteq> [] then cfg_Gateway req
      else let subnetIP = (case IndexByte (cfg_Subnet req) CHR ''/'' of
                             Some idx \<Rightarrow> take idx (cfg_Subnet req)
                           | None \<Rightarrow> cfg_Subnet req)
           in upto_last_dot subnetIP @ ''1'')"

definition requested_mask :: "IPAMConfig \<Rightarrow> int" where
  "requested_mask req =
     (case IndexByte (cfg_Subnet req) CHR ''/'' of
        None \<Rightarrow> 16
      | Some idx \<Rightarrow> (case Sscanf_d (drop (Suc idx) (cfg_Subnet req)) of Some m \<Rightarrow> m | None \<Rightarrow> 16))"

text \<open>The branch of \<open>AllocateSubnet\<close> that assigns the next \<open>172.n.0.0/16\<close>.\<close>

definition auto_subnet :: "string \<Rightarrow> IPAllocator \<Rightarrow> IPAllocator \<times> IPAMConfig" where
  "auto_subnet networkID a =
     (let octet = ipa_nextByte a;
          subnet = ''172.'' @ Itoa octet @ ''.0.0/16'';
          gateway = ''172.'' @ Itoa octet @ ''.0.1'';
          base = ''172.'' @ Itoa octet @ ''.0.'';
          st = \<lparr>sn_base = base, sn_gateway = gateway, sn_mask = 16, sn_nextHost = 2, sn_released = []\<rparr>
      in (a\<lparr>ipa_nextByte := octet + 1, ipa_subnets := mput networkID st (ipa_subnets a)\<rparr>,
          \<lparr>cfg_Subnet = subnet, cfg_Gateway = gateway\<rparr>))"

definition AllocateSubnet ::
  "string \<Rightarrow> IPAMConfig option \<Rightarrow> IPAllocator \<Rightarrow> IPAllocator \<times> IPAMConfig" where
  "AllocateSubnet networkID requested a =
     (case requested of
        Some req \<Rightarrow>
          if cfg_Subnet req \<noteq> [] then
            (let gateway = requested_gateway req;
                 st = \<lparr>sn_base = upto_last_dot gateway, sn_gateway = gateway,
                       sn_mask = requested_mask req, sn_nextHost = 2, sn_released = []\<rparr>
             in (a\<lparr>ipa_subnets := mput networkID st (ipa_subnets a)\<rparr>, req))
          else auto_subnet networkID a
      | None \<Rightarrow> auto_subnet networkID a)"

definition scan_octet :: "string \<Rightarrow> int" where
  "scan_octet part = (case Sscanf_d part of Some n \<Rightarrow> n | None \<Rightarrow> 0)"

definition macFromIP :: "string \<Rightarrow> string" where
  "macFromIP ip =
     (case Split ip CHR ''.'' of
        [p0, p1, p2, p3] \<Rightarrow>
          ''02:42:ac:'' @ hex02 (scan_octet p1) @ '':'' @ hex02 (scan_octet p2) @ '':'' @ hex02 (scan_octet p3)
      | _ \<Rightarrow> ''02:42:ac:11:00:02'')"

text \<open>The host number the allocator picks, and the subnet after it: the top of the released stack
  if there is one, the next unused number otherwise.\<close>

definition take_host :: "subnetState \<Rightarrow> int \<times> subnetState" where
  "take_host st =
     (if sn_released st \<noteq> [] then
        (last (sn_released st), st\<lparr>sn_released := butlast (sn_released st)\<rparr>)
      else (sn_nextHost st, st\<lparr>sn_nextHost := sn_nextHost st + 1\<rparr>))"

record ip_grant =
  gr_ip :: string
  gr_prefixLen :: int
  gr_gateway :: string
  gr_mac :: string

definition no_grant :: ip_grant where
  "no_grant = \<lparr>gr_ip = [], gr_prefixLen = 0, gr_gateway = [], gr_mac = []\<rparr>"

definition AllocateIP :: "string \<Rightarrow> IPAllocator \<Rightarrow> IPAllocator \<times> ip_grant" where
  "AllocateIP networkID a =
     (case mget (ipa_subnets a) networkID of
        None \<Rightarrow> (a, no_grant)
      | Some st \<Rightarrow>
          (let (host, st') = take_host st;
               ip = sn_base st @ Itoa host
           in (a\<lparr>ipa_subnets := mput networkID st' (ipa_subnets a)\<rparr>,
               \<lparr>gr_ip = ip, gr_prefixLen = sn_mask st, gr_gateway = sn_gateway st, gr_mac = macFromIP ip\<rparr>)))"

definition give_host :: "int \<Rightarrow> subnetState \<Rightarrow> subnetState" where
  "give_host host st =
     (if host \<ge> 2 then st\<lparr>sn_released := sn_released st @ [host]\<rparr> else st)"

definition ReleaseIP :: "string \<Rightarrow> string \<Rightarrow> IPAllocator \<Rightarrow> IPAllocator" where
  "ReleaseIP networkID ip a =
     (case mget (ipa_subnets a) networkID of
        None \<Rightarrow> a
      | Some st \<Rightarrow>
          if HasPrefix ip (sn_base st) then
            (let host = (case Sscanf_d (drop (length (sn_base st)) ip) of Some h \<Rightarrow> h | None \<Rightarrow> 0)
             in a\<lparr>ipa_subnets := mput networkID (give_host host st) (ipa_subnets a)\<rparr>)
          else a)"

definition ReleaseSubnet :: "string \<Rightarrow> IPAllocator \<Rightarrow> IPAllocator" where
  "ReleaseSubnet networkID a = a\<lparr>ipa_subnets := mdel networkID (ipa_subnets a)\<rparr>"

section \<open>The contract of an address pool\<close>

text \<open>
  A pool hands out numbers and takes them back. \<open>ok st live\<close> says that \<open>live\<close> are the numbers
  handed out and not returned. A caller that returns only what it holds never sees a number twice.
\<close>

datatype 'h pool_op = Take | Give 'h

locale address_pool =
  fixes acquire :: "'s \<Rightarrow> 'h \<times> 's"
    and giveback :: "'h \<Rightarrow> 's \<Rightarrow> 's"
    and ok :: "'s \<Rightarrow> 'h set \<Rightarrow> bool"
  assumes acquire_fresh: "ok st live \<Longrightarrow> fst (acquire st) \<notin> live"
    and acquire_ok: "ok st live \<Longrightarrow> ok (snd (acquire st)) (insert (fst (acquire st)) live)"
    and giveback_ok: "ok st live \<Longrightarrow> h \<in> live \<Longrightarrow> ok (giveback h st) (live - {h})"
begin

text \<open>A run of a caller: \<open>held\<close> lists what it holds; giving back what it does not hold is no step.\<close>

fun run :: "'h pool_op list \<Rightarrow> 's \<times> 'h list \<Rightarrow> 's \<times> 'h list" where
  "run [] c = c"
| "run (Take # ops) (st, held) = run ops (snd (acquire st), fst (acquire st) # held)"
| "run (Give h # ops) (st, held) =
     (if h \<in> set held then run ops (giveback h st, remove1 h held) else run ops (st, held))"

lemma run_ok:
  "ok st (set held) \<Longrightarrow> distinct held \<Longrightarrow> run ops (st, held) = (st', held') \<Longrightarrow>
     ok st' (set held') \<and> distinct held'"
proof (induction ops "(st, held)" arbitrary: st held rule: run.induct)
  case (2 ops st held)
  then show ?case by (simp add: acquire_ok acquire_fresh)
next
  case (3 h ops st held)
  then show ?case by (auto simp: giveback_ok split: if_splits)
qed simp

end

text \<open>The invariant of a subnet, relative to the host numbers in use.\<close>

definition subnet_ok :: "subnetState \<Rightarrow> int set \<Rightarrow> bool" where
  "subnet_ok st live \<longleftrightarrow>
     distinct (sn_released st) \<and> set (sn_released st) \<inter> live = {} \<and> 2 \<le> sn_nextHost st \<and>
     (\<forall>h \<in> set (sn_released st) \<union> live. 2 \<le> h \<and> h < sn_nextHost st)"

lemma take_host_fresh: "subnet_ok st live \<Longrightarrow> fst (take_host st) \<notin> live"
  by (auto simp: subnet_ok_def take_host_def) (meson disjoint_iff last_in_set)

lemma take_host_ok:
  assumes "subnet_ok st live"
  shows "subnet_ok (snd (take_host st)) (insert (fst (take_host st)) live)"
proof (cases "sn_released st" rule: rev_cases)
  case Nil
  with assms show ?thesis by (fastforce simp: subnet_ok_def take_host_def)
next
  case (snoc rs r)
  with assms show ?thesis by (auto simp: subnet_ok_def take_host_def)
qed

lemma give_host_ok: "subnet_ok st live \<Longrightarrow> h \<in> live \<Longrightarrow> subnet_ok (give_host h st) (live - {h})"
  by (auto simp: subnet_ok_def give_host_def)

interpretation hosts: address_pool take_host give_host subnet_ok
  by unfold_locales (simp_all add: take_host_fresh take_host_ok give_host_ok)

section \<open>Addresses are never shared\<close>

lemma Itoa_inj: "Itoa i = Itoa j \<Longrightarrow> i = j"
proof -
  have neg: "nat_digits n \<noteq> CHR ''-'' # cs" for n cs
  proof
    assume "nat_digits n = CHR ''-'' # cs"
    then have "list_all is_digit (CHR ''-'' # cs)" by (metis nat_digits_all_digits)
    then show False by (simp add: is_digit_def)
  qed
  show "Itoa i = Itoa j \<Longrightarrow> i = j"
    by (auto simp: Itoa_def neg neg [symmetric] split: if_splits dest!: nat_digits_inj)
qed

text \<open>
  Any history of the allocator: networks come and go (a fresh identifier each, as the network
  driver uses it), addresses are taken and given back. The second component lists the addresses
  that are out, as pairs of network and address.
\<close>

datatype ip_op =
    NewSubnet string "IPAMConfig option"
  | Acquire string
  | Return string string
  | DropSubnet string

fun ip_step :: "ip_op \<Rightarrow> IPAllocator \<times> (string \<times> string) list \<Rightarrow> IPAllocator \<times> (string \<times> string) list" where
  "ip_step (NewSubnet n req) (a, held) =
     (if mget (ipa_subnets a) n = None then (fst (AllocateSubnet n req a), held) else (a, held))"
| "ip_step (Acquire n) (a, held) =
     (if mget (ipa_subnets a) n = None then (a, held)
      else (fst (AllocateIP n a), (n, gr_ip (snd (AllocateIP n a))) # held))"
| "ip_step (Return n ip) (a, held) =
     (if (n, ip) \<in> set held then (ReleaseIP n ip a, remove1 (n, ip) held) else (a, held))"
| "ip_step (DropSubnet n) (a, held) =
     (ReleaseSubnet n a, filter (\<lambda>(m, _). m \<noteq> n) held)"

definition ip_run :: "ip_op list \<Rightarrow> IPAllocator \<times> (string \<times> string) list \<Rightarrow> IPAllocator \<times> (string \<times> string) list" where
  "ip_run ops c = foldl (\<lambda>c op. ip_step op c) c ops"

definition live_hosts :: "string \<Rightarrow> subnetState \<Rightarrow> (string \<times> string) list \<Rightarrow> int set" where
  "live_hosts n st held = {h. (n, sn_base st @ Itoa h) \<in> set held}"

definition ip_inv :: "int \<Rightarrow> IPAllocator \<times> (string \<times> string) list \<Rightarrow> bool" where
  "ip_inv k c \<longleftrightarrow> (case c of (a, held) \<Rightarrow>
     distinct held \<and>
     (\<forall>n st. mget (ipa_subnets a) n = Some st \<longrightarrow>
        subnet_ok st (live_hosts n st held) \<and> sn_nextHost st \<le> k) \<and>
     (\<forall>(n, ip) \<in> set held. \<exists>st h. mget (ipa_subnets a) n = Some st \<and> ip = sn_base st @ Itoa h))"

lemma AllocateSubnet_subnets:
  "\<exists>st. ipa_subnets (fst (AllocateSubnet n req a)) = mput n st (ipa_subnets a) \<and>
        sn_nextHost st = 2 \<and> sn_released st = []"
  by (auto simp: AllocateSubnet_def auto_subnet_def Let_def split: option.split)

lemma subnet_ok_new: "sn_nextHost st = 2 \<Longrightarrow> sn_released st = [] \<Longrightarrow> subnet_ok st {}"
  by (simp add: subnet_ok_def)

lemma take_host_base [simp]: "sn_base (snd (take_host st)) = sn_base st"
  by (simp add: take_host_def)

lemma take_host_next: "sn_nextHost (snd (take_host st)) \<le> sn_nextHost st + 1"
  by (simp add: take_host_def)

lemma give_host_base [simp]: "sn_base (give_host h st) = sn_base st"
  by (simp add: give_host_def)

lemma give_host_next [simp]: "sn_nextHost (give_host h st) = sn_nextHost st"
  by (simp add: give_host_def)

lemma AllocateIP_Some:
  "mget (ipa_subnets a) n = Some st \<Longrightarrow>
     ipa_subnets (fst (AllocateIP n a)) = mput n (snd (take_host st)) (ipa_subnets a) \<and>
     gr_ip (snd (AllocateIP n a)) = sn_base st @ Itoa (fst (take_host st))"
  by (simp add: AllocateIP_def Let_def split: prod.split)

lemma ReleaseIP_host:
  "mget (ipa_subnets a) n = Some st \<Longrightarrow> 0 \<le> h \<Longrightarrow> h < 2 ^ 63 \<Longrightarrow>
     ipa_subnets (ReleaseIP n (sn_base st @ Itoa h) a) = mput n (give_host h st) (ipa_subnets a)"
  by (simp add: ReleaseIP_def Sscanf_d_Itoa)

lemma live_hosts_Cons:
  "live_hosts n st ((m, sn_base st @ Itoa h) # held) =
     (if m = n then insert h (live_hosts n st held) else live_hosts n st held)"
  by (auto simp: live_hosts_def dest: Itoa_inj)

lemma live_hosts_remove1:
  "distinct held \<Longrightarrow> live_hosts n st (remove1 (m, sn_base st @ Itoa h) held) =
     (if m = n then live_hosts n st held - {h} else live_hosts n st held)"
  by (auto simp: live_hosts_def dest: Itoa_inj)

lemma ip_invI:
  assumes "distinct held"
    and "\<And>n st. mget (ipa_subnets a) n = Some st \<Longrightarrow>
           subnet_ok st (live_hosts n st held) \<and> sn_nextHost st \<le> k"
    and "\<And>n ip. (n, ip) \<in> set held \<Longrightarrow> \<exists>st h. mget (ipa_subnets a) n = Some st \<and> ip = sn_base st @ Itoa h"
  shows "ip_inv k (a, held)"
  using assms by (auto simp: ip_inv_def)

lemma ip_invD:
  assumes "ip_inv k (a, held)"
  shows "distinct held"
    and "mget (ipa_subnets a) n = Some st \<Longrightarrow> subnet_ok st (live_hosts n st held) \<and> sn_nextHost st \<le> k"
    and "(n, ip) \<in> set held \<Longrightarrow> \<exists>st h. mget (ipa_subnets a) n = Some st \<and> ip = sn_base st @ Itoa h"
  using assms by (auto simp: ip_inv_def)

lemma ip_inv_NewSubnet:
  assumes inv: "ip_inv k (a, held)" and k: "2 \<le> k"
  shows "ip_inv k (ip_step (NewSubnet n req) (a, held))"
proof (cases "mget (ipa_subnets a) n")
  case None
  obtain st where st: "ipa_subnets (fst (AllocateSubnet n req a)) = mput n st (ipa_subnets a)"
      "sn_nextHost st = 2" "sn_released st = []"
    using AllocateSubnet_subnets by blast
  have fresh: "(n, ip) \<notin> set held" for ip
    using ip_invD(3) [OF inv, of n ip] None by auto
  then have "live_hosts n st held = {}" by (simp add: live_hosts_def)
  with st k have new: "subnet_ok st (live_hosts n st held) \<and> sn_nextHost st \<le> k"
    by (simp add: subnet_ok_new)
  have "ip_inv k (fst (AllocateSubnet n req a), held)"
  proof (rule ip_invI)
    show "distinct held" by (rule ip_invD(1) [OF inv])
  next
    fix m st' assume "mget (ipa_subnets (fst (AllocateSubnet n req a))) m = Some st'"
    then show "subnet_ok st' (live_hosts m st' held) \<and> sn_nextHost st' \<le> k"
      using new ip_invD(2) [OF inv, of m st'] by (cases "m = n") (simp_all add: st)
  next
    fix m ip assume "(m, ip) \<in> set held"
    then show "\<exists>st' h. mget (ipa_subnets (fst (AllocateSubnet n req a))) m = Some st' \<and> ip = sn_base st' @ Itoa h"
      using fresh [of ip] ip_invD(3) [OF inv, of m ip] by (auto simp: st)
  qed
  with None show ?thesis by simp
qed (use inv in simp)

lemma ip_inv_Acquire:
  assumes inv: "ip_inv k (a, held)"
  shows "ip_inv (k + 1) (ip_step (Acquire n) (a, held))"
proof (cases "mget (ipa_subnets a) n")
  case None
  have "ip_inv (k + 1) (a, held)"
    using inv by (force simp: ip_inv_def)
  with None show ?thesis by simp
next
  case (Some st)
  let ?h = "fst (take_host st)" and ?st = "snd (take_host st)"
  let ?held = "(n, sn_base st @ Itoa ?h) # held"
  from ip_invD(2) [OF inv Some] have ok: "subnet_ok st (live_hosts n st held)" and le: "sn_nextHost st \<le> k"
    by simp_all
  have subnets: "ipa_subnets (fst (AllocateIP n a)) = mput n ?st (ipa_subnets a)"
    and ip: "gr_ip (snd (AllocateIP n a)) = sn_base st @ Itoa ?h"
    using AllocateIP_Some [OF Some] by simp_all
  have own: "subnet_ok ?st (live_hosts n ?st ?held)"
    using take_host_ok [OF ok] live_hosts_Cons [of n ?st n ?h held] by (simp add: live_hosts_def)
  have "ip_inv (k + 1) (fst (AllocateIP n a), ?held)"
  proof (rule ip_invI)
    show "distinct ?held"
      using take_host_fresh [OF ok] ip_invD(1) [OF inv] by (simp add: live_hosts_def)
  next
    fix m st' assume "mget (ipa_subnets (fst (AllocateIP n a))) m = Some st'"
    then show "subnet_ok st' (live_hosts m st' ?held) \<and> sn_nextHost st' \<le> k + 1"
      using own le take_host_next [of st] ip_invD(2) [OF inv, of m st']
      by (cases "m = n") (simp_all add: subnets live_hosts_def)
  next
    fix m ip' assume "(m, ip') \<in> set ?held"
    then show "\<exists>st' h. mget (ipa_subnets (fst (AllocateIP n a))) m = Some st' \<and> ip' = sn_base st' @ Itoa h"
      using ip_invD(3) [OF inv, of m ip'] Some by (auto simp: subnets)
  qed
  with Some show ?thesis by (simp add: ip)
qed

lemma ip_inv_Return:
  assumes inv: "ip_inv k (a, held)" and k: "k \<le> 2 ^ 63"
  shows "ip_inv k (ip_step (Return n ip) (a, held))"
proof (cases "(n, ip) \<in> set held")
  case True
  with ip_invD(3) [OF inv] obtain st h where st: "mget (ipa_subnets a) n = Some st" "ip = sn_base st @ Itoa h"
    by blast
  from ip_invD(2) [OF inv st(1)] have ok: "subnet_ok st (live_hosts n st held)" and le: "sn_nextHost st \<le> k"
    by simp_all
  from True st have h: "h \<in> live_hosts n st held" by (simp add: live_hosts_def)
  with ok have "2 \<le> h \<and> h < sn_nextHost st" unfolding subnet_ok_def by blast
  with le k have subnets: "ipa_subnets (ReleaseIP n ip a) = mput n (give_host h st) (ipa_subnets a)"
    using ReleaseIP_host [OF st(1), of h] by (simp add: st(2))
  have dist: "distinct held" by (rule ip_invD(1) [OF inv])
  have own: "live_hosts n (give_host h st) (remove1 (n, ip) held) = live_hosts n st held - {h}"
    using live_hosts_remove1 [OF dist, of n "give_host h st" n h] st by (simp add: live_hosts_def)
  have "ip_inv k (ReleaseIP n ip a, remove1 (n, ip) held)"
  proof (rule ip_invI)
    show "distinct (remove1 (n, ip) held)" using dist by simp
  next
    fix m st' assume m: "mget (ipa_subnets (ReleaseIP n ip a)) m = Some st'"
    show "subnet_ok st' (live_hosts m st' (remove1 (n, ip) held)) \<and> sn_nextHost st' \<le> k"
    proof (cases "m = n")
      case True
      with m have "st' = give_host h st" by (simp add: subnets)
      with True own le give_host_ok [OF ok h] show ?thesis by simp
    next
      case False
      with m ip_invD(2) [OF inv, of m st'] dist show ?thesis by (simp add: subnets live_hosts_def)
    qed
  next
    fix m ip' assume "(m, ip') \<in> set (remove1 (n, ip) held)"
    then have "(m, ip') \<in> set held" using dist by simp
    then show "\<exists>st' h. mget (ipa_subnets (ReleaseIP n ip a)) m = Some st' \<and> ip' = sn_base st' @ Itoa h"
      using ip_invD(3) [OF inv, of m ip'] st(1) by (auto simp: subnets)
  qed
  with True show ?thesis by simp
qed (use inv in simp)

lemma ip_inv_DropSubnet:
  assumes inv: "ip_inv k (a, held)"
  shows "ip_inv k (ip_step (DropSubnet n) (a, held))"
  unfolding ip_step.simps
proof (rule ip_invI)
  show "distinct (filter (\<lambda>(m, _). m \<noteq> n) held)" using ip_invD(1) [OF inv] by simp
next
  fix m st assume st: "mget (ipa_subnets (ReleaseSubnet n a)) m = Some st"
  then have "live_hosts m st (filter (\<lambda>(m, _). m \<noteq> n) held) = live_hosts m st held"
    by (auto simp: ReleaseSubnet_def live_hosts_def split: if_splits)
  with st show "subnet_ok st (live_hosts m st (filter (\<lambda>(m, _). m \<noteq> n) held)) \<and> sn_nextHost st \<le> k"
    using ip_invD(2) [OF inv, of m st] by (simp add: ReleaseSubnet_def split: if_splits)
next
  fix m ip assume "(m, ip) \<in> set (filter (\<lambda>(m, _). m \<noteq> n) held)"
  then show "\<exists>st h. mget (ipa_subnets (ReleaseSubnet n a)) m = Some st \<and> ip = sn_base st @ Itoa h"
    using ip_invD(3) [OF inv, of m ip] by (auto simp: ReleaseSubnet_def)
qed

lemma ip_inv_mono: "ip_inv k c \<Longrightarrow> k \<le> k' \<Longrightarrow> ip_inv k' c"
  by (force simp: ip_inv_def)

lemma ip_inv_step:
  assumes "ip_inv k c" "2 \<le> k" "k \<le> 2 ^ 63"
  shows "ip_inv (k + 1) (ip_step op c)"
proof (cases c)
  case (Pair a held)
  with assms(1) have inv: "ip_inv k (a, held)" by simp
  show ?thesis
  proof (cases op)
    case (NewSubnet n req)
    with Pair ip_inv_mono [OF ip_inv_NewSubnet [OF inv assms(2)], of "k + 1" n req] show ?thesis by simp
  next
    case (Acquire n)
    with Pair ip_inv_Acquire [OF inv] show ?thesis by simp
  next
    case (Return n ip)
    with Pair ip_inv_mono [OF ip_inv_Return [OF inv assms(3)], of "k + 1" n ip] show ?thesis by simp
  next
    case (DropSubnet n)
    with Pair ip_inv_mono [OF ip_inv_DropSubnet [OF inv], of "k + 1" n] show ?thesis by simp
  qed
qed

lemma ip_inv_run:
  "ip_inv k c \<Longrightarrow> 2 \<le> k \<Longrightarrow> k + int (length ops) \<le> 2 ^ 63 \<Longrightarrow> ip_inv (k + int (length ops)) (ip_run ops c)"
proof (induction ops arbitrary: k c)
  case Nil
  then show ?case by (simp add: ip_run_def)
next
  case (Cons op ops)
  have "ip_inv (k + 1) (ip_step op c)"
    using Cons.prems by (intro ip_inv_step) simp_all
  then have "ip_inv (k + 1 + int (length ops)) (ip_run ops (ip_step op c))"
    using Cons.prems by (intro Cons.IH) simp_all
  then show ?case by (simp add: ip_run_def add.assoc)
qed

text \<open>
  C30: addresses are never shared. Starting from the new allocator, after any history of at most
  \<open>2 ^ 62\<close> subnet and address operations of callers that return only what they hold, the
  addresses that are out are pairwise distinct (as pairs of network and address).
\<close>

theorem ipam_addresses_distinct:
  assumes "int (length ops) \<le> 2 ^ 62"
  shows "distinct (snd (ip_run ops (NewIPAllocator, [])))"
proof -
  have "ip_inv 2 (NewIPAllocator, [])"
    by (rule ip_invI) (simp_all add: NewIPAllocator_def)
  moreover have "(2::int) + int (length ops) \<le> 2 ^ 63"
    using assms by simp
  ultimately have "ip_inv (2 + int (length ops)) (ip_run ops (NewIPAllocator, []))"
    by (intro ip_inv_run) auto
  then show ?thesis
    by (cases "ip_run ops (NewIPAllocator, [])") (auto dest: ip_invD(1))
qed

definition ip_demo_ops :: "ip_op list" where
  "ip_demo_ops =
     [NewSubnet ''n'' None, Acquire ''n'', Acquire ''n'', Return ''n'' ''172.18.0.2'', Acquire ''n'', Acquire ''n'']"

theorem ipam_addresses_distinct_witness:
  "int (length ip_demo_ops) \<le> 2 ^ 62 \<and> distinct (snd (ip_run ip_demo_ops (NewIPAllocator, [])))"
proof -
  have "int (length ip_demo_ops) \<le> 2 ^ 62" by (simp add: ip_demo_ops_def)
  with ipam_addresses_distinct show ?thesis by blast
qed

lemma release_allocate:
  assumes st: "mget (ipa_subnets a) n = Some st"
    and grant: "AllocateIP n a = (a', g)" and host: "fst (take_host st) = h" "2 \<le> h" "h < 2 ^ 63"
  shows "snd (AllocateIP n (ReleaseIP n (gr_ip g) a')) = g"
proof -
  let ?st = "snd (take_host st)"
  have a': "mget (ipa_subnets a') n = Some ?st" and g: "gr_ip g = sn_base ?st @ Itoa h"
    using AllocateIP_Some [OF st] grant host by auto
  have "ipa_subnets (ReleaseIP n (gr_ip g) a') = mput n (give_host h ?st) (ipa_subnets a')"
    using ReleaseIP_host [OF a', of h] g host by simp
  then show ?thesis
    using grant st host
    by (auto simp: AllocateIP_def Let_def give_host_def take_host_def split: prod.splits if_splits)
qed

text \<open>
  the address given back last is the one handed out next, on that network, with the same MAC
  and gateway as its first grant.
\<close>

theorem ipam_release_allocate_lifo:
  assumes "mget (ipa_subnets a) n = Some st"
    and "AllocateIP n a = (a', g)" and "fst (take_host st) = h" "2 \<le> h" "h < 2 ^ 63"
  shows "snd (AllocateIP n (ReleaseIP n (gr_ip g) a')) = g"
  by (rule release_allocate [OF assms])

theorem ipam_release_allocate_lifo_witness:
  "let a = fst (AllocateSubnet ''n'' None NewIPAllocator) in
     snd (AllocateIP ''n'' (ReleaseIP ''n'' (gr_ip (snd (AllocateIP ''n'' a))) (fst (AllocateIP ''n'' a))))
       = snd (AllocateIP ''n'' a)"
proof -
  let ?a = "fst (AllocateSubnet ''n'' None NewIPAllocator)"
  let ?st = "\<lparr>sn_base = ''172.18.0.'', sn_gateway = ''172.18.0.1'', sn_mask = 16, sn_nextHost = 2, sn_released = []\<rparr>"
  have "Itoa 18 = ''18''" by code_simp
  then have st: "mget (ipa_subnets ?a) ''n'' = Some ?st"
    by (simp add: AllocateSubnet_def auto_subnet_def NewIPAllocator_def Let_def)
  have "fst (take_host ?st) = 2" by (simp add: take_host_def)
  then show ?thesis
    using ipam_release_allocate_lifo [OF st, of "fst (AllocateIP ''n'' ?a)" "snd (AllocateIP ''n'' ?a)" 2]
    by (simp add: Let_def)
qed

text \<open>
  the contract has a client side. \<open>ReleaseIP\<close> does not check that an address is out: when one is
  released twice, the next two calls of \<open>AllocateIP\<close> hand out the same address.
\<close>

theorem ipam_double_release_duplicates:
  assumes st: "mget (ipa_subnets a) n = Some st" and h: "2 \<le> h" "h < 2 ^ 63"
  defines "ip \<equiv> sn_base st @ Itoa h"
  shows "let a1 = ReleaseIP n ip (ReleaseIP n ip a);
             (a2, g1) = AllocateIP n a1;
             (a3, g2) = AllocateIP n a2
         in gr_ip g1 = ip \<and> gr_ip g2 = ip"
proof -
  let ?st1 = "give_host h st"
  have "ipa_subnets (ReleaseIP n ip a) = mput n ?st1 (ipa_subnets a)"
    using ReleaseIP_host [OF st, of h] h by (simp add: ip_def)
  then have "mget (ipa_subnets (ReleaseIP n ip a)) n = Some ?st1" by simp
  then have "mget (ipa_subnets (ReleaseIP n ip (ReleaseIP n ip a))) n = Some (give_host h ?st1)"
    using ReleaseIP_host [of "ReleaseIP n ip a" n ?st1 h] h by (simp add: ip_def)
  then show ?thesis
    using h by (simp add: AllocateIP_def Let_def take_host_def give_host_def ip_def butlast_append split: prod.split)
qed

definition ip_demo_allocator :: IPAllocator where
  "ip_demo_allocator =
     \<lparr>ipa_subnets = [(''n'', \<lparr>sn_base = ''10.0.0.'', sn_gateway = ''10.0.0.1'', sn_mask = 24,
                             sn_nextHost = 2, sn_released = []\<rparr>)], ipa_nextByte = 18\<rparr>"

theorem ipam_double_release_duplicates_witness:
  "let a1 = ReleaseIP ''n'' (''10.0.0.'' @ Itoa 2) (ReleaseIP ''n'' (''10.0.0.'' @ Itoa 2) ip_demo_allocator);
       (a2, g1) = AllocateIP ''n'' a1;
       (a3, g2) = AllocateIP ''n'' a2
   in gr_ip g1 = ''10.0.0.'' @ Itoa 2 \<and> gr_ip g2 = ''10.0.0.'' @ Itoa 2"
proof -
  let ?st = "\<lparr>sn_base = ''10.0.0.'', sn_gateway = ''10.0.0.1'', sn_mask = 24, sn_nextHost = 2, sn_released = []\<rparr>"
  have st: "mget (ipa_subnets ip_demo_allocator) ''n'' = Some ?st"
    by (simp add: ip_demo_allocator_def)
  show ?thesis
    using ipam_double_release_duplicates [OF st, of 2] by simp
qed

definition auto_subnets :: "string list \<Rightarrow> IPAllocator \<Rightarrow> IPAllocator" where
  "auto_subnets ns a = foldl (\<lambda>a n. fst (AllocateSubnet n None a)) a ns"

lemma auto_subnets_nextByte: "ipa_nextByte (auto_subnets ns a) = ipa_nextByte a + int (length ns)"
  by (induction ns arbitrary: a) (simp_all add: auto_subnets_def AllocateSubnet_def auto_subnet_def Let_def)

text \<open>
  automatic subnets run out of octets. The \<open>k\<close>-th automatic subnet of a new allocator is
  \<open>172.(18+k).0.0/16\<close>, whatever identifiers the networks have: distinct for distinct \<open>k\<close>, and with
  an octet past 255, hence no IPv4 subnet, exactly when \<open>k\<close> is at least 238.
\<close>

theorem ipam_auto_subnets:
  "cfg_Subnet (snd (AllocateSubnet n None (auto_subnets ns NewIPAllocator)))
     = ''172.'' @ Itoa (18 + int (length ns)) @ ''.0.0/16'' \<and>
   (18 + int (length ns) > 255 \<longleftrightarrow> length ns \<ge> 238) \<and>
   (cfg_Subnet (snd (AllocateSubnet n None (auto_subnets ns NewIPAllocator)))
      = cfg_Subnet (snd (AllocateSubnet n' None (auto_subnets ns' NewIPAllocator)))
    \<longleftrightarrow> length ns = length ns')"
proof -
  have next_byte: "ipa_nextByte (auto_subnets xs NewIPAllocator) = 18 + int (length xs)" for xs
    by (simp add: auto_subnets_nextByte NewIPAllocator_def)
  show ?thesis
    by (auto simp: AllocateSubnet_def auto_subnet_def Let_def next_byte dest: Itoa_inj)
qed

end
