(* ===== verification/ApiTypes.thy ===== *)
theory ApiTypes
  imports Ipam
begin

text \<open>
  The part of \<open>api/types_gen.go\<close> and \<open>api/errors.go\<close> that the modelled code uses: the Docker API
  structs as records (fields carry a prefix per struct, in the order of the source; a struct whose
  source has fields that no modelled operation reads or writes leaves those out), and the error
  values with their texts and HTTP statuses. A pointer or a nilable value is an option where the
  code tells nil apart. Timestamps are the RFC 3339 texts the program stores; \<open>parse_rfc3339\<close> is
  \<open>time.Parse\<close> on the documented syntax and gives nanoseconds since 1970.
\<close>

section \<open>Errors\<close>

datatype api_error =
    NotFoundError string string
  | ConflictError string
  | InvalidParameterError string
  | NotImplementedError string
  | NotModifiedError
  | ServerError string

fun Error :: "api_error \<Rightarrow> string" where
  "Error (NotFoundError resource ident) = ''No such '' @ resource @ '': '' @ ident"
| "Error (ConflictError msg) = msg"
| "Error (InvalidParameterError msg) = msg"
| "Error (NotImplementedError msg) = (if msg = [] then ''not implemented'' else msg)"
| "Error NotModifiedError = ''not modified''"
| "Error (ServerError msg) = msg"

fun StatusCode :: "api_error \<Rightarrow> int" where
  "StatusCode (NotFoundError resource ident) = 404"
| "StatusCode (ConflictError msg) = 409"
| "StatusCode (InvalidParameterError msg) = 400"
| "StatusCode (NotImplementedError msg) = 501"
| "StatusCode NotModifiedError = 304"
| "StatusCode (ServerError msg) = 500"

section \<open>Containers\<close>

record HealthLog =
  hl_End :: string
  hl_ExitCode :: int
  hl_Output :: string
  hl_Start :: string

record HealthState =
  hs_FailingStreak :: int
  hs_Log :: "HealthLog list"
  hs_Status :: string

record HealthcheckConfig =
  hc_Interval :: int
  hc_Retries :: int
  hc_StartInterval :: int
  hc_StartPeriod :: int
  hc_Test :: "string list"
  hc_Timeout :: int

record ContainerState =
  cs_Dead :: bool
  cs_Error :: string
  cs_ExitCode :: int
  cs_FinishedAt :: string
  cs_Health :: "HealthState option"
  cs_OOMKilled :: bool
  cs_Paused :: bool
  cs_Pid :: int
  cs_Restarting :: bool
  cs_Running :: bool
  cs_StartedAt :: string
  cs_Status :: string

record ContainerConfig =
  cc_AttachStderr :: bool
  cc_AttachStdout :: bool
  cc_Cmd :: "string list"
  cc_Entrypoint :: "string list"
  cc_Env :: "string list"
  cc_ExposedPorts :: "unit gomap"
  cc_Healthcheck :: "HealthcheckConfig option"
  cc_Hostname :: string
  cc_Image :: string
  cc_Labels :: "string gomap option"
  cc_StopSignal :: string
  cc_Tty :: bool
  cc_User :: string
  cc_Volumes :: "unit gomap"
  cc_WorkingDir :: string

record PortBinding =
  pb_HostIP :: string
  pb_HostPort :: string

record RestartPolicy =
  rp_MaximumRetryCount :: int
  rp_Name :: string

record MountSpec =
  ms_ReadOnly :: bool
  ms_Source :: string
  ms_Target :: string
  ms_Type :: string

record MountPoint =
  mp_Destination :: string
  mp_Driver :: string
  mp_Mode :: string
  mp_Name :: string
  mp_Propagation :: string
  mp_RW :: bool
  mp_Source :: string
  mp_Type :: string

record HostConfig =
  ho_AutoRemove :: bool
  ho_Binds :: "string list"
  ho_ExtraHosts :: "string list"
  ho_LogType :: string
  ho_LogConfig :: "string gomap option"
  ho_Memory :: int
  ho_Mounts :: "MountSpec list"
  ho_NetworkMode :: string
  ho_PortBindings :: "PortBinding list gomap"
  ho_RestartPolicy :: RestartPolicy
  ho_ShmSize :: int
  ho_Tmpfs :: "string gomap"

record EndpointSettings =
  es_Aliases :: "string list"
  es_EndpointID :: string
  es_Gateway :: string
  es_IPAMConfig :: "string option"
  es_IPAddress :: string
  es_IPPrefixLen :: int
  es_MacAddress :: string
  es_NetworkID :: string

record NetworkSettings =
  ns_Bridge :: string
  ns_EndpointID :: string
  ns_Gateway :: string
  ns_IPAddress :: string
  ns_IPPrefixLen :: int
  ns_MacAddress :: string
  ns_Networks :: "EndpointSettings gomap"
  ns_Ports :: "PortBinding list gomap"
  ns_SandboxID :: string
  ns_SandboxKey :: string

record Container =
  c_Args :: "string list"
  c_Config :: ContainerConfig
  c_Created :: string
  c_Driver :: string
  c_ExecIDs :: "string list"
  c_HostConfig :: HostConfig
  c_HostnamePath :: string
  c_HostsPath :: string
  c_ID :: string
  c_Image :: string
  c_LogPath :: string
  c_Mounts :: "MountPoint list"
  c_Name :: string
  c_NetworkSettings :: NetworkSettings
  c_Path :: string
  c_Platform :: string
  c_ResolvConfPath :: string
  c_RestartCount :: int
  c_State :: ContainerState

section \<open>Networks, volumes and execs\<close>

record EndpointResource =
  er_Name :: string
  er_EndpointID :: string
  er_MacAddress :: string
  er_IPv4Address :: string

record IPAM =
  ipam_Config :: "IPAMConfig list"
  ipam_Driver :: string

record Network =
  nw_Attachable :: bool
  nw_Containers :: "EndpointResource gomap"
  nw_Created :: string
  nw_Driver :: string
  nw_EnableIPv6 :: bool
  nw_IPAM :: IPAM
  nw_ID :: string
  nw_Ingress :: bool
  nw_Internal :: bool
  nw_Labels :: "string gomap"
  nw_Name :: string
  nw_Options :: "string gomap"
  nw_Scope :: string

record Volume =
  vo_CreatedAt :: string
  vo_Driver :: string
  vo_Labels :: "string gomap"
  vo_Mountpoint :: string
  vo_Name :: string
  vo_Options :: "string gomap"
  vo_Scope :: string

record ExecProcessConfig =
  ep_Arguments :: "string list"
  ep_Entrypoint :: string
  ep_Env :: "string list"
  ep_Privileged :: "bool option"
  ep_Tty :: bool
  ep_User :: string
  ep_WorkingDir :: string

record ExecInstance =
  ex_CanRemove :: bool
  ex_ContainerID :: string
  ex_DetachKeys :: string
  ex_ExitCode :: int
  ex_ID :: string
  ex_OpenStderr :: bool
  ex_OpenStdin :: bool
  ex_OpenStdout :: bool
  ex_Pid :: int
  ex_ProcessConfig :: ExecProcessConfig
  ex_Running :: bool

section \<open>Images\<close>

record Image =
  im_Architecture :: string
  im_Config :: ContainerConfig
  im_Created :: string
  im_GraphDriver_Data :: "string gomap"
  im_GraphDriver_Name :: string
  im_ID :: string
  im_LastTagTime :: string
  im_Os :: string
  im_RepoDigests :: "string list"
  im_RepoTags :: "string list"
  im_RootFS_Type :: string
  im_Layers :: "string list"
  im_Size :: int
  im_VirtualSize :: int

record ImageHistoryItem =
  ih_Created :: string
  ih_CreatedBy :: string
  ih_EmptyLayer :: bool
  ih_Comment :: string

record ManifestLayerEntry =
  ml_Digest :: string
  ml_Size :: int
  ml_MediaType :: string

section \<open>Time\<close>

definition leap_year :: "int \<Rightarrow> bool" where
  "leap_year y \<longleftrightarrow> y mod 4 = 0 \<and> (y mod 100 \<noteq> 0 \<or> y mod 400 = 0)"

definition month_days :: "int \<Rightarrow> int \<Rightarrow> int" where
  "month_days y m =
     (if m = 2 then (if leap_year y then 29 else 28) else if m \<in> {4, 6, 9, 11} then 30 else 31)"

definition days_before_month :: "int \<Rightarrow> int \<Rightarrow> int" where
  "days_before_month y m = sum_list (map (month_days y) [1..m - 1])"

definition unix_days :: "int \<Rightarrow> int \<Rightarrow> int \<Rightarrow> int" where
  "unix_days y m d =
     365 * (y - 1) + (y - 1) div 4 - (y - 1) div 100 + (y - 1) div 400 + days_before_month y m + d - 1 - 719162"

definition num_field :: "nat \<Rightarrow> string \<Rightarrow> (int \<times> string) option" where
  "num_field n s =
     (let f = take n s in
      if length f = n \<and> list_all is_digit f then Some (int (digits_val f), drop n s) else None)"

definition char_field :: "char \<Rightarrow> string \<Rightarrow> string option" where
  "char_field c s = (case s of x # xs \<Rightarrow> if x = c then Some xs else None | [] \<Rightarrow> None)"

definition frac_field :: "string \<Rightarrow> (int \<times> string) option" where
  "frac_field s =
     (case char_field CHR ''.'' s of
        None \<Rightarrow> Some (0, s)
      | Some r \<Rightarrow>
          (let ds = takeWhile is_digit r; p = take 9 ds in
           if ds = [] then None
           else Some (int (digits_val p) * 10 ^ (9 - length p), drop (length ds) r)))"

definition zone_field :: "string \<Rightarrow> int option" where
  "zone_field s =
     (case s of
        [] \<Rightarrow> None
      | c # r \<Rightarrow>
          if c = CHR ''Z'' then (if r = [] then Some 0 else None)
          else if c = CHR ''+'' \<or> c = CHR ''-'' then
            Option.bind (num_field 2 r) (\<lambda>(h, r).
            Option.bind (char_field CHR '':'' r) (\<lambda>r.
            Option.bind (num_field 2 r) (\<lambda>(m, r).
              if r = [] \<and> h < 24 \<and> m < 60
              then Some ((if c = CHR ''-'' then -1 else 1) * (h * 3600 + m * 60)) else None)))
          else None)"

definition parse_rfc3339 :: "string \<Rightarrow> int option" where
  "parse_rfc3339 s =
     Option.bind (num_field 4 s) (\<lambda>(y, r).
     Option.bind (char_field CHR ''-'' r) (\<lambda>r.
     Option.bind (num_field 2 r) (\<lambda>(mo, r).
     Option.bind (char_field CHR ''-'' r) (\<lambda>r.
     Option.bind (num_field 2 r) (\<lambda>(d, r).
     Option.bind (char_field CHR ''T'' r) (\<lambda>r.
     Option.bind (num_field 2 r) (\<lambda>(h, r).
     Option.bind (char_field CHR '':'' r) (\<lambda>r.
     Option.bind (num_field 2 r) (\<lambda>(mi, r).
     Option.bind (char_field CHR '':'' r) (\<lambda>r.
     Option.bind (num_field 2 r) (\<lambda>(se, r).
     Option.bind (frac_field r) (\<lambda>(ns, r).
     Option.bind (zone_field r) (\<lambda>off.
       if 1 \<le> mo \<and> mo \<le> 12 \<and> 1 \<le> d \<and> d \<le> month_days y mo \<and> h < 24 \<and> mi < 60 \<and> se < 60
       then Some ((unix_days y mo d * 86400 + h * 3600 + mi * 60 + se - off) * 10 ^ 9 + ns)
       else None)))))))))))))"

text \<open>\<open>time.Since\<close> saturates at the ends of a 64-bit duration.\<close>

definition time_since :: "int \<Rightarrow> int \<Rightarrow> int" where
  "time_since now t = max (- (2 ^ 63)) (min (2 ^ 63 - 1) (now - t))"

definition zero_time :: string where
  "zero_time = ''0001-01-01T00:00:00Z''"

text \<open>A map read without a check: the zero value of a missing key.\<close>

definition mget_str :: "string gomap \<Rightarrow> string \<Rightarrow> string" where
  "mget_str m k = (case mget m k of Some v \<Rightarrow> v | None \<Rightarrow> [])"

definition labels_of :: "ContainerConfig \<Rightarrow> string gomap" where
  "labels_of cfg = (case cc_Labels cfg of Some l \<Rightarrow> l | None \<Rightarrow> [])"

lemma zero_time_nanos: "parse_rfc3339 zero_time = Some (-62135596800 * 10 ^ 9)"
  by code_simp

lemma epoch_nanos: "parse_rfc3339 ''1970-01-01T00:00:00Z'' = Some 0"
  by code_simp

end
