(* ===== verification/EventBus.thy ===== *)
theory EventBus
  imports ApiTypes
begin

text \<open>
  \<open>backends/core/event_bus.go\<close>: the bus behind \<open>docker events\<close>. A subscriber channel has capacity 64
  and is modelled by the events in its buffer; a send to a full channel drops the event. The
  history is a ring of the last 1024 events. Every method holds the mutex for its whole body.
\<close>

record Event =
  ev_Type :: string
  ev_Action :: string
  ev_Scope :: string
  ev_ID :: string
  ev_Attributes :: "string gomap"
  ev_Time :: int
  ev_TimeNano :: int

text \<open>
  \<open>eb_lost\<close> holds the buffers of channels that left the table without being closed (a second
  \<open>Subscribe\<close> under one identifier) and \<open>eb_closed_chs\<close> those that were closed; the program has no such
  fields, they record what becomes of the channel values.
\<close>

record EventBus =
  eb_subscribers :: "Event list gomap"
  eb_closed :: bool
  eb_history :: "Event list"
  eb_maxHistory :: nat
  eb_lost :: "Event list list"
  eb_closed_chs :: "Event list list"

definition NewEventBus :: EventBus where
  "NewEventBus = \<lparr>eb_subscribers = [], eb_closed = False, eb_history = [], eb_maxHistory = 1024,
                  eb_lost = [], eb_closed_chs = []\<rparr>"

definition try_send :: "Event \<Rightarrow> Event list \<Rightarrow> Event list" where
  "try_send event buf = (if length buf < 64 then buf @ [event] else buf)"

definition Publish :: "Event \<Rightarrow> EventBus \<Rightarrow> EventBus" where
  "Publish event eb =
     (if eb_closed eb then eb
      else let history = (if length (eb_history eb) \<ge> eb_maxHistory eb then tl (eb_history eb) else eb_history eb)
           in eb\<lparr>eb_history := history @ [event],
                 eb_subscribers := map (\<lambda>(k, buf). (k, try_send event buf)) (eb_subscribers eb)\<rparr>)"

definition History :: "int \<Rightarrow> int \<Rightarrow> EventBus \<Rightarrow> Event list" where
  "History since until eb =
     filter (\<lambda>ev. \<not> ev_Time ev < since \<and> \<not> (until > 0 \<and> ev_Time ev > until)) (eb_history eb)"

definition Subscribe :: "string \<Rightarrow> EventBus \<Rightarrow> EventBus" where
  "Subscribe ident eb =
     eb\<lparr>eb_subscribers := mput ident [] (eb_subscribers eb),
        eb_lost := (case mget (eb_subscribers eb) ident of None \<Rightarrow> eb_lost eb | Some b \<Rightarrow> b # eb_lost eb)\<rparr>"

definition Unsubscribe :: "string \<Rightarrow> EventBus \<Rightarrow> EventBus" where
  "Unsubscribe ident eb =
     (case mget (eb_subscribers eb) ident of
        None \<Rightarrow> eb
      | Some buf \<Rightarrow> eb\<lparr>eb_subscribers := mdel ident (eb_subscribers eb),
                       eb_closed_chs := buf # eb_closed_chs eb\<rparr>)"

definition Close :: "EventBus \<Rightarrow> EventBus" where
  "Close eb = eb\<lparr>eb_closed := True, eb_subscribers := [],
                 eb_closed_chs := map snd (eb_subscribers eb) @ eb_closed_chs eb\<rparr>"

text \<open>A subscriber's receive takes the oldest buffered event.\<close>

definition Receive :: "string \<Rightarrow> EventBus \<Rightarrow> EventBus \<times> Event option" where
  "Receive ident eb =
     (case mget (eb_subscribers eb) ident of
        Some (ev # buf) \<Rightarrow> (eb\<lparr>eb_subscribers := mput ident buf (eb_subscribers eb)\<rparr>, Some ev)
      | _ \<Rightarrow> (eb, None))"

section \<open>Bounds and delivery\<close>

datatype bus_op = Pub Event | Sub string | Unsub string | Recv string | CloseBus

fun bus_step :: "bus_op \<Rightarrow> EventBus \<Rightarrow> EventBus" where
  "bus_step (Pub e) eb = Publish e eb"
| "bus_step (Sub k) eb = Subscribe k eb"
| "bus_step (Unsub k) eb = Unsubscribe k eb"
| "bus_step (Recv k) eb = fst (Receive k eb)"
| "bus_step CloseBus eb = Close eb"

definition bus_run :: "bus_op list \<Rightarrow> EventBus \<Rightarrow> EventBus" where
  "bus_run ops eb = foldl (\<lambda>eb op. bus_step op eb) eb ops"

definition bus_inv :: "EventBus \<Rightarrow> bool" where
  "bus_inv eb \<longleftrightarrow> 0 < eb_maxHistory eb \<and> length (eb_history eb) \<le> eb_maxHistory eb \<and>
     (\<forall>k buf. mget (eb_subscribers eb) k = Some buf \<longrightarrow> length buf \<le> 64)"

lemma mget_map_snd: "mget (map (\<lambda>(k, v). (k, f v)) m) k = map_option f (mget m k)"
  by (induction m) auto

lemma bus_inv_step: "bus_inv eb \<Longrightarrow> bus_inv (bus_step op eb)"
proof (cases op)
  case (Pub e)
  assume "bus_inv eb"
  with Pub show ?thesis
    by (auto simp: bus_inv_def Publish_def Let_def mget_map_snd try_send_def)
next
  case (Recv k)
  assume "bus_inv eb"
  with Recv show ?thesis
    by (cases "mget (eb_subscribers eb) k")
      (fastforce simp: bus_inv_def Receive_def split: list.splits)+
qed (auto simp: bus_inv_def Subscribe_def Unsubscribe_def Close_def split: option.splits)

lemma bus_inv_run: "bus_inv eb \<Longrightarrow> bus_inv (bus_run ops eb)"
  by (induction ops arbitrary: eb) (simp_all add: bus_run_def bus_inv_step)

lemma maxHistory_run: "eb_maxHistory (bus_run ops eb) = eb_maxHistory eb"
proof (induction ops arbitrary: eb)
  case (Cons op ops)
  have "eb_maxHistory (bus_step op eb) = eb_maxHistory eb"
    by (cases op) (auto simp: Publish_def Subscribe_def Unsubscribe_def Receive_def Close_def Let_def
        split: option.split list.split)
  with Cons show ?case by (simp add: bus_run_def)
qed (simp add: bus_run_def)

text \<open>
  memory is bounded. After any history of calls the ring holds at most 1024 events and no
  subscriber has more than 64 events buffered.
\<close>

theorem event_bus_bounded:
  "length (eb_history (bus_run ops NewEventBus)) \<le> 1024 \<and>
   (case mget (eb_subscribers (bus_run ops NewEventBus)) k of
      Some buf \<Rightarrow> length buf \<le> 64 | None \<Rightarrow> True)"
proof -
  have "bus_inv (bus_run ops NewEventBus)"
    by (rule bus_inv_run) (simp add: bus_inv_def NewEventBus_def)
  moreover have "eb_maxHistory (bus_run ops NewEventBus) = 1024"
    by (simp add: maxHistory_run NewEventBus_def)
  ultimately show ?thesis by (auto simp: bus_inv_def split: option.split)
qed

lemma publish_all_history:
  assumes "\<not> eb_closed eb" "length (eb_history eb) \<le> eb_maxHistory eb" "0 < eb_maxHistory eb"
  shows "eb_history (foldl (\<lambda>eb e. Publish e eb) eb es)
    = drop (length (eb_history eb) + length es - eb_maxHistory eb) (eb_history eb @ es)"
  using assms
proof (induction es arbitrary: eb)
  case (Cons e es)
  let ?h = "eb_history eb" and ?m = "eb_maxHistory eb"
  let ?h' = "(if ?m \<le> length ?h then tl ?h else ?h) @ [e]"
  have h': "eb_history (Publish e eb) = ?h'" "eb_maxHistory (Publish e eb) = ?m" "\<not> eb_closed (Publish e eb)"
    using Cons.prems by (simp_all add: Publish_def Let_def)
  have len: "length ?h' \<le> ?m" using Cons.prems by auto
  have "eb_history (foldl (\<lambda>eb e. Publish e eb) (Publish e eb) es)
      = drop (length ?h' + length es - ?m) (?h' @ es)"
    using Cons.IH [of "Publish e eb"] Cons.prems len h' by simp
  also have "\<dots> = drop (length ?h + length (e # es) - ?m) (?h @ e # es)"
  proof (cases "?m \<le> length ?h")
    case True
    with Cons.prems have eq: "length ?h = ?m" "?h \<noteq> []" by auto
    then obtain x xs where "?h = x # xs" by (cases ?h) auto
    with True eq show ?thesis by (simp add: drop_Cons')
  next
    case False
    then show ?thesis by simp
  qed
  finally show ?case by simp
qed simp

text \<open>
  the ring keeps the newest events in order. After publishing any list of events on a new bus,
  \<open>History\<close> without bounds (\<open>since\<close> at most every time stamp, \<open>until = 0\<close>) returns the last 1024 of them.
\<close>

theorem event_history_is_suffix:
  assumes "\<forall>e \<in> set es. since \<le> ev_Time e"
  shows "History since 0 (foldl (\<lambda>eb e. Publish e eb) NewEventBus es) = drop (length es - 1024) es"
proof -
  have "eb_history (foldl (\<lambda>eb e. Publish e eb) NewEventBus es) = drop (length es - 1024) es"
    using publish_all_history [of NewEventBus es] by (simp add: NewEventBus_def)
  moreover have "\<forall>e \<in> set (drop (length es - 1024) es). since \<le> ev_Time e"
    using assms by (meson in_set_dropD)
  ultimately show ?thesis by (simp add: History_def filter_id_conv not_less)
qed

definition demo_event :: "int \<Rightarrow> Event" where
  "demo_event t = \<lparr>ev_Type = ''container'', ev_Action = ''start'', ev_Scope = ''local'', ev_ID = ''c'',
                   ev_Attributes = [], ev_Time = t, ev_TimeNano = t * 10 ^ 9\<rparr>"

theorem event_history_is_suffix_witness:
  "History 1 0 (foldl (\<lambda>eb e. Publish e eb) NewEventBus [demo_event 1, demo_event 2]) = [demo_event 1, demo_event 2]"
proof -
  have "\<forall>e \<in> set [demo_event 1, demo_event 2]. 1 \<le> ev_Time e" by (simp add: demo_event_def)
  from event_history_is_suffix [OF this] show ?thesis by simp
qed

end
