(* ===== verification/Filters.thy ===== *)
theory Filters
  imports ApiTypes Pods
begin

text \<open>
  \<open>backends/core/filters.go\<close>, \<open>MatchLabels\<close>, \<open>MatchUntil\<close> and \<open>matchEventFilter\<close> of
  \<open>handle_extended.go\<close> and \<open>matchPodFilters\<close> of \<open>handle_pods.go\<close>: the predicates behind the
  \<open>--filter\<close> flags. A filter set is a map from a key to its values; the loop over it returns false at
  the first key that does not match, so the order of the map is irrelevant. A nil map behaves as an
  empty one. Each Go function is a conjunction over the entries of one function per entry.
\<close>

section \<open>Label and time filters\<close>

definition MatchLabels :: "string gomap \<Rightarrow> string list \<Rightarrow> bool" where
  "MatchLabels labels filters =
     list_all (\<lambda>f. case Cut f CHR ''='' of
                     Some (k, v) \<Rightarrow> mget_str labels k = v
                   | None \<Rightarrow> mget labels f \<noteq> None) filters"

definition MatchUntil :: "string \<Rightarrow> string list \<Rightarrow> bool" where
  "MatchUntil created filters =
     (case parse_rfc3339 created of
        None \<Rightarrow> False
      | Some ct \<Rightarrow>
          list_all (\<lambda>f. case Atoi f of
                          Some secs \<Rightarrow> ct < secs * 10 ^ 9
                        | None \<Rightarrow> (case parse_rfc3339 f of Some t \<Rightarrow> ct < t | None \<Rightarrow> True)) filters)"

definition matchEventFilter :: "string list \<Rightarrow> string \<Rightarrow> bool" where
  "matchEventFilter flt value = (if flt = [] then True else list_ex (\<lambda>f. value = f) flt)"

text \<open>The label loop that the three older matchers repeat, over \<open>strings.SplitN(v, "=", 2)\<close>.\<close>

definition label_loop :: "string gomap \<Rightarrow> string list \<Rightarrow> bool" where
  "label_loop labels values =
     list_all (\<lambda>v. case SplitN2 v CHR ''='' of
                     [k, w] \<Rightarrow> mget_str labels k = w
                   | parts \<Rightarrow> mget labels (hd parts) \<noteq> None) values"

section \<open>Containers\<close>

definition exited_filter :: "Container \<Rightarrow> string list \<Rightarrow> bool" where
  "exited_filter c values =
     (if cs_Status (c_State c) \<noteq> ''exited'' then False
      else list_ex (\<lambda>v. Atoi v = Some (cs_ExitCode (c_State c))) values)"

definition expose_filter :: "Container \<Rightarrow> string list \<Rightarrow> bool" where
  "expose_filter c values =
     list_ex (\<lambda>val. mget (cc_ExposedPorts (c_Config c)) val \<noteq> None \<or>
                    (\<not> Contains val ''/'' \<and> mget (cc_ExposedPorts (c_Config c)) (val @ ''/tcp'') \<noteq> None)) values"

definition container_filter :: "Container \<Rightarrow> string \<Rightarrow> string list \<Rightarrow> bool" where
  "container_filter c key values =
     (if key = ''id'' then list_ex (\<lambda>v. HasPrefix (c_ID c) v) values
      else if key = ''name'' then
        list_ex (\<lambda>v. Contains (TrimPrefix (c_Name c) ''/'') v \<or> Contains (c_Name c) v) values
      else if key = ''status'' then list_ex (\<lambda>v. cs_Status (c_State c) = v) values
      else if key = ''label'' then label_loop (labels_of (c_Config c)) values
      else if key = ''ancestor'' then list_ex (\<lambda>v. cc_Image (c_Config c) = v) values
      else if key = ''network'' then
        list_ex (\<lambda>v. list_ex (\<lambda>(netName, ep). netName = v) (ns_Networks (c_NetworkSettings c))) values
      else if key = ''health'' then
        (let status = (case cs_Health (c_State c) of None \<Rightarrow> ''none'' | Some h \<Rightarrow> hs_Status h)
         in list_ex (\<lambda>v. status = v) values)
      else if key = ''exited'' then exited_filter c values
      else if key = ''publish'' then
        list_ex (\<lambda>v. list_ex (\<lambda>(port, bs). port = v \<or> HasPrefix port (v @ ''/''))
                             (ho_PortBindings (c_HostConfig c))) values
      else if key = ''volume'' then
        list_ex (\<lambda>v. list_ex (\<lambda>m. mp_Name m = v \<or> mp_Source m = v \<or> mp_Destination m = v) (c_Mounts c)) values
      else if key = ''expose'' then expose_filter c values
      else if key = ''is-task'' then list_all (\<lambda>v. v \<noteq> ''true'') values
      else True)"

definition MatchContainerFilters :: "Container \<Rightarrow> string list gomap \<Rightarrow> bool" where
  "MatchContainerFilters c filters = list_all (\<lambda>(key, values). container_filter c key values) filters"

section \<open>Networks, volumes and pods\<close>

definition network_filter :: "Network \<Rightarrow> string \<Rightarrow> string list \<Rightarrow> bool" where
  "network_filter n key values =
     (if key = ''name'' then list_ex (\<lambda>v. nw_Name n = v) values
      else if key = ''id'' then list_ex (\<lambda>v. HasPrefix (nw_ID n) v) values
      else if key = ''driver'' then list_ex (\<lambda>v. nw_Driver n = v) values
      else if key = ''label'' then label_loop (nw_Labels n) values
      else True)"

definition MatchNetworkFilters :: "Network \<Rightarrow> string list gomap \<Rightarrow> bool" where
  "MatchNetworkFilters n filters = list_all (\<lambda>(key, values). network_filter n key values) filters"

definition MatchNetworkPruneFilters :: "Network \<Rightarrow> string list gomap \<Rightarrow> bool" where
  "MatchNetworkPruneFilters n filters =
     list_all (\<lambda>(key, values). if key = ''label'' then label_loop (nw_Labels n) values else True) filters"

definition volume_filter :: "Volume \<Rightarrow> string \<Rightarrow> string list \<Rightarrow> bool" where
  "volume_filter v key values =
     (if key = ''name'' then list_ex (\<lambda>val. vo_Name v = val) values
      else if key = ''driver'' then list_ex (\<lambda>val. vo_Driver v = val) values
      else if key = ''label'' then label_loop (vo_Labels v) values
      else True)"

definition MatchVolumeFilters :: "Volume \<Rightarrow> string list gomap \<Rightarrow> bool" where
  "MatchVolumeFilters v filters = list_all (\<lambda>(key, values). volume_filter v key values) filters"

definition pod_filter :: "PodContext \<Rightarrow> string \<Rightarrow> string list \<Rightarrow> bool" where
  "pod_filter pod key values =
     (if key = ''name'' then list_ex (\<lambda>v. Contains (pc_Name pod) v) values
      else if key = ''id'' then list_ex (\<lambda>v. HasPrefix (pc_ID pod) v) values
      else if key = ''label'' then MatchLabels (pc_Labels pod) values
      else if key = ''status'' then list_ex (\<lambda>v. pc_Status pod = v) values
      else True)"

definition matchPodFilters :: "PodContext \<Rightarrow> string list gomap \<Rightarrow> bool" where
  "matchPodFilters pod filters = list_all (\<lambda>(key, values). pod_filter pod key values) filters"

section \<open>Status texts\<close>

text \<open>
  \<open>now\<close> is the clock in nanoseconds. \<open>int(d.Seconds())\<close> and its kin are floored quotients for the
  positive durations they are applied to.
\<close>

definition up_text :: "int \<Rightarrow> string" where
  "up_text d =
     (if d < 10 ^ 9 then ''Up Less than a second''
      else if d < 60 * 10 ^ 9 then ''Up '' @ Itoa (d div 10 ^ 9) @ '' seconds''
      else if d < 3600 * 10 ^ 9 then ''Up '' @ Itoa (d div (60 * 10 ^ 9)) @ '' minutes''
      else if d < 24 * (3600 * 10 ^ 9) then ''Up '' @ Itoa (d div (3600 * 10 ^ 9)) @ '' hours''
      else ''Up '' @ Itoa (d div (24 * (3600 * 10 ^ 9))) @ '' days'')"

definition FormatStatus :: "int \<Rightarrow> ContainerState \<Rightarrow> string" where
  "FormatStatus now state =
     (if cs_Status state = ''created'' then ''Created''
      else if cs_Status state = ''running'' then
        (case parse_rfc3339 (cs_StartedAt state) of
           None \<Rightarrow> ''Up Less than a second''
         | Some started \<Rightarrow> up_text (time_since now started))
      else if cs_Status state = ''paused'' then
        (case parse_rfc3339 (cs_StartedAt state) of
           None \<Rightarrow> ''Up Less than a second (Paused)''
         | Some started \<Rightarrow> up_text (time_since now started) @ '' (Paused)'')
      else if cs_Status state = ''exited'' then
        (if cs_ExitCode state = 0 then ''Exited (0)'' else ''Exited ('' @ Itoa (cs_ExitCode state) @ '')'')
      else if cs_Status state = ''dead'' then ''Dead''
      else cs_Status state)"

section \<open>Facts\<close>

lemma Cut_None_iff: "Cut s c = None \<longleftrightarrow> c \<notin> set s"
  by (induction s) auto

lemma label_loop_MatchLabels: "label_loop labels values = MatchLabels labels values"
  unfolding label_loop_def MatchLabels_def
  by (rule list.pred_cong [OF refl]) (simp add: SplitN2_def split: option.split prod.split)

text \<open>
  the four label matchers agree. The \<open>SplitN\<close> loops of the container, network and volume
  matchers and the \<open>Cut\<close> loop of \<open>MatchLabels\<close>, which pods and pruning use, accept the same label
  sets, for every list of expressions.
\<close>

theorem label_filters_agree:
  "container_filter c ''label'' vs = MatchLabels (labels_of (c_Config c)) vs \<and>
   network_filter n ''label'' vs = MatchLabels (nw_Labels n) vs \<and>
   MatchNetworkPruneFilters n [(''label'', vs)] = MatchLabels (nw_Labels n) vs \<and>
   volume_filter v ''label'' vs = MatchLabels (vo_Labels v) vs \<and>
   pod_filter p ''label'' vs = MatchLabels (pc_Labels p) vs"
  by (simp add: container_filter_def network_filter_def MatchNetworkPruneFilters_def volume_filter_def
      pod_filter_def label_loop_MatchLabels)

end
