(* ===== verification/Server.thy ===== *)
theory Server
  imports Pods EventBus Filters
begin

text \<open>
  The state of the core backend and its basic services: \<open>Store\<close> of \<open>backends/core/store.go\<close>, the
  lookups of \<open>resolve.go\<close>, \<open>emitEvent\<close>, the stop and revert transitions, the restart policy of
  \<open>restart_policy.go\<close> and the health checks of \<open>health.go\<close>.

  One record \<open>Store\<close> holds the fields of the Go struct, the event bus, and what stands for the
  runtime: the channels made so far and those closed (a second close sets \<open>st_panicked\<close>), the
  contexts cancelled, the directories removed, and how many random identifiers, clock readings and
  temporary directories were drawn. The values drawn come from a \<open>World\<close>, which every operation
  that needs one takes as its first argument; theorems hold for every world.

  The model is the base server, without a cloud state provider and with no pending creates.
\<close>

named_theorems frame \<open>fields of the store a service does not touch\<close>

section \<open>The world\<close>

record World =
  w_ids :: "nat \<Rightarrow> string"
  w_names :: "nat \<Rightarrow> string"
  w_clock :: "nat \<Rightarrow> int"
  w_clock_text :: "nat \<Rightarrow> string"
  w_mktemp :: "nat \<Rightarrow> string option"
  w_RootPath :: "string \<Rightarrow> string option"
  w_DirSize :: "string \<Rightarrow> int"
  w_sha256 :: "string \<Rightarrow> string"

record health_loop =
  lp_ctx :: nat
  lp_container :: string
  lp_cmd :: "string list"
  lp_interval :: int
  lp_timeout :: int
  lp_startPeriod :: int
  lp_startInterval :: int
  lp_retries :: int

record Store =
  st_Containers :: "Container StateStore"
  st_ContainerNames :: "string StateStore"
  st_Images :: "Image StateStore"
  st_Networks :: "Network StateStore"
  st_Volumes :: "Volume StateStore"
  st_Execs :: "ExecInstance StateStore"
  st_Pods :: PodRegistry
  st_WaitChs :: "nat gomap"
  st_LogBuffers :: "string gomap"
  st_VolumeDirs :: "string gomap"
  st_StagingDirs :: "string gomap"
  st_PathMappings :: "string gomap"
  st_HealthChecks :: "nat gomap"
  st_BuildContexts :: "string gomap"
  st_TmpfsDirs :: "string list gomap"
  st_ImageHistory :: "ImageHistoryItem list gomap"
  st_LayerContent :: "string gomap"
  st_ImageManifestLayers :: "ManifestLayerEntry list gomap"
  st_IPAlloc :: IPAllocator
  st_pidCounter :: int
  st_EventBus :: EventBus
  st_chans :: nat
  st_closed :: "nat list"
  st_panicked :: bool
  st_ctxs :: nat
  st_cancelled :: "nat list"
  st_loops :: "health_loop list"
  st_removed :: "string list"
  st_idn :: nat
  st_namen :: nat
  st_tick :: nat
  st_tmpn :: nat

definition NewStore :: Store where
  "NewStore =
     \<lparr>st_Containers = NewStateStore, st_ContainerNames = NewStateStore, st_Images = NewStateStore,
      st_Networks = NewStateStore, st_Volumes = NewStateStore, st_Execs = NewStateStore,
      st_Pods = NewPodRegistry, st_WaitChs = [], st_LogBuffers = [], st_VolumeDirs = [],
      st_StagingDirs = [], st_PathMappings = [], st_HealthChecks = [], st_BuildContexts = [],
      st_TmpfsDirs = [], st_ImageHistory = [], st_LayerContent = [], st_ImageManifestLayers = [],
      st_IPAlloc = NewIPAllocator, st_pidCounter = 0, st_EventBus = NewEventBus,
      st_chans = 0, st_closed = [], st_panicked = False, st_ctxs = 0, st_cancelled = [], st_loops = [],
      st_removed = [], st_idn = 0, st_namen = 0, st_tick = 0, st_tmpn = 0\<rparr>"

section \<open>Effects\<close>

definition GenerateID :: "World \<Rightarrow> Store \<Rightarrow> Store \<times> string" where
  "GenerateID w st = (st\<lparr>st_idn := Suc (st_idn st)\<rparr>, w_ids w (st_idn st))"

definition GenerateName :: "World \<Rightarrow> Store \<Rightarrow> Store \<times> string" where
  "GenerateName w st = (st\<lparr>st_namen := Suc (st_namen st)\<rparr>, w_names w (st_namen st))"

text \<open>\<open>time.Now().UTC().Format(time.RFC3339Nano)\<close>.\<close>

definition now_text :: "World \<Rightarrow> Store \<Rightarrow> Store \<times> string" where
  "now_text w st = (st\<lparr>st_tick := Suc (st_tick st)\<rparr>, w_clock_text w (st_tick st))"

definition MkdirTemp :: "World \<Rightarrow> Store \<Rightarrow> Store \<times> string option" where
  "MkdirTemp w st = (st\<lparr>st_tmpn := Suc (st_tmpn st)\<rparr>, w_mktemp w (st_tmpn st))"

definition RemoveAll :: "string \<Rightarrow> Store \<Rightarrow> Store" where
  "RemoveAll dir st = st\<lparr>st_removed := dir # st_removed st\<rparr>"

definition make_chan :: "Store \<Rightarrow> Store \<times> nat" where
  "make_chan st = (st\<lparr>st_chans := Suc (st_chans st)\<rparr>, st_chans st)"

definition close_chan :: "nat \<Rightarrow> Store \<Rightarrow> Store" where
  "close_chan ch st =
     (if ch \<in> set (st_closed st) then st\<lparr>st_panicked := True\<rparr>
      else st\<lparr>st_closed := ch # st_closed st\<rparr>)"

definition NextPID :: "Store \<Rightarrow> Store \<times> int" where
  "NextPID st = (st\<lparr>st_pidCounter := st_pidCounter st + 1\<rparr>, st_pidCounter st + 1)"

definition emitEvent :: "World \<Rightarrow> string \<Rightarrow> string \<Rightarrow> string \<Rightarrow> string gomap \<Rightarrow> Store \<Rightarrow> Store" where
  "emitEvent w eventType action actorID attrs st =
     (let now = w_clock w (st_tick st)
      in st\<lparr>st_tick := Suc (st_tick st),
            st_EventBus := Publish \<lparr>ev_Type = eventType, ev_Action = action, ev_Scope = ''local'',
               ev_ID = actorID, ev_Attributes = attrs, ev_Time = now div 10 ^ 9, ev_TimeNano = now\<rparr>
               (st_EventBus st)\<rparr>)"

text \<open>\<open>if ch, ok := WaitChs.LoadAndDelete(id); ok { close(ch) }\<close>, which five operations share.\<close>

definition close_wait :: "string \<Rightarrow> Store \<Rightarrow> Store" where
  "close_wait ident st =
     (case mget (st_WaitChs st) ident of
        None \<Rightarrow> st
      | Some ch \<Rightarrow> close_chan ch (st\<lparr>st_WaitChs := mdel ident (st_WaitChs st)\<rparr>))"

text \<open>\<open>exitCh := make(chan struct{}); WaitChs.Store(id, exitCh)\<close>.\<close>

definition open_wait :: "string \<Rightarrow> Store \<Rightarrow> Store" where
  "open_wait ident st =
     (let (st, ch) = make_chan st in st\<lparr>st_WaitChs := mput ident ch (st_WaitChs st)\<rparr>)"

abbreviation upd_container :: "string \<Rightarrow> (Container \<Rightarrow> Container) \<Rightarrow> Store \<Rightarrow> Store" where
  "upd_container ident f st \<equiv> st\<lparr>st_Containers := ss_update ident f (st_Containers st)\<rparr>"

abbreviation get_container :: "string \<Rightarrow> Store \<Rightarrow> Container option" where
  "get_container ident st \<equiv> StateStore_Get ident (st_Containers st)"

abbreviation in_state :: "(ContainerState \<Rightarrow> ContainerState) \<Rightarrow> Container \<Rightarrow> Container" where
  "in_state f c \<equiv> c\<lparr>c_State := f (c_State c)\<rparr>"

section \<open>Lookups\<close>

definition slashed :: "string \<Rightarrow> string" where
  "slashed ref = CHR ''/'' # ref"

definition by_name :: "string \<Rightarrow> Store \<Rightarrow> Container option" where
  "by_name name st = Option.bind (StateStore_Get name (st_ContainerNames st)) (\<lambda>ident. get_container ident st)"

definition ResolveContainer :: "string \<Rightarrow> Store \<Rightarrow> Container option" where
  "ResolveContainer ref st =
     (case get_container ref st of
        Some c \<Rightarrow> Some c
      | None \<Rightarrow>
          (case by_name ref st of
             Some c \<Rightarrow> Some c
           | None \<Rightarrow>
               (case (if ref \<noteq> [] \<and> hd ref \<noteq> CHR ''/'' then by_name (slashed ref) st else None) of
                  Some c \<Rightarrow> Some c
                | None \<Rightarrow>
                    find (\<lambda>c. length ref \<ge> 3 \<and> length (c_ID c) > length ref \<and> take (length ref) (c_ID c) = ref)
                      (StateStore_List (st_Containers st)))))"

definition ResolveContainerID :: "string \<Rightarrow> Store \<Rightarrow> string option" where
  "ResolveContainerID ref st = map_option c_ID (ResolveContainer ref st)"

text \<open>\<open>pending\<close> is \<open>PendingCreates\<close>, \<open>cloud\<close> the answer of \<open>CloudState.GetContainer\<close> if there is a provider.\<close>

definition ResolveContainerAuto ::
  "Container StateStore \<Rightarrow> (string \<Rightarrow> Container option) option \<Rightarrow> string \<Rightarrow> Store \<Rightarrow> Container option" where
  "ResolveContainerAuto pending cloud ref st =
     (case StateStore_Get ref pending of
        Some c \<Rightarrow> Some c
      | None \<Rightarrow>
          (case find (\<lambda>c. c_Name c = ref \<or> c_Name c = slashed ref \<or> (length ref \<ge> 3 \<and> HasPrefix (c_ID c) ref))
                  (StateStore_List pending) of
             Some c \<Rightarrow> Some c
           | None \<Rightarrow>
               (case (case cloud of Some q \<Rightarrow> q ref | None \<Rightarrow> None) of
                  Some c \<Rightarrow> Some c
                | None \<Rightarrow> ResolveContainer ref st)))"

definition ResolveContainerIDAuto ::
  "Container StateStore \<Rightarrow> (string \<Rightarrow> Container option) option \<Rightarrow> string \<Rightarrow> Store \<Rightarrow> string option" where
  "ResolveContainerIDAuto pending cloud ref st = map_option c_ID (ResolveContainerAuto pending cloud ref st)"

abbreviation resolve :: "string \<Rightarrow> Store \<Rightarrow> Container option" where
  "resolve ref st \<equiv> ResolveContainerAuto NewStateStore None ref st"

lemma resolve_base [simp]: "resolve ref st = ResolveContainer ref st"
  by (simp add: ResolveContainerAuto_def NewStateStore_def StateStore_Get_def StateStore_List_def)

definition ResolveNetwork :: "string \<Rightarrow> Store \<Rightarrow> Network option" where
  "ResolveNetwork ref st =
     (case StateStore_Get ref (st_Networks st) of
        Some n \<Rightarrow> Some n
      | None \<Rightarrow>
          (case find (\<lambda>n. nw_Name n = ref) (StateStore_List (st_Networks st)) of
             Some n \<Rightarrow> Some n
           | None \<Rightarrow> find (\<lambda>n. HasPrefix (nw_ID n) ref) (StateStore_List (st_Networks st))))"

definition ResolveImage :: "string \<Rightarrow> Store \<Rightarrow> Image option" where
  "ResolveImage ref st =
     (case StateStore_Get ref (st_Images st) of
        Some img \<Rightarrow> Some img
      | None \<Rightarrow>
          (case (if \<not> Contains ref '':'' \<and> \<not> Contains ref ''@''
                 then StateStore_Get (ref @ '':latest'') (st_Images st) else None) of
             Some img \<Rightarrow> Some img
           | None \<Rightarrow>
               (let bareDigest = TrimPrefix ref ''sha256:'' in
                case find (\<lambda>img. HasPrefix (im_ID img) ref \<or>
                              (bareDigest \<noteq> ref \<and> HasPrefix (TrimPrefix (im_ID img) ''sha256:'') bareDigest))
                       (StateStore_List (st_Images st)) of
                  Some img \<Rightarrow> Some img
                | None \<Rightarrow>
                    if HasPrefix ref ''sha256:'' then
                      find (\<lambda>img. list_ex (\<lambda>rd. HasSuffix rd (CHR ''@'' # ref)) (im_RepoDigests img))
                        (StateStore_List (st_Images st))
                    else None)))"

section \<open>Exit codes\<close>

definition containsAny :: "string \<Rightarrow> string list \<Rightarrow> bool" where
  "containsAny s subs = list_ex (\<lambda>sub. Contains s sub) subs"

definition HTTPStatusToExitCode :: "int \<Rightarrow> int" where
  "HTTPStatusToExitCode status =
     (if 200 \<le> status \<and> status < 300 then 0 else if status = 408 then 124 else 1)"

text \<open>The argument is the text of the error, \<open>None\<close> for a nil one.\<close>

definition HTTPInvokeErrorExitCode :: "string option \<Rightarrow> int" where
  "HTTPInvokeErrorExitCode err =
     (case err of
        None \<Rightarrow> 0
      | Some es \<Rightarrow>
          if containsAny es [''context deadline exceeded'', ''Client.Timeout'', ''i/o timeout''] then 124 else 1)"

definition signalMap :: "int gomap" where
  "signalMap =
     [(''SIGHUP'', 129), (''HUP'', 129), (''1'', 129),
      (''SIGINT'', 130), (''INT'', 130), (''2'', 130),
      (''SIGQUIT'', 131), (''QUIT'', 131), (''3'', 131),
      (''SIGABRT'', 134), (''ABRT'', 134), (''6'', 134),
      (''SIGKILL'', 137), (''KILL'', 137), (''9'', 137),
      (''SIGUSR1'', 138), (''USR1'', 138), (''10'', 138),
      (''SIGUSR2'', 140), (''USR2'', 140), (''12'', 140),
      (''SIGTERM'', 143), (''TERM'', 143), (''15'', 143)]"

definition SignalToExitCode :: "string \<Rightarrow> int" where
  "SignalToExitCode signal =
     (case mget signalMap signal of
        Some code \<Rightarrow> code
      | None \<Rightarrow> (case Atoi signal of Some n \<Rightarrow> if n > 0 then 128 + n else 137 | None \<Rightarrow> 137))"

section \<open>Health checks\<close>

definition parseHealthcheckCmd :: "string list \<Rightarrow> string list option" where
  "parseHealthcheckCmd test =
     (case test of
        [] \<Rightarrow> None
      | t # rest \<Rightarrow>
          if ToUpper t = ''NONE'' then None
          else if ToUpper t = ''CMD'' then (if length test < 2 then None else Some rest)
          else if ToUpper t = ''CMD-SHELL'' then
            (if length test < 2 then None else Some [''sh'', ''-c'', Join rest '' ''])
          else Some test)"

definition truncateOutput :: "string \<Rightarrow> nat \<Rightarrow> string" where
  "truncateOutput s maxLen = (if length s \<le> maxLen then s else take maxLen s)"

definition StopHealthCheck :: "string \<Rightarrow> Store \<Rightarrow> Store" where
  "StopHealthCheck cid st =
     (case mget (st_HealthChecks st) cid of
        None \<Rightarrow> st
      | Some ctx \<Rightarrow> st\<lparr>st_HealthChecks := mdel cid (st_HealthChecks st), st_cancelled := ctx # st_cancelled st\<rparr>)"

definition positive_or :: "int \<Rightarrow> int \<Rightarrow> int" where
  "positive_or v d = (if v > 0 then v else d)"

definition StartHealthCheck :: "string \<Rightarrow> Store \<Rightarrow> Store" where
  "StartHealthCheck cid st =
     (case get_container cid st of
        None \<Rightarrow> st
      | Some c \<Rightarrow>
          (case cc_Healthcheck (c_Config c) of
             None \<Rightarrow> st
           | Some hc \<Rightarrow>
               (case parseHealthcheckCmd (hc_Test hc) of
                  None \<Rightarrow> st
                | Some cmd \<Rightarrow>
                    (let interval = positive_or (hc_Interval hc) (30 * 10 ^ 9);
                         ctx = st_ctxs st;
                         st = upd_container cid (in_state (\<lambda>s. s\<lparr>cs_Health :=
                                Some \<lparr>hs_FailingStreak = 0, hs_Log = [], hs_Status = ''starting''\<rparr>\<rparr>)) st
                     in st\<lparr>st_ctxs := Suc ctx,
                           st_HealthChecks := mput cid ctx (st_HealthChecks st),
                           st_loops := \<lparr>lp_ctx = ctx, lp_container = cid, lp_cmd = cmd, lp_interval = interval,
                              lp_timeout = positive_or (hc_Timeout hc) (30 * 10 ^ 9),
                              lp_startPeriod = positive_or (hc_StartPeriod hc) 0,
                              lp_startInterval = positive_or (hc_StartInterval hc) interval,
                              lp_retries = positive_or (hc_Retries hc) 3\<rparr> # st_loops st\<rparr>))))"

definition health_after :: "int \<Rightarrow> int \<Rightarrow> HealthLog \<Rightarrow> HealthState \<Rightarrow> HealthState" where
  "health_after exitCode retries entry h =
     (let log = hs_Log h @ [entry];
          log = (if length log > 5 then drop (length log - 5) log else log);
          h = h\<lparr>hs_Log := log\<rparr>
      in if exitCode = 0 then h\<lparr>hs_Status := ''healthy'', hs_FailingStreak := 0\<rparr>
         else let h = h\<lparr>hs_FailingStreak := hs_FailingStreak h + 1\<rparr>
              in if hs_FailingStreak h \<ge> retries then h\<lparr>hs_Status := ''unhealthy''\<rparr> else h)"

definition recordHealthResult :: "World \<Rightarrow> string \<Rightarrow> int \<Rightarrow> string \<Rightarrow> int \<Rightarrow> Store \<Rightarrow> Store" where
  "recordHealthResult w cid exitCode output retries st =
     (let (st, now) = now_text w st in
      case get_container cid st of
        None \<Rightarrow> st
      | Some c \<Rightarrow>
          (case cs_Health (c_State c) of
             None \<Rightarrow> st
           | Some h \<Rightarrow>
               (let (st, fin) = now_text w st;
                    entry = \<lparr>hl_End = fin, hl_ExitCode = exitCode, hl_Output = truncateOutput output 4096, hl_Start = now\<rparr>
                in upd_container cid (in_state (\<lambda>s. s\<lparr>cs_Health := Some (health_after exitCode retries entry h)\<rparr>)) st)))"

text \<open>The test that guards every call of \<open>StartHealthCheck\<close>.\<close>

definition has_healthcheck :: "Container \<Rightarrow> bool" where
  "has_healthcheck c =
     (case cc_Healthcheck (c_Config c) of
        None \<Rightarrow> False
      | Some hc \<Rightarrow> hc_Test hc \<noteq> [] \<and> (length (hc_Test hc) \<noteq> 1 \<or> \<not> EqualFold (hd (hc_Test hc)) ''NONE''))"

section \<open>Stop, revert, restart\<close>

text \<open>The updates of the container state that the transitions share.\<close>

definition exited_state :: "int \<Rightarrow> string \<Rightarrow> ContainerState \<Rightarrow> ContainerState" where
  "exited_state exitCode now s =
     s\<lparr>cs_Status := ''exited'', cs_Running := False, cs_Pid := 0, cs_ExitCode := exitCode, cs_FinishedAt := now\<rparr>"

definition running_state :: "int \<Rightarrow> string \<Rightarrow> ContainerState \<Rightarrow> ContainerState" where
  "running_state pid now s =
     s\<lparr>cs_Status := ''running'', cs_Running := True, cs_Pid := pid, cs_StartedAt := now,
       cs_FinishedAt := zero_time, cs_ExitCode := 0\<rparr>"

text \<open>The clock is read inside the update, hence only when the container exists.\<close>

definition mark_exited :: "World \<Rightarrow> string \<Rightarrow> int \<Rightarrow> Store \<Rightarrow> Store" where
  "mark_exited w cid exitCode st =
     (case get_container cid st of
        None \<Rightarrow> st
      | Some c \<Rightarrow> (let (st, now) = now_text w st in upd_container cid (in_state (exited_state exitCode now)) st))"

definition forceStop :: "World \<Rightarrow> string \<Rightarrow> int \<Rightarrow> Store \<Rightarrow> Store" where
  "forceStop w cid exitCode st = close_wait cid (mark_exited w cid exitCode st)"

definition ForceStopContainer :: "World \<Rightarrow> string \<Rightarrow> int \<Rightarrow> Store \<Rightarrow> Store" where
  "ForceStopContainer w cid exitCode st = forceStop w cid exitCode (StopHealthCheck cid st)"

definition StopContainer ::
  "(string \<Rightarrow> int \<Rightarrow> Store \<Rightarrow> Store \<times> bool) option \<Rightarrow> World \<Rightarrow> string \<Rightarrow> int \<Rightarrow> Store \<Rightarrow> Store" where
  "StopContainer hook w cid exitCode st =
     (let st = StopHealthCheck cid st in
      case hook of
        None \<Rightarrow> forceStop w cid exitCode st
      | Some h \<Rightarrow> (let (st, restarted) = h cid exitCode st in if restarted then st else forceStop w cid exitCode st))"

definition RevertToCreated :: "string \<Rightarrow> Store \<Rightarrow> Store" where
  "RevertToCreated cid st =
     close_wait cid (upd_container cid (in_state (\<lambda>s.
       s\<lparr>cs_Status := ''created'', cs_Running := False, cs_Pid := 0, cs_StartedAt := zero_time\<rparr>)) st)"

definition ShouldRestart :: "RestartPolicy \<Rightarrow> int \<Rightarrow> int \<Rightarrow> bool" where
  "ShouldRestart policy exitCode restartCount =
     (if rp_Name policy = [] \<or> rp_Name policy = ''no'' then False
      else if rp_Name policy = ''on-failure'' then
        (if exitCode = 0 then False
         else if rp_MaximumRetryCount policy > 0 \<and> restartCount \<ge> rp_MaximumRetryCount policy then False
         else True)
      else if rp_Name policy = ''always'' then True
      else if rp_Name policy = ''unless-stopped'' then True
      else False)"

fun delay_loop :: "nat \<Rightarrow> int \<Rightarrow> int" where
  "delay_loop 0 delay = delay"
| "delay_loop (Suc n) delay =
     (let delay = delay * 2 in if delay > 60 * 10 ^ 9 then 60 * 10 ^ 9 else delay_loop n delay)"

definition RestartDelay :: "int \<Rightarrow> int" where
  "RestartDelay restartCount = delay_loop (nat restartCount) (100 * 10 ^ 6)"

text \<open>The sleep of the backoff changes no state and is left out.\<close>

definition handleRestartPolicy :: "World \<Rightarrow> string \<Rightarrow> int \<Rightarrow> Store \<Rightarrow> Store \<times> bool" where
  "handleRestartPolicy w cid exitCode st =
     (case get_container cid st of
        None \<Rightarrow> (st, False)
      | Some c \<Rightarrow>
          if \<not> ShouldRestart (ho_RestartPolicy (c_HostConfig c)) exitCode (c_RestartCount c) then (st, False)
          else
            (let st = upd_container cid (\<lambda>c. c\<lparr>c_RestartCount := c_RestartCount c + 1\<rparr>) st;
                 st = StopHealthCheck cid st;
                 st = close_wait cid st;
                 st = open_wait cid st;
                 (st, now) = now_text w st;
                 (st, pid) = NextPID st;
                 st = upd_container cid (in_state (running_state pid now)) st
             in case get_container cid st of
                  Some c \<Rightarrow> (if has_healthcheck c then StartHealthCheck cid st else st, True)
                | None \<Rightarrow> (st, True)))"

section \<open>What each service leaves alone\<close>

lemma frame_GenerateID [frame, simp]:
  "st_Containers (fst (GenerateID w st)) = st_Containers st"
  "st_ContainerNames (fst (GenerateID w st)) = st_ContainerNames st"
  "st_Images (fst (GenerateID w st)) = st_Images st"
  "st_Networks (fst (GenerateID w st)) = st_Networks st"
  "st_Volumes (fst (GenerateID w st)) = st_Volumes st"
  "st_Execs (fst (GenerateID w st)) = st_Execs st"
  "st_Pods (fst (GenerateID w st)) = st_Pods st"
  "st_WaitChs (fst (GenerateID w st)) = st_WaitChs st"
  "st_LogBuffers (fst (GenerateID w st)) = st_LogBuffers st"
  "st_VolumeDirs (fst (GenerateID w st)) = st_VolumeDirs st"
  "st_StagingDirs (fst (GenerateID w st)) = st_StagingDirs st"
  "st_PathMappings (fst (GenerateID w st)) = st_PathMappings st"
  "st_HealthChecks (fst (GenerateID w st)) = st_HealthChecks st"
  "st_BuildContexts (fst (GenerateID w st)) = st_BuildContexts st"
  "st_TmpfsDirs (fst (GenerateID w st)) = st_TmpfsDirs st"
  "st_ImageHistory (fst (GenerateID w st)) = st_ImageHistory st"
  "st_LayerContent (fst (GenerateID w st)) = st_LayerContent st"
  "st_ImageManifestLayers (fst (GenerateID w st)) = st_ImageManifestLayers st"
  "st_IPAlloc (fst (GenerateID w st)) = st_IPAlloc st"
  "st_pidCounter (fst (GenerateID w st)) = st_pidCounter st"
  "st_EventBus (fst (GenerateID w st)) = st_EventBus st"
  "st_chans (fst (GenerateID w st)) = st_chans st"
  "st_closed (fst (GenerateID w st)) = st_closed st"
  "st_panicked (fst (GenerateID w st)) = st_panicked st"
  "st_ctxs (fst (GenerateID w st)) = st_ctxs st"
  "st_cancelled (fst (GenerateID w st)) = st_cancelled st"
  "st_loops (fst (GenerateID w st)) = st_loops st"
  "st_removed (fst (GenerateID w st)) = st_removed st"
  "st_namen (fst (GenerateID w st)) = st_namen st"
  "st_tick (fst (GenerateID w st)) = st_tick st"
  "st_tmpn (fst (GenerateID w st)) = st_tmpn st"
  by (simp_all add: GenerateID_def)

lemma frame_GenerateName [frame, simp]:
  "st_Containers (fst (GenerateName w st)) = st_Containers st"
  "st_ContainerNames (fst (GenerateName w st)) = st_ContainerNames st"
  "st_Images (fst (GenerateName w st)) = st_Images st"
  "st_Networks (fst (GenerateName w st)) = st_Networks st"
  "st_Volumes (fst (GenerateName w st)) = st_Volumes st"
  "st_Execs (fst (GenerateName w st)) = st_Execs st"
  "st_Pods (fst (GenerateName w st)) = st_Pods st"
  "st_WaitChs (fst (GenerateName w st)) = st_WaitChs st"
  "st_LogBuffers (fst (GenerateName w st)) = st_LogBuffers st"
  "st_VolumeDirs (fst (GenerateName w st)) = st_VolumeDirs st"
  "st_StagingDirs (fst (GenerateName w st)) = st_StagingDirs st"
  "st_PathMappings (fst (GenerateName w st)) = st_PathMappings st"
  "st_HealthChecks (fst (GenerateName w st)) = st_HealthChecks st"
  "st_BuildContexts (fst (GenerateName w st)) = st_BuildContexts st"
  "st_TmpfsDirs (fst (GenerateName w st)) = st_TmpfsDirs st"
  "st_ImageHistory (fst (GenerateName w st)) = st_ImageHistory st"
  "st_LayerContent (fst (GenerateName w st)) = st_LayerContent st"
  "st_ImageManifestLayers (fst (GenerateName w st)) = st_ImageManifestLayers st"
  "st_IPAlloc (fst (GenerateName w st)) = st_IPAlloc st"
  "st_pidCounter (fst (GenerateName w st)) = st_pidCounter st"
  "st_EventBus (fst (GenerateName w st)) = st_EventBus st"
  "st_chans (fst (GenerateName w st)) = st_chans st"
  "st_closed (fst (GenerateName w st)) = st_closed st"
  "st_panicked (fst (GenerateName w st)) = st_panicked st"
  "st_ctxs (fst (GenerateName w st)) = st_ctxs st"
  "st_cancelled (fst (GenerateName w st)) = st_cancelled st"
  "st_loops (fst (GenerateName w st)) = st_loops st"
  "st_removed (fst (GenerateName w st)) = st_removed st"
  "st_idn (fst (GenerateName w st)) = st_idn st"
  "st_tick (fst (GenerateName w st)) = st_tick st"
  "st_tmpn (fst (GenerateName w st)) = st_tmpn st"
  by (simp_all add: GenerateName_def)

lemma frame_now_text [frame, simp]:
  "st_Containers (fst (now_text w st)) = st_Containers st"
  "st_ContainerNames (fst (now_text w st)) = st_ContainerNames st"
  "st_Images (fst (now_text w st)) = st_Images st"
  "st_Networks (fst (now_text w st)) = st_Networks st"
  "st_Volumes (fst (now_text w st)) = st_Volumes st"
  "st_Execs (fst (now_text w st)) = st_Execs st"
  "st_Pods (fst (now_text w st)) = st_Pods st"
  "st_WaitChs (fst (now_text w st)) = st_WaitChs st"
  "st_LogBuffers (fst (now_text w st)) = st_LogBuffers st"
  "st_VolumeDirs (fst (now_text w st)) = st_VolumeDirs st"
  "st_StagingDirs (fst (now_text w st)) = st_StagingDirs st"
  "st_PathMappings (fst (now_text w st)) = st_PathMappings st"
  "st_HealthChecks (fst (now_text w st)) = st_HealthChecks st"
  "st_BuildContexts (fst (now_text w st)) = st_BuildContexts st"
  "st_TmpfsDirs (fst (now_text w st)) = st_TmpfsDirs st"
  "st_ImageHistory (fst (now_text w st)) = st_ImageHistory st"
  "st_LayerContent (fst (now_text w st)) = st_LayerContent st"
  "st_ImageManifestLayers (fst (now_text w st)) = st_ImageManifestLayers st"
  "st_IPAlloc (fst (now_text w st)) = st_IPAlloc st"
  "st_pidCounter (fst (now_text w st)) = st_pidCounter st"
  "st_EventBus (fst (now_text w st)) = st_EventBus st"
  "st_chans (fst (now_text w st)) = st_chans st"
  "st_closed (fst (now_text w st)) = st_closed st"
  "st_panicked (fst (now_text w st)) = st_panicked st"
  "st_ctxs (fst (now_text w st)) = st_ctxs st"
  "st_cancelled (fst (now_text w st)) = st_cancelled st"
  "st_loops (fst (now_text w st)) = st_loops st"
  "st_removed (fst (now_text w st)) = st_removed st"
  "st_idn (fst (now_text w st)) = st_idn st"
  "st_namen (fst (now_text w st)) = st_namen st"
  "st_tmpn (fst (now_text w st)) = st_tmpn st"
  by (simp_all add: now_text_def)

lemma frame_MkdirTemp [frame, simp]:
  "st_Containers (fst (MkdirTemp w st)) = st_Containers st"
  "st_ContainerNames (fst (MkdirTemp w st)) = st_ContainerNames st"
  "st_Images (fst (MkdirTemp w st)) = st_Images st"
  "st_Networks (fst (MkdirTemp w st)) = st_Networks st"
  "st_Volumes (fst (MkdirTemp w st)) = st_Volumes st"
  "st_Execs (fst (MkdirTemp w st)) = st_Execs st"
  "st_Pods (fst (MkdirTemp w st)) = st_Pods st"
  "st_WaitChs (fst (MkdirTemp w st)) = st_WaitChs st"
  "st_LogBuffers (fst (MkdirTemp w st)) = st_LogBuffers st"
  "st_VolumeDirs (fst (MkdirTemp w st)) = st_VolumeDirs st"
  "st_StagingDirs (fst (MkdirTemp w st)) = st_StagingDirs st"
  "st_PathMappings (fst (MkdirTemp w st)) = st_PathMappings st"
  "st_HealthChecks (fst (MkdirTemp w st)) = st_HealthChecks st"
  "st_BuildContexts (fst (MkdirTemp w st)) = st_BuildContexts st"
  "st_TmpfsDirs (fst (MkdirTemp w st)) = st_TmpfsDirs st"
  "st_ImageHistory (fst (MkdirTemp w st)) = st_ImageHistory st"
  "st_LayerContent (fst (MkdirTemp w st)) = st_LayerContent st"
  "st_ImageManifestLayers (fst (MkdirTemp w st)) = st_ImageManifestLayers st"
  "st_IPAlloc (fst (MkdirTemp w st)) = st_IPAlloc st"
  "st_pidCounter (fst (MkdirTemp w st)) = st_pidCounter st"
  "st_EventBus (fst (MkdirTemp w st)) = st_EventBus st"
  "st_chans (fst (MkdirTemp w st)) = st_chans st"
  "st_closed (fst (MkdirTemp w st)) = st_closed st"
  "st_panicked (fst (MkdirTemp w st)) = st_panicked st"
  "st_ctxs (fst (MkdirTemp w st)) = st_ctxs st"
  "st_cancelled (fst (MkdirTemp w st)) = st_cancelled st"
  "st_loops (fst (MkdirTemp w st)) = st_loops st"
  "st_removed (fst (MkdirTemp w st)) = st_removed st"
  "st_idn (fst (MkdirTemp w st)) = st_idn st"
  "st_namen (fst (MkdirTemp w st)) = st_namen st"
  "st_tick (fst (MkdirTemp w st)) = st_tick st"
  by (simp_all add: MkdirTemp_def)

lemma frame_RemoveAll [frame, simp]:
  "st_Containers (RemoveAll d st) = st_Containers st"
  "st_ContainerNames (RemoveAll d st) = st_ContainerNames st"
  "st_Images (RemoveAll d st) = st_Images st"
  "st_Networks (RemoveAll d st) = st_Networks st"
  "st_Volumes (RemoveAll d st) = st_Volumes st"
  "st_Execs (RemoveAll d st) = st_Execs st"
  "st_Pods (RemoveAll d st) = st_Pods st"
  "st_WaitChs (RemoveAll d st) = st_WaitChs st"
  "st_LogBuffers (RemoveAll d st) = st_LogBuffers st"
  "st_VolumeDirs (RemoveAll d st) = st_VolumeDirs st"
  "st_StagingDirs (RemoveAll d st) = st_StagingDirs st"
  "st_PathMappings (RemoveAll d st) = st_PathMappings st"
  "st_HealthChecks (RemoveAll d st) = st_HealthChecks st"
  "st_BuildContexts (RemoveAll d st) = st_BuildContexts st"
  "st_TmpfsDirs (RemoveAll d st) = st_TmpfsDirs st"
  "st_ImageHistory (RemoveAll d st) = st_ImageHistory st"
  "st_LayerContent (RemoveAll d st) = st_LayerContent st"
  "st_ImageManifestLayers (RemoveAll d st) = st_ImageManifestLayers st"
  "st_IPAlloc (RemoveAll d st) = st_IPAlloc st"
  "st_pidCounter (RemoveAll d st) = st_pidCounter st"
  "st_EventBus (RemoveAll d st) = st_EventBus st"
  "st_chans (RemoveAll d st) = st_chans st"
  "st_closed (RemoveAll d st) = st_closed st"
  "st_panicked (RemoveAll d st) = st_panicked st"
  "st_ctxs (RemoveAll d st) = st_ctxs st"
  "st_cancelled (RemoveAll d st) = st_cancelled st"
  "st_loops (RemoveAll d st) = st_loops st"
  "st_idn (RemoveAll d st) = st_idn st"
  "st_namen (RemoveAll d st) = st_namen st"
  "st_tick (RemoveAll d st) = st_tick st"
  "st_tmpn (RemoveAll d st) = st_tmpn st"
  by (simp_all add: RemoveAll_def)

lemma frame_NextPID [frame, simp]:
  "st_Containers (fst (NextPID st)) = st_Containers st"
  "st_ContainerNames (fst (NextPID st)) = st_ContainerNames st"
  "st_Images (fst (NextPID st)) = st_Images st"
  "st_Networks (fst (NextPID st)) = st_Networks st"
  "st_Volumes (fst (NextPID st)) = st_Volumes st"
  "st_Execs (fst (NextPID st)) = st_Execs st"
  "st_Pods (fst (NextPID st)) = st_Pods st"
  "st_WaitChs (fst (NextPID st)) = st_WaitChs st"
  "st_LogBuffers (fst (NextPID st)) = st_LogBuffers st"
  "st_VolumeDirs (fst (NextPID st)) = st_VolumeDirs st"
  "st_StagingDirs (fst (NextPID st)) = st_StagingDirs st"
  "st_PathMappings (fst (NextPID st)) = st_PathMappings st"
  "st_HealthChecks (fst (NextPID st)) = st_HealthChecks st"
  "st_BuildContexts (fst (NextPID st)) = st_BuildContexts st"
  "st_TmpfsDirs (fst (NextPID st)) = st_TmpfsDirs st"
  "st_ImageHistory (fst (NextPID st)) = st_ImageHistory st"
  "st_LayerContent (fst (NextPID st)) = st_LayerContent st"
  "st_ImageManifestLayers (fst (NextPID st)) = st_ImageManifestLayers st"
  "st_IPAlloc (fst (NextPID st)) = st_IPAlloc st"
  "st_EventBus (fst (NextPID st)) = st_EventBus st"
  "st_chans (fst (NextPID st)) = st_chans st"
  "st_closed (fst (NextPID st)) = st_closed st"
  "st_panicked (fst (NextPID st)) = st_panicked st"
  "st_ctxs (fst (NextPID st)) = st_ctxs st"
  "st_cancelled (fst (NextPID st)) = st_cancelled st"
  "st_loops (fst (NextPID st)) = st_loops st"
  "st_removed (fst (NextPID st)) = st_removed st"
  "st_idn (fst (NextPID st)) = st_idn st"
  "st_namen (fst (NextPID st)) = st_namen st"
  "st_tick (fst (NextPID st)) = st_tick st"
  "st_tmpn (fst (NextPID st)) = st_tmpn st"
  by (simp_all add: NextPID_def)

lemma frame_emitEvent [frame, simp]:
  "st_Containers (emitEvent w ty ac ident attrs st) = st_Containers st"
  "st_ContainerNames (emitEvent w ty ac ident attrs st) = st_ContainerNames st"
  "st_Images (emitEvent w ty ac ident attrs st) = st_Images st"
  "st_Networks (emitEvent w ty ac ident attrs st) = st_Networks st"
  "st_Volumes (emitEvent w ty ac ident attrs st) = st_Volumes st"
  "st_Execs (emitEvent w ty ac ident attrs st) = st_Execs st"
  "st_Pods (emitEvent w ty ac ident attrs st) = st_Pods st"
  "st_WaitChs (emitEvent w ty ac ident attrs st) = st_WaitChs st"
  "st_LogBuffers (emitEvent w ty ac ident attrs st) = st_LogBuffers st"
  "st_VolumeDirs (emitEvent w ty ac ident attrs st) = st_VolumeDirs st"
  "st_StagingDirs (emitEvent w ty ac ident attrs st) = st_StagingDirs st"
  "st_PathMappings (emitEvent w ty ac ident attrs st) = st_PathMappings st"
  "st_HealthChecks (emitEvent w ty ac ident attrs st) = st_HealthChecks st"
  "st_BuildContexts (emitEvent w ty ac ident attrs st) = st_BuildContexts st"
  "st_TmpfsDirs (emitEvent w ty ac ident attrs st) = st_TmpfsDirs st"
  "st_ImageHistory (emitEvent w ty ac ident attrs st) = st_ImageHistory st"
  "st_LayerContent (emitEvent w ty ac ident attrs st) = st_LayerContent st"
  "st_ImageManifestLayers (emitEvent w ty ac ident attrs st) = st_ImageManifestLayers st"
  "st_IPAlloc (emitEvent w ty ac ident attrs st) = st_IPAlloc st"
  "st_pidCounter (emitEvent w ty ac ident attrs st) = st_pidCounter st"
  "st_chans (emitEvent w ty ac ident attrs st) = st_chans st"
  "st_closed (emitEvent w ty ac ident attrs st) = st_closed st"
  "st_panicked (emitEvent w ty ac ident attrs st) = st_panicked st"
  "st_ctxs (emitEvent w ty ac ident attrs st) = st_ctxs st"
  "st_cancelled (emitEvent w ty ac ident attrs st) = st_cancelled st"
  "st_loops (emitEvent w ty ac ident attrs st) = st_loops st"
  "st_removed (emitEvent w ty ac ident attrs st) = st_removed st"
  "st_idn (emitEvent w ty ac ident attrs st) = st_idn st"
  "st_namen (emitEvent w ty ac ident attrs st) = st_namen st"
  "st_tmpn (emitEvent w ty ac ident attrs st) = st_tmpn st"
  by (simp_all add: emitEvent_def Let_def)

lemma frame_close_wait [frame, simp]:
  "st_Containers (close_wait cid st) = st_Containers st"
  "st_ContainerNames (close_wait cid st) = st_ContainerNames st"
  "st_Images (close_wait cid st) = st_Images st"
  "st_Networks (close_wait cid st) = st_Networks st"
  "st_Volumes (close_wait cid st) = st_Volumes st"
  "st_Execs (close_wait cid st) = st_Execs st"
  "st_Pods (close_wait cid st) = st_Pods st"
  "st_LogBuffers (close_wait cid st) = st_LogBuffers st"
  "st_VolumeDirs (close_wait cid st) = st_VolumeDirs st"
  "st_StagingDirs (close_wait cid st) = st_StagingDirs st"
  "st_PathMappings (close_wait cid st) = st_PathMappings st"
  "st_HealthChecks (close_wait cid st) = st_HealthChecks st"
  "st_BuildContexts (close_wait cid st) = st_BuildContexts st"
  "st_TmpfsDirs (close_wait cid st) = st_TmpfsDirs st"
  "st_ImageHistory (close_wait cid st) = st_ImageHistory st"
  "st_LayerContent (close_wait cid st) = st_LayerContent st"
  "st_ImageManifestLayers (close_wait cid st) = st_ImageManifestLayers st"
  "st_IPAlloc (close_wait cid st) = st_IPAlloc st"
  "st_pidCounter (close_wait cid st) = st_pidCounter st"
  "st_EventBus (close_wait cid st) = st_EventBus st"
  "st_chans (close_wait cid st) = st_chans st"
  "st_ctxs (close_wait cid st) = st_ctxs st"
  "st_cancelled (close_wait cid st) = st_cancelled st"
  "st_loops (close_wait cid st) = st_loops st"
  "st_removed (close_wait cid st) = st_removed st"
  "st_idn (close_wait cid st) = st_idn st"
  "st_namen (close_wait cid st) = st_namen st"
  "st_tick (close_wait cid st) = st_tick st"
  "st_tmpn (close_wait cid st) = st_tmpn st"
  by (simp_all add: close_wait_def close_chan_def split: option.split)

lemma frame_open_wait [frame, simp]:
  "st_Containers (open_wait cid st) = st_Containers st"
  "st_ContainerNames (open_wait cid st) = st_ContainerNames st"
  "st_Images (open_wait cid st) = st_Images st"
  "st_Networks (open_wait cid st) = st_Networks st"
  "st_Volumes (open_wait cid st) = st_Volumes st"
  "st_Execs (open_wait cid st) = st_Execs st"
  "st_Pods (open_wait cid st) = st_Pods st"
  "st_LogBuffers (open_wait cid st) = st_LogBuffers st"
  "st_VolumeDirs (open_wait cid st) = st_VolumeDirs st"
  "st_StagingDirs (open_wait cid st) = st_StagingDirs st"
  "st_PathMappings (open_wait cid st) = st_PathMappings st"
  "st_HealthChecks (open_wait cid st) = st_HealthChecks st"
  "st_BuildContexts (open_wait cid st) = st_BuildContexts st"
  "st_TmpfsDirs (open_wait cid st) = st_TmpfsDirs st"
  "st_ImageHistory (open_wait cid st) = st_ImageHistory st"
  "st_LayerContent (open_wait cid st) = st_LayerContent st"
  "st_ImageManifestLayers (open_wait cid st) = st_ImageManifestLayers st"
  "st_IPAlloc (open_wait cid st) = st_IPAlloc st"
  "st_pidCounter (open_wait cid st) = st_pidCounter st"
  "st_EventBus (open_wait cid st) = st_EventBus st"
  "st_closed (open_wait cid st) = st_closed st"
  "st_panicked (open_wait cid st) = st_panicked st"
  "st_ctxs (open_wait cid st) = st_ctxs st"
  "st_cancelled (open_wait cid st) = st_cancelled st"
  "st_loops (open_wait cid st) = st_loops st"
  "st_removed (open_wait cid st) = st_removed st"
  "st_idn (open_wait cid st) = st_idn st"
  "st_namen (open_wait cid st) = st_namen st"
  "st_tick (open_wait cid st) = st_tick st"
  "st_tmpn (open_wait cid st) = st_tmpn st"
  by (simp_all add: open_wait_def make_chan_def)

lemma frame_StopHealthCheck [frame, simp]:
  "st_Containers (StopHealthCheck cid st) = st_Containers st"
  "st_ContainerNames (StopHealthCheck cid st) = st_ContainerNames st"
  "st_Images (StopHealthCheck cid st) = st_Images st"
  "st_Networks (StopHealthCheck cid st) = st_Networks st"
  "st_Volumes (StopHealthCheck cid st) = st_Volumes st"
  "st_Execs (StopHealthCheck cid st) = st_Execs st"
  "st_Pods (StopHealthCheck cid st) = st_Pods st"
  "st_WaitChs (StopHealthCheck cid st) = st_WaitChs st"
  "st_LogBuffers (StopHealthCheck cid st) = st_LogBuffers st"
  "st_VolumeDirs (StopHealthCheck cid st) = st_VolumeDirs st"
  "st_StagingDirs (StopHealthCheck cid st) = st_StagingDirs st"
  "st_PathMappings (StopHealthCheck cid st) = st_PathMappings st"
  "st_BuildContexts (StopHealthCheck cid st) = st_BuildContexts st"
  "st_TmpfsDirs (StopHealthCheck cid st) = st_TmpfsDirs st"
  "st_ImageHistory (StopHealthCheck cid st) = st_ImageHistory st"
  "st_LayerContent (StopHealthCheck cid st) = st_LayerContent st"
  "st_ImageManifestLayers (StopHealthCheck cid st) = st_ImageManifestLayers st"
  "st_IPAlloc (StopHealthCheck cid st) = st_IPAlloc st"
  "st_pidCounter (StopHealthCheck cid st) = st_pidCounter st"
  "st_EventBus (StopHealthCheck cid st) = st_EventBus st"
  "st_chans (StopHealthCheck cid st) = st_chans st"
  "st_closed (StopHealthCheck cid st) = st_closed st"
  "st_panicked (StopHealthCheck cid st) = st_panicked st"
  "st_ctxs (StopHealthCheck cid st) = st_ctxs st"
  "st_loops (StopHealthCheck cid st) = st_loops st"
  "st_removed (StopHealthCheck cid st) = st_removed st"
  "st_idn (StopHealthCheck cid st) = st_idn st"
  "st_namen (StopHealthCheck cid st) = st_namen st"
  "st_tick (StopHealthCheck cid st) = st_tick st"
  "st_tmpn (StopHealthCheck cid st) = st_tmpn st"
  by (simp_all add: StopHealthCheck_def split: option.split)

lemma frame_mark_exited [frame, simp]:
  "st_ContainerNames (mark_exited w cid code st) = st_ContainerNames st"
  "st_Images (mark_exited w cid code st) = st_Images st"
  "st_Networks (mark_exited w cid code st) = st_Networks st"
  "st_Volumes (mark_exited w cid code st) = st_Volumes st"
  "st_Execs (mark_exited w cid code st) = st_Execs st"
  "st_Pods (mark_exited w cid code st) = st_Pods st"
  "st_WaitChs (mark_exited w cid code st) = st_WaitChs st"
  "st_LogBuffers (mark_exited w cid code st) = st_LogBuffers st"
  "st_VolumeDirs (mark_exited w cid code st) = st_VolumeDirs st"
  "st_StagingDirs (mark_exited w cid code st) = st_StagingDirs st"
  "st_PathMappings (mark_exited w cid code st) = st_PathMappings st"
  "st_HealthChecks (mark_exited w cid code st) = st_HealthChecks st"
  "st_BuildContexts (mark_exited w cid code st) = st_BuildContexts st"
  "st_TmpfsDirs (mark_exited w cid code st) = st_TmpfsDirs st"
  "st_ImageHistory (mark_exited w cid code st) = st_ImageHistory st"
  "st_LayerContent (mark_exited w cid code st) = st_LayerContent st"
  "st_ImageManifestLayers (mark_exited w cid code st) = st_ImageManifestLayers st"
  "st_IPAlloc (mark_exited w cid code st) = st_IPAlloc st"
  "st_pidCounter (mark_exited w cid code st) = st_pidCounter st"
  "st_EventBus (mark_exited w cid code st) = st_EventBus st"
  "st_chans (mark_exited w cid code st) = st_chans st"
  "st_closed (mark_exited w cid code st) = st_closed st"
  "st_panicked (mark_exited w cid code st) = st_panicked st"
  "st_ctxs (mark_exited w cid code st) = st_ctxs st"
  "st_cancelled (mark_exited w cid code st) = st_cancelled st"
  "st_loops (mark_exited w cid code st) = st_loops st"
  "st_removed (mark_exited w cid code st) = st_removed st"
  "st_idn (mark_exited w cid code st) = st_idn st"
  "st_namen (mark_exited w cid code st) = st_namen st"
  "st_tmpn (mark_exited w cid code st) = st_tmpn st"
  by (simp_all add: mark_exited_def Let_def case_prod_beta split: option.split)

lemma frame_StartHealthCheck [frame, simp]:
  "st_ContainerNames (StartHealthCheck cid st) = st_ContainerNames st"
  "st_Images (StartHealthCheck cid st) = st_Images st"
  "st_Networks (StartHealthCheck cid st) = st_Networks st"
  "st_Volumes (StartHealthCheck cid st) = st_Volumes st"
  "st_Execs (StartHealthCheck cid st) = st_Execs st"
  "st_Pods (StartHealthCheck cid st) = st_Pods st"
  "st_WaitChs (StartHealthCheck cid st) = st_WaitChs st"
  "st_LogBuffers (StartHealthCheck cid st) = st_LogBuffers st"
  "st_VolumeDirs (StartHealthCheck cid st) = st_VolumeDirs st"
  "st_StagingDirs (StartHealthCheck cid st) = st_StagingDirs st"
  "st_PathMappings (StartHealthCheck cid st) = st_PathMappings st"
  "st_BuildContexts (StartHealthCheck cid st) = st_BuildContexts st"
  "st_TmpfsDirs (StartHealthCheck cid st) = st_TmpfsDirs st"
  "st_ImageHistory (StartHealthCheck cid st) = st_ImageHistory st"
  "st_LayerContent (StartHealthCheck cid st) = st_LayerContent st"
  "st_ImageManifestLayers (StartHealthCheck cid st) = st_ImageManifestLayers st"
  "st_IPAlloc (StartHealthCheck cid st) = st_IPAlloc st"
  "st_pidCounter (StartHealthCheck cid st) = st_pidCounter st"
  "st_EventBus (StartHealthCheck cid st) = st_EventBus st"
  "st_chans (StartHealthCheck cid st) = st_chans st"
  "st_closed (StartHealthCheck cid st) = st_closed st"
  "st_panicked (StartHealthCheck cid st) = st_panicked st"
  "st_cancelled (StartHealthCheck cid st) = st_cancelled st"
  "st_removed (StartHealthCheck cid st) = st_removed st"
  "st_idn (StartHealthCheck cid st) = st_idn st"
  "st_namen (StartHealthCheck cid st) = st_namen st"
  "st_tick (StartHealthCheck cid st) = st_tick st"
  "st_tmpn (StartHealthCheck cid st) = st_tmpn st"
  by (simp_all add: StartHealthCheck_def Let_def split: option.split)

end
