(* ===== verification/Networks.thy ===== *)
theory Networks
  imports Server
begin

text \<open>
  \<open>SyntheticNetworkDriver\<close> of \<open>backends/core/drivers_network.go\<close>, \<open>InitDefaultNetwork\<close> of \<open>server.go\<close> and
  the network handlers of \<open>backend_impl.go\<close>. A driver error is its text, an error of a handler an
  \<open>api_error\<close>. A handler returns the state it leaves also when it fails.
\<close>

section \<open>The synthetic driver\<close>

record NetworkCreateRequest =
  nr_Attachable :: bool
  nr_Driver :: string
  nr_EnableIPv6 :: bool
  nr_IPAM :: "IPAM option"
  nr_Ingress :: bool
  nr_Internal :: bool
  nr_Labels :: "string gomap option"
  nr_Name :: string
  nr_Options :: "string gomap option"

definition nil_map :: "'v gomap option \<Rightarrow> 'v gomap" where
  "nil_map m = (case m of None \<Rightarrow> [] | Some m \<Rightarrow> m)"

definition default_str :: "string \<Rightarrow> string \<Rightarrow> string" where
  "default_str s d = (if s = [] then d else s)"

definition Driver_Create ::
  "World \<Rightarrow> string \<Rightarrow> NetworkCreateRequest \<Rightarrow> Store \<Rightarrow> Store \<times> (string + string)" where
  "Driver_Create w name opts st =
     (if name = [] then (st, Inl ''network name is required'')
      else if list_ex (\<lambda>n. nw_Name n = name) (StateStore_List (st_Networks st)) then
        (st, Inl (''network with name '' @ name @ '' already exists''))
      else
        (let (st, ident) = GenerateID w st;
             driver = default_str (nr_Driver opts) ''bridge'';
             ipam = (case nr_IPAM opts of None \<Rightarrow> \<lparr>ipam_Config = [], ipam_Driver = ''default''\<rparr> | Some i \<Rightarrow> i);
             (alloc, cfg) = AllocateSubnet ident (case ipam_Config ipam of [] \<Rightarrow> None | c # cs \<Rightarrow> Some c) (st_IPAlloc st);
             ipam = (if ipam_Config ipam = [] then ipam\<lparr>ipam_Config := [cfg]\<rparr> else ipam);
             st = st\<lparr>st_IPAlloc := alloc\<rparr>;
             (st, now) = now_text w st;
             network = \<lparr>nw_Attachable = nr_Attachable opts, nw_Containers = [], nw_Created = now,
                        nw_Driver = driver, nw_EnableIPv6 = nr_EnableIPv6 opts, nw_IPAM = ipam, nw_ID = ident,
                        nw_Ingress = nr_Ingress opts, nw_Internal = nr_Internal opts,
                        nw_Labels = nil_map (nr_Labels opts), nw_Name = name,
                        nw_Options = nil_map (nr_Options opts), nw_Scope = ''local''\<rparr>
         in (st\<lparr>st_Networks := StateStore_Put ident network (st_Networks st)\<rparr>, Inr ident)))"

definition Driver_Inspect :: "string \<Rightarrow> Store \<Rightarrow> string + Network" where
  "Driver_Inspect ref st =
     (case ResolveNetwork ref st of None \<Rightarrow> Inl (''network '' @ ref @ '' not found'') | Some n \<Rightarrow> Inr n)"

definition Driver_List :: "string list gomap \<Rightarrow> Store \<Rightarrow> Network list" where
  "Driver_List filters st = filter (\<lambda>n. MatchNetworkFilters n filters) (StateStore_List (st_Networks st))"

definition predefined :: "string \<Rightarrow> bool" where
  "predefined name \<longleftrightarrow> name = ''bridge'' \<or> name = ''host'' \<or> name = ''none''"

definition Driver_Remove :: "string \<Rightarrow> Store \<Rightarrow> Store \<times> (string + unit)" where
  "Driver_Remove ref st =
     (case ResolveNetwork ref st of
        None \<Rightarrow> (st, Inl (''network '' @ ref @ '' not found''))
      | Some n \<Rightarrow>
          if predefined (nw_Name n) then
            (st, Inl (nw_Name n @ '' is a pre-defined network and cannot be removed''))
          else (st\<lparr>st_Networks := ss_delete (nw_ID n) (st_Networks st),
                   st_IPAlloc := ReleaseSubnet (nw_ID n) (st_IPAlloc st)\<rparr>, Inr ()))"

text \<open>The endpoint of a container on a network, as the store has it now; a missing container is the zero value.\<close>

definition endpoint_of :: "string \<Rightarrow> string \<Rightarrow> Store \<Rightarrow> EndpointSettings option" where
  "endpoint_of cid netName st =
     Option.bind (get_container cid st) (\<lambda>c. mget (ns_Networks (c_NetworkSettings c)) netName)"

definition release_endpoint :: "Network \<Rightarrow> string \<Rightarrow> Store \<Rightarrow> Store" where
  "release_endpoint net cid st =
     (case endpoint_of cid (nw_Name net) st of
        None \<Rightarrow> st
      | Some ep \<Rightarrow> st\<lparr>st_IPAlloc := ReleaseIP (nw_ID net) (es_IPAddress ep) (st_IPAlloc st)\<rparr>)"

text \<open>
  A new endpoint on a network with the address the allocator grants, with the address and aliases
  of the request when it has some, and the container's entry in the network's table.
\<close>

definition new_endpoint ::
  "World \<Rightarrow> Network \<Rightarrow> EndpointSettings option \<Rightarrow> Store \<Rightarrow> Store \<times> EndpointSettings" where
  "new_endpoint w net config st =
     (let (alloc, g) = AllocateIP (nw_ID net) (st_IPAlloc st);
          st = st\<lparr>st_IPAlloc := alloc\<rparr>;
          (st, eid) = GenerateID w st;
          endpoint = \<lparr>es_Aliases = [], es_EndpointID = take 16 eid, es_Gateway = gr_gateway g, es_IPAMConfig = None,
                      es_IPAddress = gr_ip g, es_IPPrefixLen = gr_prefixLen g, es_MacAddress = gr_mac g,
                      es_NetworkID = nw_ID net\<rparr>
      in (st, case config of
                None \<Rightarrow> endpoint
              | Some cf \<Rightarrow>
                  (let endpoint = (if es_IPAddress cf \<noteq> [] then endpoint\<lparr>es_IPAddress := es_IPAddress cf\<rparr> else endpoint)
                   in if es_Aliases cf \<noteq> [] then endpoint\<lparr>es_Aliases := es_Aliases cf\<rparr> else endpoint)))"

definition add_to_network :: "Network \<Rightarrow> string \<Rightarrow> string \<Rightarrow> EndpointSettings \<Rightarrow> Store \<Rightarrow> Store" where
  "add_to_network net cid cname ep st =
     st\<lparr>st_Networks := ss_update (nw_ID net) (\<lambda>n. n\<lparr>nw_Containers := mput cid
          \<lparr>er_Name = TrimPrefix cname ''/'', er_EndpointID = es_EndpointID ep, er_MacAddress = es_MacAddress ep,
           er_IPv4Address = es_IPAddress ep @ ''/'' @ Itoa (es_IPPrefixLen ep)\<rparr> (nw_Containers n)\<rparr>) (st_Networks st)\<rparr>"

definition Driver_Connect ::
  "World \<Rightarrow> string \<Rightarrow> string \<Rightarrow> EndpointSettings option \<Rightarrow> Store \<Rightarrow> Store \<times> (string + unit)" where
  "Driver_Connect w networkID containerID config st =
     (case ResolveNetwork networkID st of
        None \<Rightarrow> (st, Inl (''network '' @ networkID @ '' not found''))
      | Some net \<Rightarrow>
          (let st = release_endpoint net containerID st;
               (st, endpoint) = new_endpoint w net config st;
               cname = (case get_container containerID st of None \<Rightarrow> [] | Some c \<Rightarrow> c_Name c);
               st = add_to_network net containerID cname endpoint st;
               st = upd_container containerID (\<lambda>c. c\<lparr>c_NetworkSettings := (c_NetworkSettings c)
                      \<lparr>ns_Networks := mput (nw_Name net) endpoint (ns_Networks (c_NetworkSettings c))\<rparr>\<rparr>) st
           in (st, Inr ())))"

definition Driver_Disconnect :: "string \<Rightarrow> string \<Rightarrow> Store \<Rightarrow> Store \<times> (string + unit)" where
  "Driver_Disconnect networkID containerID st =
     (case ResolveNetwork networkID st of
        None \<Rightarrow> (st, Inl (''network '' @ networkID @ '' not found''))
      | Some net \<Rightarrow>
          (let st = release_endpoint net containerID st;
               st = st\<lparr>st_Networks := ss_update (nw_ID net)
                       (\<lambda>n. n\<lparr>nw_Containers := mdel containerID (nw_Containers n)\<rparr>) (st_Networks st)\<rparr>;
               st = upd_container containerID (\<lambda>c. c\<lparr>c_NetworkSettings := (c_NetworkSettings c)
                      \<lparr>ns_Networks := mdel (nw_Name net) (ns_Networks (c_NetworkSettings c))\<rparr>\<rparr>) st
           in (st, Inr ())))"

definition Driver_Prune :: "string list gomap \<Rightarrow> Store \<Rightarrow> Store \<times> string list" where
  "Driver_Prune filters st =
     (let (nets, pruned) = StateStore_PruneIf (\<lambda>k n.
            if predefined (nw_Name n) then False
            else if nw_Containers n \<noteq> [] then False
            else MatchNetworkPruneFilters n filters) (st_Networks st)
      in (st\<lparr>st_Networks := nets,
             st_IPAlloc := foldl (\<lambda>a n. ReleaseSubnet (nw_ID n) a) (st_IPAlloc st) pruned\<rparr>,
          map nw_ID pruned))"

section \<open>The default networks\<close>

definition bridgeID :: string where
  "bridgeID = ''b0000000000000000000000000000000000000000000000000000000bridge00''"

definition hostID :: string where
  "hostID = ''f00000000000000000000000000000000000000000000000000000000host0000''"

definition noneID :: string where
  "noneID = ''a00000000000000000000000000000000000000000000000000000000none0000''"

definition default_network :: "string \<Rightarrow> string \<Rightarrow> string \<Rightarrow> IPAMConfig list \<Rightarrow> string \<Rightarrow> Network" where
  "default_network name ident driver cfg now =
     \<lparr>nw_Attachable = False, nw_Containers = [], nw_Created = now, nw_Driver = driver, nw_EnableIPv6 = False,
      nw_IPAM = \<lparr>ipam_Config = cfg, ipam_Driver = ''default''\<rparr>, nw_ID = ident, nw_Ingress = False,
      nw_Internal = False, nw_Labels = [], nw_Name = name, nw_Options = [], nw_Scope = ''local''\<rparr>"

definition bridge_subnet :: IPAMConfig where
  "bridge_subnet = \<lparr>cfg_Subnet = ''172.17.0.0/16'', cfg_Gateway = ''172.17.0.1''\<rparr>"

definition InitDefaultNetwork :: "World \<Rightarrow> Store \<Rightarrow> Store" where
  "InitDefaultNetwork w st =
     (let (st, now) = now_text w st;
          nets = StateStore_Put bridgeID (default_network ''bridge'' bridgeID ''bridge'' [bridge_subnet] now) (st_Networks st);
          alloc = fst (AllocateSubnet bridgeID (Some bridge_subnet) (st_IPAlloc st));
          nets = StateStore_Put hostID (default_network ''host'' hostID ''host'' [] now) nets;
          nets = StateStore_Put noneID (default_network ''none'' noneID ''null'' [] now) nets
      in st\<lparr>st_Networks := nets, st_IPAlloc := alloc\<rparr>)"

section \<open>The handlers\<close>

definition NetworkCreate ::
  "World \<Rightarrow> NetworkCreateRequest \<Rightarrow> Store \<Rightarrow> Store \<times> (api_error + string)" where
  "NetworkCreate w req st =
     (if nr_Name req = [] then (st, Inl (InvalidParameterError ''network name is required''))
      else
        (case Driver_Create w (nr_Name req) req st of
           (st, Inl err) \<Rightarrow>
             if Contains err ''already exists'' then (st, Inl (ConflictError err))
             else (st, Inl (InvalidParameterError err))
         | (st, Inr ident) \<Rightarrow> (emitEvent w ''network'' ''create'' ident [(''name'', nr_Name req)] st, Inr ident)))"

definition NetworkList :: "string list gomap \<Rightarrow> Store \<Rightarrow> Network list" where
  "NetworkList f st = Driver_List f st"

definition NetworkInspect :: "string \<Rightarrow> Store \<Rightarrow> api_error + Network" where
  "NetworkInspect ref st =
     (case Driver_Inspect ref st of Inl err \<Rightarrow> Inl (NotFoundError ''network'' ref) | Inr n \<Rightarrow> Inr n)"

definition NetworkConnect ::
  "World \<Rightarrow> string \<Rightarrow> string \<Rightarrow> EndpointSettings option \<Rightarrow> Store \<Rightarrow> Store \<times> (api_error + unit)" where
  "NetworkConnect w ref container config st =
     (case ResolveNetwork ref st of
        None \<Rightarrow> (st, Inl (NotFoundError ''network'' ref))
      | Some net \<Rightarrow>
          (case ResolveContainerIDAuto NewStateStore None container st of
             None \<Rightarrow> (st, Inl (NotFoundError ''container'' container))
           | Some cid \<Rightarrow>
               (case Driver_Connect w (nw_ID net) cid config st of
                  (st, Inl err) \<Rightarrow> (st, Inl (ServerError err))
                | (st, Inr u) \<Rightarrow>
                    (let st = emitEvent w ''network'' ''connect'' (nw_ID net) [(''container'', cid)] st
                     in case GetPodForNetwork (nw_Name net) (st_Pods st) of
                          (Some pod, True) \<Rightarrow>
                            if snd (GetPodForContainer cid (st_Pods st)) then (st, Inr ())
                            else (st\<lparr>st_Pods := fst (AddContainer (pc_ID pod) cid (st_Pods st))\<rparr>, Inr ())
                        | (None, True) \<Rightarrow>
                            if snd (GetPodForContainer cid (st_Pods st)) then (st, Inr ())
                            else (st\<lparr>st_panicked := True\<rparr>, Inr ())
                        | (p, False) \<Rightarrow> (st, Inr ())))))"

definition NetworkDisconnect ::
  "World \<Rightarrow> string \<Rightarrow> string \<Rightarrow> bool \<Rightarrow> Store \<Rightarrow> Store \<times> (api_error + unit)" where
  "NetworkDisconnect w ref container force st =
     (case ResolveNetwork ref st of
        None \<Rightarrow> (st, Inl (NotFoundError ''network'' ref))
      | Some net \<Rightarrow>
          (case ResolveContainerIDAuto NewStateStore None container st of
             None \<Rightarrow> if force then (st, Inr ()) else (st, Inl (NotFoundError ''container'' container))
           | Some cid \<Rightarrow>
               (let st = fst (Driver_Disconnect (nw_ID net) cid st)
                in (emitEvent w ''network'' ''disconnect'' (nw_ID net) [(''container'', cid)] st, Inr ()))))"

definition NetworkRemove :: "World \<Rightarrow> string \<Rightarrow> Store \<Rightarrow> Store \<times> (api_error + unit)" where
  "NetworkRemove w ref st =
     (case ResolveNetwork ref st of
        None \<Rightarrow> (st, Inl (NotFoundError ''network'' ref))
      | Some n \<Rightarrow>
          (case Driver_Remove (nw_ID n) st of
             (st, Inl err) \<Rightarrow>
               if Contains err ''pre-defined'' then
                 (st, Inl (ConflictError (nw_Name n @ '' is a pre-defined network and cannot be removed'')))
               else (st, Inl (ServerError err))
           | (st, Inr u) \<Rightarrow> (emitEvent w ''network'' ''destroy'' (nw_ID n) [(''name'', nw_Name n)] st, Inr ())))"

definition NetworkPrune :: "World \<Rightarrow> string list gomap \<Rightarrow> Store \<Rightarrow> Store \<times> string list" where
  "NetworkPrune w f st =
     (let (st, deleted) = Driver_Prune f st
      in (foldl (\<lambda>st nid. emitEvent w ''network'' ''destroy'' nid [(''name'', nid)] st) st deleted, deleted))"

section \<open>The network table\<close>

text \<open>
  The identity and the name of the network stored under a key. An operation that leaves these
  alone (connect, disconnect) is a step of \<open>same_nets\<close>.
\<close>

definition net_key :: "Store \<Rightarrow> string \<Rightarrow> (string \<times> string) option" where
  "net_key st k = map_option (\<lambda>n. (nw_ID n, nw_Name n)) (StateStore_Get k (st_Networks st))"

definition same_nets :: "Store \<Rightarrow> Store \<Rightarrow> bool" where
  "same_nets st st' \<longleftrightarrow>
     (wf_map (st_Networks st) \<longrightarrow> wf_map (st_Networks st')) \<and> net_key st' = net_key st \<and> st_idn st \<le> st_idn st'"

text \<open>Random identifiers do not repeat and are none of the three fixed ones.\<close>

definition world_ok :: "World \<Rightarrow> bool" where
  "world_ok w \<longleftrightarrow> inj (w_ids w) \<and> (\<forall>i. w_ids w i \<notin> {bridgeID, hostID, noneID})"

definition net_inv :: "World \<Rightarrow> Store \<Rightarrow> bool" where
  "net_inv w st \<longleftrightarrow>
     wf_map (st_Networks st) \<and>
     (\<forall>k i nm. net_key st k = Some (i, nm) \<longrightarrow>
        i = k \<and> (k \<in> {bridgeID, hostID, noneID} \<or> (\<exists>j < st_idn st. k = w_ids w j))) \<and>
     (\<forall>k k' i i' nm. net_key st k = Some (i, nm) \<longrightarrow> net_key st k' = Some (i', nm) \<longrightarrow> k = k') \<and>
     net_key st bridgeID = Some (bridgeID, ''bridge'') \<and>
     net_key st hostID = Some (hostID, ''host'') \<and>
     net_key st noneID = Some (noneID, ''none'')"

lemma net_invD:
  assumes "net_inv w st"
  shows "wf_map (st_Networks st)"
    and "net_key st k = Some (i, nm) \<Longrightarrow> i = k"
    and "net_key st k = Some (i, nm) \<Longrightarrow> k \<in> {bridgeID, hostID, noneID} \<or> (\<exists>j < st_idn st. k = w_ids w j)"
    and "net_key st k = Some (i, nm) \<Longrightarrow> net_key st k' = Some (i', nm) \<Longrightarrow> k = k'"
    and "net_key st bridgeID = Some (bridgeID, ''bridge'')"
    and "net_key st hostID = Some (hostID, ''host'')"
    and "net_key st noneID = Some (noneID, ''none'')"
  using assms unfolding net_inv_def by blast+

lemma net_inv_same:
  assumes inv: "net_inv w st" and same: "same_nets st st'"
  shows "net_inv w st'"
proof -
  have key: "net_key st' = net_key st" and idn: "st_idn st \<le> st_idn st'"
    using same by (auto simp: same_nets_def)
  have "k \<in> {bridgeID, hostID, noneID} \<or> (\<exists>j < st_idn st'. k = w_ids w j)"
    if "net_key st k = Some (i, nm)" for k i nm
    using net_invD(3) [OF inv that] idn order_less_le_trans by blast
  moreover have "wf_map (st_Networks st')" using net_invD(1) [OF inv] same by (simp add: same_nets_def)
  ultimately show ?thesis
    using inv unfolding net_inv_def key by blast
qed

lemma same_nets_refl [simp, intro]: "same_nets st st"
  by (simp add: same_nets_def)

lemma same_nets_trans: "same_nets a b \<Longrightarrow> same_nets b c \<Longrightarrow> same_nets a c"
  by (auto simp: same_nets_def)

lemma same_nets_frame:
  "st_Networks st' = st_Networks st \<Longrightarrow> st_idn st \<le> st_idn st' \<Longrightarrow> same_nets st st'"
  by (simp add: same_nets_def net_key_def fun_eq_iff)

lemma same_nets_table:
  "st_Networks st' = ss_update k (\<lambda>n. n\<lparr>nw_Containers := f (nw_Containers n)\<rparr>) (st_Networks st) \<Longrightarrow>
   st_idn st \<le> st_idn st' \<Longrightarrow> same_nets st st'"
  by (auto simp: same_nets_def net_key_def fun_eq_iff option.map_comp comp_def)

lemma frame_new_endpoint [frame, simp]:
  "st_Networks (fst (new_endpoint w net cf st)) = st_Networks st"
  "st_Containers (fst (new_endpoint w net cf st)) = st_Containers st"
  "st_ContainerNames (fst (new_endpoint w net cf st)) = st_ContainerNames st"
  "st_idn (fst (new_endpoint w net cf st)) = Suc (st_idn st)"
  "st_IPAlloc (fst (new_endpoint w net cf st)) = fst (AllocateIP (nw_ID net) (st_IPAlloc st))"
  by (simp_all add: new_endpoint_def Let_def case_prod_beta GenerateID_def)

lemma frame_release_endpoint [frame, simp]:
  "st_Networks (release_endpoint net cid st) = st_Networks st"
  "st_Containers (release_endpoint net cid st) = st_Containers st"
  "st_ContainerNames (release_endpoint net cid st) = st_ContainerNames st"
  "st_idn (release_endpoint net cid st) = st_idn st"
  by (simp_all add: release_endpoint_def split: option.split)

lemma frame_add_to_network [frame, simp]:
  "st_Containers (add_to_network net cid cname ep st) = st_Containers st"
  "st_ContainerNames (add_to_network net cid cname ep st) = st_ContainerNames st"
  "st_idn (add_to_network net cid cname ep st) = st_idn st"
  "st_IPAlloc (add_to_network net cid cname ep st) = st_IPAlloc st"
  by (simp_all add: add_to_network_def)

lemma same_nets_Connect: "same_nets st (fst (Driver_Connect w nid cid cf st))"
proof (cases "ResolveNetwork nid st")
  case (Some net)
  let ?ep = "snd (new_endpoint w net cf (release_endpoint net cid st))"
  let ?er = "\<lparr>er_Name = TrimPrefix (case get_container cid st of None \<Rightarrow> [] | Some c \<Rightarrow> c_Name c) ''/'',
      er_EndpointID = es_EndpointID ?ep, er_MacAddress = es_MacAddress ?ep,
      er_IPv4Address = es_IPAddress ?ep @ ''/'' @ Itoa (es_IPPrefixLen ?ep)\<rparr>"
  from Some show ?thesis
    by (intro same_nets_table [where k = "nw_ID net" and f = "mput cid ?er"])
      (simp_all add: Driver_Connect_def Let_def case_prod_beta add_to_network_def)
qed (simp add: Driver_Connect_def)

lemma same_nets_Disconnect: "same_nets st (fst (Driver_Disconnect nid cid st))"
proof (cases "ResolveNetwork nid st")
  case (Some net)
  then show ?thesis
    by (intro same_nets_table [where k = "nw_ID net" and f = "mdel cid"])
      (simp_all add: Driver_Disconnect_def Let_def)
qed (simp add: Driver_Disconnect_def)

lemma Resolve_stored:
  assumes "ResolveNetwork ref st = Some n"
  shows "n \<in> set (StateStore_List (st_Networks st))"
proof (cases "StateStore_Get ref (st_Networks st)")
  case None
  with assms show ?thesis
    by (auto simp: ResolveNetwork_def dest: find_SomeD split: option.splits)
next
  case (Some m)
  with assms have "m = n" by (simp add: ResolveNetwork_def)
  with Some show ?thesis by (auto intro: Get_in_List)
qed

lemma Resolve_key:
  assumes inv: "net_inv w st" and res: "ResolveNetwork ref st = Some n"
  shows "net_key st (nw_ID n) = Some (nw_ID n, nw_Name n)"
proof -
  obtain k where "StateStore_Get k (st_Networks st) = Some n"
    using Resolve_stored [OF res] in_List_iff [OF net_invD(1) [OF inv]] by blast
  moreover from this have "nw_ID n = k"
    using net_invD(2) [OF inv, of k "nw_ID n" "nw_Name n"] by (simp add: net_key_def)
  ultimately show ?thesis by (simp add: net_key_def)
qed

lemma emitEvent_same_nets: "same_nets st (emitEvent w a b c d st)"
  by (rule same_nets_frame) simp_all

lemma net_inv_frame:
  "net_inv w st \<Longrightarrow> st_Networks st' = st_Networks st \<Longrightarrow> st_idn st' = st_idn st \<Longrightarrow> net_inv w st'"
  by (erule net_inv_same) (simp add: same_nets_frame)

lemma net_inv_Create:
  assumes w: "world_ok w" and inv: "net_inv w st"
  shows "net_inv w (fst (Driver_Create w name opts st))"
proof (cases "name = [] \<or> list_ex (\<lambda>n. nw_Name n = name) (StateStore_List (st_Networks st))")
  case True
  with inv show ?thesis by (auto simp: Driver_Create_def)
next
  case False
  let ?i = "w_ids w (st_idn st)" and ?st = "fst (Driver_Create w name opts st)"
  have no_name: "net_key st k \<noteq> Some (i, name)" for k i
    using False by (auto simp: net_key_def list_ex_iff dest: Get_in_List)
  have key: "net_key ?st k = (if k = ?i then Some (?i, name) else net_key st k)" for k
    using False by (simp add: Driver_Create_def Let_def case_prod_beta GenerateID_def net_key_def)
  have idn: "st_idn ?st = Suc (st_idn st)" and wf: "wf_map (st_Networks ?st)"
    using False net_invD(1) [OF inv]
    by (simp_all add: Driver_Create_def Let_def case_prod_beta GenerateID_def)
  have fixed: "?i \<noteq> bridgeID" "?i \<noteq> hostID" "?i \<noteq> noneID" using w by (auto simp: world_ok_def)
  show ?thesis
    unfolding net_inv_def
  proof (intro conjI allI impI)
    fix k k' i i' nm
    assume k: "net_key ?st k = Some (i, nm)"
    show "i = k" using k net_invD(2) [OF inv, of k] by (auto simp: key split: if_splits)
    show "k \<in> {bridgeID, hostID, noneID} \<or> (\<exists>j < st_idn ?st. k = w_ids w j)"
      using k net_invD(3) [OF inv, of k i nm] unfolding key idn
      by (cases "k = ?i") (auto intro: less_SucI)
    assume k': "net_key ?st k' = Some (i', nm)"
    show "k = k'" using k k' no_name net_invD(4) [OF inv, of k i nm k' i'] by (auto simp: key split: if_splits)
  qed (use wf fixed net_invD(5-7) [OF inv] in \<open>simp_all add: key\<close>)
qed

text \<open>Deleting networks whose names are not predefined.\<close>

lemma net_inv_restrict:
  assumes inv: "net_inv w st" and wf: "wf_map (st_Networks st')" and idn: "st_idn st' = st_idn st"
    and key: "\<And>k. net_key st' k = net_key st k \<or> net_key st' k = None"
    and keep: "\<And>k i nm. net_key st k = Some (i, nm) \<Longrightarrow> predefined nm \<Longrightarrow> net_key st' k = net_key st k"
  shows "net_inv w st'"
proof -
  have sub: "net_key st' k = Some x \<Longrightarrow> net_key st k = Some x" for k x
    using key [of k] by auto
  have fixed: "net_key st' bridgeID = Some (bridgeID, ''bridge'')" "net_key st' hostID = Some (hostID, ''host'')"
      "net_key st' noneID = Some (noneID, ''none'')"
    using keep net_invD(5-7) [OF inv] by (simp_all add: predefined_def)
  show ?thesis
    unfolding net_inv_def
  proof (intro conjI allI impI)
    fix k k' i i' nm assume k: "net_key st' k = Some (i, nm)"
    show "i = k" using net_invD(2) [OF inv sub [OF k]] .
    show "k \<in> {bridgeID, hostID, noneID} \<or> (\<exists>j < st_idn st'. k = w_ids w j)"
      using net_invD(3) [OF inv sub [OF k]] by (simp add: idn)
    assume "net_key st' k' = Some (i', nm)"
    from net_invD(4) [OF inv sub [OF k] sub [OF this]] show "k = k'" .
  qed (use wf fixed in simp_all)
qed

lemma net_inv_Remove:
  assumes inv: "net_inv w st"
  shows "net_inv w (fst (Driver_Remove ref st))"
proof (cases "ResolveNetwork ref st")
  case (Some n)
  show ?thesis
  proof (cases "predefined (nw_Name n)")
    case False
    show ?thesis
    proof (rule net_inv_restrict [OF inv])
      fix k i nm assume k: "net_key st k = Some (i, nm)" "predefined nm"
      with False have "k \<noteq> nw_ID n" using Resolve_key [OF inv Some] by auto
      then show "net_key (fst (Driver_Remove ref st)) k = net_key st k"
        using Some False by (simp add: Driver_Remove_def net_key_def)
    qed (use Some False net_invD(1) [OF inv] in \<open>simp_all add: Driver_Remove_def net_key_def\<close>)
  qed (use Some inv in \<open>simp add: Driver_Remove_def\<close>)
qed (use inv in \<open>simp add: Driver_Remove_def\<close>)

lemma net_inv_Prune:
  assumes inv: "net_inv w st"
  shows "net_inv w (fst (Driver_Prune f st))"
proof (rule net_inv_restrict [OF inv])
  have get: "StateStore_Get k (st_Networks (fst (Driver_Prune f st))) =
      (case StateStore_Get k (st_Networks st) of None \<Rightarrow> None
       | Some n \<Rightarrow> if \<not> predefined (nw_Name n) \<and> nw_Containers n = [] \<and> MatchNetworkPruneFilters n f then None else Some n)" for k
    by (simp add: Driver_Prune_def Let_def case_prod_beta get_PruneIf [OF net_invD(1) [OF inv]] split: option.split)
  fix k
  show "net_key (fst (Driver_Prune f st)) k = net_key st k \<or> net_key (fst (Driver_Prune f st)) k = None"
    by (simp add: net_key_def get split: option.split)
  fix i nm assume "net_key st k = Some (i, nm)" "predefined nm"
  then show "net_key (fst (Driver_Prune f st)) k = net_key st k"
    by (auto simp: net_key_def get split: option.split)
qed (use net_invD(1) [OF inv] in \<open>simp_all add: Driver_Prune_def Let_def case_prod_beta\<close>)

section \<open>Histories of network calls\<close>

datatype net_op =
    NCreate NetworkCreateRequest
  | NRemove string
  | NConnect string string "EndpointSettings option"
  | NDisconnect string string bool
  | NPrune "string list gomap"

fun net_step :: "World \<Rightarrow> net_op \<Rightarrow> Store \<Rightarrow> Store" where
  "net_step w (NCreate req) st = fst (NetworkCreate w req st)"
| "net_step w (NRemove ref) st = fst (NetworkRemove w ref st)"
| "net_step w (NConnect ref c cf) st = fst (NetworkConnect w ref c cf st)"
| "net_step w (NDisconnect ref c force) st = fst (NetworkDisconnect w ref c force st)"
| "net_step w (NPrune f) st = fst (NetworkPrune w f st)"

definition net_run :: "World \<Rightarrow> net_op list \<Rightarrow> Store \<Rightarrow> Store" where
  "net_run w ops st = foldl (\<lambda>st op. net_step w op st) st ops"

lemma same_nets_NetworkConnect: "same_nets st (fst (NetworkConnect w ref c cf st))"
proof (cases "ResolveNetwork ref st")
  case (Some net)
  note net = this
  show ?thesis
  proof (cases "ResolveContainerID c st")
    case None
    with net show ?thesis by (simp add: NetworkConnect_def ResolveContainerIDAuto_def ResolveContainerID_def)
  next
    case (Some cid)
    let ?r = "Driver_Connect w (nw_ID net) cid cf st"
    have sn: "same_nets st (fst ?r)" by (rule same_nets_Connect)
    then have *: "same_nets st st'" if "st_Networks st' = st_Networks (fst ?r)" "st_idn st' = st_idn (fst ?r)" for st'
      using that by (simp add: same_nets_def net_key_def fun_eq_iff)
    show ?thesis
      using net Some
      by (cases ?r; cases "snd ?r"; intro *)
        (auto simp: NetworkConnect_def ResolveContainerIDAuto_def ResolveContainerID_def Let_def
          split: prod.split option.split bool.split)
  qed
qed (simp add: NetworkConnect_def)

lemma same_nets_NetworkDisconnect: "same_nets st (fst (NetworkDisconnect w ref c force st))"
proof (cases "ResolveNetwork ref st")
  case (Some net)
  then show ?thesis
    by (auto simp: NetworkDisconnect_def Let_def split: option.split
        intro: same_nets_trans [OF same_nets_Disconnect emitEvent_same_nets])
qed (simp add: NetworkDisconnect_def)

lemma foldl_emit_same:
  "same_nets st (foldl (\<lambda>st nid. emitEvent w a b nid (g nid) st) st ids)"
proof (induction ids arbitrary: st)
  case (Cons i ids)
  show ?case using same_nets_trans [OF emitEvent_same_nets Cons.IH] by simp
qed simp

lemma net_inv_step:
  assumes w: "world_ok w" and inv: "net_inv w st"
  shows "net_inv w (net_step w op st)"
proof (cases op)
  case (NCreate req)
  obtain st1 r where r: "Driver_Create w (nr_Name req) req st = (st1, r)" by (rule prod.exhaust)
  have "net_inv w st1" using net_inv_Create [OF w inv, of "nr_Name req" req] by (simp add: r)
  with inv NCreate r net_inv_same [OF _ emitEvent_same_nets] show ?thesis
    by (cases r) (simp_all add: NetworkCreate_def)
next
  case (NRemove ref)
  show ?thesis
  proof (cases "ResolveNetwork ref st")
    case (Some n)
    obtain st1 r where r: "Driver_Remove (nw_ID n) st = (st1, r)" by (rule prod.exhaust)
    have "net_inv w st1" using net_inv_Remove [OF inv, of "nw_ID n"] by (simp add: r)
    with NRemove r Some net_inv_same [OF _ emitEvent_same_nets] show ?thesis
      by (cases r) (simp_all add: NetworkRemove_def)
  qed (use inv NRemove in \<open>simp add: NetworkRemove_def\<close>)
next
  case (NPrune f)
  then show ?thesis
    using net_inv_same [OF net_inv_Prune [OF inv] foldl_emit_same]
    by (simp add: NetworkPrune_def Let_def case_prod_beta)
qed (use net_inv_same [OF inv same_nets_NetworkConnect] net_inv_same [OF inv same_nets_NetworkDisconnect]
     in simp_all)

lemma net_inv_run: "world_ok w \<Longrightarrow> net_inv w st \<Longrightarrow> net_inv w (net_run w ops st)"
proof (induction ops arbitrary: st)
  case (Cons op ops)
  then show ?case using net_inv_step [of w st op] by (simp add: net_run_def)
qed (simp add: net_run_def)

lemma net_inv_init:
  assumes "st_Networks st = []"
  shows "net_inv w (InitDefaultNetwork w st)"
proof -
  have "net_key (InitDefaultNetwork w st) k =
      (if k = bridgeID then Some (bridgeID, ''bridge'') else if k = hostID then Some (hostID, ''host'')
       else if k = noneID then Some (noneID, ''none'') else None)" for k
    using assms
    by (simp add: InitDefaultNetwork_def Let_def case_prod_beta net_key_def default_network_def
        bridgeID_def hostID_def noneID_def StateStore_Get_def [of k "[]"])
  moreover have "wf_map (st_Networks (InitDefaultNetwork w st))"
    using assms by (simp add: InitDefaultNetwork_def Let_def case_prod_beta)
  moreover have "bridgeID \<noteq> hostID" "bridgeID \<noteq> noneID" "hostID \<noteq> noneID"
    by (simp_all add: bridgeID_def hostID_def noneID_def)
  ultimately show ?thesis by (auto simp: net_inv_def split: if_splits)
qed

lemma net_inv_distinct_names:
  assumes inv: "net_inv w st"
  shows "distinct (map nw_Name (StateStore_List (st_Networks st)))"
proof -
  have "inj_on (\<lambda>(k, n). nw_Name n) (set (st_Networks st))"
  proof (rule inj_onI, clarsimp)
    fix k n k' n' assume "(k, n) \<in> set (st_Networks st)" "(k', n') \<in> set (st_Networks st)" "nw_Name n = nw_Name n'"
    then have "StateStore_Get k (st_Networks st) = Some n" "StateStore_Get k' (st_Networks st) = Some n'"
      using mget_in_set [OF net_invD(1) [OF inv]] by (simp_all add: StateStore_Get_def)
    moreover from this have "k = k'"
      using net_invD(4) [OF inv, of k "nw_ID n" "nw_Name n" k' "nw_ID n'"] \<open>nw_Name n = nw_Name n'\<close>
      by (simp add: net_key_def)
    ultimately show "k = k' \<and> n = n'" by simp
  qed
  moreover have "distinct (st_Networks st)"
    using net_invD(1) [OF inv] by (simp add: distinct_map)
  ultimately have "distinct (map (\<lambda>(k, n). nw_Name n) (st_Networks st))"
    by (simp add: distinct_map)
  then show ?thesis by (simp add: StateStore_List_def comp_def split_def)
qed

text \<open>
  C32: network names are unique and the predefined networks stay. After the default networks are
  set up, whatever the containers are, every history of create, remove, connect, disconnect and prune
  calls leaves a network list without a repeated name, in which \<open>bridge\<close>, \<open>host\<close> and \<open>none\<close> are still
  found under their fixed identifiers.
\<close>

theorem network_names_unique:
  fixes ops :: "net_op list"
  assumes "world_ok w" and "st_Networks st = []"
  defines "st' \<equiv> net_run w ops (InitDefaultNetwork w st)"
  shows "distinct (map nw_Name (NetworkList [] st')) \<and>
         (\<forall>(i, nm) \<in> {(bridgeID, ''bridge''), (hostID, ''host''), (noneID, ''none'')}.
            \<exists>n. NetworkInspect i st' = Inr n \<and> nw_ID n = i \<and> nw_Name n = nm)"
proof -
  have inv: "net_inv w st'" unfolding st'_def by (rule net_inv_run [OF assms(1) net_inv_init [OF assms(2)]])
  have "NetworkList [] st' = StateStore_List (st_Networks st')"
    by (simp add: NetworkList_def Driver_List_def MatchNetworkFilters_def)
  moreover have "\<exists>n. NetworkInspect i st' = Inr n \<and> nw_ID n = i \<and> nw_Name n = nm"
    if "net_key st' i = Some (i, nm)" for i nm
    using that by (auto simp: net_key_def NetworkInspect_def Driver_Inspect_def ResolveNetwork_def)
  ultimately show ?thesis
    using net_inv_distinct_names [OF inv] net_invD(5-7) [OF inv] by simp
qed

text \<open>A world for the witnesses: the \<open>i\<close>-th identifier is \<open>i\<close> letters \<open>x\<close> after twelve of them.\<close>

definition demo_world :: World where
  "demo_world = \<lparr>w_ids = (\<lambda>i. replicate (12 + i) CHR ''x''), w_names = (\<lambda>i. replicate i CHR ''n''),
     w_clock = (\<lambda>i. 10 ^ 9 * int i), w_clock_text = (\<lambda>i. ''1970-01-01T00:00:0'' @ Itoa (int i) @ ''Z''),
     w_mktemp = (\<lambda>i. Some (''/tmp/'' @ Itoa (int i))), w_RootPath = (\<lambda>c. None), w_DirSize = (\<lambda>d. 0),
     w_sha256 = (\<lambda>s. s)\<rparr>"

lemma demo_world_ok: "world_ok demo_world"
proof -
  have "replicate (12 + i) CHR ''x'' \<notin> {bridgeID, hostID, noneID}" for i
    by (cases i) (simp_all add: bridgeID_def hostID_def noneID_def numeral_eq_Suc)
  moreover have "inj (\<lambda>i. replicate (12 + i) CHR ''x'')"
    by (rule injI) (metis add_left_imp_eq length_replicate)
  ultimately show ?thesis by (simp add: world_ok_def demo_world_def)
qed

definition demo_net_req :: NetworkCreateRequest where
  "demo_net_req = \<lparr>nr_Attachable = False, nr_Driver = [], nr_EnableIPv6 = False, nr_IPAM = None,
     nr_Ingress = False, nr_Internal = False, nr_Labels = None, nr_Name = ''app'', nr_Options = None\<rparr>"

theorem network_names_unique_witness:
  "let st = net_run demo_world [NCreate demo_net_req, NCreate demo_net_req, NRemove ''bridge''] (InitDefaultNetwork demo_world NewStore)
   in distinct (map nw_Name (NetworkList [] st)) \<and> (\<exists>n. NetworkInspect bridgeID st = Inr n \<and> nw_Name n = ''bridge'')"
proof -
  have "st_Networks NewStore = []" by (simp add: NewStore_def NewStateStore_def)
  from network_names_unique [OF demo_world_ok this] show ?thesis by (fastforce simp: Let_def)
qed

section \<open>Connect and disconnect\<close>

text \<open>What the two driver calls leave behind on a network with its own address pool.\<close>

lemma Connect_effect:
  fixes w :: World and cf :: "EndpointSettings option"
  assumes net: "StateStore_Get nid (st_Networks st) = Some net" "nw_ID net = nid"
    and c: "get_container cid st = Some c" "mget (ns_Networks (c_NetworkSettings c)) (nw_Name net) = None"
  defines "st1 \<equiv> fst (Driver_Connect w nid cid cf st)"
    and "ep \<equiv> snd (new_endpoint w net cf st)"
  shows "st_IPAlloc st1 = fst (AllocateIP nid (st_IPAlloc st))"
    and "endpoint_of cid (nw_Name net) st1 = Some ep"
    and "\<exists>n. StateStore_Get nid (st_Networks st1) = Some n \<and> nw_ID n = nid \<and> nw_Name n = nw_Name net \<and>
           (\<exists>er. nw_Containers n = mput cid er (nw_Containers net) \<and>
                 er_IPv4Address er = es_IPAddress ep @ ''/'' @ Itoa (es_IPPrefixLen ep))"
proof -
  have res: "ResolveNetwork nid st = Some net" using net by (simp add: ResolveNetwork_def)
  have rel: "release_endpoint net cid st = st" using c by (simp add: release_endpoint_def endpoint_of_def)
  show "st_IPAlloc st1 = fst (AllocateIP nid (st_IPAlloc st))"
    using net by (simp add: st1_def Driver_Connect_def res rel Let_def case_prod_beta)
  show "endpoint_of cid (nw_Name net) st1 = Some ep"
    using c by (simp add: st1_def ep_def Driver_Connect_def res rel Let_def case_prod_beta endpoint_of_def)
  show "\<exists>n. StateStore_Get nid (st_Networks st1) = Some n \<and> nw_ID n = nid \<and> nw_Name n = nw_Name net \<and>
           (\<exists>er. nw_Containers n = mput cid er (nw_Containers net) \<and>
                 er_IPv4Address er = es_IPAddress ep @ ''/'' @ Itoa (es_IPPrefixLen ep))"
    using net by (auto simp: st1_def ep_def Driver_Connect_def res rel Let_def case_prod_beta add_to_network_def)
qed

lemma Disconnect_effect:
  assumes net: "StateStore_Get nid (st_Networks st) = Some net" "nw_ID net = nid"
    and ep: "endpoint_of cid (nw_Name net) st = Some ep"
  defines "st2 \<equiv> fst (Driver_Disconnect nid cid st)"
  shows "st_IPAlloc st2 = ReleaseIP nid (es_IPAddress ep) (st_IPAlloc st)"
    and "endpoint_of cid (nw_Name net) st2 = None"
    and "map_option nw_Containers (StateStore_Get nid (st_Networks st2)) = Some (mdel cid (nw_Containers net))"
proof -
  have res: "ResolveNetwork nid st = Some net" using net by (simp add: ResolveNetwork_def)
  show "st_IPAlloc st2 = ReleaseIP nid (es_IPAddress ep) (st_IPAlloc st)"
    using net ep by (simp add: st2_def Driver_Disconnect_def res Let_def release_endpoint_def)
  show "endpoint_of cid (nw_Name net) st2 = None"
    by (cases "get_container cid st") (simp_all add: st2_def Driver_Disconnect_def res Let_def endpoint_of_def)
  show "map_option nw_Containers (StateStore_Get nid (st_Networks st2)) = Some (mdel cid (nw_Containers net))"
    using net by (simp add: st2_def Driver_Disconnect_def res Let_def)
qed

text \<open>
  connect and disconnect are inverse for the network and the pool. A container that is connected
  without a static address gets the endpoint of the next grant; after it is disconnected it has no
  endpoint there, the network's table is the old one without the container, and the pool offers the
  same grant again.
\<close>

theorem connect_disconnect_roundtrip:
  fixes w :: World and cf :: "EndpointSettings option"
  assumes net: "StateStore_Get nid (st_Networks st) = Some net" "nw_ID net = nid"
    and c: "get_container cid st = Some c" "mget (ns_Networks (c_NetworkSettings c)) (nw_Name net) = None"
    and pool: "mget (ipa_subnets (st_IPAlloc st)) nid = Some sn" "2 \<le> fst (take_host sn)" "fst (take_host sn) < 2 ^ 63"
    and cf: "case cf of None \<Rightarrow> True | Some e \<Rightarrow> es_IPAddress e = []"
  defines "st1 \<equiv> fst (Driver_Connect w nid cid cf st)"
    and "st2 \<equiv> fst (Driver_Disconnect nid cid (fst (Driver_Connect w nid cid cf st)))"
  shows "map_option es_IPAddress (endpoint_of cid (nw_Name net) st1) = Some (gr_ip (snd (AllocateIP nid (st_IPAlloc st))))
    \<and> endpoint_of cid (nw_Name net) st2 = None
    \<and> map_option nw_Containers (StateStore_Get nid (st_Networks st2)) = Some (mdel cid (nw_Containers net))
    \<and> snd (AllocateIP nid (st_IPAlloc st2)) = snd (AllocateIP nid (st_IPAlloc st))"
proof -
  let ?ep = "snd (new_endpoint w net cf st)" and ?g = "snd (AllocateIP nid (st_IPAlloc st))"
  have ip: "es_IPAddress ?ep = gr_ip ?g"
    using cf net by (auto simp: new_endpoint_def Let_def case_prod_beta split: option.split)
  note con = Connect_effect [OF net c, of w cf, folded st1_def]
  obtain n er where n: "StateStore_Get nid (st_Networks st1) = Some n" "nw_ID n = nid" "nw_Name n = nw_Name net"
      "nw_Containers n = mput cid er (nw_Containers net)"
    using con(3) by blast
  have "endpoint_of cid (nw_Name n) st1 = Some ?ep" using con(2) n by simp
  note dis = Disconnect_effect [OF n(1,2) this, folded st1_def]
  have "snd (AllocateIP nid (st_IPAlloc st2)) = ?g"
    using release_allocate [OF pool(1), of "fst (AllocateIP nid (st_IPAlloc st))" ?g "fst (take_host sn)"]
      pool dis(1) con(1) ip
    by (simp add: st2_def st1_def [symmetric])
  moreover have "mdel cid (mput cid er (nw_Containers net)) = mdel cid (nw_Containers net)"
    by (simp add: delete_update_same)
  ultimately show ?thesis
    using dis con(2) n ip by (simp add: st2_def st1_def [symmetric])
qed

text \<open>
  a static address leaks the one the pool granted. With a requested address outside the pool's
  range, connect takes a host number from the pool that no endpoint shows, and disconnect gives back the
  requested address, which the pool ignores: the next grant is the following number.
\<close>

theorem static_address_leaks:
  fixes w :: World
  assumes net: "StateStore_Get nid (st_Networks st) = Some net" "nw_ID net = nid"
    and c: "get_container cid st = Some c" "mget (ns_Networks (c_NetworkSettings c)) (nw_Name net) = None"
    and pool: "mget (ipa_subnets (st_IPAlloc st)) nid = Some sn" "sn_released sn = []"
    and static: "es_IPAddress e \<noteq> []" "\<not> HasPrefix (es_IPAddress e) (sn_base sn)"
  defines "st2 \<equiv> fst (Driver_Disconnect nid cid (fst (Driver_Connect w nid cid (Some e) st)))"
  shows "gr_ip (snd (AllocateIP nid (st_IPAlloc st))) = sn_base sn @ Itoa (sn_nextHost sn) \<and>
         gr_ip (snd (AllocateIP nid (st_IPAlloc st2))) = sn_base sn @ Itoa (sn_nextHost sn + 1)"
proof -
  let ?st1 = "fst (Driver_Connect w nid cid (Some e) st)" and ?ep = "snd (new_endpoint w net (Some e) st)"
  have ip: "es_IPAddress ?ep = es_IPAddress e"
    using static by (simp add: new_endpoint_def Let_def case_prod_beta)
  note con = Connect_effect [OF net c, of w "Some e"]
  obtain n where n: "StateStore_Get nid (st_Networks ?st1) = Some n" "nw_ID n = nid" "nw_Name n = nw_Name net"
    using con(3) by blast
  have "endpoint_of cid (nw_Name n) ?st1 = Some ?ep" using con(2) n by simp
  from Disconnect_effect(1) [OF n(1,2) this] have "st_IPAlloc st2 = ReleaseIP nid (es_IPAddress e) (st_IPAlloc ?st1)"
    by (simp add: st2_def ip)
  moreover have sn': "mget (ipa_subnets (st_IPAlloc ?st1)) nid = Some (sn\<lparr>sn_nextHost := sn_nextHost sn + 1\<rparr>)"
    using AllocateIP_Some [OF pool(1)] pool(2) con(1) by (simp add: take_host_def)
  ultimately have "st_IPAlloc st2 = st_IPAlloc ?st1"
    using static by (simp add: ReleaseIP_def)
  with sn' pool show ?thesis by (simp add: AllocateIP_def Let_def take_host_def)
qed

text \<open>The instances of the witnesses: a container without endpoints and a network with a small pool.\<close>

definition demo_pool :: subnetState where
  "demo_pool = \<lparr>sn_base = ''10.0.0.'', sn_gateway = ''10.0.0.1'', sn_mask = 24, sn_nextHost = 2, sn_released = []\<rparr>"

definition demo_net :: Network where
  "demo_net = default_network ''app'' ''net1'' ''bridge'' [] zero_time"

definition demo_config :: ContainerConfig where
  "demo_config = \<lparr>cc_AttachStderr = False, cc_AttachStdout = False, cc_Cmd = [''sh''], cc_Entrypoint = [],
     cc_Env = [], cc_ExposedPorts = [], cc_Healthcheck = None, cc_Hostname = [], cc_Image = ''alpine'',
     cc_Labels = None, cc_StopSignal = [], cc_Tty = False, cc_User = [], cc_Volumes = [], cc_WorkingDir = []\<rparr>"

definition demo_host_config :: HostConfig where
  "demo_host_config = \<lparr>ho_AutoRemove = False, ho_Binds = [], ho_ExtraHosts = [], ho_LogType = [],
     ho_LogConfig = None, ho_Memory = 0, ho_Mounts = [], ho_NetworkMode = ''none'', ho_PortBindings = [],
     ho_RestartPolicy = \<lparr>rp_MaximumRetryCount = 0, rp_Name = []\<rparr>, ho_ShmSize = 0, ho_Tmpfs = []\<rparr>"

definition created_state :: ContainerState where
  "created_state = \<lparr>cs_Dead = False, cs_Error = [], cs_ExitCode = 0, cs_FinishedAt = zero_time, cs_Health = None,
     cs_OOMKilled = False, cs_Paused = False, cs_Pid = 0, cs_Restarting = False, cs_Running = False,
     cs_StartedAt = zero_time, cs_Status = ''created''\<rparr>"

definition no_network_settings :: NetworkSettings where
  "no_network_settings = \<lparr>ns_Bridge = [], ns_EndpointID = [], ns_Gateway = [], ns_IPAddress = [], ns_IPPrefixLen = 0,
     ns_MacAddress = [], ns_Networks = [], ns_Ports = [], ns_SandboxID = [], ns_SandboxKey = []\<rparr>"

definition demo_container :: Container where
  "demo_container = \<lparr>c_Args = [], c_Config = demo_config, c_Created = zero_time, c_Driver = [], c_ExecIDs = [],
     c_HostConfig = demo_host_config, c_HostnamePath = [], c_HostsPath = [], c_ID = ''container0001'',
     c_Image = [], c_LogPath = [], c_Mounts = [], c_Name = ''/web'', c_NetworkSettings = no_network_settings,
     c_Path = [], c_Platform = [], c_ResolvConfPath = [], c_RestartCount = 0, c_State = created_state\<rparr>"

definition demo_store :: Store where
  "demo_store = NewStore\<lparr>st_Networks := [(''net1'', demo_net)],
     st_Containers := [(''container0001'', demo_container)], st_ContainerNames := [(''/web'', ''container0001'')],
     st_IPAlloc := \<lparr>ipa_subnets = [(''net1'', demo_pool)], ipa_nextByte = 18\<rparr>\<rparr>"

definition demo_static :: EndpointSettings where
  "demo_static = \<lparr>es_Aliases = [], es_EndpointID = [], es_Gateway = [], es_IPAMConfig = None,
     es_IPAddress = ''10.9.0.5'', es_IPPrefixLen = 0, es_MacAddress = [], es_NetworkID = []\<rparr>"

lemma demo_store_facts:
  "StateStore_Get ''net1'' (st_Networks demo_store) = Some demo_net" "nw_ID demo_net = ''net1''"
  "get_container ''container0001'' demo_store = Some demo_container"
  "mget (ns_Networks (c_NetworkSettings demo_container)) (nw_Name demo_net) = None"
  "mget (ipa_subnets (st_IPAlloc demo_store)) ''net1'' = Some demo_pool"
  "2 \<le> fst (take_host demo_pool)" "fst (take_host demo_pool) < 2 ^ 63" "sn_released demo_pool = []"
  "es_IPAddress demo_static \<noteq> []" "\<not> HasPrefix (es_IPAddress demo_static) (sn_base demo_pool)"
  by (simp_all add: demo_store_def demo_net_def default_network_def demo_container_def no_network_settings_def
      demo_pool_def take_host_def demo_static_def HasPrefix_def StateStore_Get_def)

theorem connect_disconnect_roundtrip_witness:
  "endpoint_of ''container0001'' ''app''
     (fst (Driver_Disconnect ''net1'' ''container0001'' (fst (Driver_Connect demo_world ''net1'' ''container0001'' None demo_store))))
     = None"
proof -
  have "nw_Name demo_net = ''app''" by (simp add: demo_net_def default_network_def)
  moreover have "case None of None \<Rightarrow> True | Some e \<Rightarrow> es_IPAddress e = []" by simp
  ultimately show ?thesis
    using connect_disconnect_roundtrip [OF demo_store_facts(1-7), of None demo_world] by simp
qed

theorem static_address_leaks_witness:
  "gr_ip (snd (AllocateIP ''net1'' (st_IPAlloc
     (fst (Driver_Disconnect ''net1'' ''container0001''
        (fst (Driver_Connect demo_world ''net1'' ''container0001'' (Some demo_static) demo_store))))))) = ''10.0.0.'' @ Itoa 3"
  using static_address_leaks [OF demo_store_facts(1-5,8-10), of demo_world] by (simp add: demo_pool_def)

end
