(* ===== verification/Containers.thy ===== *)
theory Containers
  imports Networks "HOL-Library.Word"
begin

text \<open>
  The container operations of \<open>backends/core\<close>: building a container from a request
  (\<open>handle_containers.go\<close>, \<open>handle_containers_archive.go\<close>) and the handlers of \<open>backend_impl.go\<close> from
  \<open>ContainerCreate\<close> to \<open>ContainerUnpause\<close>. \<open>GenerateID\<close> yields 64 characters, so the slices
  \<open>id[:12]\<close> and \<open>GenerateID()[:16]\<close> are \<open>take\<close>. A call through a nil pod pointer sets \<open>st_panicked\<close>.
\<close>

section \<open>Configuration\<close>

definition hasEnvKey :: "string list \<Rightarrow> string \<Rightarrow> bool" where
  "hasEnvKey env key = list_ex (\<lambda>e. HasPrefix e (key @ ''='')) env"

text \<open>\<open>k, _, _ := strings.Cut(e, "=")\<close>.\<close>

definition env_key :: "string \<Rightarrow> string" where
  "env_key e = (case Cut e CHR ''='' of Some (k, v) \<Rightarrow> k | None \<Rightarrow> e)"

definition MergeEnvByKey :: "string list \<Rightarrow> string list \<Rightarrow> string list" where
  "MergeEnvByKey base override =
     (if override = [] then base
      else if base = [] then override
      else
        (let (keys, order) = foldl (\<lambda>(keys, order) e. (mput (env_key e) e keys, order @ [env_key e])) ([], []) base;
             (keys, order) = foldl (\<lambda>(keys, order) e.
                 (mput (env_key e) e keys, if mget keys (env_key e) = None then order @ [env_key e] else order))
               (keys, order) override
         in map (mget_str keys) order))"

definition FormatExtraHostsEnv :: "string list \<Rightarrow> string" where
  "FormatExtraHostsEnv extraHosts = Join extraHosts '',''"

definition BuildHostsFile :: "string \<Rightarrow> string list \<Rightarrow> string" where
  "BuildHostsFile hostname extraHosts =
     ''127.0.0.1'' @ [CHR 0x09] @ ''localhost'' @ [CHR 0x0A] @
     ''::1'' @ [CHR 0x09] @ ''localhost'' @ [CHR 0x0A] @
     (if hostname \<noteq> [] then ''127.0.0.1'' @ [CHR 0x09] @ hostname @ [CHR 0x0A] else []) @
     concat (map (\<lambda>entry. case SplitN2 entry CHR '':'' of
                            [h, ip] \<Rightarrow> ip @ [CHR 0x09] @ h @ [CHR 0x0A]
                          | _ \<Rightarrow> []) extraHosts)"

definition zero_mount :: MountPoint where
  "zero_mount = \<lparr>mp_Destination = [], mp_Driver = [], mp_Mode = [], mp_Name = [], mp_Propagation = [],
                 mp_RW = False, mp_Source = [], mp_Type = []\<rparr>"

definition bind_mount :: "string \<Rightarrow> MountPoint list" where
  "bind_mount bind =
     (let mk = (\<lambda>source dest mode rw.
            [zero_mount\<lparr>mp_Type := (if HasPrefix source ''/'' then ''bind'' else ''volume''),
                        mp_Name := (if HasPrefix source ''/'' then [] else source),
                        mp_Source := source, mp_Destination := dest, mp_Mode := mode, mp_RW := rw\<rparr>])
      in case SplitN3 bind CHR '':'' of
           [source, dest] \<Rightarrow> mk source dest [] True
         | [source, dest, mode] \<Rightarrow> mk source dest mode (mode \<noteq> ''ro'')
         | _ \<Rightarrow> [])"

definition buildMounts :: "HostConfig \<Rightarrow> MountPoint list" where
  "buildMounts hc =
     concat (map bind_mount (ho_Binds hc)) @
     map (\<lambda>m. zero_mount\<lparr>mp_Type := ms_Type m, mp_Name := ms_Source m, mp_Source := ms_Source m,
                         mp_Destination := ms_Target m, mp_RW := \<not> ms_ReadOnly m\<rparr>) (ho_Mounts hc) @
     map (\<lambda>(containerPath, opts). zero_mount\<lparr>mp_Type := ''tmpfs'', mp_Destination := containerPath, mp_RW := True\<rparr>)
       (ho_Tmpfs hc)"

text \<open>The directories made for the tmpfs mounts; a mount whose directory cannot be made is skipped.\<close>

fun resolveTmpfsMounts :: "World \<Rightarrow> string gomap \<Rightarrow> Store \<Rightarrow> Store \<times> string gomap" where
  "resolveTmpfsMounts w [] st = (st, [])"
| "resolveTmpfsMounts w ((containerPath, opts) # tmpfs) st =
     (let (st, dir) = MkdirTemp w st;
          (st, result) = resolveTmpfsMounts w tmpfs st
      in (st, case dir of None \<Rightarrow> result | Some d \<Rightarrow> (containerPath, d) # result))"

section \<open>Building a container\<close>

definition zero_config :: ContainerConfig where
  "zero_config = \<lparr>cc_AttachStderr = False, cc_AttachStdout = False, cc_Cmd = [], cc_Entrypoint = [],
     cc_Env = [], cc_ExposedPorts = [], cc_Healthcheck = None, cc_Hostname = [], cc_Image = [],
     cc_Labels = None, cc_StopSignal = [], cc_Tty = False, cc_User = [], cc_Volumes = [], cc_WorkingDir = []\<rparr>"

definition zero_host_config :: HostConfig where
  "zero_host_config = \<lparr>ho_AutoRemove = False, ho_Binds = [], ho_ExtraHosts = [], ho_LogType = [],
     ho_LogConfig = None, ho_Memory = 0, ho_Mounts = [], ho_NetworkMode = [], ho_PortBindings = [],
     ho_RestartPolicy = \<lparr>rp_MaximumRetryCount = 0, rp_Name = []\<rparr>, ho_ShmSize = 0, ho_Tmpfs = []\<rparr>"

definition buildEndpointForNetwork ::
  "World \<Rightarrow> string \<Rightarrow> string \<Rightarrow> string \<Rightarrow> EndpointSettings option \<Rightarrow> Store \<Rightarrow> Store \<times> EndpointSettings option" where
  "buildEndpointForNetwork w netRef containerID containerName reqEndpoint st =
     (case ResolveNetwork netRef st of
        None \<Rightarrow> (st, None)
      | Some net \<Rightarrow>
          (let (st, endpoint) = new_endpoint w net reqEndpoint st;
               st = add_to_network net containerID containerName endpoint st
           in (st, Some endpoint)))"

text \<open>The loop over \<open>networkingConfig.EndpointsConfig\<close>; it extends the container's endpoint map.\<close>

fun explicit_endpoints ::
  "World \<Rightarrow> string \<Rightarrow> string \<Rightarrow> EndpointSettings option gomap \<Rightarrow> Store \<Rightarrow> EndpointSettings gomap
   \<Rightarrow> Store \<times> EndpointSettings gomap" where
  "explicit_endpoints w cid name [] st nets = (st, nets)"
| "explicit_endpoints w cid name ((netRef, reqEndpoint) # rest) st nets =
     (case buildEndpointForNetwork w netRef cid name reqEndpoint st of
        (st, None) \<Rightarrow> explicit_endpoints w cid name rest st nets
      | (st, Some ep) \<Rightarrow>
          (let displayName = (case ResolveNetwork netRef st of None \<Rightarrow> netRef | Some net \<Rightarrow> nw_Name net)
           in explicit_endpoints w cid name rest st (mput displayName ep nets)))"

definition path_and_args :: "ContainerConfig \<Rightarrow> string \<times> string list" where
  "path_and_args config =
     (case cc_Entrypoint config of
        e # es \<Rightarrow> (e, es @ cc_Cmd config)
      | [] \<Rightarrow> (case cc_Cmd config of c # cs \<Rightarrow> (c, cs) | [] \<Rightarrow> ([], [])))"

text \<open>\<open>driver\<close> is \<open>s.Desc.Driver\<close>.\<close>

definition buildContainerFromConfig ::
  "World \<Rightarrow> string \<Rightarrow> string \<Rightarrow> string \<Rightarrow> ContainerConfig \<Rightarrow> HostConfig \<Rightarrow> EndpointSettings option gomap
   \<Rightarrow> Store \<Rightarrow> Store \<times> Container" where
  "buildContainerFromConfig w driver cid name config hostConfig endpointsConfig st =
     (let (path, args) = path_and_args config;
          imageField = (case ResolveImage (cc_Image config) st of Some img \<Rightarrow> im_ID img | None \<Rightarrow> cc_Image config);
          (st, now) = now_text w st;
          dir = ''/var/lib/sockerless/containers/'' @ cid;
          netName = (if ho_NetworkMode hostConfig = ''default'' then ''bridge'' else ho_NetworkMode hostConfig);
          (st, endpoint) = buildEndpointForNetwork w netName cid name None st;
          nets = (case endpoint of Some ep \<Rightarrow> mput netName ep [] | None \<Rightarrow> []);
          (st, nets) = explicit_endpoints w cid name endpointsConfig st nets
      in (st,
          \<lparr>c_Args = args, c_Config = config, c_Created = now, c_Driver = driver, c_ExecIDs = [],
           c_HostConfig = hostConfig, c_HostnamePath = dir @ ''/hostname'', c_HostsPath = dir @ ''/hosts'',
           c_ID = cid, c_Image = imageField, c_LogPath = dir @ ''/'' @ cid @ ''-json.log'',
           c_Mounts = buildMounts hostConfig, c_Name = name,
           c_NetworkSettings =
             \<lparr>ns_Bridge = (if netName = ''bridge'' then ''docker0'' else []), ns_EndpointID = [], ns_Gateway = [],
              ns_IPAddress = [], ns_IPPrefixLen = 0, ns_MacAddress = [], ns_Networks = nets,
              ns_Ports = ho_PortBindings hostConfig, ns_SandboxID = cid,
              ns_SandboxKey = ''/var/run/docker/netns/'' @ take 12 cid\<rparr>,
           c_Path = path, c_Platform = ''linux'', c_ResolvConfPath = dir @ ''/resolv.conf'', c_RestartCount = 0,
           c_State = \<lparr>cs_Dead = False, cs_Error = [], cs_ExitCode = 0, cs_FinishedAt = zero_time, cs_Health = None,
                      cs_OOMKilled = False, cs_Paused = False, cs_Pid = 0, cs_Restarting = False,
                      cs_Running = False, cs_StartedAt = zero_time, cs_Status = ''created''\<rparr>\<rparr>))"

section \<open>Create\<close>

record ContainerCreateRequest =
  cr_Config :: "ContainerConfig option"
  cr_HostConfig :: "HostConfig option"
  cr_Name :: string
  cr_Endpoints :: "EndpointSettings option gomap"

text \<open>The configuration with what it inherits from its image.\<close>

definition inherit_image :: "ContainerConfig \<Rightarrow> Store \<Rightarrow> ContainerConfig" where
  "inherit_image config st =
     (case ResolveImage (cc_Image config) st of
        None \<Rightarrow> config
      | Some img \<Rightarrow>
          (let ic = im_Config img;
               config = config\<lparr>cc_Env := MergeEnvByKey (cc_Env ic) (cc_Env config)\<rparr>;
               config = (if cc_Cmd config = [] \<and> cc_Entrypoint config = [] then config\<lparr>cc_Cmd := cc_Cmd ic\<rparr> else config);
               config = (if cc_Entrypoint config = [] then config\<lparr>cc_Entrypoint := cc_Entrypoint ic\<rparr> else config)
           in if cc_WorkingDir config = [] then config\<lparr>cc_WorkingDir := cc_WorkingDir ic\<rparr> else config))"

abbreviation on_pods :: "(PodRegistry \<Rightarrow> PodRegistry) \<Rightarrow> Store \<Rightarrow> Store" where
  "on_pods f st \<equiv> st\<lparr>st_Pods := f (st_Pods st)\<rparr>"

definition add_to_pod :: "string \<Rightarrow> string \<Rightarrow> Store \<Rightarrow> Store" where
  "add_to_pod pid cid st = on_pods (\<lambda>pr. fst (AddContainer pid cid pr)) st"

definition in_pod :: "string \<Rightarrow> Store \<Rightarrow> bool" where
  "in_pod cid st = snd (GetPodForContainer cid (st_Pods st))"

definition create_pod :: "World \<Rightarrow> string \<Rightarrow> Store \<Rightarrow> Store \<times> string" where
  "create_pod w name st =
     (let (st, pid) = GenerateID w st; (st, now) = now_text w st
      in (on_pods (\<lambda>pr. fst (CreatePod pid now name None pr)) st, pid))"

text \<open>\<open>AddContainer(pod.ID, id)\<close> with the pod of a lookup that reported success.\<close>

definition add_to_found_pod :: "PodContext option \<Rightarrow> string \<Rightarrow> Store \<Rightarrow> Store" where
  "add_to_found_pod p cid st =
     (case p of None \<Rightarrow> st\<lparr>st_panicked := True\<rparr> | Some pod \<Rightarrow> add_to_pod (pc_ID pod) cid st)"

text \<open>Implicit grouping for \<open>container:\<close> network mode. An unresolved reference is the empty identifier.\<close>

definition group_by_container :: "World \<Rightarrow> string \<Rightarrow> string \<Rightarrow> Store \<Rightarrow> Store" where
  "group_by_container w networkMode cid st =
     (if HasPrefix networkMode ''container:'' then
        (let refID = (case ResolveContainerIDAuto NewStateStore None (TrimPrefix networkMode ''container:'') st of
                        Some r \<Rightarrow> r | None \<Rightarrow> [])
         in if in_pod cid st then st
            else (case GetPodForContainer refID (st_Pods st) of
                    (p, True) \<Rightarrow> add_to_found_pod p cid st
                  | (p, False) \<Rightarrow>
                      (let short = (if length refID > 12 then take 12 refID else refID);
                           (st, pid) = create_pod w (''container-'' @ short) st
                       in add_to_pod pid cid (add_to_pod pid refID st))))
      else st)"

text \<open>Implicit grouping for user-defined networks: the loop over the names of the container's endpoints.\<close>

fun group_by_network :: "World \<Rightarrow> string \<Rightarrow> string list \<Rightarrow> Store \<Rightarrow> Store" where
  "group_by_network w cid [] st = st"
| "group_by_network w cid (netName # rest) st =
     (if netName = ''bridge'' \<or> netName = ''host'' \<or> netName = ''none'' \<or> netName = ''default''
      then group_by_network w cid rest st
      else
        (case GetPodForNetwork netName (st_Pods st) of
           (p, True) \<Rightarrow> add_to_found_pod p cid st
         | (p, False) \<Rightarrow>
             (case ResolveNetwork netName st of
                Some net \<Rightarrow>
                  if length (nw_Containers net) > 1 then
                    (let (st, pid) = create_pod w (''net-'' @ netName) st;
                         st = on_pods (SetNetwork pid netName) st;
                         st = foldl (\<lambda>st existingID.
                                if existingID = cid \<or> in_pod existingID st then st else add_to_pod pid existingID st)
                              st (mkeys (nw_Containers net))
                     in add_to_pod pid cid st)
                  else group_by_network w cid rest st
              | None \<Rightarrow> group_by_network w cid rest st)))"

text \<open>The steps of \<open>ContainerCreate\<close>, in their order.\<close>

definition create_name :: "World \<Rightarrow> ContainerCreateRequest \<Rightarrow> Store \<Rightarrow> Store \<times> string" where
  "create_name w req st =
     (if cr_Name req = [] then (let (st, n) = GenerateName w st in (st, slashed n))
      else (st, if HasPrefix (cr_Name req) ''/'' then cr_Name req else slashed (cr_Name req)))"

definition create_host_config :: "ContainerCreateRequest \<Rightarrow> HostConfig" where
  "create_host_config req =
     (let hc = (case cr_HostConfig req of None \<Rightarrow> zero_host_config\<lparr>ho_NetworkMode := ''default''\<rparr> | Some h \<Rightarrow> h)
      in if ho_NetworkMode hc = [] then hc\<lparr>ho_NetworkMode := ''default''\<rparr> else hc)"

definition create_config :: "ContainerCreateRequest \<Rightarrow> Store \<Rightarrow> ContainerConfig" where
  "create_config req st =
     (let cfg = inherit_image (case cr_Config req of None \<Rightarrow> zero_config | Some c \<Rightarrow> c) st
      in if cc_Labels cfg = None then cfg\<lparr>cc_Labels := Some []\<rparr> else cfg)"

definition create_stored :: "World \<Rightarrow> string \<Rightarrow> ContainerCreateRequest \<Rightarrow> Store \<Rightarrow> Store \<times> Container" where
  "create_stored w driver req st =
     (let (st, name) = create_name w req st;
          (st, cid) = GenerateID w st;
          (st, c) = buildContainerFromConfig w driver cid name (create_config req st) (create_host_config req)
                      (cr_Endpoints req) st
      in (st\<lparr>st_Containers := StateStore_Put cid c (st_Containers st),
             st_ContainerNames := StateStore_Put name cid (st_ContainerNames st)\<rparr>, c))"

definition create_staging :: "string \<Rightarrow> string \<Rightarrow> Store \<Rightarrow> Store" where
  "create_staging imgref cid st =
     (case ResolveImage imgref st of
        None \<Rightarrow> st
      | Some img \<Rightarrow>
          (case mget (st_BuildContexts st) (im_ID img) of
             None \<Rightarrow> st
           | Some ctxDir \<Rightarrow> st\<lparr>st_StagingDirs := mput cid ctxDir (st_StagingDirs st)\<rparr>))"

definition create_grouped :: "World \<Rightarrow> ContainerCreateRequest \<Rightarrow> Container \<Rightarrow> Store \<Rightarrow> Store" where
  "create_grouped w req c st =
     (let st = group_by_container w (ho_NetworkMode (create_host_config req)) (c_ID c) st
      in if in_pod (c_ID c) st then st
         else group_by_network w (c_ID c) (mkeys (ns_Networks (c_NetworkSettings c))) st)"

definition ContainerCreate ::
  "World \<Rightarrow> string \<Rightarrow> ContainerCreateRequest \<Rightarrow> Store \<Rightarrow> Store \<times> (api_error + string)" where
  "ContainerCreate w driver req st =
     (let (st0, name) = create_name w req st in
      if StateStore_Get name (st_ContainerNames st0) \<noteq> None then
        (st0, Inl (ConflictError (''Conflict. The container name '' @ [CHR 0x22] @ TrimPrefix name ''/'' @ [CHR 0x22]
                                  @ '' is already in use'')))
      else
        (let (st, c) = create_stored w driver req st;
             imgref = cc_Image (c_Config c);
             st = create_staging imgref (c_ID c) st;
             st = create_grouped w req c st
         in (emitEvent w ''container'' ''create'' (c_ID c) [(''name'', TrimPrefix name ''/''), (''image'', imgref)] st,
             Inr (c_ID c))))"

section \<open>Life cycle\<close>

definition ContainerInspect :: "string \<Rightarrow> Store \<Rightarrow> api_error + Container" where
  "ContainerInspect ref st =
     (case resolve ref st of None \<Rightarrow> Inl (NotFoundError ''container'' ref) | Some c \<Rightarrow> Inr c)"

abbreviation append_env :: "string list \<Rightarrow> Container \<Rightarrow> Container" where
  "append_env es c \<equiv> c\<lparr>c_Config := (c_Config c)\<lparr>cc_Env := cc_Env (c_Config c) @ es\<rparr>\<rparr>"

definition env_unless :: "string \<Rightarrow> (Container \<Rightarrow> string list) \<Rightarrow> Container \<Rightarrow> Container" where
  "env_unless key es c = (if hasEnvKey (cc_Env (c_Config c)) key then c else append_env (es c) c)"

text \<open>The three environment injections of \<open>ContainerStart\<close>; \<open>c\<close> is the container as it was looked up.\<close>

definition inject_env :: "Container \<Rightarrow> Store \<Rightarrow> Store" where
  "inject_env c st =
     (let cid = c_ID c;
          st = (if cc_Hostname (c_Config c) \<noteq> [] then
                  upd_container cid (env_unless ''HOSTNAME'' (\<lambda>c. [''HOSTNAME='' @ cc_Hostname (c_Config c)])) st
                else st);
          st = (if cc_User (c_Config c) \<noteq> [] then
                  upd_container cid (env_unless ''SOCKERLESS_UID'' (\<lambda>_.
                    (case SplitN2 (cc_User (c_Config c)) CHR '':'' of
                       [uid, gid] \<Rightarrow> [''SOCKERLESS_UID='' @ uid, ''SOCKERLESS_GID='' @ gid]
                     | parts \<Rightarrow> [''SOCKERLESS_UID='' @ hd parts]))) st
                else st)
      in if ho_ExtraHosts (c_HostConfig c) \<noteq> [] then
           upd_container cid (env_unless ''SOCKERLESS_EXTRA_HOSTS''
             (\<lambda>c. [''SOCKERLESS_EXTRA_HOSTS='' @ FormatExtraHostsEnv (ho_ExtraHosts (c_HostConfig c))])) st
         else st)"

definition store_tmpfs :: "World \<Rightarrow> string \<Rightarrow> Store \<Rightarrow> Store" where
  "store_tmpfs w cid st =
     (case get_container cid st of
        None \<Rightarrow> st
      | Some c \<Rightarrow>
          (let (st, tmpfs) = resolveTmpfsMounts w (ho_Tmpfs (c_HostConfig c)) st
           in if tmpfs \<noteq> [] then st\<lparr>st_TmpfsDirs := mput cid (map snd tmpfs) (st_TmpfsDirs st)\<rparr> else st))"

text \<open>A name as the events show it.\<close>

abbreviation shown :: "string \<Rightarrow> string" where
  "shown name \<equiv> TrimPrefix name ''/''"

definition name_of :: "string \<Rightarrow> Store \<Rightarrow> string" where
  "name_of cid st = (case get_container cid st of None \<Rightarrow> [] | Some c \<Rightarrow> c_Name c)"

definition maybe_health :: "string \<Rightarrow> Store \<Rightarrow> Store" where
  "maybe_health cid st =
     (case get_container cid st of
        None \<Rightarrow> st | Some c \<Rightarrow> if has_healthcheck c then StartHealthCheck cid st else st)"

definition set_running :: "World \<Rightarrow> string \<Rightarrow> int \<Rightarrow> Store \<Rightarrow> Store" where
  "set_running w cid restarts st =
     (let (st, now) = now_text w st; (st, pid) = NextPID st
      in upd_container cid (\<lambda>c. in_state (running_state pid now) (c\<lparr>c_RestartCount := c_RestartCount c + restarts\<rparr>)) st)"

definition ContainerStart :: "World \<Rightarrow> string \<Rightarrow> Store \<Rightarrow> Store \<times> (api_error + unit)" where
  "ContainerStart w ref st =
     (case resolve ref st of
        None \<Rightarrow> (st, Inl (NotFoundError ''container'' ref))
      | Some c \<Rightarrow>
          if cs_Running (c_State c) then (st, Inl NotModifiedError)
          else
            (let cid = c_ID c; (pod, inPod) = GetPodForContainer cid (st_Pods st) in
             if inPod \<and> pod = None then (st\<lparr>st_panicked := True\<rparr>, Inl (ServerError []))
             else if inPod \<and> length (pc_ContainerIDs (the pod)) > 1 then
               (st, Inl (InvalidParameterError ''multi-container pods are not supported by this backend''))
             else
               (let st = inject_env c st;
                    st = store_tmpfs w cid st;
                    st = open_wait cid st;
                    st = set_running w cid 0 st;
                    st = emitEvent w ''container'' ''start'' cid [(''name'', shown (name_of cid st))] st
                in (maybe_health cid st, Inr ()))))"

definition exit_events :: "World \<Rightarrow> string \<Rightarrow> int \<Rightarrow> string \<Rightarrow> Store \<Rightarrow> Store" where
  "exit_events w cid code name st =
     (let st = emitEvent w ''container'' ''die'' cid [(''exitCode'', Itoa code), (''name'', shown name)] st
      in emitEvent w ''container'' ''stop'' cid [(''name'', shown name)] st)"

text \<open>The stop that \<open>ContainerStop\<close> and \<open>ContainerRestart\<close> perform on a running container.\<close>

definition stop_running :: "World \<Rightarrow> Container \<Rightarrow> Store \<Rightarrow> Store" where
  "stop_running w c st =
     (let code = SignalToExitCode ''SIGTERM'';
          st = StopHealthCheck (c_ID c) st;
          st = ForceStopContainer w (c_ID c) code st
      in exit_events w (c_ID c) code (c_Name c) st)"

definition ContainerStop :: "World \<Rightarrow> string \<Rightarrow> Store \<Rightarrow> Store \<times> (api_error + unit)" where
  "ContainerStop w ref st =
     (case resolve ref st of
        None \<Rightarrow> (st, Inl (NotFoundError ''container'' ref))
      | Some c \<Rightarrow>
          if \<not> cs_Running (c_State c) then (st, Inl NotModifiedError)
          else (stop_running w c st, Inr ()))"

definition ContainerKill :: "World \<Rightarrow> string \<Rightarrow> string \<Rightarrow> Store \<Rightarrow> Store \<times> (api_error + unit)" where
  "ContainerKill w ref signal st =
     (case resolve ref st of
        None \<Rightarrow> (st, Inl (NotFoundError ''container'' ref))
      | Some c \<Rightarrow>
          if \<not> cs_Running (c_State c) then
            (st, Inl (ConflictError (''Container '' @ ref @ '' is not running'')))
          else
            (let cid = c_ID c;
                 st = StopHealthCheck cid st;
                 exitCode = SignalToExitCode signal;
                 st = mark_exited w cid exitCode st;
                 st = emitEvent w ''container'' ''kill'' cid [(''name'', shown (c_Name c))] st;
                 st = emitEvent w ''container'' ''die'' cid
                        [(''exitCode'', Itoa exitCode), (''signal'', signal), (''name'', shown (c_Name c))] st
             in (close_wait cid st, Inr ())))"

text \<open>
  The loop over the endpoints of a container being removed. Its map is the one of the stored
  container while that is in the store, so a key a \<open>Disconnect\<close> deleted is not visited again.
\<close>

definition current_endpoint :: "Container \<Rightarrow> string \<Rightarrow> Store \<Rightarrow> EndpointSettings option" where
  "current_endpoint c k st =
     (case get_container (c_ID c) st of
        Some c' \<Rightarrow> mget (ns_Networks (c_NetworkSettings c')) k
      | None \<Rightarrow> mget (ns_Networks (c_NetworkSettings c)) k)"

definition disconnect_all :: "Container \<Rightarrow> Store \<Rightarrow> Store" where
  "disconnect_all c st =
     foldl (\<lambda>st k. case current_endpoint c k st of
                     None \<Rightarrow> st
                   | Some ep \<Rightarrow> if es_NetworkID ep \<noteq> [] then fst (Driver_Disconnect (es_NetworkID ep) (c_ID c) st) else st)
       st (mkeys (ns_Networks (c_NetworkSettings c)))"

definition leave_pod :: "string \<Rightarrow> Store \<Rightarrow> Store" where
  "leave_pod cid st =
     (case GetPodForContainer cid (st_Pods st) of
        (Some pod, True) \<Rightarrow> on_pods (RemoveContainer (pc_ID pod) cid) st
      | (None, True) \<Rightarrow> st\<lparr>st_panicked := True\<rparr>
      | (p, False) \<Rightarrow> st)"

definition drop_tmpfs :: "string \<Rightarrow> Store \<Rightarrow> Store" where
  "drop_tmpfs cid st =
     (case mget (st_TmpfsDirs st) cid of
        None \<Rightarrow> st
      | Some dirs \<Rightarrow> foldl (\<lambda>st d. RemoveAll d st) (st\<lparr>st_TmpfsDirs := mdel cid (st_TmpfsDirs st)\<rparr>) dirs)"

definition drop_execs :: "Container \<Rightarrow> Store \<Rightarrow> Store" where
  "drop_execs c st = st\<lparr>st_Execs := foldl (\<lambda>es eid. ss_delete eid es) (st_Execs st) (c_ExecIDs c)\<rparr>"

definition ContainerRemove :: "World \<Rightarrow> string \<Rightarrow> bool \<Rightarrow> Store \<Rightarrow> Store \<times> (api_error + unit)" where
  "ContainerRemove w ref force st =
     (case resolve ref st of
        None \<Rightarrow> (st, Inl (NotFoundError ''container'' ref))
      | Some c \<Rightarrow>
          (let cid = c_ID c in
           if cs_Running (c_State c) \<and> \<not> force then
             (st, Inl (ConflictError (''You cannot remove a running container '' @ take 12 cid
                        @ ''. Stop the container before attempting removal or force remove'')))
           else
             (let st = (if cs_Running (c_State c) then
                          (let code = SignalToExitCode ''SIGKILL'';
                               st = emitEvent w ''container'' ''kill'' cid [(''name'', shown (c_Name c))] st;
                               st = emitEvent w ''container'' ''die'' cid
                                      [(''exitCode'', Itoa code), (''name'', shown (c_Name c))] st
                           in ForceStopContainer w cid code st)
                        else st);
                  st = StopHealthCheck cid st;
                  st = disconnect_all c st;
                  st = leave_pod cid st;
                  st = st\<lparr>st_Containers := ss_delete cid (st_Containers st),
                          st_ContainerNames := ss_delete (c_Name c) (st_ContainerNames st),
                          st_LogBuffers := mdel cid (st_LogBuffers st)\<rparr>;
                  st = close_wait cid st;
                  st = st\<lparr>st_StagingDirs := mdel cid (st_StagingDirs st),
                          st_PathMappings := mdel cid (st_PathMappings st)\<rparr>;
                  st = drop_tmpfs cid st;
                  st = drop_execs c st;
                  st = emitEvent w ''container'' ''destroy'' cid [(''name'', shown (c_Name c))] st
              in (st, Inr ()))))"

definition ContainerRestart :: "World \<Rightarrow> string \<Rightarrow> Store \<Rightarrow> Store \<times> (api_error + unit)" where
  "ContainerRestart w ref st =
     (case resolve ref st of
        None \<Rightarrow> (st, Inl (NotFoundError ''container'' ref))
      | Some c \<Rightarrow>
          (let cid = c_ID c;
               st = (if cs_Running (c_State c) then stop_running w c st else st);
               st = open_wait cid st;
               st = set_running w cid 1 st;
               name = name_of cid st;
               st = drop_tmpfs cid st;
               st = store_tmpfs w cid st;
               st = emitEvent w ''container'' ''start'' cid [(''name'', shown name)] st;
               st = emitEvent w ''container'' ''restart'' cid [(''name'', shown name)] st
           in (maybe_health cid st, Inr ())))"

text \<open>The loop of \<open>ContainerRename\<close> over the endpoints: the network tables show the new name.\<close>

definition rename_entry :: "string \<Rightarrow> string \<Rightarrow> Network \<Rightarrow> Network" where
  "rename_entry cid nm n =
     (case mget (nw_Containers n) cid of
        None \<Rightarrow> n
      | Some er \<Rightarrow> n\<lparr>nw_Containers := mput cid (er\<lparr>er_Name := nm\<rparr>) (nw_Containers n)\<rparr>)"

definition rename_endpoints :: "string \<Rightarrow> string \<Rightarrow> EndpointSettings gomap \<Rightarrow> Store \<Rightarrow> Store" where
  "rename_endpoints cid nm eps st =
     foldl (\<lambda>st (k, ep).
              if es_NetworkID ep \<noteq> []
              then st\<lparr>st_Networks := ss_update (es_NetworkID ep) (rename_entry cid nm) (st_Networks st)\<rparr>
              else st) st eps"

definition ContainerRename :: "World \<Rightarrow> string \<Rightarrow> string \<Rightarrow> Store \<Rightarrow> Store \<times> (api_error + unit)" where
  "ContainerRename w ref newName st =
     (case resolve ref st of
        None \<Rightarrow> (st, Inl (NotFoundError ''container'' ref))
      | Some c \<Rightarrow>
          if newName = [] then (st, Inl (InvalidParameterError ''name is required''))
          else
            (let cid = c_ID c; oldName = c_Name c;
                 newName = (if HasPrefix newName ''/'' then newName else slashed newName)
             in if StateStore_Get newName (st_ContainerNames st) \<noteq> None then
                  (st, Inl (ConflictError (''Conflict. The container name '' @ [CHR 0x22] @ shown newName @ [CHR 0x22]
                                           @ '' is already in use'')))
                else
                  (let st = st\<lparr>st_ContainerNames :=
                          StateStore_Put newName cid (ss_delete oldName (st_ContainerNames st))\<rparr>;
                       st = upd_container cid (\<lambda>c. c\<lparr>c_Name := newName\<rparr>) st;
                       eps = (case get_container cid st of None \<Rightarrow> [] | Some c \<Rightarrow> ns_Networks (c_NetworkSettings c));
                       st = rename_endpoints cid (shown newName) eps st;
                       st = emitEvent w ''container'' ''rename'' cid
                              [(''name'', shown newName), (''oldName'', shown oldName)] st
                   in (st, Inr ()))))"

definition ContainerPause :: "World \<Rightarrow> string \<Rightarrow> Store \<Rightarrow> Store \<times> (api_error + unit)" where
  "ContainerPause w ref st =
     (case resolve ref st of
        None \<Rightarrow> (st, Inl (NotFoundError ''container'' ref))
      | Some rc \<Rightarrow>
          (let cid = c_ID rc in
           case get_container cid st of
             None \<Rightarrow> (emitEvent w ''container'' ''pause'' cid [(''name'', [])] (StopHealthCheck cid st), Inr ())
           | Some c \<Rightarrow>
               if cs_Paused (c_State c) then
                 (st, Inl (ConflictError (''Container '' @ ref @ '' is already paused'')))
               else if \<not> cs_Running (c_State c) then
                 (st, Inl (ConflictError (''Container '' @ ref @ '' is not running'')))
               else
                 (let st = upd_container cid (in_state (\<lambda>s. s\<lparr>cs_Paused := True, cs_Status := ''paused''\<rparr>)) st;
                      st = StopHealthCheck cid st
                  in (emitEvent w ''container'' ''pause'' cid [(''name'', shown (c_Name c))] st, Inr ()))))"

definition ContainerUnpause :: "World \<Rightarrow> string \<Rightarrow> Store \<Rightarrow> Store \<times> (api_error + unit)" where
  "ContainerUnpause w ref st =
     (case resolve ref st of
        None \<Rightarrow> (st, Inl (NotFoundError ''container'' ref))
      | Some rc \<Rightarrow>
          (let cid = c_ID rc in
           case get_container cid st of
             None \<Rightarrow> (emitEvent w ''container'' ''unpause'' cid [(''name'', [])] st, Inr ())
           | Some c \<Rightarrow>
               if \<not> cs_Paused (c_State c) then
                 (st, Inl (ConflictError (''Container '' @ ref @ '' is not paused'')))
               else
                 (let st = upd_container cid (in_state (\<lambda>s. s\<lparr>cs_Paused := False, cs_Status := ''running''\<rparr>)) st;
                      st = (if has_healthcheck c then StartHealthCheck cid st else st)
                  in (emitEvent w ''container'' ''unpause'' cid [(''name'', shown (c_Name c))] st, Inr ()))))"

text \<open>
  \<open>ContainerWait\<close> either answers at once or blocks on the container's wait channel;
  \<open>wait_resume\<close> is what it does after that channel is closed (the wait of the condition
  \<open>removed\<close> for the container to disappear delays the answer only).
\<close>

datatype wait_result = Answer int | Blocked nat string

definition exit_code_of :: "string \<Rightarrow> Store \<Rightarrow> int" where
  "exit_code_of cid st = (case resolve cid st of None \<Rightarrow> 0 | Some c \<Rightarrow> cs_ExitCode (c_State c))"

definition ContainerWait :: "string \<Rightarrow> string \<Rightarrow> Store \<Rightarrow> api_error + wait_result" where
  "ContainerWait ref condition st =
     (case resolve ref st of
        None \<Rightarrow> Inl (NotFoundError ''container'' ref)
      | Some c \<Rightarrow>
          (let cid = c_ID c; condition = (if condition = [] then ''not-running'' else condition) in
           if condition \<noteq> ''next-exit'' \<and> (cs_Status (c_State c) = ''exited'' \<or> cs_Status (c_State c) = ''dead'')
           then Inr (Answer (cs_ExitCode (c_State c)))
           else (case mget (st_WaitChs st) cid of
                   None \<Rightarrow> Inr (Answer (exit_code_of cid st))
                 | Some ch \<Rightarrow> Inr (Blocked ch cid))))"

definition wait_resume :: "string \<Rightarrow> Store \<Rightarrow> int" where
  "wait_resume cid st = exit_code_of cid st"

section \<open>Prune\<close>

text \<open>\<open>filters[key]\<close>, nil when absent.\<close>

definition filter_values :: "string list gomap \<Rightarrow> string \<Rightarrow> string list" where
  "filter_values filters key = (case mget filters key of None \<Rightarrow> [] | Some vs \<Rightarrow> vs)"

definition prunable :: "string list gomap \<Rightarrow> Container \<Rightarrow> bool" where
  "prunable filters c =
     (if cs_Status (c_State c) \<noteq> ''exited'' \<and> cs_Status (c_State c) \<noteq> ''dead'' then False
      else if filter_values filters ''label'' \<noteq> [] \<and> \<not> MatchLabels (labels_of (c_Config c)) (filter_values filters ''label'')
      then False
      else if filter_values filters ''until'' \<noteq> [] \<and> \<not> MatchUntil (c_Created c) (filter_values filters ''until'')
      then False
      else True)"

definition reclaimed :: "World \<Rightarrow> string \<Rightarrow> 64 word" where
  "reclaimed w cid =
     (case w_RootPath w cid of
        None \<Rightarrow> 0
      | Some rootPath \<Rightarrow> if rootPath = [] then 0 else word_of_int (w_DirSize w rootPath))"

text \<open>What is left to do for a pruned container, which is no longer in the store.\<close>

definition prune_one :: "World \<Rightarrow> Container \<Rightarrow> Store \<Rightarrow> Store" where
  "prune_one w c st =
     (let cid = c_ID c;
          st = StopHealthCheck cid st;
          st = st\<lparr>st_ContainerNames := ss_delete (c_Name c) (st_ContainerNames st),
                  st_LogBuffers := mdel cid (st_LogBuffers st)\<rparr>;
          st = close_wait cid st;
          st = disconnect_all c st;
          st = leave_pod cid st;
          st = st\<lparr>st_StagingDirs := mdel cid (st_StagingDirs st),
                  st_PathMappings := mdel cid (st_PathMappings st)\<rparr>;
          st = drop_tmpfs cid st;
          st = drop_execs c st
      in emitEvent w ''container'' ''destroy'' cid [(''name'', shown (c_Name c))] st)"

definition ContainerPrune :: "World \<Rightarrow> string list gomap \<Rightarrow> Store \<Rightarrow> Store \<times> string list \<times> 64 word" where
  "ContainerPrune w filters st =
     (let (cs, pruned) = StateStore_PruneIf (\<lambda>k c. prunable filters c) (st_Containers st);
          st = st\<lparr>st_Containers := cs\<rparr>;
          st = foldl (\<lambda>st c. prune_one w c st) st pruned
      in (st, map c_ID pruned, sum_list (map (\<lambda>c. reclaimed w (c_ID c)) pruned)))"

section \<open>Info and list\<close>

text \<open>The counters \<open>running\<close>, \<open>paused\<close>, \<open>stopped\<close> and the numbers of containers and images.\<close>

definition Info_counts :: "Store \<Rightarrow> nat \<times> nat \<times> nat" where
  "Info_counts st =
     foldl (\<lambda>(running, paused, stopped) c.
              if cs_Paused (c_State c) then (running + 1, paused + 1, stopped)
              else if cs_Running (c_State c) then (running + 1, paused, stopped)
              else (running, paused, stopped + 1))
       (0, 0, 0) (StateStore_List (st_Containers st))"

record BackendInfo =
  bi_Containers :: nat
  bi_ContainersRunning :: nat
  bi_ContainersPaused :: nat
  bi_ContainersStopped :: nat
  bi_Images :: nat

definition Info :: "Store \<Rightarrow> BackendInfo" where
  "Info st =
     (let (running, paused, stopped) = Info_counts st
      in \<lparr>bi_Containers = StateStore_Len (st_Containers st), bi_ContainersRunning = running,
          bi_ContainersPaused = paused, bi_ContainersStopped = stopped, bi_Images = StateStore_Len (st_Images st)\<rparr>)"

record Port =
  po_IP :: string
  po_PrivatePort :: "16 word"
  po_PublicPort :: "16 word"
  po_Type :: string

text \<open>\<open>strconv.ParseUint(s, 10, 16)\<close> with the error ignored: the largest value when out of range, else 0.\<close>

definition ParseUint16 :: "string \<Rightarrow> 16 word" where
  "ParseUint16 s =
     (case parse_digits s of None \<Rightarrow> 0 | Some n \<Rightarrow> of_nat (min n 65535))"

definition parsePortSpec :: "string \<Rightarrow> 16 word \<times> string" where
  "parsePortSpec spec =
     (case SplitN2 spec CHR ''/'' of
        [p, t] \<Rightarrow> (ParseUint16 p, if t \<noteq> [] then t else ''tcp'')
      | parts \<Rightarrow> (ParseUint16 (hd parts), ''tcp''))"

definition binding_ports :: "string \<Rightarrow> PortBinding list \<Rightarrow> Port list" where
  "binding_ports portSpec bindings =
     (let (privatePort, portType) = parsePortSpec portSpec;
          bare = \<lparr>po_IP = [], po_PrivatePort = privatePort, po_PublicPort = 0, po_Type = portType\<rparr>
      in if bindings = [] then [bare]
         else map (\<lambda>b. bare\<lparr>po_PublicPort := (if pb_HostPort b \<noteq> [] then ParseUint16 (pb_HostPort b) else 0),
                           po_IP := pb_HostIP b\<rparr>) bindings)"

definition buildPortList :: "PortBinding list gomap \<Rightarrow> unit gomap \<Rightarrow> Port list" where
  "buildPortList portBindings exposedPorts =
     concat (map (\<lambda>(portSpec, bindings). binding_ports portSpec bindings) portBindings) @
     concat (map (\<lambda>(portSpec, _). if portSpec \<in> set (mkeys portBindings) then [] else binding_ports portSpec [])
       exposedPorts)"

record ContainerSummary =
  su_ID :: string
  su_Names :: "string list"
  su_Image :: string
  su_ImageID :: string
  su_Command :: string
  su_Created :: int
  su_State :: string
  su_Status :: string
  su_Ports :: "Port list"
  su_Labels :: "string gomap"
  su_NetworkMode :: string
  su_Mounts :: "MountPoint list"
  su_Networks :: "EndpointSettings gomap"

text \<open>\<open>created, _ := time.Parse(...)\<close>; \<open>created.Unix()\<close>: the zero time when the text does not parse.\<close>

definition unix_created :: "string \<Rightarrow> int" where
  "unix_created t = (case parse_rfc3339 t of Some n \<Rightarrow> n div 10 ^ 9 | None \<Rightarrow> -62135596800)"

definition summary_of :: "World \<Rightarrow> Store \<Rightarrow> int \<Rightarrow> Container \<Rightarrow> ContainerSummary" where
  "summary_of w st now c =
     \<lparr>su_ID = c_ID c, su_Names = [c_Name c], su_Image = cc_Image (c_Config c),
      su_ImageID = (case ResolveImage (cc_Image (c_Config c)) st of
                      Some img \<Rightarrow> im_ID img | None \<Rightarrow> ''sha256:'' @ w_sha256 w (cc_Image (c_Config c))),
      su_Command = (if c_Args c \<noteq> [] then c_Path c @ '' '' @ Join (c_Args c) '' '' else c_Path c),
      su_Created = unix_created (c_Created c), su_State = cs_Status (c_State c),
      su_Status = FormatStatus now (c_State c),
      su_Ports = buildPortList (ho_PortBindings (c_HostConfig c)) (cc_ExposedPorts (c_Config c)),
      su_Labels = labels_of (c_Config c), su_NetworkMode = ho_NetworkMode (c_HostConfig c),
      su_Mounts = c_Mounts c, su_Networks = ns_Networks (c_NetworkSettings c)\<rparr>"

text \<open>
  \<open>now\<close> is the clock while the list is built. \<open>sort.Slice\<close> leaves the order of equal creation times
  open; here they stay in store order.
\<close>

definition ContainerList ::
  "World \<Rightarrow> int \<Rightarrow> bool \<Rightarrow> string list gomap \<Rightarrow> int \<Rightarrow> Store \<Rightarrow> ContainerSummary list" where
  "ContainerList w now all filters limit st =
     (let kept = filter (\<lambda>c. (all \<or> cs_Running (c_State c)) \<and> (filters = [] \<or> MatchContainerFilters c filters))
                   (StateStore_List (st_Containers st));
          result = sort_key (\<lambda>s. - su_Created s) (map (summary_of w st now) kept)
      in if limit > 0 \<and> limit < int (length result) then take (nat limit) result else result)"

end
