(* ===== verification/PodOps.thy ===== *)
theory PodOps
  imports Containers
begin

text \<open>
  The pod handlers of \<open>backends/core/backend_impl_pods.go\<close> and the response of
  \<open>writePodActionResponse\<close> (\<open>handle_pods.go\<close>). A handler works on a pod by its pointer; the fields it
  reads (identifier, name, container list) do not change while it runs. Pods of a cloud provider
  are not modelled.
\<close>

record PodCreateRequest =
  pq_Hostname :: string
  pq_Labels :: "string gomap option"
  pq_Name :: string
  pq_Share :: string

definition PodCreate ::
  "World \<Rightarrow> PodCreateRequest \<Rightarrow> Store \<Rightarrow> Store \<times> (api_error + string)" where
  "PodCreate w req st =
     (if pq_Name req = [] then (st, Inl (InvalidParameterError ''pod name is required''))
      else if Exists (pq_Name req) (st_Pods st) then
        (st, Inl (ConflictError (''pod with name '' @ pq_Name req @ '' already exists'')))
      else
        (let sharedNS = (if pq_Share req \<noteq> [] then Some (Split (pq_Share req) CHR '','') else None);
             (st, pid) = GenerateID w st;
             (st, now) = now_text w st
         in (on_pods (\<lambda>pr. fst (CreatePodWithOpts pid now (pq_Name req) (pq_Labels req) (pq_Hostname req) sharedNS pr)) st,
             Inr pid)))"

record PodContainerInfo =
  pi_ID :: string
  pi_Name :: string
  pi_State :: string

definition buildPodContainerInfos :: "PodContext \<Rightarrow> Store \<Rightarrow> PodContainerInfo list" where
  "buildPodContainerInfos pod st =
     concat (map (\<lambda>cid. case get_container cid st of
                          None \<Rightarrow> []
                        | Some c \<Rightarrow> [\<lparr>pi_ID = cid, pi_Name = shown (c_Name c), pi_State = cs_Status (c_State c)\<rparr>])
       (pc_ContainerIDs pod))"

record PodListEntry =
  pl_Containers :: "PodContainerInfo list"
  pl_Created :: string
  pl_ID :: string
  pl_Labels :: "string gomap"
  pl_Name :: string
  pl_Status :: string

text \<open>\<open>cloud\<close> is the listing of a \<open>CloudPodLister\<close>; an entry whose identifier was seen is dropped.\<close>

fun merge_cloud_pods :: "string list \<Rightarrow> PodListEntry list \<Rightarrow> PodListEntry list" where
  "merge_cloud_pods seen [] = []"
| "merge_cloud_pods seen (p # ps) =
     (if pl_ID p \<in> set seen then merge_cloud_pods seen ps
      else p # merge_cloud_pods (pl_ID p # seen) ps)"

definition PodList :: "PodListEntry list \<Rightarrow> string list gomap \<Rightarrow> Store \<Rightarrow> PodListEntry list" where
  "PodList cloud filters st =
     (let result = map (\<lambda>pod. \<lparr>pl_Containers = buildPodContainerInfos pod st, pl_Created = pc_Created pod,
                              pl_ID = pc_ID pod, pl_Labels = pc_Labels pod, pl_Name = pc_Name pod,
                              pl_Status = pc_Status pod\<rparr>)
                     (filter (\<lambda>pod. matchPodFilters pod filters) (ListPods (st_Pods st)))
      in result @ merge_cloud_pods (map pl_ID result) cloud)"

record PodInspectResponse =
  pn_ID :: string
  pn_Name :: string
  pn_Created :: string
  pn_State :: string
  pn_Hostname :: string
  pn_Labels :: "string gomap"
  pn_NumContainers :: nat
  pn_Containers :: "PodContainerInfo list"
  pn_SharedNamespaces :: "string list"
  pn_ExitPolicy :: string

definition PodInspect :: "string \<Rightarrow> Store \<Rightarrow> api_error + PodInspectResponse" where
  "PodInspect name st =
     (case GetPod name (st_Pods st) of
        (Some pod, True) \<Rightarrow>
          Inr \<lparr>pn_ID = pc_ID pod, pn_Name = pc_Name pod, pn_Created = pc_Created pod, pn_State = pc_Status pod,
               pn_Hostname = pc_Hostname pod, pn_Labels = pc_Labels pod,
               pn_NumContainers = length (pc_ContainerIDs pod), pn_Containers = buildPodContainerInfos pod st,
               pn_SharedNamespaces = pc_SharedNS pod, pn_ExitPolicy = ''continue''\<rparr>
      | _ \<Rightarrow> Inl (NotFoundError ''pod'' name))"

definition PodExists :: "string \<Rightarrow> Store \<Rightarrow> bool" where
  "PodExists name st = Exists name (st_Pods st)"

text \<open>
  The frame of the handlers that act on a pod: look it up, run the body; a nil pod that was
  reported as found is a nil dereference.
\<close>

definition with_pod ::
  "string \<Rightarrow> Store \<Rightarrow> (PodContext \<Rightarrow> Store \<times> (api_error + string)) \<Rightarrow> Store \<times> (api_error + string)" where
  "with_pod name st body =
     (case GetPod name (st_Pods st) of
        (Some pod, True) \<Rightarrow> body pod
      | (None, True) \<Rightarrow> (st\<lparr>st_panicked := True\<rparr>, Inl (ServerError []))
      | (p, False) \<Rightarrow> (st, Inl (NotFoundError ''pod'' name)))"

definition running_named :: "string \<Rightarrow> Store \<Rightarrow> Container option" where
  "running_named cid st =
     (case get_container cid st of
        None \<Rightarrow> None | Some c \<Rightarrow> if cs_Running (c_State c) then Some c else None)"

definition pod_start_one :: "World \<Rightarrow> string \<Rightarrow> string \<Rightarrow> Store \<Rightarrow> Store" where
  "pod_start_one w now cid st =
     (case get_container cid st of
        None \<Rightarrow> st
      | Some c \<Rightarrow>
          if cs_Running (c_State c) then st
          else
            (let st = open_wait cid st;
                 (st, pid) = NextPID st;
                 st = upd_container cid (in_state (running_state pid now)) st;
                 st = (if has_healthcheck c then StartHealthCheck cid st else st)
             in emitEvent w ''container'' ''start'' cid [(''name'', shown (c_Name c))] st))"

definition PodStart :: "World \<Rightarrow> string \<Rightarrow> Store \<Rightarrow> Store \<times> (api_error + string)" where
  "PodStart w name st = with_pod name st (\<lambda>pod.
     (let (st, now) = now_text w st;
          st = foldl (\<lambda>st cid. pod_start_one w now cid st) st (pc_ContainerIDs pod)
      in (on_pods (SetStatus (pc_ID pod) ''running'') st, Inr (pc_ID pod))))"

definition pod_stop_one :: "World \<Rightarrow> int \<Rightarrow> string \<Rightarrow> Store \<Rightarrow> Store" where
  "pod_stop_one w code cid st =
     (case running_named cid st of
        None \<Rightarrow> st
      | Some c \<Rightarrow>
          (let st = StopHealthCheck cid st;
               st = ForceStopContainer w cid code st
           in exit_events w cid code (c_Name c) st))"

definition PodStop :: "World \<Rightarrow> string \<Rightarrow> Store \<Rightarrow> Store \<times> (api_error + string)" where
  "PodStop w name st = with_pod name st (\<lambda>pod.
     (let code = SignalToExitCode ''SIGTERM'';
          st = foldl (\<lambda>st cid. pod_stop_one w code cid st) st (pc_ContainerIDs pod)
      in (on_pods (SetStatus (pc_ID pod) ''stopped'') st, Inr (pc_ID pod))))"

definition pod_kill_one :: "World \<Rightarrow> int \<Rightarrow> string \<Rightarrow> Store \<Rightarrow> Store" where
  "pod_kill_one w code cid st =
     (case running_named cid st of
        None \<Rightarrow> st
      | Some c \<Rightarrow>
          (let st = StopHealthCheck cid st;
               st = ForceStopContainer w cid code st;
               st = emitEvent w ''container'' ''kill'' cid [(''name'', shown (c_Name c))] st
           in emitEvent w ''container'' ''die'' cid [(''exitCode'', Itoa code), (''name'', shown (c_Name c))] st))"

definition PodKill :: "World \<Rightarrow> string \<Rightarrow> string \<Rightarrow> Store \<Rightarrow> Store \<times> (api_error + string)" where
  "PodKill w name signal st = with_pod name st (\<lambda>pod.
     (let code = SignalToExitCode (if signal = [] then ''SIGKILL'' else signal);
          st = foldl (\<lambda>st cid. pod_kill_one w code cid st) st (pc_ContainerIDs pod)
      in (on_pods (SetStatus (pc_ID pod) ''exited'') st, Inr (pc_ID pod))))"

text \<open>Unlike \<open>ContainerRemove\<close>, this leaves the path mappings of the container.\<close>

definition pod_remove_one :: "World \<Rightarrow> bool \<Rightarrow> string \<Rightarrow> Store \<Rightarrow> Store" where
  "pod_remove_one w force cid st =
     (case get_container cid st of
        None \<Rightarrow> st
      | Some c \<Rightarrow>
          (let st = (if force \<and> cs_Running (c_State c) then ForceStopContainer w cid 0 st else st);
               st = StopHealthCheck cid st;
               st = disconnect_all (c\<lparr>c_ID := cid\<rparr>) st;
               st = st\<lparr>st_Containers := ss_delete cid (st_Containers st),
                       st_ContainerNames := ss_delete (c_Name c) (st_ContainerNames st),
                       st_LogBuffers := mdel cid (st_LogBuffers st)\<rparr>;
               st = close_wait cid st;
               st = st\<lparr>st_StagingDirs := mdel cid (st_StagingDirs st)\<rparr>;
               st = drop_tmpfs cid st;
               st = drop_execs c st
           in emitEvent w ''container'' ''destroy'' cid [(''name'', shown (c_Name c))] st))"

definition removePodContainers :: "World \<Rightarrow> PodContext \<Rightarrow> bool \<Rightarrow> Store \<Rightarrow> Store" where
  "removePodContainers w pod force st = foldl (\<lambda>st cid. pod_remove_one w force cid st) st (pc_ContainerIDs pod)"

definition PodRemove :: "World \<Rightarrow> string \<Rightarrow> bool \<Rightarrow> Store \<Rightarrow> Store \<times> (api_error + string)" where
  "PodRemove w name force st = with_pod name st (\<lambda>pod.
     (if \<not> force \<and> list_ex (\<lambda>cid. running_named cid st \<noteq> None) (pc_ContainerIDs pod) then
        (st, Inl (ConflictError (''pod '' @ name @ '' has running containers, cannot remove without force'')))
      else
        (let st = removePodContainers w pod force st
         in (on_pods (\<lambda>pr. fst (DeletePod (pc_ID pod) pr)) st, Inr (pc_ID pod)))))"

text \<open>
  The HTTP answer to a pod action: the status, and the joined errors or the pod identifier. \<open>None\<close> is a nil response.
\<close>

definition writePodActionResponse :: "(string list \<times> string) option \<Rightarrow> int \<times> string" where
  "writePodActionResponse resp =
     (case resp of
        None \<Rightarrow> (200, [])
      | Some (errs, ident) \<Rightarrow> if errs \<noteq> [] then (409, Join errs ''; '') else (200, ident))"

end
