(* ===== verification/ExecVolume.thy ===== *)
theory ExecVolume
  imports Containers
begin

text \<open>
  Exec instances and volumes of \<open>backends/core\<close>: the handlers \<open>Exec*\<close> and \<open>Volume*\<close> of
  \<open>backend_impl.go\<close>, \<open>mergeEnv\<close> of \<open>handle_exec.go\<close> and the bind mount resolution of
  \<open>handle_containers_archive.go\<close>.
\<close>

section \<open>Exec\<close>

record ExecCreateRequest =
  eq_AttachStdin :: bool
  eq_AttachStdout :: bool
  eq_AttachStderr :: bool
  eq_Tty :: bool
  eq_Cmd :: "string list"
  eq_Privileged :: bool
  eq_User :: string
  eq_Env :: "string list"
  eq_WorkingDir :: string

definition ExecCreate ::
  "World \<Rightarrow> string \<Rightarrow> ExecCreateRequest \<Rightarrow> Store \<Rightarrow> Store \<times> (api_error + string)" where
  "ExecCreate w ref req st =
     (case resolve ref st of
        None \<Rightarrow> (st, Inl (NotFoundError ''container'' ref))
      | Some c \<Rightarrow>
          if \<not> cs_Running (c_State c) then
            (st, Inl (ConflictError (''Container '' @ ref @ '' is not running'')))
          else
            (case eq_Cmd req of
               [] \<Rightarrow> (st, Inl (InvalidParameterError ''No exec command specified''))
             | entrypoint # arguments \<Rightarrow>
                 (let cid = c_ID c;
                      (st, execID) = GenerateID w st;
                      exec = \<lparr>ex_CanRemove = False, ex_ContainerID = cid, ex_DetachKeys = [], ex_ExitCode = 0,
                              ex_ID = execID, ex_OpenStderr = eq_AttachStderr req, ex_OpenStdin = eq_AttachStdin req,
                              ex_OpenStdout = eq_AttachStdout req, ex_Pid = 0,
                              ex_ProcessConfig = \<lparr>ep_Arguments = arguments, ep_Entrypoint = entrypoint,
                                 ep_Env = eq_Env req, ep_Privileged = Some (eq_Privileged req), ep_Tty = eq_Tty req,
                                 ep_User = eq_User req, ep_WorkingDir = eq_WorkingDir req\<rparr>,
                              ex_Running = False\<rparr>;
                      st = st\<lparr>st_Execs := StateStore_Put execID exec (st_Execs st)\<rparr>;
                      st = upd_container cid (\<lambda>c. c\<lparr>c_ExecIDs := c_ExecIDs c @ [execID]\<rparr>) st
                  in (st, Inr execID))))"

definition mergeEnv :: "string list \<Rightarrow> string list \<Rightarrow> string list" where
  "mergeEnv base override =
     (if override = [] then base
      else map (\<lambda>(k, v). k @ ''='' @ v)
             (foldl (\<lambda>env e. case Cut e CHR ''='' of None \<Rightarrow> env | Some (k, v) \<Rightarrow> mput k v env) [] (base @ override)))"

text \<open>What the started goroutine runs: the arguments of the exec driver.\<close>

record exec_call =
  ec_container :: string
  ec_exec :: string
  ec_cmd :: "string list"
  ec_env :: "string list"
  ec_workDir :: string
  ec_tty :: bool

definition ExecStart :: "string \<Rightarrow> bool \<Rightarrow> Store \<Rightarrow> Store \<times> (api_error + exec_call)" where
  "ExecStart ident optsTty st =
     (case StateStore_Get ident (st_Execs st) of
        None \<Rightarrow> (st, Inl (NotFoundError ''exec instance'' ident))
      | Some exec \<Rightarrow>
          (case resolve (ex_ContainerID exec) st of
             None \<Rightarrow> (st, Inl (ConflictError (''Container '' @ ex_ContainerID exec @ '' has been removed'')))
           | Some c \<Rightarrow>
               (let (st, execPid) = NextPID st;
                    st = st\<lparr>st_Execs := ss_update ident (\<lambda>e. e\<lparr>ex_Running := True, ex_Pid := execPid\<rparr>) (st_Execs st)\<rparr>;
                    pc = ex_ProcessConfig exec
                in (st, Inr \<lparr>ec_container = ex_ContainerID exec, ec_exec = ident,
                             ec_cmd = ep_Entrypoint pc # ep_Arguments pc,
                             ec_env = mergeEnv (cc_Env (c_Config c)) (ep_Env pc),
                             ec_workDir = (if ep_WorkingDir pc = [] then cc_WorkingDir (c_Config c) else ep_WorkingDir pc),
                             ec_tty = (ep_Tty pc \<or> optsTty)\<rparr>))))"

text \<open>The goroutine's update when the driver returns \<open>exitCode\<close>.\<close>

definition exec_finish :: "string \<Rightarrow> int \<Rightarrow> Store \<Rightarrow> Store" where
  "exec_finish ident exitCode st =
     st\<lparr>st_Execs := ss_update ident
          (\<lambda>e. e\<lparr>ex_Running := False, ex_Pid := 0, ex_ExitCode := exitCode, ex_CanRemove := True\<rparr>) (st_Execs st)\<rparr>"

definition ExecInspect :: "string \<Rightarrow> Store \<Rightarrow> api_error + ExecInstance" where
  "ExecInspect ident st =
     (case StateStore_Get ident (st_Execs st) of
        None \<Rightarrow> Inl (NotFoundError ''exec instance'' ident) | Some e \<Rightarrow> Inr e)"

section \<open>Volumes\<close>

record VolumeCreateRequest =
  vr_Driver :: string
  vr_DriverOpts :: "string gomap option"
  vr_Labels :: "string gomap option"
  vr_Name :: string

definition volume_path :: "string \<Rightarrow> string" where
  "volume_path name = ''/var/lib/sockerless/volumes/'' @ name @ ''/_data''"

definition VolumeCreate :: "World \<Rightarrow> VolumeCreateRequest \<Rightarrow> Store \<Rightarrow> Store \<times> Volume" where
  "VolumeCreate w req st =
     (let (st, name) = (if vr_Name req = [] then (let (st, i) = GenerateID w st in (st, take 12 i)) else (st, vr_Name req))
      in case StateStore_Get name (st_Volumes st) of
           Some v \<Rightarrow> (st, v)
         | None \<Rightarrow>
             (let driver = default_str (vr_Driver req) ''local'';
                  (st, now) = now_text w st;
                  vol = \<lparr>vo_CreatedAt = now, vo_Driver = driver, vo_Labels = nil_map (vr_Labels req),
                         vo_Mountpoint = volume_path name, vo_Name = name, vo_Options = nil_map (vr_DriverOpts req),
                         vo_Scope = ''local''\<rparr>;
                  (st, dir) = MkdirTemp w st;
                  st = (case dir of None \<Rightarrow> st | Some d \<Rightarrow> st\<lparr>st_VolumeDirs := mput name d (st_VolumeDirs st)\<rparr>);
                  vol = (case dir of None \<Rightarrow> vol | Some d \<Rightarrow> vol\<lparr>vo_Mountpoint := d\<rparr>);
                  st = st\<lparr>st_Volumes := StateStore_Put name vol (st_Volumes st)\<rparr>
              in (emitEvent w ''volume'' ''create'' name [(''driver'', driver)] st, vol)))"

definition mount_names :: "Store \<Rightarrow> string list" where
  "mount_names st =
     filter (\<lambda>n. n \<noteq> []) (concat (map (\<lambda>c. map mp_Name (c_Mounts c)) (StateStore_List (st_Containers st))))"

text \<open>An empty value list for \<open>dangling\<close> makes the code index an empty slice: the result is \<open>None\<close>.\<close>

definition VolumeList :: "string list gomap \<Rightarrow> Store \<Rightarrow> Volume list option" where
  "VolumeList f st =
     (let vols = filter (\<lambda>v. MatchVolumeFilters v f) (StateStore_List (st_Volumes st))
      in case mget f ''dangling'' of
           None \<Rightarrow> Some vols
         | Some [] \<Rightarrow> (if vols = [] then Some [] else None)
         | Some (d # ds) \<Rightarrow>
             (let wantDangling = (d = ''true'' \<or> d = ''1'')
              in Some (filter (\<lambda>v. wantDangling = (vo_Name v \<notin> set (mount_names st))) vols)))"

definition VolumeInspect :: "string \<Rightarrow> Store \<Rightarrow> api_error + Volume" where
  "VolumeInspect name st =
     (case StateStore_Get name (st_Volumes st) of None \<Rightarrow> Inl (NotFoundError ''volume'' name) | Some v \<Rightarrow> Inr v)"

definition drop_volume_dir :: "string \<Rightarrow> Store \<Rightarrow> Store" where
  "drop_volume_dir name st =
     (case mget (st_VolumeDirs st) name of
        None \<Rightarrow> st | Some dir \<Rightarrow> RemoveAll dir (st\<lparr>st_VolumeDirs := mdel name (st_VolumeDirs st)\<rparr>))"

definition VolumeRemove :: "World \<Rightarrow> string \<Rightarrow> bool \<Rightarrow> Store \<Rightarrow> Store \<times> (api_error + unit)" where
  "VolumeRemove w name force st =
     (case StateStore_Get name (st_Volumes st) of
        None \<Rightarrow> (st, Inl (NotFoundError ''volume'' name))
      | Some vol \<Rightarrow>
          (case (if force then None
                 else find (\<lambda>c. list_ex (\<lambda>m. mp_Name m = name) (c_Mounts c)) (StateStore_List (st_Containers st))) of
             Some c \<Rightarrow>
               (st, Inl (ConflictError (''volume is in use - ['' @ (if length (c_ID c) > 12 then take 12 (c_ID c) else c_ID c) @ '']'')))
           | None \<Rightarrow>
               (let st = drop_volume_dir name (st\<lparr>st_Volumes := ss_delete name (st_Volumes st)\<rparr>)
                in (emitEvent w ''volume'' ''destroy'' name [(''driver'', vo_Driver vol)] st, Inr ()))))"

definition bind_names :: "Store \<Rightarrow> string list" where
  "bind_names st =
     concat (map (\<lambda>c. concat (map (\<lambda>bind.
         (case SplitN3 bind CHR '':'' of
            src # dst # rest \<Rightarrow> if HasPrefix src ''/'' then [] else [src]
          | _ \<Rightarrow> [])) (ho_Binds (c_HostConfig c)))) (StateStore_List (st_Containers st)))"

definition volume_prunable :: "string list gomap \<Rightarrow> string list \<Rightarrow> Volume \<Rightarrow> bool" where
  "volume_prunable f inUse v =
     (if vo_Name v \<in> set inUse then False
      else if filter_values f ''label'' \<noteq> [] \<and> \<not> MatchLabels (vo_Labels v) (filter_values f ''label'') then False
      else if filter_values f ''until'' \<noteq> [] \<and> \<not> MatchUntil (vo_CreatedAt v) (filter_values f ''until'') then False
      else True)"

definition prune_volume :: "World \<Rightarrow> Store \<times> 64 word \<Rightarrow> Volume \<Rightarrow> Store \<times> 64 word" where
  "prune_volume w acc v =
     (let (st, sum) = acc;
          sum = (case mget (st_VolumeDirs st) (vo_Name v) of
                   None \<Rightarrow> sum | Some dir \<Rightarrow> sum + word_of_int (w_DirSize w dir));
          st = drop_volume_dir (vo_Name v) st
      in (emitEvent w ''volume'' ''destroy'' (vo_Name v) [(''driver'', vo_Driver v)] st, sum))"

definition VolumePrune :: "World \<Rightarrow> string list gomap \<Rightarrow> Store \<Rightarrow> Store \<times> string list \<times> 64 word" where
  "VolumePrune w f st =
     (let inUse = mount_names st @ bind_names st;
          (vols, pruned) = StateStore_PruneIf (\<lambda>k v. volume_prunable f inUse v) (st_Volumes st);
          st = st\<lparr>st_Volumes := vols\<rparr>;
          (st, reclaimed) = foldl (prune_volume w) (st, 0) pruned
      in (st, map vo_Name pruned, reclaimed))"

section \<open>Bind mounts\<close>

definition auto_volume :: "World \<Rightarrow> string \<Rightarrow> string gomap \<Rightarrow> Store \<Rightarrow> Store \<times> string option" where
  "auto_volume w source options st =
     (let (st, dir) = MkdirTemp w st in
      case dir of
        None \<Rightarrow> (st, None)
      | Some d \<Rightarrow>
          (let st = st\<lparr>st_VolumeDirs := mput source d (st_VolumeDirs st)\<rparr>;
               (st, now) = now_text w st;
               vol = \<lparr>vo_CreatedAt = now, vo_Driver = ''local'', vo_Labels = [], vo_Mountpoint = volume_path source,
                      vo_Name = source, vo_Options = options, vo_Scope = ''local''\<rparr>
           in (st\<lparr>st_Volumes := StateStore_Put source vol (st_Volumes st)\<rparr>, Some d)))"

text \<open>\<open>is_dir\<close> is \<open>os.Stat\<close> of a host path. The two loops of \<open>resolveBindMounts\<close>, one specification at a time.\<close>

definition resolve_bind ::
  "World \<Rightarrow> (string \<Rightarrow> bool) \<Rightarrow> string \<Rightarrow> Store \<times> string gomap \<Rightarrow> Store \<times> string gomap" where
  "resolve_bind w is_dir bind acc =
     (let (st, result) = acc in
      case SplitN3 bind CHR '':'' of
        source # target # rest \<Rightarrow>
          (case mget (st_VolumeDirs st) source of
             Some dir \<Rightarrow> (st, mput target dir result)
           | None \<Rightarrow>
               if HasPrefix source ''/'' then (st, if is_dir source then mput target source result else result)
               else (case auto_volume w source [] st of
                       (st, None) \<Rightarrow> (st, result) | (st, Some d) \<Rightarrow> (st, mput target d result)))
      | _ \<Rightarrow> (st, result))"

definition resolve_mount :: "World \<Rightarrow> MountSpec \<Rightarrow> Store \<times> string gomap \<Rightarrow> Store \<times> string gomap" where
  "resolve_mount w m acc =
     (let (st, result) = acc in
      if ms_Type m = ''volume'' \<and> ms_Source m \<noteq> [] \<and> ms_Target m \<noteq> [] then
        (case mget (st_VolumeDirs st) (ms_Source m) of
           Some dir \<Rightarrow> (st, mput (ms_Target m) dir result)
         | None \<Rightarrow>
             (case auto_volume w (ms_Source m) [] st of
                (st, None) \<Rightarrow> (st, result) | (st, Some d) \<Rightarrow> (st, mput (ms_Target m) d result)))
      else (st, result))"

definition resolveBindMounts ::
  "World \<Rightarrow> (string \<Rightarrow> bool) \<Rightarrow> string list \<Rightarrow> MountSpec list \<Rightarrow> Store \<Rightarrow> Store \<times> string gomap" where
  "resolveBindMounts w is_dir binds mounts st =
     fold (resolve_mount w) mounts (fold (resolve_bind w is_dir) binds (st, []))"

end
