(* ===== verification/ImageRefs.thy ===== *)
theory ImageRefs
  imports StateStore
begin

text \<open>
  Image references. \<open>backends/core/image_ref.go\<close> parses a reference into registry domain, path, tag
  and digest and prints it back; \<open>backends/core/registry.go\<close> has a second parser that chooses the
  registry to contact, and the reading of its authentication challenge. The results: printing a
  parsed reference gives the text back and the accepted texts are exactly the printed ones, and the
  two parsers agree on the references that name a registry.
\<close>

section \<open>Splitting at the last separator\<close>

text \<open>\<open>i := strings.LastIndex(s, c)\<close> with the parts \<open>s[:i]\<close> and \<open>s[i+1:]\<close>.\<close>

definition LastCut :: "string \<Rightarrow> char \<Rightarrow> (string \<times> string) option" where
  "LastCut s c = map_option (\<lambda>i. (take i s, drop (Suc i) s)) (LastIndexByte s c)"

lemma Cut_SomeD: "Cut s c = Some (a, b) \<Longrightarrow> s = a @ c # b \<and> c \<notin> set a"
  by (induction s arbitrary: a b) (auto split: if_splits)

lemma Cut_append: "c \<notin> set a \<Longrightarrow> Cut (a @ c # b) c = Some (a, b)"
  by (induction a) auto

lemma Cut_None: "Cut s c = None \<longleftrightarrow> c \<notin> set s"
  by (induction s) auto

lemma LastIndexByte_None: "LastIndexByte s c = None \<longleftrightarrow> c \<notin> set s"
  by (induction s) (auto split: option.split)

lemma LastIndexByte_append: "c \<notin> set b \<Longrightarrow> LastIndexByte (a @ c # b) c = Some (length a)"
  by (induction a) (simp_all add: LastIndexByte_None [THEN iffD2])

lemma LastCut_append: "c \<notin> set b \<Longrightarrow> LastCut (a @ c # b) c = Some (a, b)"
  by (simp add: LastCut_def LastIndexByte_append)

lemma LastCut_None: "LastCut s c = None \<longleftrightarrow> c \<notin> set s"
  by (simp add: LastCut_def LastIndexByte_None)

lemma LastCut_SomeD:
  assumes "LastCut s c = Some (a, b)"
  shows "s = a @ c # b \<and> c \<notin> set b"
proof -
  have "c \<in> set s" using assms LastCut_None [of s c] by fastforce
  then obtain a' b' where s: "s = a' @ c # b'" "c \<notin> set b'" by (meson split_list_last)
  with assms show ?thesis by (simp add: LastCut_append)
qed

section \<open>The reference parser\<close>

record ImageRef =
  ir_Domain :: string
  ir_Path :: string
  ir_Tag :: string
  ir_Digest :: string

datatype ref_error = EmptyReference | EmptyDigest string | EmptyTag string | EmptyPath string

text \<open>The test on the first segment: \<open>strings.ContainsAny(first, ".:") || first == "localhost"\<close>.\<close>

definition is_domain :: "string \<Rightarrow> bool" where
  "is_domain first = (CHR ''.'' \<in> set first \<or> CHR '':'' \<in> set first \<or> first = ''localhost'')"

definition split_domain :: "string \<Rightarrow> string \<times> string" where
  "split_domain rest =
     (case Cut rest CHR ''/'' of
        Some (first, after) \<Rightarrow> if is_domain first then (first, after) else ([], rest)
      | None \<Rightarrow> ([], rest))"

definition split_digest :: "string \<Rightarrow> string \<times> string" where
  "split_digest s = (case Cut s CHR ''@'' of Some (rest, digest) \<Rightarrow> (digest, rest) | None \<Rightarrow> ([], s))"

definition split_tag :: "string \<Rightarrow> string \<times> string" where
  "split_tag rest = (case LastCut rest CHR '':'' of Some (path, tag) \<Rightarrow> (tag, path) | None \<Rightarrow> ([], rest))"

definition ParseImageRef :: "string \<Rightarrow> ref_error + ImageRef" where
  "ParseImageRef s =
     (if s = [] then Inl EmptyReference
      else
        let (digest, rest) = split_digest s in
        if CHR ''@'' \<in> set s \<and> digest = [] then Inl (EmptyDigest s)
        else
          let (domain, rest) = split_domain rest;
              (tag, path) = split_tag rest
          in if CHR '':'' \<in> set rest \<and> tag = [] then Inl (EmptyTag s)
             else if path = [] then Inl (EmptyPath s)
             else Inr \<lparr>ir_Domain = domain, ir_Path = path, ir_Tag = tag, ir_Digest = digest\<rparr>)"

definition ImageRef_String :: "ImageRef \<Rightarrow> string" where
  "ImageRef_String r =
     (if ir_Domain r \<noteq> [] then ir_Domain r @ ''/'' else []) @ ir_Path r @
     (if ir_Tag r \<noteq> [] then CHR '':'' # ir_Tag r else []) @
     (if ir_Digest r \<noteq> [] then CHR ''@'' # ir_Digest r else [])"

definition NameTag :: "ImageRef \<Rightarrow> string \<times> string" where
  "NameTag r = (ir_Path r, ir_Tag r)"

definition FullName :: "ImageRef \<Rightarrow> string" where
  "FullName r = (if ir_Domain r = [] then ir_Path r else ir_Domain r @ ''/'' @ ir_Path r)"

text \<open>
  The references the parser can produce: a path, no \<open>@\<close> before the digest, no colon in a tag, no
  colon in the path unless a tag follows, and a domain exactly where the text would be read as one.
\<close>

definition image_ref_ok :: "ImageRef \<Rightarrow> bool" where
  "image_ref_ok r \<longleftrightarrow>
     ir_Path r \<noteq> [] \<and>
     CHR ''@'' \<notin> set (ir_Domain r) \<union> set (ir_Path r) \<union> set (ir_Tag r) \<and>
     CHR '':'' \<notin> set (ir_Tag r) \<and>
     (ir_Tag r = [] \<longrightarrow> CHR '':'' \<notin> set (ir_Path r)) \<and>
     CHR ''/'' \<notin> set (ir_Domain r) \<and>
     (if ir_Domain r = []
      then fst (split_domain (ImageRef_String (r\<lparr>ir_Digest := []\<rparr>))) = []
      else is_domain (ir_Domain r))"

lemma split_domain_parts:
  "split_domain rest = (domain, after) \<Longrightarrow>
     rest = (if domain \<noteq> [] then domain @ ''/'' else []) @ after \<and> CHR ''/'' \<notin> set domain \<and>
     (domain \<noteq> [] \<longrightarrow> is_domain domain)"
  by (auto simp: split_domain_def is_domain_def dest: Cut_SomeD split: option.splits if_splits)

lemma split_domain_unparse:
  assumes "CHR ''/'' \<notin> set domain" and "domain \<noteq> [] \<longrightarrow> is_domain domain"
    and "domain = [] \<longrightarrow> fst (split_domain after) = []"
  shows "split_domain ((if domain \<noteq> [] then domain @ ''/'' else []) @ after) = (domain, after)"
proof (cases "domain = []")
  case True
  with assms(3) split_domain_parts [of after "[]" "snd (split_domain after)"] show ?thesis
    by (cases "split_domain after") simp
next
  case False
  with assms show ?thesis by (simp add: split_domain_def Cut_append)
qed

text \<open>The text of a reference, split the way the parser splits it.\<close>

lemma ImageRef_String_parts:
  "ImageRef_String r =
     (let rest = (if ir_Domain r \<noteq> [] then ir_Domain r @ ''/'' else []) @ ir_Path r @
                 (if ir_Tag r \<noteq> [] then CHR '':'' # ir_Tag r else [])
      in if ir_Digest r = [] then rest else rest @ CHR ''@'' # ir_Digest r)"
  by (simp add: ImageRef_String_def Let_def)

lemma parse_unparse: "image_ref_ok r \<Longrightarrow> ParseImageRef (ImageRef_String r) = Inr r"
proof -
  assume ok: "image_ref_ok r"
  define body where "body = ir_Path r @ (if ir_Tag r \<noteq> [] then CHR '':'' # ir_Tag r else [])"
  define rest where "rest = (if ir_Domain r \<noteq> [] then ir_Domain r @ ''/'' else []) @ body"
  define s where "s = ImageRef_String r"
  have s: "s = (if ir_Digest r = [] then rest else rest @ CHR ''@'' # ir_Digest r)"
    by (simp add: s_def ImageRef_String_parts Let_def rest_def body_def)
  have no_at: "CHR ''@'' \<notin> set rest" using ok by (auto simp: image_ref_ok_def rest_def body_def)
  have ne: "s \<noteq> []" using ok by (auto simp: image_ref_ok_def s rest_def body_def)
  have cut: "split_digest s = (ir_Digest r, rest)"
    using no_at by (simp add: split_digest_def s Cut_append Cut_None [THEN iffD2])
  have at: "\<not> (CHR ''@'' \<in> set s \<and> ir_Digest r = [])" using no_at by (auto simp: s)
  have dom: "split_domain rest = (ir_Domain r, body)"
    unfolding rest_def
    using ok by (intro split_domain_unparse)
      (auto simp: image_ref_ok_def ImageRef_String_def body_def split: if_splits)
  have tag: "split_tag body = (ir_Tag r, ir_Path r)"
    using ok by (simp add: split_tag_def image_ref_ok_def body_def LastCut_append LastCut_None [THEN iffD2])
  have colon: "\<not> (CHR '':'' \<in> set body \<and> ir_Tag r = [])" and path: "ir_Path r \<noteq> []"
    using ok by (auto simp: image_ref_ok_def body_def)
  show ?thesis
    unfolding s_def [symmetric] using ne at colon path by (auto simp: ParseImageRef_def cut dom tag)
qed

lemma unparse_parse:
  assumes "ParseImageRef s = Inr r"
  shows "image_ref_ok r \<and> ImageRef_String r = s"
proof -
  obtain digest rest where cut: "split_digest s = (digest, rest)" by fastforce
  obtain domain body where dom: "split_domain rest = (domain, body)" by fastforce
  obtain tag path where tag: "split_tag body = (tag, path)" by fastforce
  have r: "r = \<lparr>ir_Domain = domain, ir_Path = path, ir_Tag = tag, ir_Digest = digest\<rparr>"
    and at: "CHR ''@'' \<in> set s \<Longrightarrow> digest \<noteq> []" and colon: "CHR '':'' \<in> set body \<Longrightarrow> tag \<noteq> []"
    and path: "path \<noteq> []"
    using assms by (auto simp: ParseImageRef_def cut dom tag split: if_splits)
  have s: "s = (if digest = [] then rest else rest @ CHR ''@'' # digest)" and rest_at: "CHR ''@'' \<notin> set rest"
    using cut at by (auto simp: split_digest_def Cut_None dest: Cut_SomeD split: option.splits)
  have body: "body = path @ (if tag \<noteq> [] then CHR '':'' # tag else [])" "CHR '':'' \<notin> set tag"
    "tag = [] \<longrightarrow> CHR '':'' \<notin> set path"
    using tag colon by (auto simp: split_tag_def LastCut_None dest: LastCut_SomeD split: option.splits)
  note parts = split_domain_parts [OF dom]
  have rest: "rest = (if domain \<noteq> [] then domain @ ''/'' else []) @ path @ (if tag \<noteq> [] then CHR '':'' # tag else [])"
    using parts body(1) by simp
  have "fst (split_domain rest) = domain" by (simp add: dom)
  with parts body(2,3) path rest_at have "image_ref_ok r"
    by (auto simp: image_ref_ok_def r ImageRef_String_def rest)
  then show ?thesis by (simp add: r ImageRef_String_def s rest)
qed

text \<open>
  C35: Parsing and printing are inverse: a text parses to a reference exactly when the reference is well
  formed and prints as that text. Hence no accepted text loses a character, every well formed
  reference is read back, and no two references print alike.
\<close>

theorem image_ref_roundtrip:
  "ParseImageRef s = Inr r \<longleftrightarrow> image_ref_ok r \<and> ImageRef_String r = s"
  using parse_unparse unparse_parse by metis

section \<open>The registry to contact\<close>

record registryConfig =
  rc_Registry :: string
  rc_Repository :: string
  rc_Tag :: string
  rc_Endpoint :: string

text \<open>The tag after the last colon that follows the last slash, and the reference without it.\<close>

definition strip_tag :: "string \<Rightarrow> string \<times> string" where
  "strip_tag ref =
     (let lastSlash = (case LastIndexByte ref CHR ''/'' of Some i \<Rightarrow> Suc i | None \<Rightarrow> 0) in
      case LastIndexByte (drop lastSlash ref) CHR '':'' of
        Some colonAfterSlash \<Rightarrow>
          (let colonPos = lastSlash + colonAfterSlash in (drop (Suc colonPos) ref, take colonPos ref))
      | None \<Rightarrow> (''latest'', ref))"

definition registry_repo :: "string \<Rightarrow> string \<times> string" where
  "registry_repo ref =
     (case SplitN2 ref CHR ''/'' of
        [host, path] \<Rightarrow>
          if CHR ''.'' \<in> set host \<or> CHR '':'' \<in> set host
          then (if host = ''docker.io'' then ''registry-1.docker.io'' else host, path)
          else (''registry-1.docker.io'', ref)
      | _ \<Rightarrow> (''registry-1.docker.io'', ''library/'' @ ref))"

definition parseImageRef :: "string \<Rightarrow> registryConfig" where
  "parseImageRef ref =
     (let (tag, ref) = strip_tag (snd (split_digest ref));
          (registry, repo) = registry_repo ref
      in \<lparr>rc_Registry = registry, rc_Repository = repo, rc_Tag = tag, rc_Endpoint = []\<rparr>)"

lemma strip_tag_tagged:
  assumes "CHR ''/'' \<notin> set tag" "CHR '':'' \<notin> set tag"
  shows "strip_tag (name @ CHR '':'' # tag) = (tag, name)"
proof (cases "CHR ''/'' \<in> set name")
  case True
  then obtain u v where name: "name = u @ CHR ''/'' # v" "CHR ''/'' \<notin> set v" by (meson split_list_last)
  have "LastIndexByte ((u @ CHR ''/'' # v) @ CHR '':'' # tag) CHR ''/'' = Some (length u)"
    using name(2) assms(1) LastIndexByte_append [of "CHR ''/''" "v @ CHR '':'' # tag" u] by simp
  then show ?thesis using assms(2) by (simp add: strip_tag_def name(1) LastIndexByte_append)
next
  case False
  with assms have "LastIndexByte (name @ CHR '':'' # tag) CHR ''/'' = None" by (simp add: LastIndexByte_None)
  with assms(2) show ?thesis by (simp add: strip_tag_def LastIndexByte_append)
qed

lemma strip_tag_untagged:
  assumes "CHR '':'' \<notin> set path"
  shows "strip_tag ((if domain \<noteq> [] then domain @ ''/'' else []) @ path) = (''latest'', (if domain \<noteq> [] then domain @ ''/'' else []) @ path)"
    (is "strip_tag ?name = _")
proof -
  have "CHR '':'' \<notin> set (drop n path)" for n using assms by (meson in_set_dropD)
  moreover have "\<exists>n. drop (case LastIndexByte ?name CHR ''/'' of Some i \<Rightarrow> Suc i | None \<Rightarrow> 0) ?name = drop n path"
  proof (cases "CHR ''/'' \<in> set path")
    case True
    then obtain u v where path: "path = u @ CHR ''/'' # v" "CHR ''/'' \<notin> set v" by (meson split_list_last)
    then have "LastIndexByte ?name CHR ''/'' = Some (length ((if domain \<noteq> [] then domain @ ''/'' else []) @ u))"
      using LastIndexByte_append [of "CHR ''/''" v "(if domain \<noteq> [] then domain @ ''/'' else []) @ u"] by simp
    then show ?thesis using path(1) by (intro exI [of _ "Suc (length u)"]) simp
  next
    case False
    then show ?thesis
      by (intro exI [of _ 0]) (auto simp: LastIndexByte_append LastIndexByte_None [THEN iffD2])
  qed
  ultimately have "LastIndexByte (drop (case LastIndexByte ?name CHR ''/'' of Some i \<Rightarrow> Suc i | None \<Rightarrow> 0) ?name) CHR '':'' = None"
    by (metis LastIndexByte_None)
  then show ?thesis by (simp only: strip_tag_def Let_def option.case)
qed

lemma strip_tag_ref:
  assumes "image_ref_ok r" and "CHR ''/'' \<notin> set (ir_Tag r)"
  shows "strip_tag (ImageRef_String (r\<lparr>ir_Digest := []\<rparr>)) = (if ir_Tag r = [] then ''latest'' else ir_Tag r, FullName r)"
proof (cases "ir_Tag r = []")
  case True
  with assms strip_tag_untagged [of "ir_Path r" "ir_Domain r"] show ?thesis
    by (auto simp: ImageRef_String_def FullName_def image_ref_ok_def)
next
  case False
  have "ImageRef_String (r\<lparr>ir_Digest := []\<rparr>) = FullName r @ CHR '':'' # ir_Tag r"
    using False by (simp add: ImageRef_String_def FullName_def)
  with False assms show ?thesis by (simp add: strip_tag_tagged image_ref_ok_def)
qed

lemma registry_repo_ref:
  assumes ok: "image_ref_ok r"
  shows "registry_repo (FullName r) =
    (if ir_Domain r \<in> {[], ''localhost'', ''docker.io''} then ''registry-1.docker.io'' else ir_Domain r,
     if ir_Domain r = [] \<and> CHR ''/'' \<notin> set (ir_Path r) then ''library/'' @ ir_Path r
     else if ir_Domain r = ''localhost'' then ''localhost/'' @ ir_Path r
     else ir_Path r)"
proof (cases "ir_Domain r = []")
  case dom: False
  have "Cut (ir_Domain r @ CHR ''/'' # ir_Path r) CHR ''/'' = Some (ir_Domain r, ir_Path r)"
    using ok by (intro Cut_append) (simp add: image_ref_ok_def)
  with ok dom show ?thesis
    by (auto simp: registry_repo_def FullName_def SplitN2_def image_ref_ok_def is_domain_def)
next
  case dom: True
  show ?thesis
  proof (cases "Cut (ir_Path r) CHR ''/''")
    case None
    then have "CHR ''/'' \<notin> set (ir_Path r)" by (rule Cut_None [THEN iffD1])
    with None dom show ?thesis by (simp add: registry_repo_def FullName_def SplitN2_def)
  next
    case (Some p)
    obtain first after where p: "p = (first, after)" by (cases p)
    note cut = Cut_SomeD [OF Some [unfolded p]]
    have "Cut (ir_Path r @ (if ir_Tag r \<noteq> [] then CHR '':'' # ir_Tag r else [])) CHR ''/'' =
        Some (first, after @ (if ir_Tag r \<noteq> [] then CHR '':'' # ir_Tag r else []))"
      using cut by (simp add: Cut_append)
    with ok dom have "first \<noteq> [] \<Longrightarrow> \<not> is_domain first"
      by (auto simp: image_ref_ok_def ImageRef_String_def split_domain_def split: if_splits)
    then have "CHR ''.'' \<notin> set first \<and> CHR '':'' \<notin> set first"
      by (cases "first = []") (auto simp: is_domain_def)
    moreover have "CHR ''/'' \<in> set (ir_Path r)" using cut by simp
    ultimately show ?thesis using dom Some p
      by (simp add: registry_repo_def FullName_def SplitN2_def)
  qed
qed

text \<open>
  The two parsers agree. The registry that a pull contacts for a reference that \<open>ParseImageRef\<close>
  accepts, with no slash in its tag, is the parsed domain, with Docker Hub for a missing one and for
  \<open>docker.io\<close>; the repository is the parsed path, in \<open>library/\<close> for a bare name; the tag is the
  parsed tag, or \<open>latest\<close>. The exception is the host \<open>localhost\<close> without a port, which
  \<open>ParseImageRef\<close> takes as a domain: the pull asks Docker Hub for a repository \<open>localhost/...\<close>.
\<close>

theorem registry_parsers_agree:
  assumes "ParseImageRef s = Inr r" and "CHR ''/'' \<notin> set (ir_Tag r)"
  shows "parseImageRef s =
    \<lparr>rc_Registry = (if ir_Domain r \<in> {[], ''localhost'', ''docker.io''} then ''registry-1.docker.io'' else ir_Domain r),
     rc_Repository =
       (if ir_Domain r = [] \<and> CHR ''/'' \<notin> set (ir_Path r) then ''library/'' @ ir_Path r
        else if ir_Domain r = ''localhost'' then ''localhost/'' @ ir_Path r else ir_Path r),
     rc_Tag = (if ir_Tag r = [] then ''latest'' else ir_Tag r), rc_Endpoint = []\<rparr>"
proof -
  note ok = unparse_parse [OF assms(1)]
  have at: "CHR ''@'' \<notin> set (ImageRef_String (r\<lparr>ir_Digest := []\<rparr>))"
    using ok by (auto simp: image_ref_ok_def ImageRef_String_def)
  have s: "s = (if ir_Digest r = [] then ImageRef_String (r\<lparr>ir_Digest := []\<rparr>)
                else ImageRef_String (r\<lparr>ir_Digest := []\<rparr>) @ CHR ''@'' # ir_Digest r)"
    using ok by (auto simp: ImageRef_String_def)
  have "snd (split_digest s) = ImageRef_String (r\<lparr>ir_Digest := []\<rparr>)"
    using at by (simp add: split_digest_def s Cut_append Cut_None [THEN iffD2])
  with ok assms(2) show ?thesis
    by (simp add: parseImageRef_def strip_tag_ref registry_repo_ref)
qed

theorem registry_parsers_agree_witness:
  "parseImageRef ''localhost/app:1'' =
     \<lparr>rc_Registry = ''registry-1.docker.io'', rc_Repository = ''localhost/app'', rc_Tag = ''1'', rc_Endpoint = []\<rparr>"
proof -
  let ?r = "\<lparr>ir_Domain = ''localhost'', ir_Path = ''app'', ir_Tag = ''1'', ir_Digest = []\<rparr>"
  have "ParseImageRef ''localhost/app:1'' = Inr ?r" by code_simp
  from registry_parsers_agree [OF this] show ?thesis by simp
qed

section \<open>Registry requests\<close>

definition trim_char :: "char \<Rightarrow> string \<Rightarrow> string" where
  "trim_char c s = rev (dropWhile (\<lambda>x. x = c) (rev (dropWhile (\<lambda>x. x = c) s)))"

definition isBasicAuthRegistry :: "string \<Rightarrow> bool" where
  "isBasicAuthRegistry registry \<longleftrightarrow> HasSuffix registry ''.amazonaws.com'' \<and> Contains registry ''.dkr.ecr.''"

text \<open>The \<open>Authorization\<close> header a token leads to, if any.\<close>

definition setRegistryAuth :: "string \<Rightarrow> string option" where
  "setRegistryAuth token =
     (if token = [] then None
      else if HasPrefix token ''basic:'' then Some (''Basic '' @ TrimPrefix token ''basic:'')
      else Some (''Bearer '' @ token))"

fun auth_loop :: "string \<Rightarrow> bool \<Rightarrow> string \<Rightarrow> string list" where
  "auth_loop [] inQuote current = (if current \<noteq> [] then [current] else [])"
| "auth_loop (ch # s) inQuote current =
     (if ch = CHR 0x22 then auth_loop s (\<not> inQuote) (current @ [ch])
      else if ch = CHR '','' \<and> \<not> inQuote then current # auth_loop s inQuote []
      else auth_loop s inQuote (current @ [ch]))"

definition splitAuthParams :: "string \<Rightarrow> string list" where
  "splitAuthParams s = auth_loop s False []"

definition parseWWWAuthenticate :: "string \<Rightarrow> string \<times> string gomap" where
  "parseWWWAuthenticate header =
     (let header = TrimPrefix (TrimPrefix header ''Bearer '') ''bearer '' in
      foldl (\<lambda>(realm, params) part.
          case Cut (TrimSpace part) CHR ''='' of
            None \<Rightarrow> (realm, params)
          | Some (k, v) \<Rightarrow>
              (let key = TrimSpace k; val = trim_char CHR 0x22 (TrimSpace v) in
               if key = ''realm'' then (val, params) else (realm, mput key val params)))
        ([], []) (splitAuthParams header))"

definition registryURL :: "registryConfig \<Rightarrow> string \<Rightarrow> string \<Rightarrow> string" where
  "registryURL rc kind reference =
     (let base = rev (dropWhile (\<lambda>c. c = CHR ''/'') (rev (rc_Endpoint rc)));
          base = (if base = [] then ''https://'' @ rc_Registry rc else base)
      in base @ ''/v2/'' @ rc_Repository rc @ ''/'' @ kind @ ''/'' @ reference)"

end
