(* ===== verification/Images.thy ===== *)
theory Images
  imports Networks ImageRefs
begin

text \<open>
  The image cache: \<open>StoreImageWithAliases\<close> of \<open>backends/core/handle_images.go\<close> and the image methods
  of \<open>backends/core/backend_impl.go\<close>. An image is stored by value under several keys: its identifier,
  each reference, the name before the first colon, and short forms of Docker Hub names. What a
  registry answers and the layer blobs it serves are parameters; the cloud image lister is absent.
\<close>

section \<open>Aliases\<close>

abbreviation put_image :: "string \<Rightarrow> Image \<Rightarrow> Store \<Rightarrow> Store" where
  "put_image k img st \<equiv> st\<lparr>st_Images := StateStore_Put k img (st_Images st)\<rparr>"

abbreviation del_image :: "string \<Rightarrow> Store \<Rightarrow> Store" where
  "del_image k st \<equiv> st\<lparr>st_Images := ss_delete k (st_Images st)\<rparr>"

abbreviation get_image :: "string \<Rightarrow> Store \<Rightarrow> Image option" where
  "get_image k st \<equiv> StateStore_Get k (st_Images st)"

text \<open>The name and the tag at the first colon of a reference.\<close>

definition ref_name :: "string \<Rightarrow> string" where
  "ref_name ref = hd (SplitN2 ref CHR '':'')"

definition ref_tag :: "string \<Rightarrow> string" where
  "ref_tag ref = (case SplitN2 ref CHR '':'' of [name, tag] \<Rightarrow> tag | _ \<Rightarrow> ''latest'')"

definition hub_short :: "string \<Rightarrow> string option" where
  "hub_short name =
     (if HasPrefix name ''docker.io/library/'' then Some (TrimPrefix name ''docker.io/library/'')
      else if HasPrefix name ''docker.io/'' then Some (TrimPrefix name ''docker.io/'')
      else None)"

text \<open>The keys of one call, in the order of the writes.\<close>

definition image_aliases :: "string \<Rightarrow> string list" where
  "image_aliases ref =
     ref # (if length (SplitN2 ref CHR '':'') = 2 then [ref_name ref] else []) @
     (case hub_short (ref_name ref) of
        Some short \<Rightarrow> [short @ '':'' @ ref_tag ref, short]
      | None \<Rightarrow> [])"

definition StoreImageWithAliases :: "string \<Rightarrow> Image \<Rightarrow> Store \<Rightarrow> Store" where
  "StoreImageWithAliases ref img st =
     foldl (\<lambda>st k. put_image k img st) (put_image (im_ID img) img st) (image_aliases ref)"

section \<open>Pulling\<close>

text \<open>\<open>%q\<close> of a text of printable characters other than quotes and backslashes.\<close>

definition quoted :: "string \<Rightarrow> string" where
  "quoted s = CHR 0x22 # s @ [CHR 0x22]"

definition mergeImageConfig :: "ContainerConfig \<Rightarrow> ContainerConfig \<Rightarrow> ContainerConfig" where
  "mergeImageConfig dst src =
     dst\<lparr>cc_Env := (if cc_Env src \<noteq> [] then cc_Env src else cc_Env dst),
         cc_Cmd := (if cc_Cmd src \<noteq> [] then cc_Cmd src else cc_Cmd dst),
         cc_Entrypoint := (if cc_Entrypoint src \<noteq> [] then cc_Entrypoint src else cc_Entrypoint dst),
         cc_WorkingDir := (if cc_WorkingDir src \<noteq> [] then cc_WorkingDir src else cc_WorkingDir dst),
         cc_User := (if cc_User src \<noteq> [] then cc_User src else cc_User dst),
         cc_Labels := (if labels_of src \<noteq> [] then cc_Labels src else cc_Labels dst),
         cc_Volumes := (if cc_Volumes src \<noteq> [] then cc_Volumes src else cc_Volumes dst),
         cc_ExposedPorts := (if cc_ExposedPorts src \<noteq> [] then cc_ExposedPorts src else cc_ExposedPorts dst)\<rparr>"

record ImageMetadataResult =
  md_Config :: ContainerConfig
  md_ConfigDigest :: string
  md_ManifestDigest :: string
  md_LayerDigests :: "string list"
  md_LayerBlobDigests :: "string list"
  md_LayerMediaTypes :: "string list"
  md_LayerSizes :: "int list"
  md_TotalSize :: int
  md_History :: "ImageHistoryItem list"
  md_Architecture :: string
  md_OS :: string
  md_Created :: string
  md_Token :: string
  md_RegistryConfig :: registryConfig

text \<open>\<open>img\<close> of a fresh pull.\<close>

definition pulled_image :: "string \<Rightarrow> ImageMetadataResult \<Rightarrow> string \<Rightarrow> Image" where
  "pulled_image ref md now =
     (let imageID = md_ConfigDigest md;
          idShort = (if length imageID > 19 then take 12 (drop 7 imageID) else imageID);
          dir = (\<lambda>d. ''/var/lib/sockerless/overlay2/'' @ idShort @ d)
      in \<lparr>im_Architecture = md_Architecture md, im_Config = md_Config md,
          im_Created = (if md_Created md \<noteq> [] then md_Created md else now),
          im_GraphDriver_Data = [(''MergedDir'', dir ''/merged''), (''UpperDir'', dir ''/diff''), (''WorkDir'', dir ''/work'')],
          im_GraphDriver_Name = ''overlay2'', im_ID = imageID, im_LastTagTime = now, im_Os = md_OS md,
          im_RepoDigests = [ref_name ref @ ''@'' @ md_ManifestDigest md], im_RepoTags = [ref],
          im_RootFS_Type = ''layers'', im_Layers = md_LayerDigests md, im_Size = md_TotalSize md,
          im_VirtualSize = md_TotalSize md\<rparr>)"

text \<open>
  The loop that caches the layers: each blob is stored as soon as it is fetched, and the first failed
  fetch ends the pull. \<open>fetch rc token digest\<close> is \<open>FetchLayerBlob\<close>.
\<close>

definition layer_media_type :: "ImageMetadataResult \<Rightarrow> nat \<Rightarrow> string" where
  "layer_media_type md i =
     (if i < length (md_LayerMediaTypes md) \<and> md_LayerMediaTypes md ! i \<noteq> [] then md_LayerMediaTypes md ! i
      else ''application/vnd.docker.image.rootfs.diff.tar.gzip'')"

fun fetch_layers :: "(string \<Rightarrow> string + string) \<Rightarrow> ImageMetadataResult \<Rightarrow> nat \<Rightarrow> (string \<times> int) list \<Rightarrow>
    ManifestLayerEntry list \<Rightarrow> Store \<Rightarrow> Store \<times> (string + ManifestLayerEntry list)" where
  "fetch_layers fetch md i [] acc st = (st, Inr acc)"
| "fetch_layers fetch md i ((digest, sz) # layers) acc st =
     (case fetch digest of
        Inl ferr \<Rightarrow> (st, Inl (''fetch layer '' @ digest @ '': '' @ ferr))
      | Inr blob \<Rightarrow>
          fetch_layers fetch md (Suc i) layers
            (acc @ [\<lparr>ml_Digest = digest, ml_Size = sz, ml_MediaType = layer_media_type md i\<rparr>])
            (st\<lparr>st_LayerContent := mput digest blob (st_LayerContent st)\<rparr>))"

text \<open>The progress stream: a status and the layer it is about.\<close>

definition layer_short :: "string \<Rightarrow> string" where
  "layer_short layer = (if length layer > 18 then take 12 (drop 7 layer) else layer)"

definition pull_progress :: "string \<Rightarrow> ImageMetadataResult \<Rightarrow> (string \<times> string option) list" where
  "pull_progress ref md =
     (''Pulling from '' @ ref_name ref, None) #
     concat (map (\<lambda>l. [(''Pulling fs layer'', Some (layer_short l)), (''Download complete'', Some (layer_short l)),
                       (''Pull complete'', Some (layer_short l))]) (md_LayerDigests md)) @
     [(''Digest: '' @ md_ManifestDigest md, None), (''Status: Downloaded newer image for '' @ ref, None)]"

definition default_tag :: "string \<Rightarrow> string" where
  "default_tag ref = (if \<not> Contains ref '':'' \<and> \<not> Contains ref ''@'' then ref @ '':latest'' else ref)"

definition ImagePullWithMetadata ::
  "World \<Rightarrow> (registryConfig \<Rightarrow> string \<Rightarrow> string \<Rightarrow> string + string) \<Rightarrow> string \<Rightarrow> ImageMetadataResult option \<Rightarrow> Store \<Rightarrow>
     Store \<times> (api_error + (string \<times> string option) list)" where
  "ImagePullWithMetadata w fetch ref0 meta st =
     (if ref0 = [] then (st, Inl (InvalidParameterError ''image reference is required''))
      else
        let ref = default_tag ref0 in
        case ResolveImage ref st of
          Some img \<Rightarrow>
            (let st = (case meta of
                         Some md \<Rightarrow> StoreImageWithAliases ref (img\<lparr>im_Config := mergeImageConfig (im_Config img) (md_Config md)\<rparr>) st
                       | None \<Rightarrow> st)
             in (st, Inr [(''Pulling from '' @ ref_name ref, None), (''Status: Image is up to date for '' @ ref, None)]))
        | None \<Rightarrow>
            (case meta of
               None \<Rightarrow> (fst (now_text w st), Inl (ServerError (''image pull '' @ quoted ref @ '': registry metadata is required'')))
             | Some md \<Rightarrow>
                 (let (st, now) = now_text w st;
                      st = (if md_History md \<noteq> [] then st\<lparr>st_ImageHistory := mput (md_ConfigDigest md) (md_History md) (st_ImageHistory st)\<rparr> else st);
                      st = StoreImageWithAliases ref (pulled_image ref md now) st
                  in if length (md_LayerBlobDigests md) = length (md_LayerSizes md) \<and> md_LayerBlobDigests md \<noteq> [] then
                       (let rc = (if rc_Registry (md_RegistryConfig md) = [] then parseImageRef ref else md_RegistryConfig md)
                        in case fetch_layers (fetch rc (md_Token md)) md 0 (zip (md_LayerBlobDigests md) (md_LayerSizes md)) [] st of
                             (st, Inl err) \<Rightarrow> (st, Inl (ServerError (''image pull '' @ quoted ref @ '': '' @ err)))
                           | (st, Inr layers) \<Rightarrow>
                               (st\<lparr>st_ImageManifestLayers := mput (md_ConfigDigest md) layers (st_ImageManifestLayers st)\<rparr>,
                                Inr (pull_progress ref md)))
                     else (st, Inr (pull_progress ref md)))))"

section \<open>Inspecting and tagging\<close>

definition ImageInspect :: "string \<Rightarrow> Store \<Rightarrow> api_error + Image" where
  "ImageInspect name st =
     (case ResolveImage name st of None \<Rightarrow> Inl (NotFoundError ''image'' name) | Some img \<Rightarrow> Inr img)"

definition ImageTag :: "World \<Rightarrow> string \<Rightarrow> string \<Rightarrow> string \<Rightarrow> Store \<Rightarrow> Store \<times> (api_error + unit)" where
  "ImageTag w source repo tag st =
     (if repo = [] then (st, Inl (InvalidParameterError ''repo name is required''))
      else case ResolveImage source st of
        None \<Rightarrow> (st, Inl (NotFoundError ''image'' source))
      | Some img \<Rightarrow>
          (let ref = (if tag \<noteq> [] then repo @ '':'' @ tag else repo) in
           if list_ex (\<lambda>t. t = ref) (im_RepoTags img) then (st, Inr ())
           else
             (let (st, now) = now_text w st;
                  img = img\<lparr>im_RepoTags := im_RepoTags img @ [ref], im_LastTagTime := now\<rparr>;
                  st = StoreImageWithAliases ref img st;
                  st = put_image (im_ID img) img st;
                  st = foldl (\<lambda>st t. put_image t img st) st (im_RepoTags img)
              in (emitEvent w ''image'' ''tag'' (im_ID img) [(''name'', ref)] st, Inr ()))))"

section \<open>Glob patterns\<close>

text \<open>
  \<open>path.Match\<close> over bytes, as the standard library defines it: the pattern is cut into chunks at the
  stars outside brackets, each chunk is matched at the first place the star reaches, and an earlier
  place is not tried again. A malformed pattern reports an error, which the caller ignores: \<open>None\<close> is
  either a failed or a malformed chunk.
\<close>

fun scan_chunk :: "bool \<Rightarrow> string \<Rightarrow> string \<times> string" where
  "scan_chunk inrange [] = ([], [])"
| "scan_chunk inrange [c] =
     (if c = CHR ''*'' \<and> \<not> inrange then ([], [c]) else ([c], []))"
| "scan_chunk inrange (c # d # p) =
     (if c = CHR 0x5C then (let (a, b) = scan_chunk inrange p in (c # d # a, b))
      else if c = CHR ''*'' \<and> \<not> inrange then ([], c # d # p)
      else let (a, b) = scan_chunk (if c = CHR ''['' then True else if c = CHR '']'' then False else inrange) (d # p)
           in (c # a, b))"

definition get_esc :: "string \<Rightarrow> (nat \<times> string) option" where
  "get_esc chunk =
     (case chunk of
        [] \<Rightarrow> None
      | c # cs \<Rightarrow>
          if c = CHR ''-'' \<or> c = CHR '']'' then None
          else (case (if c = CHR 0x5C then cs else chunk) of
                  x # rest \<Rightarrow> if rest = [] then None else Some (of_char x, rest)
                | [] \<Rightarrow> None))"

text \<open>The ranges of a bracket, with fuel for the length of the chunk: is \<open>r\<close> in one, and what follows.\<close>

fun match_ranges :: "nat \<Rightarrow> nat \<Rightarrow> nat \<Rightarrow> bool \<Rightarrow> string \<Rightarrow> (bool \<times> string) option" where
  "match_ranges 0 nrange r m chunk = None"
| "match_ranges (Suc fuel) nrange r m chunk =
     (if chunk \<noteq> [] \<and> hd chunk = CHR '']'' \<and> nrange > 0 then Some (m, tl chunk)
      else case get_esc chunk of
             None \<Rightarrow> None
           | Some (lo, chunk) \<Rightarrow>
               (case (if hd chunk = CHR ''-'' then get_esc (tl chunk) else Some (lo, chunk)) of
                  None \<Rightarrow> None
                | Some (hi, chunk) \<Rightarrow> match_ranges fuel (Suc nrange) r (m \<or> (lo \<le> r \<and> r \<le> hi)) chunk))"

fun match_chunk :: "nat \<Rightarrow> string \<Rightarrow> string \<Rightarrow> string option" where
  "match_chunk 0 chunk s = None"
| "match_chunk (Suc fuel) [] s = Some s"
| "match_chunk (Suc fuel) (c # chunk) s =
     (case s of
        [] \<Rightarrow> None
      | x # s' \<Rightarrow>
          if c = CHR ''['' then
            (let negated = (chunk \<noteq> [] \<and> hd chunk = CHR ''^'');
                 chunk = (if negated then tl chunk else chunk)
             in case match_ranges (Suc (length chunk)) 0 (of_char x) False chunk of
                  None \<Rightarrow> None
                | Some (m, chunk) \<Rightarrow> if m = negated then None else match_chunk fuel chunk s')
          else if c = CHR ''?'' then (if x = CHR ''/'' then None else match_chunk fuel chunk s')
          else if c = CHR 0x5C then
            (case chunk of [] \<Rightarrow> None | d # chunk \<Rightarrow> if d = x then match_chunk fuel chunk s' else None)
          else if c = x then match_chunk fuel chunk s' else None)"

definition chunk_at :: "string \<Rightarrow> bool \<Rightarrow> string \<Rightarrow> string option" where
  "chunk_at chunk final name =
     (case match_chunk (Suc (length chunk)) chunk name of
        Some t \<Rightarrow> if final \<and> t \<noteq> [] then None else Some t
      | None \<Rightarrow> None)"

fun skip_to :: "string \<Rightarrow> bool \<Rightarrow> string \<Rightarrow> string option" where
  "skip_to chunk final [] = None"
| "skip_to chunk final (x # name) =
     (if x = CHR ''/'' then None
      else case chunk_at chunk final name of Some t \<Rightarrow> Some t | None \<Rightarrow> skip_to chunk final name)"

fun match_loop :: "nat \<Rightarrow> string \<Rightarrow> string \<Rightarrow> bool" where
  "match_loop 0 pattern name = False"
| "match_loop (Suc fuel) pattern name =
     (if pattern = [] then name = []
      else
        let star = (hd pattern = CHR ''*'');
            (chunk, rest) = scan_chunk False (dropWhile (\<lambda>c. c = CHR ''*'') pattern)
        in if star \<and> chunk = [] then CHR ''/'' \<notin> set name
           else case chunk_at chunk (rest = []) name of
             Some t \<Rightarrow> match_loop fuel rest t
           | None \<Rightarrow>
               if star then
                 (case skip_to chunk (rest = []) name of Some t \<Rightarrow> match_loop fuel rest t | None \<Rightarrow> False)
               else False)"

definition path_match :: "string \<Rightarrow> string \<Rightarrow> bool" where
  "path_match pattern name = match_loop (Suc (length pattern)) pattern name"

section \<open>Listing\<close>

text \<open>\<open>t, _ := time.Parse(...)\<close>: the zero time for a malformed text; in nanoseconds and in seconds.\<close>

definition time_or_zero :: "string \<Rightarrow> int" where
  "time_or_zero s = (case parse_rfc3339 s of Some t \<Rightarrow> t | None \<Rightarrow> -62135596800 * 10 ^ 9)"

definition created_unix :: "string \<Rightarrow> int" where
  "created_unix s = time_or_zero s div 10 ^ 9"

definition filter_vals :: "string list gomap \<Rightarrow> string \<Rightarrow> string list" where
  "filter_vals filters key = (case mget filters key of Some vals \<Rightarrow> vals | None \<Rightarrow> [])"

definition matchImageFilters :: "Store \<Rightarrow> Image \<Rightarrow> string list gomap \<Rightarrow> bool" where
  "matchImageFilters st img filters =
     (let refs = filter_vals filters ''reference'';
          df = filter_vals filters ''dangling'';
          lf = filter_vals filters ''label'';
          bf = filter_vals filters ''before'';
          sf = filter_vals filters ''since''
      in if refs \<noteq> [] \<and> \<not> list_ex (\<lambda>ref. list_ex (path_match ref) (im_RepoTags img)) refs then False
         else if df \<noteq> [] \<and>
             (hd df = ''true'' \<or> hd df = ''1'') \<noteq> list_all (\<lambda>tag. Contains tag ''<none>'') (im_RepoTags img) then False
         else if lf \<noteq> [] \<and> \<not> MatchLabels (labels_of (im_Config img)) lf then False
         else if list_ex (\<lambda>v. case ResolveImage v st of
                                Some refImg \<Rightarrow> \<not> time_or_zero (im_Created img) < time_or_zero (im_Created refImg)
                              | None \<Rightarrow> False) bf then False
         else if list_ex (\<lambda>v. case ResolveImage v st of
                                Some refImg \<Rightarrow> \<not> time_or_zero (im_Created refImg) < time_or_zero (im_Created img)
                              | None \<Rightarrow> False) sf then False
         else True)"

record ImageSummary =
  is_ID :: string
  is_RepoTags :: "string list"
  is_RepoDigests :: "string list"
  is_Created :: int
  is_Size :: int
  is_VirtualSize :: int
  is_Labels :: "string gomap option"
  is_Containers :: int

definition container_count :: "Store \<Rightarrow> string \<Rightarrow> int" where
  "container_count st ident =
     int (length (filter (\<lambda>c. case ResolveImage (cc_Image (c_Config c)) st of
                                Some img \<Rightarrow> im_ID img = ident | None \<Rightarrow> False)
                         (StateStore_List (st_Containers st))))"

definition image_summary :: "Store \<Rightarrow> Image \<Rightarrow> ImageSummary" where
  "image_summary st img =
     \<lparr>is_ID = im_ID img, is_RepoTags = im_RepoTags img, is_RepoDigests = im_RepoDigests img,
      is_Created = created_unix (im_Created img), is_Size = im_Size img, is_VirtualSize = im_VirtualSize img,
      is_Labels = cc_Labels (im_Config img), is_Containers = container_count st (im_ID img)\<rparr>"

fun list_images :: "Store \<Rightarrow> string list gomap \<Rightarrow> string list \<Rightarrow> Image list \<Rightarrow> ImageSummary list" where
  "list_images st filters seen [] = []"
| "list_images st filters seen (img # imgs) =
     (if im_ID img \<in> set seen then list_images st filters seen imgs
      else if filters \<noteq> [] \<and> \<not> matchImageFilters st img filters
      then list_images st filters (im_ID img # seen) imgs
      else image_summary st img # list_images st filters (im_ID img # seen) imgs)"

definition ImageList :: "string list gomap \<Rightarrow> Store \<Rightarrow> ImageSummary list" where
  "ImageList filters st = list_images st filters [] (StateStore_List (st_Images st))"

section \<open>History\<close>

record ImageHistoryEntry =
  he_Comment :: string
  he_Created :: int
  he_CreatedBy :: string
  he_ID :: string
  he_Size :: int
  he_Tags :: "string list"

text \<open>
  The loop runs from the last item to the first, so the list is reversed; \<open>layers\<close> are the layers not
  yet used, from the last one. Go divides towards zero.
\<close>

definition history_created :: "string \<Rightarrow> int" where
  "history_created s = (case parse_rfc3339 s of Some t \<Rightarrow> t div 10 ^ 9 | None \<Rightarrow> 0)"

definition layer_size :: "Image \<Rightarrow> int" where
  "layer_size img = sgn (im_Size img) * (\<bar>im_Size img\<bar> div int (length (im_Layers img)))"

fun history_loop :: "Image \<Rightarrow> bool \<Rightarrow> string list \<Rightarrow> ImageHistoryItem list \<Rightarrow> ImageHistoryEntry list" where
  "history_loop img newest layers [] = []"
| "history_loop img newest layers (h # items) =
     (let (ident, sz, layers) =
            (if ih_EmptyLayer h then (''<missing>'', 0, layers)
             else case layers of
               layer # rest \<Rightarrow> (layer, layer_size img, rest)
             | [] \<Rightarrow> ([], 0, []))
      in \<lparr>he_Comment = ih_Comment h, he_Created = history_created (ih_Created h), he_CreatedBy = ih_CreatedBy h,
          he_ID = ident, he_Size = sz, he_Tags = (if newest then im_RepoTags img else [])\<rparr>
         # history_loop img False layers items)"

definition ImageHistory :: "string \<Rightarrow> Store \<Rightarrow> api_error + ImageHistoryEntry list" where
  "ImageHistory name st =
     (case ResolveImage name st of
        None \<Rightarrow> Inl (NotFoundError ''image'' name)
      | Some img \<Rightarrow>
          (case mget (st_ImageHistory st) (im_ID img) of
             Some items \<Rightarrow> Inr (history_loop img True (rev (im_Layers img)) (rev items))
           | None \<Rightarrow> Inr [\<lparr>he_Comment = [], he_Created = created_unix (im_Created img), he_CreatedBy = [],
                          he_ID = im_ID img, he_Size = im_Size img, he_Tags = im_RepoTags img\<rparr>]))"

section \<open>Removing\<close>

text \<open>\<open>digest(s)\<close>: the error is \<open>None\<close>.\<close>

definition digest :: "string \<Rightarrow> string option" where
  "digest s =
     (if length s < 12 then None
      else if list_ex (\<lambda>r. let n = (of_char r :: nat) in (n < 48 \<or> n > 57) \<and> (n < 97 \<or> n > 102)) s then None
      else Some s)"

definition stripDefaultRegistry :: "string \<Rightarrow> string" where
  "stripDefaultRegistry tag =
     (case find (HasPrefix tag) [''docker.io/library/'', ''docker.io/'', ''registry-1.docker.io/library/'', ''registry-1.docker.io/''] of
        Some prefix \<Rightarrow> TrimPrefix tag prefix
      | None \<Rightarrow> tag)"

definition names_tag :: "string \<Rightarrow> string \<Rightarrow> bool" where
  "names_tag cand tag \<longleftrightarrow>
     tag = cand \<or> stripDefaultRegistry tag = cand \<or> stripDefaultRegistry tag = stripDefaultRegistry cand"

fun first_tag :: "string list \<Rightarrow> string list \<Rightarrow> string" where
  "first_tag [] tags = []"
| "first_tag (cand # cands) tags =
     (case find (names_tag cand) tags of Some tag \<Rightarrow> tag | None \<Rightarrow> first_tag cands tags)"

definition resolveTagForRemoval :: "string \<Rightarrow> Image \<Rightarrow> string" where
  "resolveTagForRemoval name img =
     (if HasPrefix name ''sha256:'' \<or> Contains name ''@'' then []
      else if digest name \<noteq> None then []
      else first_tag (name # (if \<not> Contains name '':'' then [name @ '':latest''] else [])) (im_RepoTags img))"

record ImageDeleteResponse =
  dr_Deleted :: string
  dr_Untagged :: string

abbreviation untagged :: "string \<Rightarrow> ImageDeleteResponse" where
  "untagged tag \<equiv> \<lparr>dr_Deleted = [], dr_Untagged = tag\<rparr>"

abbreviation deleted :: "string \<Rightarrow> ImageDeleteResponse" where
  "deleted ident \<equiv> \<lparr>dr_Deleted = ident, dr_Untagged = []\<rparr>"

definition image_event :: "World \<Rightarrow> string \<Rightarrow> string \<Rightarrow> string \<Rightarrow> Store \<Rightarrow> Store" where
  "image_event w action ident name st = emitEvent w ''image'' action ident [(''name'', name)] st"

text \<open>\<open>if dir, ok := BuildContexts.LoadAndDelete(id); ok { os.RemoveAll(dir) }\<close>.\<close>

definition drop_build_context :: "string \<Rightarrow> Store \<Rightarrow> Store" where
  "drop_build_context ident st =
     (case mget (st_BuildContexts st) ident of
        Some dir \<Rightarrow> RemoveAll dir (st\<lparr>st_BuildContexts := mdel ident (st_BuildContexts st)\<rparr>)
      | None \<Rightarrow> st)"

text \<open>\<open>cImg, _ := ResolveImage(...)\<close>: an unknown image is the zero value, whose identifier is empty.\<close>

definition image_of :: "Container \<Rightarrow> Store \<Rightarrow> string" where
  "image_of c st = (case ResolveImage (cc_Image (c_Config c)) st of Some img \<Rightarrow> im_ID img | None \<Rightarrow> [])"

definition untag_one :: "World \<Rightarrow> string \<Rightarrow> Store \<Rightarrow> string \<Rightarrow> Store" where
  "untag_one w ident st tag =
     image_event w ''untag'' ident tag (del_image (ref_name tag) (del_image tag st))"

definition delete_image :: "World \<Rightarrow> string \<Rightarrow> Image \<Rightarrow> Store \<Rightarrow> Store" where
  "delete_image w name img st =
     (let st = foldl (untag_one w (im_ID img)) st (im_RepoTags img);
          st = del_image (im_ID img) st;
          st = (if length (im_ID img) > 19 then del_image (take 19 (im_ID img)) st else st);
          st = drop_build_context (im_ID img) st
      in image_event w ''delete'' (im_ID img) name st)"

definition untag_image :: "World \<Rightarrow> string \<Rightarrow> Image \<Rightarrow> Store \<Rightarrow> Store" where
  "untag_image w tag img st =
     (let st = image_event w ''untag'' (im_ID img) tag (del_image tag st);
          img = img\<lparr>im_RepoTags := filter (\<lambda>t. t \<noteq> tag) (im_RepoTags img)\<rparr>
      in foldl (\<lambda>st (k, v). if im_ID v = im_ID img then put_image k img st else st)
           st (StateStore_Entries (st_Images st)))"

definition ImageRemove ::
  "World \<Rightarrow> string \<Rightarrow> bool \<Rightarrow> Store \<Rightarrow> Store \<times> (api_error + ImageDeleteResponse list)" where
  "ImageRemove w name force st =
     (case ResolveImage name st of
        None \<Rightarrow> (st, Inl (NotFoundError ''image'' name))
      | Some img \<Rightarrow>
          if \<not> force \<and> list_ex (\<lambda>c. image_of c st = im_ID img) (StateStore_List (st_Containers st))
          then (st, Inl (ConflictError (''conflict: unable to remove repository reference '' @ quoted name @ '' (must force)'')))
          else
            let resolvedTag = resolveTagForRemoval name img in
            if resolvedTag = [] \<or> length (im_RepoTags img) \<le> 1
            then (delete_image w name img st, Inr (map untagged (im_RepoTags img) @ [deleted (im_ID img)]))
            else (untag_image w resolvedTag img st, Inr [untagged resolvedTag]))"

section \<open>Pruning\<close>

text \<open>\<open>if idx := strings.Index(tag, ":"); idx >= 0\<close> with \<open>tag[:idx]\<close>.\<close>

definition tag_names :: "string \<Rightarrow> string list" where
  "tag_names tag = tag # (case Cut tag CHR '':'' of Some (name, _) \<Rightarrow> [name] | None \<Rightarrow> [])"

definition referenced_images :: "Store \<Rightarrow> string list" where
  "referenced_images st = concat (map (\<lambda>c. [cc_Image (c_Config c), c_Image c]) (StateStore_List (st_Containers st)))"

definition image_in_use :: "string list \<Rightarrow> Image \<Rightarrow> bool" where
  "image_in_use refs img \<longleftrightarrow>
     im_ID img \<in> set refs \<or> list_ex (\<lambda>tag. list_ex (\<lambda>k. k \<in> set refs) (tag_names tag)) (im_RepoTags img)"

definition has_real_tag :: "Image \<Rightarrow> bool" where
  "has_real_tag img = list_ex (\<lambda>tag. \<not> Contains tag ''<none>'') (im_RepoTags img)"

text \<open>The size is added as \<open>uint64\<close>.\<close>

definition add_u64 :: "int \<Rightarrow> int \<Rightarrow> int" where
  "add_u64 a b = (a + b) mod 2 ^ 64"

definition prune_image ::
  "World \<Rightarrow> string list \<Rightarrow> bool \<Rightarrow> Store \<times> string list \<times> ImageDeleteResponse list \<times> int \<Rightarrow> Image \<Rightarrow>
     Store \<times> string list \<times> ImageDeleteResponse list \<times> int" where
  "prune_image w refs danglingOnly acc img =
     (case acc of (st, prunedIDs, del, space) \<Rightarrow>
        if im_ID img \<in> set prunedIDs \<or> image_in_use refs img \<or> (danglingOnly \<and> has_real_tag img) then acc
        else
          let st = drop_build_context (im_ID img) st;
              st = foldl (\<lambda>st tag. image_event w ''untag'' (im_ID img) tag st) st (im_RepoTags img);
              st = image_event w ''delete'' (im_ID img) (im_ID img) st;
              st = del_image (im_ID img) st;
              st = foldl (\<lambda>st tag. foldl (\<lambda>st k. del_image k st) st (tag_names tag)) st (im_RepoTags img)
          in (st, im_ID img # prunedIDs, del @ map untagged (im_RepoTags img) @ [deleted (im_ID img)],
              add_u64 space (im_Size img)))"

definition filter_on :: "string list gomap \<Rightarrow> string \<Rightarrow> bool" where
  "filter_on filters key =
     (case mget filters key of Some vals \<Rightarrow> list_ex (\<lambda>v. v = ''true'' \<or> v = ''1'') vals | None \<Rightarrow> False)"

definition ImagePrune ::
  "World \<Rightarrow> string list gomap \<Rightarrow> Store \<Rightarrow> Store \<times> ImageDeleteResponse list \<times> int" where
  "ImagePrune w filters st =
     (let (st', _, del, space) =
            foldl (prune_image w (referenced_images st) (filter_on filters ''dangling'')) (st, [], [], 0)
              (StateStore_List (st_Images st))
      in (st', del, space))"

section \<open>Facts\<close>

lemma Index_char: "Index s [c] = None \<longleftrightarrow> c \<notin> set s"
  by (induction s) (auto simp: Index.simps HasPrefix_def)

lemma Contains_char: "Contains s [c] \<longleftrightarrow> c \<in> set s"
  by (simp add: Contains_def Index_char)

lemma foldl_put_image:
  "foldl (\<lambda>st k. put_image k img st) st ks =
     st\<lparr>st_Images := foldl (\<lambda>m k. StateStore_Put k img m) (st_Images st) ks\<rparr>"
  by (induction ks arbitrary: st) simp_all

lemma get_foldl_put:
  "StateStore_Get k (foldl (\<lambda>m k. StateStore_Put k v m) m ks) = (if k \<in> set ks then Some v else StateStore_Get k m)"
  by (induction ks arbitrary: m) simp_all

lemma foldl_del_image:
  "foldl (\<lambda>st k. del_image k st) st ks = st\<lparr>st_Images := foldl (\<lambda>m k. ss_delete k m) (st_Images st) ks\<rparr>"
  by (induction ks arbitrary: st) simp_all

lemma get_foldl_delete:
  "StateStore_Get k (foldl (\<lambda>m k. ss_delete k m) m ks) = (if k \<in> set ks then None else StateStore_Get k m)"
  by (induction ks arbitrary: m) simp_all

lemma StoreImageWithAliases_upd:
  "StoreImageWithAliases ref img st =
     st\<lparr>st_Images := foldl (\<lambda>m k. StateStore_Put k img m) (st_Images st) (im_ID img # image_aliases ref)\<rparr>"
  by (simp add: StoreImageWithAliases_def foldl_put_image)

lemma get_StoreImageWithAliases:
  "get_image k (StoreImageWithAliases ref img st) =
     (if k = im_ID img \<or> k \<in> set (image_aliases ref) then Some img else get_image k st)"
  by (auto simp: StoreImageWithAliases_upd get_foldl_put)

lemma ref_in_aliases [simp]: "ref \<in> set (image_aliases ref)"
  by (simp add: image_aliases_def)

lemma ResolveImage_get: "get_image ref st = Some img \<Longrightarrow> ResolveImage ref st = Some img"
  by (simp add: ResolveImage_def)

lemma ResolveImage_cong: "st_Images st' = st_Images st \<Longrightarrow> ResolveImage ref st' = ResolveImage ref st"
  by (simp add: ResolveImage_def cong: option.case_cong)

lemma now_text_Images [simp]: "st_Images (fst (now_text w st)) = st_Images st"
  by (simp add: now_text_def)

lemma image_event_Images [simp]: "st_Images (image_event w a i n st) = st_Images st"
  by (simp add: image_event_def frame)

lemma drop_build_context_Images [simp]: "st_Images (drop_build_context i st) = st_Images st"
  by (simp add: drop_build_context_def frame split: option.split)

lemma fetch_layers_Images [simp]: "st_Images (fst (fetch_layers fetch md i ls acc st)) = st_Images st"
  by (induction fetch md i ls acc st rule: fetch_layers.induct) (simp_all split: sum.split)

text \<open>What a pull leaves in the cache.\<close>

lemma pull_stores:
  assumes "ref \<noteq> []" and "ResolveImage (default_tag ref) st = None"
  shows "st_Images (fst (ImagePullWithMetadata w fetch ref (Some md) st)) =
    st_Images (StoreImageWithAliases (default_tag ref) (pulled_image (default_tag ref) md (snd (now_text w st))) st)"
proof -
  have upd: "st_Images (StoreImageWithAliases r img st') = st_Images (StoreImageWithAliases r img st)"
    if "st_Images st' = st_Images st" for r img st'
    using that by (simp add: StoreImageWithAliases_upd)
  define st2 where "st2 = (if md_History md \<noteq> [] then fst (now_text w st)\<lparr>st_ImageHistory := mput (md_ConfigDigest md)
       (md_History md) (st_ImageHistory (fst (now_text w st)))\<rparr> else fst (now_text w st))"
  have st2: "st_Images st2 = st_Images st" by (simp add: st2_def)
  let ?img = "pulled_image (default_tag ref) md (snd (now_text w st))"
  let ?fl = "fetch_layers (fetch (if rc_Registry (md_RegistryConfig md) = [] then parseImageRef (default_tag ref) else md_RegistryConfig md) (md_Token md))
      md 0 (zip (md_LayerBlobDigests md) (md_LayerSizes md)) [] (StoreImageWithAliases (default_tag ref) ?img st2)"
  have fl: "st_Images (fst ?fl) = st_Images (StoreImageWithAliases (default_tag ref) ?img st)"
    by (simp add: upd [OF st2])
  show ?thesis
    using assms fl upd [OF st2]
    by (cases ?fl) (auto simp: ImagePullWithMetadata_def Let_def case_prod_beta st2_def [symmetric] split: sum.split)
qed

text \<open>
  A pull that fails half way looks complete afterwards. Where the fetch of a layer fails and the pull
  reports the error, the image is already stored under all its aliases: the next pull of the
  reference fetches nothing, whatever the registry answers, and reports that the image is up to date.
\<close>

theorem failed_pull_looks_complete:
  assumes "ImagePullWithMetadata w fetch ref (Some md) st = (st', Inl err)"
    and "ref \<noteq> []" and "ResolveImage (default_tag ref) st = None"
  shows "snd (ImagePullWithMetadata w' fetch' ref meta st') =
      Inr [(''Pulling from '' @ ref_name (default_tag ref), None),
           (''Status: Image is up to date for '' @ default_tag ref, None)] \<and>
    st_LayerContent (fst (ImagePullWithMetadata w' fetch' ref meta st')) = st_LayerContent st' \<and>
    (\<exists>img. ResolveImage (default_tag ref) st' = Some img \<and> im_ID img = md_ConfigDigest md)"
proof -
  define img where "img = pulled_image (default_tag ref) md (snd (now_text w st))"
  have "st_Images st' = st_Images (StoreImageWithAliases (default_tag ref) img st)"
    using pull_stores [OF assms(2,3), of w fetch md] assms(1) by (simp add: img_def)
  then have "get_image (default_tag ref) st' = Some img"
    by (simp add: get_StoreImageWithAliases)
  then have res: "ResolveImage (default_tag ref) st' = Some img" by (rule ResolveImage_get)
  have "im_ID img = md_ConfigDigest md" by (simp add: img_def pulled_image_def Let_def)
  with res assms(2) show ?thesis
    by (simp add: ImagePullWithMetadata_def Let_def StoreImageWithAliases_upd split: option.split)
qed

text \<open>What a tag leaves in the cache: the tagged image under its identifier, its tags and the aliases.\<close>

definition tagged :: "World \<Rightarrow> Image \<Rightarrow> string \<Rightarrow> Store \<Rightarrow> Image" where
  "tagged w img ref st = img\<lparr>im_RepoTags := im_RepoTags img @ [ref], im_LastTagTime := snd (now_text w st)\<rparr>"

definition tag_ref :: "string \<Rightarrow> string \<Rightarrow> string" where
  "tag_ref repo tag = (if tag \<noteq> [] then repo @ '':'' @ tag else repo)"

lemma ImageTag_get:
  assumes "repo \<noteq> []" and "ResolveImage source st = Some img" and "tag_ref repo tag \<notin> set (im_RepoTags img)"
  shows "get_image k (fst (ImageTag w source repo tag st)) =
    (if k = im_ID img \<or> k \<in> set (image_aliases (tag_ref repo tag)) \<or> k \<in> set (im_RepoTags img)
     then Some (tagged w img (tag_ref repo tag) st) else get_image k st)"
proof -
  have "\<not> list_ex (\<lambda>t. t = tag_ref repo tag) (im_RepoTags img)" using assms(3) by (auto simp: list_ex_iff)
  with assms(1,2) have "st_Images (fst (ImageTag w source repo tag st)) =
      st_Images (foldl (\<lambda>st' t. put_image t (tagged w img (tag_ref repo tag) st) st')
        (put_image (im_ID img) (tagged w img (tag_ref repo tag) st)
           (StoreImageWithAliases (tag_ref repo tag) (tagged w img (tag_ref repo tag) st) (fst (now_text w st))))
        (im_RepoTags img @ [tag_ref repo tag]))"
    by (simp add: ImageTag_def Let_def case_prod_beta frame tagged_def tag_ref_def [symmetric])
  then show ?thesis
    by (auto simp: foldl_put_image StoreImageWithAliases_upd get_foldl_put tagged_def)
qed

text \<open>
  A second tag forgets the first. A key of the image that is none of its identifier, its tags and the
  aliases of the new tag is not rewritten by \<open>ImageTag\<close>: it keeps the old tag list. Two tags given
  through such a key, as by \<open>docker tag alpine a:1; docker tag alpine b:1\<close>, both succeed, and the
  image is left with the old tags and the second one: inspected by identifier, it lacks the first,
  though the first still resolves.
\<close>

theorem second_tag_forgets_first:
  assumes "get_image source st = Some img"
    and "repo1 \<noteq> []" "repo2 \<noteq> []"
    and "ref1 = tag_ref repo1 tag1" "ref2 = tag_ref repo2 tag2"
    and "source \<notin> set (im_ID img # image_aliases ref1 @ im_RepoTags img)"
    and "ref1 \<notin> set (im_ID img # image_aliases ref2 @ im_RepoTags img)"
    and "ref2 \<notin> set (im_RepoTags img)"
    and "ImageTag w source repo1 tag1 st = (st1, res1)"
    and "ImageTag w source repo2 tag2 st1 = (st2, res2)"
  shows "res1 = Inr () \<and> res2 = Inr () \<and>
    (\<exists>img2. ImageInspect (im_ID img) st2 = Inr img2 \<and> im_RepoTags img2 = im_RepoTags img @ [ref2] \<and> ref1 \<notin> set (im_RepoTags img2)) \<and>
    (\<exists>img1. ImageInspect ref1 st2 = Inr img1 \<and> im_ID img1 = im_ID img)"
proof -
  note src = ResolveImage_get [OF assms(1)]
  have get1: "get_image k st1 =
      (if k = im_ID img \<or> k \<in> set (image_aliases ref1) \<or> k \<in> set (im_RepoTags img) then Some (tagged w img ref1 st) else get_image k st)" for k
    using ImageTag_get [OF assms(2) src, of tag1 k w] assms(4,7,9) by auto
  have src1: "ResolveImage source st1 = Some img"
    using assms(1,6) by (intro ResolveImage_get) (simp add: get1)
  have get2: "get_image k st2 =
      (if k = im_ID img \<or> k \<in> set (image_aliases ref2) \<or> k \<in> set (im_RepoTags img) then Some (tagged w img ref2 st1) else get_image k st1)" for k
    using ImageTag_get [OF assms(3) src1, of tag2 k w] assms(5,8,10) by auto
  have res: "res1 = Inr () \<and> res2 = Inr ()"
    using assms(2,3,9,10) src src1 by (auto simp: ImageTag_def Let_def case_prod_beta split: if_splits)
  have "ResolveImage (im_ID img) st2 = Some (tagged w img ref2 st1)" by (intro ResolveImage_get) (simp add: get2)
  moreover have "ref1 \<noteq> ref2" using assms(7) by auto
  moreover have "ResolveImage ref1 st2 = Some (tagged w img ref1 st)"
    using assms(7) by (intro ResolveImage_get) (simp add: get1 get2)
  ultimately show ?thesis using res assms(7) by (simp add: ImageInspect_def tagged_def)
qed

lemma foldl_sweep:
  "foldl (\<lambda>st (k, v). if im_ID v = i then put_image k img st else st) st es =
     st\<lparr>st_Images := foldl (\<lambda>m (k, v). if im_ID v = i then StateStore_Put k img m else m) (st_Images st) es\<rparr>"
  by (induction es arbitrary: st) auto

lemma get_foldl_sweep:
  "StateStore_Get k (foldl (\<lambda>m (k, v). if im_ID v = i then StateStore_Put k img m else m) m es) =
     (if \<exists>v. (k, v) \<in> set es \<and> im_ID v = i then Some img else StateStore_Get k m)"
  by (induction es arbitrary: m) auto

lemma get_untag_image:
  assumes "wf_map (st_Images st)"
  shows "get_image k (untag_image w tag img st) =
    (if k = tag then None
     else map_option (\<lambda>v. if im_ID v = im_ID img then img\<lparr>im_RepoTags := filter (\<lambda>t. t \<noteq> tag) (im_RepoTags img)\<rparr> else v)
            (get_image k st))"
proof -
  have wf: "wf_map (ss_delete tag (st_Images st))" using assms by simp
  have "(\<exists>v. (k, v) \<in> set (ss_delete tag (st_Images st)) \<and> im_ID v = im_ID img) \<longleftrightarrow>
      k \<noteq> tag \<and> (\<exists>v. get_image k st = Some v \<and> im_ID v = im_ID img)"
    using mget_in_set [OF wf] get_delete [of k tag "st_Images st"] by (auto simp: StateStore_Get_def)
  then show ?thesis
    by (auto simp: untag_image_def Let_def foldl_sweep get_foldl_sweep StateStore_Entries_def map_option_case
        split: option.split)
qed

text \<open>
  Removing one of several tags leaves no entry that still lists it. After \<open>ImageRemove\<close> of a tag of an
  image with others, every entry of the cache with the image's identifier carries the tags without
  the removed one, the removed tag is no key of the cache, and images with other identifiers are untouched.
\<close>

theorem untag_leaves_no_stale_entry:
  assumes "wf_map (st_Images st)" and "ResolveImage name st = Some img"
    and "ImageRemove w name force st = (st', Inr [\<lparr>dr_Deleted = [], dr_Untagged = tag\<rparr>])" and "tag \<noteq> []"
  shows "get_image tag st' = None \<and>
    (\<forall>k. k \<noteq> tag \<longrightarrow> map_option im_ID (get_image k st') = map_option im_ID (get_image k st)) \<and>
    (\<forall>k v. get_image k st' = Some v \<longrightarrow>
       (if im_ID v = im_ID img then im_RepoTags v = filter (\<lambda>t. t \<noteq> tag) (im_RepoTags img)
        else get_image k st = Some v))"
proof -
  have "st' = untag_image w tag img st"
    using assms(2-4) by (auto simp: ImageRemove_def Let_def split: if_splits)
  then show ?thesis using get_untag_image [OF assms(1)] by (auto simp: map_option_case split: option.splits)
qed

lemma untag_one_upd:
  "st_Images (foldl (untag_one w i) st tags) =
     foldl (\<lambda>m k. ss_delete k m) (st_Images st) (concat (map (\<lambda>t. [t, ref_name t]) tags))"
  by (induction tags arbitrary: st) (simp_all add: untag_one_def)

definition erased_keys :: "Image \<Rightarrow> string list" where
  "erased_keys img =
     concat (map (\<lambda>t. [t, ref_name t]) (im_RepoTags img)) @ im_ID img #
     (if length (im_ID img) > 19 then [take 19 (im_ID img)] else [])"

lemma get_delete_image:
  "get_image k (delete_image w name img st) = (if k \<in> set (erased_keys img) then None else get_image k st)"
  by (auto simp: delete_image_def Let_def untag_one_upd get_foldl_delete erased_keys_def)

text \<open>
  A removed image can still be reached by its short name. A pull of a Docker Hub reference
  \<open>docker.io/library/X:T\<close> stores the image under \<open>X\<close> and \<open>X:T\<close> too; a forced \<open>ImageRemove\<close> of the whole
  image erases the keys built from its tags and its identifier, not those: \<open>docker image inspect X\<close>
  still answers, with the removed image.
\<close>

theorem removed_image_still_resolves:
  assumes "ref = ''docker.io/library/'' @ short @ '':'' @ tag"
    and "CHR '':'' \<notin> set short"
    and "ResolveImage ref st = None" and "md_ConfigDigest md = ''sha256:'' @ hex"
    and "ImagePullWithMetadata w fetch ref (Some md) st = (st1, Inr out)"
    and "ImageRemove w' (''sha256:'' @ hex) True st1 = (st2, res)"
  shows "(\<exists>del. res = Inr del \<and> deleted (''sha256:'' @ hex) \<in> set del) \<and>
    get_image (''sha256:'' @ hex) st2 = None \<and>
    (\<exists>img. ImageInspect short st2 = Inr img \<and> im_ID img = ''sha256:'' @ hex)"
proof -
  define img where "img = pulled_image ref md (snd (now_text w st))"
  have cut: "Cut ref CHR '':'' = Some (''docker.io/library/'' @ short, tag)"
    using assms(2) Cut_append [of "CHR '':''" "''docker.io/library/'' @ short" tag] by (simp add: assms(1))
  have name: "ref_name ref = ''docker.io/library/'' @ short" by (simp add: ref_name_def SplitN2_def cut)
  have "HasPrefix (''docker.io/library/'' @ short) ''docker.io/library/''" by (rule HasPrefix_append)
  then have short: "short \<in> set (image_aliases ref)"
    by (simp add: image_aliases_def name hub_short_def TrimPrefix_def del: append.simps)
  have ne: "ref \<noteq> []" by (simp add: assms(1))
  have tag: "default_tag ref = ref"
    by (simp add: default_tag_def Contains_char assms(1))
  have id: "im_ID img = ''sha256:'' @ hex" and tags: "im_RepoTags img = [ref]"
    using assms(4) by (simp_all add: img_def pulled_image_def Let_def)
  have st1: "get_image k st1 = (if k = im_ID img \<or> k \<in> set (image_aliases ref) then Some img else get_image k st)" for k
    using pull_stores [OF ne, of st w fetch md] assms(3,5) by (simp add: tag img_def get_StoreImageWithAliases)
  have "ResolveImage (''sha256:'' @ hex) st1 = Some img" by (intro ResolveImage_get) (simp add: st1 id)
  then have st2: "st2 = delete_image w' (''sha256:'' @ hex) img st1" "res = Inr [untagged ref, deleted (''sha256:'' @ hex)]"
    using assms(6) by (auto simp: ImageRemove_def tags resolveTagForRemoval_def id)
  have "CHR '':'' \<in> set (take 19 (''sha256:'' @ hex))" by simp
  then have "\<forall>k \<in> set (erased_keys img). k \<noteq> short"
    using assms(2) by (auto simp: erased_keys_def tags id name) (auto simp: assms(1))
  then have "ResolveImage short st2 = Some img"
    using short by (intro ResolveImage_get) (auto simp: st2(1) get_delete_image st1)
  moreover have "get_image (''sha256:'' @ hex) st2 = None"
    by (simp add: st2(1) get_delete_image erased_keys_def id)
  ultimately show ?thesis by (simp add: ImageInspect_def st2(2) id)
qed

section \<open>Pruning spares what is referenced\<close>

lemma foldl_events_Images:
  "st_Images (foldl (\<lambda>st tag. image_event w a i tag st) st tags) = st_Images st"
  by (induction tags arbitrary: st) simp_all

lemma foldl_del_tags:
  "foldl (\<lambda>st tag. foldl (\<lambda>st k. del_image k st) st (tag_names tag)) st tags =
     st\<lparr>st_Images := foldl (\<lambda>m k. ss_delete k m) (st_Images st) (concat (map tag_names tags))\<rparr>"
  by (induction tags arbitrary: st) (simp_all add: foldl_del_image)

lemma prune_image_spares:
  assumes "k \<in> set refs"
  shows "get_image k (fst (prune_image w refs d acc img)) = get_image k (fst acc)"
proof -
  have "k \<noteq> im_ID img \<and> (\<forall>t \<in> set (im_RepoTags img). k \<notin> set (tag_names t))" if "\<not> image_in_use refs img"
    using that assms by (auto simp: image_in_use_def list_ex_iff)
  then show ?thesis
    by (auto simp: prune_image_def Let_def foldl_del_tags get_foldl_delete foldl_events_Images split: prod.split)
qed

text \<open>
  C34: Pruning images never takes one from a container: whatever the filters, the cache entries under the
  reference a container was created with and under its image identifier are the same after
  \<open>ImagePrune\<close>, even where several images share a tag.
\<close>

theorem prune_spares_container_images:
  assumes "c \<in> set (StateStore_List (st_Containers st))" and "k = cc_Image (c_Config c) \<or> k = c_Image c"
  shows "get_image k (fst (ImagePrune w filters st)) = get_image k st"
proof -
  let ?refs = "referenced_images st" and ?d = "filter_on filters ''dangling''"
  have k: "k \<in> set ?refs" using assms by (auto simp: referenced_images_def)
  have "get_image k (fst (foldl (prune_image w ?refs ?d) acc imgs)) = get_image k (fst acc)" for acc imgs
    by (induction imgs arbitrary: acc) (simp_all add: prune_image_spares [OF k])
  then show ?thesis by (simp add: ImagePrune_def case_prod_beta)
qed

text \<open>Operations on images keep every field the invariants read.\<close>

lemma image_writes:
  fixes P :: "Store \<Rightarrow> bool"
  assumes upd: "\<And>st x. P (st\<lparr>st_Images := x\<rparr>) = P st" "\<And>st x. P (st\<lparr>st_LayerContent := x\<rparr>) = P st"
    "\<And>st x. P (st\<lparr>st_ImageHistory := x\<rparr>) = P st" "\<And>st x. P (st\<lparr>st_ImageManifestLayers := x\<rparr>) = P st"
    "\<And>st x. P (st\<lparr>st_BuildContexts := x\<rparr>) = P st" "\<And>st d. P (RemoveAll d st) = P st"
    "\<And>st. P (fst (now_text w st)) = P st" "\<And>st ty ac i at. P (emitEvent w ty ac i at st) = P st"
  shows "P (fst (ImagePullWithMetadata w fetch ref meta st)) = P st"
    "P (fst (ImageTag w source repo tag st)) = P st"
    "P (fst (ImageRemove w name force st)) = P st"
    "P (fst (ImagePrune w filters st)) = P st"
proof -
  have fetch: "P (fst (fetch_layers f md i ls acc st)) = P st" for f md i ls acc st
    by (induction f md i ls acc st rule: fetch_layers.induct) (simp_all add: upd split: sum.split)
  have store: "P (StoreImageWithAliases r img st) = P st" for r img st
    by (simp add: StoreImageWithAliases_upd upd)
  have ev: "P (image_event w a i n st) = P st" for a i n st by (simp add: image_event_def upd)
  have evs: "P (foldl (\<lambda>st t. image_event w a i t st) st ts) = P st" for a i ts st
    by (induction ts arbitrary: st) (simp_all add: ev)
  have drop: "P (drop_build_context i st) = P st" for i st
    by (simp add: drop_build_context_def upd split: option.split)
  have untags: "P (foldl (untag_one w i) st ts) = P st" for i ts st
    by (induction ts arbitrary: st) (simp_all add: untag_one_def ev upd)
  have del: "P (delete_image w n img st) = P st" for n img st
    by (simp add: delete_image_def Let_def untags drop ev upd)
  have untag: "P (untag_image w t img st) = P st" for t img st
    by (simp add: untag_image_def Let_def foldl_sweep ev upd)
  have prune: "P (fst (prune_image w refs d acc img)) = P (fst acc)" for refs d acc img
    by (auto simp: prune_image_def Let_def foldl_del_tags drop ev evs upd split: prod.split)
  have prunes: "P (fst (foldl (prune_image w refs d) acc imgs)) = P (fst acc)" for refs d acc imgs
    by (induction imgs arbitrary: acc) (simp_all add: prune)
  show "P (fst (ImagePullWithMetadata w fetch ref meta st)) = P st"
    by (simp add: ImagePullWithMetadata_def Let_def case_prod_beta store upd fetch split: option.split sum.split)
  show "P (fst (ImageTag w source repo tag st)) = P st"
    by (simp add: ImageTag_def Let_def case_prod_beta store foldl_put_image upd split: option.split)
  show "P (fst (ImageRemove w name force st)) = P st"
    by (simp add: ImageRemove_def Let_def del untag split: option.split)
  show "P (fst (ImagePrune w filters st)) = P st"
    by (simp add: ImagePrune_def case_prod_beta prunes)
qed

section \<open>Instances\<close>

definition demo_image :: Image where
  "demo_image = \<lparr>im_Architecture = ''amd64'', im_Config = demo_config, im_Created = zero_time,
     im_GraphDriver_Data = [], im_GraphDriver_Name = ''overlay2'', im_ID = ''sha256:0001'', im_LastTagTime = [],
     im_Os = ''linux'', im_RepoDigests = [], im_RepoTags = [''alpine:latest''], im_RootFS_Type = ''layers'',
     im_Layers = [], im_Size = 1, im_VirtualSize = 1\<rparr>"

definition demo_images :: Store where
  "demo_images = StoreImageWithAliases ''alpine:latest'' demo_image demo_store"

definition demo_metadata :: ImageMetadataResult where
  "demo_metadata = \<lparr>md_Config = demo_config, md_ConfigDigest = ''sha256:0002'', md_ManifestDigest = ''sha256:0003'',
     md_LayerDigests = [''l1''], md_LayerBlobDigests = [''b1''], md_LayerMediaTypes = [], md_LayerSizes = [7],
     md_TotalSize = 7, md_History = [], md_Architecture = ''amd64'', md_OS = ''linux'', md_Created = [],
     md_Token = [], md_RegistryConfig = parseImageRef ''alpine''\<rparr>"

theorem failed_pull_looks_complete_witness:
  "snd (ImagePullWithMetadata demo_world (\<lambda>rc token dg. Inl ''503'') ''alpine'' None
     (fst (ImagePullWithMetadata demo_world (\<lambda>rc token dg. Inl ''503'') ''alpine'' (Some demo_metadata) demo_store))) =
   Inr [(''Pulling from '' @ ''alpine'', None), (''Status: Image is up to date for '' @ ''alpine:latest'', None)]"
proof -
  let ?r = "ImagePullWithMetadata demo_world (\<lambda>rc token dg. Inl ''503'') ''alpine'' (Some demo_metadata) demo_store"
  have "isl (snd ?r)" by code_simp
  then obtain err where "?r = (fst ?r, Inl err)" by (metis isl_def prod.collapse)
  moreover have "ResolveImage (default_tag ''alpine'') demo_store = None" by code_simp
  moreover have "default_tag ''alpine'' = ''alpine:latest''" "ref_name ''alpine:latest'' = ''alpine''" by code_simp+
  ultimately show ?thesis
    using failed_pull_looks_complete [where ref = "''alpine''" and w' = demo_world and meta = None] by fastforce
qed

theorem second_tag_forgets_first_witness:
  "\<exists>img. ImageInspect ''sha256:0001'' (fst (ImageTag demo_world ''alpine'' ''b'' ''1'' (fst (ImageTag demo_world ''alpine'' ''a'' ''1'' demo_images)))) = Inr img \<and>
     ''a:1'' \<notin> set (im_RepoTags img)"
proof -
  let ?r1 = "ImageTag demo_world ''alpine'' ''a'' ''1'' demo_images"
  let ?r2 = "ImageTag demo_world ''alpine'' ''b'' ''1'' (fst ?r1)"
  have "get_image ''alpine'' demo_images = Some demo_image" by code_simp
  moreover have "''a:1'' = tag_ref ''a'' ''1''" "''b:1'' = tag_ref ''b'' ''1''" by code_simp+
  moreover have "''alpine'' \<notin> set (im_ID demo_image # image_aliases ''a:1'' @ im_RepoTags demo_image)"
    "''a:1'' \<notin> set (im_ID demo_image # image_aliases ''b:1'' @ im_RepoTags demo_image)"
    "''b:1'' \<notin> set (im_RepoTags demo_image)" "''a'' \<noteq> []" "''b'' \<noteq> []" by code_simp+
  ultimately show ?thesis
    using second_tag_forgets_first [of "''alpine''" demo_images demo_image "''a''" "''b''" "''a:1''" "''1''" "''b:1''" "''1''"
        demo_world "fst ?r1" "snd ?r1" "fst ?r2" "snd ?r2"] by (auto simp: demo_image_def)
qed

theorem untag_leaves_no_stale_entry_witness:
  "get_image ''a:1'' (fst (ImageRemove demo_world ''a:1'' True (fst (ImageTag demo_world ''alpine'' ''a'' ''1'' demo_images)))) = None"
proof -
  let ?st = "fst (ImageTag demo_world ''alpine'' ''a'' ''1'' demo_images)"
  let ?r = "ImageRemove demo_world ''a:1'' True ?st"
  have "wf_map (st_Images ?st)" "snd ?r = Inr [\<lparr>dr_Deleted = [], dr_Untagged = ''a:1''\<rparr>]"
    "ResolveImage ''a:1'' ?st \<noteq> None" by code_simp+
  then show ?thesis
    using untag_leaves_no_stale_entry [of ?st "''a:1''" _ demo_world True "fst ?r" "''a:1''"]
    by (metis list.distinct(1) option.exhaust prod.collapse)
qed

theorem removed_image_still_resolves_witness:
  "\<exists>img. ImageInspect ''busybox'' (fst (ImageRemove demo_world ''sha256:0002'' True
      (fst (ImagePullWithMetadata demo_world (\<lambda>rc token dg. Inr ''blob'') ''docker.io/library/busybox:1'' (Some demo_metadata) demo_store))))
     = Inr img \<and> im_ID img = ''sha256:0002''"
proof -
  let ?p = "ImagePullWithMetadata demo_world (\<lambda>rc token dg. Inr ''blob'') ''docker.io/library/busybox:1'' (Some demo_metadata) demo_store"
  let ?r = "ImageRemove demo_world ''sha256:0002'' True (fst ?p)"
  have "\<not> isl (snd ?p)" by code_simp
  then obtain out where out: "?p = (fst ?p, Inr out)" by (cases "snd ?p") (simp_all add: prod_eq_iff)
  have "ResolveImage ''docker.io/library/busybox:1'' demo_store = None" by code_simp
  moreover have "md_ConfigDigest demo_metadata = ''sha256:'' @ ''0002''" by (simp add: demo_metadata_def)
  moreover have "?r = (fst ?r, snd ?r)" by simp
  ultimately show ?thesis
    using removed_image_still_resolves [of "''docker.io/library/busybox:1''" "''busybox''" "''1''" demo_store demo_metadata "''0002''"
        demo_world "\<lambda>rc token dg. Inr ''blob''" "fst ?p" out demo_world "fst ?r" "snd ?r"] out by simp
qed

theorem prune_spares_container_images_witness:
  "get_image ''alpine'' (fst (ImagePrune demo_world [] demo_images)) = Some demo_image"
proof -
  have "demo_container \<in> set (StateStore_List (st_Containers demo_images))" "get_image ''alpine'' demo_images = Some demo_image"
    by code_simp+
  with prune_spares_container_images [of demo_container demo_images "''alpine''" demo_world "[]"] show ?thesis
    by (simp add: demo_container_def demo_config_def)
qed

end
