(* ===== verification/Safety.thy ===== *)
theory Safety
  imports PodOps ExecVolume Images
begin

text \<open>
  Properties of the whole base server: every handler of networks, containers, pods, execs and
  volumes is a step, and an invariant of the store holds in every state a history of steps
  reaches. It has two halves: \<open>core_ok\<close> (no panic: no wait channel is closed twice, no pod pointer
  is nil where it is used) and \<open>names_ok\<close> (the container table and the name index agree).
\<close>

section \<open>Channels, pods and network names\<close>

definition chan_ok :: "nat gomap \<Rightarrow> nat \<Rightarrow> nat list \<Rightarrow> bool" where
  "chan_ok m n cl \<longleftrightarrow>
     (\<forall>k ch. mget m k = Some ch \<longrightarrow> ch < n \<and> ch \<notin> set cl) \<and>
     (\<forall>k k' ch. mget m k = Some ch \<longrightarrow> mget m k' = Some ch \<longrightarrow> k = k') \<and>
     (\<forall>ch \<in> set cl. ch < n)"

definition pods_ok :: "World \<Rightarrow> PodRegistry \<Rightarrow> nat \<Rightarrow> bool" where
  "pods_ok w pr n \<longleftrightarrow> pod_inv pr \<and> net_ok pr \<and> (\<forall>k p. mget (pr_pods pr) k = Some p \<longrightarrow> (\<exists>j < n. k = w_ids w j))"

definition nets_named :: "Network StateStore \<Rightarrow> bool" where
  "nets_named nets \<longleftrightarrow> (\<forall>n \<in> set (StateStore_List nets). nw_Name n \<noteq> [])"

definition core_ok :: "World \<Rightarrow> Store \<Rightarrow> bool" where
  "core_ok w st \<longleftrightarrow>
     \<not> st_panicked st \<and> chan_ok (st_WaitChs st) (st_chans st) (st_closed st) \<and>
     pods_ok w (st_Pods st) (st_idn st) \<and> nets_named (st_Networks st)"

lemma core_ok_update [simp]:
  "core_ok w (st\<lparr>st_LogBuffers := x_LogBuffers\<rparr>) = core_ok w st"
  "core_ok w (st\<lparr>st_VolumeDirs := x_VolumeDirs\<rparr>) = core_ok w st"
  "core_ok w (st\<lparr>st_StagingDirs := x_StagingDirs\<rparr>) = core_ok w st"
  "core_ok w (st\<lparr>st_PathMappings := x_PathMappings\<rparr>) = core_ok w st"
  "core_ok w (st\<lparr>st_HealthChecks := x_HealthChecks\<rparr>) = core_ok w st"
  "core_ok w (st\<lparr>st_BuildContexts := x_BuildContexts\<rparr>) = core_ok w st"
  "core_ok w (st\<lparr>st_TmpfsDirs := x_TmpfsDirs\<rparr>) = core_ok w st"
  "core_ok w (st\<lparr>st_ImageHistory := x_ImageHistory\<rparr>) = core_ok w st"
  "core_ok w (st\<lparr>st_LayerContent := x_LayerContent\<rparr>) = core_ok w st"
  "core_ok w (st\<lparr>st_ImageManifestLayers := x_ImageManifestLayers\<rparr>) = core_ok w st"
  "core_ok w (st\<lparr>st_IPAlloc := x_IPAlloc\<rparr>) = core_ok w st"
  "core_ok w (st\<lparr>st_pidCounter := x_pidCounter\<rparr>) = core_ok w st"
  "core_ok w (st\<lparr>st_EventBus := x_EventBus\<rparr>) = core_ok w st"
  "core_ok w (st\<lparr>st_ctxs := x_ctxs\<rparr>) = core_ok w st"
  "core_ok w (st\<lparr>st_cancelled := x_cancelled\<rparr>) = core_ok w st"
  "core_ok w (st\<lparr>st_loops := x_loops\<rparr>) = core_ok w st"
  "core_ok w (st\<lparr>st_removed := x_removed\<rparr>) = core_ok w st"
  "core_ok w (st\<lparr>st_namen := x_namen\<rparr>) = core_ok w st"
  "core_ok w (st\<lparr>st_tick := x_tick\<rparr>) = core_ok w st"
  "core_ok w (st\<lparr>st_tmpn := x_tmpn\<rparr>) = core_ok w st"
  "core_ok w (st\<lparr>st_Images := x_Images\<rparr>) = core_ok w st"
  "core_ok w (st\<lparr>st_Volumes := x_Volumes\<rparr>) = core_ok w st"
  "core_ok w (st\<lparr>st_Execs := x_Execs\<rparr>) = core_ok w st"
  "core_ok w (st\<lparr>st_Containers := x_Containers\<rparr>) = core_ok w st"
  "core_ok w (st\<lparr>st_ContainerNames := x_ContainerNames\<rparr>) = core_ok w st"
  by (simp_all add: core_ok_def)

lemma core_okI:
  "core_ok w st \<Longrightarrow> st_panicked st' = st_panicked st \<Longrightarrow> st_WaitChs st' = st_WaitChs st \<Longrightarrow>
   st_chans st' = st_chans st \<Longrightarrow> st_closed st' = st_closed st \<Longrightarrow> st_Pods st' = st_Pods st \<Longrightarrow>
   st_idn st \<le> st_idn st' \<Longrightarrow> nets_named (st_Networks st') \<Longrightarrow> core_ok w st'"
  by (auto simp: core_ok_def pods_ok_def) (meson order_less_le_trans)

lemma core_ok_nets: "core_ok w st \<Longrightarrow> nets_named (st_Networks st)"
  by (simp add: core_ok_def)

lemma core_ok_frame:
  "core_ok w st \<Longrightarrow> st_panicked st' = st_panicked st \<Longrightarrow> st_WaitChs st' = st_WaitChs st \<Longrightarrow>
   st_chans st' = st_chans st \<Longrightarrow> st_closed st' = st_closed st \<Longrightarrow> st_Pods st' = st_Pods st \<Longrightarrow>
   st_idn st \<le> st_idn st' \<Longrightarrow> st_Networks st' = st_Networks st \<Longrightarrow> core_ok w st'"
  by (rule core_okI) (simp_all add: core_ok_nets)

named_theorems core \<open>services that keep the core invariant\<close>

lemma core_effects [core, simp, intro]:
  assumes "core_ok w st"
  shows "core_ok w (fst (GenerateID v st))" "core_ok w (fst (GenerateName v st))"
    "core_ok w (fst (now_text v st))" "core_ok w (fst (MkdirTemp v st))" "core_ok w (RemoveAll d st)"
    "core_ok w (fst (NextPID st))" "core_ok w (emitEvent v a b c e st)" "core_ok w (StopHealthCheck cid st)"
    "core_ok w (StartHealthCheck cid st)" "core_ok w (mark_exited v cid code st)"
    "core_ok w (release_endpoint net cid st)" "core_ok w (fst (new_endpoint v net cf st))"
  by (rule core_ok_frame [OF assms];
      simp add: GenerateID_def new_endpoint_def release_endpoint_def Let_def case_prod_beta split: option.split)+

lemma chan_ok_open: "chan_ok m n cl \<Longrightarrow> chan_ok (mput k n m) (Suc n) cl"
  unfolding chan_ok_def by (auto simp: less_Suc_eq)

lemma chan_ok_close: "chan_ok m n cl \<Longrightarrow> mget m k = Some ch \<Longrightarrow> ch \<notin> set cl \<and> chan_ok (mdel k m) n (ch # cl)"
  unfolding chan_ok_def by (auto split: if_splits)

lemma core_open_wait [core, simp, intro]: "core_ok w st \<Longrightarrow> core_ok w (open_wait cid st)"
  by (simp add: core_ok_def open_wait_def make_chan_def chan_ok_open)

lemma core_close_wait [core, simp, intro]: "core_ok w st \<Longrightarrow> core_ok w (close_wait cid st)"
  using chan_ok_close [of "st_WaitChs st" "st_chans st" "st_closed st" cid]
  by (auto simp: core_ok_def close_wait_def close_chan_def split: option.split)

lemma core_ForceStop [core, simp, intro]: "core_ok w st \<Longrightarrow> core_ok w (ForceStopContainer v cid code st)"
  by (simp add: ForceStopContainer_def forceStop_def)

lemma core_exit_events [core, simp, intro]: "core_ok w st \<Longrightarrow> core_ok w (exit_events v cid code nm st)"
  by (simp add: exit_events_def)

lemma core_stop_running [core, simp, intro]: "core_ok w st \<Longrightarrow> core_ok w (stop_running v c st)"
  by (simp add: stop_running_def Let_def)

section \<open>Pods\<close>

lemma pods_ok_step:
  assumes w: "inj (w_ids w)" and ok: "pods_ok w pr n"
    and "case op of Create ident now nm l h ns \<Rightarrow> ident = w_ids w n | Join_net p nm \<Rightarrow> nm \<noteq> [] \<and>
           (case mget (pr_pods pr) p of None \<Rightarrow> True | Some pod \<Rightarrow> pc_NetworkName pod = [] \<or> pc_NetworkName pod = nm)
         | _ \<Rightarrow> True"
  shows "pods_ok w (pod_step op pr) (case op of Create ident now nm l h ns \<Rightarrow> Suc n | _ \<Rightarrow> n)"
proof -
  have fresh: "mget (pr_pods pr) (w_ids w n) = None"
    using w ok by (fastforce simp: pods_ok_def inj_eq)
  have keys: "mget (pr_pods (pod_step op pr)) k = Some p \<Longrightarrow>
      (\<exists>q. mget (pr_pods pr) k = Some q) \<or> (\<exists>now nm l h ns. op = Create k now nm l h ns)" for k p
    by (cases op) (auto simp: pod_defs split: option.splits if_splits)
  have "pod_inv (pod_step op pr)"
    using ok assms(3) fresh by (intro pod_inv_step) (auto simp: pods_ok_def split: pod_op.splits)
  moreover have "net_ok (pod_step op pr)"
    using ok assms(3) fresh by (intro net_ok_step) (auto simp: pods_ok_def split: pod_op.splits)
  moreover have "\<exists>j < (case op of Create ident now nm l h ns \<Rightarrow> Suc n | _ \<Rightarrow> n). k = w_ids w j"
    if "mget (pr_pods (pod_step op pr)) k = Some p" for k p
    using keys [OF that]
  proof
    assume "\<exists>q. mget (pr_pods pr) k = Some q"
    then obtain j where "j < n" "k = w_ids w j" using ok by (auto simp: pods_ok_def)
    moreover have "n \<le> (case op of Create ident now nm l h ns \<Rightarrow> Suc n | _ \<Rightarrow> n)" by (cases op) simp_all
    ultimately show ?thesis using order_less_le_trans by blast
  next
    assume "\<exists>now nm l h ns. op = Create k now nm l h ns"
    with assms(3) show ?thesis by auto
  qed
  ultimately show ?thesis by (simp add: pods_ok_def)
qed

lemma core_pod_step:
  assumes w: "inj (w_ids w)" and ok: "core_ok w st"
    and "case op of Create ident now nm l h ns \<Rightarrow> False | Join_net p nm \<Rightarrow> nm \<noteq> [] \<and>
           (case mget (pr_pods (st_Pods st)) p of None \<Rightarrow> True | Some pod \<Rightarrow> pc_NetworkName pod = [] \<or> pc_NetworkName pod = nm)
         | _ \<Rightarrow> True"
  shows "core_ok w (on_pods (pod_step op) st)"
proof -
  have "pods_ok w (pod_step op (st_Pods st)) (case op of Create ident now nm l h ns \<Rightarrow> Suc (st_idn st) | _ \<Rightarrow> st_idn st)"
    using ok assms(3) by (intro pods_ok_step [OF w]) (auto simp: core_ok_def split: pod_op.splits)
  then have "pods_ok w (pod_step op (st_Pods st)) (st_idn st)"
    using assms(3) by (cases op) simp_all
  with ok show ?thesis by (simp add: core_ok_def)
qed

lemma core_add_to_pod [core]: "inj (w_ids w) \<Longrightarrow> core_ok w st \<Longrightarrow> core_ok w (add_to_pod pid cid st)"
  using core_pod_step [of w st "AddTo pid cid"] by (simp add: add_to_pod_def)

lemma core_SetStatus [core]: "inj (w_ids w) \<Longrightarrow> core_ok w st \<Longrightarrow> core_ok w (on_pods (SetStatus pid s) st)"
  using core_pod_step [of w st "Status pid s"] by simp

lemma core_DeletePod [core]:
  "inj (w_ids w) \<Longrightarrow> core_ok w st \<Longrightarrow> core_ok w (on_pods (\<lambda>pr. fst (DeletePod pid pr)) st)"
  using core_pod_step [of w st "Delete pid"] by simp

lemma core_ok_pods: "core_ok w st \<Longrightarrow> pod_inv (st_Pods st) \<and> net_ok (st_Pods st)"
  by (simp add: core_ok_def pods_ok_def)

text \<open>No lookup hands a nil pod to a caller.\<close>

lemma core_found:
  assumes "core_ok w st"
  shows "GetPodForContainer cid (st_Pods st) = (p, True) \<Longrightarrow> p \<noteq> None"
    and "GetPodForNetwork n (st_Pods st) = (p, True) \<Longrightarrow> p \<noteq> None"
    and "GetPod x (st_Pods st) = (p, True) \<Longrightarrow> p \<noteq> None"
  using core_ok_pods [OF assms] container_index.found_not_nil [of "st_Pods st" cid p]
    network_index.found_not_nil [of "st_Pods st" n p] GetPod_in_list [of "st_Pods st" x p]
  by (auto simp: GetPodForContainer_find GetPodForNetwork_find)

lemma core_add_to_found_pod [core]:
  "inj (w_ids w) \<Longrightarrow> core_ok w st \<Longrightarrow> p \<noteq> None \<Longrightarrow> core_ok w (add_to_found_pod p cid st)"
  by (cases p) (simp_all add: add_to_found_pod_def core_add_to_pod)

lemma core_leave_pod [core]:
  assumes "inj (w_ids w)" "core_ok w st"
  shows "core_ok w (leave_pod cid st)"
proof (cases "GetPodForContainer cid (st_Pods st)")
  case (Pair p found)
  with core_found(1) [OF assms(2), of cid p] core_pod_step [OF assms, of "RemoveFrom (pc_ID (the p)) cid"] assms
  show ?thesis by (cases p; cases found) (auto simp: leave_pod_def)
qed

lemma core_create_pod [core]:
  assumes "inj (w_ids w)" "core_ok w st"
  shows "core_ok w (fst (create_pod w nm st))"
proof -
  have "pods_ok w (fst (CreatePod (w_ids w (st_idn st)) now nm None (st_Pods st))) (Suc (st_idn st))" for now
    using pods_ok_step [OF assms(1), of "st_Pods st" "st_idn st" "Create (w_ids w (st_idn st)) now nm None [] None"] assms(2)
    by (simp add: CreatePod_def core_ok_def)
  with assms(2) show ?thesis
    by (simp add: create_pod_def core_ok_def Let_def case_prod_beta GenerateID_def now_text_def)
qed

section \<open>Networks\<close>

lemma set_update_vals: "set (map snd (AList.update k v m)) \<subseteq> insert v (set (map snd m))"
  by (induction m) auto

lemma nets_named_put: "nets_named nets \<Longrightarrow> nw_Name n \<noteq> [] \<Longrightarrow> nets_named (StateStore_Put k n nets)"
  unfolding nets_named_def StateStore_List_def StateStore_Put_def using set_update_vals [of k n nets] by blast

lemma nets_named_upd:
  assumes "nets_named nets" "\<And>n. nw_Name (f n) = nw_Name n"
  shows "nets_named (ss_update k f nets)"
proof (cases "mget nets k")
  case (Some n)
  then have "nw_Name (f n) \<noteq> []"
    using assms Get_in_List [of k nets n] by (auto simp: nets_named_def StateStore_Get_def)
  with Some assms(1) nets_named_put [of nets "f n" k] show ?thesis
    by (simp add: StateStore_Update_def StateStore_Put_def)
qed (use assms in \<open>simp add: StateStore_Update_def\<close>)

lemma nets_named_delete: "nets_named nets \<Longrightarrow> nets_named (ss_delete k nets)"
  by (auto simp: nets_named_def StateStore_List_def StateStore_Delete_def AList.delete_eq split: option.split)

lemma nets_named_prune: "nets_named nets \<Longrightarrow> nets_named (fst (StateStore_PruneIf pred nets))"
  by (auto simp: nets_named_def StateStore_List_def PruneIf_filter)

lemma core_set_nets: "core_ok w st \<Longrightarrow> nets_named nets \<Longrightarrow> core_ok w (st\<lparr>st_Networks := nets\<rparr>)"
  by (simp add: core_ok_def)

lemma core_add_to_network [core, simp, intro]: "core_ok w st \<Longrightarrow> core_ok w (add_to_network net cid cn ep st)"
  by (simp add: add_to_network_def core_set_nets nets_named_upd core_ok_nets)

lemma core_Connect [core, simp, intro]: "core_ok w st \<Longrightarrow> core_ok w (fst (Driver_Connect v nid cid cf st))"
  by (simp add: Driver_Connect_def Let_def case_prod_beta split: option.split)

lemma core_Disconnect [core, simp, intro]: "core_ok w st \<Longrightarrow> core_ok w (fst (Driver_Disconnect nid cid st))"
  by (simp add: Driver_Disconnect_def Let_def core_set_nets nets_named_upd core_ok_nets split: option.split)

lemma core_Create [core, simp, intro]:
  assumes "core_ok w st"
  shows "core_ok w (fst (Driver_Create v name opts st))"
proof (cases "name = [] \<or> list_ex (\<lambda>n. nw_Name n = name) (StateStore_List (st_Networks st))")
  case False
  have "core_ok w (fst (Driver_Create v name opts st))"
    using False core_ok_nets [OF assms]
    by (intro core_okI [OF assms])
      (simp_all add: Driver_Create_def Let_def case_prod_beta GenerateID_def nets_named_put)
  then show ?thesis .
qed (use assms in \<open>auto simp: Driver_Create_def\<close>)

lemma core_Remove [core, simp, intro]: "core_ok w st \<Longrightarrow> core_ok w (fst (Driver_Remove ref st))"
  by (simp add: Driver_Remove_def core_set_nets nets_named_delete core_ok_nets split: option.split)

lemma core_Prune [core, simp, intro]: "core_ok w st \<Longrightarrow> core_ok w (fst (Driver_Prune f st))"
  by (simp add: Driver_Prune_def Let_def case_prod_beta core_set_nets nets_named_prune core_ok_nets)

lemma core_NetworkCreate: "core_ok w st \<Longrightarrow> core_ok w (fst (NetworkCreate w req st))"
  using core_Create [of w st w "nr_Name req" req]
  by (cases "Driver_Create w (nr_Name req) req st"; cases "snd (Driver_Create w (nr_Name req) req st)")
    (simp_all add: NetworkCreate_def)

lemma core_NetworkRemove: "core_ok w st \<Longrightarrow> core_ok w (fst (NetworkRemove w ref st))"
proof (cases "ResolveNetwork ref st")
  case (Some n)
  assume "core_ok w st"
  with Some core_Remove [of w st "nw_ID n"] show ?thesis
    by (cases "Driver_Remove (nw_ID n) st"; cases "snd (Driver_Remove (nw_ID n) st)") (simp_all add: NetworkRemove_def)
qed (simp add: NetworkRemove_def)

lemma core_emit_all: "core_ok w st \<Longrightarrow> core_ok w (foldl (\<lambda>st nid. emitEvent v a b nid (g nid) st) st ids)"
  by (rule foldl_invariant) simp_all

lemma core_NetworkPrune: "core_ok w st \<Longrightarrow> core_ok w (fst (NetworkPrune w f st))"
  by (simp add: NetworkPrune_def Let_def case_prod_beta core_emit_all)

lemma core_NetworkDisconnect: "core_ok w st \<Longrightarrow> core_ok w (fst (NetworkDisconnect w ref c force st))"
  by (simp add: NetworkDisconnect_def Let_def split: option.split)

lemma core_NetworkConnect:
  assumes w: "inj (w_ids w)" and ok: "core_ok w st"
  shows "core_ok w (fst (NetworkConnect w ref c cf st))"
proof (cases "ResolveNetwork ref st")
  case (Some net)
  note net = this
  show ?thesis
  proof (cases "ResolveContainerID c st")
    case (Some cid)
    obtain st1 r where r: "Driver_Connect w (nw_ID net) cid cf st = (st1, r)" by (rule prod.exhaust)
    have ok1: "core_ok w st1" using core_Connect [OF ok, of w "nw_ID net" cid cf] by (simp add: r)
    show ?thesis
    proof (cases r)
      case (Inr u)
      let ?st = "emitEvent w ''network'' ''connect'' (nw_ID net) [(''container'', cid)] st1"
      have ok2: "core_ok w ?st" using ok1 by simp
      obtain p found where p: "GetPodForNetwork (nw_Name net) (st_Pods st1) = (p, found)" by (rule prod.exhaust)
      have "p \<noteq> None" if found using core_found(2) [OF ok1] p that by auto
      with net Some r Inr p ok2 core_add_to_pod [OF w ok2, of "pc_ID (the p)" cid] show ?thesis
        by (cases found; cases p)
          (auto simp: NetworkConnect_def ResolveContainerIDAuto_def ResolveContainerID_def add_to_pod_def Let_def)
    qed (use net Some r ok1 in \<open>auto simp: NetworkConnect_def ResolveContainerIDAuto_def ResolveContainerID_def\<close>)
  qed (use net ok in \<open>simp add: NetworkConnect_def ResolveContainerIDAuto_def ResolveContainerID_def\<close>)
qed (use ok in \<open>simp add: NetworkConnect_def\<close>)

section \<open>Containers\<close>

lemma core_resolveTmpfs [core, simp, intro]: "core_ok w st \<Longrightarrow> core_ok w (fst (resolveTmpfsMounts v m st))"
proof (induction m arbitrary: st)
  case (Cons e m)
  then show ?case by (cases e) (simp add: Let_def case_prod_beta)
qed simp

lemma core_store_tmpfs [core, simp, intro]: "core_ok w st \<Longrightarrow> core_ok w (store_tmpfs v cid st)"
  by (simp add: store_tmpfs_def Let_def case_prod_beta split: option.split)

lemma core_inject_env [core, simp, intro]: "core_ok w st \<Longrightarrow> core_ok w (inject_env c st)"
  by (simp add: inject_env_def Let_def)

lemma core_set_running [core, simp, intro]: "core_ok w st \<Longrightarrow> core_ok w (set_running v cid k st)"
  by (simp add: set_running_def Let_def case_prod_beta)

lemma core_maybe_health [core, simp, intro]: "core_ok w st \<Longrightarrow> core_ok w (maybe_health cid st)"
  by (simp add: maybe_health_def split: option.split)

lemma core_RemoveAll_all [simp]: "core_ok w st \<Longrightarrow> core_ok w (foldl (\<lambda>st d. RemoveAll d st) st dirs)"
  by (rule foldl_invariant) simp_all

lemma core_drop_tmpfs [core, simp, intro]: "core_ok w st \<Longrightarrow> core_ok w (drop_tmpfs cid st)"
  by (simp add: drop_tmpfs_def split: option.split)

lemma core_drop_execs [core, simp, intro]: "core_ok w st \<Longrightarrow> core_ok w (drop_execs c st)"
  by (simp add: drop_execs_def)

lemma core_disconnect_all [core, simp, intro]: "core_ok w st \<Longrightarrow> core_ok w (disconnect_all c st)"
  unfolding disconnect_all_def by (rule foldl_invariant) (auto split: option.split)

lemma core_ContainerStart:
  assumes "inj (w_ids w)" "core_ok w st"
  shows "core_ok w (fst (ContainerStart w ref st))"
proof (cases "ResolveContainer ref st")
  case (Some c)
  obtain p found where p: "GetPodForContainer (c_ID c) (st_Pods st) = (p, found)" by (rule prod.exhaust)
  with core_found(1) [OF assms(2)] have "p \<noteq> None" if found using that by auto
  with Some p assms show ?thesis by (cases found) (auto simp: ContainerStart_def Let_def)
qed (use assms in \<open>simp add: ContainerStart_def\<close>)

lemma core_ContainerStop: "core_ok w st \<Longrightarrow> core_ok w (fst (ContainerStop w ref st))"
  by (simp add: ContainerStop_def split: option.split)

lemma core_ContainerKill: "core_ok w st \<Longrightarrow> core_ok w (fst (ContainerKill w ref sig st))"
  by (simp add: ContainerKill_def Let_def split: option.split)

lemma core_ContainerRestart: "core_ok w st \<Longrightarrow> core_ok w (fst (ContainerRestart w ref st))"
  by (simp add: ContainerRestart_def Let_def split: option.split)

lemma core_ContainerPause: "core_ok w st \<Longrightarrow> core_ok w (fst (ContainerPause w ref st))"
  by (simp add: ContainerPause_def Let_def split: option.split)

lemma core_ContainerUnpause: "core_ok w st \<Longrightarrow> core_ok w (fst (ContainerUnpause w ref st))"
  by (simp add: ContainerUnpause_def Let_def split: option.split)

lemma core_ContainerRemove:
  "inj (w_ids w) \<Longrightarrow> core_ok w st \<Longrightarrow> core_ok w (fst (ContainerRemove w ref force st))"
  by (simp add: ContainerRemove_def Let_def core_leave_pod split: option.split)

lemma core_rename_endpoints [core, simp, intro]: "core_ok w st \<Longrightarrow> core_ok w (rename_endpoints cid nm eps st)"
  unfolding rename_endpoints_def
  by (rule foldl_invariant)
    (auto simp: rename_entry_def intro!: core_set_nets nets_named_upd core_ok_nets split: option.split)

lemma core_ContainerRename: "core_ok w st \<Longrightarrow> core_ok w (fst (ContainerRename w ref newName st))"
  by (simp add: ContainerRename_def Let_def split: option.split)

lemma core_prune_one: "inj (w_ids w) \<Longrightarrow> core_ok w st \<Longrightarrow> core_ok w (prune_one w c st)"
  by (simp add: prune_one_def Let_def core_leave_pod)

lemma core_ContainerPrune:
  assumes "inj (w_ids w)" "core_ok w st"
  shows "core_ok w (fst (ContainerPrune w f st))"
  unfolding ContainerPrune_def Let_def case_prod_beta fst_conv
  by (rule foldl_invariant) (simp_all add: assms core_prune_one)

section \<open>Create\<close>

text \<open>Keys, identities and names of the network table; updates of endpoint tables keep them.\<close>

definition net_sig :: "Network StateStore \<Rightarrow> (string \<times> string \<times> string) list" where
  "net_sig nets = map (\<lambda>(k, n). (k, nw_ID n, nw_Name n)) nets"

lemma net_sig_put:
  "mget nets k = Some n \<Longrightarrow> nw_ID n' = nw_ID n \<Longrightarrow> nw_Name n' = nw_Name n \<Longrightarrow>
   net_sig (AList.update k n' nets) = net_sig nets"
  by (induction nets) (auto simp: net_sig_def split: if_splits)

lemma net_sig_upd:
  "(\<And>n. nw_ID (f n) = nw_ID n \<and> nw_Name (f n) = nw_Name n) \<Longrightarrow> net_sig (ss_update k f nets) = net_sig nets"
  by (cases "mget nets k") (simp_all add: StateStore_Update_def net_sig_put)

lemma Resolve_None_sig:
  "ResolveNetwork ref st = None \<longleftrightarrow>
     (\<forall>(k, i, nm) \<in> set (net_sig (st_Networks st)). k \<noteq> ref \<and> nm \<noteq> ref \<and> \<not> HasPrefix i ref)"
proof -
  have "ResolveNetwork ref st = None \<longleftrightarrow> StateStore_Get ref (st_Networks st) = None \<and>
      find (\<lambda>n. nw_Name n = ref) (StateStore_List (st_Networks st)) = None \<and>
      find (\<lambda>n. HasPrefix (nw_ID n) ref) (StateStore_List (st_Networks st)) = None"
    by (simp add: ResolveNetwork_def split: option.split)
  also have "\<dots> \<longleftrightarrow> ref \<notin> fst ` set (st_Networks st) \<and>
      (\<forall>n \<in> snd ` set (st_Networks st). nw_Name n \<noteq> ref \<and> \<not> HasPrefix (nw_ID n) ref)"
    by (auto simp: StateStore_Get_def StateStore_List_def find_None_iff map_of_eq_None_iff)
  finally show ?thesis by (auto simp: net_sig_def image_iff)
qed

lemma net_sig_endpoint: "net_sig (st_Networks (fst (buildEndpointForNetwork w r cid nm cf st))) = net_sig (st_Networks st)"
  by (auto simp: buildEndpointForNetwork_def Let_def case_prod_beta add_to_network_def intro!: net_sig_upd
      split: option.split)

lemma core_endpoint [core, simp, intro]:
  "core_ok w st \<Longrightarrow> core_ok w (fst (buildEndpointForNetwork v r cid nm cf st))"
  by (simp add: buildEndpointForNetwork_def Let_def case_prod_beta split: option.split)

lemma Resolve_named: "core_ok w st \<Longrightarrow> ResolveNetwork ref st = Some n \<Longrightarrow> nw_Name n \<noteq> []"
  using Resolve_stored core_ok_nets by (fastforce simp: nets_named_def)

lemma explicit_endpoints_ok:
  "core_ok w st \<Longrightarrow> [] \<notin> set (mkeys nets) \<Longrightarrow>
   core_ok w (fst (explicit_endpoints v cid nm eps st nets)) \<and>
   [] \<notin> set (mkeys (snd (explicit_endpoints v cid nm eps st nets)))"
proof (induction eps arbitrary: st nets)
  case (Cons e eps)
  obtain r cf where e: "e = (r, cf)" by (cases e)
  obtain st1 res where b: "buildEndpointForNetwork v r cid nm cf st = (st1, res)" by (rule prod.exhaust)
  have ok1: "core_ok w st1" using core_endpoint [OF Cons.prems(1), of v r cid nm cf] by (simp add: b)
  show ?case
  proof (cases res)
    case None
    with Cons.IH [OF ok1 Cons.prems(2)] e b show ?thesis by simp
  next
    case (Some ep)
    then have "ResolveNetwork r st \<noteq> None"
      using b by (auto simp: buildEndpointForNetwork_def split: option.splits)
    then have "ResolveNetwork r st1 \<noteq> None"
      using net_sig_endpoint [of v r cid nm cf st] by (simp add: Resolve_None_sig b)
    then obtain net where net: "ResolveNetwork r st1 = Some net" by auto
    have "[] \<notin> set (mkeys (mput (nw_Name net) ep nets))"
      using Resolve_named [OF ok1 net] Cons.prems(2) by simp
    from Cons.IH [OF ok1 this] e b Some net show ?thesis by simp
  qed
qed simp

lemma build_ok:
  assumes "core_ok w st" "ho_NetworkMode hc \<noteq> []"
    and r_def: "r = buildContainerFromConfig w driver cid nm cfg hc eps st"
  shows "core_ok w (fst r)" and "[] \<notin> set (mkeys (ns_Networks (c_NetworkSettings (snd r))))"
    and "c_ID (snd r) = cid" and "c_Name (snd r) = nm"
proof -
  let ?n = "if ho_NetworkMode hc = ''default'' then ''bridge'' else ho_NetworkMode hc"
  let ?b = "buildEndpointForNetwork w ?n cid nm None (fst (now_text w st))"
  let ?nets = "case snd ?b of Some ep \<Rightarrow> mput ?n ep [] | None \<Rightarrow> []"
  have "core_ok w (fst ?b)" using assms(1) by simp
  moreover have "[] \<notin> set (mkeys ?nets)" using assms(2) by (auto split: option.splits)
  ultimately have *: "core_ok w (fst (explicit_endpoints w cid nm eps (fst ?b) ?nets)) \<and>
      [] \<notin> set (mkeys (snd (explicit_endpoints w cid nm eps (fst ?b) ?nets)))"
    by (rule explicit_endpoints_ok)
  show "core_ok w (fst r)" "[] \<notin> set (mkeys (ns_Networks (c_NetworkSettings (snd r))))"
    using * by (simp_all only: r_def buildContainerFromConfig_def Let_def case_prod_beta fst_conv snd_conv
        Container.simps NetworkSettings.simps simp_thms)
  show "c_ID (snd r) = cid" "c_Name (snd r) = nm"
    by (simp_all add: r_def buildContainerFromConfig_def Let_def case_prod_beta)
qed

lemma core_group_by_container [core]:
  assumes w: "inj (w_ids w)" and ok: "core_ok w st"
  shows "core_ok w (group_by_container w mode cid st)"
proof -
  have grouped: "core_ok w (case GetPodForContainer r (st_Pods st) of
      (p, True) \<Rightarrow> add_to_found_pod p cid st
    | (p, False) \<Rightarrow> (let (st, pid) = create_pod w nm st in add_to_pod pid cid (add_to_pod pid r st)))" for r nm
    using core_found(1) [OF ok, of r] core_create_pod [OF w ok, of nm]
    by (cases "GetPodForContainer r (st_Pods st)"; cases "snd (GetPodForContainer r (st_Pods st))")
      (simp_all add: core_add_to_found_pod w ok core_add_to_pod case_prod_beta)
  show ?thesis
    unfolding group_by_container_def Let_def using ok grouped [unfolded Let_def] by simp
qed

lemma core_group_by_network [core]:
  assumes w: "inj (w_ids w)"
  shows "core_ok w st \<Longrightarrow> [] \<notin> set names \<Longrightarrow> core_ok w (group_by_network w cid names st)"
proof (induction names)
  case (Cons n names)
  obtain p found where p: "GetPodForNetwork n (st_Pods st) = (p, found)" by (rule prod.exhaust)
  have IH: "core_ok w (group_by_network w cid names st)" using Cons by simp
  show ?case
  proof (cases "found")
    case True
    with p core_found(2) [OF Cons.prems(1), of n p] Cons.prems IH show ?thesis
      by (simp add: core_add_to_found_pod w)
  next
    case False
    let ?c = "create_pod w (''net-'' @ n) st"
    let ?st = "on_pods (SetNetwork (snd ?c) n) (fst ?c)"
    have ok1: "core_ok w (fst ?c)" by (rule core_create_pod [OF w Cons.prems(1)])
    have n: "n \<noteq> []" using Cons.prems(2) by auto
    have fresh: "mget (pr_pods (st_Pods (fst ?c))) (snd ?c) = Some pod \<Longrightarrow> pc_NetworkName pod = []" for pod
      by (auto simp: create_pod_def Let_def case_prod_beta CreatePod_def CreatePodWithOpts_def)
    have "case mget (pr_pods (st_Pods (fst ?c))) (snd ?c) of
        None \<Rightarrow> True | Some pod \<Rightarrow> pc_NetworkName pod = [] \<or> pc_NetworkName pod = n"
      using fresh by (simp split: option.split)
    with n have ok2: "core_ok w ?st"
      by (intro core_pod_step [OF w ok1, of "Join_net (snd ?c) n", unfolded pod_step.simps pod_op.case] conjI)
    have "core_ok w (foldl (\<lambda>st e. if e = cid \<or> in_pod e st then st else add_to_pod (snd ?c) e st) ?st es)" for es
      by (rule foldl_invariant [where P = "core_ok w", OF ok2]) (simp add: core_add_to_pod w)
    with p False IH Cons.prems(1) show ?thesis
      by (simp add: Let_def case_prod_beta core_add_to_pod w split: option.split del: append_Cons)
  qed
qed simp

lemma core_create_name [core, simp, intro]: "core_ok w st \<Longrightarrow> core_ok w (fst (create_name v req st))"
  by (simp add: create_name_def Let_def case_prod_beta)

lemma create_mode: "ho_NetworkMode (create_host_config req) \<noteq> []"
  by (simp add: create_host_config_def Let_def)

lemma core_create_staging [core, simp, intro]: "core_ok w st \<Longrightarrow> core_ok w (create_staging imgref cid st)"
  by (simp add: create_staging_def split: option.split)

lemma create_stored_ok:
  assumes "core_ok w st"
  shows "core_ok w (fst (create_stored w d req st))"
    and "[] \<notin> set (mkeys (ns_Networks (c_NetworkSettings (snd (create_stored w d req st)))))"
proof -
  let ?st1 = "fst (GenerateID w (fst (create_name w req st)))"
  let ?r = "buildContainerFromConfig w d (snd (GenerateID w (fst (create_name w req st))))
      (snd (create_name w req st)) (create_config req ?st1) (create_host_config req) (cr_Endpoints req) ?st1"
  have "core_ok w ?st1" using assms by simp
  note b = build_ok [OF this create_mode refl]
  have "fst (create_stored w d req st) = (fst ?r)\<lparr>st_Containers := StateStore_Put (snd (GenerateID w (fst (create_name w req st)))) (snd ?r) (st_Containers (fst ?r)),
      st_ContainerNames := StateStore_Put (snd (create_name w req st)) (snd (GenerateID w (fst (create_name w req st)))) (st_ContainerNames (fst ?r))\<rparr>"
    by (simp only: create_stored_def Let_def case_prod_beta fst_conv snd_conv)
  then show "core_ok w (fst (create_stored w d req st))" using b(1) by (simp only: core_ok_update)
  have "snd (create_stored w d req st) = snd ?r"
    by (simp only: create_stored_def Let_def case_prod_beta fst_conv snd_conv)
  then show "[] \<notin> set (mkeys (ns_Networks (c_NetworkSettings (snd (create_stored w d req st)))))"
    using b(2) by (simp only: not_False_eq_True simp_thms)
qed

lemma core_ContainerCreate:
  assumes w: "inj (w_ids w)" and ok: "core_ok w st"
  shows "core_ok w (fst (ContainerCreate w d req st))"
proof -
  have g: "core_ok w (create_grouped w req (snd (create_stored w d req st)) st')" if "core_ok w st'" for st'
    unfolding create_grouped_def Let_def
    using core_group_by_container [OF w that] core_group_by_network [OF w _ create_stored_ok(2) [OF ok]] by simp
  show ?thesis
    unfolding ContainerCreate_def Let_def case_prod_beta
    using ok create_stored_ok(1) [OF ok, of d req] g by simp
qed

section \<open>Pods, execs and volumes\<close>

lemma core_with_pod:
  assumes "core_ok w st" "\<And>pod. core_ok w (fst (body pod))"
  shows "core_ok w (fst (with_pod name st body))"
  using core_found(3) [OF assms(1), of name] assms
  by (cases "GetPod name (st_Pods st)"; cases "snd (GetPod name (st_Pods st))"; cases "fst (GetPod name (st_Pods st))")
    (auto simp: with_pod_def)

lemma core_PodCreate:
  assumes w: "inj (w_ids w)" and ok: "core_ok w st"
  shows "core_ok w (fst (PodCreate w req st))"
proof -
  have "pods_ok w (fst (CreatePodWithOpts (w_ids w (st_idn st)) now nm l h ns (st_Pods st))) (Suc (st_idn st))" for now nm l h ns
    using pods_ok_step [OF w, of "st_Pods st" "st_idn st" "Create (w_ids w (st_idn st)) now nm l h ns"] ok
    by (simp add: core_ok_def)
  with ok show ?thesis
    by (simp add: PodCreate_def core_ok_def Let_def case_prod_beta GenerateID_def now_text_def)
qed

lemma core_pod_start_one [core, simp, intro]: "core_ok w st \<Longrightarrow> core_ok w (pod_start_one v now cid st)"
  by (simp add: pod_start_one_def Let_def case_prod_beta split: option.split)

lemma core_pod_stop_one [core, simp, intro]: "core_ok w st \<Longrightarrow> core_ok w (pod_stop_one v code cid st)"
  by (simp add: pod_stop_one_def Let_def split: option.split)

lemma core_pod_kill_one [core, simp, intro]: "core_ok w st \<Longrightarrow> core_ok w (pod_kill_one v code cid st)"
  by (simp add: pod_kill_one_def Let_def split: option.split)

lemma core_pod_remove_one [core, simp, intro]: "core_ok w st \<Longrightarrow> core_ok w (pod_remove_one v force cid st)"
  by (simp add: pod_remove_one_def Let_def split: option.split)

lemma core_PodStart: "inj (w_ids w) \<Longrightarrow> core_ok w st \<Longrightarrow> core_ok w (fst (PodStart w name st))"
  unfolding PodStart_def
  by (rule core_with_pod, assumption)
    (simp add: Let_def case_prod_beta core_SetStatus foldl_invariant [where P = "core_ok w"])

lemma core_PodStop: "inj (w_ids w) \<Longrightarrow> core_ok w st \<Longrightarrow> core_ok w (fst (PodStop w name st))"
  unfolding PodStop_def
  by (rule core_with_pod, assumption)
    (simp add: Let_def case_prod_beta core_SetStatus foldl_invariant [where P = "core_ok w"])

lemma core_PodKill: "inj (w_ids w) \<Longrightarrow> core_ok w st \<Longrightarrow> core_ok w (fst (PodKill w name sig st))"
  unfolding PodKill_def
  by (rule core_with_pod, assumption)
    (simp add: Let_def case_prod_beta core_SetStatus foldl_invariant [where P = "core_ok w"])

lemma core_PodRemove: "inj (w_ids w) \<Longrightarrow> core_ok w st \<Longrightarrow> core_ok w (fst (PodRemove w name force st))"
  unfolding PodRemove_def
  by (rule core_with_pod, assumption)
    (simp add: Let_def removePodContainers_def core_DeletePod foldl_invariant [where P = "core_ok w"])

lemma core_ExecCreate: "core_ok w st \<Longrightarrow> core_ok w (fst (ExecCreate w ref req st))"
  by (simp add: ExecCreate_def Let_def case_prod_beta split: option.split list.split)

lemma core_ExecStart: "core_ok w st \<Longrightarrow> core_ok w (fst (ExecStart e tty st))"
  by (simp add: ExecStart_def Let_def case_prod_beta split: option.split)

lemma core_exec_finish: "core_ok w st \<Longrightarrow> core_ok w (exec_finish e code st)"
  by (simp add: exec_finish_def)

lemma core_VolumeCreate: "core_ok w st \<Longrightarrow> core_ok w (fst (VolumeCreate w req st))"
  by (simp add: VolumeCreate_def Let_def case_prod_beta split: option.split)

lemma core_drop_volume_dir [core, simp, intro]: "core_ok w st \<Longrightarrow> core_ok w (drop_volume_dir name st)"
  by (simp add: drop_volume_dir_def split: option.split)

lemma core_VolumeRemove: "core_ok w st \<Longrightarrow> core_ok w (fst (VolumeRemove w name force st))"
  by (simp add: VolumeRemove_def Let_def split: option.split)

lemma core_VolumePrune:
  assumes "core_ok w st"
  shows "core_ok w (fst (VolumePrune w f st))"
proof -
  have "core_ok w st1 \<Longrightarrow> core_ok w (fst (foldl (prune_volume w) (st1, s) vs))" for st1 s vs
    by (rule foldl_invariant [where P = "\<lambda>a. core_ok w (fst a)"])
      (simp_all add: prune_volume_def Let_def case_prod_beta)
  with assms show ?thesis by (simp add: VolumePrune_def Let_def case_prod_beta)
qed

lemma core_restart [core, simp, intro]: "core_ok w st \<Longrightarrow> core_ok w (fst (handleRestartPolicy v cid code st))"
  by (simp add: handleRestartPolicy_def Let_def case_prod_beta split: option.split)

lemma core_StopContainer:
  "core_ok w st \<Longrightarrow> core_ok w (StopContainer (Some (handleRestartPolicy v)) v cid code st)"
  by (simp add: StopContainer_def Let_def case_prod_beta forceStop_def)

lemma core_RevertToCreated: "core_ok w st \<Longrightarrow> core_ok w (RevertToCreated cid st)"
  by (simp add: RevertToCreated_def)

lemma core_recordHealth: "core_ok w st \<Longrightarrow> core_ok w (recordHealthResult v cid code out n st)"
  by (simp add: recordHealthResult_def Let_def case_prod_beta split: option.split)

section \<open>The name index\<close>

definition cview :: "Store \<Rightarrow> string \<Rightarrow> (string \<times> string) option" where
  "cview st cid = map_option (\<lambda>c. (c_ID c, c_Name c)) (get_container cid st)"

definition names_ok :: "World \<Rightarrow> Store \<Rightarrow> bool" where
  "names_ok w st \<longleftrightarrow>
     wf_map (st_Containers st) \<and>
     (\<forall>cid i nm. cview st cid = Some (i, nm) \<longrightarrow>
        i = cid \<and> StateStore_Get nm (st_ContainerNames st) = Some cid \<and> (\<exists>j < st_idn st. cid = w_ids w j)) \<and>
     (\<forall>nm cid. StateStore_Get nm (st_ContainerNames st) = Some cid \<longrightarrow> cview st cid = Some (cid, nm))"

lemma names_ok_update [simp]:
  "names_ok w (st\<lparr>st_LogBuffers := x_LogBuffers\<rparr>) = names_ok w st"
  "names_ok w (st\<lparr>st_VolumeDirs := x_VolumeDirs\<rparr>) = names_ok w st"
  "names_ok w (st\<lparr>st_StagingDirs := x_StagingDirs\<rparr>) = names_ok w st"
  "names_ok w (st\<lparr>st_PathMappings := x_PathMappings\<rparr>) = names_ok w st"
  "names_ok w (st\<lparr>st_HealthChecks := x_HealthChecks\<rparr>) = names_ok w st"
  "names_ok w (st\<lparr>st_BuildContexts := x_BuildContexts\<rparr>) = names_ok w st"
  "names_ok w (st\<lparr>st_TmpfsDirs := x_TmpfsDirs\<rparr>) = names_ok w st"
  "names_ok w (st\<lparr>st_ImageHistory := x_ImageHistory\<rparr>) = names_ok w st"
  "names_ok w (st\<lparr>st_LayerContent := x_LayerContent\<rparr>) = names_ok w st"
  "names_ok w (st\<lparr>st_ImageManifestLayers := x_ImageManifestLayers\<rparr>) = names_ok w st"
  "names_ok w (st\<lparr>st_IPAlloc := x_IPAlloc\<rparr>) = names_ok w st"
  "names_ok w (st\<lparr>st_pidCounter := x_pidCounter\<rparr>) = names_ok w st"
  "names_ok w (st\<lparr>st_EventBus := x_EventBus\<rparr>) = names_ok w st"
  "names_ok w (st\<lparr>st_ctxs := x_ctxs\<rparr>) = names_ok w st"
  "names_ok w (st\<lparr>st_cancelled := x_cancelled\<rparr>) = names_ok w st"
  "names_ok w (st\<lparr>st_loops := x_loops\<rparr>) = names_ok w st"
  "names_ok w (st\<lparr>st_removed := x_removed\<rparr>) = names_ok w st"
  "names_ok w (st\<lparr>st_namen := x_namen\<rparr>) = names_ok w st"
  "names_ok w (st\<lparr>st_tick := x_tick\<rparr>) = names_ok w st"
  "names_ok w (st\<lparr>st_tmpn := x_tmpn\<rparr>) = names_ok w st"
  "names_ok w (st\<lparr>st_Images := x_Images\<rparr>) = names_ok w st"
  "names_ok w (st\<lparr>st_Volumes := x_Volumes\<rparr>) = names_ok w st"
  "names_ok w (st\<lparr>st_Execs := x_Execs\<rparr>) = names_ok w st"
  "names_ok w (st\<lparr>st_Networks := x_Networks\<rparr>) = names_ok w st"
  "names_ok w (st\<lparr>st_Pods := x_Pods\<rparr>) = names_ok w st"
  "names_ok w (st\<lparr>st_WaitChs := x_WaitChs\<rparr>) = names_ok w st"
  "names_ok w (st\<lparr>st_chans := x_chans\<rparr>) = names_ok w st"
  "names_ok w (st\<lparr>st_closed := x_closed\<rparr>) = names_ok w st"
  "names_ok w (st\<lparr>st_panicked := x_panicked\<rparr>) = names_ok w st"
  by (simp_all add: names_ok_def cview_def)

lemma names_okI:
  assumes ok: "names_ok w st" and wf: "wf_map (st_Containers st')" and view: "\<And>cid. cview st' cid = cview st cid"
    and names: "st_ContainerNames st' = st_ContainerNames st" and idn: "st_idn st \<le> st_idn st'"
  shows "names_ok w st'"
proof -
  have "\<exists>j < st_idn st'. cid = w_ids w j" if "cview st cid = Some (i, nm)" for cid i nm
    using ok that idn unfolding names_ok_def by (meson order_less_le_trans)
  then show ?thesis
    using ok wf unfolding names_ok_def view names by blast
qed

lemma names_okD:
  assumes "names_ok w st"
  shows "wf_map (st_Containers st)"
    and "get_container cid st = Some c \<Longrightarrow> c_ID c = cid \<and> StateStore_Get (c_Name c) (st_ContainerNames st) = Some cid"
    and "StateStore_Get nm (st_ContainerNames st) = Some cid \<Longrightarrow> cview st cid = Some (cid, nm)"
    and "get_container cid st = Some c \<Longrightarrow> \<exists>j < st_idn st. cid = w_ids w j"
    and "cview st k = Some (i, nm) \<Longrightarrow> i = k \<and> StateStore_Get nm (st_ContainerNames st) = Some k"
    and "cview st k = Some (i, nm) \<Longrightarrow> \<exists>j < st_idn st. k = w_ids w j"
proof -
  note ok = assms [unfolded names_ok_def]
  have view: "get_container cid st = Some c \<Longrightarrow> cview st cid = Some (c_ID c, c_Name c)" by (simp add: cview_def)
  show "wf_map (st_Containers st)" using ok by (rule conjunct1)
  show "StateStore_Get nm (st_ContainerNames st) = Some cid \<Longrightarrow> cview st cid = Some (cid, nm)"
    using ok by blast
  show "get_container cid st = Some c \<Longrightarrow> c_ID c = cid \<and> StateStore_Get (c_Name c) (st_ContainerNames st) = Some cid"
    using ok view by blast
  show "get_container cid st = Some c \<Longrightarrow> \<exists>j < st_idn st. cid = w_ids w j"
    using ok view by blast
  show "cview st k = Some (i, nm) \<Longrightarrow> i = k \<and> StateStore_Get nm (st_ContainerNames st) = Some k"
    using ok by blast
  show "cview st k = Some (i, nm) \<Longrightarrow> \<exists>j < st_idn st. k = w_ids w j"
    using ok by blast
qed

lemma names_ok_frame:
  assumes "names_ok w st" "st_Containers st' = st_Containers st" "st_ContainerNames st' = st_ContainerNames st"
    and "st_idn st \<le> st_idn st'"
  shows "names_ok w st'"
  by (rule names_okI [OF assms(1)]) (use assms(2-4) names_okD(1) [OF assms(1)] in \<open>simp_all add: cview_def\<close>)

lemma names_ok_upd:
  assumes "names_ok w st" "m = st_Containers st" "\<And>c. c_ID (f c) = c_ID c \<and> c_Name (f c) = c_Name c"
  shows "names_ok w (st\<lparr>st_Containers := ss_update cid f m\<rparr>)"
  by (rule names_okI [OF assms(1)])
    (use assms(2,3) names_okD(1) [OF assms(1)] in \<open>auto simp: cview_def option.map_comp comp_def\<close>)

lemma names_effects [simp, intro]:
  assumes "names_ok w st"
  shows "names_ok w (fst (GenerateID v st))" "names_ok w (fst (GenerateName v st))"
    "names_ok w (fst (now_text v st))" "names_ok w (fst (MkdirTemp v st))" "names_ok w (RemoveAll d st)"
    "names_ok w (fst (NextPID st))" "names_ok w (emitEvent v a b c e st)" "names_ok w (StopHealthCheck cid st)"
    "names_ok w (release_endpoint net cid st)" "names_ok w (fst (new_endpoint v net cf st))"
    "names_ok w (add_to_network net cid cn ep st)" "names_ok w (close_wait cid st)" "names_ok w (open_wait cid st)"
  by (rule names_ok_frame [OF assms]; simp add: GenerateID_def)+

lemma names_mark_exited [simp, intro]: "names_ok w st \<Longrightarrow> names_ok w (mark_exited v cid code st)"
  by (auto simp: mark_exited_def Let_def case_prod_beta split: option.split intro!: names_ok_upd)

lemma names_StartHealth [simp, intro]: "names_ok w st \<Longrightarrow> names_ok w (StartHealthCheck cid st)"
  by (auto simp: StartHealthCheck_def Let_def split: option.split intro!: names_ok_upd)

lemma names_ForceStop [simp, intro]: "names_ok w st \<Longrightarrow> names_ok w (ForceStopContainer v cid code st)"
  by (simp add: ForceStopContainer_def forceStop_def)

lemma names_stop_running [simp, intro]: "names_ok w st \<Longrightarrow> names_ok w (stop_running v c st)"
  by (simp add: stop_running_def exit_events_def Let_def)

lemma names_Connect [simp, intro]: "names_ok w st \<Longrightarrow> names_ok w (fst (Driver_Connect v nid cid cf st))"
  by (auto simp: Driver_Connect_def Let_def case_prod_beta split: option.split intro!: names_ok_upd)

lemma names_Disconnect [simp, intro]: "names_ok w st \<Longrightarrow> names_ok w (fst (Driver_Disconnect nid cid st))"
  by (auto simp: Driver_Disconnect_def Let_def split: option.split intro!: names_ok_upd)

lemma names_disconnect_all [simp, intro]: "names_ok w st \<Longrightarrow> names_ok w (disconnect_all c st)"
  unfolding disconnect_all_def
  by (rule foldl_invariant [where P = "names_ok w"]) (auto split: option.split)

lemma names_add:
  assumes ok: "names_ok w st" and fresh: "get_container cid st = None" "StateStore_Get nm (st_ContainerNames st) = None"
    and c: "c_ID c = cid" "c_Name c = nm" and idn: "j < st_idn st" "cid = w_ids w j"
    and m: "m = st_Containers st" "m' = st_ContainerNames st"
  shows "names_ok w (st\<lparr>st_Containers := StateStore_Put cid c m, st_ContainerNames := StateStore_Put nm cid m'\<rparr>)"
    (is "names_ok w ?st")
proof -
  have view: "cview ?st k = (if k = cid then Some (cid, nm) else cview st k)" for k
    using c by (simp add: cview_def m)
  have wf: "wf_map (st_Containers ?st)" using names_okD(1) [OF ok] by (simp add: m)
  have keep: "nm' \<noteq> nm" if "cview st k = Some (i, nm')" for k i nm'
    using names_okD(5) [OF ok that] fresh(2) by auto
  have keep': "k \<noteq> cid" if "StateStore_Get nm' (st_ContainerNames st) = Some k" for k nm'
    using names_okD(3) [OF ok that] fresh(1) by (auto simp: cview_def)
  show ?thesis
    unfolding names_ok_def
  proof (intro conjI allI impI)
    fix k i nm' assume "cview ?st k = Some (i, nm')"
    then consider "k = cid" "i = cid" "nm' = nm" | "k \<noteq> cid" "cview st k = Some (i, nm')"
      by (auto simp: view split: if_splits)
    then have "i = k \<and> StateStore_Get nm' (st_ContainerNames ?st) = Some k \<and> (\<exists>j < st_idn st. k = w_ids w j)"
    proof cases
      case 1
      with idn show ?thesis by auto
    next
      case 2
      with names_okD(5,6) [OF ok 2(2)] keep [OF 2(2)] show ?thesis by (simp add: m)
    qed
    then show "i = k" "StateStore_Get nm' (st_ContainerNames ?st) = Some k" "\<exists>j < st_idn ?st. k = w_ids w j"
      by simp_all
  next
    fix nm' k assume "StateStore_Get nm' (st_ContainerNames ?st) = Some k"
    then have "k = cid \<and> nm' = nm \<or> StateStore_Get nm' (st_ContainerNames st) = Some k"
      by (simp add: m split: if_splits)
    then show "cview ?st k = Some (k, nm')"
      unfolding view using names_okD(3) [OF ok] keep' by auto
  qed (rule wf)
qed

lemma names_del:
  assumes ok: "names_ok w st" and nm: "StateStore_Get nm (st_ContainerNames st) = Some cid"
    and m: "m = st_Containers st" "m' = st_ContainerNames st"
  shows "names_ok w (st\<lparr>st_Containers := ss_delete cid m, st_ContainerNames := ss_delete nm m'\<rparr>)"
    (is "names_ok w ?st")
proof -
  have view: "cview ?st k = (if k = cid then None else cview st k)" for k
    by (simp add: cview_def m)
  have "cview st cid = Some (cid, nm)" by (rule names_okD(3) [OF ok nm])
  then have keep: "nm' \<noteq> nm" if "cview st k = Some (i, nm')" "k \<noteq> cid" for k i nm'
    using names_okD(5) [OF ok that(1)] that(2) nm by auto
  show ?thesis
    unfolding names_ok_def
  proof (intro conjI allI impI)
    show "wf_map (st_Containers ?st)" using names_okD(1) [OF ok] by (simp add: m)
    fix k i nm' assume "cview ?st k = Some (i, nm')"
    then have *: "k \<noteq> cid" "cview st k = Some (i, nm')" by (auto simp: view split: if_splits)
    show "i = k" "\<exists>j < st_idn ?st. k = w_ids w j" using names_okD(5,6) [OF ok *(2)] by simp_all
    show "StateStore_Get nm' (st_ContainerNames ?st) = Some k"
      using names_okD(5) [OF ok *(2)] keep [OF *(2,1)] by (simp add: m)
  next
    fix nm' k assume "StateStore_Get nm' (st_ContainerNames ?st) = Some k"
    then have *: "nm' \<noteq> nm" "cview st k = Some (k, nm')"
      using names_okD(3) [OF ok] by (auto simp: m split: if_splits)
    moreover have "k \<noteq> cid" using * \<open>cview st cid = Some (cid, nm)\<close> by auto
    ultimately show "cview ?st k = Some (k, nm')" by (simp add: view)
  qed
qed

lemma resolve_stored:
  assumes ok: "names_ok w st" and res: "ResolveContainer ref st = Some c"
  shows "get_container (c_ID c) st = Some c"
proof -
  have key: "get_container k st = Some c \<Longrightarrow> get_container (c_ID c) st = Some c" for k
    using names_okD(2) [OF ok, of k c] by auto
  have "(\<exists>k. get_container k st = Some c) \<or> c \<in> set (StateStore_List (st_Containers st))"
    using res
    by (auto simp: ResolveContainer_def by_name_def bind_eq_Some_conv split: option.splits if_splits dest: find_SomeD)
  with in_List_iff [OF names_okD(1) [OF ok]] key show ?thesis by blast
qed

text \<open>The name index is touched by create, remove, rename and prune only.\<close>

lemma frame_names [frame, simp]:
  "st_ContainerNames (fst (Driver_Disconnect nid cid st)) = st_ContainerNames st"
  "st_ContainerNames (leave_pod cid st) = st_ContainerNames st"
  "st_ContainerNames (ForceStopContainer w cid code st) = st_ContainerNames st"
  "st_Containers (leave_pod cid st) = st_Containers st"
  "st_idn (leave_pod cid st) = st_idn st"
  by (simp_all add: Driver_Disconnect_def leave_pod_def ForceStopContainer_def forceStop_def Let_def
      split: option.split prod.split bool.split)

lemma names_disconnect_all_names [simp]: "st_ContainerNames (disconnect_all c st) = st_ContainerNames st"
  unfolding disconnect_all_def
  by (rule foldl_invariant [where P = "\<lambda>s. st_ContainerNames s = st_ContainerNames st"]) (auto split: option.split)

lemma names_leave_pod [simp, intro]: "names_ok w st \<Longrightarrow> names_ok w (leave_pod cid st)"
  by (rule names_ok_frame [of w st]) simp_all

lemma names_drop [simp, intro]:
  assumes "names_ok w st"
  shows "names_ok w (drop_tmpfs cid st)" "names_ok w (drop_execs c st)"
proof -
  have "names_ok w st' \<Longrightarrow> names_ok w (foldl (\<lambda>st d. RemoveAll d st) st' dirs)" for st' dirs
    by (rule foldl_invariant [where P = "names_ok w"]) simp_all
  with assms show "names_ok w (drop_tmpfs cid st)" by (simp add: drop_tmpfs_def split: option.split)
  from assms show "names_ok w (drop_execs c st)" by (simp add: drop_execs_def)
qed

lemma names_ContainerRemove:
  assumes ok: "names_ok w st"
  shows "names_ok w (fst (ContainerRemove w ref force st))"
proof (cases "ResolveContainer ref st")
  case (Some c)
  have nm: "StateStore_Get (c_Name c) (st_ContainerNames st) = Some (c_ID c)"
    using names_okD(2) [OF ok resolve_stored [OF ok Some]] by simp
  show ?thesis
    using Some ok nm by (simp add: ContainerRemove_def Let_def names_del)
qed (use ok in \<open>simp add: ContainerRemove_def\<close>)

text \<open>Handlers that leave the identifiers and names of all containers.\<close>

lemma names_Create [simp, intro]: "names_ok w st \<Longrightarrow> names_ok w (fst (Driver_Create v name opts st))"
  by (simp add: Driver_Create_def Let_def case_prod_beta)

lemma names_Remove [simp, intro]: "names_ok w st \<Longrightarrow> names_ok w (fst (Driver_Remove ref st))"
  by (simp add: Driver_Remove_def split: option.split)

lemma names_Prune [simp, intro]: "names_ok w st \<Longrightarrow> names_ok w (fst (Driver_Prune f st))"
  by (simp add: Driver_Prune_def Let_def case_prod_beta)

lemma names_NetworkCreate: "names_ok w st \<Longrightarrow> names_ok w (fst (NetworkCreate v req st))"
  using names_Create [of w st v "nr_Name req" req]
  by (cases "Driver_Create v (nr_Name req) req st"; cases "snd (Driver_Create v (nr_Name req) req st)")
    (simp_all add: NetworkCreate_def)

lemma names_NetworkRemove: "names_ok w st \<Longrightarrow> names_ok w (fst (NetworkRemove v ref st))"
proof (cases "ResolveNetwork ref st")
  case (Some n)
  assume "names_ok w st"
  with Some names_Remove [of w st "nw_ID n"] show ?thesis
    by (cases "Driver_Remove (nw_ID n) st"; cases "snd (Driver_Remove (nw_ID n) st)") (simp_all add: NetworkRemove_def)
qed (simp add: NetworkRemove_def)

lemma names_NetworkPrune: "names_ok w st \<Longrightarrow> names_ok w (fst (NetworkPrune v f st))"
proof -
  have "names_ok w st' \<Longrightarrow> names_ok w (foldl (\<lambda>st nid. emitEvent v a b nid (g nid) st) st' ids)" for st' a b g ids
    by (rule foldl_invariant) simp_all
  then show "names_ok w st \<Longrightarrow> names_ok w (fst (NetworkPrune v f st))"
    by (simp add: NetworkPrune_def Let_def case_prod_beta)
qed

lemma names_NetworkDisconnect: "names_ok w st \<Longrightarrow> names_ok w (fst (NetworkDisconnect v ref c force st))"
  by (simp add: NetworkDisconnect_def Let_def split: option.split)

lemma names_add_to_pod [simp, intro]: "names_ok w st \<Longrightarrow> names_ok w (add_to_pod pid cid st)"
  by (simp add: add_to_pod_def)

lemma names_NetworkConnect: "names_ok w st \<Longrightarrow> names_ok w (fst (NetworkConnect v ref c cf st))"
proof (cases "ResolveNetwork ref st")
  case (Some net)
  assume ok: "names_ok w st"
  show ?thesis
  proof (cases "ResolveContainerIDAuto NewStateStore None c st")
    case cid: (Some cid)
    obtain st1 r where r: "Driver_Connect v (nw_ID net) cid cf st = (st1, r)" by (rule prod.exhaust)
    have "names_ok w st1" using names_Connect [OF ok, of v "nw_ID net" cid cf] by (simp add: r)
    with Some cid r show ?thesis
      by (cases r) (auto simp: NetworkConnect_def Let_def case_prod_beta split: option.split bool.split prod.split)
  qed (use Some ok in \<open>simp add: NetworkConnect_def\<close>)
qed (simp add: NetworkConnect_def)

lemma names_resolveTmpfs [simp, intro]: "names_ok w st \<Longrightarrow> names_ok w (fst (resolveTmpfsMounts v m st))"
proof (induction m arbitrary: st)
  case (Cons e m)
  then show ?case by (cases e) (simp add: Let_def case_prod_beta)
qed simp

lemma names_store_tmpfs [simp, intro]: "names_ok w st \<Longrightarrow> names_ok w (store_tmpfs v cid st)"
  by (simp add: store_tmpfs_def Let_def case_prod_beta split: option.split)

lemma names_inject_env [simp, intro]: "names_ok w st \<Longrightarrow> names_ok w (inject_env c st)"
  by (simp add: inject_env_def Let_def env_unless_def names_ok_upd)

lemma names_set_running [simp, intro]: "names_ok w st \<Longrightarrow> names_ok w (set_running v cid k st)"
  by (simp add: set_running_def Let_def case_prod_beta names_ok_upd)

lemma names_maybe_health [simp, intro]: "names_ok w st \<Longrightarrow> names_ok w (maybe_health cid st)"
  by (simp add: maybe_health_def split: option.split)

lemma names_ContainerStart: "names_ok w st \<Longrightarrow> names_ok w (fst (ContainerStart v ref st))"
  by (simp add: ContainerStart_def Let_def case_prod_beta split: option.split)

lemma names_ContainerStop: "names_ok w st \<Longrightarrow> names_ok w (fst (ContainerStop v ref st))"
  by (simp add: ContainerStop_def split: option.split)

lemma names_ContainerKill: "names_ok w st \<Longrightarrow> names_ok w (fst (ContainerKill v ref sig st))"
  by (simp add: ContainerKill_def Let_def split: option.split)

lemma names_ContainerRestart: "names_ok w st \<Longrightarrow> names_ok w (fst (ContainerRestart v ref st))"
  by (simp add: ContainerRestart_def Let_def split: option.split)

lemma names_ContainerPause: "names_ok w st \<Longrightarrow> names_ok w (fst (ContainerPause v ref st))"
  by (simp add: ContainerPause_def Let_def names_ok_upd split: option.split)

lemma names_ContainerUnpause: "names_ok w st \<Longrightarrow> names_ok w (fst (ContainerUnpause v ref st))"
  by (simp add: ContainerUnpause_def Let_def names_ok_upd split: option.split)

lemma names_restart [simp, intro]: "names_ok w st \<Longrightarrow> names_ok w (fst (handleRestartPolicy v cid code st))"
  by (simp add: handleRestartPolicy_def Let_def case_prod_beta names_ok_upd split: option.split)

lemma names_StopContainer:
  "names_ok w st \<Longrightarrow> names_ok w (StopContainer (Some (handleRestartPolicy v)) v cid code st)"
  by (simp add: StopContainer_def Let_def case_prod_beta forceStop_def)

lemma names_RevertToCreated: "names_ok w st \<Longrightarrow> names_ok w (RevertToCreated cid st)"
  by (simp add: RevertToCreated_def names_ok_upd)

lemma names_recordHealth: "names_ok w st \<Longrightarrow> names_ok w (recordHealthResult v cid code out n st)"
  by (simp add: recordHealthResult_def Let_def case_prod_beta names_ok_upd split: option.split)

lemma names_pod_start_one [simp, intro]: "names_ok w st \<Longrightarrow> names_ok w (pod_start_one v now cid st)"
  by (simp add: pod_start_one_def Let_def case_prod_beta names_ok_upd split: option.split)

lemma names_pod_stop_one [simp, intro]: "names_ok w st \<Longrightarrow> names_ok w (pod_stop_one v code cid st)"
  by (simp add: pod_stop_one_def exit_events_def Let_def split: option.split)

lemma names_pod_kill_one [simp, intro]: "names_ok w st \<Longrightarrow> names_ok w (pod_kill_one v code cid st)"
  by (simp add: pod_kill_one_def Let_def split: option.split)

lemma names_pod_remove_one [simp, intro]: "names_ok w st \<Longrightarrow> names_ok w (pod_remove_one v force cid st)"
proof (cases "get_container cid st")
  case (Some c)
  assume ok: "names_ok w st"
  with names_okD(2) [OF ok Some] Some show ?thesis
    by (simp add: pod_remove_one_def Let_def names_del)
qed (simp add: pod_remove_one_def)

lemma names_with_pod:
  "names_ok w st \<Longrightarrow> (\<And>pod. names_ok w (fst (body pod))) \<Longrightarrow> names_ok w (fst (with_pod name st body))"
  by (simp add: with_pod_def split: prod.split bool.split option.split)

lemma names_pod_loop:
  "(\<And>st cid. names_ok w st \<Longrightarrow> names_ok w (f st cid)) \<Longrightarrow> names_ok w st \<Longrightarrow> names_ok w (foldl f st cids)"
  by (rule foldl_invariant)

lemma names_PodCreate: "names_ok w st \<Longrightarrow> names_ok w (fst (PodCreate v req st))"
  by (simp add: PodCreate_def Let_def case_prod_beta)

lemma names_PodStart: "names_ok w st \<Longrightarrow> names_ok w (fst (PodStart v name st))"
  unfolding PodStart_def by (rule names_with_pod, assumption) (simp add: Let_def case_prod_beta names_pod_loop)

lemma names_PodStop: "names_ok w st \<Longrightarrow> names_ok w (fst (PodStop v name st))"
  unfolding PodStop_def by (rule names_with_pod, assumption) (simp add: Let_def names_pod_loop)

lemma names_PodKill: "names_ok w st \<Longrightarrow> names_ok w (fst (PodKill v name sig st))"
  unfolding PodKill_def by (rule names_with_pod, assumption) (simp add: Let_def names_pod_loop)

lemma names_PodRemove: "names_ok w st \<Longrightarrow> names_ok w (fst (PodRemove v name force st))"
  unfolding PodRemove_def
  by (rule names_with_pod, assumption) (simp add: Let_def removePodContainers_def names_pod_loop)

lemma names_ExecCreate: "names_ok w st \<Longrightarrow> names_ok w (fst (ExecCreate v ref req st))"
  by (simp add: ExecCreate_def Let_def case_prod_beta names_ok_upd split: option.split list.split)

lemma names_ExecStart: "names_ok w st \<Longrightarrow> names_ok w (fst (ExecStart e tty st))"
  by (simp add: ExecStart_def Let_def case_prod_beta split: option.split)

lemma names_exec_finish: "names_ok w st \<Longrightarrow> names_ok w (exec_finish e code st)"
  by (simp add: exec_finish_def)

lemma names_VolumeCreate: "names_ok w st \<Longrightarrow> names_ok w (fst (VolumeCreate v req st))"
  by (simp add: VolumeCreate_def Let_def case_prod_beta split: option.split)

lemma names_drop_volume_dir [simp, intro]: "names_ok w st \<Longrightarrow> names_ok w (drop_volume_dir name st)"
  by (simp add: drop_volume_dir_def split: option.split)

lemma names_VolumeRemove: "names_ok w st \<Longrightarrow> names_ok w (fst (VolumeRemove v name force st))"
  by (simp add: VolumeRemove_def Let_def split: option.split)

lemma names_VolumePrune:
  assumes "names_ok w st"
  shows "names_ok w (fst (VolumePrune v f st))"
proof -
  have "names_ok w st1 \<Longrightarrow> names_ok w (fst (foldl (prune_volume v) (st1, s) vs))" for st1 s vs
    by (rule foldl_invariant [where P = "\<lambda>a. names_ok w (fst a)"])
      (simp_all add: prune_volume_def Let_def case_prod_beta)
  with assms show ?thesis by (simp add: VolumePrune_def Let_def case_prod_beta)
qed

text \<open>\<open>ContainerRename\<close>: the old name is freed, the new one taken, and the stored container carries it.\<close>

lemma names_rename:
  assumes ok: "names_ok w st" and c: "get_container cid st = Some c"
    and fresh: "StateStore_Get nm (st_ContainerNames st) = None"
    and f: "\<And>c. c_ID (f c) = c_ID c \<and> c_Name (f c) = nm"
  shows "names_ok w (st\<lparr>st_ContainerNames := StateStore_Put nm cid (ss_delete (c_Name c) (st_ContainerNames st)),
      st_Containers := ss_update cid f (st_Containers st)\<rparr>)" (is "names_ok w ?st")
proof -
  note old = names_okD(2) [OF ok c]
  have view: "cview ?st k = (if k = cid then Some (cid, nm) else cview st k)" for k
    using c old f by (simp add: cview_def)
  have keep: "nm' \<noteq> c_Name c \<and> nm' \<noteq> nm" if "k \<noteq> cid" "cview st k = Some (i, nm')" for k i nm'
    using names_okD(5) [OF ok that(2)] that(1) old fresh by auto
  show ?thesis
    unfolding names_ok_def
  proof (intro conjI allI impI)
    show "wf_map (st_Containers ?st)" using names_okD(1) [OF ok] by simp
    fix k i nm' assume "cview ?st k = Some (i, nm')"
    then consider "k = cid" "i = cid" "nm' = nm" | "k \<noteq> cid" "cview st k = Some (i, nm')"
      by (auto simp: view split: if_splits)
    then have "i = k \<and> StateStore_Get nm' (st_ContainerNames ?st) = Some k \<and> (\<exists>j < st_idn st. k = w_ids w j)"
    proof cases
      case 1
      with names_okD(4) [OF ok c] show ?thesis by simp
    next
      case 2
      with names_okD(5,6) [OF ok 2(2)] keep [OF 2] show ?thesis by simp
    qed
    then show "i = k" "StateStore_Get nm' (st_ContainerNames ?st) = Some k" "\<exists>j < st_idn ?st. k = w_ids w j"
      by simp_all
  next
    fix nm' k assume "StateStore_Get nm' (st_ContainerNames ?st) = Some k"
    then consider "k = cid" "nm' = nm" | "nm' \<noteq> c_Name c" "StateStore_Get nm' (st_ContainerNames st) = Some k"
      by (auto split: if_splits)
    then show "cview ?st k = Some (k, nm')"
    proof cases
      case 2
      with names_okD(3) [OF ok 2(2)] c show ?thesis unfolding view by (auto simp: cview_def)
    qed (simp add: view)
  qed
qed

lemma names_rename_endpoints [simp, intro]: "names_ok w st \<Longrightarrow> names_ok w (rename_endpoints cid nm eps st)"
  unfolding rename_endpoints_def by (rule foldl_invariant) auto

lemma names_ContainerRename:
  assumes ok: "names_ok w st"
  shows "names_ok w (fst (ContainerRename v ref newName st))"
proof (cases "ResolveContainer ref st")
  case (Some c)
  let ?n = "if HasPrefix newName ''/'' then newName else slashed newName"
  show ?thesis
  proof (cases "newName = [] \<or> StateStore_Get ?n (st_ContainerNames st) \<noteq> None")
    case True
    with Some ok show ?thesis by (auto simp: ContainerRename_def Let_def)
  next
    case False
    then have "StateStore_Get ?n (st_ContainerNames st) = None" by simp
    from names_rename [OF ok resolve_stored [OF ok Some] this, of "\<lambda>c. c\<lparr>c_Name := ?n\<rparr>"] Some False
    show ?thesis by (simp add: ContainerRename_def Let_def)
  qed
qed (use ok in \<open>simp add: ContainerRename_def\<close>)

section \<open>The name index under create and prune\<close>

text \<open>The containers, their names and the identifier supply are not touched.\<close>

definition same_conts :: "Store \<Rightarrow> Store \<Rightarrow> bool" where
  "same_conts st st' \<longleftrightarrow>
     st_Containers st' = st_Containers st \<and> st_ContainerNames st' = st_ContainerNames st \<and> st_idn st \<le> st_idn st'"

lemma same_conts_refl [simp, intro]: "same_conts st st"
  by (simp add: same_conts_def)

lemma same_conts_trans: "same_conts a b \<Longrightarrow> same_conts b c \<Longrightarrow> same_conts a c"
  by (simp add: same_conts_def)

lemma same_conts_names: "names_ok w st \<Longrightarrow> same_conts st st' \<Longrightarrow> names_ok w st'"
  unfolding same_conts_def using names_ok_frame by blast

lemma same_conts_endpoint: "same_conts st (fst (buildEndpointForNetwork v r cid nm cf st))"
  by (simp add: same_conts_def buildEndpointForNetwork_def Let_def case_prod_beta split: option.split)

lemma same_conts_explicit: "same_conts st (fst (explicit_endpoints v cid nm eps st nets))"
proof (induction eps arbitrary: st nets)
  case (Cons e eps)
  obtain r cf where e: "e = (r, cf)" by (cases e)
  obtain st1 res where b: "buildEndpointForNetwork v r cid nm cf st = (st1, res)" by (rule prod.exhaust)
  have "same_conts st st1" using same_conts_endpoint [of st v r cid nm cf] by (simp add: b)
  with Cons.IH [of st1] b e show ?case by (cases res) (auto intro: same_conts_trans)
qed simp

lemma same_conts_build: "same_conts st (fst (buildContainerFromConfig v d cid nm cfg hc eps st))"
proof -
  have "same_conts st (fst (now_text v st))" for v :: World and st by (simp add: same_conts_def)
  then show ?thesis
    unfolding buildContainerFromConfig_def Let_def case_prod_beta fst_conv
    by (intro same_conts_trans [OF _ same_conts_explicit] same_conts_trans [OF _ same_conts_endpoint])
qed

lemma same_conts_create_pod: "same_conts st (fst (create_pod v nm st))"
  by (simp add: same_conts_def create_pod_def Let_def case_prod_beta GenerateID_def)

lemma same_conts_add_to_pod: "same_conts st (add_to_pod pid cid st)" "same_conts st (add_to_found_pod p cid st)"
  by (simp_all add: same_conts_def add_to_pod_def add_to_found_pod_def split: option.split)

lemma same_conts_group_container: "same_conts st (group_by_container v mode cid st)"
  unfolding group_by_container_def Let_def case_prod_beta
  by (auto simp: same_conts_add_to_pod split: bool.split
      intro!: same_conts_trans [OF same_conts_create_pod same_conts_trans [OF same_conts_add_to_pod(1) same_conts_add_to_pod(1)]])

lemma same_conts_group_network: "same_conts st (group_by_network v cid names st)"
proof (induction names)
  case (Cons n names)
  have loop: "same_conts a b \<Longrightarrow>
      same_conts a (foldl (\<lambda>st e. if e = cid \<or> in_pod e st then st else add_to_pod pid e st) b es)" for a b pid es
    by (rule foldl_invariant) (auto intro: same_conts_trans same_conts_add_to_pod)
  have new: "same_conts st (on_pods f (fst (create_pod v nm st)))" for f nm
    using same_conts_create_pod [of st v nm] by (simp add: same_conts_def)
  show ?case
    using Cons.IH
    by (auto simp: Let_def case_prod_beta same_conts_add_to_pod simp del: append_Cons split: bool.split option.split
        intro!: same_conts_trans [OF loop [OF new] same_conts_add_to_pod(1)])
qed simp

lemma same_conts_create_name: "same_conts st (fst (create_name v req st))"
  by (simp add: same_conts_def create_name_def Let_def case_prod_beta)

lemma same_conts_staging: "same_conts st (create_staging r cid st)"
  by (simp add: same_conts_def create_staging_def split: option.split)

lemma same_conts_grouped: "same_conts st (create_grouped v req c st)"
  unfolding create_grouped_def Let_def
  by (auto intro: same_conts_group_container same_conts_trans [OF same_conts_group_container same_conts_group_network])

lemma names_create_stored:
  assumes w: "inj (w_ids w)" and ok: "names_ok w st"
    and free: "StateStore_Get (snd (create_name w req st)) (st_ContainerNames st) = None"
  shows "names_ok w (fst (create_stored w d req st))"
proof -
  let ?st0 = "fst (create_name w req st)"
  let ?st1 = "fst (GenerateID w ?st0)"
  let ?cid = "snd (GenerateID w ?st0)"
  let ?r = "buildContainerFromConfig w d ?cid (snd (create_name w req st)) (create_config req ?st1)
      (create_host_config req) (cr_Endpoints req) ?st1"
  have idn: "st_idn ?st1 = Suc (st_idn ?st0)" "?cid = w_ids w (st_idn ?st0)" by (simp_all add: GenerateID_def)
  have keep: "same_conts st ?st1" "same_conts ?st1 (fst ?r)"
    subgoal by (rule same_conts_trans [OF same_conts_create_name [of st w req]]) (simp add: same_conts_def idn(1))
    subgoal by (rule same_conts_build)
    done
  have st: "same_conts st (fst ?r)" by (rule same_conts_trans [OF keep])
  have c: "c_ID (snd ?r) = ?cid" "c_Name (snd ?r) = snd (create_name w req st)"
    by (simp_all add: buildContainerFromConfig_def Let_def case_prod_beta)
  have "get_container ?cid st = None"
    using names_okD(4) [OF same_conts_names [OF ok same_conts_create_name [of st w req]], of ?cid] w idn(2)
      same_conts_create_name [of st w req]
    by (cases "get_container ?cid st") (auto simp: inj_eq same_conts_def)
  then have fresh: "get_container ?cid (fst ?r) = None" using st by (simp add: same_conts_def)
  have free': "StateStore_Get (snd (create_name w req st)) (st_ContainerNames (fst ?r)) = None"
    using free st by (simp add: same_conts_def)
  have less: "st_idn ?st0 < st_idn (fst ?r)" using keep(2) idn by (simp add: same_conts_def)
  have "fst (create_stored w d req st) = (fst ?r)
      \<lparr>st_Containers := StateStore_Put ?cid (snd ?r) (st_Containers (fst ?r)),
       st_ContainerNames := StateStore_Put (snd (create_name w req st)) ?cid (st_ContainerNames (fst ?r))\<rparr>"
    by (simp only: create_stored_def Let_def case_prod_beta fst_conv snd_conv)
  then show ?thesis
    using names_add [OF same_conts_names [OF ok st] fresh free' c less idn(2) refl refl] by (simp only:)
qed

lemma names_ContainerCreate:
  assumes "inj (w_ids w)" "names_ok w st"
  shows "names_ok w (fst (ContainerCreate w d req st))"
proof (cases "StateStore_Get (snd (create_name w req st)) (st_ContainerNames st)")
  case None
  have free: "StateStore_Get (snd (create_name w req st)) (st_ContainerNames (fst (create_name w req st))) = None"
    using None same_conts_create_name [of st w req] by (simp add: same_conts_def)
  note stored = names_create_stored [OF assms None, of d]
  show ?thesis
    unfolding ContainerCreate_def Let_def case_prod_beta
    using free stored same_conts_names [OF same_conts_names [OF stored same_conts_staging] same_conts_grouped]
    by simp
next
  case (Some i)
  then show ?thesis
    using same_conts_names [OF assms(2) same_conts_create_name] same_conts_create_name [of st w req]
    by (simp add: ContainerCreate_def Let_def case_prod_beta same_conts_def)
qed

text \<open>A pruned container is out of the store: the rest of the prune only frees its name.\<close>

lemma disconnect_all_gone:
  "get_container (c_ID c) st = None \<Longrightarrow> st_Containers (disconnect_all c st) = st_Containers st"
  unfolding disconnect_all_def
  by (rule foldl_invariant [where P = "\<lambda>s. st_Containers s = st_Containers st"])
    (auto simp: Driver_Disconnect_def Let_def StateStore_Update_def StateStore_Get_def split: option.split)

lemma frame_drop [frame, simp]:
  "st_Containers (drop_tmpfs cid st) = st_Containers st"
  "st_ContainerNames (drop_tmpfs cid st) = st_ContainerNames st"
  "st_idn (drop_tmpfs cid st) = st_idn st"
  "st_Containers (drop_execs c st) = st_Containers st"
  "st_ContainerNames (drop_execs c st) = st_ContainerNames st"
  "st_idn (drop_execs c st) = st_idn st"
proof -
  have "st_Containers (foldl (\<lambda>st d. RemoveAll d st) s ds) = st_Containers s \<and>
      st_ContainerNames (foldl (\<lambda>st d. RemoveAll d st) s ds) = st_ContainerNames s \<and>
      st_idn (foldl (\<lambda>st d. RemoveAll d st) s ds) = st_idn s" for s ds
    by (induction ds arbitrary: s) (simp_all add: RemoveAll_def)
  then show "st_Containers (drop_tmpfs cid st) = st_Containers st"
    "st_ContainerNames (drop_tmpfs cid st) = st_ContainerNames st" "st_idn (drop_tmpfs cid st) = st_idn st"
    by (simp_all add: drop_tmpfs_def split: option.split)
qed (simp_all add: drop_execs_def)

lemma disconnect_all_idn [simp]: "st_idn (disconnect_all c st) = st_idn st"
  unfolding disconnect_all_def
  by (rule foldl_invariant [where P = "\<lambda>s. st_idn s = st_idn st"])
    (auto simp: Driver_Disconnect_def Let_def split: option.split)

lemma prune_one_view:
  assumes "get_container (c_ID c) st = None"
  shows "st_Containers (prune_one w c st) = st_Containers st"
    and "st_ContainerNames (prune_one w c st) = ss_delete (c_Name c) (st_ContainerNames st)"
    and "st_idn (prune_one w c st) = st_idn st"
  using disconnect_all_gone assms by (simp_all add: prune_one_def Let_def)

lemma prune_loop_view:
  assumes "\<forall>c \<in> set cs. get_container (c_ID c) st = None"
  shows "st_Containers (foldl (\<lambda>st c. prune_one w c st) st cs) = st_Containers st \<and>
    st_ContainerNames (foldl (\<lambda>st c. prune_one w c st) st cs) =
      foldl (\<lambda>m c. ss_delete (c_Name c) m) (st_ContainerNames st) cs \<and>
    st_idn (foldl (\<lambda>st c. prune_one w c st) st cs) = st_idn st"
  using assms
proof (induction cs arbitrary: st)
  case (Cons c cs)
  with prune_one_view [of c st w] show ?case by simp
qed simp

lemma Get_delete_all:
  "StateStore_Get nm (foldl (\<lambda>m c. ss_delete (c_Name c) m) m cs) =
     (if nm \<in> c_Name ` set cs then None else StateStore_Get nm m)"
  by (induction cs arbitrary: m) auto

lemma pruned_iff:
  "wf_map s \<Longrightarrow> c \<in> set (snd (StateStore_PruneIf pred s)) \<longleftrightarrow> (\<exists>k. StateStore_Get k s = Some c \<and> pred k c)"
  by (auto simp: PruneIf_filter StateStore_Get_def image_iff)

lemma names_ContainerPrune:
  assumes ok: "names_ok w st"
  shows "names_ok w (fst (ContainerPrune v filters st))"
proof -
  define pruned where "pruned = snd (StateStore_PruneIf (\<lambda>k c. prunable filters c) (st_Containers st))"
  define cs where "cs = fst (StateStore_PruneIf (\<lambda>k c. prunable filters c) (st_Containers st))"
  define st' where "st' = fst (ContainerPrune v filters st)"
  note wf = names_okD(1) [OF ok]
  have get: "StateStore_Get k cs = (case get_container k st of None \<Rightarrow> None | Some c \<Rightarrow> if prunable filters c then None else Some c)" for k
    unfolding cs_def by (rule get_PruneIf [OF wf])
  have in_pruned: "c \<in> set pruned \<longleftrightarrow> get_container (c_ID c) st = Some c \<and> prunable filters c" for c
    using names_okD(2) [OF ok] unfolding pruned_def pruned_iff [OF wf] by auto
  have "st' = foldl (\<lambda>st c. prune_one v c st) (st\<lparr>st_Containers := cs\<rparr>) pruned"
    by (simp add: st'_def ContainerPrune_def Let_def case_prod_beta cs_def pruned_def)
  moreover have "\<forall>c \<in> set pruned. get_container (c_ID c) (st\<lparr>st_Containers := cs\<rparr>) = None"
    using in_pruned by (auto simp: get)
  ultimately have st': "st_Containers st' = cs" "st_idn st' = st_idn st"
    "StateStore_Get nm (st_ContainerNames st') = (if nm \<in> c_Name ` set pruned then None else StateStore_Get nm (st_ContainerNames st))" for nm
    using prune_loop_view [of pruned "st\<lparr>st_Containers := cs\<rparr>" v] by (simp_all add: Get_delete_all)
  have kept: "get_container k st' = Some c \<longleftrightarrow> get_container k st = Some c \<and> \<not> prunable filters c" for k c
    by (auto simp: st' get split: option.splits)
  show ?thesis
    unfolding names_ok_def st'_def [symmetric]
  proof (intro conjI allI impI)
    show "wf_map (st_Containers st')" using wf by (simp add: st' cs_def)
    fix k i nm assume "cview st' k = Some (i, nm)"
    then obtain c where c: "get_container k st = Some c" "\<not> prunable filters c" "i = c_ID c" "nm = c_Name c"
      using kept by (auto simp: cview_def)
    have "nm \<notin> c_Name ` set pruned"
    proof
      assume "nm \<in> c_Name ` set pruned"
      then obtain d where d: "get_container (c_ID d) st = Some d" "prunable filters d" "c_Name d = nm"
        using in_pruned by auto
      have "c_ID d = k" using names_okD(2) [OF ok d(1)] names_okD(2) [OF ok c(1)] c(4) d(3) by simp
      with c d show False by simp
    qed
    with names_okD(2,4) [OF ok c(1)] c
    show "i = k" "StateStore_Get nm (st_ContainerNames st') = Some k" "\<exists>j < st_idn st'. k = w_ids w j"
      by (simp_all add: st')
  next
    fix nm k assume "StateStore_Get nm (st_ContainerNames st') = Some k"
    then have nm: "nm \<notin> c_Name ` set pruned" "StateStore_Get nm (st_ContainerNames st) = Some k"
      by (simp_all add: st' split: if_splits)
    from names_okD(3) [OF ok nm(2)] obtain c where c: "get_container k st = Some c" "c_ID c = k" "c_Name c = nm"
      by (auto simp: cview_def)
    then have "\<not> prunable filters c" using nm(1) in_pruned [of c] by auto
    with c kept show "cview st' k = Some (k, nm)" by (simp add: cview_def)
  qed
qed

section \<open>Images\<close>

lemma core_images:
    "core_ok v (fst (ImagePullWithMetadata w fetch ref meta st)) = core_ok v st"
    "core_ok v (fst (ImageTag w source repo tag st)) = core_ok v st"
    "core_ok v (fst (ImageRemove w name force st)) = core_ok v st"
    "core_ok v (fst (ImagePrune w filters st)) = core_ok v st"
  subgoal by (rule image_writes) (simp_all add: emitEvent_def now_text_def RemoveAll_def Let_def)
  subgoal by (rule image_writes) (simp_all add: emitEvent_def now_text_def RemoveAll_def Let_def)
  subgoal by (rule image_writes) (simp_all add: emitEvent_def now_text_def RemoveAll_def Let_def)
  subgoal by (rule image_writes) (simp_all add: emitEvent_def now_text_def RemoveAll_def Let_def)
  done


lemma names_images:
    "names_ok v (fst (ImagePullWithMetadata w fetch ref meta st)) = names_ok v st"
    "names_ok v (fst (ImageTag w source repo tag st)) = names_ok v st"
    "names_ok v (fst (ImageRemove w name force st)) = names_ok v st"
    "names_ok v (fst (ImagePrune w filters st)) = names_ok v st"
  subgoal by (rule image_writes) (simp_all add: emitEvent_def now_text_def RemoveAll_def Let_def)
  subgoal by (rule image_writes) (simp_all add: emitEvent_def now_text_def RemoveAll_def Let_def)
  subgoal by (rule image_writes) (simp_all add: emitEvent_def now_text_def RemoveAll_def Let_def)
  subgoal by (rule image_writes) (simp_all add: emitEvent_def now_text_def RemoveAll_def Let_def)
  done

end
