(* ===== verification/Histories.thy ===== *)
theory Histories
  imports Safety
begin

text \<open>
  Histories of the base server: every request handler, and every step a background goroutine takes on
  the store (a health probe recorded, an exec finished, a cloud container reported stopped), is one
  operation; \<open>srv_run\<close> runs a list of them from the store \<open>NewServer\<close> sets up. The invariants of
  \<open>Safety\<close> hold after every history, and the properties below rest on them.
\<close>

section \<open>Operations\<close>

datatype srv_op =
    OpNetworkCreate NetworkCreateRequest
  | OpNetworkRemove string
  | OpNetworkPrune "string list gomap"
  | OpNetworkConnect string string "EndpointSettings option"
  | OpNetworkDisconnect string string bool
  | OpCreate ContainerCreateRequest
  | OpStart string
  | OpStop string
  | OpKill string string
  | OpRestart string
  | OpPause string
  | OpUnpause string
  | OpRename string string
  | OpRemove string bool
  | OpPrune "string list gomap"
  | OpPodCreate PodCreateRequest
  | OpPodStart string
  | OpPodStop string
  | OpPodKill string string
  | OpPodRemove string bool
  | OpExecCreate string ExecCreateRequest
  | OpExecStart string bool
  | OpExecFinish string int
  | OpVolumeCreate VolumeCreateRequest
  | OpVolumeRemove string bool
  | OpVolumePrune "string list gomap"
  | OpHealth string int string int
  | OpExited string int
  | OpReverted string
  | OpImagePull "registryConfig \<Rightarrow> string \<Rightarrow> string \<Rightarrow> string + string" string "ImageMetadataResult option"
  | OpImageTag string string string
  | OpImageRemove string bool
  | OpImagePrune "string list gomap"

text \<open>\<open>OpExited\<close> is \<open>Store.StopContainer\<close> with the restart policy hook that \<open>NewServer\<close> installs.\<close>

fun srv_step :: "World \<Rightarrow> string \<Rightarrow> srv_op \<Rightarrow> Store \<Rightarrow> Store" where
  "srv_step w d (OpNetworkCreate req) st = fst (NetworkCreate w req st)"
| "srv_step w d (OpNetworkRemove r) st = fst (NetworkRemove w r st)"
| "srv_step w d (OpNetworkPrune f) st = fst (NetworkPrune w f st)"
| "srv_step w d (OpNetworkConnect r c cf) st = fst (NetworkConnect w r c cf st)"
| "srv_step w d (OpNetworkDisconnect r c force) st = fst (NetworkDisconnect w r c force st)"
| "srv_step w d (OpCreate req) st = fst (ContainerCreate w d req st)"
| "srv_step w d (OpStart r) st = fst (ContainerStart w r st)"
| "srv_step w d (OpStop r) st = fst (ContainerStop w r st)"
| "srv_step w d (OpKill r sig) st = fst (ContainerKill w r sig st)"
| "srv_step w d (OpRestart r) st = fst (ContainerRestart w r st)"
| "srv_step w d (OpPause r) st = fst (ContainerPause w r st)"
| "srv_step w d (OpUnpause r) st = fst (ContainerUnpause w r st)"
| "srv_step w d (OpRename r nm) st = fst (ContainerRename w r nm st)"
| "srv_step w d (OpRemove r force) st = fst (ContainerRemove w r force st)"
| "srv_step w d (OpPrune f) st = fst (ContainerPrune w f st)"
| "srv_step w d (OpPodCreate req) st = fst (PodCreate w req st)"
| "srv_step w d (OpPodStart nm) st = fst (PodStart w nm st)"
| "srv_step w d (OpPodStop nm) st = fst (PodStop w nm st)"
| "srv_step w d (OpPodKill nm sig) st = fst (PodKill w nm sig st)"
| "srv_step w d (OpPodRemove nm force) st = fst (PodRemove w nm force st)"
| "srv_step w d (OpExecCreate r req) st = fst (ExecCreate w r req st)"
| "srv_step w d (OpExecStart e tty) st = fst (ExecStart e tty st)"
| "srv_step w d (OpExecFinish e code) st = exec_finish e code st"
| "srv_step w d (OpVolumeCreate req) st = fst (VolumeCreate w req st)"
| "srv_step w d (OpVolumeRemove nm force) st = fst (VolumeRemove w nm force st)"
| "srv_step w d (OpVolumePrune f) st = fst (VolumePrune w f st)"
| "srv_step w d (OpHealth cid code out n) st = recordHealthResult w cid code out n st"
| "srv_step w d (OpExited cid code) st = StopContainer (Some (handleRestartPolicy w)) w cid code st"
| "srv_step w d (OpReverted cid) st = RevertToCreated cid st"
| "srv_step w d (OpImagePull fetch r meta) st = fst (ImagePullWithMetadata w fetch r meta st)"
| "srv_step w d (OpImageTag source repo tag) st = fst (ImageTag w source repo tag st)"
| "srv_step w d (OpImageRemove nm force) st = fst (ImageRemove w nm force st)"
| "srv_step w d (OpImagePrune f) st = fst (ImagePrune w f st)"

definition srv_run :: "World \<Rightarrow> string \<Rightarrow> srv_op list \<Rightarrow> Store \<Rightarrow> Store" where
  "srv_run w d ops st = foldl (\<lambda>st op. srv_step w d op st) st ops"

text \<open>The store of a freshly started server.\<close>

definition fresh_server :: "World \<Rightarrow> Store" where
  "fresh_server w = InitDefaultNetwork w NewStore"

section \<open>The invariants hold after every history\<close>

lemmas core_steps = core_NetworkCreate core_NetworkRemove core_NetworkPrune core_NetworkConnect
  core_NetworkDisconnect core_ContainerCreate core_ContainerStart core_ContainerStop core_ContainerKill
  core_ContainerRestart core_ContainerPause core_ContainerUnpause core_ContainerRename
  core_ContainerRemove core_ContainerPrune core_PodCreate core_PodStart core_PodStop core_PodKill
  core_PodRemove core_ExecCreate core_ExecStart core_exec_finish core_VolumeCreate core_VolumeRemove
  core_VolumePrune core_recordHealth core_StopContainer core_RevertToCreated core_images

lemmas names_steps = names_NetworkCreate names_NetworkRemove names_NetworkPrune names_NetworkConnect
  names_NetworkDisconnect names_ContainerCreate names_ContainerStart names_ContainerStop names_ContainerKill
  names_ContainerRestart names_ContainerPause names_ContainerUnpause names_ContainerRename
  names_ContainerRemove names_ContainerPrune names_PodCreate names_PodStart names_PodStop names_PodKill
  names_PodRemove names_ExecCreate names_ExecStart names_exec_finish names_VolumeCreate names_VolumeRemove
  names_VolumePrune names_recordHealth names_StopContainer names_RevertToCreated names_images

lemma core_srv_step: "inj (w_ids w) \<Longrightarrow> core_ok w st \<Longrightarrow> core_ok w (srv_step w d op st)"
  by (cases op) (simp_all add: core_steps)

lemma names_srv_step: "inj (w_ids w) \<Longrightarrow> names_ok w st \<Longrightarrow> names_ok w (srv_step w d op st)"
  by (cases op) (simp_all add: names_steps)

lemma core_srv_run: "inj (w_ids w) \<Longrightarrow> core_ok w st \<Longrightarrow> core_ok w (srv_run w d ops st)"
  unfolding srv_run_def by (rule foldl_invariant) (simp_all add: core_srv_step)

lemma names_srv_run: "inj (w_ids w) \<Longrightarrow> names_ok w st \<Longrightarrow> names_ok w (srv_run w d ops st)"
  unfolding srv_run_def by (rule foldl_invariant) (simp_all add: names_srv_step)

lemma nets_named_Nil [simp]: "nets_named []"
  by (simp add: nets_named_def StateStore_List_def)

lemma fresh_server_frame [simp]:
  "st_Containers (fresh_server w) = []" "st_ContainerNames (fresh_server w) = []"
  "st_panicked (fresh_server w) = False" "st_WaitChs (fresh_server w) = []" "st_closed (fresh_server w) = []"
  "st_Pods (fresh_server w) = NewPodRegistry"
  by (simp_all add: fresh_server_def InitDefaultNetwork_def Let_def case_prod_beta NewStore_def NewStateStore_def)

lemma nets_named_fresh: "nets_named (st_Networks (fresh_server w))"
  by (simp add: fresh_server_def InitDefaultNetwork_def Let_def case_prod_beta NewStore_def NewStateStore_def
      nets_named_put default_network_def)

lemma core_fresh: "core_ok w (fresh_server w)"
  by (simp add: core_ok_def chan_ok_def pods_ok_def nets_named_fresh pod_inv_def net_ok_def)
    (auto simp: NewPodRegistry_def)

lemma names_fresh: "names_ok w (fresh_server w)"
  by (simp add: names_ok_def cview_def StateStore_Get_def)

section \<open>Safety of every history\<close>

text \<open>
  C1: No history of requests and background steps makes the server panic: no wait channel is
  closed twice, and no lookup in the pod registry hands out a nil pod that is then dereferenced.
\<close>

theorem server_never_panics:
  assumes "inj (w_ids w)"
  shows "\<not> st_panicked (srv_run w d ops (fresh_server w))"
  using core_srv_run [OF assms core_fresh] by (simp add: core_ok_def)

text \<open>
  C6: The container table and the name index agree after every history: a container is stored
  under its own identifier, its name leads to it, every entry of the index leads to a stored container
  of that name, and no two containers share an identifier or a name.
\<close>

theorem container_names_consistent:
  assumes "inj (w_ids w)" and "st = srv_run w d ops (fresh_server w)"
  shows "(\<forall>c \<in> set (StateStore_List (st_Containers st)).
            get_container (c_ID c) st = Some c \<and> StateStore_Get (c_Name c) (st_ContainerNames st) = Some (c_ID c)) \<and>
         (\<forall>nm cid. StateStore_Get nm (st_ContainerNames st) = Some cid \<longrightarrow>
            (\<exists>c. get_container cid st = Some c \<and> c_ID c = cid \<and> c_Name c = nm)) \<and>
         distinct (map c_ID (StateStore_List (st_Containers st))) \<and>
         distinct (map c_Name (StateStore_List (st_Containers st)))"
proof -
  have ok: "names_ok w st" unfolding assms(2) by (rule names_srv_run [OF assms(1) names_fresh])
  note wf = names_okD(1) [OF ok]
  have stored: "get_container (c_ID c) st = Some c \<and> StateStore_Get (c_Name c) (st_ContainerNames st) = Some (c_ID c)"
    if "c \<in> set (StateStore_List (st_Containers st))" for c
    using that names_okD(2) [OF ok] by (auto simp: in_List_iff [OF wf])
  have index: "\<exists>c. get_container cid st = Some c \<and> c_ID c = cid \<and> c_Name c = nm"
    if "StateStore_Get nm (st_ContainerNames st) = Some cid" for nm cid
    using names_okD(3) [OF ok that] by (auto simp: cview_def)
  have ids: "map c_ID (StateStore_List (st_Containers st)) = mkeys (st_Containers st)"
    using names_okD(2) [OF ok] by (auto simp: StateStore_List_def StateStore_Get_def mget_in_set [OF wf])
  then have distinct_ids: "distinct (map c_ID (StateStore_List (st_Containers st)))" using wf by simp
  then have "distinct (StateStore_List (st_Containers st))" by (simp add: distinct_map)
  moreover have "inj_on c_Name (set (StateStore_List (st_Containers st)))"
    by (rule inj_onI) (metis option.inject stored)
  ultimately have "distinct (map c_Name (StateStore_List (st_Containers st)))" by (simp add: distinct_map)
  with distinct_ids show ?thesis using stored index by blast
qed

text \<open>The history of the witnesses: the second create asks for a name that is in use.\<close>

definition demo_create :: "string \<Rightarrow> ContainerCreateRequest" where
  "demo_create name = \<lparr>cr_Config = Some demo_config, cr_HostConfig = None, cr_Name = name, cr_Endpoints = []\<rparr>"

definition demo_history :: "srv_op list" where
  "demo_history = [OpCreate (demo_create ''web''), OpCreate (demo_create ''web''), OpStart ''web'', OpKill ''web'' ''KILL'',
     OpRename ''web'' ''db'', OpCreate (demo_create ''web''), OpRemove ''db'' True, OpPrune []]"

lemma demo_world_inj: "inj (w_ids demo_world)"
  using demo_world_ok by (simp add: world_ok_def)

theorem server_never_panics_witness:
  "\<not> st_panicked (srv_run demo_world ''test'' demo_history (fresh_server demo_world))"
  by (rule server_never_panics [OF demo_world_inj])

theorem container_names_consistent_witness:
  "distinct (map c_Name (StateStore_List (st_Containers
     (srv_run demo_world ''test'' demo_history (fresh_server demo_world)))))"
  using container_names_consistent [OF demo_world_inj refl, of "''test''" demo_history] by simp

end
