(* ===== verification/Lifecycle.thy ===== *)
theory Lifecycle
  imports Histories
begin

text \<open>
  The life cycle of a container: what every history keeps of its state record, of its process
  identifier and of its wait channel, and what the transitions do to a client that waits.
\<close>

section \<open>The invariant\<close>

definition state_ok :: "ContainerState \<Rightarrow> bool" where
  "state_ok s \<longleftrightarrow>
     cs_Status s \<in> {''created'', ''running'', ''paused'', ''exited''} \<and>
     (cs_Running s \<longrightarrow> cs_Status s \<in> {''running'', ''paused''}) \<and>
     (cs_Running s \<longleftrightarrow> cs_Pid s > 0) \<and> (\<not> cs_Running s \<longrightarrow> cs_Pid s = 0) \<and>
     \<not> cs_Dead s \<and> \<not> cs_OOMKilled s \<and> \<not> cs_Restarting s"

definition running_in :: "Container StateStore \<Rightarrow> string \<Rightarrow> bool" where
  "running_in cs k = (case StateStore_Get k cs of None \<Rightarrow> False | Some c \<Rightarrow> cs_Running (c_State c))"

definition pid_in :: "Container StateStore \<Rightarrow> string \<Rightarrow> int" where
  "pid_in cs k = (case StateStore_Get k cs of None \<Rightarrow> 0 | Some c \<Rightarrow> cs_Pid (c_State c))"

definition life_inv :: "Container StateStore \<Rightarrow> nat gomap \<Rightarrow> int \<Rightarrow> bool" where
  "life_inv cs ws n \<longleftrightarrow>
     (\<forall>k c. StateStore_Get k cs = Some c \<longrightarrow> state_ok (c_State c)) \<and>
     (\<forall>k. (mget ws k \<noteq> None) = running_in cs k) \<and>
     (\<forall>k. pid_in cs k \<le> n) \<and>
     (\<forall>k k'. pid_in cs k = pid_in cs k' \<longrightarrow> 0 < pid_in cs k \<longrightarrow> k = k') \<and> 0 \<le> n"

definition life_ok :: "Store \<Rightarrow> bool" where
  "life_ok st \<longleftrightarrow> life_inv (st_Containers st) (st_WaitChs st) (st_pidCounter st)"

lemma life_invD:
  assumes "life_inv cs ws n"
  shows "StateStore_Get k cs = Some c \<Longrightarrow> state_ok (c_State c)" "mget ws k \<noteq> None \<longleftrightarrow> running_in cs k"
    "pid_in cs k \<le> n" "pid_in cs k = pid_in cs k' \<Longrightarrow> 0 < pid_in cs k \<Longrightarrow> k = k'" "0 \<le> n"
  using assms unfolding life_inv_def by blast+

lemma running_pid: "life_inv cs ws n \<Longrightarrow> running_in cs k \<longleftrightarrow> 0 < pid_in cs k"
  using life_invD(1) [of cs ws n k] by (auto simp: running_in_def pid_in_def state_ok_def split: option.split)

lemma life_cong:
  assumes "life_inv cs ws n" and "\<And>k c. StateStore_Get k cs' = Some c \<Longrightarrow> state_ok (c_State c)"
    and "\<And>k. running_in cs' k = running_in cs k" "\<And>k. pid_in cs' k = pid_in cs k" "n \<le> n'"
  shows "life_inv cs' ws n'"
  using assms life_invD(2-5) [OF assms(1)] unfolding life_inv_def by (simp add: order_trans [OF _ assms(5)])

text \<open>An update that keeps the run state and the process identifier.\<close>

lemma life_upd:
  assumes "life_inv cs ws n"
    and f: "\<And>c. state_ok (c_State c) \<Longrightarrow> state_ok (c_State (f c)) \<and>
      cs_Running (c_State (f c)) = cs_Running (c_State c) \<and> cs_Pid (c_State (f c)) = cs_Pid (c_State c)"
  shows "life_inv (ss_update cid f cs) ws n"
  by (rule life_cong [OF assms(1)])
    (use f life_invD(1) [OF assms(1)] in \<open>auto simp: running_in_def pid_in_def split: if_splits option.splits\<close>)

text \<open>A container stops: by an exit, by a revert to created, or by leaving the table.\<close>

lemma life_stop:
  assumes ok: "life_inv cs ws n"
    and get: "\<And>k. k \<noteq> cid \<Longrightarrow> StateStore_Get k cs' = StateStore_Get k cs"
    and gone: "\<And>c. StateStore_Get cid cs' = Some c \<Longrightarrow> state_ok (c_State c) \<and> \<not> cs_Running (c_State c)"
  shows "life_inv cs' (mdel cid ws) n"
proof -
  have run: "running_in cs' k = (k \<noteq> cid \<and> running_in cs k)" for k
    using get gone by (cases "k = cid") (auto simp: running_in_def split: option.split)
  have pid: "pid_in cs' k = (if k = cid then 0 else pid_in cs k)" for k
    using get gone by (cases "k = cid") (auto simp: pid_in_def state_ok_def split: option.split)
  show ?thesis
    unfolding life_inv_def
  proof (intro conjI allI impI)
    fix k c assume "StateStore_Get k cs' = Some c"
    then show "state_ok (c_State c)" using get gone life_invD(1) [OF ok] by (cases "k = cid") auto
  next
    fix k show "(mget (mdel cid ws) k \<noteq> None) = running_in cs' k"
      using life_invD(2) [OF ok] by (simp add: run)
  next
    fix k k' assume "pid_in cs' k = pid_in cs' k'" "0 < pid_in cs' k"
    then show "k = k'" using life_invD(4) [OF ok, of k k'] by (auto simp: pid split: if_splits)
  qed (use life_invD(3,5) [OF ok] in \<open>simp_all add: pid\<close>)
qed

text \<open>A container runs under a process identifier above all that were given out.\<close>

lemma life_start:
  assumes ok: "life_inv cs ws n" and c: "StateStore_Get cid cs = Some c" and pid: "n < pid"
    and f: "state_ok (c_State c) \<Longrightarrow> state_ok (c_State (f c)) \<and> cs_Running (c_State (f c)) \<and> cs_Pid (c_State (f c)) = pid"
    and ws: "\<And>k. mget ws' k = None \<longleftrightarrow> k \<noteq> cid \<and> mget ws k = None"
  shows "life_inv (ss_update cid f cs) ws' pid"
proof -
  let ?cs = "ss_update cid f cs"
  have f': "state_ok (c_State (f c))" "cs_Running (c_State (f c))" "cs_Pid (c_State (f c)) = pid"
    using f life_invD(1) [OF ok c] by simp_all
  have run: "running_in ?cs k = (k = cid \<or> running_in cs k)" for k using c f' by (simp add: running_in_def)
  have pids: "pid_in ?cs k = (if k = cid then pid else pid_in cs k)" for k using c f' by (simp add: pid_in_def)
  have less: "pid_in cs k < pid" for k using life_invD(3) [OF ok, of k] pid by simp
  show ?thesis
    unfolding life_inv_def
  proof (intro conjI allI impI)
    fix k d assume "StateStore_Get k ?cs = Some d"
    then show "state_ok (c_State d)" using life_invD(1) [OF ok] c f' by (cases "k = cid") auto
  next
    fix k show "(mget ws' k \<noteq> None) = running_in ?cs k"
      using life_invD(2) [OF ok] by (auto simp: run ws)
  next
    fix k k' assume "pid_in ?cs k = pid_in ?cs k'" "0 < pid_in ?cs k"
    then show "k = k'" using life_invD(4) [OF ok, of k k'] less [of k] less [of k'] by (auto simp: pids split: if_splits)
  qed (use less life_invD(3,5) [OF ok] pid in \<open>auto simp: pids less_imp_le\<close>)
qed

section \<open>Services and transitions\<close>

lemma life_ok_update [simp]:
  "life_ok (st\<lparr>st_LogBuffers := x_LogBuffers\<rparr>) = life_ok st"
  "life_ok (st\<lparr>st_VolumeDirs := x_VolumeDirs\<rparr>) = life_ok st"
  "life_ok (st\<lparr>st_StagingDirs := x_StagingDirs\<rparr>) = life_ok st"
  "life_ok (st\<lparr>st_PathMappings := x_PathMappings\<rparr>) = life_ok st"
  "life_ok (st\<lparr>st_HealthChecks := x_HealthChecks\<rparr>) = life_ok st"
  "life_ok (st\<lparr>st_BuildContexts := x_BuildContexts\<rparr>) = life_ok st"
  "life_ok (st\<lparr>st_TmpfsDirs := x_TmpfsDirs\<rparr>) = life_ok st"
  "life_ok (st\<lparr>st_ImageHistory := x_ImageHistory\<rparr>) = life_ok st"
  "life_ok (st\<lparr>st_LayerContent := x_LayerContent\<rparr>) = life_ok st"
  "life_ok (st\<lparr>st_ImageManifestLayers := x_ImageManifestLayers\<rparr>) = life_ok st"
  "life_ok (st\<lparr>st_IPAlloc := x_IPAlloc\<rparr>) = life_ok st"
  "life_ok (st\<lparr>st_EventBus := x_EventBus\<rparr>) = life_ok st"
  "life_ok (st\<lparr>st_ctxs := x_ctxs\<rparr>) = life_ok st"
  "life_ok (st\<lparr>st_cancelled := x_cancelled\<rparr>) = life_ok st"
  "life_ok (st\<lparr>st_loops := x_loops\<rparr>) = life_ok st"
  "life_ok (st\<lparr>st_removed := x_removed\<rparr>) = life_ok st"
  "life_ok (st\<lparr>st_namen := x_namen\<rparr>) = life_ok st"
  "life_ok (st\<lparr>st_tick := x_tick\<rparr>) = life_ok st"
  "life_ok (st\<lparr>st_tmpn := x_tmpn\<rparr>) = life_ok st"
  "life_ok (st\<lparr>st_Images := x_Images\<rparr>) = life_ok st"
  "life_ok (st\<lparr>st_Volumes := x_Volumes\<rparr>) = life_ok st"
  "life_ok (st\<lparr>st_Execs := x_Execs\<rparr>) = life_ok st"
  "life_ok (st\<lparr>st_Networks := x_Networks\<rparr>) = life_ok st"
  "life_ok (st\<lparr>st_Pods := x_Pods\<rparr>) = life_ok st"
  "life_ok (st\<lparr>st_chans := x_chans\<rparr>) = life_ok st"
  "life_ok (st\<lparr>st_closed := x_closed\<rparr>) = life_ok st"
  "life_ok (st\<lparr>st_panicked := x_panicked\<rparr>) = life_ok st"
  "life_ok (st\<lparr>st_ContainerNames := x_ContainerNames\<rparr>) = life_ok st"
  "life_ok (st\<lparr>st_idn := x_idn\<rparr>) = life_ok st"
  by (simp_all add: life_ok_def)

lemma life_frame:
  "life_ok st \<Longrightarrow> st_Containers st' = st_Containers st \<Longrightarrow> st_WaitChs st' = st_WaitChs st \<Longrightarrow>
   st_pidCounter st' = st_pidCounter st \<Longrightarrow> life_ok st'"
  by (simp add: life_ok_def)

named_theorems life \<open>services that keep the life cycle invariant\<close>

lemma life_more [life]: "life_inv cs ws n \<Longrightarrow> n \<le> n' \<Longrightarrow> life_inv cs ws n'"
  by (rule life_cong) (use life_invD(1) in blast)+

lemma exited_state_ok:
  "state_ok s \<Longrightarrow> state_ok (exited_state code now s) \<and> \<not> cs_Running (exited_state code now s)"
  by (simp add: state_ok_def exited_state_def)

lemma running_state_ok:
  "state_ok s \<Longrightarrow> 0 < pid \<Longrightarrow> state_ok (running_state pid now s) \<and> cs_Running (running_state pid now s) \<and>
     cs_Pid (running_state pid now s) = pid"
  by (simp add: state_ok_def running_state_def)

lemma mdel_absent: "mget m k = None \<Longrightarrow> mdel k m = m"
  by (simp add: map_of_eq_None_iff delete_id)

lemma WaitChs_close_wait [simp]: "st_WaitChs (close_wait cid st) = mdel cid (st_WaitChs st)"
  by (simp add: close_wait_def close_chan_def mdel_absent split: option.split)

lemma frame_close_wait' [simp]:
  "st_Containers (close_wait cid st) = st_Containers st" "st_pidCounter (close_wait cid st) = st_pidCounter st"
  by simp_all

lemma WaitChs_open_wait: "\<exists>ch. st_WaitChs (open_wait cid st) = mput cid ch (st_WaitChs st)"
  by (rule exI [of _ "st_chans st"]) (simp add: open_wait_def make_chan_def)

lemma life_mark_exited:
  assumes "life_ok st"
  shows "life_inv (st_Containers (mark_exited v cid code st)) (mdel cid (st_WaitChs st)) (st_pidCounter st)"
  by (rule life_stop [OF assms [unfolded life_ok_def]])
    (use life_invD(1) [OF assms [unfolded life_ok_def]] exited_state_ok in
      \<open>auto simp: mark_exited_def Let_def case_prod_beta split: option.splits if_splits\<close>)

lemma life_exit [life, simp]: "life_ok st \<Longrightarrow> life_ok (close_wait cid (mark_exited v cid code st))"
  using life_mark_exited [of st] by (simp add: life_ok_def)

lemma StopHealth_life [simp]: "life_ok (StopHealthCheck cid st) = life_ok st"
  by (simp add: life_ok_def)

lemma life_forceStop [life, simp]: "life_ok st \<Longrightarrow> life_ok (ForceStopContainer v cid code st)"
  by (simp add: ForceStopContainer_def forceStop_def)

lemma life_ok_upd:
  "life_ok st \<Longrightarrow> m = st_Containers st \<Longrightarrow>
   (\<And>c. state_ok (c_State c) \<Longrightarrow> state_ok (c_State (f c)) \<and>
      cs_Running (c_State (f c)) = cs_Running (c_State c) \<and> cs_Pid (c_State (f c)) = cs_Pid (c_State c)) \<Longrightarrow>
   life_ok (st\<lparr>st_Containers := ss_update cid f m\<rparr>)"
  by (simp add: life_ok_def life_upd)

text \<open>Updates of a container that leave its state record.\<close>

lemma life_ok_upd_other [life, simp]:
  "life_ok st \<Longrightarrow> m = st_Containers st \<Longrightarrow> (\<And>c. c_State (f c) = c_State c) \<Longrightarrow>
   life_ok (st\<lparr>st_Containers := ss_update cid f m\<rparr>)"
  by (rule life_ok_upd) simp_all

lemma life_health [life, simp]: "life_ok st \<Longrightarrow> life_ok (StartHealthCheck cid st)"
  by (auto simp: StartHealthCheck_def Let_def state_ok_def split: option.split intro!: life_ok_upd)

lemma life_restarted:
  assumes ok: "life_ok st" and c: "get_container cid st = Some c"
    and f: "\<And>c. c_State (f c) = running_state (st_pidCounter st + 1) now (c_State c)"
    and ws: "\<And>k. mget ws k = None \<longleftrightarrow> k \<noteq> cid \<and> mget (st_WaitChs st) k = None"
  shows "life_inv (ss_update cid f (st_Containers st)) ws (st_pidCounter st + 1)"
  by (rule life_start [OF ok [unfolded life_ok_def] c])
    (use life_invD(5) [OF ok [unfolded life_ok_def]] f running_state_ok ws in auto)

lemma life_set_running [life, simp]:
  "life_ok st \<Longrightarrow> get_container cid st \<noteq> None \<Longrightarrow> life_ok (set_running v cid k (open_wait cid st))"
  using life_restarted [of st cid _ "\<lambda>c. in_state (running_state (st_pidCounter st + 1) (snd (now_text v (open_wait cid st))))
      (c\<lparr>c_RestartCount := c_RestartCount c + k\<rparr>)" _ "st_WaitChs (open_wait cid st)"]
  by (auto simp: life_ok_def set_running_def Let_def case_prod_beta NextPID_def open_wait_def make_chan_def)

text \<open>Services that leave the table, the wait channels and the counter, or only other fields of a container.\<close>

lemma frame_endpoint [frame, simp]:
  "st_WaitChs (release_endpoint net cid st) = st_WaitChs st" "st_pidCounter (release_endpoint net cid st) = st_pidCounter st"
  "st_WaitChs (fst (new_endpoint v net cf st)) = st_WaitChs st"
  "st_pidCounter (fst (new_endpoint v net cf st)) = st_pidCounter st"
  "st_WaitChs (add_to_network net cid cn ep st) = st_WaitChs st"
  "st_pidCounter (add_to_network net cid cn ep st) = st_pidCounter st"
  by (simp_all add: release_endpoint_def new_endpoint_def add_to_network_def Let_def case_prod_beta split: option.split)

lemma life_services [life, simp]:
  assumes "life_ok st"
  shows "life_ok (fst (GenerateID v st))" "life_ok (fst (GenerateName v st))" "life_ok (fst (now_text v st))"
    "life_ok (fst (MkdirTemp v st))" "life_ok (RemoveAll d st)" "life_ok (emitEvent v a b c e st)"
    "life_ok (StopHealthCheck cid st)" "life_ok (release_endpoint net cid st)" "life_ok (fst (new_endpoint v net cf st))"
    "life_ok (add_to_network net cid cn ep st)"
  by (rule life_frame [OF assms]; simp)+

lemma life_NextPID [life, simp]: "life_ok st \<Longrightarrow> life_ok (fst (NextPID st))"
  by (simp add: life_ok_def NextPID_def life_more)

lemma life_Connect [life, simp]: "life_ok st \<Longrightarrow> life_ok (fst (Driver_Connect v nid cid cf st))"
  by (simp add: Driver_Connect_def Let_def case_prod_beta split: option.split)

lemma life_Disconnect [life, simp]: "life_ok st \<Longrightarrow> life_ok (fst (Driver_Disconnect nid cid st))"
  by (simp add: Driver_Disconnect_def Let_def split: option.split)

lemma life_loop: "(\<And>st x. life_ok st \<Longrightarrow> life_ok (f st x)) \<Longrightarrow> life_ok st \<Longrightarrow> life_ok (foldl f st xs)"
  by (rule foldl_invariant [where P = life_ok])

lemma life_disconnect_all [life, simp]: "life_ok st \<Longrightarrow> life_ok (disconnect_all c st)"
  unfolding disconnect_all_def by (rule life_loop) (auto split: option.split)

lemma life_leave_pod [life, simp]: "life_ok st \<Longrightarrow> life_ok (leave_pod cid st)"
  by (simp add: leave_pod_def split: prod.split bool.split option.split)

lemma life_drop [life, simp]:
  assumes "life_ok st"
  shows "life_ok (drop_tmpfs cid st)" "life_ok (drop_execs c st)"
proof -
  have "life_ok st' \<Longrightarrow> life_ok (foldl (\<lambda>st d. RemoveAll d st) st' ds)" for st' ds by (rule life_loop) simp_all
  with assms show "life_ok (drop_tmpfs cid st)" by (simp add: drop_tmpfs_def split: option.split)
qed (use assms in \<open>simp add: drop_execs_def\<close>)

lemma life_resolveTmpfs [life, simp]: "life_ok st \<Longrightarrow> life_ok (fst (resolveTmpfsMounts v m st))"
proof (induction m arbitrary: st)
  case (Cons e m)
  then show ?case by (cases e) (simp add: Let_def case_prod_beta)
qed simp

lemma life_store_tmpfs [life, simp]: "life_ok st \<Longrightarrow> life_ok (store_tmpfs v cid st)"
  by (simp add: store_tmpfs_def Let_def case_prod_beta split: option.split)

lemma life_inject_env [life, simp]: "life_ok st \<Longrightarrow> life_ok (inject_env c st)"
  by (simp add: inject_env_def Let_def env_unless_def)

lemma life_maybe_health [life, simp]: "life_ok st \<Longrightarrow> life_ok (maybe_health cid st)"
  by (simp add: maybe_health_def split: option.split)

lemma life_exit_events [life, simp]: "life_ok st \<Longrightarrow> life_ok (exit_events v cid code nm st)"
  by (simp add: exit_events_def)

lemma life_stop_running [life, simp]: "life_ok st \<Longrightarrow> life_ok (stop_running v c st)"
  by (simp add: stop_running_def Let_def)

lemma life_deleted [life, simp]:
  assumes "life_ok st" "m = st_Containers st"
  shows "life_ok (close_wait cid (st\<lparr>st_Containers := ss_delete cid m, st_ContainerNames := x, st_LogBuffers := y\<rparr>))"
proof -
  have "life_inv (ss_delete cid (st_Containers st)) (mdel cid (st_WaitChs st)) (st_pidCounter st)"
    by (rule life_stop [OF assms(1) [unfolded life_ok_def]]) simp_all
  with assms(2) show ?thesis by (simp add: life_ok_def)
qed

lemma life_in_state [life, simp]:
  "life_ok st \<Longrightarrow> m = st_Containers st \<Longrightarrow> s \<in> {''running'', ''paused''} \<Longrightarrow>
   life_ok (st\<lparr>st_Containers := ss_update cid (in_state (\<lambda>c. c\<lparr>cs_Paused := b, cs_Status := s\<rparr>)) m\<rparr>)"
  by (rule life_ok_upd) (auto simp: state_ok_def)

text \<open>The container of an update stays in the table.\<close>

lemma Get_update_None [simp]: "StateStore_Get k (ss_update k' f m) = None \<longleftrightarrow> StateStore_Get k m = None"
  by (auto split: option.split)

lemma stays_mark [simp]: "get_container k (mark_exited v cid code st) = None \<longleftrightarrow> get_container k st = None"
  by (simp add: mark_exited_def Let_def case_prod_beta split: option.split)

lemma stays_inject [simp]: "get_container k (inject_env c st) = None \<longleftrightarrow> get_container k st = None"
  by (simp add: inject_env_def Let_def)

lemma resolveTmpfs_conts [simp]: "st_Containers (fst (resolveTmpfsMounts v m st)) = st_Containers st"
proof (induction m arbitrary: st)
  case (Cons e m)
  then show ?case by (cases e) (simp add: Let_def case_prod_beta)
qed simp

lemma store_tmpfs_conts [simp]: "st_Containers (store_tmpfs v cid st) = st_Containers st"
  by (simp add: store_tmpfs_def Let_def case_prod_beta split: option.split)

lemma stays_stop [simp]: "get_container k (stop_running v c st) = None \<longleftrightarrow> get_container k st = None"
  by (simp add: stop_running_def exit_events_def ForceStopContainer_def forceStop_def Let_def)

section \<open>The handlers\<close>

lemma life_ContainerStart: "names_ok w st \<Longrightarrow> life_ok st \<Longrightarrow> life_ok (fst (ContainerStart v ref st))"
  using resolve_stored [of w st ref]
  by (simp add: ContainerStart_def Let_def case_prod_beta split: option.split)

lemma life_ContainerStop: "life_ok st \<Longrightarrow> life_ok (fst (ContainerStop v ref st))"
  by (simp add: ContainerStop_def split: option.split)

lemma life_ContainerKill: "life_ok st \<Longrightarrow> life_ok (fst (ContainerKill v ref sig st))"
  using life_mark_exited [of "StopHealthCheck cid st" for cid]
  by (simp add: ContainerKill_def Let_def life_ok_def split: option.split)

lemma life_ContainerRestart: "names_ok w st \<Longrightarrow> life_ok st \<Longrightarrow> life_ok (fst (ContainerRestart v ref st))"
  using resolve_stored [of w st ref]
  by (simp add: ContainerRestart_def Let_def split: option.split)

lemma life_ContainerPause: "life_ok st \<Longrightarrow> life_ok (fst (ContainerPause v ref st))"
  by (simp add: ContainerPause_def Let_def split: option.split)

lemma life_ContainerUnpause: "life_ok st \<Longrightarrow> life_ok (fst (ContainerUnpause v ref st))"
  by (simp add: ContainerUnpause_def Let_def split: option.split)

lemma life_ContainerRemove: "life_ok st \<Longrightarrow> life_ok (fst (ContainerRemove v ref force st))"
  by (simp add: ContainerRemove_def Let_def split: option.split)

lemma life_rename_endpoints [simp]: "life_ok st \<Longrightarrow> life_ok (rename_endpoints cid nm eps st)"
  unfolding rename_endpoints_def by (rule life_loop) auto

lemma life_ContainerRename: "life_ok st \<Longrightarrow> life_ok (fst (ContainerRename v ref nm st))"
  by (simp add: ContainerRename_def Let_def split: option.split)

lemma snd_NextPID: "snd (NextPID st) = st_pidCounter st + 1"
  by (simp add: NextPID_def)

lemma life_restart [simp]: "life_ok st \<Longrightarrow> life_ok (fst (handleRestartPolicy v cid code st))"
proof (cases "get_container cid st")
  case (Some c)
  assume ok: "life_ok st"
  show ?thesis
  proof (cases "ShouldRestart (ho_RestartPolicy (c_HostConfig c)) code (c_RestartCount c)")
    case True
    let ?st1 = "upd_container cid (\<lambda>c. c\<lparr>c_RestartCount := c_RestartCount c + 1\<rparr>) st"
    let ?st2 = "open_wait cid (close_wait cid (StopHealthCheck cid ?st1))"
    let ?f = "in_state (running_state (st_pidCounter st + 1) (snd (now_text v ?st2)))"
    let ?st3 = "upd_container cid ?f (fst (NextPID (fst (now_text v ?st2))))"
    have "life_ok ?st1" using ok by simp
    from life_restarted [OF this, of cid _ ?f _ "st_WaitChs ?st2"] Some
    have "life_ok ?st3"
      by (auto simp: life_ok_def NextPID_def open_wait_def make_chan_def)
    with Some True snd_NextPID show ?thesis
      by (simp add: handleRestartPolicy_def Let_def case_prod_beta split: option.split)
  qed (use Some ok in \<open>simp add: handleRestartPolicy_def\<close>)
qed (simp add: handleRestartPolicy_def)

lemma life_StopContainer:
  "life_ok st \<Longrightarrow> life_ok (StopContainer (Some (handleRestartPolicy v)) v cid code st)"
  by (simp add: StopContainer_def Let_def case_prod_beta forceStop_def)

lemma life_RevertToCreated:
  assumes "life_ok st"
  shows "life_ok (RevertToCreated cid st)"
proof -
  have "life_inv (ss_update cid (in_state (\<lambda>s. s\<lparr>cs_Status := ''created'', cs_Running := False, cs_Pid := 0,
      cs_StartedAt := zero_time\<rparr>)) (st_Containers st)) (mdel cid (st_WaitChs st)) (st_pidCounter st)"
    by (rule life_stop [OF assms [unfolded life_ok_def]])
      (use life_invD(1) [OF assms [unfolded life_ok_def]] in \<open>auto simp: state_ok_def split: option.splits if_splits\<close>)
  then show ?thesis by (simp add: RevertToCreated_def life_ok_def)
qed

lemma life_recordHealth: "life_ok st \<Longrightarrow> life_ok (recordHealthResult v cid code out n st)"
  by (auto simp: recordHealthResult_def Let_def case_prod_beta state_ok_def split: option.split intro!: life_ok_upd)


lemma life_prune_one [simp]:
  assumes ok: "life_ok st" and gone: "get_container (c_ID c) st = None"
  shows "life_ok (prune_one w c st)"
proof -
  have "mget (st_WaitChs st) (c_ID c) = None"
    using life_invD(2) [OF ok [unfolded life_ok_def], of "c_ID c"] gone by (simp add: running_in_def)
  then have "life_ok (close_wait (c_ID c) (StopHealthCheck (c_ID c) st
      \<lparr>st_ContainerNames := x, st_LogBuffers := y\<rparr>))" for x y
    using ok by (simp add: close_wait_def)
  then show ?thesis by (simp add: prune_one_def Let_def)
qed

lemma life_prune_loop:
  "\<forall>c \<in> set cs. get_container (c_ID c) st = None \<Longrightarrow> life_ok st \<Longrightarrow> life_ok (foldl (\<lambda>st c. prune_one w c st) st cs)"
proof (induction cs arbitrary: st)
  case (Cons c cs)
  then show ?case using prune_one_view(1) [of c st w] by simp
qed simp

lemma life_ContainerPrune:
  assumes names: "names_ok w st" and ok: "life_ok st"
  shows "life_ok (fst (ContainerPrune v filters st))"
proof -
  define r where "r = StateStore_PruneIf (\<lambda>k c. prunable filters c) (st_Containers st)"
  note wf = names_okD(1) [OF names] and ok' = ok [unfolded life_ok_def]
  have get: "StateStore_Get k (fst r) = (case get_container k st of None \<Rightarrow> None | Some c \<Rightarrow> if prunable filters c then None else Some c)" for k
    unfolding r_def by (rule get_PruneIf [OF wf])
  have stopped: "\<not> cs_Running (c_State c) \<and> cs_Pid (c_State c) = 0" if "get_container k st = Some c" "prunable filters c" for k c
    using life_invD(1) [OF ok' that(1)] that(2) by (auto simp: state_ok_def prunable_def split: if_splits)
  have "life_inv (fst r) (st_WaitChs st) (st_pidCounter st)"
    by (rule life_cong [OF ok'])
      (use life_invD(1) [OF ok'] stopped in \<open>auto simp: get running_in_def pid_in_def split: option.splits if_splits\<close>)
  then have "life_ok (st\<lparr>st_Containers := fst r\<rparr>)" by (simp add: life_ok_def)
  moreover have "\<forall>c \<in> set (snd r). get_container (c_ID c) (st\<lparr>st_Containers := fst r\<rparr>) = None"
    using names_okD(2) [OF names] by (auto simp: r_def pruned_iff [OF wf] get [unfolded r_def])
  ultimately show ?thesis
    using life_prune_loop by (simp add: ContainerPrune_def Let_def case_prod_beta r_def)
qed

lemma life_pod_run [simp]:
  "life_ok st \<Longrightarrow> get_container cid st \<noteq> None \<Longrightarrow> m = st_Containers st \<Longrightarrow>
   life_ok (fst (NextPID (open_wait cid st))\<lparr>st_Containers :=
     ss_update cid (in_state (running_state (snd (NextPID (open_wait cid st))) now)) m\<rparr>)"
  using life_restarted [of st cid _ "in_state (running_state (st_pidCounter st + 1) now)" now "st_WaitChs (open_wait cid st)"]
  by (auto simp: life_ok_def NextPID_def open_wait_def make_chan_def)

lemma life_pod_start_one [simp]: "life_ok st \<Longrightarrow> life_ok (pod_start_one v now cid st)"
  by (simp add: pod_start_one_def Let_def case_prod_beta split: option.split)

lemma life_pod_stop_one [simp]: "life_ok st \<Longrightarrow> life_ok (pod_stop_one v code cid st)"
  by (simp add: pod_stop_one_def Let_def split: option.split)

lemma life_pod_kill_one [simp]: "life_ok st \<Longrightarrow> life_ok (pod_kill_one v code cid st)"
  by (simp add: pod_kill_one_def Let_def split: option.split)

lemma life_pod_remove_one [simp]: "life_ok st \<Longrightarrow> life_ok (pod_remove_one v force cid st)"
  by (simp add: pod_remove_one_def Let_def split: option.split)

lemma life_with_pod: "life_ok st \<Longrightarrow> (\<And>pod. life_ok (fst (body pod))) \<Longrightarrow> life_ok (fst (with_pod name st body))"
  by (simp add: with_pod_def split: prod.split bool.split option.split)

lemma life_pods:
  assumes "life_ok st"
  shows "life_ok (fst (PodCreate v req st))" "life_ok (fst (PodStart v name st))" "life_ok (fst (PodStop v name st))"
    "life_ok (fst (PodKill v name sig st))" "life_ok (fst (PodRemove v name force st))"
  using assms
  by (auto simp: PodCreate_def PodStart_def PodStop_def PodKill_def PodRemove_def removePodContainers_def Let_def
      case_prod_beta intro!: life_with_pod life_loop)

lemma life_execs:
  assumes "life_ok st"
  shows "life_ok (fst (ExecCreate v ref req st))" "life_ok (fst (ExecStart e tty st))" "life_ok (exec_finish e code st)"
  using assms
  by (simp_all add: ExecCreate_def ExecStart_def exec_finish_def Let_def case_prod_beta split: option.split list.split)

lemma life_volumes:
  assumes "life_ok st"
  shows "life_ok (fst (VolumeCreate v vreq st))" "life_ok (fst (VolumeRemove v name force st))"
    "life_ok (fst (VolumePrune v f st))"
proof -
  have drop: "life_ok st' \<Longrightarrow> life_ok (drop_volume_dir n st')" for n st' by (simp add: drop_volume_dir_def split: option.split)
  have "life_ok st1 \<Longrightarrow> life_ok (fst (foldl (prune_volume v) (st1, s) vs))" for st1 s vs
    by (rule foldl_invariant [where P = "\<lambda>a. life_ok (fst a)"])
      (simp_all add: prune_volume_def Let_def case_prod_beta drop)
  with assms show "life_ok (fst (VolumePrune v f st))" by (simp add: VolumePrune_def Let_def case_prod_beta)
  show "life_ok (fst (VolumeCreate v vreq st))" "life_ok (fst (VolumeRemove v name force st))"
    using assms by (simp_all add: VolumeCreate_def VolumeRemove_def Let_def case_prod_beta drop split: option.split)
qed


lemma life_networks:
  assumes "life_ok st"
  shows "life_ok (fst (NetworkCreate v nreq st))" "life_ok (fst (NetworkRemove v ref st))"
    "life_ok (fst (NetworkPrune v f st))" "life_ok (fst (NetworkDisconnect v ref c force st))"
    "life_ok (fst (NetworkConnect v ref c cf st))"
proof -
  have drv: "life_ok (fst (Driver_Create v n nreq st))" "life_ok (fst (Driver_Remove r st))" "life_ok (fst (Driver_Prune f st))" for n r
    using assms by (simp_all add: Driver_Create_def Driver_Remove_def Driver_Prune_def Let_def case_prod_beta split: option.split)
  show "life_ok (fst (NetworkCreate v nreq st))"
    using assms drv(1) [of "nr_Name nreq"] by (auto simp: NetworkCreate_def split: prod.split sum.split)
  have rem: "life_ok st1" if "Driver_Remove n st = (st1, r)" for n st1 r
    using drv(2) [of n] that by simp
  show "life_ok (fst (NetworkRemove v ref st))"
    using assms rem by (auto simp: NetworkRemove_def split: option.split prod.split sum.split)
  have emit: "life_ok st' \<Longrightarrow> life_ok (foldl (\<lambda>st nid. emitEvent v a b nid (g nid) st) st' ids)" for st' a b g ids
    by (rule life_loop) simp_all
  then show "life_ok (fst (NetworkPrune v f st))"
    using drv(3) by (simp add: NetworkPrune_def Let_def case_prod_beta)
  show "life_ok (fst (NetworkDisconnect v ref c force st))"
    using assms by (simp add: NetworkDisconnect_def Let_def split: option.split)
  have con: "life_ok st1" if "Driver_Connect v n cid cf st = (st1, r)" for n cid st1 r
    using life_Connect [OF assms, of v n cid cf] that by simp
  show "life_ok (fst (NetworkConnect v ref c cf st))"
    using assms con by (auto simp: NetworkConnect_def Let_def add_to_pod_def split: option.split prod.split sum.split bool.split)
qed


section \<open>Create\<close>

lemma life_endpoint [simp]: "life_ok st \<Longrightarrow> life_ok (fst (buildEndpointForNetwork v r cid nm cf st))"
  by (simp add: buildEndpointForNetwork_def Let_def case_prod_beta split: option.split)

lemma life_explicit [simp]: "life_ok st \<Longrightarrow> life_ok (fst (explicit_endpoints v cid nm eps st nets))"
proof (induction eps arbitrary: st nets)
  case (Cons e eps)
  obtain r cf where e: "e = (r, cf)" by (cases e)
  obtain st1 res where b: "buildEndpointForNetwork v r cid nm cf st = (st1, res)" by (rule prod.exhaust)
  have "life_ok st1" using life_endpoint [OF Cons.prems, of v r cid nm cf] by (simp add: b)
  with Cons.IH [of st1] b e show ?case by (cases res) auto
qed simp

lemma life_build [simp]: "life_ok st \<Longrightarrow> life_ok (fst (buildContainerFromConfig v d cid nm cfg hc eps st))"
  unfolding buildContainerFromConfig_def Let_def case_prod_beta fst_conv by simp

lemma build_state: "c_State (snd (buildContainerFromConfig v d cid nm cfg hc eps st)) =
    \<lparr>cs_Dead = False, cs_Error = [], cs_ExitCode = 0, cs_FinishedAt = zero_time, cs_Health = None,
     cs_OOMKilled = False, cs_Paused = False, cs_Pid = 0, cs_Restarting = False,
     cs_Running = False, cs_StartedAt = zero_time, cs_Status = ''created''\<rparr>"
  by (simp add: buildContainerFromConfig_def Let_def case_prod_beta)

lemma life_put:
  assumes ok: "life_ok st" and fresh: "get_container cid st = None" and c: "state_ok (c_State c)" "\<not> cs_Running (c_State c)"
  shows "life_ok (st\<lparr>st_Containers := StateStore_Put cid c (st_Containers st), st_ContainerNames := x\<rparr>)"
proof -
  note ok' = ok [unfolded life_ok_def]
  have "life_inv (StateStore_Put cid c (st_Containers st)) (st_WaitChs st) (st_pidCounter st)"
    by (rule life_cong [OF ok'])
      (use fresh c life_invD(1) [OF ok'] in \<open>auto simp: running_in_def pid_in_def state_ok_def split: if_splits\<close>)
  then show ?thesis by (simp add: life_ok_def)
qed

lemma life_create_stored:
  assumes w: "inj (w_ids w)" and names: "names_ok w st" and ok: "life_ok st"
  shows "life_ok (fst (create_stored w d req st))"
proof -
  let ?st0 = "fst (create_name w req st)"
  let ?st1 = "fst (GenerateID w ?st0)"
  let ?cid = "snd (GenerateID w ?st0)"
  let ?r = "buildContainerFromConfig w d ?cid (snd (create_name w req st)) (create_config req ?st1)
      (create_host_config req) (cr_Endpoints req) ?st1"
  have "life_ok ?st0" using ok by (simp add: create_name_def Let_def case_prod_beta)
  then have r: "life_ok (fst ?r)" by simp
  have "get_container ?cid ?st0 = None"
    using names_okD(4) [OF same_conts_names [OF names same_conts_create_name [of st w req]], of ?cid] w
    by (cases "get_container ?cid ?st0") (auto simp: inj_eq GenerateID_def)
  then have "get_container ?cid (fst ?r) = None"
    using same_conts_build [of ?st1] by (simp add: same_conts_def)
  from life_put [OF r this, of "snd ?r"] show ?thesis
    by (simp only: create_stored_def Let_def case_prod_beta fst_conv snd_conv build_state) (simp add: state_ok_def)
qed

lemma life_create_pod [simp]: "life_ok st \<Longrightarrow> life_ok (fst (create_pod v nm st))"
  by (simp add: create_pod_def Let_def case_prod_beta)

lemma life_add_to_pod [simp]:
  "life_ok (add_to_pod pid cid st) = life_ok st" "life_ok (add_to_found_pod p cid st) = life_ok st"
  by (simp_all add: add_to_pod_def add_to_found_pod_def split: option.split)

lemma life_group_container [simp]: "life_ok st \<Longrightarrow> life_ok (group_by_container v mode cid st)"
  unfolding group_by_container_def Let_def case_prod_beta by (simp split: bool.split)

lemma life_group_network [simp]: "life_ok st \<Longrightarrow> life_ok (group_by_network v cid names st)"
proof (induction names)
  case (Cons n names)
  have loop: "life_ok b \<Longrightarrow>
      life_ok (foldl (\<lambda>st e. if e = cid \<or> in_pod e st then st else add_to_pod pid e st) b es)" for b pid es
    by (rule life_loop) auto
  from Cons show ?case
    by (simp add: Let_def case_prod_beta loop del: append_Cons split: bool.split option.split)
qed simp

lemma life_ContainerCreate:
  assumes "inj (w_ids w)" "names_ok w st" "life_ok st"
  shows "life_ok (fst (ContainerCreate w d req st))"
proof -
  have "life_ok (fst (create_name w req st))" using assms(3) by (simp add: create_name_def Let_def case_prod_beta)
  then show ?thesis
    using life_create_stored [OF assms, of d req]
    by (simp add: ContainerCreate_def Let_def case_prod_beta create_staging_def create_grouped_def split: option.split)
qed

lemma life_images:
    "life_ok (fst (ImagePullWithMetadata w fetch ref meta st)) = life_ok st"
    "life_ok (fst (ImageTag w source repo tag st)) = life_ok st"
    "life_ok (fst (ImageRemove w name force st)) = life_ok st"
    "life_ok (fst (ImagePrune w filters st)) = life_ok st"
  subgoal by (rule image_writes) (simp_all add: emitEvent_def now_text_def RemoveAll_def Let_def)
  subgoal by (rule image_writes) (simp_all add: emitEvent_def now_text_def RemoveAll_def Let_def)
  subgoal by (rule image_writes) (simp_all add: emitEvent_def now_text_def RemoveAll_def Let_def)
  subgoal by (rule image_writes) (simp_all add: emitEvent_def now_text_def RemoveAll_def Let_def)
  done

section \<open>Every history\<close>

lemmas life_steps = life_networks life_ContainerCreate life_ContainerStart life_ContainerStop life_ContainerKill
  life_ContainerRestart life_ContainerPause life_ContainerUnpause life_ContainerRename life_ContainerRemove
  life_ContainerPrune life_pods life_execs life_volumes life_recordHealth life_StopContainer life_RevertToCreated
  life_images

lemma life_srv_step: "inj (w_ids w) \<Longrightarrow> names_ok w st \<Longrightarrow> life_ok st \<Longrightarrow> life_ok (srv_step w d op st)"
  by (cases op) (simp_all add: life_steps)

lemma life_fresh: "life_ok (fresh_server w)"
  by (simp add: fresh_server_def InitDefaultNetwork_def case_prod_beta Let_def NewStore_def NewStateStore_def)
    (simp add: life_ok_def life_inv_def running_in_def pid_in_def StateStore_Get_def)

lemma life_srv_run:
  assumes "inj (w_ids w)"
  shows "life_ok (srv_run w d ops (fresh_server w))"
proof -
  have "names_ok w (srv_run w d ops (fresh_server w)) \<and> life_ok (srv_run w d ops (fresh_server w))"
    unfolding srv_run_def
    by (rule foldl_invariant [where P = "\<lambda>st. names_ok w st \<and> life_ok st"])
      (simp_all add: names_fresh life_fresh names_srv_step life_srv_step assms)
  then show ?thesis ..
qed

section \<open>Properties\<close>

text \<open>
  C11: The state record of a stored container is consistent after every history: its
  status is one of four, a running container has the status \<open>running\<close> or \<open>paused\<close> and a positive process identifier,
  a container that does not run has process identifier 0, and two running containers never share one.
\<close>

theorem container_states_consistent:
  assumes "inj (w_ids w)" and "st = srv_run w d ops (fresh_server w)"
    and "get_container cid st = Some c"
  shows "cs_Status (c_State c) \<in> {''created'', ''running'', ''paused'', ''exited''} \<and>
         (cs_Running (c_State c) \<longrightarrow> cs_Status (c_State c) \<in> {''running'', ''paused''}) \<and>
         cs_Pid (c_State c) = (if cs_Running (c_State c) then cs_Pid (c_State c) else 0) \<and>
         (cs_Running (c_State c) \<longrightarrow> 0 < cs_Pid (c_State c) \<and>
            (\<forall>cid' c'. get_container cid' st = Some c' \<longrightarrow> cs_Pid (c_State c') = cs_Pid (c_State c) \<longrightarrow> cid' = cid))"
proof -
  have ok: "life_inv (st_Containers st) (st_WaitChs st) (st_pidCounter st)"
    using life_srv_run [OF assms(1)] unfolding assms(2) life_ok_def .
  have "cid' = cid" if "get_container cid' st = Some c'" "cs_Pid (c_State c') = cs_Pid (c_State c)" "0 < cs_Pid (c_State c)" for cid' c'
    using life_invD(4) [OF ok, of cid' cid] that assms(3) by (simp add: pid_in_def)
  then show ?thesis using life_invD(1) [OF ok assms(3)] unfolding state_ok_def by auto
qed

text \<open>
  C15: A waiter blocks only on a container that runs, on a channel that is still open: no
  history leaves a client waiting on a container that has stopped or is gone.
\<close>

theorem wait_blocks_only_on_running:
  assumes "inj (w_ids w)" and "st = srv_run w d ops (fresh_server w)"
    and "ContainerWait ref condition st = Inr (Blocked ch cid)"
  shows "(\<exists>c. get_container cid st = Some c \<and> cs_Running (c_State c)) \<and> ch \<notin> set (st_closed st)"
proof -
  have ok: "life_inv (st_Containers st) (st_WaitChs st) (st_pidCounter st)"
    using life_srv_run [OF assms(1)] unfolding assms(2) life_ok_def .
  have "mget (st_WaitChs st) cid = Some ch"
    using assms(3) by (auto simp: ContainerWait_def Let_def split: option.splits if_splits)
  then show ?thesis
    using life_invD(2) [OF ok, of cid] core_srv_run [OF assms(1) core_fresh, of d ops] assms(2)
    by (auto simp: running_in_def core_ok_def chan_ok_def split: option.splits)
qed

lemma exit_code_marked:
  "get_container cid st = Some c \<Longrightarrow>
   \<exists>c'. get_container cid (mark_exited w cid code st) = Some c' \<and> cs_ExitCode (c_State c') = code \<and>
        cs_Status (c_State c') = ''exited'' \<and> \<not> cs_Running (c_State c')"
  by (simp add: mark_exited_def Let_def case_prod_beta exited_state_def)

lemma exit_code_stored: "get_container cid st = Some c \<Longrightarrow> exit_code_of cid st = cs_ExitCode (c_State c)"
  by (simp add: exit_code_of_def ResolveContainer_def)

lemma closed_by_close_wait: "mget (st_WaitChs st) cid = Some ch \<Longrightarrow> ch \<in> set (st_closed (close_wait cid st))"
  by (simp add: close_wait_def close_chan_def)

text \<open>What a stop and a kill have in common: the waiters' channel is closed and the exit code stored.\<close>

lemma released:
  assumes "get_container cid st = Some c" "mget (st_WaitChs st) cid = Some ch"
    and "st_Containers st1 = st_Containers (mark_exited w cid code st)" "st_WaitChs st1 = st_WaitChs st"
    and "st_Containers st2 = st_Containers st1" "st_closed st2 = st_closed (close_wait cid st1)"
  shows "ch \<in> set (st_closed st2) \<and> wait_resume cid st2 = code"
proof -
  obtain c' where c': "get_container cid st2 = Some c'" "cs_ExitCode (c_State c') = code"
    using exit_code_marked [OF assms(1), of w code] assms(3,5) by auto
  with exit_code_stored [OF c'(1)] closed_by_close_wait [of st1 cid ch] assms(2,4,6) show ?thesis
    by (simp add: wait_resume_def)
qed

lemma blocked_channel:
  "ContainerWait r condition st = Inr (Blocked ch cid) \<Longrightarrow> mget (st_WaitChs st) cid = Some ch"
  by (auto simp: ContainerWait_def Let_def split: option.splits if_splits)

text \<open>
  C17: A kill releases the waiters of its container, and they answer with the exit code of
  the signal: after any history, a client that blocks on a running container is woken by \<open>ContainerKill\<close>
  (its channel is closed) and reads the code that \<open>SignalToExitCode\<close> gives to the signal.
\<close>

theorem kill_releases_waiter:
  assumes "inj (w_ids w)" and "st = srv_run w d ops (fresh_server w)"
    and "ContainerWait r condition st = Inr (Blocked ch cid)"
    and "ResolveContainer ref st = Some c" "c_ID c = cid"
  shows "snd (ContainerKill w ref sig st) = Inr () \<and>
         ch \<in> set (st_closed (fst (ContainerKill w ref sig st))) \<and>
         wait_resume cid (fst (ContainerKill w ref sig st)) = SignalToExitCode sig"
proof -
  let ?st1 = "mark_exited w cid (SignalToExitCode sig) (StopHealthCheck cid st)"
  have names: "names_ok w st" unfolding assms(2) by (rule names_srv_run [OF assms(1) names_fresh])
  have ok: "life_inv (st_Containers st) (st_WaitChs st) (st_pidCounter st)"
    using life_srv_run [OF assms(1)] unfolding assms(2) life_ok_def .
  have c: "get_container cid st = Some c" using resolve_stored [OF names assms(4)] assms(5) by simp
  have ch: "mget (st_WaitChs st) cid = Some ch" by (rule blocked_channel [OF assms(3)])
  have run: "cs_Running (c_State c)" using life_invD(2) [OF ok, of cid] c ch by (simp add: running_in_def)
  obtain e1 e2 where k: "ContainerKill w ref sig st =
      (close_wait cid (emitEvent w ''container'' ''die'' cid e1 (emitEvent w ''container'' ''kill'' cid e2 ?st1)), Inr ())"
    using assms(4,5) run by (simp add: ContainerKill_def Let_def)
  show ?thesis
    using released [of cid "StopHealthCheck cid st" c ch
        "emitEvent w ''container'' ''die'' cid e1 (emitEvent w ''container'' ''kill'' cid e2 ?st1)" w "SignalToExitCode sig"
        "fst (ContainerKill w ref sig st)"] c ch
    by (simp add: k)
qed

section \<open>An instance\<close>

definition demo_up :: Store where
  "demo_up = srv_run demo_world ''test'' [OpCreate (demo_create ''web''), OpStart ''web''] (fresh_server demo_world)"

lemma demo_up_waits: "ContainerWait ''web'' [] demo_up = Inr (Blocked 0 (replicate 12 CHR ''x''))"
  by code_simp

lemma demo_up_running:
  obtains c where "ResolveContainer ''web'' demo_up = Some c" "c_ID c = replicate 12 CHR ''x''"
    "get_container (replicate 12 CHR ''x'') demo_up = Some c" "cs_Running (c_State c)"
proof -
  have "map_option c_ID (ResolveContainer ''web'' demo_up) = Some (replicate 12 CHR ''x'')" by code_simp
  then obtain c where c: "ResolveContainer ''web'' demo_up = Some c" "c_ID c = replicate 12 CHR ''x''" by auto
  have names: "names_ok demo_world demo_up"
    unfolding demo_up_def by (rule names_srv_run [OF demo_world_inj names_fresh])
  have g: "get_container (replicate 12 CHR ''x'') demo_up = Some c"
    using resolve_stored [OF names c(1)] c(2) by simp
  have "running_in (st_Containers demo_up) (replicate 12 CHR ''x'')"
    using life_invD(2) [OF life_srv_run [OF demo_world_inj, unfolded life_ok_def], of "''test''"
        "[OpCreate (demo_create ''web''), OpStart ''web'']" "replicate 12 CHR ''x''"]
      blocked_channel [OF demo_up_waits] by (simp add: demo_up_def)
  with c g that show thesis by (simp add: running_in_def)
qed

theorem container_states_consistent_witness:
  "\<exists>c. ResolveContainer ''web'' demo_up = Some c \<and> 0 < cs_Pid (c_State c)"
proof -
  obtain c where c: "ResolveContainer ''web'' demo_up = Some c"
    "get_container (replicate 12 CHR ''x'') demo_up = Some c" "cs_Running (c_State c)"
    by (rule demo_up_running)
  with container_states_consistent [OF demo_world_inj demo_up_def c(2)] show ?thesis by simp
qed

theorem wait_blocks_only_on_running_witness: "0 \<notin> set (st_closed demo_up)"
  using wait_blocks_only_on_running [OF demo_world_inj demo_up_def demo_up_waits] by simp

theorem kill_releases_waiter_witness:
  "0 \<in> set (st_closed (fst (ContainerKill demo_world ''web'' ''INT'' demo_up))) \<and>
   wait_resume (replicate 12 CHR ''x'') (fst (ContainerKill demo_world ''web'' ''INT'' demo_up)) = 130"
proof -
  obtain c where c: "ResolveContainer ''web'' demo_up = Some c" "c_ID c = replicate 12 CHR ''x''"
    by (rule demo_up_running)
  have "SignalToExitCode ''INT'' = 130" by (simp add: SignalToExitCode_def signalMap_def)
  with kill_releases_waiter [OF demo_world_inj demo_up_def demo_up_waits c, of "''INT''"] show ?thesis by simp
qed

end
