(* ===== verification/Failures.thy ===== *)
theory Failures
  imports Lifecycle
begin

text \<open>
  Failed requests: which error each handler answers with, and that it leaves the store as it was.
\<close>

section \<open>The error of an operation\<close>

definition left_of :: "'a + 'b \<Rightarrow> 'a option" where
  "left_of r = (case r of Inl e \<Rightarrow> Some e | Inr x \<Rightarrow> None)"

lemma left_of_simps [simp]: "left_of (Inl e) = Some e" "left_of (Inr x) = None"
  by (simp_all add: left_of_def)

text \<open>\<open>None\<close> for an operation that succeeds, and for those whose handler has no error.\<close>

fun srv_error :: "World \<Rightarrow> string \<Rightarrow> srv_op \<Rightarrow> Store \<Rightarrow> api_error option" where
  "srv_error w d (OpNetworkCreate req) st = left_of (snd (NetworkCreate w req st))"
| "srv_error w d (OpNetworkRemove r) st = left_of (snd (NetworkRemove w r st))"
| "srv_error w d (OpNetworkConnect r c cf) st = left_of (snd (NetworkConnect w r c cf st))"
| "srv_error w d (OpNetworkDisconnect r c force) st = left_of (snd (NetworkDisconnect w r c force st))"
| "srv_error w d (OpCreate req) st = left_of (snd (ContainerCreate w d req st))"
| "srv_error w d (OpStart r) st = left_of (snd (ContainerStart w r st))"
| "srv_error w d (OpStop r) st = left_of (snd (ContainerStop w r st))"
| "srv_error w d (OpKill r sig) st = left_of (snd (ContainerKill w r sig st))"
| "srv_error w d (OpRestart r) st = left_of (snd (ContainerRestart w r st))"
| "srv_error w d (OpPause r) st = left_of (snd (ContainerPause w r st))"
| "srv_error w d (OpUnpause r) st = left_of (snd (ContainerUnpause w r st))"
| "srv_error w d (OpRename r nm) st = left_of (snd (ContainerRename w r nm st))"
| "srv_error w d (OpRemove r force) st = left_of (snd (ContainerRemove w r force st))"
| "srv_error w d (OpPodCreate req) st = left_of (snd (PodCreate w req st))"
| "srv_error w d (OpPodStart nm) st = left_of (snd (PodStart w nm st))"
| "srv_error w d (OpPodStop nm) st = left_of (snd (PodStop w nm st))"
| "srv_error w d (OpPodKill nm sig) st = left_of (snd (PodKill w nm sig st))"
| "srv_error w d (OpPodRemove nm force) st = left_of (snd (PodRemove w nm force st))"
| "srv_error w d (OpExecCreate r req) st = left_of (snd (ExecCreate w r req st))"
| "srv_error w d (OpExecStart e tty) st = left_of (snd (ExecStart e tty st))"
| "srv_error w d (OpVolumeRemove nm force) st = left_of (snd (VolumeRemove w nm force st))"
| "srv_error w d (OpImagePull fetch r meta) st = left_of (snd (ImagePullWithMetadata w fetch r meta st))"
| "srv_error w d (OpImageTag source repo tag) st = left_of (snd (ImageTag w source repo tag st))"
| "srv_error w d (OpImageRemove nm force) st = left_of (snd (ImageRemove w nm force st))"
| "srv_error w d op st = None"

section \<open>Failures leave the store alone\<close>

text \<open>The operation fails and keeps the store, or it succeeds.\<close>

abbreviation failsafe :: "Store \<Rightarrow> Store \<times> (api_error + 'a) \<Rightarrow> bool" where
  "failsafe st r \<equiv> left_of (snd r) = None \<or> fst r = st"

lemma fail_stop: "failsafe st (ContainerStop w r st)"
  by (simp add: ContainerStop_def split: option.split)

lemma fail_kill: "failsafe st (ContainerKill w r sig st)"
  by (simp add: ContainerKill_def Let_def split: option.split)

lemma fail_restart: "failsafe st (ContainerRestart w r st)"
  by (simp add: ContainerRestart_def Let_def split: option.split)

lemma fail_pause: "failsafe st (ContainerPause w r st)" "failsafe st (ContainerUnpause w r st)"
  by (simp_all add: ContainerPause_def ContainerUnpause_def Let_def split: option.split)

lemma fail_rename: "failsafe st (ContainerRename w r nm st)"
  by (simp add: ContainerRename_def Let_def split: option.split)

lemma fail_remove: "failsafe st (ContainerRemove w r force st)"
  by (simp add: ContainerRemove_def Let_def split: option.split)

lemma fail_start:
  assumes "core_ok w st"
  shows "failsafe st (ContainerStart v r st)"
proof (cases "ResolveContainer r st")
  case (Some c)
  obtain p found where p: "GetPodForContainer (c_ID c) (st_Pods st) = (p, found)" by (rule prod.exhaust)
  consider "found" "p \<noteq> None" | "\<not> found" using core_found(1) [OF assms(1)] p by (cases found) auto
  then show ?thesis
  proof cases
    case 1
    with Some p show ?thesis by (auto simp: ContainerStart_def Let_def)
  next
    case 2
    with Some p show ?thesis by (simp add: ContainerStart_def Let_def)
  qed
qed (simp add: ContainerStart_def)

lemma fail_create: "cr_Name req \<noteq> [] \<Longrightarrow> failsafe st (ContainerCreate w d req st)"
  by (simp add: ContainerCreate_def Let_def case_prod_beta) (simp add: create_name_def)

lemma fail_execs:
  "failsafe st (ExecCreate w r req st)" "failsafe st (ExecStart e tty st)" "failsafe st (VolumeRemove w nm force st)"
  by (simp_all add: ExecCreate_def ExecStart_def VolumeRemove_def Let_def case_prod_beta split: option.split list.split)

lemma fail_Connect: "Driver_Connect w nid cid cf st = (st1, Inl e) \<Longrightarrow> st1 = st"
  by (auto simp: Driver_Connect_def Let_def case_prod_beta split: option.splits)

lemma fail_NetworkConnect: "failsafe st (NetworkConnect w r c cf st)"
proof (cases "ResolveNetwork r st")
  case (Some net)
  show ?thesis
  proof (cases "ResolveContainerIDAuto NewStateStore None c st")
    case cid: (Some cid)
    obtain st1 res where res: "Driver_Connect w (nw_ID net) cid cf st = (st1, res)" by (rule prod.exhaust)
    obtain p found where p: "GetPodForNetwork (nw_Name net) (st_Pods st1) = (p, found)" by (rule prod.exhaust)
    show ?thesis
    proof (cases res)
      case (Inl e)
      with Some cid res fail_Connect [of w "nw_ID net" cid cf st st1 e] show ?thesis by (simp add: NetworkConnect_def)
    next
      case (Inr u)
      with Some cid res p show ?thesis by (cases found; cases p) (simp_all add: NetworkConnect_def Let_def)
    qed
  qed (use Some in \<open>simp add: NetworkConnect_def\<close>)
qed (simp add: NetworkConnect_def)

lemma fail_networks:
  "failsafe st (NetworkCreate w nreq st)" "failsafe st (NetworkRemove w r st)"
  "failsafe st (NetworkDisconnect w r c force st)"
  subgoal by (simp add: NetworkCreate_def Driver_Create_def Let_def case_prod_beta)
  subgoal by (simp add: NetworkRemove_def Driver_Remove_def Let_def split: option.split)
  subgoal by (simp add: NetworkDisconnect_def Let_def split: option.split)
  done

lemma fail_with_pod:
  assumes "core_ok w st" "\<And>pod. failsafe st (body pod)"
  shows "failsafe st (with_pod name st body)"
proof -
  obtain p found where p: "GetPod name (st_Pods st) = (p, found)" by (rule prod.exhaust)
  consider pod where "found" "p = Some pod" | "\<not> found" using core_found(3) [OF assms(1)] p by (cases found) auto
  then show ?thesis
  proof cases
    case 1
    with p assms(2) [of pod] show ?thesis by (simp add: with_pod_def)
  next
    case 2
    with p show ?thesis by (cases p) (simp_all add: with_pod_def)
  qed
qed

lemma fail_pods:
  assumes "core_ok w st"
  shows "failsafe st (PodCreate v req st)" "failsafe st (PodStart v nm st)" "failsafe st (PodStop v nm st)"
    "failsafe st (PodKill v nm sig st)" "failsafe st (PodRemove v nm force st)"
  subgoal by (simp add: PodCreate_def Let_def case_prod_beta)
  subgoal unfolding PodStart_def by (rule fail_with_pod [OF assms]) (simp add: Let_def case_prod_beta)
  subgoal unfolding PodStop_def by (rule fail_with_pod [OF assms]) (simp add: Let_def case_prod_beta)
  subgoal unfolding PodKill_def by (rule fail_with_pod [OF assms]) (simp add: Let_def case_prod_beta)
  subgoal unfolding PodRemove_def by (rule fail_with_pod [OF assms]) (simp add: Let_def)
  done

lemma fail_images: "failsafe st (ImageTag w source repo tag st)" "failsafe st (ImageRemove w name force st)"
  by (simp_all add: ImageTag_def ImageRemove_def Let_def case_prod_beta split: option.split)

lemmas failsafe_all = fail_images fail_stop fail_kill fail_restart fail_pause fail_rename fail_remove fail_execs fail_networks
  fail_NetworkConnect


section \<open>Which error\<close>

text \<open>The operations that name a container, with the reference they are given.\<close>

fun container_ref :: "srv_op \<Rightarrow> string option" where
  "container_ref (OpStart r) = Some r"
| "container_ref (OpStop r) = Some r"
| "container_ref (OpKill r sig) = Some r"
| "container_ref (OpRestart r) = Some r"
| "container_ref (OpPause r) = Some r"
| "container_ref (OpUnpause r) = Some r"
| "container_ref (OpRename r nm) = Some r"
| "container_ref (OpRemove r force) = Some r"
| "container_ref (OpExecCreate r req) = Some r"
| "container_ref op = None"




end
