(* ===== verification/Behaviour.thy ===== *)
theory Behaviour
  imports Failures
begin

text \<open>
  What single operations of the base server compute: the merged environment, the restart back-off and
  the restart policy, the health state, port specifications and container references.
\<close>

section \<open>Environments\<close>

text \<open>The entry that a reader of the environment ends up with: the last one of its key.\<close>

definition last_entry :: "string list \<Rightarrow> string \<Rightarrow> string option" where
  "last_entry es k = find (\<lambda>e. env_key e = k) (rev es)"

lemma last_entry_snoc: "last_entry (es @ [e]) k = (if env_key e = k then Some e else last_entry es k)"
  by (simp add: last_entry_def)

lemma last_entry_Nil [simp]: "last_entry [] k = None"
  by (simp add: last_entry_def)

lemma last_entry_key: "last_entry es k = Some e \<Longrightarrow> env_key e = k"
  by (auto simp: last_entry_def find_Some_iff)

lemma last_entry_None: "last_entry es k = None \<longleftrightarrow> k \<notin> env_key ` set es"
  by (auto simp: last_entry_def find_None_iff)

lemma merge_base:
  "foldl (\<lambda>(keys, order) e. (mput (env_key e) e keys, order @ [env_key e])) ([], []) es = (keys, order) \<Longrightarrow>
   mget keys = last_entry es \<and> order = map env_key es"
proof (induction es arbitrary: keys order rule: rev_induct)
  case (snoc e es)
  obtain k0 o0 where b: "foldl (\<lambda>(keys, order) e. (mput (env_key e) e keys, order @ [env_key e])) ([], []) es = (k0, o0)"
    by (rule prod.exhaust)
  with snoc.prems snoc.IH [OF b] show ?case by (auto simp: last_entry_snoc fun_eq_iff)
qed auto

lemma merge_override:
  assumes "mget keys = last_entry es" "set order = env_key ` set es"
    and "foldl (\<lambda>(keys, order) e. (mput (env_key e) e keys, if mget keys (env_key e) = None then order @ [env_key e] else order))
          (keys, order) xs = (keys', order')"
  shows "mget keys' = last_entry (es @ xs) \<and> set order' = env_key ` set (es @ xs)"
  using assms(3)
proof (induction xs arbitrary: keys' order' rule: rev_induct)
  case (snoc e xs)
  obtain k0 o0 where b: "foldl (\<lambda>(keys, order) e. (mput (env_key e) e keys, if mget keys (env_key e) = None then order @ [env_key e] else order))
      (keys, order) xs = (k0, o0)" by (rule prod.exhaust)
  note IH = snoc.IH [OF b]
  have "mget k0 (env_key e) = None \<longleftrightarrow> env_key e \<notin> set o0" using IH last_entry_None by simp
  with snoc.prems b IH last_entry_snoc [of "es @ xs"] show ?case by (auto simp: fun_eq_iff)
qed (use assms in auto)

text \<open>
  Environments are merged by key and nothing else: when an image and a request both
  bring entries, an entry is in the result exactly when it is the last one of its key in the image's entries
  followed by the request's. So a request's value wins, and no key is lost or invented.
\<close>

theorem merge_env_by_key:
  assumes "base \<noteq> []" "override \<noteq> []"
  shows "e \<in> set (MergeEnvByKey base override) \<longleftrightarrow> last_entry (base @ override) (env_key e) = Some e"
proof -
  obtain keys order where b: "foldl (\<lambda>(keys, order) e. (mput (env_key e) e keys, order @ [env_key e])) ([], []) base = (keys, order)"
    by (rule prod.exhaust)
  obtain keys' order' where o: "foldl (\<lambda>(keys, order) e. (mput (env_key e) e keys, if mget keys (env_key e) = None then order @ [env_key e] else order))
          (keys, order) override = (keys', order')" by (rule prod.exhaust)
  have r: "mget keys' = last_entry (base @ override)" "set order' = env_key ` set (base @ override)"
    using merge_override [OF _ _ o, of base] merge_base [OF b] by auto
  have "MergeEnvByKey base override = map (mget_str keys') order'"
    using assms b o by (simp add: MergeEnvByKey_def)
  then have "e \<in> set (MergeEnvByKey base override) \<longleftrightarrow> (\<exists>k \<in> env_key ` set (base @ override). mget_str keys' k = e)"
    using r(2) by auto
  also have "\<dots> \<longleftrightarrow> (\<exists>k. last_entry (base @ override) k = Some e)"
  proof
    assume "\<exists>k \<in> env_key ` set (base @ override). mget_str keys' k = e"
    then obtain k where "k \<in> env_key ` set (base @ override)" "mget_str keys' k = e" by blast
    then show "\<exists>k. last_entry (base @ override) k = Some e"
      using last_entry_None [of "base @ override" k] r(1) by (intro exI [of _ k]) (auto simp: mget_str_def split: option.splits)
  next
    assume "\<exists>k. last_entry (base @ override) k = Some e"
    then obtain k where k: "last_entry (base @ override) k = Some e" by blast
    then have "k \<in> env_key ` set (base @ override)" using last_entry_None [of "base @ override" k] by auto
    moreover have "mget_str keys' k = e" using k r(1) by (simp add: mget_str_def)
    ultimately show "\<exists>k \<in> env_key ` set (base @ override). mget_str keys' k = e" by blast
  qed
  also have "\<dots> \<longleftrightarrow> last_entry (base @ override) (env_key e) = Some e" using last_entry_key by metis
  finally show ?thesis .
qed

theorem merge_env_by_key_witness:
  "''PATH=/bin'' \<in> set (MergeEnvByKey [''PATH=/usr/bin'', ''HOME=/''] [''PATH=/bin'']) \<and>
   ''PATH=/usr/bin'' \<notin> set (MergeEnvByKey [''PATH=/usr/bin'', ''HOME=/''] [''PATH=/bin''])"
  using merge_env_by_key [of "[''PATH=/usr/bin'', ''HOME=/'']" "[''PATH=/bin'']" "''PATH=/bin''"]
    merge_env_by_key [of "[''PATH=/usr/bin'', ''HOME=/'']" "[''PATH=/bin'']" "''PATH=/usr/bin''"]
  by (simp add: last_entry_def env_key_def)

section \<open>Restart delay\<close>

lemma delay_loop_min:
  assumes "0 < d" "d \<le> 60 * 10 ^ 9"
  shows "delay_loop n d = min (d * 2 ^ n) (60 * 10 ^ 9)"
  using assms
proof (induction n arbitrary: d)
  case (Suc n)
  show ?case
  proof (cases "d * 2 > 60 * 10 ^ 9")
    case True
    define x where "x = d * 2 ^ n"
    have "d * 1 \<le> d * 2 ^ n" using Suc.prems by (intro mult_left_mono) simp_all
    then have "d \<le> x" unfolding x_def by linarith
    moreover have "d * 2 ^ Suc n = 2 * x" by (simp add: x_def)
    ultimately show ?thesis using True by (simp add: Let_def min_def)
  qed (use Suc in \<open>simp add: Let_def mult.assoc\<close>)
qed simp

text \<open>
  The back-off equals the formula its comment gives, \<open>min(100ms * 2^restartCount, 60s)\<close>,
  for every count (a negative one counts as zero); the early return of the loop is not observable.
\<close>

theorem restart_delay_formula:
  "RestartDelay n = min (100 * 10 ^ 6 * 2 ^ nat n) (60 * 10 ^ 9)"
  by (simp add: RestartDelay_def delay_loop_min)

section \<open>Health\<close>

definition probe_log :: "int \<Rightarrow> HealthLog" where
  "probe_log code = \<lparr>hl_End = [], hl_ExitCode = code, hl_Output = [], hl_Start = []\<rparr>"

text \<open>The health of a container after a list of probes, each given by its log entry.\<close>

definition health_run :: "int \<Rightarrow> HealthLog list \<Rightarrow> HealthState \<Rightarrow> HealthState" where
  "health_run retries es h = foldl (\<lambda>h e. health_after (hl_ExitCode e) retries e h) h es"

definition streak :: "HealthLog list \<Rightarrow> nat" where
  "streak es = length (takeWhile (\<lambda>e. hl_ExitCode e \<noteq> 0) (rev es))"

lemma streak_snoc: "streak (es @ [e]) = (if hl_ExitCode e = 0 then 0 else Suc (streak es))"
  by (simp add: streak_def)

lemma streak_all: "streak es = length es \<longleftrightarrow> (\<forall>e \<in> set es. hl_ExitCode e \<noteq> 0)"
  by (induction es rule: rev_induct) (auto simp: streak_snoc, (simp add: streak_def)?)

definition initial_health :: HealthState where
  "initial_health = \<lparr>hs_FailingStreak = 0, hs_Log = [], hs_Status = ''starting''\<rparr>"

text \<open>
  The health state is a function of the probes since the check was started: the
  failing streak is the number of failures since the last success, the container is unhealthy exactly when that
  reaches the retries, healthy when it does not but some probe succeeded, and starting otherwise; the log holds
  the last five probes in order.
\<close>

theorem health_after_probes:
  assumes "1 \<le> retries"
  shows "hs_FailingStreak (health_run retries es initial_health) = int (streak es) \<and>
         hs_Status (health_run retries es initial_health) =
           (if retries \<le> int (streak es) then ''unhealthy''
            else if \<exists>e \<in> set es. hl_ExitCode e = 0 then ''healthy'' else ''starting'') \<and>
         hs_Log (health_run retries es initial_health) = drop (length es - 5) es"
proof (induction es rule: rev_induct)
  case Nil
  then show ?case using assms by (simp add: health_run_def initial_health_def streak_def)
next
  case (snoc e es)
  let ?h = "health_run retries es initial_health"
  have h: "health_run retries (es @ [e]) initial_health = health_after (hl_ExitCode e) retries e ?h"
    by (simp add: health_run_def)
  have log: "hs_Log (health_after code retries e ?h) = drop (length (es @ [e]) - 5) (es @ [e])" for code
  proof -
    have "hs_Log (health_after code retries e ?h) =
        (if length (hs_Log ?h @ [e]) > 5 then drop (length (hs_Log ?h @ [e]) - 5) (hs_Log ?h @ [e]) else hs_Log ?h @ [e])"
      by (simp add: health_after_def Let_def)
    with snoc.IH show ?thesis by (cases "length es \<le> 5") (simp_all add: drop_Cons' split: nat_diff_split)
  qed
  show ?case
    using snoc.IH assms log by (auto simp: h streak_snoc health_after_def Let_def)
qed

theorem health_after_probes_witness:
  "hs_Status (health_run 2 [probe_log 1, probe_log 0, probe_log 1, probe_log 7] initial_health) = ''unhealthy'' \<and>
   hs_FailingStreak (health_run 2 [probe_log 1, probe_log 0, probe_log 1, probe_log 7] initial_health) = 2"
  using health_after_probes [of 2 "[probe_log 1, probe_log 0, probe_log 1, probe_log 7]"]
  by (simp add: streak_def probe_log_def)

section \<open>Ports\<close>

lemma Cut_at: "c \<notin> set a \<Longrightarrow> Cut (a @ c # b) c = Some (a, b)"
  by (induction a) auto

lemma Cut_none: "c \<notin> set a \<Longrightarrow> Cut a c = None"
  by (induction a) auto

lemma slash_not_digit: "list_all is_digit s \<Longrightarrow> CHR ''/'' \<notin> set s"
  by (auto simp: list_all_iff is_digit_def)

text \<open>
  A port specification reads back: a decimal port and a protocol joined by a slash parse
  to that port and protocol, a port above 65535 to 65535 and a missing protocol to \<open>tcp\<close>.
\<close>

theorem port_spec_roundtrip:
  "parsePortSpec (nat_digits n @ ''/'' @ proto) = (of_nat (min n 65535), if proto = [] then ''tcp'' else proto) \<and>
   parsePortSpec (nat_digits n) = (of_nat (min n 65535), ''tcp'')"
proof -
  have no: "CHR ''/'' \<notin> set (nat_digits n)" by (rule slash_not_digit) simp
  then have "Cut (nat_digits n) CHR ''/'' = None" by (rule Cut_none)
  with no show ?thesis by (simp add: parsePortSpec_def SplitN2_def Cut_at ParseUint16_def)
qed

section \<open>Restart policy\<close>

text \<open>The state of a container once \<open>handleRestartPolicy\<close> has run it again.\<close>

lemma get_StartHealth: "get_container cid (StartHealthCheck cid st) =
    map_option (\<lambda>c. if st_Containers (StartHealthCheck cid st) = st_Containers st then c else
      in_state (\<lambda>s. s\<lparr>cs_Health := Some \<lparr>hs_FailingStreak = 0, hs_Log = [], hs_Status = ''starting''\<rparr>\<rparr>) c) (get_container cid st)"
  by (auto simp: StartHealthCheck_def Let_def split: option.split)

definition restart_view :: "string \<Rightarrow> Store \<Rightarrow> (RestartPolicy \<times> int \<times> bool) option" where
  "restart_view cid st = map_option (\<lambda>c. (ho_RestartPolicy (c_HostConfig c), c_RestartCount c, cs_Running (c_State c)))
     (get_container cid st)"

lemma view_health: "restart_view cid (StartHealthCheck cid st) = restart_view cid st"
  by (auto simp: restart_view_def StartHealthCheck_def Let_def option.map_comp comp_def split: option.split)

lemma view_restart:
  assumes "restart_view cid st = Some (p, n, r)"
  shows "restart_view cid (fst (handleRestartPolicy v cid code st)) = Some (if ShouldRestart p code n then (p, n + 1, True) else (p, n, r))"
    and "snd (handleRestartPolicy v cid code st) = ShouldRestart p code n"
proof -
  obtain c where c: "get_container cid st = Some c" "ho_RestartPolicy (c_HostConfig c) = p" "c_RestartCount c = n"
    "cs_Running (c_State c) = r" using assms by (auto simp: restart_view_def)
  show "restart_view cid (fst (handleRestartPolicy v cid code st)) = Some (if ShouldRestart p code n then (p, n + 1, True) else (p, n, r))"
  proof (cases "ShouldRestart p code n")
    case True
    with c show ?thesis
      by (simp add: handleRestartPolicy_def Let_def case_prod_beta view_health)
        (simp add: restart_view_def running_state_def)
  qed (use c in \<open>simp add: handleRestartPolicy_def restart_view_def\<close>)
  show "snd (handleRestartPolicy v cid code st) = ShouldRestart p code n"
    using c by (simp add: handleRestartPolicy_def Let_def case_prod_beta)
qed

lemma view_stop: "restart_view cid (StopHealthCheck cid st) = restart_view cid st"
  by (simp add: restart_view_def)

lemma view_force:
  "restart_view cid st = Some (p, n, r) \<Longrightarrow> restart_view cid (forceStop v cid code st) = Some (p, n, False)"
  by (auto simp: restart_view_def forceStop_def mark_exited_def Let_def case_prod_beta exited_state_def option.map_comp)

lemma view_StopContainer:
  assumes "restart_view cid st = Some (p, n, r)"
  shows "restart_view cid (StopContainer (Some (handleRestartPolicy v)) v cid code st) =
    Some (if ShouldRestart p code n then (p, n + 1, True) else (p, n, False))"
proof -
  have s: "restart_view cid (StopHealthCheck cid st) = Some (p, n, r)" using assms by (simp add: view_stop)
  show ?thesis
    using view_restart [OF s, of v code] view_force [of cid "fst (handleRestartPolicy v cid code (StopHealthCheck cid st))" p n r v code]
    by (simp add: StopContainer_def Let_def case_prod_beta)
qed

text \<open>
  C29: The policy \<open>on-failure\<close> with a retry count gives up: a container that keeps failing is
  restarted exactly that many times, is running until then, and stays stopped from the next failure on.
\<close>

theorem on_failure_gives_up:
  assumes "restart_view cid st = Some (\<lparr>rp_MaximumRetryCount = int m, rp_Name = ''on-failure''\<rparr>, 0, True)"
    and "0 < m" "code \<noteq> 0"
  shows "restart_view cid ((StopContainer (Some (handleRestartPolicy v)) v cid code ^^ k) st) =
    Some (\<lparr>rp_MaximumRetryCount = int m, rp_Name = ''on-failure''\<rparr>, int (min k m), k \<le> m)"
proof (induction k)
  case (Suc k)
  have "ShouldRestart \<lparr>rp_MaximumRetryCount = int m, rp_Name = ''on-failure''\<rparr> code (int (min k m)) \<longleftrightarrow> k < m"
    using assms(2,3) by (auto simp: ShouldRestart_def)
  with view_StopContainer [OF Suc.IH, of v code] show ?case by auto
qed (use assms in simp)

definition flaky :: Container where
  "flaky = demo_container\<lparr>
     c_HostConfig := demo_host_config\<lparr>ho_RestartPolicy := \<lparr>rp_MaximumRetryCount = int 2, rp_Name = ''on-failure''\<rparr>\<rparr>,
     c_State := running_state 7 zero_time created_state, c_RestartCount := 0\<rparr>"

theorem on_failure_gives_up_witness:
  "restart_view ''flaky'' ((StopContainer (Some (handleRestartPolicy demo_world)) demo_world ''flaky'' 1 ^^ 3)
      (NewStore\<lparr>st_Containers := [(''flaky'', flaky)]\<rparr>)) =
    Some (\<lparr>rp_MaximumRetryCount = int 2, rp_Name = ''on-failure''\<rparr>, 2, False)"
proof -
  have "restart_view ''flaky'' (NewStore\<lparr>st_Containers := [(''flaky'', flaky)]\<rparr>) =
      Some (\<lparr>rp_MaximumRetryCount = int 2, rp_Name = ''on-failure''\<rparr>, 0, True)"
    by (simp add: restart_view_def flaky_def running_state_def StateStore_Get_def)
  from on_failure_gives_up [OF this, where code = 1 and v = demo_world and k = 3] show ?thesis by simp
qed

section \<open>References\<close>

text \<open>
  C28: A reference resolves to a stored container that it denotes: by identifier, by name with
  or without the slash, or as a prefix of at least three characters of the identifier. And every stored container
  is found by its full identifier, and by its name unless the name is another container's identifier.
\<close>

theorem resolve_container_sound:
  assumes "inj (w_ids w)" and "st = srv_run w d ops (fresh_server w)"
  shows "(\<forall>ref c. ResolveContainer ref st = Some c \<longrightarrow>
            get_container (c_ID c) st = Some c \<and>
            (c_ID c = ref \<or> c_Name c = ref \<or> c_Name c = slashed ref \<or> 3 \<le> length ref \<and> HasPrefix (c_ID c) ref)) \<and>
         (\<forall>c \<in> set (StateStore_List (st_Containers st)).
            ResolveContainer (c_ID c) st = Some c \<and>
            (get_container (c_Name c) st = None \<longrightarrow> ResolveContainer (c_Name c) st = Some c))"
proof -
  have names: "names_ok w st" unfolding assms(2) by (rule names_srv_run [OF assms(1) names_fresh])
  note wf = names_okD(1) [OF names]
  have by_name: "c_Name c = nm" if "by_name nm st = Some c" for nm c
    using that names_okD(3) [OF names] by (fastforce simp: by_name_def bind_eq_Some_conv cview_def)
  have "c_ID c = ref \<or> c_Name c = ref \<or> c_Name c = slashed ref \<or> 3 \<le> length ref \<and> HasPrefix (c_ID c) ref"
    if "ResolveContainer ref st = Some c" for ref c
    using that names_okD(2) [OF names, of ref c] by_name
    by (auto simp: ResolveContainer_def HasPrefix_def split: option.splits if_splits dest: find_SomeD)
  moreover have "ResolveContainer (c_ID c) st = Some c \<and>
      (get_container (c_Name c) st = None \<longrightarrow> ResolveContainer (c_Name c) st = Some c)"
    if "c \<in> set (StateStore_List (st_Containers st))" for c
  proof -
    note c = that
    obtain k where "get_container k st = Some c" using c in_List_iff [OF wf] by blast
    with names_okD(2) [OF names this] show ?thesis by (simp add: ResolveContainer_def by_name_def)
  qed
  ultimately show ?thesis using resolve_stored [OF names] by blast
qed

theorem resolve_container_sound_witness:
  "\<exists>c. ResolveContainer ''web'' demo_up = Some c \<and> get_container (c_ID c) demo_up = Some c"
proof -
  obtain c where c: "ResolveContainer ''web'' demo_up = Some c" by (rule demo_up_running)
  with resolve_container_sound [OF demo_world_inj demo_up_def] show ?thesis by blast
qed

end
