(* ===== verification/Cleanup.thy ===== *)
theory Cleanup
  imports Failures
begin

text \<open>
  What removal and pruning leave behind, and three behaviours of the server that its callers would
  not expect: addresses lost to a prune, a stopped container revived by an unpause, and strangers grouped in a pod.
\<close>

section \<open>Removal\<close>

text \<open>The fields of a store that \<open>ContainerRemove\<close> cleans of a container.\<close>

definition erased :: "string \<Rightarrow> Container \<Rightarrow> Store \<Rightarrow> bool" where
  "erased cid c st \<longleftrightarrow>
     get_container cid st = None \<and> StateStore_Get (c_Name c) (st_ContainerNames st) = None \<and>
     mget (st_WaitChs st) cid = None \<and> mget (st_LogBuffers st) cid = None \<and> mget (st_StagingDirs st) cid = None \<and>
     mget (st_PathMappings st) cid = None \<and> mget (st_TmpfsDirs st) cid = None \<and> mget (st_HealthChecks st) cid = None \<and>
     (\<forall>e \<in> set (c_ExecIDs c). StateStore_Get e (st_Execs st) = None)"

lemma foldl_keeps: "(\<And>s x. P s = P (f s x)) \<Longrightarrow> P (foldl f s xs) = P s"
  by (induction xs arbitrary: s) auto

lemma RemoveAll_keeps [simp]:
  "mget (st_TmpfsDirs (foldl (\<lambda>st d. RemoveAll d st) st ds)) k = mget (st_TmpfsDirs st) k"
  by (induction ds arbitrary: st) simp_all

lemma drop_tmpfs_gone [simp]: "mget (st_TmpfsDirs (drop_tmpfs cid st)) cid = None"
  by (simp add: drop_tmpfs_def split: option.split)

lemma drop_execs_gone: "e \<in> set (c_ExecIDs c) \<Longrightarrow> StateStore_Get e (st_Execs (drop_execs c st)) = None"
proof -
  have "StateStore_Get e (foldl (\<lambda>es eid. ss_delete eid es) es xs) = (if e \<in> set xs then None else StateStore_Get e es)"
    for es :: "ExecInstance StateStore" and xs
    by (induction xs arbitrary: es) auto
  then show "e \<in> set (c_ExecIDs c) \<Longrightarrow> ?thesis" by (simp add: drop_execs_def)
qed

lemma foldl_frame: "(\<And>s x. P (f s x) = P s) \<Longrightarrow> P (foldl f s xs) = P s"
  by (induction xs arbitrary: s) simp_all

lemma frame_drop_tmpfs [frame, simp]:
  "st_WaitChs (drop_tmpfs cid st) = st_WaitChs st"
  "st_LogBuffers (drop_tmpfs cid st) = st_LogBuffers st"
  "st_StagingDirs (drop_tmpfs cid st) = st_StagingDirs st"
  "st_PathMappings (drop_tmpfs cid st) = st_PathMappings st"
  "st_HealthChecks (drop_tmpfs cid st) = st_HealthChecks st"
  "st_Pods (drop_tmpfs cid st) = st_Pods st"
  unfolding drop_tmpfs_def
  by (auto split: option.split simp: foldl_frame [where P = st_WaitChs] foldl_frame [where P = st_LogBuffers]
      foldl_frame [where P = st_StagingDirs] foldl_frame [where P = st_PathMappings]
      foldl_frame [where P = st_HealthChecks] foldl_frame [where P = st_Pods])

lemma frame_drop_execs [frame, simp]:
  "st_WaitChs (drop_execs c st) = st_WaitChs st"
  "st_LogBuffers (drop_execs c st) = st_LogBuffers st"
  "st_StagingDirs (drop_execs c st) = st_StagingDirs st"
  "st_PathMappings (drop_execs c st) = st_PathMappings st"
  "st_HealthChecks (drop_execs c st) = st_HealthChecks st"
  "st_TmpfsDirs (drop_execs c st) = st_TmpfsDirs st"
  "st_Pods (drop_execs c st) = st_Pods st"
  by (simp_all add: drop_execs_def)

lemma HealthChecks_Disconnect [simp]: "st_HealthChecks (fst (Driver_Disconnect nid cid st)) = st_HealthChecks st"
  by (simp add: Driver_Disconnect_def release_endpoint_def Let_def split: option.split)

lemma HealthChecks_kept [simp]:
  "st_HealthChecks (disconnect_all c st) = st_HealthChecks st" "st_HealthChecks (leave_pod cid st) = st_HealthChecks st"
  "mget (st_HealthChecks (StopHealthCheck cid st)) cid = None"
  subgoal
    unfolding disconnect_all_def
    by (rule foldl_invariant [where P = "\<lambda>s. st_HealthChecks s = st_HealthChecks st"]) (auto split: option.split)
  subgoal by (simp add: leave_pod_def split: prod.split option.split bool.split)
  subgoal by (simp add: StopHealthCheck_def split: option.split)
  done

lemma disconnect_all_others: "k \<noteq> c_ID c \<Longrightarrow> get_container k (disconnect_all c st) = get_container k st"
  unfolding disconnect_all_def
  by (rule foldl_invariant [where P = "\<lambda>s. get_container k s = get_container k st"])
    (auto simp: Driver_Disconnect_def Let_def split: option.split)

lemma left_pod:
  assumes "core_ok w st"
  shows "\<not> in_pod cid (leave_pod cid st)"
proof -
  obtain p found where p: "GetPodForContainer cid (st_Pods st) = (p, found)" by (rule prod.exhaust)
  consider pod where "found" "p = Some pod" | "\<not> found" using core_found(1) [OF assms] p by (cases found) auto
  then show ?thesis
  proof cases
    case 1
    have "mget (pr_pods (st_Pods st)) (pc_ID pod) = Some pod"
      using core_ok_pods [OF assms] p 1 by (auto simp: pod_inv_def GetPodForContainer_def split: option.splits)
    with p 1 show ?thesis by (simp add: leave_pod_def in_pod_def GetPodForContainer_def RemoveContainer_def)
  next
    case 2
    with p show ?thesis by (cases p) (simp_all add: leave_pod_def in_pod_def)
  qed
qed

lemma in_pod_frame: "st_Pods st' = st_Pods st \<Longrightarrow> in_pod cid st' = in_pod cid st"
  by (simp add: in_pod_def)




section \<open>Prune\<close>

lemma IPAlloc_frames [simp]:
  "st_IPAlloc (close_wait cid st) = st_IPAlloc st" "st_IPAlloc (leave_pod cid st) = st_IPAlloc st"
  "st_IPAlloc (drop_tmpfs cid st) = st_IPAlloc st" "st_IPAlloc (drop_execs c st) = st_IPAlloc st"
  "st_IPAlloc (StopHealthCheck cid st) = st_IPAlloc st" "st_IPAlloc (emitEvent w a b i attrs st) = st_IPAlloc st"
  subgoal by (simp add: close_wait_def close_chan_def split: option.split)
  subgoal by (simp add: leave_pod_def split: prod.split option.split bool.split)
  subgoal unfolding drop_tmpfs_def by (auto split: option.split simp: foldl_frame [where P = st_IPAlloc])
  subgoal by (simp add: drop_execs_def)
  subgoal by (simp add: StopHealthCheck_def split: option.split)
  subgoal by simp
  done

lemma Disconnect_gone:
  "get_container cid st = None \<Longrightarrow> st_IPAlloc (fst (Driver_Disconnect nid cid st)) = st_IPAlloc st"
  by (simp add: Driver_Disconnect_def release_endpoint_def endpoint_of_def Let_def split: option.split)

lemma Disconnect_stays: "get_container k (fst (Driver_Disconnect nid cid st)) = None \<longleftrightarrow> get_container k st = None"
  by (simp add: Driver_Disconnect_def Let_def split: option.split)

lemma disconnect_all_leaks:
  assumes "get_container (c_ID c) st = None"
  shows "st_IPAlloc (disconnect_all c st) = st_IPAlloc st"
proof -
  have "get_container (c_ID c) (disconnect_all c st) = None \<and> st_IPAlloc (disconnect_all c st) = st_IPAlloc st"
    unfolding disconnect_all_def
    by (rule foldl_invariant [where P = "\<lambda>s. get_container (c_ID c) s = None \<and> st_IPAlloc s = st_IPAlloc st"])
      (use assms Disconnect_gone Disconnect_stays in \<open>auto split: option.split\<close>)
  then show ?thesis ..
qed

lemma prune_one_leaks: "get_container (c_ID c) st = None \<Longrightarrow> st_IPAlloc (prune_one w c st) = st_IPAlloc st"
  by (simp add: prune_one_def Let_def disconnect_all_leaks)

text \<open>
  \<open>ContainerPrune\<close> never gives an address back: whatever it removes, the address pools are
  as before. It takes the containers out of the table first, and \<open>Disconnect\<close>, which looks the address up there,
  then finds none to release; \<open>ContainerRemove\<close> disconnects before it deletes.
\<close>

theorem prune_leaks_addresses:
  assumes "inj (w_ids w)" and "st = srv_run w d ops (fresh_server w)"
  shows "st_IPAlloc (fst (ContainerPrune w filters st)) = st_IPAlloc st"
proof -
  define r where "r = StateStore_PruneIf (\<lambda>k c. prunable filters c) (st_Containers st)"
  have names: "names_ok w st" unfolding assms(2) by (rule names_srv_run [OF assms(1) names_fresh])
  note wf = names_okD(1) [OF names]
  have loop: "\<forall>c \<in> set cs. get_container (c_ID c) s = None \<Longrightarrow> st_IPAlloc (foldl (\<lambda>st c. prune_one w c st) s cs) = st_IPAlloc s" for cs s
  proof (induction cs arbitrary: s)
    case (Cons c cs)
    then show ?case using prune_one_view(1) [of c s w] prune_one_leaks [of c s w] by simp
  qed simp
  have "\<forall>c \<in> set (snd r). get_container (c_ID c) (st\<lparr>st_Containers := fst r\<rparr>) = None"
    using names_okD(2) [OF names] by (auto simp: r_def pruned_iff [OF wf] get_PruneIf [OF wf])
  from loop [OF this] show ?thesis by (simp add: ContainerPrune_def Let_def case_prod_beta r_def)
qed

theorem prune_leaks_addresses_witness:
  "st_IPAlloc (fst (ContainerPrune demo_world [] demo_up)) = st_IPAlloc demo_up"
  by (rule prune_leaks_addresses [OF demo_world_inj demo_up_def])

text \<open>
  C33: A prune of volumes spares every volume that a container mounts, its host directory
  included, and a plain removal of it is refused with 409.
\<close>

theorem mounted_volumes_survive:
  assumes "wf_map (st_Volumes st)" "StateStore_Get n (st_Volumes st) = Some v" "vo_Name v = n"
    and "c \<in> set (StateStore_List (st_Containers st))" "m \<in> set (c_Mounts c)" "mp_Name m = n" "n \<noteq> []"
  shows "StateStore_Get n (st_Volumes (fst (VolumePrune w f st))) = Some v \<and>
         mget (st_VolumeDirs (fst (VolumePrune w f st))) n = mget (st_VolumeDirs st) n \<and>
         (\<exists>msg. VolumeRemove w n False st = (st, Inl (ConflictError msg)))"
proof -
  define inUse where "inUse = mount_names st @ bind_names st"
  define r where "r = StateStore_PruneIf (\<lambda>k v. volume_prunable f inUse v) (st_Volumes st)"
  have used: "n \<in> set inUse" using assms(4-7) by (force simp: inUse_def mount_names_def)
  have keep: "StateStore_Get n (fst r) = Some v"
    using assms(2,3) used by (simp add: r_def get_PruneIf [OF assms(1)] volume_prunable_def)
  have pruned: "vo_Name u \<noteq> n" if "u \<in> set (snd r)" for u
    using that used by (auto simp: r_def pruned_iff [OF assms(1)] volume_prunable_def split: if_splits)
  have one: "st_Volumes (fst (prune_volume w acc u)) = st_Volumes (fst acc) \<and>
      (vo_Name u \<noteq> n \<longrightarrow> mget (st_VolumeDirs (fst (prune_volume w acc u))) n = mget (st_VolumeDirs (fst acc)) n)" for acc u
    by (auto simp: prune_volume_def drop_volume_dir_def Let_def case_prod_beta split: option.split)
  have "\<forall>u \<in> set us. vo_Name u \<noteq> n \<Longrightarrow> st_Volumes (fst (foldl (prune_volume w) acc us)) = st_Volumes (fst acc) \<and>
      mget (st_VolumeDirs (fst (foldl (prune_volume w) acc us))) n = mget (st_VolumeDirs (fst acc)) n" for us acc
  proof (induction us arbitrary: acc)
    case (Cons u us)
    with one [of acc u] show ?case by simp
  qed simp
  note loop = this [of "snd r" "(st\<lparr>st_Volumes := fst r\<rparr>, 0)"]
  have "VolumePrune w f st = (let (st, reclaimed) = foldl (prune_volume w) (st\<lparr>st_Volumes := fst r\<rparr>, 0) (snd r) in (st, map vo_Name (snd r), reclaimed))"
    by (simp add: VolumePrune_def Let_def case_prod_beta r_def inUse_def)
  with loop pruned keep have prune: "StateStore_Get n (st_Volumes (fst (VolumePrune w f st))) = Some v"
    "mget (st_VolumeDirs (fst (VolumePrune w f st))) n = mget (st_VolumeDirs st) n"
    by (simp_all add: Let_def case_prod_beta)
  have "find (\<lambda>c. list_ex (\<lambda>m. mp_Name m = n) (c_Mounts c)) (StateStore_List (st_Containers st)) \<noteq> None"
    using assms(4-6) by (auto simp: find_None_iff list_ex_iff)
  then have "\<exists>msg. VolumeRemove w n False st = (st, Inl (ConflictError msg))"
    using assms(2) by (auto simp: VolumeRemove_def)
  with prune show ?thesis by simp
qed

definition demo_volume :: Volume where
  "demo_volume = \<lparr>vo_CreatedAt = zero_time, vo_Driver = ''local'', vo_Labels = [], vo_Mountpoint = volume_path ''data'',
     vo_Name = ''data'', vo_Options = [], vo_Scope = ''local''\<rparr>"

definition demo_mounted :: Store where
  "demo_mounted = NewStore\<lparr>st_Volumes := [(''data'', demo_volume), (''old'', demo_volume\<lparr>vo_Name := ''old''\<rparr>)],
     st_Containers := [(''c1'', demo_container\<lparr>c_ID := ''c1'', c_Mounts := bind_mount ''data:/srv''\<rparr>)]\<rparr>"

theorem mounted_volumes_survive_witness:
  "StateStore_Get ''data'' (st_Volumes (fst (VolumePrune demo_world [] demo_mounted))) = Some demo_volume"
proof -
  have "bind_mount ''data:/srv'' = [zero_mount\<lparr>mp_Type := ''volume'', mp_Name := ''data'', mp_Source := ''data'',
      mp_Destination := ''/srv'', mp_RW := True\<rparr>]"
    by (simp add: bind_mount_def SplitN3_def SplitN2_def Let_def HasPrefix_def zero_mount_def)
  then have 1: "zero_mount\<lparr>mp_Type := ''volume'', mp_Name := ''data'', mp_Source := ''data'', mp_Destination := ''/srv'', mp_RW := True\<rparr>
      \<in> set (c_Mounts (demo_container\<lparr>c_ID := ''c1'', c_Mounts := bind_mount ''data:/srv''\<rparr>))" by simp
  have 2: "wf_map (st_Volumes demo_mounted)" "StateStore_Get ''data'' (st_Volumes demo_mounted) = Some demo_volume"
    "vo_Name demo_volume = ''data''"
    by (simp_all add: demo_mounted_def demo_volume_def StateStore_Get_def)
  have 3: "demo_container\<lparr>c_ID := ''c1'', c_Mounts := bind_mount ''data:/srv''\<rparr> \<in> set (StateStore_List (st_Containers demo_mounted))"
    by (simp add: demo_mounted_def StateStore_List_def)
  show ?thesis using mounted_volumes_survive [OF 2 3 1, of demo_world "[]"] by simp
qed

section \<open>Pause and stop\<close>

lemma get_stop_running:
  "get_container (c_ID c) st = Some c' \<Longrightarrow>
   \<exists>now. get_container (c_ID c) (stop_running w c st) = Some (in_state (exited_state (SignalToExitCode ''SIGTERM'') now) c')"
  by (auto simp: stop_running_def exit_events_def ForceStopContainer_def forceStop_def mark_exited_def Let_def case_prod_beta)

lemma resolve_by_id: "get_container cid st = Some c \<Longrightarrow> ResolveContainer cid st = Some c"
  by (simp add: ResolveContainer_def)

text \<open>
  A paused container that is stopped can be unpaused: the stop leaves the pause flag, the
  unpause checks nothing else, and the container then reads \<open>running\<close> though nothing runs.
\<close>

theorem unpause_revives_stopped:
  assumes "get_container cid st = Some c" "c_ID c = cid" "cs_Running (c_State c)" "\<not> cs_Paused (c_State c)"
    and "st1 = fst (ContainerPause w cid st)" "st2 = fst (ContainerStop w cid st1)"
  shows "snd (ContainerStop w cid st1) = Inr () \<and> snd (ContainerUnpause w cid st2) = Inr () \<and>
         (\<exists>c'. get_container cid (fst (ContainerUnpause w cid st2)) = Some c' \<and>
               cs_Status (c_State c') = ''running'' \<and> \<not> cs_Running (c_State c') \<and> cs_Pid (c_State c') = 0)"
proof -
  let ?c1 = "in_state (\<lambda>s. s\<lparr>cs_Paused := True, cs_Status := ''paused''\<rparr>) c"
  have c1: "get_container cid st1 = Some ?c1"
    using assms(1-4) resolve_by_id [OF assms(1)] by (simp add: assms(5) ContainerPause_def Let_def)
  have stop: "ContainerStop w cid st1 = (stop_running w ?c1 st1, Inr ())"
    using resolve_by_id [OF c1] assms(3) by (simp add: ContainerStop_def)
  obtain now where c2: "get_container cid st2 = Some (in_state (exited_state (SignalToExitCode ''SIGTERM'') now) ?c1)"
    using get_stop_running [of ?c1 st1 ?c1 w] c1 assms(2) by (auto simp: assms(6) stop)
  let ?c2 = "in_state (exited_state (SignalToExitCode ''SIGTERM'') now) ?c1"
  let ?st3 = "upd_container cid (in_state (\<lambda>s. s\<lparr>cs_Paused := False, cs_Status := ''running''\<rparr>)) st2"
  let ?c3 = "in_state (\<lambda>s. s\<lparr>cs_Paused := False, cs_Status := ''running''\<rparr>) ?c2"
  have c3: "get_container cid ?st3 = Some ?c3" using c2 by simp
  have health: "\<exists>c'. get_container cid (StartHealthCheck cid s) = Some c' \<and> cs_Status (c_State c') = cs_Status (c_State d) \<and>
      cs_Running (c_State c') = cs_Running (c_State d) \<and> cs_Pid (c_State c') = cs_Pid (c_State d)"
    if "get_container cid s = Some d" for s d
    using that by (auto simp: StartHealthCheck_def Let_def split: option.split)
  have view: "cs_Status (c_State ?c3) = ''running''" "\<not> cs_Running (c_State ?c3)" "cs_Pid (c_State ?c3) = 0"
    by (simp_all add: exited_state_def)
  let ?st4 = "if has_healthcheck ?c2 then StartHealthCheck cid ?st3 else ?st3"
  have c4: "\<exists>c'. get_container cid ?st4 = Some c' \<and> cs_Status (c_State c') = ''running'' \<and> \<not> cs_Running (c_State c') \<and> cs_Pid (c_State c') = 0"
    using health [OF c3] c3 view by (cases "has_healthcheck ?c2") auto
  have paused: "cs_Paused (c_State ?c2)" "c_ID ?c2 = cid" using assms(2) by (simp_all add: exited_state_def)
  have "ContainerUnpause w cid st2 = (emitEvent w ''container'' ''unpause'' cid [(''name'', shown (c_Name ?c2))] ?st4, Inr ())"
    unfolding ContainerUnpause_def resolve_base resolve_by_id [OF c2] option.case paused(2) c2 Let_def using paused(1) by simp
  with c4 show ?thesis by (simp add: stop)
qed

theorem unpause_revives_stopped_witness:
  "\<exists>c'. get_container (replicate 12 CHR ''x'') (fst (ContainerUnpause demo_world (replicate 12 CHR ''x'')
      (fst (ContainerStop demo_world (replicate 12 CHR ''x'')
        (fst (ContainerPause demo_world (replicate 12 CHR ''x'') demo_up)))))) = Some c' \<and>
     cs_Status (c_State c') = ''running'' \<and> \<not> cs_Running (c_State c')"
proof -
  obtain c where c: "get_container (replicate 12 CHR ''x'') demo_up = Some c" "c_ID c = replicate 12 CHR ''x''" "cs_Running (c_State c)"
    by (rule demo_up_running)
  have "map_option (\<lambda>c. cs_Paused (c_State c)) (get_container (replicate 12 CHR ''x'') demo_up) = Some False" by code_simp
  with c have "\<not> cs_Paused (c_State c)" by simp
  from unpause_revives_stopped [OF c this refl refl, of demo_world] show ?thesis by blast
qed

section \<open>Grouping by an unknown reference\<close>

definition joined :: "string \<Rightarrow> string \<Rightarrow> PodRegistry \<Rightarrow> bool" where
  "joined pid cid pr \<longleftrightarrow> mget (pr_byContainer pr) cid = Some pid \<and>
     (\<exists>p. mget (pr_pods pr) pid = Some p \<and> pc_ID p = pid \<and> cid \<in> set (pc_ContainerIDs p))"

lemma joined_found: "joined pid cid pr \<Longrightarrow>
    \<exists>p. GetPodForContainer cid pr = (Some p, True) \<and> pc_ID p = pid \<and> cid \<in> set (pc_ContainerIDs p)"
  by (auto simp: joined_def GetPodForContainer_def)

definition in_no_pod :: "string \<Rightarrow> PodRegistry \<Rightarrow> bool" where
  "in_no_pod cid pr \<longleftrightarrow> mget (pr_byContainer pr) cid = None \<and>
     (\<forall>k p. mget (pr_pods pr) k = Some p \<longrightarrow> cid \<notin> set (pc_ContainerIDs p))"

lemma Add_joins:
  assumes "mget (pr_pods pr) pid = Some p" "pc_ID p = pid" "in_no_pod cid pr"
  shows "joined pid cid (fst (AddContainer pid cid pr))"
    and "joined pid x pr \<Longrightarrow> joined pid x (fst (AddContainer pid cid pr))"
    and "x \<noteq> cid \<Longrightarrow> in_no_pod x pr \<Longrightarrow> in_no_pod x (fst (AddContainer pid cid pr))"
  using assms by (auto simp: joined_def in_no_pod_def AddContainer_def)

text \<open>One unresolved create: the container joins the pod of the empty identifier, which is made if need be.\<close>

lemma group_unresolved:
  assumes w: "inj (w_ids w)" and ok: "core_ok w st" and mode: "HasPrefix mode ''container:''"
    and un: "ResolveContainer (TrimPrefix mode ''container:'') st = None"
    and new: "in_no_pod cid (st_Pods st)" "cid \<noteq> []"
    and empty: "snd (GetPodForContainer [] (st_Pods st)) \<or> in_no_pod [] (st_Pods st)"
  shows "\<exists>pid. joined pid [] (st_Pods (group_by_container w mode cid st)) \<and>
               joined pid cid (st_Pods (group_by_container w mode cid st)) \<and>
               (\<forall>x. joined pid x (st_Pods st) \<longrightarrow> joined pid x (st_Pods (group_by_container w mode cid st))) \<and>
               (snd (GetPodForContainer [] (st_Pods st)) \<longrightarrow> joined pid [] (st_Pods st)) \<and>
               (\<forall>x. x \<noteq> cid \<longrightarrow> x \<noteq> [] \<longrightarrow> in_no_pod x (st_Pods st) \<longrightarrow> in_no_pod x (st_Pods (group_by_container w mode cid st)))"
proof -
  have out: "\<not> in_pod cid st" using new(1) by (simp add: in_pod_def GetPodForContainer_def in_no_pod_def)
  obtain p found where p: "GetPodForContainer [] (st_Pods st) = (p, found)" by (rule prod.exhaust)
  show ?thesis
  proof (cases found)
    case True
    then obtain pod where pod: "p = Some pod" using core_found(1) [OF ok, of "[]" p] p by auto
    have j: "joined (pc_ID pod) [] (st_Pods st)" "mget (pr_pods (st_Pods st)) (pc_ID pod) = Some pod"
      using core_ok_pods [OF ok] p pod True
      by (auto simp: joined_def pod_inv_def GetPodForContainer_def split: option.splits) fastforce+
    have g: "st_Pods (group_by_container w mode cid st) = fst (AddContainer (pc_ID pod) cid (st_Pods st))"
      using mode un out p pod True
      by (simp add: group_by_container_def ResolveContainerIDAuto_def add_to_found_pod_def add_to_pod_def)
    show ?thesis
      unfolding g using Add_joins [OF j(2) refl new(1)] j(1) by (intro exI [of _ "pc_ID pod"]) auto
  next
    case False
    let ?pid = "w_ids w (st_idn st)"
    obtain now nm where c: "st_Pods (fst (create_pod w ''container-'' st)) =
        fst (CreatePod ?pid now nm None (st_Pods st))"
      by (simp add: create_pod_def GenerateID_def now_text_def Let_def case_prod_beta)
    let ?pr = "fst (CreatePod ?pid now nm None (st_Pods st))"
    have snd: "snd (create_pod w n st) = ?pid" for n
      by (simp add: create_pod_def GenerateID_def Let_def case_prod_beta)
    have new': "in_no_pod [] ?pr" "x \<noteq> [] \<Longrightarrow> in_no_pod x (st_Pods st) \<Longrightarrow> in_no_pod x ?pr" for x
      using empty False p by (auto simp: in_no_pod_def CreatePod_def CreatePodWithOpts_def Let_def)
    have pod: "\<exists>q. mget (pr_pods ?pr) ?pid = Some q \<and> pc_ID q = ?pid" by (simp add: CreatePod_def CreatePodWithOpts_def Let_def)
    then obtain q where q: "mget (pr_pods ?pr) ?pid = Some q" "pc_ID q = ?pid" by blast
    let ?pr1 = "fst (AddContainer ?pid [] ?pr)"
    note a1 = Add_joins [OF q new'(1)]
    obtain q1 where q1: "mget (pr_pods ?pr1) ?pid = Some q1" "pc_ID q1 = ?pid" using a1(1) by (auto simp: joined_def)
    have "in_no_pod cid ?pr1" by (rule a1(3) [OF new(2) new'(2) [OF new(2,1)]])
    note a2 = Add_joins [OF q1 this]
    have fresh: "mget (pr_pods (st_Pods st)) ?pid = None"
      using ok w by (fastforce simp: core_ok_def pods_ok_def inj_eq)
    have g: "st_Pods (group_by_container w mode cid st) = fst (AddContainer ?pid cid ?pr1)"
      using mode un out p False c snd
      by (simp add: group_by_container_def ResolveContainerIDAuto_def add_to_pod_def Let_def case_prod_beta)
    show ?thesis
      unfolding g using a1 a2 p False fresh new' by (intro exI [of _ ?pid]) (auto simp: joined_def)
  qed
qed

text \<open>
  Two containers that name two different unknown containers as their network end up in
  one pod: the lookup that fails yields the empty identifier, for which the first create opens a pod that the second
  one joins. Neither can then be started, for the pod has more than one container.
\<close>

theorem unknown_network_containers_share_pod:
  assumes w: "inj (w_ids w)" and st: "st = srv_run w d ops (fresh_server w)"
    and m: "HasPrefix m1 ''container:''" "HasPrefix m2 ''container:''"
    and r1: "ResolveContainer (TrimPrefix m1 ''container:'') st = None"
    and st1: "st1 = group_by_container w m1 a st"
    and r2: "ResolveContainer (TrimPrefix m2 ''container:'') st1 = None"
    and st2: "st2 = group_by_container w m2 b st1"
    and new: "in_no_pod a (st_Pods st)" "in_no_pod b (st_Pods st)" "in_no_pod [] (st_Pods st)" "a \<noteq> []" "b \<noteq> []" "a \<noteq> b"
  shows "\<exists>p. GetPodForContainer a (st_Pods st2) = (Some p, True) \<and> GetPodForContainer b (st_Pods st2) = (Some p, True) \<and>
    (\<forall>ref c. ResolveContainer ref st2 = Some c \<longrightarrow> c_ID c \<in> {a, b} \<longrightarrow> \<not> cs_Running (c_State c) \<longrightarrow>
       snd (ContainerStart w ref st2) =
         Inl (InvalidParameterError ''multi-container pods are not supported by this backend''))"
proof -
  have ok: "core_ok w st" unfolding st by (rule core_srv_run [OF w core_fresh])
  have ok1: "core_ok w st1" unfolding st1 by (rule core_group_by_container [OF w ok])
  obtain p1 where p1: "joined p1 [] (st_Pods st1)" "joined p1 a (st_Pods st1)" "in_no_pod b (st_Pods st1)"
    using group_unresolved [OF w ok m(1) r1 new(1,4)] new st1 by auto
  have found: "snd (GetPodForContainer [] (st_Pods st1))" using p1(1) joined_found by fastforce
  obtain p2 where p2: "joined p2 [] (st_Pods st1)" "joined p2 b (st_Pods st2)"
    "\<And>x. joined p2 x (st_Pods st1) \<Longrightarrow> joined p2 x (st_Pods st2)"
    using group_unresolved [OF w ok1 m(2) r2 p1(3) new(5)] found st2 by auto
  have "p2 = p1" using p1(1) p2(1) by (simp add: joined_def)
  with p1 p2 have j: "joined p1 [] (st_Pods st2)" "joined p1 a (st_Pods st2)" "joined p1 b (st_Pods st2)" by auto
  obtain p where p: "GetPodForContainer a (st_Pods st2) = (Some p, True)" "GetPodForContainer b (st_Pods st2) = (Some p, True)"
    "a \<in> set (pc_ContainerIDs p)" "b \<in> set (pc_ContainerIDs p)"
    using j(2,3) by (auto simp: joined_def GetPodForContainer_def)
  have "1 < length (pc_ContainerIDs p)"
    using p(3,4) new(6) by (cases "pc_ContainerIDs p"; cases "tl (pc_ContainerIDs p)") auto
  then have "snd (ContainerStart w ref st2) = Inl (InvalidParameterError ''multi-container pods are not supported by this backend'')"
    if "ResolveContainer ref st2 = Some c" "c_ID c \<in> {a, b}" "\<not> cs_Running (c_State c)" for ref c
    using that p(1,2) by (auto simp: ContainerStart_def Let_def)
  with p(1,2) show ?thesis by blast
qed

theorem unknown_network_containers_share_pod_witness:
  "\<exists>p. GetPodForContainer ''a1'' (st_Pods (group_by_container demo_world ''container:bar'' ''b1''
          (group_by_container demo_world ''container:foo'' ''a1'' (fresh_server demo_world)))) = (Some p, True) \<and>
       GetPodForContainer ''b1'' (st_Pods (group_by_container demo_world ''container:bar'' ''b1''
          (group_by_container demo_world ''container:foo'' ''a1'' (fresh_server demo_world)))) = (Some p, True)"
proof -
  have st: "fresh_server demo_world = srv_run demo_world ''test'' [] (fresh_server demo_world)" by (simp add: srv_run_def)
  have none: "in_no_pod x (st_Pods (fresh_server demo_world))" for x by (simp add: in_no_pod_def NewPodRegistry_def)
  have r1: "ResolveContainer (TrimPrefix ''container:foo'' ''container:'') (fresh_server demo_world) = None" by code_simp
  have r2: "ResolveContainer (TrimPrefix ''container:bar'' ''container:'')
      (group_by_container demo_world ''container:foo'' ''a1'' (fresh_server demo_world)) = None" by code_simp
  have m: "HasPrefix ''container:foo'' ''container:''" "HasPrefix ''container:bar'' ''container:''" by code_simp+
  have ne: "''a1'' \<noteq> []" "''b1'' \<noteq> []" "''a1'' \<noteq> ''b1''" by simp_all
  from unknown_network_containers_share_pod [OF demo_world_inj st m r1 refl r2 refl none none none ne]
  show ?thesis by blast
qed
end
