(* ===== verification/Matrix.thy ===== *)
theory Matrix
  imports Prelude "HOL-Library.Char_ord" "HOL-Library.List_Lexorder" "HOL-Library.Multiset"
begin

text \<open>
  The job matrix of a workflow, \<open>bleephub/matrix.go\<close>. A matrix value is a decoded YAML value; the
  code compares and prints values through \<open>fmt.Sprintf("%v", v)\<close>, so a value of any other kind is
  represented by that text. A combination is a map from matrix keys to values. The result: the
  expansion is the full Cartesian product, each choice of values exactly once, in a fixed order.
\<close>

section \<open>Values\<close>

datatype yval = YStr string | YInt int | YBool bool | YNull | YOther string

fun sprint :: "yval \<Rightarrow> string" where
  "sprint (YStr s) = s"
| "sprint (YInt i) = Itoa i"
| "sprint (YBool b) = (if b then ''true'' else ''false'')"
| "sprint YNull = ''<nil>''"
| "sprint (YOther txt) = txt"

type_synonym combo = "yval gomap"

record MatrixDef =
  mx_Values :: "yval list gomap"
  mx_Include :: "combo list"
  mx_Exclude :: "combo list"

section \<open>Expansion\<close>

definition values_of :: "yval list gomap \<Rightarrow> string \<Rightarrow> yval list" where
  "values_of values key = (case mget values key of Some vals \<Rightarrow> vals | None \<Rightarrow> [])"

definition expand_key :: "yval list gomap \<Rightarrow> combo list \<Rightarrow> string \<Rightarrow> combo list" where
  "expand_key values result key =
     concat (map (\<lambda>combo. map (\<lambda>val. mput key val combo) (values_of values key)) result)"

definition expandCartesian :: "yval list gomap \<Rightarrow> combo list" where
  "expandCartesian values = foldl (expand_key values) [[]] (sort (mkeys values))"

definition matchesSharedKeys :: "combo \<Rightarrow> combo \<Rightarrow> bool" where
  "matchesSharedKeys combo entry =
     list_all (\<lambda>(k, v). case mget combo k of Some cv \<Rightarrow> sprint cv = sprint v | None \<Rightarrow> True) entry"

definition matchesAllKeys :: "combo \<Rightarrow> combo \<Rightarrow> bool" where
  "matchesAllKeys combo entry =
     list_all (\<lambda>(k, v). case mget combo k of Some cv \<Rightarrow> sprint cv = sprint v | None \<Rightarrow> False) entry"

definition extend_combo :: "combo \<Rightarrow> combo \<Rightarrow> combo" where
  "extend_combo combo inc = foldl (\<lambda>c (k, v). if mget c k = None then mput k v c else c) combo inc"

definition copy_combo :: "combo \<Rightarrow> combo" where
  "copy_combo inc = foldl (\<lambda>c (k, v). mput k v c) [] inc"

definition apply_include :: "combo list \<Rightarrow> combo \<Rightarrow> combo list" where
  "apply_include combos inc =
     (if list_ex (\<lambda>c. matchesSharedKeys c inc) combos
      then map (\<lambda>c. if matchesSharedKeys c inc then extend_combo c inc else c) combos
      else combos @ [copy_combo inc])"

definition applyIncludes :: "combo list \<Rightarrow> combo list \<Rightarrow> combo list" where
  "applyIncludes combos includes = foldl apply_include combos includes"

definition applyExcludes :: "combo list \<Rightarrow> combo list \<Rightarrow> combo list" where
  "applyExcludes combos excludes =
     (if excludes = [] then combos else filter (\<lambda>c. \<not> list_ex (matchesAllKeys c) excludes) combos)"

definition ExpandMatrix :: "MatrixDef option \<Rightarrow> combo list" where
  "ExpandMatrix m =
     (case m of
        None \<Rightarrow> []
      | Some m \<Rightarrow>
          if mx_Values m = [] then mx_Include m
          else applyExcludes (applyIncludes (expandCartesian (mx_Values m)) (mx_Include m)) (mx_Exclude m))"

definition MatrixJobName :: "string \<Rightarrow> combo \<Rightarrow> string" where
  "MatrixJobName baseKey values =
     (if values = [] then baseKey
      else baseKey @ '' ('' @
        Join (map (\<lambda>k. case mget values k of Some v \<Rightarrow> sprint v | None \<Rightarrow> ''<nil>'') (sort (mkeys values))) '', '' @ '')'')"

section \<open>The product\<close>

text \<open>The combinations over a list of keys, as functions.\<close>

definition choices :: "yval list gomap \<Rightarrow> string set \<Rightarrow> (string \<rightharpoonup> yval) set" where
  "choices values K = {m. dom m = K \<and> (\<forall>k \<in> K. \<exists>v \<in> set (values_of values k). m k = Some v)}"

lemma map_of_mput: "map_of (mput k v m) = (map_of m)(k \<mapsto> v)"
  by (rule update_conv')

lemma expand_key_maps:
  "map map_of (expand_key values result key) =
     concat (map (\<lambda>m. map (\<lambda>v. m(key \<mapsto> v)) (values_of values key)) (map map_of result))"
  by (simp add: expand_key_def map_concat comp_def map_of_mput)

lemma choices_insert:
  assumes "key \<notin> K"
  shows "choices values (insert key K) = (\<Union>m \<in> choices values K. (\<lambda>v. m(key \<mapsto> v)) ` set (values_of values key))"
proof (intro set_eqI iffI)
  fix m assume m: "m \<in> choices values (insert key K)"
  then obtain v where v: "v \<in> set (values_of values key)" "m key = Some v" by (auto simp: choices_def)
  have "m(key := None) \<in> choices values K" using m assms by (auto simp: choices_def)
  moreover have "m = (m(key := None))(key \<mapsto> v)" using v by auto
  ultimately show "m \<in> (\<Union>m \<in> choices values K. (\<lambda>v. m(key \<mapsto> v)) ` set (values_of values key))"
    using v(1) by blast
next
  fix m assume "m \<in> (\<Union>m \<in> choices values K. (\<lambda>v. m(key \<mapsto> v)) ` set (values_of values key))"
  then obtain n v where n: "n \<in> choices values K" "v \<in> set (values_of values key)" "m = n(key \<mapsto> v)" by blast
  have "\<exists>v \<in> set (values_of values k). m k = Some v" if "k \<in> insert key K" for k
    using n that assms by (cases "k = key") (auto simp: choices_def)
  then show "m \<in> choices values (insert key K)" using n by (auto simp: choices_def)
qed

text \<open>One key multiplies the combinations: the set, the number, and no repetition.\<close>

lemma expand_key_set:
  assumes "set (map map_of result) = choices values K" and "key \<notin> K"
  shows "set (map map_of (expand_key values result key)) = choices values (insert key K)"
  unfolding expand_key_maps choices_insert [OF assms(2)] assms(1) [symmetric] by auto

lemma expand_key_length: "length (expand_key values result key) = length result * length (values_of values key)"
  by (simp add: expand_key_def length_concat comp_def sum_list_triv)

lemma distinct_concat_map:
  assumes "distinct ms" "distinct vals"
    and "\<And>m n v v'. m \<in> set ms \<Longrightarrow> n \<in> set ms \<Longrightarrow> h m v = h n v' \<Longrightarrow> m = n \<and> v = v'"
  shows "distinct (concat (map (\<lambda>m. map (h m) vals) ms))"
  using assms
proof (induction ms)
  case (Cons m ms)
  have "distinct (concat (map (\<lambda>m. map (h m) vals) ms))"
    by (rule Cons.IH) (use Cons.prems(1,2) in \<open>simp_all\<close>, rule Cons.prems(3), simp_all)
  moreover have "distinct (map (h m) vals)"
    unfolding distinct_map inj_on_def using Cons.prems(2,3) by auto
  moreover have "h m v \<noteq> h n v'" if "n \<in> set ms" for n v v'
    using Cons.prems(1,3) that by (metis distinct.simps(2) list.set_intros)
  ultimately show ?case by auto
qed simp

lemma distinct_expand_key:
  assumes "distinct (map map_of result)" "\<forall>m \<in> set (map map_of result). key \<notin> dom m" "distinct (values_of values key)"
  shows "distinct (map map_of (expand_key values result key))"
  unfolding expand_key_maps
proof (rule distinct_concat_map [OF assms(1,3)])
  fix m n :: "string \<rightharpoonup> yval" and v v'
  assume mn: "m \<in> set (map map_of result)" "n \<in> set (map map_of result)" "m(key \<mapsto> v) = n(key \<mapsto> v')"
  have "m = (m(key \<mapsto> v))(key := None)" "n = (n(key \<mapsto> v'))(key := None)" using assms(2) mn(1,2) by auto
  with mn(3) have "m = n" by simp
  moreover have "(m(key \<mapsto> v)) key = (n(key \<mapsto> v')) key" using mn(3) by simp
  ultimately show "m = n \<and> v = v'" by simp
qed

lemma expand_keys:
  assumes "distinct keys"
  shows "set (map map_of (foldl (expand_key values) [[]] keys)) = choices values (set keys)"
    "length (foldl (expand_key values) [[]] keys) = prod_list (map (\<lambda>k. length (values_of values k)) keys)"
    "\<forall>k \<in> set keys. distinct (values_of values k) \<Longrightarrow> distinct (map map_of (foldl (expand_key values) [[]] keys))"
  using assms
proof (induction keys rule: rev_induct)
  case Nil
  { case 1 then show ?case by (auto simp: choices_def) next
    case 2 then show ?case by simp next
    case 3 then show ?case by simp }
next
  case (snoc key keys)
  { case 1
    then show ?case using snoc.IH(1) expand_key_set [where K = "set keys"] by simp
  next
    case 2
    then show ?case using snoc.IH(2) by (simp add: expand_key_length)
  next
    case 3
    then have "distinct (map map_of (foldl (expand_key values) [[]] keys))" "distinct keys" "key \<notin> set keys"
      using snoc.IH(3) by simp_all
    moreover have "\<forall>m \<in> set (map map_of (foldl (expand_key values) [[]] keys)). key \<notin> dom m"
      using snoc.IH(1) [OF \<open>distinct keys\<close>] \<open>key \<notin> set keys\<close> by (auto simp: choices_def simp del: set_map)
    ultimately show ?case using 3 by (simp add: distinct_expand_key) }
qed

text \<open>
  The expansion is the Cartesian product: as functions from keys to values, the combinations are
  exactly those that choose a value of each key; their number is the product of the numbers of
  values; and none is repeated where no key repeats a value.
\<close>

theorem cartesian_product:
  assumes "wf_map values"
  shows "map_of ` set (expandCartesian values) =
      {m. dom m = set (mkeys values) \<and> (\<forall>k \<in> set (mkeys values). \<exists>v \<in> set (values_of values k). m k = Some v)} \<and>
    length (expandCartesian values) = prod_list (map (length \<circ> snd) values) \<and>
    ((\<forall>(k, vals) \<in> set values. distinct vals) \<longrightarrow> distinct (map map_of (expandCartesian values)))"
proof (intro conjI impI)
  have keys: "distinct (sort (mkeys values))" "set (sort (mkeys values)) = set (mkeys values)" using assms by simp_all
  show "map_of ` set (expandCartesian values) =
      {m. dom m = set (mkeys values) \<and> (\<forall>k \<in> set (mkeys values). \<exists>v \<in> set (values_of values k). m k = Some v)}"
    using expand_keys(1) [OF keys(1)] unfolding keys(2) choices_def expandCartesian_def set_map .
  have p: "prod_list (map f (sort xs)) = prod_list (map f xs)" for f :: "string \<Rightarrow> nat" and xs
    by (metis mset_map mset_sort prod_mset_prod_list)
  have q: "map (\<lambda>k. length (values_of values k)) (mkeys values) = map (length \<circ> snd) values"
    using assms by (auto simp: values_of_def comp_def map_of_eq_Some_iff [THEN iffD2])
  show "length (expandCartesian values) = prod_list (map (length \<circ> snd) values)"
    unfolding expandCartesian_def expand_keys(2) [OF keys(1)] p q ..
  assume "\<forall>(k, vals) \<in> set values. distinct vals"
  then have "\<forall>k \<in> set (sort (mkeys values)). distinct (values_of values k)"
    using assms by (auto simp: values_of_def map_of_eq_Some_iff split: option.split)
  from expand_keys(3) [OF keys(1) this] show "distinct (map map_of (expandCartesian values))"
    by (simp add: expandCartesian_def)
qed

theorem cartesian_product_witness:
  "length (expandCartesian [(''os'', [YStr ''linux'', YStr ''mac'']), (''go'', [YInt 21, YInt 22])]) = 4"
  using cartesian_product [of "[(''os'', [YStr ''linux'', YStr ''mac'']), (''go'', [YInt 21, YInt 22])]"] by simp

end
