(* ===== verification/JobGraph.thy ===== *)
theory JobGraph
  imports Matrix
begin

text \<open>
  Workflow definitions: the job records of \<open>bleephub/workflow.go\<close>, the expansion of matrix jobs
  (\<open>expandMatrixJobs\<close> of \<open>jobs.go\<close>) and the check of the dependency graph (\<open>validateJobGraph\<close> of
  \<open>workflows.go\<close>). Fields that only the job message carries (runner, container, services, steps) are
  left out. The results: the check accepts exactly the closed acyclic graphs; the expansion depends
  on the order in which Go visits the jobs, and shares one environment between the jobs of a matrix.
\<close>

section \<open>Definitions\<close>

record StrategyDef =
  sd_Matrix :: MatrixDef
  sd_FailFast :: "bool option"
  sd_MaxParallel :: int

record JobDef =
  jd_Name :: string
  jd_Needs :: "string list"
  jd_Env :: "string gomap option"
  jd_Outputs :: "string gomap"
  jd_Strategy :: "StrategyDef option"
  jd_If :: string
  jd_ContinueOnError :: bool
  jd_TimeoutMinutes :: int

record ConcurrencyDef =
  cd_Group :: string
  cd_CancelInProgress :: bool

record WorkflowDef =
  wd_Name :: string
  wd_Env :: "string gomap option"
  wd_Concurrency :: "ConcurrencyDef option"
  wd_Jobs :: "JobDef gomap"

definition FailFast :: "JobDef option \<Rightarrow> bool" where
  "FailFast j =
     (case Option.bind (Option.bind j jd_Strategy) sd_FailFast of Some b \<Rightarrow> b | None \<Rightarrow> True)"

section \<open>Matrix expansion\<close>

definition write_combo :: "string gomap \<Rightarrow> combo \<Rightarrow> string gomap" where
  "write_combo env combo = foldl (\<lambda>env (mk, mv). mput (''__matrix_'' @ mk) (sprint mv) env) env combo"

text \<open>
  The copies of a job share its map \<open>Env\<close>, if it has one: what a copy writes there, every copy reads.
  Without one each copy gets a map of its own.
\<close>

definition expanded_env :: "string gomap option \<Rightarrow> combo list \<Rightarrow> combo \<Rightarrow> string gomap" where
  "expanded_env env combos combo =
     (case env of None \<Rightarrow> write_combo [] combo | Some env \<Rightarrow> foldl write_combo env combos)"

definition expanded_key :: "string \<Rightarrow> nat \<Rightarrow> string" where
  "expanded_key key i = key @ ''_'' @ Itoa (int i)"

definition job_combos :: "JobDef \<Rightarrow> combo list" where
  "job_combos jd =
     (case jd_Strategy jd of
        None \<Rightarrow> []
      | Some s \<Rightarrow> if mx_Values (sd_Matrix s) = [] then [] else ExpandMatrix (Some (sd_Matrix s)))"

definition rewrite_needs :: "string \<Rightarrow> string list \<Rightarrow> JobDef \<Rightarrow> JobDef" where
  "rewrite_needs key keys jd = jd\<lparr>jd_Needs := concat (map (\<lambda>dep. if dep = key then keys else [dep]) (jd_Needs jd))\<rparr>"

definition expand_job :: "JobDef gomap \<Rightarrow> string \<times> JobDef \<Rightarrow> JobDef gomap" where
  "expand_job jobs kj =
     (let (key, jd) = kj; combos = job_combos jd in
      if combos = [] then mput key jd jobs
      else
        let jobs = foldl (\<lambda>jobs (i, combo). mput (expanded_key key i)
                       (jd\<lparr>jd_Name := MatrixJobName key combo, jd_Env := Some (expanded_env (jd_Env jd) combos combo)\<rparr>) jobs)
                     jobs (enumerate 0 combos);
            keys = map (expanded_key key) [0..<length combos]
        in map (\<lambda>(k, other). (k, rewrite_needs key keys other)) jobs)"

definition expandMatrixJobs :: "WorkflowDef \<Rightarrow> WorkflowDef" where
  "expandMatrixJobs wdef = wdef\<lparr>wd_Jobs := foldl expand_job [] (wd_Jobs wdef)\<rparr>"

section \<open>The graph check\<close>

text \<open>\<open>OutOfFuel\<close> is not an error of the code: it marks a search deeper than the number of jobs, which never happens.\<close>

datatype graph_error = CycleDetected string | UnknownDependency string | NeedsUnknown string string | OutOfFuel

definition mark :: "nat gomap \<Rightarrow> string \<Rightarrow> nat" where
  "mark visited key = (case mget visited key of Some v \<Rightarrow> v | None \<Rightarrow> 0)"

fun visit_needs ::
  "(string \<Rightarrow> nat gomap \<Rightarrow> nat gomap \<times> graph_error option) \<Rightarrow> JobDef gomap \<Rightarrow> string \<Rightarrow> string list \<Rightarrow> nat gomap \<Rightarrow>
     nat gomap \<times> graph_error option" where
  "visit_needs visit jobs key [] visited = (visited, None)"
| "visit_needs visit jobs key (dep # deps) visited =
     (if mget jobs dep = None then (visited, Some (NeedsUnknown key dep))
      else case visit dep visited of
             (visited, Some err) \<Rightarrow> (visited, Some err)
           | (visited, None) \<Rightarrow> visit_needs visit jobs key deps visited)"

fun visit :: "nat \<Rightarrow> JobDef gomap \<Rightarrow> string \<Rightarrow> nat gomap \<Rightarrow> nat gomap \<times> graph_error option" where
  "visit 0 jobs key visited = (visited, Some OutOfFuel)"
| "visit (Suc n) jobs key visited =
     (if mark visited key = 2 then (visited, None)
      else if mark visited key = 1 then (visited, Some (CycleDetected key))
      else
        let visited = mput key 1 visited in
        case mget jobs key of
          None \<Rightarrow> (visited, Some (UnknownDependency key))
        | Some jd \<Rightarrow>
            (case visit_needs (visit n jobs) jobs key (jd_Needs jd) visited of
               (visited, Some err) \<Rightarrow> (visited, Some err)
             | (visited, None) \<Rightarrow> (mput key 2 visited, None)))"

fun visit_all :: "nat \<Rightarrow> JobDef gomap \<Rightarrow> string list \<Rightarrow> nat gomap \<Rightarrow> graph_error option" where
  "visit_all n jobs [] visited = None"
| "visit_all n jobs (key # keys) visited =
     (case visit n jobs key visited of
        (visited, Some err) \<Rightarrow> Some err
      | (visited, None) \<Rightarrow> visit_all n jobs keys visited)"

definition validateJobGraph :: "WorkflowDef \<Rightarrow> graph_error option" where
  "validateJobGraph wdef = visit_all (Suc (length (wd_Jobs wdef))) (wd_Jobs wdef) (mkeys (wd_Jobs wdef)) []"

section \<open>What the check decides\<close>

definition needs_rel :: "JobDef gomap \<Rightarrow> (string \<times> string) set" where
  "needs_rel jobs = {(dep, key). \<exists>jd. mget jobs key = Some jd \<and> dep \<in> set (jd_Needs jd)}"

definition needs_closed :: "JobDef gomap \<Rightarrow> bool" where
  "needs_closed jobs \<longleftrightarrow> (\<forall>key jd dep. mget jobs key = Some jd \<longrightarrow> dep \<in> set (jd_Needs jd) \<longrightarrow> mget jobs dep \<noteq> None)"

text \<open>The jobs not yet visited; the search needs fuel for one more than these.\<close>

definition unseen :: "JobDef gomap \<Rightarrow> nat gomap \<Rightarrow> string set" where
  "unseen jobs visited = {k. mget jobs k \<noteq> None \<and> mark visited k = 0}"

lemma mark_mput [simp]: "mark (mput k v m) k' = (if k' = k then v else mark m k')"
  by (simp add: mark_def)

lemma finite_jobs: "finite {k. mget jobs k \<noteq> None}"
  using finite_dom_map_of [of jobs] by (simp add: dom_def)

lemma finite_unseen [simp]: "finite (unseen jobs visited)"
  by (rule finite_subset [OF _ finite_jobs]) (auto simp: unseen_def)

text \<open>
  One call of \<open>visit\<close>: given that the jobs being visited depend on the key and the visited ones are
  well founded, it keeps the first set, extends the second by the key, or finds a defect.
\<close>

definition black_ok :: "JobDef gomap \<Rightarrow> nat gomap \<Rightarrow> bool" where
  "black_ok jobs visited \<longleftrightarrow> (\<forall>b. mark visited b \<le> 2) \<and> (\<forall>b. mark visited b = 2 \<longrightarrow>
     b \<in> Wellfounded.acc (needs_rel jobs) \<and> mget jobs b \<noteq> None \<and> (\<forall>dep. (dep, b) \<in> needs_rel jobs \<longrightarrow> mget jobs dep \<noteq> None))"

lemma black_okD:
  assumes "black_ok jobs visited" "mark visited b = 2"
  shows "b \<in> Wellfounded.acc (needs_rel jobs)" "mget jobs b \<noteq> None" "(dep, b) \<in> needs_rel jobs \<Longrightarrow> mget jobs dep \<noteq> None"
  using assms unfolding black_ok_def by blast+

definition sound_step :: "JobDef gomap \<Rightarrow> nat gomap \<Rightarrow> nat gomap \<times> graph_error option \<Rightarrow> bool" where
  "sound_step jobs visited res \<longleftrightarrow>
     (case res of
        (visited', None) \<Rightarrow>
          black_ok jobs visited' \<and> (\<forall>k. (mark visited' k = 1) = (mark visited k = 1)) \<and>
          (\<forall>k. mark visited k = 2 \<longrightarrow> mark visited' k = 2) \<and> unseen jobs visited' \<subseteq> unseen jobs visited
      | (_, Some err) \<Rightarrow> err \<noteq> OutOfFuel \<and> \<not> (needs_closed jobs \<and> acyclic (needs_rel jobs)))"

lemma visit_needs_sound:
  assumes visit: "\<And>dep visited'. dep \<in> set deps \<Longrightarrow> mget jobs dep \<noteq> None \<Longrightarrow> black_ok jobs visited' \<Longrightarrow>
      (\<And>g. mark visited' g = 1 \<Longrightarrow> (dep, g) \<in> (needs_rel jobs)\<^sup>+) \<Longrightarrow> unseen jobs visited' \<subseteq> unseen jobs visited \<Longrightarrow>
      sound_step jobs visited' (v dep visited') \<and> (snd (v dep visited') = None \<longrightarrow> mark (fst (v dep visited')) dep = 2)"
    and "mget jobs key = Some jd" "set deps \<subseteq> set (jd_Needs jd)"
    and "black_ok jobs visited" "\<And>dep g. dep \<in> set deps \<Longrightarrow> mark visited g = 1 \<Longrightarrow> (dep, g) \<in> (needs_rel jobs)\<^sup>+"
  shows "sound_step jobs visited (visit_needs v jobs key deps visited) \<and>
    (snd (visit_needs v jobs key deps visited) = None \<longrightarrow>
       (\<forall>dep \<in> set deps. mget jobs dep \<noteq> None \<and> mark (fst (visit_needs v jobs key deps visited)) dep = 2))"
  using assms
proof (induction deps arbitrary: visited)
  case Nil
  then show ?case by (simp add: sound_step_def)
next
  case (Cons dep deps)
  show ?case
  proof (cases "mget jobs dep")
    case None
    have "\<not> needs_closed jobs" using Cons.prems(2,3) None by (auto simp: needs_closed_def)
    with None show ?thesis by (simp add: sound_step_def)
  next
    case (Some j)
    obtain visited' r where v: "v dep visited = (visited', r)" by (cases "v dep visited")
    have step: "sound_step jobs visited (visited', r)" "r = None \<Longrightarrow> mark visited' dep = 2"
      using Cons.prems(1) [of dep visited] Cons.prems(4,5) v Some by auto
    show ?thesis
    proof (cases r)
      case (Some e)
      with \<open>mget jobs dep = Some j\<close> v step(1) show ?thesis by (simp add: sound_step_def)
    next
      case None
      with step have b: "black_ok jobs visited'" "\<And>k. (mark visited' k = 1) = (mark visited k = 1)"
        "\<And>k. mark visited k = 2 \<Longrightarrow> mark visited' k = 2" "unseen jobs visited' \<subseteq> unseen jobs visited"
        by (auto simp: sound_step_def)
      have IH: "sound_step jobs visited' (visit_needs v jobs key deps visited') \<and>
          (snd (visit_needs v jobs key deps visited') = None \<longrightarrow>
             (\<forall>dep \<in> set deps. mget jobs dep \<noteq> None \<and> mark (fst (visit_needs v jobs key deps visited')) dep = 2))"
        using Cons.prems b by (intro Cons.IH) (auto intro: subset_trans)
      obtain visited'' r' where w: "visit_needs v jobs key deps visited' = (visited'', r')" by (cases "visit_needs v jobs key deps visited'")
      show ?thesis
        using IH b step(2) [OF None] \<open>mget jobs dep = Some j\<close> v None w
        by (cases r') (auto simp: sound_step_def)
    qed
  qed
qed

lemma visit_sound:
  "card (unseen jobs visited) < n \<Longrightarrow> black_ok jobs visited \<Longrightarrow>
   (\<And>g. mark visited g = 1 \<Longrightarrow> (key, g) \<in> (needs_rel jobs)\<^sup>+) \<Longrightarrow> mget jobs key \<noteq> None \<Longrightarrow>
   sound_step jobs visited (visit n jobs key visited) \<and>
   (snd (visit n jobs key visited) = None \<longrightarrow> mark (fst (visit n jobs key visited)) key = 2)"
proof (induction n arbitrary: key visited)
  case (Suc n)
  obtain jd where jd: "mget jobs key = Some jd" using Suc.prems(4) by auto
  consider "mark visited key = 2" | "mark visited key = 1" | "mark visited key \<noteq> 1" "mark visited key \<noteq> 2" by blast
  then show ?case
  proof cases
    case 1
    with Suc.prems(2) show ?thesis by (simp add: sound_step_def)
  next
    case 2
    with Suc.prems(3) [of key] have "\<not> acyclic (needs_rel jobs)" by (auto simp: acyclic_def)
    with 2 show ?thesis by (simp add: sound_step_def)
  next
    case 3
    then have zero: "mark visited key = 0" using Suc.prems(2) by (auto simp: black_ok_def) (metis One_nat_def Suc_1 le_Suc_eq le_zero_eq)
    let ?v = "mput key 1 visited"
    have un: "unseen jobs ?v = unseen jobs visited - {key}" by (auto simp: unseen_def)
    have card: "card (unseen jobs v') < n" if "unseen jobs v' \<subseteq> unseen jobs ?v" for v'
    proof -
      have "key \<in> unseen jobs visited" using jd zero by (simp add: unseen_def)
      then have "card (unseen jobs ?v) < card (unseen jobs visited)" unfolding un by (rule card_Diff1_less [OF finite_unseen])
      moreover have "card (unseen jobs v') \<le> card (unseen jobs ?v)" by (rule card_mono [OF finite_unseen that])
      ultimately show ?thesis using Suc.prems(1) by simp
    qed
    have b: "black_ok jobs ?v" using Suc.prems(2) by (auto simp: black_ok_def)
    have dep: "(dep, key) \<in> needs_rel jobs" if "dep \<in> set (jd_Needs jd)" for dep using jd that by (auto simp: needs_rel_def)
    have trans: "(dep, g) \<in> (needs_rel jobs)\<^sup>+" if "dep \<in> set (jd_Needs jd)" "mark ?v g = 1" for dep g
      using that dep [of dep] Suc.prems(3) [of g] by (cases "g = key") (auto intro: trancl_into_trancl2)
    have needs: "sound_step jobs ?v (visit_needs (visit n jobs) jobs key (jd_Needs jd) ?v) \<and>
        (snd (visit_needs (visit n jobs) jobs key (jd_Needs jd) ?v) = None \<longrightarrow>
          (\<forall>dep \<in> set (jd_Needs jd). mget jobs dep \<noteq> None \<and> mark (fst (visit_needs (visit n jobs) jobs key (jd_Needs jd) ?v)) dep = 2))"
    proof (rule visit_needs_sound [OF _ jd subset_refl b trans])
      fix dep v' assume v': "dep \<in> set (jd_Needs jd)" "mget jobs dep \<noteq> None" "black_ok jobs v'"
        "\<And>g. mark v' g = 1 \<Longrightarrow> (dep, g) \<in> (needs_rel jobs)\<^sup>+" "unseen jobs v' \<subseteq> unseen jobs ?v"
      show "sound_step jobs v' (visit n jobs dep v') \<and> (snd (visit n jobs dep v') = None \<longrightarrow> mark (fst (visit n jobs dep v')) dep = 2)"
        by (rule Suc.IH [OF card [OF v'(5)] v'(3,4,2)])
    qed
    obtain v1 r where v1: "visit_needs (visit n jobs) jobs key (jd_Needs jd) ?v = (v1, r)"
      by (cases "visit_needs (visit n jobs) jobs key (jd_Needs jd) ?v")
    have eq: "visit (Suc n) jobs key visited = (case r of Some err \<Rightarrow> (v1, Some err) | None \<Rightarrow> (mput key 2 v1, None))"
      using 3 jd v1 by (cases r) (simp_all add: Let_def)
    show ?thesis
    proof (cases r)
      case (Some err)
      with needs v1 eq show ?thesis by (simp add: sound_step_def)
    next
      case None
      with needs v1 have s: "black_ok jobs v1" "\<And>k. (mark v1 k = 1) = (mark ?v k = 1)" "\<And>k. mark ?v k = 2 \<Longrightarrow> mark v1 k = 2"
        "unseen jobs v1 \<subseteq> unseen jobs ?v"
        and deps: "\<And>dep. dep \<in> set (jd_Needs jd) \<Longrightarrow> mget jobs dep \<noteq> None \<and> mark v1 dep = 2"
        by (auto simp: sound_step_def)
      have only: "dep \<in> set (jd_Needs jd)" if "(dep, key) \<in> needs_rel jobs" for dep using that jd by (auto simp: needs_rel_def)
      have acc: "key \<in> Wellfounded.acc (needs_rel jobs)"
        by (rule accI) (use only deps s(1) in \<open>auto simp: black_ok_def\<close>)
      have "black_ok jobs (mput key 2 v1)"
        using s(1) acc only deps jd by (auto simp: black_ok_def)
      moreover have "unseen jobs (mput key 2 v1) \<subseteq> unseen jobs visited"
        using s(4) un by (auto simp: unseen_def)
      ultimately show ?thesis using s(2,3) zero None eq by (auto simp: sound_step_def split: if_splits)
    qed
  qed
qed simp

lemma visit_all_sound:
  "card (unseen jobs visited) < n \<Longrightarrow> black_ok jobs visited \<Longrightarrow> (\<And>g. mark visited g \<noteq> 1) \<Longrightarrow>
   \<forall>key \<in> set keys. mget jobs key \<noteq> None \<Longrightarrow>
   (case visit_all n jobs keys visited of
      None \<Rightarrow> \<exists>visited'. black_ok jobs visited' \<and> (\<forall>key \<in> set keys. mark visited' key = 2) \<and> (\<forall>k. mark visited k = 2 \<longrightarrow> mark visited' k = 2)
    | Some err \<Rightarrow> err \<noteq> OutOfFuel \<and> \<not> (needs_closed jobs \<and> acyclic (needs_rel jobs)))"
proof (induction keys arbitrary: visited)
  case (Cons key keys)
  obtain v1 r where v1: "visit n jobs key visited = (v1, r)" by (cases "visit n jobs key visited")
  have step: "sound_step jobs visited (v1, r)" "r = None \<Longrightarrow> mark v1 key = 2"
    using visit_sound [of jobs visited n key] Cons.prems v1 by auto
  show ?case
  proof (cases r)
    case None
    with step have s: "black_ok jobs v1" "\<And>k. (mark v1 k = 1) = (mark visited k = 1)" "\<And>k. mark visited k = 2 \<Longrightarrow> mark v1 k = 2"
      "unseen jobs v1 \<subseteq> unseen jobs visited" by (auto simp: sound_step_def)
    have "card (unseen jobs v1) < n" using card_mono [OF finite_unseen s(4)] Cons.prems(1) by simp
    then have IH: "case visit_all n jobs keys v1 of
        None \<Rightarrow> \<exists>visited'. black_ok jobs visited' \<and> (\<forall>key \<in> set keys. mark visited' key = 2) \<and> (\<forall>k. mark v1 k = 2 \<longrightarrow> mark visited' k = 2)
      | Some err \<Rightarrow> err \<noteq> OutOfFuel \<and> \<not> (needs_closed jobs \<and> acyclic (needs_rel jobs))"
      using Cons.IH [of v1] s(1,2) Cons.prems(3,4) by auto
    with None v1 s(3) step(2) show ?thesis by (auto split: option.splits)
  next
    case (Some err)
    with v1 step(1) show ?thesis by (simp add: sound_step_def)
  qed
qed auto

lemma validate_decides:
  "(validateJobGraph wdef = None) = (needs_closed (wd_Jobs wdef) \<and> acyclic (needs_rel (wd_Jobs wdef))) \<and>
   validateJobGraph wdef \<noteq> Some OutOfFuel"
proof -
  let ?jobs = "wd_Jobs wdef"
  have "unseen ?jobs [] \<subseteq> set (mkeys ?jobs)"
    by (auto simp: unseen_def) (metis domIff dom_map_of_conv_image_fst option.distinct(1))
  then have "card (unseen ?jobs []) \<le> card (set (mkeys ?jobs))" by (rule card_mono [OF finite_set])
  also have "\<dots> \<le> length ?jobs" using card_length [of "mkeys ?jobs"] by simp
  finally have card: "card (unseen ?jobs []) < Suc (length ?jobs)" by simp
  have keys: "\<forall>key \<in> set (mkeys ?jobs). mget ?jobs key \<noteq> None"
    by (metis domIff dom_map_of_conv_image_fst list.set_map)
  have "black_ok ?jobs []" "\<And>g. mark [] g \<noteq> 1" by (simp_all add: black_ok_def mark_def)
  note all = visit_all_sound [OF card this keys]
  show ?thesis
  proof (cases "validateJobGraph wdef")
    case None
    then have "visit_all (Suc (length ?jobs)) ?jobs (mkeys ?jobs) [] = None" by (simp only: validateJobGraph_def)
    with all obtain v where v: "black_ok ?jobs v" "\<forall>key \<in> set (mkeys ?jobs). mark v key = 2" by force
    have key: "key \<in> set (mkeys ?jobs)" if "mget ?jobs key = Some jd" for key jd
      using mget_Some_in_set [OF that] by force
    have "needs_closed ?jobs"
      unfolding needs_closed_def
    proof (intro allI impI)
      fix k jd dep assume k: "mget ?jobs k = Some jd" "dep \<in> set (jd_Needs jd)"
      then have "(dep, k) \<in> needs_rel ?jobs" by (auto simp: needs_rel_def)
      moreover have "mark v k = 2" using v(2) key [OF k(1)] by (rule bspec)
      ultimately show "mget ?jobs dep \<noteq> None" using black_okD(3) [OF v(1)] by blast
    qed
    moreover have "k \<in> Wellfounded.acc (needs_rel ?jobs)" for k
    proof (cases "mget ?jobs k")
      case None
      show ?thesis by (rule accI) (use None in \<open>auto simp: needs_rel_def\<close>)
    next
      case (Some jd)
      then have "mark v k = 2" using v(2) key by blast
      then show ?thesis by (rule black_okD(1) [OF v(1)])
    qed
    then have "wf (needs_rel ?jobs)" by (rule acc_wfI [OF allI])
    ultimately show ?thesis using None by (simp add: wf_acyclic)
  next
    case (Some err)
    with all show ?thesis by (simp add: validateJobGraph_def)
  qed
qed

text \<open>
  C18: The check of the job graph decides what it is for: it accepts a workflow definition exactly when
  every needed job exists and no job depends on itself, directly or through others; and it always
  ends with an answer, the search never being deeper than the number of jobs.
\<close>

theorem validateJobGraph_correct:
  "(validateJobGraph wdef = None) = (needs_closed (wd_Jobs wdef) \<and> acyclic (needs_rel (wd_Jobs wdef))) \<and>
   validateJobGraph wdef \<noteq> Some OutOfFuel"
  by (rule validate_decides)

section \<open>What the expansion does\<close>

lemma expanded_key_inj: "expanded_key key i = expanded_key key j \<longleftrightarrow> i = j"
  by (auto simp: expanded_key_def Itoa_def dest: nat_digits_inj)

lemma expanded_key_neq: "expanded_key key i \<noteq> key"
  by (simp add: expanded_key_def)

lemma get_beyond: "\<forall>i < length combos. k \<noteq> expanded_key key (n + i) \<Longrightarrow>
  mget (foldl (\<lambda>jobs (i, combo). mput (expanded_key key i) (g combo) jobs) jobs (enumerate n combos)) k = mget jobs k"
proof (induction combos arbitrary: n jobs)
  case (Cons c combos)
  have "k \<noteq> expanded_key key n" using Cons.prems by force
  moreover have "\<forall>i < length combos. k \<noteq> expanded_key key (Suc n + i)" using Cons.prems by force
  ultimately show ?case using Cons.IH [where n = "Suc n"] by simp
qed simp

lemma get_copy_from: "i < length combos \<Longrightarrow>
  mget (foldl (\<lambda>jobs (i, combo). mput (expanded_key key i) (g combo) jobs) jobs (enumerate n combos)) (expanded_key key (n + i)) =
    Some (g (combos ! i))"
proof (induction combos arbitrary: n i jobs)
  case (Cons c combos)
  show ?case
  proof (cases i)
    case 0
    then show ?thesis by (simp add: get_beyond expanded_key_inj)
  next
    case (Suc j)
    with Cons.prems Cons.IH [where n = "Suc n" and i = j] show ?thesis by simp
  qed
qed simp

lemma get_copy: "i < length combos \<Longrightarrow>
  mget (foldl (\<lambda>jobs (i, combo). mput (expanded_key key i) (g combo) jobs) jobs (enumerate 0 combos)) (expanded_key key i) =
    Some (g (combos ! i))"
  using get_copy_from [where n = 0] by simp

lemma get_other: "\<forall>i < length combos. k \<noteq> expanded_key key i \<Longrightarrow>
  mget (foldl (\<lambda>jobs (i, combo). mput (expanded_key key i) (g combo) jobs) jobs (enumerate 0 combos)) k = mget jobs k"
  using get_beyond [where n = 0] by simp

lemma get_rewritten: "mget (map (\<lambda>(k, other). (k, rewrite_needs key keys other)) jobs) k = map_option (rewrite_needs key keys) (mget jobs k)"
  by (simp add: map_of_map)

text \<open>The jobs after the expansion of one.\<close>

lemma expand_matrix_job:
  assumes "job_combos jd \<noteq> []"
  shows "i < length (job_combos jd) \<Longrightarrow> mget (expand_job jobs (key, jd)) (expanded_key key i) =
      Some (rewrite_needs key (map (expanded_key key) [0..<length (job_combos jd)])
        (jd\<lparr>jd_Name := MatrixJobName key (job_combos jd ! i),
            jd_Env := Some (expanded_env (jd_Env jd) (job_combos jd) (job_combos jd ! i))\<rparr>))"
    "\<forall>i < length (job_combos jd). k \<noteq> expanded_key key i \<Longrightarrow> mget (expand_job jobs (key, jd)) k =
      map_option (rewrite_needs key (map (expanded_key key) [0..<length (job_combos jd)])) (mget jobs k)"
  using assms by (simp_all add: expand_job_def Let_def get_rewritten get_copy get_other)

lemma expand_plain_job: "job_combos jd = [] \<Longrightarrow> expand_job jobs (key, jd) = mput key jd jobs"
  by (simp add: expand_job_def)

text \<open>A plain job and a matrix of two values, for the concrete instances of the two properties.\<close>

definition simple_job :: JobDef where
  "simple_job = \<lparr>jd_Name = [], jd_Needs = [], jd_Env = None, jd_Outputs = [], jd_Strategy = None, jd_If = [],
     jd_ContinueOnError = False, jd_TimeoutMinutes = 0\<rparr>"

definition two_versions :: StrategyDef where
  "two_versions = \<lparr>sd_Matrix = \<lparr>mx_Values = [(''x'', [YStr ''1'', YStr ''2''])], mx_Include = [], mx_Exclude = []\<rparr>,
     sd_FailFast = None, sd_MaxParallel = 0\<rparr>"

lemma two_combos: "job_combos (simple_job\<lparr>jd_Strategy := Some two_versions\<rparr>) = [[(''x'', YStr ''1'')], [(''x'', YStr ''2'')]]"
  by code_simp

text \<open>
  The expansion depends on the order in which Go visits the jobs. Take a matrix job \<open>b\<close> and a plain
  job \<open>t\<close> that needs it. Visited after \<open>t\<close>, the matrix job replaces its name in the needs of \<open>t\<close> by the
  names of its copies, and the workflow is accepted; visited before, it does not, \<open>t\<close> is left needing
  a job that no longer exists, and the same workflow is refused. Go leaves the order of a map open.
\<close>

theorem expansion_depends_on_order:
  assumes "job_combos jb \<noteq> []" "jd_Needs jb = []" "job_combos jt = []" "jd_Needs jt = [b]"
    and "t \<noteq> b" "\<forall>i. t \<noteq> expanded_key b i"
  shows "validateJobGraph (expandMatrixJobs (wdef\<lparr>wd_Jobs := [(t, jt), (b, jb)]\<rparr>)) = None \<and>
    validateJobGraph (expandMatrixJobs (wdef\<lparr>wd_Jobs := [(b, jb), (t, jt)]\<rparr>)) \<noteq> None"
proof
  let ?keys = "map (expanded_key b) [0..<length (job_combos jb)]"
  let ?good = "expand_job [(t, jt)] (b, jb)"
  have good: "wd_Jobs (expandMatrixJobs (wdef\<lparr>wd_Jobs := [(t, jt), (b, jb)]\<rparr>)) = ?good"
    using assms(3) by (simp add: expandMatrixJobs_def expand_plain_job)
  have t: "mget ?good t = Some (rewrite_needs b ?keys jt)"
    using expand_matrix_job(2) [OF assms(1), of t b "[(t, jt)]"] assms(6) by simp
  have copy: "mget ?good (expanded_key b i) \<noteq> None" if "i < length (job_combos jb)" for i
    using expand_matrix_job(1) [OF assms(1) that] by simp
  have needs: "k = t \<and> dep \<in> set ?keys" if "(dep, k) \<in> needs_rel ?good" for dep k
  proof (cases "\<exists>i. k = expanded_key b i")
    case True
    then obtain i where k: "k = expanded_key b i" by blast
    have "i < length (job_combos jb)"
    proof (rule ccontr)
      assume "\<not> i < length (job_combos jb)"
      then have "\<forall>j < length (job_combos jb). k \<noteq> expanded_key b j" by (auto simp: k expanded_key_inj)
      from expand_matrix_job(2) [OF assms(1) this, of "[(t, jt)]"] have "mget ?good k = None"
        using assms(6) by (metis k map_of.simps map_of_Cons_code option.map(1))
      with that show False by (auto simp: needs_rel_def)
    qed
    from expand_matrix_job(1) [OF assms(1) this, of "[(t, jt)]" b] that k assms(2) show ?thesis
      by (auto simp: needs_rel_def rewrite_needs_def)
  next
    case False
    with expand_matrix_job(2) [OF assms(1), of k b "[(t, jt)]"] that assms(4) show ?thesis
      by (auto simp: needs_rel_def rewrite_needs_def split: if_splits)
  qed
  have "needs_closed ?good"
    unfolding needs_closed_def
  proof (intro allI impI)
    fix key jd dep assume "mget ?good key = Some jd" "dep \<in> set (jd_Needs jd)"
    then have "(dep, key) \<in> needs_rel ?good" by (auto simp: needs_rel_def)
    from needs [OF this] copy show "mget ?good dep \<noteq> None" by auto
  qed
  moreover have "acyclic (needs_rel ?good)"
  proof (rule acyclicI, intro allI notI)
    fix x assume "(x, x) \<in> (needs_rel ?good)\<^sup>+"
    then obtain y z where "(x, y) \<in> needs_rel ?good" "(z, x) \<in> needs_rel ?good" by (meson tranclD tranclD2)
    with needs [of x y] needs [of z x] assms(6) show False by fastforce
  qed
  ultimately show "validateJobGraph (expandMatrixJobs (wdef\<lparr>wd_Jobs := [(t, jt), (b, jb)]\<rparr>)) = None"
    using validate_decides by (simp add: good)
next
  have bad: "wd_Jobs (expandMatrixJobs (wdef\<lparr>wd_Jobs := [(b, jb), (t, jt)]\<rparr>)) = mput t jt (expand_job [] (b, jb))"
    using assms(3) by (simp add: expandMatrixJobs_def expand_plain_job)
  have "mget (expand_job [] (b, jb)) b = None"
    using expand_matrix_job(2) [OF assms(1), of b b "[]"] expanded_key_neq [of b] by (metis map_of.simps(1) option.map(1))
  then have "\<not> needs_closed (mput t jt (expand_job [] (b, jb)))"
    using assms(4,5) by (auto simp: needs_closed_def intro!: exI [of _ t])
  then show "validateJobGraph (expandMatrixJobs (wdef\<lparr>wd_Jobs := [(b, jb), (t, jt)]\<rparr>)) \<noteq> None"
    using validate_decides by (metis bad)
qed

theorem expansion_depends_on_order_witness:
  "validateJobGraph (expandMatrixJobs \<lparr>wd_Name = [], wd_Env = None, wd_Concurrency = None,
       wd_Jobs = [(''t'', simple_job\<lparr>jd_Needs := [''b'']\<rparr>), (''b'', simple_job\<lparr>jd_Strategy := Some two_versions\<rparr>)]\<rparr>) = None \<and>
   validateJobGraph (expandMatrixJobs \<lparr>wd_Name = [], wd_Env = None, wd_Concurrency = None,
       wd_Jobs = [(''b'', simple_job\<lparr>jd_Strategy := Some two_versions\<rparr>), (''t'', simple_job\<lparr>jd_Needs := [''b'']\<rparr>)]\<rparr>) \<noteq> None"
  using expansion_depends_on_order [of "simple_job\<lparr>jd_Strategy := Some two_versions\<rparr>" "simple_job\<lparr>jd_Needs := [''b'']\<rparr>" "''b''" "''t''"
      "\<lparr>wd_Name = [], wd_Env = None, wd_Concurrency = None, wd_Jobs = []\<rparr>"] two_combos
  by (simp add: simple_job_def job_combos_def expanded_key_def)

lemma get_write_combo:
  "wf_map combo \<Longrightarrow> mget (write_combo env combo) (''__matrix_'' @ mk) =
     (case mget combo mk of Some mv \<Rightarrow> Some (sprint mv) | None \<Rightarrow> mget env (''__matrix_'' @ mk))"
proof (induction combo arbitrary: env)
  case (Cons kv combo)
  obtain k v where kv: "kv = (k, v)" by fastforce
  have "write_combo env (kv # combo) = write_combo (mput (''__matrix_'' @ k) (sprint v) env) combo"
    by (simp add: write_combo_def kv)
  moreover have "mget combo k = None" using Cons.prems by (simp add: kv map_of_eq_None_iff)
  ultimately show ?case using Cons by (auto simp: kv split: option.split)
qed (simp add: write_combo_def)

text \<open>
  The matrix values of a copy. A job without an \<open>env\<close> block hands each copy the values of its own
  combination. With one, the copies share it: every copy is handed the values of the last combination.
\<close>

theorem matrix_values_of_copies:
  assumes "i < length (job_combos jd)" "combo = (if jd_Env jd = None then job_combos jd ! i else last (job_combos jd))"
    and "wf_map combo" "mget combo mk = Some mv"
  shows "\<exists>copy env. mget (expand_job jobs (key, jd)) (expanded_key key i) = Some copy \<and> jd_Env copy = Some env \<and>
    mget env (''__matrix_'' @ mk) = Some (sprint mv)"
proof -
  have ne: "job_combos jd \<noteq> []" using assms(1) by auto
  have "mget (expanded_env (jd_Env jd) (job_combos jd) (job_combos jd ! i)) (''__matrix_'' @ mk) = Some (sprint mv)"
  proof (cases "jd_Env jd")
    case None
    with assms(2-4) get_write_combo [of combo "[]" mk] show ?thesis by (simp add: expanded_env_def)
  next
    case (Some env)
    have "foldl write_combo env (job_combos jd) = write_combo (foldl write_combo env (butlast (job_combos jd))) (last (job_combos jd))"
      using ne by (metis append_butlast_last_id foldl_Cons foldl_Nil foldl_append)
    with assms(2-4) get_write_combo [of combo _ mk] Some show ?thesis by (simp add: expanded_env_def)
  qed
  with expand_matrix_job(1) [OF ne assms(1), of jobs key] show ?thesis by (simp add: rewrite_needs_def)
qed

theorem matrix_values_of_copies_witness:
  "\<exists>copy env. mget (expand_job [] (''m'', simple_job\<lparr>jd_Strategy := Some two_versions, jd_Env := Some []\<rparr>)) (expanded_key ''m'' 0) = Some copy \<and>
     jd_Env copy = Some env \<and> mget env ''__matrix_x'' = Some ''2''"
proof -
  let ?j = "simple_job\<lparr>jd_Strategy := Some two_versions, jd_Env := Some []\<rparr>"
  have c: "job_combos ?j = [[(''x'', YStr ''1'')], [(''x'', YStr ''2'')]]" by code_simp
  have p: "0 < length (job_combos ?j)" "[(''x'', YStr ''2'')] = (if jd_Env ?j = None then job_combos ?j ! 0 else last (job_combos ?j))"
    "wf_map [(''x'', YStr ''2'')]" "mget [(''x'', YStr ''2'')] ''x'' = Some (YStr ''2'')"
    unfolding c by simp_all
  have "sprint (YStr ''2'') = ''2''" by simp
  with matrix_values_of_copies [OF p, of "[]" "''m''"] show ?thesis by (simp only: append.simps)
qed

end
