(* ===== verification/WorkflowFiles.thy ===== *)
theory WorkflowFiles
  imports Prelude "HOL-Library.Word"
begin

text \<open>
  The workflow files of bleephub (\<open>store_workflow_files.go\<close>) and how a request names one
  (\<open>resolveWorkflowFile\<close> and \<open>lastPathSegment\<close> of \<open>gh_workflows_rest.go\<close>). The identifier is the 64-bit
  FNV-1a hash of repository and path with the sign bit cleared, on machine words. The walk of a git
  tree is not modelled. The results: the identifier is a non-negative \<open>int64\<close>, and a file is found
  under its path with the last body registered and the first creation time.
\<close>

unbundle bit_operations_syntax

section \<open>Files\<close>

record WorkflowFile =
  wl_ID :: int
  wl_Name :: string
  wl_Path :: string
  wl_State :: string
  wl_RepoFullName :: string
  wl_NodeID :: string
  wl_YAML :: string
  wl_Source :: string
  wl_CreatedAt :: int
  wl_UpdatedAt :: int

text \<open>\<open>hash/fnv\<close>'s \<open>New64a\<close>: one step multiplies, wrapping at 64 bits.\<close>

definition fnv_step :: "64 word \<Rightarrow> char \<Rightarrow> 64 word" where
  "fnv_step h c = (h XOR of_nat (of_char c)) * 1099511628211"

definition fnv64a :: "string \<Rightarrow> 64 word" where
  "fnv64a s = foldl fnv_step 14695981039346656037 s"

definition stableWorkflowFileID :: "string \<Rightarrow> string \<Rightarrow> int" where
  "stableWorkflowFileID repoFullName path =
     uint (fnv64a (repoFullName @ [CHR 0x00] @ path) AND 0x7fffffffffffffff)"

definition RegisterWorkflowFile ::
  "int \<Rightarrow> string \<Rightarrow> string \<Rightarrow> string \<Rightarrow> string \<Rightarrow> string \<Rightarrow> (int \<times> WorkflowFile) list \<Rightarrow> (int \<times> WorkflowFile) list" where
  "RegisterWorkflowFile now repoFullName path name yamlBody source files =
     (let i = stableWorkflowFileID repoFullName path in
      case mget files i of
        Some existing \<Rightarrow>
          mput i (existing\<lparr>wl_Name := name, wl_YAML := yamlBody, wl_Source := source, wl_UpdatedAt := now\<rparr>) files
      | None \<Rightarrow>
          mput i \<lparr>wl_ID = i, wl_Name = name, wl_Path = path, wl_State = ''active'', wl_RepoFullName = repoFullName,
                  wl_NodeID = ''WF_'' @ path, wl_YAML = yamlBody, wl_Source = source, wl_CreatedAt = now, wl_UpdatedAt = now\<rparr> files)"

definition GetWorkflowFile :: "string \<Rightarrow> int \<Rightarrow> (int \<times> WorkflowFile) list \<Rightarrow> WorkflowFile option" where
  "GetWorkflowFile repoFullName i files =
     (case mget files i of
        None \<Rightarrow> None
      | Some f \<Rightarrow> if wl_RepoFullName f \<noteq> repoFullName then None else Some f)"

definition ListWorkflowFiles :: "string \<Rightarrow> (int \<times> WorkflowFile) list \<Rightarrow> WorkflowFile list" where
  "ListWorkflowFiles repoFullName files = filter (\<lambda>f. wl_RepoFullName f = repoFullName) (map snd files)"

definition lastPathSegment :: "string \<Rightarrow> string" where
  "lastPathSegment p = (case LastIndexByte p CHR ''/'' of Some i \<Rightarrow> drop (Suc i) p | None \<Rightarrow> p)"

definition resolveWorkflowFile :: "string \<Rightarrow> string \<Rightarrow> (int \<times> WorkflowFile) list \<Rightarrow> WorkflowFile option" where
  "resolveWorkflowFile repoFullName idOrPath files =
     (case Option.bind (Atoi idOrPath) (\<lambda>i. GetWorkflowFile repoFullName i files) of
        Some f \<Rightarrow> Some f
      | None \<Rightarrow>
          find (\<lambda>f. wl_Path f = idOrPath \<or> lastPathSegment (wl_Path f) = idOrPath) (ListWorkflowFiles repoFullName files))"

section \<open>What a registration gives\<close>

text \<open>Every file is stored under the identifier of its repository and path.\<close>

definition files_ok :: "(int \<times> WorkflowFile) list \<Rightarrow> bool" where
  "files_ok files \<longleftrightarrow> wf_map files \<and>
     (\<forall>(i, f) \<in> set files. stableWorkflowFileID (wl_RepoFullName f) (wl_Path f) = i \<and> wl_ID f = i)"

lemma files_okD: "files_ok files \<Longrightarrow> mget files i = Some f \<Longrightarrow> stableWorkflowFileID (wl_RepoFullName f) (wl_Path f) = i \<and> wl_ID f = i"
  by (auto simp: files_ok_def dest!: mget_Some_in_set)

lemma files_okI:
  assumes "wf_map files"
    and "\<And>i f. mget files i = Some f \<Longrightarrow> stableWorkflowFileID (wl_RepoFullName f) (wl_Path f) = i \<and> wl_ID f = i"
  shows "files_ok files"
proof -
  have "case x of (i, f) \<Rightarrow> stableWorkflowFileID (wl_RepoFullName f) (wl_Path f) = i \<and> wl_ID f = i" if "x \<in> set files" for x
    using assms(2) [of "fst x" "snd x"] mget_in_set [OF assms(1), of "fst x" "snd x"] that by (simp add: split_beta)
  with assms(1) show ?thesis by (simp add: files_ok_def)
qed

lemma files_ok_register:
  assumes "files_ok files"
  shows "files_ok (RegisterWorkflowFile now repo path name yaml source files)"
proof (rule files_okI)
  have dist: "wf_map files" using assms by (simp add: files_ok_def)
  then show "wf_map (RegisterWorkflowFile now repo path name yaml source files)"
    by (simp add: RegisterWorkflowFile_def Let_def split: option.split)
  fix i f assume "mget (RegisterWorkflowFile now repo path name yaml source files) i = Some f"
  then show "stableWorkflowFileID (wl_RepoFullName f) (wl_Path f) = i \<and> wl_ID f = i"
    using files_okD [OF assms, of i]
    by (auto simp: RegisterWorkflowFile_def Let_def split: option.splits if_splits)
qed

lemma mask_63: "0x7fffffffffffffff = (mask 63 :: 64 word)"
  by (simp add: mask_eq_exp_minus_1)

text \<open>The identifier is a non-negative \<open>int64\<close>, so that its decimal text names the file.\<close>

theorem workflow_file_id_is_int64: "0 \<le> stableWorkflowFileID repo path \<and> int64_ok (stableWorkflowFileID repo path)"
proof -
  have "uint (fnv64a s AND 0x7fffffffffffffff) < 2 ^ 63" for s
    unfolding mask_63 take_bit_eq_mask [symmetric] unsigned_take_bit_eq by (rule take_bit_int_less_exp)
  moreover have "- (2 ^ 63) \<le> uint i" for i :: "64 word" by (rule order_trans [OF _ uint_ge_0]) simp
  ultimately show ?thesis by (simp add: stableWorkflowFileID_def int64_ok_def)
qed

lemma lastPathSegment_no_slash: "CHR ''/'' \<notin> set (lastPathSegment p)"
proof (induction p)
  case (Cons c p)
  have "LastIndexByte s d = None \<Longrightarrow> d \<notin> set s" for s d by (induction s) (auto split: option.splits if_splits)
  with Cons show ?case by (auto simp: lastPathSegment_def split: option.splits if_splits)
qed (simp add: lastPathSegment_def)

lemma Atoi_slash: "CHR ''/'' \<in> set s \<Longrightarrow> Atoi s = None"
proof -
  assume "CHR ''/'' \<in> set s"
  then have "CHR ''/'' \<in> set (snd (sign_split s))" by (cases s) (auto simp: sign_split_def)
  then have "parse_digits (snd (sign_split s)) = None" by (force simp: parse_digits_def list_all_iff is_digit_def)
  then show ?thesis by (simp add: Atoi_def split: prod.split) auto
qed

text \<open>
  After a registration the file is found under its path, with the name, body and source just
  given, and with the creation time of the first registration, provided the identifier was not taken by
  another file.
\<close>

theorem registered_file_resolves:
  assumes "files_ok files" "CHR ''/'' \<in> set path"
    and "\<forall>f. mget files (stableWorkflowFileID repo path) = Some f \<longrightarrow> wl_RepoFullName f = repo \<and> wl_Path f = path"
  shows "\<exists>f. resolveWorkflowFile repo path (RegisterWorkflowFile now repo path name yaml source files) = Some f \<and>
    wl_Name f = name \<and> wl_YAML f = yaml \<and> wl_Source f = source \<and> wl_UpdatedAt f = now \<and>
    wl_CreatedAt f = (case resolveWorkflowFile repo path files of Some g \<Rightarrow> wl_CreatedAt g | None \<Rightarrow> now)"
proof -
  let ?i = "stableWorkflowFileID repo path"
  have named: "find (\<lambda>f. wl_Path f = path \<or> lastPathSegment (wl_Path f) = path) (ListWorkflowFiles repo fs) = mget fs ?i"
    if "files_ok fs" "\<forall>f. mget fs ?i = Some f \<longrightarrow> wl_RepoFullName f = repo \<and> wl_Path f = path" for fs
  proof (cases "find (\<lambda>f. wl_Path f = path \<or> lastPathSegment (wl_Path f) = path) (ListWorkflowFiles repo fs)")
    case None
    have "mget fs ?i = None"
    proof (rule ccontr)
      assume "mget fs ?i \<noteq> None"
      then obtain f where "mget fs ?i = Some f" by auto
      with that(2) None mget_Some_in_set [of fs ?i f] show False by (force simp: find_None_iff ListWorkflowFiles_def)
    qed
    with None show ?thesis by simp
  next
    case (Some f)
    then have "f \<in> snd ` set fs" "wl_RepoFullName f = repo" "wl_Path f = path"
      using assms(2) lastPathSegment_no_slash [of "wl_Path f"] by (auto dest!: find_SomeD simp: ListWorkflowFiles_def)
    then obtain i where i: "(i, f) \<in> set fs" by force
    have "wf_map fs" using that(1) by (simp add: files_ok_def)
    with i have "mget fs i = Some f" by (simp only: mget_in_set)
    with files_okD [OF that(1) this] \<open>wl_RepoFullName f = repo\<close> \<open>wl_Path f = path\<close> have "mget fs ?i = Some f" by simp
    with Some show ?thesis by simp
  qed
  have resolve: "resolveWorkflowFile repo path fs = mget fs ?i"
    if "files_ok fs" "\<forall>f. mget fs ?i = Some f \<longrightarrow> wl_RepoFullName f = repo \<and> wl_Path f = path" for fs
    using named [OF that] Atoi_slash [OF assms(2)] by (simp add: resolveWorkflowFile_def)
  let ?fs = "RegisterWorkflowFile now repo path name yaml source files"
  have "\<forall>f. mget ?fs ?i = Some f \<longrightarrow> wl_RepoFullName f = repo \<and> wl_Path f = path"
    using assms(3) by (auto simp: RegisterWorkflowFile_def Let_def split: option.splits)
  then have new: "resolveWorkflowFile repo path ?fs = mget ?fs ?i" by (rule resolve [OF files_ok_register [OF assms(1)]])
  show ?thesis
    unfolding new resolve [OF assms(1,3)]
    by (cases "mget files ?i") (simp_all add: RegisterWorkflowFile_def Let_def)
qed

theorem registered_file_resolves_witness:
  "\<exists>f. resolveWorkflowFile ''o/r'' ''.github/workflows/ci.yml''
      (RegisterWorkflowFile 7 ''o/r'' ''.github/workflows/ci.yml'' ''ci'' ''new'' ''submitted''
        (RegisterWorkflowFile 3 ''o/r'' ''.github/workflows/ci.yml'' ''ci'' ''old'' ''discovered'' [])) = Some f \<and>
    wl_YAML f = ''new'' \<and> wl_CreatedAt f = 3"
proof -
  let ?files = "RegisterWorkflowFile 3 ''o/r'' ''.github/workflows/ci.yml'' ''ci'' ''old'' ''discovered'' []"
  have ok: "files_ok ?files" by (rule files_ok_register) (simp add: files_ok_def)
  have one: "?files = [(stableWorkflowFileID ''o/r'' ''.github/workflows/ci.yml'', snd (hd ?files))]"
    "wl_RepoFullName (snd (hd ?files)) = ''o/r''" "wl_Path (snd (hd ?files)) = ''.github/workflows/ci.yml''"
    "wl_CreatedAt (snd (hd ?files)) = 3"
    by (simp_all add: RegisterWorkflowFile_def Let_def)
  have other: "\<forall>f. mget ?files (stableWorkflowFileID ''o/r'' ''.github/workflows/ci.yml'') = Some f \<longrightarrow>
      wl_RepoFullName f = ''o/r'' \<and> wl_Path f = ''.github/workflows/ci.yml''"
    by (simp add: RegisterWorkflowFile_def Let_def)
  have "resolveWorkflowFile ''o/r'' ''.github/workflows/ci.yml'' ?files = Some (snd (hd ?files))"
    by (simp add: RegisterWorkflowFile_def Let_def resolveWorkflowFile_def Atoi_slash ListWorkflowFiles_def)
  with registered_file_resolves [OF ok _ other, of 7 "''ci''" "''new''" "''submitted''"] one(4) show ?thesis by auto
qed

end
