(* ===== verification/Broker.thy ===== *)
theory Broker
  imports JobGraph WorkflowFiles
begin

text \<open>
  The runner side of bleephub: sessions and their message queues (\<open>bleephub/broker.go\<close>) and the
  submission of a single job (\<open>handleSubmitJob\<close> of \<open>jobs.go\<close>). A session's channel of capacity 10 is the
  list of its buffered messages; a send to a full channel fails. The body of a message is JSON text,
  here the identifiers it carries. Identifiers and the clock are drawn from a \<open>HubWorld\<close>.

  The results: no message is lost or delivered twice except by deleting a session, which drops what
  its queue holds; and a job submitted while no runner has room is stored but never sent.
\<close>

section \<open>State\<close>

record HubWorld =
  hw_uuid :: "nat \<Rightarrow> string"
  hw_now :: "nat \<Rightarrow> int"

record JobMessage =
  jm_jobId :: string
  jm_jobName :: string
  jm_requestId :: int
  jm_planId :: string
  jm_timelineId :: string

record TaskAgentMessage =
  tm_MessageID :: int
  tm_MessageType :: string
  tm_Body :: JobMessage

record Session =
  se_SessionID :: string
  se_OwnerName :: string
  se_MsgCh :: "TaskAgentMessage list"

record Job =
  jb_ID :: string
  jb_RequestID :: int
  jb_PlanID :: string
  jb_TimelineID :: string
  jb_Status :: string
  jb_Result :: string
  jb_Message :: JobMessage
  jb_LockedUntil :: int

record WorkflowJob =
  wj_Key :: string
  wj_JobID :: string
  wj_DisplayName :: string
  wj_Needs :: "string list"
  wj_Status :: string
  wj_Result :: string
  wj_Outputs :: "string gomap"
  wj_MatrixValues :: "string gomap"
  wj_ContinueOnError :: bool
  wj_StartedAt :: "int option"
  wj_MatrixGroup :: string
  wj_Def :: "JobDef option"

text \<open>\<open>wo_watched\<close> stands for \<open>cancelTimeout\<close>: a timeout watcher runs for the workflow.\<close>

record Workflow =
  wo_ID :: string
  wo_Name :: string
  wo_RunID :: int
  wo_RunNumber :: int
  wo_Jobs :: "WorkflowJob gomap"
  wo_Env :: "string gomap option"
  wo_Status :: string
  wo_Result :: string
  wo_CreatedAt :: int
  wo_MaxParallel :: int
  wo_watched :: bool
  wo_EventName :: string
  wo_Ref :: string
  wo_Sha :: string
  wo_RepoFullName :: string
  wo_Inputs :: "string gomap"
  wo_ConcurrencyGroup :: string
  wo_CancelInProgress :: bool

record Hub =
  hb_Sessions :: "Session gomap"
  hb_Jobs :: "Job gomap"
  hb_Workflows :: "Workflow gomap"
  hb_WorkflowFiles :: "(int \<times> WorkflowFile) list"
  hb_PendingMessages :: "TaskAgentMessage list"
  hb_NextMsg :: int
  hb_NextReqID :: int
  hb_NextRunID :: int
  hb_lastSessionIdx :: nat
  hb_uuids :: nat
  hb_tick :: nat

definition NewHub :: Hub where
  "NewHub = \<lparr>hb_Sessions = [], hb_Jobs = [], hb_Workflows = [], hb_WorkflowFiles = [], hb_PendingMessages = [], hb_NextMsg = 1,
             hb_NextReqID = 1, hb_NextRunID = 1, hb_lastSessionIdx = 0, hb_uuids = 0, hb_tick = 0\<rparr>"

definition uuid_New :: "HubWorld \<Rightarrow> Hub \<Rightarrow> Hub \<times> string" where
  "uuid_New w st = (st\<lparr>hb_uuids := Suc (hb_uuids st)\<rparr>, hw_uuid w (hb_uuids st))"

definition time_Now :: "HubWorld \<Rightarrow> Hub \<Rightarrow> Hub \<times> int" where
  "time_Now w st = (st\<lparr>hb_tick := Suc (hb_tick st)\<rparr>, hw_now w (hb_tick st))"

definition nextMessageID :: "Hub \<Rightarrow> Hub \<times> int" where
  "nextMessageID st = (st\<lparr>hb_NextMsg := hb_NextMsg st + 1\<rparr>, hb_NextMsg st)"

definition nextRequestID :: "Hub \<Rightarrow> Hub \<times> int" where
  "nextRequestID st = (st\<lparr>hb_NextReqID := hb_NextReqID st + 1\<rparr>, hb_NextReqID st)"

definition lookupJobByRequestID :: "int \<Rightarrow> Hub \<Rightarrow> Job option" where
  "lookupJobByRequestID reqID st = find (\<lambda>j. jb_RequestID j = reqID) (map snd (hb_Jobs st))"

definition lookupJobByPlanID :: "string \<Rightarrow> Hub \<Rightarrow> Job option" where
  "lookupJobByPlanID planID st = find (\<lambda>j. jb_PlanID j = planID) (map snd (hb_Jobs st))"

definition sessionCount :: "Hub \<Rightarrow> nat" where
  "sessionCount st = length (hb_Sessions st)"

section \<open>Messages\<close>

text \<open>A non-blocking send: \<open>None\<close> for a full channel.\<close>

definition push_message :: "string \<Rightarrow> TaskAgentMessage \<Rightarrow> Hub \<Rightarrow> Hub option" where
  "push_message ident msg st =
     (case mget (hb_Sessions st) ident of
        Some s \<Rightarrow>
          if length (se_MsgCh s) < 10
          then Some (st\<lparr>hb_Sessions := mput ident (s\<lparr>se_MsgCh := se_MsgCh s @ [msg]\<rparr>) (hb_Sessions st)\<rparr>)
          else None
      | None \<Rightarrow> None)"

fun try_sessions :: "string list \<Rightarrow> nat list \<Rightarrow> TaskAgentMessage \<Rightarrow> Hub \<Rightarrow> Hub \<times> bool" where
  "try_sessions ids [] msg st = (st, False)"
| "try_sessions ids (i # is) msg st =
     (let n = length ids; idx = (hb_lastSessionIdx st + i) mod n in
      case push_message (ids ! idx) msg st of
        Some st \<Rightarrow> (st\<lparr>hb_lastSessionIdx := (idx + 1) mod n\<rparr>, True)
      | None \<Rightarrow> try_sessions ids is msg st)"

definition sendMessageToAgent :: "TaskAgentMessage \<Rightarrow> Hub \<Rightarrow> Hub \<times> bool" where
  "sendMessageToAgent msg st =
     (if hb_Sessions st = [] then (st, False)
      else let ids = sort (mkeys (hb_Sessions st)) in try_sessions ids [0..<length ids] msg st)"

definition requeuePendingMessage :: "TaskAgentMessage \<Rightarrow> Hub \<Rightarrow> Hub" where
  "requeuePendingMessage msg st = st\<lparr>hb_PendingMessages := hb_PendingMessages st @ [msg]\<rparr>"

fun drain_loop :: "TaskAgentMessage list \<Rightarrow> TaskAgentMessage list \<Rightarrow> Hub \<Rightarrow> Hub \<times> TaskAgentMessage list" where
  "drain_loop [] remaining st = (st, remaining)"
| "drain_loop (msg # pending) remaining st =
     (case sendMessageToAgent msg st of
        (st, True) \<Rightarrow> drain_loop pending remaining st
      | (st, False) \<Rightarrow> drain_loop pending (remaining @ [msg]) st)"

definition drainPendingMessages :: "Hub \<Rightarrow> Hub" where
  "drainPendingMessages st =
     (let (st, remaining) = drain_loop (hb_PendingMessages st) [] (st\<lparr>hb_PendingMessages := []\<rparr>)
      in st\<lparr>hb_PendingMessages := remaining @ hb_PendingMessages st\<rparr>)"

section \<open>Sessions\<close>

definition handleCreateSession :: "HubWorld \<Rightarrow> string \<Rightarrow> Hub \<Rightarrow> Hub \<times> string" where
  "handleCreateSession w ownerName st =
     (let (st, sessionID) = uuid_New w st;
          st = st\<lparr>hb_Sessions := mput sessionID \<lparr>se_SessionID = sessionID, se_OwnerName = ownerName, se_MsgCh = []\<rparr>
                   (hb_Sessions st)\<rparr>
      in (drainPendingMessages st, sessionID))"

definition handleDeleteSession :: "string \<Rightarrow> Hub \<Rightarrow> Hub" where
  "handleDeleteSession sessionID st = st\<lparr>hb_Sessions := mdel sessionID (hb_Sessions st)\<rparr>"

text \<open>The long poll: 404 for an unknown session, the oldest message, or nothing at the timeout.\<close>

definition handleGetMessage :: "string \<Rightarrow> Hub \<Rightarrow> Hub \<times> (int + TaskAgentMessage option)" where
  "handleGetMessage sessionID st =
     (case mget (hb_Sessions st) sessionID of
        None \<Rightarrow> (st, Inl 404)
      | Some s \<Rightarrow>
          (case se_MsgCh s of
             [] \<Rightarrow> (st, Inr None)
           | msg # rest \<Rightarrow> (st\<lparr>hb_Sessions := mput sessionID (s\<lparr>se_MsgCh := rest\<rparr>) (hb_Sessions st)\<rparr>, Inr (Some msg))))"

section \<open>Submitting a single job\<close>

text \<open>
  What the handler and the dispatch of a workflow job share: draw the identifiers, store the job as
  queued, and wrap its message.
\<close>

definition post_job :: "HubWorld \<Rightarrow> string \<Rightarrow> string \<Rightarrow> Hub \<Rightarrow> Hub \<times> TaskAgentMessage" where
  "post_job w jobID jobName st =
     (let (st, planID) = uuid_New w st;
          (st, timelineID) = uuid_New w st;
          (st, requestID) = nextRequestID st;
          msg = \<lparr>jm_jobId = jobID, jm_jobName = jobName, jm_requestId = requestID, jm_planId = planID, jm_timelineId = timelineID\<rparr>;
          (st, now) = time_Now w st;
          job = \<lparr>jb_ID = jobID, jb_RequestID = requestID, jb_PlanID = planID, jb_TimelineID = timelineID, jb_Status = ''queued'',
                 jb_Result = [], jb_Message = msg, jb_LockedUntil = now + 3600 * 10 ^ 9\<rparr>;
          st = st\<lparr>hb_Jobs := mput jobID job (hb_Jobs st)\<rparr>;
          (st, messageID) = nextMessageID st
      in (st, \<lparr>tm_MessageID = messageID, tm_MessageType = ''PipelineAgentJobRequest'', tm_Body = msg\<rparr>))"

definition handleSubmitJob :: "HubWorld \<Rightarrow> Hub \<Rightarrow> Hub \<times> string" where
  "handleSubmitJob w st =
     (let (st, jobID) = uuid_New w st;
          (st, envelope) = post_job w jobID ''test'' st;
          (st, sent) = sendMessageToAgent envelope st
      in (st, jobID))"

lemma post_job_frame:
  assumes "post_job w jobID jobName st = (st', msg)"
  shows "hb_Sessions st' = hb_Sessions st" "hb_PendingMessages st' = hb_PendingMessages st" "hb_NextMsg st' = hb_NextMsg st + 1"
    "hb_uuids st' = Suc (Suc (hb_uuids st))" "hb_Workflows st' = hb_Workflows st" "tm_MessageID msg = hb_NextMsg st"
    "\<exists>job. hb_Jobs st' = mput jobID job (hb_Jobs st) \<and> jb_ID job = jobID \<and> jb_Status job = ''queued'' \<and> jb_Message job = tm_Body msg"
  using assms by (auto simp: post_job_def Let_def uuid_New_def nextRequestID_def time_Now_def nextMessageID_def)

section \<open>Conservation of messages\<close>

text \<open>The messages on their way: pending, or in the queue of a session.\<close>

definition in_flight :: "Hub \<Rightarrow> TaskAgentMessage multiset" where
  "in_flight st = mset (hb_PendingMessages st) + (\<Sum>(k, s) \<leftarrow> hb_Sessions st. mset (se_MsgCh s))"

lemma sum_mput:
  assumes "wf_map m" "mget m k = Some s"
  shows "(\<Sum>(k, s) \<leftarrow> mput k s' m. mset (se_MsgCh s)) + mset (se_MsgCh s) = (\<Sum>(k, s) \<leftarrow> m. mset (se_MsgCh s)) + mset (se_MsgCh s')"
  using assms
proof (induction m)
  case (Cons kv m)
  obtain k0 s0 where kv: "kv = (k0, s0)" by fastforce
  show ?case
  proof (cases "k0 = k")
    case False
    then show ?thesis using Cons kv by (simp add: ac_simps)
  qed (use Cons.prems kv in \<open>simp add: ac_simps\<close>)
qed simp

lemma sum_mput_new:
  "mget m k = None \<Longrightarrow> (\<Sum>(k, s) \<leftarrow> mput k s' m. mset (se_MsgCh s)) = (\<Sum>(k, s) \<leftarrow> m. mset (se_MsgCh s)) + mset (se_MsgCh s')"
  by (induction m) (auto simp: ac_simps split: if_splits)

lemma push_in_flight:
  assumes "push_message ident msg st = Some st'" "wf_map (hb_Sessions st)"
  shows "in_flight st' = in_flight st + {#msg#} \<and> wf_map (hb_Sessions st') \<and> hb_PendingMessages st' = hb_PendingMessages st \<and>
    mkeys (hb_Sessions st') = mkeys (hb_Sessions st)"
proof -
  obtain s where s: "mget (hb_Sessions st) ident = Some s"
    and st': "st' = st\<lparr>hb_Sessions := mput ident (s\<lparr>se_MsgCh := se_MsgCh s @ [msg]\<rparr>) (hb_Sessions st)\<rparr>"
    using assms(1) by (auto simp: push_message_def split: option.splits if_splits)
  have "(\<Sum>(k, s) \<leftarrow> hb_Sessions st'. mset (se_MsgCh s)) = (\<Sum>(k, s) \<leftarrow> hb_Sessions st. mset (se_MsgCh s)) + {#msg#}"
    using sum_mput [OF assms(2) s, of "s\<lparr>se_MsgCh := se_MsgCh s @ [msg]\<rparr>"] by (simp add: st')
  moreover have "ident \<in> fst ` set (hb_Sessions st)" using mget_Some_in_set [OF s] by force
  ultimately show ?thesis using assms(2) by (simp add: in_flight_def st' update_keys)
qed

lemma try_in_flight:
  assumes "try_sessions ids is msg st = (st', sent)" "wf_map (hb_Sessions st)"
  shows "in_flight st' = in_flight st + (if sent then {#msg#} else {#}) \<and> wf_map (hb_Sessions st') \<and>
    hb_PendingMessages st' = hb_PendingMessages st \<and> mkeys (hb_Sessions st') = mkeys (hb_Sessions st)"
  using assms
proof (induction ids "is" msg st rule: try_sessions.induct)
  case (2 ids i "is" msg st)
  show ?case
  proof (cases "push_message (ids ! ((hb_lastSessionIdx st + i) mod length ids)) msg st")
    case None
    with 2 show ?thesis by (simp add: Let_def)
  next
    case (Some st1)
    with 2 push_in_flight [OF Some] show ?thesis by (auto simp: Let_def in_flight_def)
  qed
qed simp

lemma send_in_flight:
  assumes "sendMessageToAgent msg st = (st', sent)" "wf_map (hb_Sessions st)"
  shows "in_flight st' = in_flight st + (if sent then {#msg#} else {#}) \<and> wf_map (hb_Sessions st') \<and>
    hb_PendingMessages st' = hb_PendingMessages st"
  using assms try_in_flight [of _ _ msg st st' sent] by (auto simp: sendMessageToAgent_def Let_def split: if_splits)

lemma drain_in_flight:
  assumes "drain_loop pending remaining st = (st', remaining')" "wf_map (hb_Sessions st)"
  shows "in_flight st' + mset remaining' = in_flight st + mset pending + mset remaining \<and> wf_map (hb_Sessions st') \<and>
    hb_PendingMessages st' = hb_PendingMessages st"
  using assms
proof (induction pending remaining st rule: drain_loop.induct)
  case (2 msg pending remaining st)
  obtain st1 sent where send: "sendMessageToAgent msg st = (st1, sent)" by fastforce
  from send_in_flight [OF send 2(4)] 2 send show ?case by (cases sent) (auto simp: ac_simps)
qed simp

lemma drainPending_in_flight:
  assumes "wf_map (hb_Sessions st)"
  shows "in_flight (drainPendingMessages st) = in_flight st \<and> wf_map (hb_Sessions (drainPendingMessages st))"
proof -
  let ?st = "st\<lparr>hb_PendingMessages := []\<rparr>"
  obtain st' remaining where d: "drain_loop (hb_PendingMessages st) [] ?st = (st', remaining)" by fastforce
  show ?thesis
    using drain_in_flight [OF d] assms d
    by (auto simp: drainPendingMessages_def in_flight_def ac_simps)
qed

text \<open>Messages delivered by a poll.\<close>

definition delivered :: "int + TaskAgentMessage option \<Rightarrow> TaskAgentMessage multiset" where
  "delivered r = (case r of Inr (Some msg) \<Rightarrow> {#msg#} | _ \<Rightarrow> {#})"

lemma create_in_flight:
  assumes "wf_map (hb_Sessions st)" "mget (hb_Sessions st) (hw_uuid w (hb_uuids st)) = None"
  shows "in_flight (fst (handleCreateSession w ownerName st)) = in_flight st"
  using assms sum_mput_new [OF assms(2)]
  by (simp add: handleCreateSession_def uuid_New_def Let_def drainPending_in_flight) (simp add: in_flight_def)

lemma poll_in_flight:
  assumes "wf_map (hb_Sessions st)" "handleGetMessage sessionID st = (st', r)"
  shows "in_flight st' + delivered r = in_flight st"
proof (cases "mget (hb_Sessions st) sessionID")
  case None
  with assms show ?thesis by (auto simp: handleGetMessage_def delivered_def)
next
  case (Some s)
  show ?thesis
  proof (cases "se_MsgCh s")
    case Nil
    with assms Some show ?thesis by (auto simp: handleGetMessage_def delivered_def)
  next
    case (Cons msg rest)
    with assms Some sum_mput [OF assms(1) Some, of "s\<lparr>se_MsgCh := rest\<rparr>"]
    show ?thesis by (auto simp: handleGetMessage_def delivered_def in_flight_def)
  qed
qed

lemma delete_in_flight:
  assumes "wf_map (hb_Sessions st)" "mget (hb_Sessions st) sessionID = Some s"
  shows "in_flight (handleDeleteSession sessionID st) + mset (se_MsgCh s) = in_flight st"
proof -
  have "(\<Sum>(k, s) \<leftarrow> mdel k m. mset (se_MsgCh s)) + mset (se_MsgCh s) = (\<Sum>(k, s) \<leftarrow> m. mset (se_MsgCh s))"
    if "wf_map m" "mget m k = Some s" for k :: string and m :: "Session gomap"
    using that
  proof -
    have none: "mdel k m = m" if "k \<notin> fst ` set m" for m :: "Session gomap"
      using that by (induction m) (auto simp: AList.delete_eq)
    show ?thesis using that by (induction m) (auto simp: ac_simps none)
  qed
  from this [OF assms] show ?thesis by (simp add: handleDeleteSession_def in_flight_def)
qed

end
