(* ===== verification/Expressions.thy ===== *)
theory Expressions
  imports Prelude
begin

text \<open>
  The conditions of jobs, \<open>bleephub/expressions.go\<close>: a recursive descent evaluator. The Go parser
  moves a position over the input; here each function takes the input that is left and returns its
  value and what it left. The nesting of parentheses and the two loops are bounded by a fuel that
  \<open>EvalExpr\<close> chooses; the fuel is shown to be enough for every input.
\<close>

section \<open>The evaluator\<close>

record ExprContext =
  xc_DepResults :: "string gomap"
  xc_Values :: "string gomap"
  xc_WorkflowCancelled :: bool

definition skipWhitespace :: "string \<Rightarrow> string" where
  "skipWhitespace s = dropWhile is_space s"

definition isTruthy :: "string \<Rightarrow> bool" where
  "isTruthy val \<longleftrightarrow> val \<noteq> [] \<and> val \<noteq> ''false'' \<and> val \<noteq> ''0''"

definition bool_text :: "bool \<Rightarrow> string" where
  "bool_text b = (if b then ''true'' else ''false'')"

definition evalFunction :: "ExprContext \<Rightarrow> string \<Rightarrow> string" where
  "evalFunction ctx name =
     (if name = ''success'' then
        bool_text (list_all (\<lambda>(k, r). r = ''success'' \<or> r = ''skipped'') (xc_DepResults ctx))
      else if name = ''failure'' then bool_text (list_ex (\<lambda>(k, r). r = ''failure'') (xc_DepResults ctx))
      else if name = ''always'' then ''true''
      else if name = ''cancelled'' then bool_text (xc_WorkflowCancelled ctx)
      else ''false'')"

definition ident_stop :: "char \<Rightarrow> bool" where
  "ident_stop c \<longleftrightarrow> c \<in> {CHR ''('', CHR '')'', CHR ''!'', CHR ''='', CHR ''&'', CHR ''|'', CHR 0x27} \<or> is_space c"

definition ident_value :: "ExprContext \<Rightarrow> string \<Rightarrow> string" where
  "ident_value ctx ident =
     (if ident = ''true'' then ''true'' else if ident = ''false'' then ''false''
      else case mget (xc_Values ctx) ident of Some val \<Rightarrow> val | None \<Rightarrow> ident)"

text \<open>The optional closing parenthesis.\<close>

definition skip_close :: "string \<Rightarrow> string" where
  "skip_close s = (case s of c # r \<Rightarrow> if c = CHR '')'' then r else s | [] \<Rightarrow> [])"

text \<open>A string literal, after its opening quote.\<close>

definition parse_literal :: "string \<Rightarrow> string \<times> string" where
  "parse_literal s = (takeWhile (\<lambda>c. c \<noteq> CHR 0x27) s, drop 1 (dropWhile (\<lambda>c. c \<noteq> CHR 0x27) s))"

definition parse_ident :: "ExprContext \<Rightarrow> string \<Rightarrow> string \<times> string" where
  "parse_ident ctx s =
     (let ident = takeWhile (\<lambda>c. \<not> ident_stop c) s;
          rest = skipWhitespace (dropWhile (\<lambda>c. \<not> ident_stop c) s)
      in case rest of
           c # r \<Rightarrow> if c = CHR ''('' then (evalFunction ctx ident, skip_close (skipWhitespace r))
                    else (ident_value ctx ident, rest)
         | [] \<Rightarrow> (ident_value ctx ident, []))"

text \<open>
  The functions below parseOr call back to it for a parenthesised expression; \<open>por\<close> is that call. A
  loop gets fuel for its rounds, each of which reads an operator of two characters.
\<close>

type_synonym 'v parser = "string \<Rightarrow> ('v \<times> string) option"

definition parsePrimary :: "ExprContext \<Rightarrow> bool parser \<Rightarrow> string parser" where
  "parsePrimary ctx por s =
     (case skipWhitespace s of
        [] \<Rightarrow> Some ([], [])
      | ch # r \<Rightarrow>
          if ch = CHR ''('' then
            Option.bind (por r) (\<lambda>(result, s). Some (bool_text result, skip_close (skipWhitespace s)))
          else if ch = CHR 0x27 then Some (parse_literal r)
          else Some (parse_ident ctx (ch # r)))"

definition parseUnary :: "ExprContext \<Rightarrow> bool parser \<Rightarrow> string parser" where
  "parseUnary ctx por s =
     (case skipWhitespace s of
        c # r \<Rightarrow>
          if c = CHR ''!'' then
            Option.bind (parsePrimary ctx por r) (\<lambda>(val, s). Some (bool_text (\<not> isTruthy val), s))
          else parsePrimary ctx por (c # r)
      | [] \<Rightarrow> parsePrimary ctx por [])"

definition parseComparison :: "ExprContext \<Rightarrow> bool parser \<Rightarrow> bool parser" where
  "parseComparison ctx por s =
     Option.bind (parseUnary ctx por s) (\<lambda>(leftVal, s).
       let s = skipWhitespace s; op = take 2 s in
       if op = ''=='' then
         Option.bind (parseUnary ctx por (drop 2 s)) (\<lambda>(rightVal, s). Some (leftVal = rightVal, s))
       else if op = ''!='' then
         Option.bind (parseUnary ctx por (drop 2 s)) (\<lambda>(rightVal, s). Some (leftVal \<noteq> rightVal, s))
       else Some (isTruthy leftVal, s))"

fun parseAnd_loop :: "ExprContext \<Rightarrow> bool parser \<Rightarrow> nat \<Rightarrow> bool \<Rightarrow> bool parser" where
  "parseAnd_loop ctx por 0 left s = None"
| "parseAnd_loop ctx por (Suc n) left s =
     (let s = skipWhitespace s in
      if take 2 s = ''&&''
      then Option.bind (parseComparison ctx por (drop 2 s)) (\<lambda>(right, s). parseAnd_loop ctx por n (left \<and> right) s)
      else Some (left, s))"

definition parseAnd :: "ExprContext \<Rightarrow> bool parser \<Rightarrow> bool parser" where
  "parseAnd ctx por s =
     Option.bind (parseComparison ctx por s) (\<lambda>(left, r). parseAnd_loop ctx por (Suc (length s)) left r)"

fun parseOr_loop :: "ExprContext \<Rightarrow> bool parser \<Rightarrow> nat \<Rightarrow> bool \<Rightarrow> bool parser" where
  "parseOr_loop ctx por 0 left s = None"
| "parseOr_loop ctx por (Suc n) left s =
     (let s = skipWhitespace s in
      if take 2 s = ''||''
      then Option.bind (parseAnd ctx por (drop 2 s)) (\<lambda>(right, s). parseOr_loop ctx por n (left \<or> right) s)
      else Some (left, s))"

fun parseOr :: "ExprContext \<Rightarrow> nat \<Rightarrow> bool parser" where
  "parseOr ctx 0 s = None"
| "parseOr ctx (Suc n) s =
     Option.bind (parseAnd ctx (parseOr ctx n) s)
       (\<lambda>(left, r). parseOr_loop ctx (parseOr ctx n) (Suc (length s)) left r)"

text \<open>The body of the \<open>${{ ... }}\<close> wrapper.\<close>

definition strip_wrapper :: "string \<Rightarrow> string" where
  "strip_wrapper expr =
     (if HasPrefix expr ''${{'' \<and> HasSuffix expr ''}}''
      then TrimSpace (drop 3 (take (length expr - 2) expr)) else expr)"

definition EvalExpr :: "string \<Rightarrow> ExprContext \<Rightarrow> bool" where
  "EvalExpr expr ctx =
     (let expr = TrimSpace expr in
      if expr = [] then True
      else let input = strip_wrapper expr in
           case parseOr ctx (Suc (length input)) input of Some (result, _) \<Rightarrow> result | None \<Rightarrow> False)"

definition ExprContainsStatusFunction :: "string \<Rightarrow> bool \<times> bool" where
  "ExprContainsStatusFunction expr =
     (let lower = ToLower expr in (Contains lower ''always()'', Contains lower ''failure()''))"

section \<open>Termination\<close>

lemma length_skipWhitespace: "length (skipWhitespace s) \<le> length s"
  by (simp add: skipWhitespace_def length_dropWhile_le)

lemma length_skip_close: "length (skip_close s) \<le> length s"
  by (cases s) (simp_all add: skip_close_def)

lemma length_close: "length (skip_close (skipWhitespace s)) \<le> length s"
  using length_skip_close [of "skipWhitespace s"] length_skipWhitespace [of s] by linarith

lemma length_parse_literal: "length (snd (parse_literal s)) \<le> length s"
  using length_dropWhile_le [of "\<lambda>c. c \<noteq> CHR 0x27" s] by (simp add: parse_literal_def)

lemma length_parse_ident: "length (snd (parse_ident ctx s)) \<le> length s"
proof -
  let ?r = "skipWhitespace (dropWhile (\<lambda>c. \<not> ident_stop c) s)"
  have r: "length ?r \<le> length s"
    using length_skipWhitespace [of "dropWhile (\<lambda>c. \<not> ident_stop c) s"] length_dropWhile_le [of "\<lambda>c. \<not> ident_stop c" s]
    by linarith
  show ?thesis
  proof (cases ?r)
    case (Cons c rr)
    with r length_close [of rr] show ?thesis by (simp add: parse_ident_def Let_def)
  qed (simp add: parse_ident_def)
qed

text \<open>A parser succeeds, with a remainder no longer than its input.\<close>

definition consumes :: "('a \<times> string) option \<Rightarrow> nat \<Rightarrow> bool" where
  "consumes res len \<longleftrightarrow> (\<exists>v r. res = Some (v, r) \<and> length r \<le> len)"

lemma consumes_Some [simp]: "consumes (Some (v, r)) len \<longleftrightarrow> length r \<le> len"
  by (simp add: consumes_def)

lemma consumes_bind:
  assumes "consumes res len" and "\<And>v r. length r \<le> len \<Longrightarrow> consumes (f (v, r)) len'"
  shows "consumes (Option.bind res f) len'"
  using assms by (auto simp: consumes_def)

lemma consumes_mono: "consumes res len \<Longrightarrow> len \<le> len' \<Longrightarrow> consumes res len'"
  by (auto simp: consumes_def)

text \<open>
  What the functions below \<open>parseOr\<close> need of it: it returns on every input shorter than theirs.
\<close>

locale total_call =
  fixes ctx :: ExprContext and por :: "bool parser" and len :: nat
  assumes por: "\<And>s. length s < len \<Longrightarrow> consumes (por s) (length s)"
begin

lemma primary_total: "length s \<le> len \<Longrightarrow> consumes (parsePrimary ctx por s) (length s)"
proof (cases "skipWhitespace s")
  case (Cons c r)
  assume s: "length s \<le> len"
  have len: "Suc (length r) \<le> length s" using Cons length_skipWhitespace [of s] by simp
  have "consumes (Option.bind (por r) (\<lambda>(result, s). Some (bool_text result, skip_close (skipWhitespace s)))) (length s)"
    using s len by (intro consumes_bind [OF por]) (auto intro: order_trans [OF length_close])
  moreover have "consumes (Some (parse_literal r)) (length s)"
    using len length_parse_literal [of r] by (cases "parse_literal r") simp
  moreover have "consumes (Some (parse_ident ctx (c # r))) (length s)"
    using len length_parse_ident [of ctx "c # r"] by (cases "parse_ident ctx (c # r)") simp
  ultimately show ?thesis by (simp add: parsePrimary_def Cons)
qed (simp add: parsePrimary_def)

lemma unary_total: "length s \<le> len \<Longrightarrow> consumes (parseUnary ctx por s) (length s)"
proof (cases "skipWhitespace s")
  case Nil
  assume "length s \<le> len"
  with Nil primary_total [of "[]"] show ?thesis by (auto simp: parseUnary_def intro: consumes_mono)
next
  case (Cons c r)
  assume s: "length s \<le> len"
  have len: "Suc (length r) \<le> length s" using Cons length_skipWhitespace [of s] by simp
  have "consumes (Option.bind (parsePrimary ctx por r) (\<lambda>(val, s). Some (bool_text (\<not> isTruthy val), s))) (length s)"
    by (rule consumes_bind [OF primary_total]) (use s len in auto)
  moreover have "consumes (parsePrimary ctx por (c # r)) (length s)"
    by (rule consumes_mono [OF primary_total]) (use s len in auto)
  ultimately show ?thesis by (simp add: parseUnary_def Cons)
qed

lemma comparison_total: "length s \<le> len \<Longrightarrow> consumes (parseComparison ctx por s) (length s)"
  unfolding parseComparison_def
proof (rule consumes_bind [OF unary_total])
  fix v r :: string assume s: "length s \<le> len" and r: "length r \<le> length s"
  have cmp: "consumes (Option.bind (parseUnary ctx por (drop 2 (skipWhitespace r))) (\<lambda>(w, s). Some (g v w, s))) (length s)"
    for g :: "string \<Rightarrow> string \<Rightarrow> bool"
    by (rule consumes_bind [OF unary_total]) (use s r length_skipWhitespace [of r] in auto)
  show "consumes (case (v, r) of (leftVal, s) \<Rightarrow> let s = skipWhitespace s; op = take 2 s in
      if op = ''=='' then Option.bind (parseUnary ctx por (drop 2 s)) (\<lambda>(rightVal, s). Some (leftVal = rightVal, s))
      else if op = ''!='' then Option.bind (parseUnary ctx por (drop 2 s)) (\<lambda>(rightVal, s). Some (leftVal \<noteq> rightVal, s))
      else Some (isTruthy leftVal, s)) (length s)"
    using r length_skipWhitespace [of r] cmp [of "(=)"] cmp [of "(\<noteq>)"] by (simp add: Let_def)
qed simp

lemma op_read: "take 2 s = [a, b] \<Longrightarrow> length (drop 2 s) < length s"
  by (cases s) auto

lemma and_loop_total: "length s < n \<Longrightarrow> length s \<le> len \<Longrightarrow> consumes (parseAnd_loop ctx por n b s) (length s)"
proof (induction n arbitrary: b s)
  case (Suc n)
  let ?s = "skipWhitespace s"
  show ?case
  proof (cases "take 2 ?s = ''&&''")
    case True
    note r = op_read [OF True] length_skipWhitespace [of s]
    have "consumes (parseAnd_loop ctx por n b' s') (length s)" if "length s' \<le> length (drop 2 ?s)" for b' s'
      by (rule consumes_mono [OF Suc.IH]) (use Suc.prems r that in linarith)+
    then have "consumes (Option.bind (parseComparison ctx por (drop 2 ?s)) (\<lambda>(right, s). parseAnd_loop ctx por n (b \<and> right) s)) (length s)"
      by (intro consumes_bind [OF comparison_total]) (use Suc.prems r in auto)
    with True show ?thesis by (simp add: Let_def)
  qed (simp add: Let_def length_skipWhitespace)
qed simp

lemma and_total: "length s \<le> len \<Longrightarrow> consumes (parseAnd ctx por s) (length s)"
  unfolding parseAnd_def
  by (rule consumes_bind [OF comparison_total]) (auto simp del: parseAnd_loop.simps intro: consumes_mono [OF and_loop_total])

lemma or_loop_total: "length s < n \<Longrightarrow> length s \<le> len \<Longrightarrow> consumes (parseOr_loop ctx por n b s) (length s)"
proof (induction n arbitrary: b s)
  case (Suc n)
  let ?s = "skipWhitespace s"
  show ?case
  proof (cases "take 2 ?s = ''||''")
    case True
    note r = op_read [OF True] length_skipWhitespace [of s]
    have "consumes (parseOr_loop ctx por n b' s') (length s)" if "length s' \<le> length (drop 2 ?s)" for b' s'
      by (rule consumes_mono [OF Suc.IH]) (use Suc.prems r that in linarith)+
    then have "consumes (Option.bind (parseAnd ctx por (drop 2 ?s)) (\<lambda>(right, s). parseOr_loop ctx por n (b \<or> right) s)) (length s)"
      by (intro consumes_bind [OF and_total]) (use Suc.prems r in auto)
    with True show ?thesis by (simp add: Let_def)
  qed (simp add: Let_def length_skipWhitespace)
qed simp

lemma or_total:
  "length s \<le> len \<Longrightarrow>
   consumes (Option.bind (parseAnd ctx por s) (\<lambda>(left, r). parseOr_loop ctx por (Suc (length s)) left r)) (length s)"
  by (rule consumes_bind [OF and_total]) (auto simp del: parseOr_loop.simps intro: consumes_mono [OF or_loop_total])

end

lemma parseOr_total: "length s < n \<Longrightarrow> consumes (parseOr ctx n s) (length s)"
proof (induction n arbitrary: s)
  case (Suc n)
  then have "total_call (parseOr ctx n) n" by unfold_locales
  from total_call.or_total [OF this, of s ctx] Suc.prems show ?case by (simp del: parseOr_loop.simps)
qed simp

interpretation calls: total_call ctx "parseOr ctx n" n for ctx n
  by unfold_locales (rule parseOr_total)

section \<open>Expression trees\<close>

text \<open>
  What an expression means: a disjunction of conjunctions of comparisons, each of one or two
  operands, an operand being a primary expression with or without a negation.
\<close>

datatype prim = PStr string | PName string | PCall string | PGroup orx
  and unary = Plain prim | Bang prim
  and cmp = Truth unary | Equal unary unary | Differ unary unary
  and andx = AndX cmp "cmp list"
  and orx = OrX andx "andx list"

primrec pr_prim :: "prim \<Rightarrow> string"
  and pr_unary :: "unary \<Rightarrow> string"
  and pr_cmp :: "cmp \<Rightarrow> string"
  and pr_and :: "andx \<Rightarrow> string"
  and pr_or :: "orx \<Rightarrow> string"
where
  "pr_prim (PStr s) = CHR 0x27 # s @ [CHR 0x27]"
| "pr_prim (PName i) = i"
| "pr_prim (PCall f) = f @ ''()''"
| "pr_prim (PGroup e) = ''('' @ pr_or e @ '')''"
| "pr_unary (Plain p) = pr_prim p"
| "pr_unary (Bang p) = ''!'' @ pr_prim p"
| "pr_cmp (Truth u) = pr_unary u"
| "pr_cmp (Equal u v) = pr_unary u @ '' == '' @ pr_unary v"
| "pr_cmp (Differ u v) = pr_unary u @ '' != '' @ pr_unary v"
| "pr_and (AndX c cs) = pr_cmp c @ concat (map (\<lambda>t. '' && '' @ t) (map pr_cmp cs))"
| "pr_or (OrX a as) = pr_and a @ concat (map (\<lambda>t. '' || '' @ t) (map pr_and as))"

primrec ev_prim :: "ExprContext \<Rightarrow> prim \<Rightarrow> string"
  and ev_unary :: "ExprContext \<Rightarrow> unary \<Rightarrow> string"
  and ev_cmp :: "ExprContext \<Rightarrow> cmp \<Rightarrow> bool"
  and ev_and :: "ExprContext \<Rightarrow> andx \<Rightarrow> bool"
  and ev_or :: "ExprContext \<Rightarrow> orx \<Rightarrow> bool"
where
  "ev_prim ctx (PStr s) = s"
| "ev_prim ctx (PName i) = ident_value ctx i"
| "ev_prim ctx (PCall f) = evalFunction ctx f"
| "ev_prim ctx (PGroup e) = bool_text (ev_or ctx e)"
| "ev_unary ctx (Plain p) = ev_prim ctx p"
| "ev_unary ctx (Bang p) = bool_text (\<not> isTruthy (ev_prim ctx p))"
| "ev_cmp ctx (Truth u) = isTruthy (ev_unary ctx u)"
| "ev_cmp ctx (Equal u v) = (ev_unary ctx u = ev_unary ctx v)"
| "ev_cmp ctx (Differ u v) = (ev_unary ctx u \<noteq> ev_unary ctx v)"
| "ev_and ctx (AndX c cs) = (ev_cmp ctx c \<and> list_all id (map (ev_cmp ctx) cs))"
| "ev_or ctx (OrX a as) = (ev_and ctx a \<or> list_ex id (map (ev_and ctx) as))"

definition is_name :: "string \<Rightarrow> bool" where
  "is_name i \<longleftrightarrow> i \<noteq> [] \<and> list_all (\<lambda>c. \<not> ident_stop c) i"

text \<open>The trees that can be written: literals without a quote, names without operators or blanks.\<close>

primrec wf_prim :: "prim \<Rightarrow> bool"
  and wf_unary :: "unary \<Rightarrow> bool"
  and wf_cmp :: "cmp \<Rightarrow> bool"
  and wf_and :: "andx \<Rightarrow> bool"
  and wf_or :: "orx \<Rightarrow> bool"
where
  "wf_prim (PStr s) = (CHR 0x27 \<notin> set s)"
| "wf_prim (PName i) = is_name i"
| "wf_prim (PCall f) = is_name f"
| "wf_prim (PGroup e) = wf_or e"
| "wf_unary (Plain p) = wf_prim p"
| "wf_unary (Bang p) = wf_prim p"
| "wf_cmp (Truth u) = wf_unary u"
| "wf_cmp (Equal u v) = (wf_unary u \<and> wf_unary v)"
| "wf_cmp (Differ u v) = (wf_unary u \<and> wf_unary v)"
| "wf_and (AndX c cs) = (wf_cmp c \<and> list_all id (map wf_cmp cs))"
| "wf_or (OrX a as) = (wf_and a \<and> list_all id (map wf_and as))"

text \<open>A printed expression neither starts nor ends with a blank.\<close>

definition edged :: "string \<Rightarrow> bool" where
  "edged s \<longleftrightarrow> s \<noteq> [] \<and> \<not> is_space (hd s) \<and> \<not> is_space (last s)"

lemma edged_append: "edged a \<Longrightarrow> edged b \<Longrightarrow> edged (a @ m @ b)"
  by (simp add: edged_def)

lemma edged_concat: "edged a \<Longrightarrow> \<forall>t \<in> set ts. edged t \<Longrightarrow> edged (a @ concat (map (\<lambda>t. op @ t) ts))"
proof (induction ts arbitrary: a)
  case (Cons t ts)
  then have "edged ((a @ op @ t) @ concat (map (\<lambda>t. op @ t) ts))" by (auto intro: edged_append)
  then show ?case by simp
qed simp

lemma edged_name: "is_name i \<Longrightarrow> edged i"
  by (auto simp: is_name_def edged_def ident_stop_def list_all_iff)

lemma not_space [simp]:
  "\<not> is_space CHR 0x27" "\<not> is_space CHR ''(''" "\<not> is_space CHR '')''" "\<not> is_space CHR ''!''"
  "\<not> is_space CHR ''=''" "\<not> is_space CHR ''&''" "\<not> is_space CHR ''|''" "\<not> is_space CHR ''$''"
  "\<not> is_space CHR ''{''" "\<not> is_space CHR ''}''" "is_space CHR '' ''"
  by (simp_all add: is_space_def)

lemma edged_pr:
  "wf_prim p \<Longrightarrow> edged (pr_prim p)"
  "wf_unary u \<Longrightarrow> edged (pr_unary u)"
  "wf_cmp c \<Longrightarrow> edged (pr_cmp c)"
  "wf_and a \<Longrightarrow> edged (pr_and a)"
  "wf_or e \<Longrightarrow> edged (pr_or e)"
proof (induction p and u and c and a and e)
  case (PCall f)
  then show ?case using edged_name [of f] by (simp add: edged_def)
next
  case (AndX c cs)
  then show ?case using edged_concat [of "pr_cmp c" "map pr_cmp cs" "'' && ''"] by (auto simp: list_all_iff simp del: map_map)
next
  case (OrX a as)
  then show ?case using edged_concat [of "pr_and a" "map pr_and as" "'' || ''"] by (auto simp: list_all_iff simp del: map_map)
next
  case (Equal u v)
  then show ?case using edged_append [of "pr_unary u" "pr_unary v" "'' == ''"] by simp
next
  case (Differ u v)
  then show ?case using edged_append [of "pr_unary u" "pr_unary v" "'' != ''"] by simp
qed (auto simp: edged_name, auto simp: edged_def)

text \<open>What may follow an expression: nothing, a closing parenthesis, or a blank and one of some operators.\<close>

definition follows :: "string set \<Rightarrow> string \<Rightarrow> bool" where
  "follows ops r \<longleftrightarrow> r = [] \<or> hd r = CHR '')'' \<or> (\<exists>op \<in> ops. \<exists>t. r = CHR '' '' # op @ t)"

abbreviation all_ops :: "string set" where "all_ops \<equiv> {''=='', ''!='', ''&&'', ''||''}"

lemma follows_mono: "follows ops r \<Longrightarrow> ops \<subseteq> ops' \<Longrightarrow> follows ops' r"
  by (auto simp: follows_def)

lemma skip_edge: "edged s \<Longrightarrow> skipWhitespace (s @ r) = s @ r"
  by (cases s) (simp_all add: edged_def skipWhitespace_def)

lemma skip_idem [simp]: "skipWhitespace (skipWhitespace s) = skipWhitespace s"
  by (induction s) (simp_all add: skipWhitespace_def)

lemma take_follows:
  assumes "follows ops r" and "length op = 2" "op \<notin> ops" "op \<in> all_ops" "ops \<subseteq> all_ops"
  shows "take 2 (skipWhitespace r) \<noteq> op"
proof (cases r)
  case (Cons c t)
  show ?thesis
  proof (cases "c = CHR '')''")
    case True
    with Cons assms(4) show ?thesis by (auto simp: skipWhitespace_def)
  next
    case False
    with Cons assms(1) obtain o' t' where o: "o' \<in> ops" "r = CHR '' '' # o' @ t'" by (auto simp: follows_def)
    with assms(5) have "skipWhitespace r = o' @ t'" "length o' = 2" by (auto simp: skipWhitespace_def)
    with o(1) assms(3) show ?thesis by auto
  qed
qed (use assms(2) in \<open>auto simp: skipWhitespace_def\<close>)

lemma after_name:
  assumes "is_name i" "follows all_ops r"
  shows "takeWhile (\<lambda>c. \<not> ident_stop c) (i @ r) = i" "dropWhile (\<lambda>c. \<not> ident_stop c) (i @ r) = r"
proof -
  have stop: "r = [] \<or> ident_stop (hd r)" using assms(2) by (auto simp: follows_def ident_stop_def)
  have i: "\<forall>c \<in> set i. \<not> ident_stop c" using assms(1) by (simp add: is_name_def list_all_iff)
  show "takeWhile (\<lambda>c. \<not> ident_stop c) (i @ r) = i" "dropWhile (\<lambda>c. \<not> ident_stop c) (i @ r) = r"
    using i stop by (cases r; simp)+
qed

lemma skip_follows:
  assumes "follows all_ops r"
  shows "skipWhitespace r = [] \<or> hd (skipWhitespace r) \<noteq> CHR ''(''"
  using assms by (cases r) (auto simp: follows_def skipWhitespace_def)

text \<open>A parser reads a printed form: the value is right and the rest is what follows, up to blanks.\<close>

definition reads :: "'v parser \<Rightarrow> nat \<Rightarrow> string set \<Rightarrow> string \<Rightarrow> 'v \<Rightarrow> bool" where
  "reads parse len ops text v \<longleftrightarrow>
     (\<forall>s r. skipWhitespace s = text @ r \<longrightarrow> follows ops r \<longrightarrow> length s \<le> len \<longrightarrow>
        (\<exists>r'. parse s = Some (v, r') \<and> skipWhitespace r' = skipWhitespace r))"

lemma readsD:
  assumes "reads parse len ops text v" "skipWhitespace s = text @ r" "follows ops r" "length s \<le> len"
  obtains r' where "parse s = Some (v, r')" "skipWhitespace r' = skipWhitespace r"
  using assms unfolding reads_def by blast

lemma reads_unary:
  assumes "reads (parsePrimary ctx por) len all_ops text v" "edged text"
  shows "hd text \<noteq> CHR ''!'' \<Longrightarrow> reads (parseUnary ctx por) len all_ops text v"
    "reads (parseUnary ctx por) len all_ops (CHR ''!'' # text) (bool_text (\<not> isTruthy v))"
proof -
  assume hd: "hd text \<noteq> CHR ''!''"
  show "reads (parseUnary ctx por) len all_ops text v"
    unfolding reads_def
  proof (intro allI impI)
    fix s r assume s: "skipWhitespace s = text @ r" "follows all_ops r" "length s \<le> len"
    obtain c t where t: "text = c # t" using assms(2) by (cases "text") (auto simp: edged_def)
    have "skipWhitespace (text @ r) = text @ r" using assms(2) by (rule skip_edge)
    moreover have "length (text @ r) \<le> len" using s(1,3) length_skipWhitespace [of s] by simp
    ultimately obtain r' where "parsePrimary ctx por (text @ r) = Some (v, r')" "skipWhitespace r' = skipWhitespace r"
      using readsD [OF assms(1), of "text @ r" r] s(2) by metis
    with hd s(1) t show "\<exists>r'. parseUnary ctx por s = Some (v, r') \<and> skipWhitespace r' = skipWhitespace r"
      by (simp add: parseUnary_def)
  qed
next
  show "reads (parseUnary ctx por) len all_ops (CHR ''!'' # text) (bool_text (\<not> isTruthy v))"
    unfolding reads_def
  proof (intro allI impI)
    fix s r assume s: "skipWhitespace s = (CHR ''!'' # text) @ r" "follows all_ops r" "length s \<le> len"
    have "skipWhitespace (text @ r) = text @ r" using assms(2) by (rule skip_edge)
    moreover have "length (text @ r) \<le> len" using s length_skipWhitespace [of s] by simp
    ultimately obtain r' where "parsePrimary ctx por (text @ r) = Some (v, r')" "skipWhitespace r' = skipWhitespace r"
      using readsD [OF assms(1), of "text @ r" r] s(2) by metis
    with s(1) show "\<exists>r'. parseUnary ctx por s = Some (bool_text (\<not> isTruthy v), r') \<and> skipWhitespace r' = skipWhitespace r"
      by (simp add: parseUnary_def)
  qed
qed

lemma reads_truth:
  assumes "reads (parseUnary ctx por) len all_ops text v"
  shows "reads (parseComparison ctx por) len {''&&'', ''||''} text (isTruthy v)"
  unfolding reads_def
proof (intro allI impI)
  fix s r assume s: "skipWhitespace s = text @ r" "follows {''&&'', ''||''} r" "length s \<le> len"
  obtain r' where r': "parseUnary ctx por s = Some (v, r')" "skipWhitespace r' = skipWhitespace r"
    using readsD [OF assms s(1) follows_mono [OF s(2)] s(3)] by blast
  moreover have "take 2 (skipWhitespace r) \<noteq> ''==''" "take 2 (skipWhitespace r) \<noteq> ''!=''"
    by (rule take_follows [OF s(2)]; simp)+
  ultimately show "\<exists>r'. parseComparison ctx por s = Some (isTruthy v, r') \<and> skipWhitespace r' = skipWhitespace r"
    by (simp add: parseComparison_def Let_def)
qed

lemma reads_compare:
  assumes "reads (parseUnary ctx por) len all_ops ltext lv" "reads (parseUnary ctx por) len all_ops rtext rv" "edged rtext"
  shows "reads (parseComparison ctx por) len {''&&'', ''||''} (ltext @ '' == '' @ rtext) (lv = rv)"
    "reads (parseComparison ctx por) len {''&&'', ''||''} (ltext @ '' != '' @ rtext) (lv \<noteq> rv)"
proof -
  have step: "\<exists>r' r''. parseUnary ctx por s = Some (lv, r') \<and> skipWhitespace r' = op @ CHR '' '' # rtext @ r \<and>
      parseUnary ctx por (CHR '' '' # rtext @ r) = Some (rv, r'') \<and> skipWhitespace r'' = skipWhitespace r"
    if s: "skipWhitespace s = (ltext @ CHR '' '' # op @ CHR '' '' # rtext) @ r" "follows {''&&'', ''||''} r" "length s \<le> len"
      and op: "op = ''=='' \<or> op = ''!=''" for s r op
  proof -
    have f: "follows all_ops (CHR '' '' # op @ CHR '' '' # rtext @ r)" using op by (auto simp: follows_def)
    have skip: "skipWhitespace (CHR '' '' # op @ CHR '' '' # rtext @ r) = op @ CHR '' '' # rtext @ r"
      using op by (auto simp: skipWhitespace_def)
    have "skipWhitespace s = ltext @ (CHR '' '' # op @ CHR '' '' # rtext @ r)" using s(1) by simp
    from readsD [OF assms(1) this f s(3)] skip
    obtain r' where 1: "parseUnary ctx por s = Some (lv, r')" "skipWhitespace r' = op @ CHR '' '' # rtext @ r" by metis
    have "skipWhitespace (CHR '' '' # rtext @ r) = rtext @ r"
      using skip_edge [OF assms(3), of r] by (simp add: skipWhitespace_def)
    moreover have "length (CHR '' '' # rtext @ r) \<le> len" using s(1,3) length_skipWhitespace [of s] by simp
    ultimately obtain r'' where "parseUnary ctx por (CHR '' '' # rtext @ r) = Some (rv, r'')" "skipWhitespace r'' = skipWhitespace r"
      using readsD [OF assms(2) _ follows_mono [OF s(2)]] by (metis insertCI subsetI insertE)
    with 1 show ?thesis by blast
  qed
  show "reads (parseComparison ctx por) len {''&&'', ''||''} (ltext @ '' == '' @ rtext) (lv = rv)"
    unfolding reads_def
  proof (intro allI impI)
    fix s r assume s: "skipWhitespace s = (ltext @ '' == '' @ rtext) @ r" "follows {''&&'', ''||''} r" "length s \<le> len"
    show "\<exists>r'. parseComparison ctx por s = Some (lv = rv, r') \<and> skipWhitespace r' = skipWhitespace r"
      using step [of s "''==''" r] s by (auto simp: parseComparison_def Let_def)
  qed
  show "reads (parseComparison ctx por) len {''&&'', ''||''} (ltext @ '' != '' @ rtext) (lv \<noteq> rv)"
    unfolding reads_def
  proof (intro allI impI)
    fix s r assume s: "skipWhitespace s = (ltext @ '' != '' @ rtext) @ r" "follows {''&&'', ''||''} r" "length s \<le> len"
    show "\<exists>r'. parseComparison ctx por s = Some (lv \<noteq> rv, r') \<and> skipWhitespace r' = skipWhitespace r"
      using step [of s "''!=''" r] s by (auto simp: parseComparison_def Let_def)
  qed
qed

lemma readsI:
  assumes "\<And>s r. skipWhitespace s = text @ r \<Longrightarrow> follows ops r \<Longrightarrow> length s \<le> len \<Longrightarrow>
     \<exists>r'. parse s = Some (v, r') \<and> skipWhitespace r' = skipWhitespace r"
  shows "reads parse len ops text v"
  using assms by (simp add: reads_def)

lemma reads_primary:
  "CHR 0x27 \<notin> set t \<Longrightarrow> reads (parsePrimary ctx por) len all_ops (CHR 0x27 # t @ [CHR 0x27]) t"
  "is_name i \<Longrightarrow> reads (parsePrimary ctx por) len all_ops i (ident_value ctx i)"
  "is_name i \<Longrightarrow> reads (parsePrimary ctx por) len all_ops (i @ ''()'') (evalFunction ctx i)"
proof -
  assume t: "CHR 0x27 \<notin> set t"
  have "parse_literal (t @ CHR 0x27 # r) = (t, r)" for r
    using t by (induction t) (auto simp: parse_literal_def)
  then show "reads (parsePrimary ctx por) len all_ops (CHR 0x27 # t @ [CHR 0x27]) t"
    by (intro readsI) (simp add: parsePrimary_def)
next
  assume i: "is_name i"
  then obtain c cs where c: "i = c # cs" "\<not> ident_stop c" by (cases i) (auto simp: is_name_def)
  then have c': "c \<noteq> CHR ''(''" "c \<noteq> CHR 0x27" by (auto simp: ident_stop_def)
  show "reads (parsePrimary ctx por) len all_ops i (ident_value ctx i)"
  proof (rule readsI)
    fix s r assume s: "skipWhitespace s = i @ r" "follows all_ops r"
    note n = after_name [OF i s(2)]
    have "parse_ident ctx (i @ r) = (ident_value ctx i, skipWhitespace r)"
      using skip_follows [OF s(2)] by (cases "skipWhitespace r") (simp_all add: parse_ident_def Let_def n)
    then show "\<exists>r'. parsePrimary ctx por s = Some (ident_value ctx i, r') \<and> skipWhitespace r' = skipWhitespace r"
      using s(1) c(1) c' by (simp add: parsePrimary_def)
  qed
  show "reads (parsePrimary ctx por) len all_ops (i @ ''()'') (evalFunction ctx i)"
  proof (rule readsI)
    fix s r assume s: "skipWhitespace s = (i @ ''()'') @ r"
    have "\<forall>c \<in> set i. \<not> ident_stop c" using i by (simp add: is_name_def list_all_iff)
    then have "takeWhile (\<lambda>c. \<not> ident_stop c) (i @ CHR ''('' # CHR '')'' # r) = i"
      "dropWhile (\<lambda>c. \<not> ident_stop c) (i @ CHR ''('' # CHR '')'' # r) = CHR ''('' # CHR '')'' # r"
      by (simp_all add: ident_stop_def)
    then have "parse_ident ctx (i @ CHR ''('' # CHR '')'' # r) = (evalFunction ctx i, r)"
      by (simp add: parse_ident_def Let_def skipWhitespace_def skip_close_def)
    then show "\<exists>r'. parsePrimary ctx por s = Some (evalFunction ctx i, r') \<and> skipWhitespace r' = skipWhitespace r"
      using s c(1) c' by (simp add: parsePrimary_def)
  qed
qed

lemma reads_group:
  assumes "reads por (len - 1) {} text b" "edged text"
  shows "reads (parsePrimary ctx por) len all_ops (''('' @ text @ '')'') (bool_text b)"
proof (rule readsI)
  fix s r assume s: "skipWhitespace s = (''('' @ text @ '')'') @ r" "length s \<le> len"
  have "length (text @ CHR '')'' # r) \<le> len - 1" using s length_skipWhitespace [of s] by simp
  moreover have "follows {} (CHR '')'' # r)" by (simp add: follows_def)
  ultimately obtain r' where "por (text @ CHR '')'' # r) = Some (b, r')" "skipWhitespace r' = skipWhitespace (CHR '')'' # r)"
    using readsD [OF assms(1) skip_edge [OF assms(2)]] by metis
  moreover have "skip_close (skipWhitespace (CHR '')'' # r)) = r" by (simp add: skipWhitespace_def skip_close_def)
  ultimately show "\<exists>r'. parsePrimary ctx por s = Some (bool_text b, r') \<and> skipWhitespace r' = skipWhitespace r"
    using s(1) by (simp add: parsePrimary_def)
qed

text \<open>The two loops, for an operator and the way it combines values.\<close>

definition chain :: "string \<Rightarrow> string list \<Rightarrow> string" where
  "chain op ts = concat (map (\<lambda>t. CHR '' '' # op @ CHR '' '' # t) ts)"

lemma reads_loop:
  assumes loop: "\<And>n b s. loop (Suc n) b s =
      (let s = skipWhitespace s in
       if take 2 s = op then Option.bind (P (drop 2 s)) (\<lambda>(right, s). loop n (comb b right) s) else Some (b, s))"
    and tot: "\<And>s. length s \<le> len \<Longrightarrow> consumes (P s) (length s)"
    and op: "op \<in> {''&&'', ''||''}" "op \<notin> ops" "ops \<subseteq> all_ops"
    and P: "\<forall>x \<in> set xs. edged (txt x) \<and> reads P len (insert op ops) (txt x) (val x)"
    and "skipWhitespace s = skipWhitespace (chain op (map txt xs) @ r)" "follows ops r" "length s \<le> len" "length xs < n"
  shows "\<exists>r'. loop n b s = Some (foldl comb b (map val xs), r') \<and> skipWhitespace r' = skipWhitespace r"
  using P assms(7-)
proof (induction xs arbitrary: n b s)
  case Nil
  have "take 2 (skipWhitespace r) \<noteq> op" by (rule take_follows [OF Nil.prems(3)]) (use op in auto)
  moreover obtain m where "n = Suc m" using Nil.prems(5) by (cases n) auto
  ultimately show ?case using Nil.prems(2) by (simp add: loop Let_def chain_def)
next
  case (Cons x xs)
  let ?X = "chain op (map txt xs) @ r"
  obtain m where n: "n = Suc m" using Cons.prems(5) by (cases n) auto
  have skip: "skipWhitespace s = op @ CHR '' '' # txt x @ ?X"
    using Cons.prems(2) op(1) by (auto simp: chain_def skipWhitespace_def)
  have "skipWhitespace (CHR '' '' # txt x @ ?X) = txt x @ ?X"
    using Cons.prems(1) skip_edge [of "txt x" ?X] by (simp add: skipWhitespace_def)
  moreover have "follows (insert op ops) ?X"
    using Cons.prems(3) by (cases xs) (auto simp: chain_def follows_def)
  moreover have len: "length (CHR '' '' # txt x @ ?X) \<le> len"
    using Cons.prems(4) skip length_skipWhitespace [of s] op(1) by auto
  ultimately obtain r' where r': "P (CHR '' '' # txt x @ ?X) = Some (val x, r')" "skipWhitespace r' = skipWhitespace ?X"
    using readsD [of P len "insert op ops" "txt x" "val x"] Cons.prems(1) by (metis list.set_intros(1))
  have "length r' \<le> len" using tot [OF len] len r'(1) by (auto simp: consumes_def)
  with Cons.IH [of r' m "comb b (val x)"] Cons.prems r'(2) n
  obtain r'' where "loop m (comb b (val x)) r' = Some (foldl comb (comb b (val x)) (map val xs), r'')" "skipWhitespace r'' = skipWhitespace r"
    by auto
  moreover have "take 2 (skipWhitespace s) = op" "drop 2 (skipWhitespace s) = CHR '' '' # txt x @ ?X"
    using skip op(1) by auto
  ultimately show ?case using r'(1) by (simp add: n loop Let_def)
qed

text \<open>A chain of operands, given that the rounds of the loop suffice.\<close>

lemma foldl_and: "foldl (\<and>) b bs = (b \<and> list_all id bs)"
  by (induction bs arbitrary: b) auto

lemma foldl_or: "foldl (\<or>) b bs = (b \<or> list_ex id bs)"
  by (induction bs arbitrary: b) auto

lemma length_chain: "length ts \<le> length (chain op ts)"
  by (induction ts) (simp_all add: chain_def)

lemma follows_chain: "follows ops r \<Longrightarrow> follows (insert op ops) (chain op ts @ r)"
  by (cases ts) (auto simp: chain_def follows_def)

context total_call
begin

lemma reads_and:
  assumes "reads (parseComparison ctx por) len {''&&'', ''||''} (f c) (g c)"
    and "\<forall>x \<in> set cs. edged (f x) \<and> reads (parseComparison ctx por) len {''&&'', ''||''} (f x) (g x)"
  shows "reads (parseAnd ctx por) len {''||''} (f c @ chain ''&&'' (map f cs)) (g c \<and> list_all id (map g cs))"
proof (rule readsI)
  fix s r assume s: "skipWhitespace s = (f c @ chain ''&&'' (map f cs)) @ r" "follows {''||''} r" "length s \<le> len"
  have "follows {''&&'', ''||''} (chain ''&&'' (map f cs) @ r)" using follows_chain [OF s(2)] .
  then obtain r1 where r1: "parseComparison ctx por s = Some (g c, r1)" "skipWhitespace r1 = skipWhitespace (chain ''&&'' (map f cs) @ r)"
    using readsD [OF assms(1), of s "chain ''&&'' (map f cs) @ r"] s by auto
  have "length r1 \<le> length s" using comparison_total [OF s(3)] r1(1) by (auto simp: consumes_def)
  moreover have "length cs < Suc (length s)"
    using arg_cong [OF s(1), of length] length_chain [of "map f cs" "''&&''"] length_skipWhitespace [of s] by simp
  ultimately have "\<exists>r'. parseAnd_loop ctx por (Suc (length s)) (g c) r1 = Some (foldl (\<and>) (g c) (map g cs), r') \<and> skipWhitespace r' = skipWhitespace r"
    using assms(2) r1(2) s(2,3)
    by (intro reads_loop [where P = "parseComparison ctx por" and op = "''&&''" and ops = "{''||''}" and len = len])
      (auto simp: comparison_total)
  with r1(1) show "\<exists>r'. parseAnd ctx por s = Some (g c \<and> list_all id (map g cs), r') \<and> skipWhitespace r' = skipWhitespace r"
    by (simp add: parseAnd_def foldl_and del: parseAnd_loop.simps)
qed

lemma reads_or:
  assumes "reads (parseAnd ctx por) len {''||''} (f c) (g c)"
    and "\<forall>x \<in> set cs. edged (f x) \<and> reads (parseAnd ctx por) len {''||''} (f x) (g x)"
  shows "reads (\<lambda>s. Option.bind (parseAnd ctx por s) (\<lambda>(left, r). parseOr_loop ctx por (Suc (length s)) left r))
    len {} (f c @ chain ''||'' (map f cs)) (g c \<or> list_ex id (map g cs))"
proof (rule readsI)
  fix s r assume s: "skipWhitespace s = (f c @ chain ''||'' (map f cs)) @ r" "follows {} r" "length s \<le> len"
  have "follows {''||''} (chain ''||'' (map f cs) @ r)" using follows_chain [OF s(2)] .
  then obtain r1 where r1: "parseAnd ctx por s = Some (g c, r1)" "skipWhitespace r1 = skipWhitespace (chain ''||'' (map f cs) @ r)"
    using readsD [OF assms(1), of s "chain ''||'' (map f cs) @ r"] s by auto
  have "length r1 \<le> length s" using and_total [OF s(3)] r1(1) by (auto simp: consumes_def)
  moreover have "length cs < Suc (length s)"
    using arg_cong [OF s(1), of length] length_chain [of "map f cs" "''||''"] length_skipWhitespace [of s] by simp
  ultimately have "\<exists>r'. parseOr_loop ctx por (Suc (length s)) (g c) r1 = Some (foldl (\<or>) (g c) (map g cs), r') \<and> skipWhitespace r' = skipWhitespace r"
    using assms(2) r1(2) s(2,3)
    by (intro reads_loop [where P = "parseAnd ctx por" and op = "''||''" and ops = "{}" and len = len])
      (auto simp: and_total)
  with r1(1) show "\<exists>r'. Option.bind (parseAnd ctx por s) (\<lambda>(left, r). parseOr_loop ctx por (Suc (length s)) left r) =
      Some (g c \<or> list_ex id (map g cs), r') \<and> skipWhitespace r' = skipWhitespace r"
    by (simp add: foldl_or del: parseOr_loop.simps)
qed

end

lemma pr_chain:
  "pr_and (AndX c cs) = pr_cmp c @ chain ''&&'' (map pr_cmp cs)"
  "pr_or (OrX a as) = pr_and a @ chain ''||'' (map pr_and as)"
  by (simp_all add: chain_def)

lemma hd_prim: "wf_prim p \<Longrightarrow> hd (pr_prim p) \<noteq> CHR ''!''"
  by (cases p) (auto simp: is_name_def ident_stop_def neq_Nil_conv)

lemma printed_reads:
  "wf_prim p \<Longrightarrow> \<forall>n. reads (parsePrimary ctx (parseOr ctx n)) n all_ops (pr_prim p) (ev_prim ctx p)"
  "wf_unary u \<Longrightarrow> \<forall>n. reads (parseUnary ctx (parseOr ctx n)) n all_ops (pr_unary u) (ev_unary ctx u)"
  "wf_cmp c \<Longrightarrow> \<forall>n. reads (parseComparison ctx (parseOr ctx n)) n {''&&'', ''||''} (pr_cmp c) (ev_cmp ctx c)"
  "wf_and a \<Longrightarrow> \<forall>n. reads (parseAnd ctx (parseOr ctx n)) n {''||''} (pr_and a) (ev_and ctx a)"
  "wf_or e \<Longrightarrow> \<forall>n. reads (parseOr ctx n) (n - 1) {} (pr_or e) (ev_or ctx e)"
proof (induction p and u and c and a and e)
  case (PGroup e)
  then have "reads (parsePrimary ctx (parseOr ctx n)) n all_ops (''('' @ pr_or e @ '')'') (bool_text (ev_or ctx e))" for n
    using edged_pr(5) [of e] by (intro reads_group) simp_all
  then show ?case by simp
next
  case (Plain p)
  then show ?case using reads_unary(1) edged_pr(1) [of p] hd_prim [of p] by auto
next
  case (Bang p)
  then show ?case using reads_unary(2) edged_pr(1) [of p] by auto
next
  case (Equal u v)
  then show ?case using reads_compare(1) edged_pr(2) [of v] by auto
next
  case (Differ u v)
  then show ?case using reads_compare(2) edged_pr(2) [of v] by auto
next
  case (AndX c cs)
  have "reads (parseAnd ctx (parseOr ctx n)) n {''||''} (pr_cmp c @ chain ''&&'' (map pr_cmp cs)) (ev_cmp ctx c \<and> list_all id (map (ev_cmp ctx) cs))" for n
    using AndX edged_pr(3) by (intro calls.reads_and) (auto simp: list_all_iff)
  then show ?case unfolding pr_chain ev_and.simps by blast
next
  case (OrX a as)
  have "reads (parseOr ctx n) (n - 1) {} (pr_and a @ chain ''||'' (map pr_and as)) (ev_and ctx a \<or> list_ex id (map (ev_and ctx) as))" for n
  proof (cases n)
    case (Suc m)
    have "reads (\<lambda>s. Option.bind (parseAnd ctx (parseOr ctx m) s) (\<lambda>(left, r). parseOr_loop ctx (parseOr ctx m) (Suc (length s)) left r))
        m {} (pr_and a @ chain ''||'' (map pr_and as)) (ev_and ctx a \<or> list_ex id (map (ev_and ctx) as))"
      using OrX edged_pr(4) by (intro calls.reads_or) (auto simp: list_all_iff)
    then show ?thesis by (simp add: Suc reads_def del: parseOr_loop.simps)
  next
    case 0
    have "edged (pr_and a)" using OrX(3) edged_pr(4) [of a] by simp
    with 0 show ?thesis by (auto simp: reads_def edged_def skipWhitespace_def)
  qed
  then show ?case unfolding pr_chain ev_or.simps by blast
qed (auto simp: reads_primary reads_truth)

text \<open>
  C19: The evaluator computes the meaning of an expression. For every tree of disjunctions, conjunctions,
  comparisons, negations, parentheses, literals, names and status functions, the condition that is
  its text in \<open>${{ ... }}\<close> evaluates to the value of the tree: \<open>&&\<close> binds tighter than \<open>||\<close>, comparisons
  tighter than \<open>&&\<close>, and \<open>!\<close> tighter than a comparison, to any depth of nesting.
\<close>

theorem EvalExpr_correct:
  assumes "wf_or e"
  shows "EvalExpr (''${{ '' @ pr_or e @ '' }}'') ctx = ev_or ctx e"
proof -
  let ?e = "''${{ '' @ pr_or e @ '' }}''"
  have edge: "edged (pr_or e)" by (rule edged_pr(5) [OF assms])
  have trim: "TrimSpace ?e = ?e" by (simp add: TrimSpace_def)
  have trim2: "TrimSpace (CHR '' '' # pr_or e @ '' '') = pr_or e"
  proof -
    have "dropWhile is_space (CHR '' '' # pr_or e @ '' '') = pr_or e @ '' ''"
      using skip_edge [OF edge, of "'' ''"] by (simp add: skipWhitespace_def)
    moreover have "dropWhile is_space (CHR '' '' # rev (pr_or e)) = rev (pr_or e)"
      using edge by (cases "rev (pr_or e)") (auto simp: edged_def last_rev hd_rev [symmetric])
    ultimately show ?thesis by (simp add: TrimSpace_def)
  qed
  have "drop 3 (take (length ?e - 2) ?e) = CHR '' '' # pr_or e @ '' ''" by simp
  then have strip: "strip_wrapper ?e = pr_or e"
    using trim2 by (simp add: strip_wrapper_def HasPrefix_def HasSuffix_def)
  have reads: "reads (parseOr ctx (Suc (length (pr_or e)))) (length (pr_or e)) {} (pr_or e) (ev_or ctx e)"
    using printed_reads(5) [OF assms] by (metis diff_Suc_1)
  have "skipWhitespace (pr_or e) = pr_or e @ []" using skip_edge [OF edge, of "[]"] by simp
  from readsD [OF reads this] obtain r where "parseOr ctx (Suc (length (pr_or e))) (pr_or e) = Some (ev_or ctx e, r)"
    by (auto simp: follows_def simp del: parseOr.simps)
  then show ?thesis unfolding EvalExpr_def Let_def trim strip by (simp del: parseOr.simps)
qed

theorem EvalExpr_correct_witness:
  "EvalExpr ''${{ github.ref == 'main' && !failure() || always() }}''
     \<lparr>xc_DepResults = [], xc_Values = [(''github.ref'', ''main'')], xc_WorkflowCancelled = False\<rparr>"
proof -
  let ?e = "OrX (AndX (Equal (Plain (PName ''github.ref'')) (Plain (PStr ''main''))) [Truth (Bang (PCall ''failure''))])
      [AndX (Truth (Plain (PCall ''always''))) []]"
  show ?thesis
    using EvalExpr_correct [of ?e "\<lparr>xc_DepResults = [], xc_Values = [(''github.ref'', ''main'')], xc_WorkflowCancelled = False\<rparr>"]
    by (simp add: is_name_def ident_stop_def is_space_def evalFunction_def ident_value_def bool_text_def isTruthy_def)
qed

text \<open>The parser returns on every input: the fuel \<open>EvalExpr\<close> gives it is enough.\<close>

theorem parser_returns: "\<exists>result rest. parseOr ctx (Suc (length s)) s = Some (result, rest) \<and> length rest \<le> length s"
  using parseOr_total [of s "Suc (length s)" ctx] by (simp add: consumes_def)

end
