(* ===== verification/Outputs.thy ===== *)
theory Outputs
  imports Prelude
begin

text \<open>
  Job outputs (\<open>bleephub/outputs.go\<close>): reading the output variables of a runner's report and resolving
  the declared outputs of a job against them. The regular expression
  \<open>\$\{\{\s*steps\.([^.]+)\.outputs\.([^}\s]+)\s*\}\}\<close> is written out as the matcher it denotes: no
  two of its repetitions can trade characters, so the greedy match is the only one at a position.
  A JSON value is a string, an object, or something else.
\<close>

datatype jval = JString string | JObject "(string \<times> jval) list" | JOther

section \<open>Step expressions\<close>

text \<open>\<open>\s\<close> of Go's regular expressions.\<close>

definition re_space :: "char \<Rightarrow> bool" where
  "re_space c \<longleftrightarrow> c \<in> {CHR '' '', CHR 0x09, CHR 0x0A, CHR 0x0C, CHR 0x0D}"

definition eat :: "string \<Rightarrow> string \<Rightarrow> string option" where
  "eat p s = (if HasPrefix s p then Some (drop (length p) s) else None)"

definition many1 :: "(char \<Rightarrow> bool) \<Rightarrow> string \<Rightarrow> (string \<times> string) option" where
  "many1 P s = (if takeWhile P s = [] then None else Some (takeWhile P s, dropWhile P s))"

definition match_here :: "string \<Rightarrow> (string \<times> string) option" where
  "match_here s =
     Option.bind (eat ''${{'' s) (\<lambda>s.
     Option.bind (eat ''steps.'' (dropWhile re_space s)) (\<lambda>s.
     Option.bind (many1 (\<lambda>c. c \<noteq> CHR ''.'') s) (\<lambda>(stepID, s).
     Option.bind (eat ''.outputs.'' s) (\<lambda>s.
     Option.bind (many1 (\<lambda>c. c \<noteq> CHR ''}'' \<and> \<not> re_space c) s) (\<lambda>(outputName, s).
     Option.bind (eat ''}}'' (dropWhile re_space s)) (\<lambda>_. Some (stepID, outputName)))))))"

fun find_match :: "string \<Rightarrow> (string \<times> string) option" where
  "find_match s =
     (case match_here s of
        Some m \<Rightarrow> Some m
      | None \<Rightarrow> (case s of [] \<Rightarrow> None | _ # s \<Rightarrow> find_match s))"

declare find_match.simps [simp del]

definition parseStepsExpression :: "string \<Rightarrow> string \<times> string" where
  "parseStepsExpression expr = (case find_match (TrimSpace expr) of Some m \<Rightarrow> m | None \<Rightarrow> ([], []))"

section \<open>Resolution\<close>

definition resolveJobOutputs :: "string gomap \<Rightarrow> string gomap \<Rightarrow> string gomap" where
  "resolveJobOutputs outputVars declaredOutputs =
     foldl (\<lambda>result (name, expr).
         let (stepID, outputName) = parseStepsExpression expr in
         if stepID = [] then result
         else case mget outputVars (stepID @ ''.'' @ outputName) of Some val \<Rightarrow> mput name val result | None \<Rightarrow> result)
       [] declaredOutputs"

definition extractOutputVariables :: "jval gomap \<Rightarrow> string gomap" where
  "extractOutputVariables body =
     (case mget body ''outputVariables'' of
        Some (JObject rawMap) \<Rightarrow>
          foldl (\<lambda>result (k, v).
              case v of
                JString val \<Rightarrow> mput k val result
              | JObject val \<Rightarrow> (case mget val ''value'' of Some (JString s) \<Rightarrow> mput k s result | _ \<Rightarrow> result)
              | JOther \<Rightarrow> result)
            [] rawMap
      | _ \<Rightarrow> [])"

section \<open>Reading back a reference to a step output\<close>

definition step_reference :: "string \<Rightarrow> string \<Rightarrow> string" where
  "step_reference stepID outputName = ''${{ steps.'' @ stepID @ ''.outputs.'' @ outputName @ '' }}''"

definition is_step :: "string \<Rightarrow> bool" where
  "is_step s \<longleftrightarrow> s \<noteq> [] \<and> list_all (\<lambda>c. c \<noteq> CHR ''.'') s"

definition is_output :: "string \<Rightarrow> bool" where
  "is_output s \<longleftrightarrow> s \<noteq> [] \<and> list_all (\<lambda>c. c \<noteq> CHR ''}'' \<and> \<not> re_space c) s"

lemma eat_append [simp]: "eat p (p @ s) = Some s"
  by (simp add: eat_def)

lemma many1_append: "s \<noteq> [] \<Longrightarrow> list_all P s \<Longrightarrow> \<not> P c \<Longrightarrow> many1 P (s @ c # r) = Some (s, c # r)"
  by (simp add: many1_def list_all_iff takeWhile_append2 dropWhile_append2)

lemma TrimSpace_id: "s \<noteq> [] \<Longrightarrow> \<not> is_space (hd s) \<Longrightarrow> \<not> is_space (last s) \<Longrightarrow> TrimSpace s = s"
proof -
  assume "s \<noteq> []" "\<not> is_space (hd s)" "\<not> is_space (last s)"
  then have "dropWhile is_space s = s" "dropWhile is_space (rev s) = rev s"
    by (cases s, simp_all) (cases "rev s", auto simp: hd_rev [symmetric])
  then show ?thesis by (simp add: TrimSpace_def)
qed

lemma match_reference:
  assumes "is_step stepID" "is_output outputName"
  shows "match_here (step_reference stepID outputName) = Some (stepID, outputName)"
proof -
  have steps: "eat ''${{'' (step_reference stepID outputName) = Some ('' steps.'' @ stepID @ ''.outputs.'' @ outputName @ '' }}'')"
    by (simp add: eat_def step_reference_def HasPrefix_def)
  have drop: "eat ''steps.'' (dropWhile re_space ('' steps.'' @ r)) = Some r" for r
    by (simp add: re_space_def eat_def HasPrefix_def)
  have a: "many1 (\<lambda>c. c \<noteq> CHR ''.'') (stepID @ ''.outputs.'' @ r) = Some (stepID, ''.outputs.'' @ r)" for r
    using many1_append [of stepID "\<lambda>c. c \<noteq> CHR ''.''" "CHR ''.''" "''outputs.'' @ r"] assms(1) by (simp add: is_step_def)
  have b: "many1 (\<lambda>c. c \<noteq> CHR ''}'' \<and> \<not> re_space c) (outputName @ '' }}'') = Some (outputName, '' }}'')"
    using many1_append [of outputName "\<lambda>c. c \<noteq> CHR ''}'' \<and> \<not> re_space c" "CHR '' ''" "''}}''"] assms(2)
    by (simp add: is_output_def re_space_def)
  have c: "eat ''}}'' (dropWhile re_space '' }}'') = Some []" by (simp add: re_space_def eat_def HasPrefix_def)
  show ?thesis
    unfolding match_here_def steps Option.bind.simps drop a prod.case eat_append b c ..
qed

lemma parse_reference:
  assumes "is_step stepID" "is_output outputName"
  shows "parseStepsExpression (step_reference stepID outputName) = (stepID, outputName)"
proof -
  have "TrimSpace (step_reference stepID outputName) = step_reference stepID outputName"
    by (rule TrimSpace_id) (simp_all add: step_reference_def is_space_def)
  then show ?thesis by (simp add: parseStepsExpression_def find_match.simps match_reference [OF assms])
qed

text \<open>A reference to a step output, as a workflow writes it, is read back.\<close>

theorem step_reference_roundtrip:
  assumes "is_step stepID" "is_output outputName"
  shows "parseStepsExpression (step_reference stepID outputName) = (stepID, outputName)"
  using assms by (rule parse_reference)

theorem step_reference_roundtrip_witness:
  "parseStepsExpression (step_reference ''build'' ''version'') = (''build'', ''version'')"
  by (rule step_reference_roundtrip) (simp_all add: is_step_def is_output_def re_space_def)

text \<open>The value an output gets: the last word on a name is the declaration under it, if its variable was reported.\<close>

definition output_value :: "string gomap \<Rightarrow> string \<Rightarrow> string option" where
  "output_value outputVars expr =
     (case parseStepsExpression expr of (stepID, outputName) \<Rightarrow>
        if stepID = [] then None else mget outputVars (stepID @ ''.'' @ outputName))"

lemma resolve_value:
  "wf_map declared \<Longrightarrow> mget (resolveJobOutputs vars declared) name = Option.bind (mget declared name) (output_value vars)"
proof -
  have step: "mget (foldl (\<lambda>result (name, expr).
        let (stepID, outputName) = parseStepsExpression expr in
        if stepID = [] then result
        else case mget vars (stepID @ ''.'' @ outputName) of Some val \<Rightarrow> mput name val result | None \<Rightarrow> result) r ds) name =
      (case Option.bind (mget ds name) (output_value vars) of None \<Rightarrow> mget r name | Some v \<Rightarrow> Some v)"
    if "wf_map ds" for r ds
    using that
  proof (induction ds arbitrary: r)
    case (Cons d ds)
    obtain n e where d: "d = (n, e)" by fastforce
    have fresh: "mget ds n = None" using Cons.prems by (simp add: d map_of_eq_None_iff)
    show ?case
      using Cons fresh by (auto simp: d output_value_def Let_def split: prod.split option.split)
  qed simp
  assume "wf_map declared"
  from step [OF this, of "[]"] show ?thesis by (simp add: resolveJobOutputs_def split: option.split)
qed

end
