(* ===== verification/Workflows.thy ===== *)
theory Workflows
  imports Broker Expressions Outputs
begin

text \<open>
  The workflow engine of bleephub (\<open>bleephub/workflows.go\<close>): submitting a workflow, dispatching the
  jobs whose dependencies are done, reacting to a completed job, cancelling, timing out, and the
  queue of a concurrency group; and the handlers that drive it (\<open>jobs.go\<close>, \<open>run_service.go\<close>).

  A workflow is stored by value under its identifier, so a function that gets a pointer takes the
  identifier. \<open>wo_watched\<close> stands for the running timeout watcher; its ticks are operations of their own.
\<close>

section \<open>Changing the jobs of a workflow\<close>

definition map_jobs :: "(string \<Rightarrow> WorkflowJob \<Rightarrow> WorkflowJob) \<Rightarrow> Workflow \<Rightarrow> Workflow" where
  "map_jobs f wfl = wfl\<lparr>wo_Jobs := map (\<lambda>(k, j). (k, f k j)) (wo_Jobs wfl)\<rparr>"

text \<open>The assignments \<open>wfJob.Status = ...; wfJob.Result = ...\<close> on the jobs that a loop selects.\<close>

definition mark_jobs :: "(string \<Rightarrow> WorkflowJob \<Rightarrow> bool) \<Rightarrow> string \<Rightarrow> string \<Rightarrow> Workflow \<Rightarrow> Workflow" where
  "mark_jobs sel status result = map_jobs (\<lambda>k j. if sel k j then j\<lparr>wj_Status := status, wj_Result := result\<rparr> else j)"

definition queue_job :: "string \<Rightarrow> int \<Rightarrow> Workflow \<Rightarrow> Workflow" where
  "queue_job key now = map_jobs (\<lambda>k j. if k = key then j\<lparr>wj_Status := ''queued'', wj_StartedAt := Some now\<rparr> else j)"

definition is_final :: "WorkflowJob \<Rightarrow> bool" where
  "is_final j \<longleftrightarrow> wj_Status j = ''completed'' \<or> wj_Status j = ''skipped''"

definition is_active :: "WorkflowJob \<Rightarrow> bool" where
  "is_active j \<longleftrightarrow> wj_Status j = ''queued'' \<or> wj_Status j = ''running''"

section \<open>Which jobs are ready\<close>

text \<open>The loop over the dependencies: \<open>None\<close> while one is missing or not final, else whether one failed.\<close>

fun check_deps :: "WorkflowJob gomap \<Rightarrow> string list \<Rightarrow> bool \<Rightarrow> bool option" where
  "check_deps jobs [] anyDepFailed = Some anyDepFailed"
| "check_deps jobs (dep # deps) anyDepFailed =
     (case mget jobs dep of
        None \<Rightarrow> None
      | Some depJob \<Rightarrow>
          if is_final depJob
          then check_deps jobs deps (anyDepFailed \<or> (wj_Result depJob \<noteq> ''success'' \<and> \<not> wj_ContinueOnError depJob))
          else None)"

definition expr_ctx :: "Workflow \<Rightarrow> WorkflowJob \<Rightarrow> ExprContext" where
  "expr_ctx wfl j =
     \<lparr>xc_DepResults =
        foldl (\<lambda>m dep. case mget (wo_Jobs wfl) dep of Some depJob \<Rightarrow> mput dep (wj_Result depJob) m | None \<Rightarrow> m) [] (wj_Needs j),
      xc_Values =
        (let vals = (if wo_EventName wfl \<noteq> [] then mput ''github.event_name'' (wo_EventName wfl) [] else [])
         in if wo_Ref wfl \<noteq> [] then mput ''github.ref'' (wo_Ref wfl) vals else vals),
      xc_WorkflowCancelled = False\<rparr>"

definition active_siblings :: "Workflow \<Rightarrow> WorkflowJob \<Rightarrow> nat" where
  "active_siblings wfl j =
     length (filter (\<lambda>(_, s). wj_Key s \<noteq> wj_Key j \<and> is_active s \<and> wj_MatrixGroup s = wj_MatrixGroup j \<and> wj_MatrixGroup j \<noteq> [])
       (wo_Jobs wfl))"

datatype verdict = Wait | Skip | Queue

definition job_verdict :: "Workflow \<Rightarrow> WorkflowJob \<Rightarrow> verdict" where
  "job_verdict wfl j =
     (if wj_Status j \<noteq> ''pending'' then Wait
      else case check_deps (wo_Jobs wfl) (wj_Needs j) False of
        None \<Rightarrow> Wait
      | Some anyDepFailed \<Rightarrow>
          let condition = (case wj_Def j of Some d \<Rightarrow> jd_If d | None \<Rightarrow> []);
              (hasAlways, hasFailure) = ExprContainsStatusFunction condition
          in if condition \<noteq> [] \<and> \<not> EvalExpr condition (expr_ctx wfl j) then Skip
             else if anyDepFailed \<and> \<not> (condition \<noteq> [] \<and> (hasAlways \<or> hasFailure)) then Skip
             else if 0 < wo_MaxParallel wfl \<and> wo_MaxParallel wfl \<le> int (active_siblings wfl j) then Wait
             else Queue)"

section \<open>Dispatch\<close>

definition dispatchWorkflowJob :: "HubWorld \<Rightarrow> Workflow \<Rightarrow> Hub \<Rightarrow> string \<Rightarrow> Hub" where
  "dispatchWorkflowJob w wfl st key =
     (case mget (wo_Jobs wfl) key of
        None \<Rightarrow> st
      | Some j \<Rightarrow>
          let (st, envelope) = post_job w (wj_JobID j) (wj_Key j) st;
              (st, sent) = sendMessageToAgent envelope st
          in if sent then st else requeuePendingMessage envelope st)"

text \<open>One round of the loop of \<open>dispatchReadyJobs\<close> under the lock; \<open>todo\<close> is \<open>toDispatch\<close>.\<close>

definition scan_job :: "HubWorld \<Rightarrow> Hub \<times> Workflow \<times> bool \<times> string list \<Rightarrow> string \<Rightarrow> Hub \<times> Workflow \<times> bool \<times> string list" where
  "scan_job w acc key =
     (let (st, wfl, changed, todo) = acc in
      case mget (wo_Jobs wfl) key of
        None \<Rightarrow> (st, wfl, changed, todo)
      | Some j \<Rightarrow>
          (case job_verdict wfl j of
             Wait \<Rightarrow> (st, wfl, changed, todo)
           | Skip \<Rightarrow> (st, mark_jobs (\<lambda>k _. k = key) ''skipped'' ''skipped'' wfl, True, todo)
           | Queue \<Rightarrow> let (st, now) = time_Now w st in (st, queue_job key now wfl, True, todo @ [key])))"

definition scan_jobs :: "HubWorld \<Rightarrow> Hub \<Rightarrow> Workflow \<Rightarrow> Hub \<times> Workflow \<times> bool \<times> string list" where
  "scan_jobs w st wfl = foldl (scan_job w) (st, wfl, False, []) (mkeys (wo_Jobs wfl))"

definition pending_jobs :: "Workflow \<Rightarrow> nat" where
  "pending_jobs wfl = length (filter (\<lambda>(_, j). wj_Status j = ''pending'') (wo_Jobs wfl))"

text \<open>Every round that changes a job leaves fewer pending jobs, so the loop of \<open>dispatchReadyJobs\<close> ends.\<close>

lemma mget_map_jobs: "mget (map (\<lambda>(k, j). (k, f k j)) m) key = map_option (f key) (mget m key)"
  by (induction m) auto

lemma filter_map_jobs:
  assumes "\<And>k j. P (f k j) \<Longrightarrow> P j"
  shows "length (filter (\<lambda>(_, j). P j) (map (\<lambda>(k, j). (k, f k j)) m)) \<le> length (filter (\<lambda>(_, j). P j) m)"
    "mget m k = Some j \<Longrightarrow> P j \<Longrightarrow> \<not> P (f k j) \<Longrightarrow>
       length (filter (\<lambda>(_, j). P j) (map (\<lambda>(k, j). (k, f k j)) m)) < length (filter (\<lambda>(_, j). P j) m)"
proof -
  show le: "length (filter (\<lambda>(_, j). P j) (map (\<lambda>(k, j). (k, f k j)) m)) \<le> length (filter (\<lambda>(_, j). P j) m)" for m
    using assms by (induction m) (auto simp: le_SucI)
  show "length (filter (\<lambda>(_, j). P j) (map (\<lambda>(k, j). (k, f k j)) m)) < length (filter (\<lambda>(_, j). P j) m)"
    if "mget m k = Some j" "P j" "\<not> P (f k j)"
    using that assms
  proof (induction m)
    case (Cons x m)
    show ?case using Cons le [of m] by (cases x) (auto simp: less_Suc_eq_le split: if_splits)
  qed simp
qed

lemma pending_map:
  assumes "\<And>k j. wj_Status (f k j) = ''pending'' \<Longrightarrow> wj_Status j = ''pending''"
  shows "pending_jobs (map_jobs f wfl) \<le> pending_jobs wfl"
    "mget (wo_Jobs wfl) key = Some j \<Longrightarrow> wj_Status j = ''pending'' \<Longrightarrow> wj_Status (f key j) \<noteq> ''pending'' \<Longrightarrow>
       pending_jobs (map_jobs f wfl) < pending_jobs wfl"
  using filter_map_jobs [of "\<lambda>j. wj_Status j = ''pending''" f, OF assms]
  by (simp_all add: pending_jobs_def map_jobs_def del: filter_map)

lemma pending_mark:
  assumes "status \<noteq> ''pending''"
  shows "pending_jobs (mark_jobs sel status result wfl) \<le> pending_jobs wfl"
    "mget (wo_Jobs wfl) key = Some j \<Longrightarrow> wj_Status j = ''pending'' \<Longrightarrow> sel key j \<Longrightarrow>
       pending_jobs (mark_jobs sel status result wfl) < pending_jobs wfl"
  unfolding mark_jobs_def using assms by (auto intro!: pending_map split: if_splits)

lemma pending_queue:
  "mget (wo_Jobs wfl) key = Some j \<Longrightarrow> wj_Status j = ''pending'' \<Longrightarrow> pending_jobs (queue_job key now wfl) < pending_jobs wfl"
  unfolding queue_job_def by (auto intro!: pending_map split: if_splits)

lemma verdict_pending:
  "job_verdict wfl j = Skip \<Longrightarrow> wj_Status j = ''pending''" "job_verdict wfl j = Queue \<Longrightarrow> wj_Status j = ''pending''"
  by (auto simp: job_verdict_def split: if_splits)

lemma scan_job_cases:
  assumes "scan_job w (st, wfl, changed, todo) key = (st', wfl', changed', todo')"
  obtains (wait) "st' = st" "wfl' = wfl" "changed' = changed" "todo' = todo"
  | (skip) j where "mget (wo_Jobs wfl) key = Some j" "job_verdict wfl j = Skip" "st' = st"
      "wfl' = mark_jobs (\<lambda>k _. k = key) ''skipped'' ''skipped'' wfl" changed' "todo' = todo"
  | (queue) j where "mget (wo_Jobs wfl) key = Some j" "job_verdict wfl j = Queue" "st' = fst (time_Now w st)"
      "wfl' = queue_job key (snd (time_Now w st)) wfl" changed' "todo' = todo @ [key]"
  using assms by (auto simp: scan_job_def Let_def split: option.splits verdict.splits prod.splits)

lemma scan_pending:
  "foldl (scan_job w) (st, wfl, changed, todo) keys = (st', wfl', changed', todo') \<Longrightarrow>
   pending_jobs wfl' \<le> pending_jobs wfl \<and> (changed' \<longrightarrow> changed \<or> pending_jobs wfl' < pending_jobs wfl) \<and> (changed \<longrightarrow> changed')"
proof (induction keys arbitrary: st wfl changed todo)
  case (Cons key keys)
  obtain st1 wfl1 changed1 todo1 where scan: "scan_job w (st, wfl, changed, todo) key = (st1, wfl1, changed1, todo1)"
    by (metis prod.exhaust)
  then have IH: "pending_jobs wfl' \<le> pending_jobs wfl1 \<and> (changed' \<longrightarrow> changed1 \<or> pending_jobs wfl' < pending_jobs wfl1) \<and> (changed1 \<longrightarrow> changed')"
    using Cons.prems by (intro Cons.IH) simp
  from scan show ?case
  proof (cases rule: scan_job_cases)
    case wait
    with IH show ?thesis by simp
  next
    case (skip j)
    then have "pending_jobs wfl1 < pending_jobs wfl" by (simp add: pending_mark(2) verdict_pending(1))
    with IH skip(5) show ?thesis by auto
  next
    case (queue j)
    then have "pending_jobs wfl1 < pending_jobs wfl" by (simp add: pending_queue verdict_pending(2))
    with IH queue(5) show ?thesis by auto
  qed
qed simp

lemma scan_jobs_pending: "(st', wfl', True, todo) = scan_jobs w st wfl \<Longrightarrow> pending_jobs wfl' < pending_jobs wfl"
  using scan_pending [of w st wfl False "[]" "mkeys (wo_Jobs wfl)" st' wfl' True todo] by (simp add: scan_jobs_def)

function dispatch_loop :: "HubWorld \<Rightarrow> Hub \<Rightarrow> Workflow \<Rightarrow> Hub \<times> Workflow" where
  "dispatch_loop w st wfl =
     (case scan_jobs w st wfl of
        (st, wfl, changed, todo) \<Rightarrow>
          let st = foldl (dispatchWorkflowJob w wfl) st todo
          in if changed then dispatch_loop w st wfl else (st, wfl))"
  by pat_completeness auto
termination
  by (relation "measure (\<lambda>(w, st, wfl). pending_jobs wfl)") (auto dest: scan_jobs_pending)

declare dispatch_loop.simps [simp del]

section \<open>The engine\<close>

definition upd_workflow :: "string \<Rightarrow> (Workflow \<Rightarrow> Workflow) \<Rightarrow> Hub \<Rightarrow> Hub" where
  "upd_workflow i f st =
     (case mget (hb_Workflows st) i of
        Some wfl \<Rightarrow> st\<lparr>hb_Workflows := mput i (f wfl) (hb_Workflows st)\<rparr>
      | None \<Rightarrow> st)"

definition dispatchReadyJobs :: "HubWorld \<Rightarrow> string \<Rightarrow> Hub \<Rightarrow> Hub" where
  "dispatchReadyJobs w i st =
     (case mget (hb_Workflows st) i of
        None \<Rightarrow> st
      | Some wfl \<Rightarrow> let (st, wfl) = dispatch_loop w st wfl in st\<lparr>hb_Workflows := mput i wfl (hb_Workflows st)\<rparr>)"

text \<open>The redispatch that \<open>onJobCompleted\<close>, \<open>startPendingConcurrencyWorkflow\<close> and \<open>checkJobTimeouts\<close> share.\<close>

definition redispatch :: "HubWorld \<Rightarrow> string \<Rightarrow> Hub \<Rightarrow> Hub" where
  "redispatch w i st =
     (case Option.bind (mget (hb_Workflows st) i) wo_Env of
        None \<Rightarrow> st
      | Some env \<Rightarrow> if mget env ''__serverURL'' = None then st else dispatchReadyJobs w i st)"

definition startTimeoutWatcher :: "string \<Rightarrow> Hub \<Rightarrow> Hub" where
  "startTimeoutWatcher i = upd_workflow i (wo_watched_update (\<lambda>_. True))"

definition normalizeResult :: "string \<Rightarrow> string" where
  "normalizeResult result =
     (if result = ''Succeeded'' \<or> result = ''succeeded'' then ''success''
      else if result = ''Failed'' \<or> result = ''failed'' then ''failure''
      else if result = ''Cancelled'' \<or> result = ''cancelled'' then ''cancelled''
      else if result = [] then ''success''
      else result)"

definition cancel_jobs :: "Workflow \<Rightarrow> Workflow" where
  "cancel_jobs = mark_jobs (\<lambda>_ j. wj_Status j = ''pending'' \<or> wj_Status j = ''queued'') ''completed'' ''cancelled''"

definition cancelWorkflow :: "string \<Rightarrow> Hub \<Rightarrow> Hub" where
  "cancelWorkflow i =
     upd_workflow i (\<lambda>wfl. (cancel_jobs wfl)\<lparr>wo_Status := ''completed'', wo_Result := ''cancelled'', wo_watched := False\<rparr>)"

definition pending_in_group :: "string \<Rightarrow> Workflow \<Rightarrow> bool" where
  "pending_in_group grp wfl \<longleftrightarrow> wo_ConcurrencyGroup wfl = grp \<and> wo_Status wfl = ''pending_concurrency''"

text \<open>The loop of \<open>startPendingConcurrencyWorkflow\<close>: the oldest pending workflow of the group.\<close>

definition next_pending :: "string \<Rightarrow> Hub \<Rightarrow> (string \<times> Workflow) option" where
  "next_pending grp st =
     foldl (\<lambda>best (i, wfl).
         if pending_in_group grp wfl
         then (case best of
                 None \<Rightarrow> Some (i, wfl)
               | Some (_, b) \<Rightarrow> if wo_CreatedAt wfl < wo_CreatedAt b then Some (i, wfl) else best)
         else best)
       None (hb_Workflows st)"

definition startPendingConcurrencyWorkflow :: "HubWorld \<Rightarrow> string \<Rightarrow> Hub \<Rightarrow> Hub" where
  "startPendingConcurrencyWorkflow w grp st =
     (case next_pending grp st of
        None \<Rightarrow> st
      | Some (i, _) \<Rightarrow>
          redispatch w i (startTimeoutWatcher i (upd_workflow i (wo_Status_update (\<lambda>_. ''running'')) st)))"

section \<open>Submitting a workflow\<close>

record WorkflowEventMeta =
  em_EventName :: string
  em_Ref :: string
  em_Sha :: string
  em_Repo :: string
  em_Inputs :: "string gomap"

definition matrix_values :: "JobDef \<Rightarrow> string gomap" where
  "matrix_values jd =
     (case jd_Env jd of
        None \<Rightarrow> []
      | Some env \<Rightarrow>
          foldl (\<lambda>m (k, v). if 9 < length k \<and> take 9 k = ''__matrix_'' then mput (drop 9 k) v m else m) [] env)"

definition matrix_group :: "string \<Rightarrow> string" where
  "matrix_group key =
     (case LastIndexByte key CHR ''_'' of
        Some idx \<Rightarrow> if 0 < idx \<and> Sscanf_d (drop (Suc idx) key) \<noteq> None then take idx key else []
      | None \<Rightarrow> [])"

definition new_job :: "string \<Rightarrow> JobDef \<Rightarrow> string \<Rightarrow> WorkflowJob" where
  "new_job key jd jobID =
     \<lparr>wj_Key = key, wj_JobID = jobID, wj_DisplayName = (if jd_Name jd \<noteq> [] then jd_Name jd else key), wj_Needs = jd_Needs jd,
      wj_Status = ''pending'', wj_Result = [], wj_Outputs = [], wj_MatrixValues = matrix_values jd,
      wj_ContinueOnError = jd_ContinueOnError jd, wj_StartedAt = None, wj_MatrixGroup = matrix_group key, wj_Def = Some jd\<rparr>"

definition add_job :: "HubWorld \<Rightarrow> Hub \<times> Workflow \<Rightarrow> string \<times> JobDef \<Rightarrow> Hub \<times> Workflow" where
  "add_job w acc kj =
     (let (st, wfl) = acc; (key, jd) = kj;
          (st, jobID) = uuid_New w st;
          j = new_job key jd jobID;
          wfl = (case jd_Strategy jd of
                   Some s \<Rightarrow> if 0 < sd_MaxParallel s \<and> wj_MatrixGroup j \<noteq> [] then wfl\<lparr>wo_MaxParallel := sd_MaxParallel s\<rparr> else wfl
                 | None \<Rightarrow> wfl)
      in (st, wfl\<lparr>wo_Jobs := mput key j (wo_Jobs wfl)\<rparr>))"

definition init_workflow :: "HubWorld \<Rightarrow> WorkflowDef \<Rightarrow> Hub \<Rightarrow> Hub \<times> Workflow" where
  "init_workflow w wdef st =
     (let runID = hb_NextRunID st;
          st = st\<lparr>hb_NextRunID := runID + 1\<rparr>;
          (st, i) = uuid_New w st;
          (st, now) = time_Now w st
      in (st, \<lparr>wo_ID = i, wo_Name = (if wd_Name wdef = [] then ''workflow'' else wd_Name wdef), wo_RunID = runID, wo_RunNumber = runID,
               wo_Jobs = [], wo_Env = wd_Env wdef, wo_Status = ''running'', wo_Result = [], wo_CreatedAt = now, wo_MaxParallel = 0,
               wo_watched = False, wo_EventName = [], wo_Ref = [], wo_Sha = [], wo_RepoFullName = [], wo_Inputs = [],
               wo_ConcurrencyGroup = (case wd_Concurrency wdef of Some c \<Rightarrow> cd_Group c | None \<Rightarrow> []),
               wo_CancelInProgress = (case wd_Concurrency wdef of Some c \<Rightarrow> cd_CancelInProgress c | None \<Rightarrow> False)\<rparr>))"

definition set_meta :: "WorkflowEventMeta option \<Rightarrow> Workflow \<Rightarrow> Workflow" where
  "set_meta eventMeta wfl =
     (case eventMeta of
        None \<Rightarrow> wfl
      | Some m \<Rightarrow>
          wfl\<lparr>wo_EventName := em_EventName m, wo_Ref := em_Ref m, wo_Sha := em_Sha m, wo_RepoFullName := em_Repo m,
              wo_Inputs := em_Inputs m\<rparr>)"

definition new_workflow :: "HubWorld \<Rightarrow> WorkflowDef \<Rightarrow> WorkflowEventMeta option \<Rightarrow> Hub \<Rightarrow> Hub \<times> Workflow" where
  "new_workflow w wdef eventMeta st =
     (let (st, wfl) = foldl (add_job w) (init_workflow w wdef st) (wd_Jobs wdef) in (st, set_meta eventMeta wfl))"

definition running_in_group :: "string \<Rightarrow> Workflow \<Rightarrow> bool" where
  "running_in_group grp wfl \<longleftrightarrow> wo_ConcurrencyGroup wfl = grp \<and> wo_Status wfl = ''running''"

definition active_in_group :: "Workflow \<Rightarrow> Hub \<Rightarrow> (string \<times> Workflow) option" where
  "active_in_group wfl st =
     (if wo_ConcurrencyGroup wfl = [] then None
      else find (\<lambda>(_, existing). wo_ID existing \<noteq> wo_ID wfl \<and> running_in_group (wo_ConcurrencyGroup wfl) existing) (hb_Workflows st))"

definition store_workflow :: "Workflow \<Rightarrow> Hub \<Rightarrow> Hub" where
  "store_workflow wfl st = st\<lparr>hb_Workflows := mput (wo_ID wfl) wfl (hb_Workflows st)\<rparr>"

definition start_workflow :: "HubWorld \<Rightarrow> Workflow \<Rightarrow> Hub \<Rightarrow> Hub" where
  "start_workflow w wfl st = dispatchReadyJobs w (wo_ID wfl) (startTimeoutWatcher (wo_ID wfl) (store_workflow wfl st))"

definition submitWorkflow :: "HubWorld \<Rightarrow> WorkflowDef \<Rightarrow> WorkflowEventMeta option \<Rightarrow> Hub \<Rightarrow> Hub \<times> (graph_error + string)" where
  "submitWorkflow w wdef eventMeta st =
     (case validateJobGraph wdef of
        Some err \<Rightarrow> (st, Inl err)
      | None \<Rightarrow>
          let (st, wfl) = new_workflow w wdef eventMeta st in
          (case active_in_group wfl st of
             None \<Rightarrow> (start_workflow w wfl st, Inr (wo_ID wfl))
           | Some (active, _) \<Rightarrow>
               if wo_CancelInProgress wfl then (start_workflow w wfl (cancelWorkflow active st), Inr (wo_ID wfl))
               else (store_workflow (wfl\<lparr>wo_Status := ''pending_concurrency''\<rparr>) st, Inr (wo_ID wfl))))"

end
