(* ===== verification/RunService.thy ===== *)
theory RunService
  imports Workflows
begin

text \<open>
  The handlers that drive the workflow engine: completion and renewal of a job request and the report of
  a finished job (\<open>bleephub/run_service.go\<close>), submission and cancellation of a workflow (\<open>jobs.go\<close>).
  A refusal is \<open>Inl\<close> of the HTTP status. The YAML parser is the parameter \<open>ParseWorkflow\<close>.
  \<open>hub_op\<close> collects the operations a client, a runner or the timeout watcher can cause.
\<close>

section \<open>Completion\<close>

definition find_job :: "string \<Rightarrow> Workflow \<Rightarrow> (string \<times> WorkflowJob) option" where
  "find_job jobID wfl = find (\<lambda>(_, j). wj_JobID j = jobID) (wo_Jobs wfl)"

definition find_workflow_job :: "string \<Rightarrow> Hub \<Rightarrow> (string \<times> string) option" where
  "find_workflow_job jobID st =
     (case find (\<lambda>(_, wfl). find_job jobID wfl \<noteq> None) (hb_Workflows st) of
        None \<Rightarrow> None
      | Some (i, wfl) \<Rightarrow> map_option (\<lambda>(key, _). (i, key)) (find_job jobID wfl))"

text \<open>The job completes; a failure in a matrix that fails fast cancels the siblings that have not run.\<close>

definition siblings_to_cancel :: "WorkflowJob \<Rightarrow> string \<Rightarrow> WorkflowJob \<Rightarrow> bool" where
  "siblings_to_cancel j _ sibling \<longleftrightarrow>
     wj_Key sibling \<noteq> wj_Key j \<and> wj_MatrixGroup sibling = wj_MatrixGroup j \<and>
     (wj_Status sibling = ''pending'' \<or> wj_Status sibling = ''queued'')"

definition complete_job :: "string \<Rightarrow> string \<Rightarrow> Workflow \<Rightarrow> Workflow" where
  "complete_job key result wfl =
     (let done = mark_jobs (\<lambda>k _. k = key) ''completed'' (normalizeResult result) wfl in
      case mget (wo_Jobs wfl) key of
        None \<Rightarrow> wfl
      | Some j \<Rightarrow>
          if normalizeResult result = ''failure'' \<and> wj_MatrixGroup j \<noteq> [] \<and> FailFast (wj_Def j)
          then mark_jobs (siblings_to_cancel j) ''completed'' ''cancelled'' done
          else done)"

definition all_done :: "Workflow \<Rightarrow> bool" where
  "all_done wfl = list_all (\<lambda>(_, j). is_final j) (wo_Jobs wfl)"

definition any_failed :: "Workflow \<Rightarrow> bool" where
  "any_failed wfl = list_ex (\<lambda>(_, j). wj_Result j = ''failure'' \<or> wj_Result j = ''cancelled'') (wo_Jobs wfl)"

definition settle :: "Workflow \<Rightarrow> Workflow" where
  "settle wfl =
     wfl\<lparr>wo_Status := ''completed'', wo_Result := (if any_failed wfl then ''failure'' else ''success''), wo_watched := False\<rparr>"

definition onJobCompleted :: "HubWorld \<Rightarrow> string \<Rightarrow> string \<Rightarrow> Hub \<Rightarrow> Hub" where
  "onJobCompleted w jobID result st =
     (case find_workflow_job jobID st of
        None \<Rightarrow> st
      | Some (i, key) \<Rightarrow>
          let st = redispatch w i (upd_workflow i (complete_job key result) st) in
          case mget (hb_Workflows st) i of
            None \<Rightarrow> st
          | Some wfl \<Rightarrow>
              if all_done wfl then
                let st = upd_workflow i settle st in
                if wo_ConcurrencyGroup wfl \<noteq> [] then startPendingConcurrencyWorkflow w (wo_ConcurrencyGroup wfl) st else st
              else st)"

text \<open>Durations are nanoseconds.\<close>

definition timed_out :: "int \<Rightarrow> string \<Rightarrow> WorkflowJob \<Rightarrow> bool" where
  "timed_out now _ j =
     (is_active j \<and>
      (case wj_StartedAt j of
         None \<Rightarrow> False
       | Some started \<Rightarrow>
           let timeout = (case wj_Def j of Some d \<Rightarrow> if 0 < jd_TimeoutMinutes d then jd_TimeoutMinutes d else 360 | None \<Rightarrow> 360)
           in timeout * 60 * 10 ^ 9 < now - started))"

definition checkJobTimeouts :: "HubWorld \<Rightarrow> string \<Rightarrow> Hub \<Rightarrow> Hub" where
  "checkJobTimeouts w i st =
     (case mget (hb_Workflows st) i of
        None \<Rightarrow> st
      | Some wfl \<Rightarrow>
          if wo_Status wfl = ''completed'' then st
          else
            let (st, now) = time_Now w st;
                timedOut = list_ex (\<lambda>(k, j). timed_out now k j) (wo_Jobs wfl);
                st = upd_workflow i (mark_jobs (timed_out now) ''completed'' ''cancelled'') st
            in if timedOut then redispatch w i st else st)"

section \<open>Handlers\<close>

definition upd_job :: "Job \<Rightarrow> Hub \<Rightarrow> Hub" where
  "upd_job job st = st\<lparr>hb_Jobs := mput (jb_ID job) job (hb_Jobs st)\<rparr>"

definition requested_job :: "string \<Rightarrow> Hub \<Rightarrow> int + Job" where
  "requested_job requestId st =
     (case Atoi requestId of
        None \<Rightarrow> Inl 400
      | Some reqID \<Rightarrow> (case lookupJobByRequestID reqID st of None \<Rightarrow> Inl 404 | Some job \<Rightarrow> Inr job))"

definition handleRenewRequest :: "HubWorld \<Rightarrow> string \<Rightarrow> Hub \<Rightarrow> Hub \<times> (int + Job)" where
  "handleRenewRequest w requestId st =
     (case requested_job requestId st of
        Inl code \<Rightarrow> (st, Inl code)
      | Inr job \<Rightarrow>
          let (st, now) = time_Now w st;
              job = job\<lparr>jb_Status := (if jb_Status job = ''queued'' then ''running'' else jb_Status job), jb_LockedUntil := now + 3600 * 10 ^ 9\<rparr>
          in (upd_job job st, Inr job))"

definition handleCompleteRequest :: "HubWorld \<Rightarrow> string \<Rightarrow> string \<Rightarrow> Hub \<Rightarrow> Hub \<times> (int + unit)" where
  "handleCompleteRequest w requestId result st =
     (case requested_job requestId st of
        Inl code \<Rightarrow> (st, Inl code)
      | Inr job \<Rightarrow>
          let job = job\<lparr>jb_Status := ''completed'', jb_Result := (if result \<noteq> [] then result else jb_Result job)\<rparr>
          in (onJobCompleted w (jb_ID job) (jb_Result job) (upd_job job st), Inr ()))"

text \<open>Where the outputs of a job are stored: the job under the empty key first, then any.\<close>

definition output_job :: "string \<Rightarrow> Hub \<Rightarrow> (string \<times> string) option" where
  "output_job jobID st =
     (case find_workflow_job jobID st of
        None \<Rightarrow> None
      | Some (i, key) \<Rightarrow>
          (case Option.bind (mget (hb_Workflows st) i) (\<lambda>wfl. mget (wo_Jobs wfl) []) of
             Some j \<Rightarrow> if wj_JobID j = jobID then Some (i, []) else Some (i, key)
           | None \<Rightarrow> Some (i, key)))"

definition store_outputs :: "string \<Rightarrow> string gomap \<Rightarrow> Workflow \<Rightarrow> Workflow" where
  "store_outputs key outputVars =
     map_jobs (\<lambda>k j.
       if k = key
       then (case wj_Def j of
               None \<Rightarrow> j
             | Some d \<Rightarrow>
                 j\<lparr>wj_Outputs := foldl (\<lambda>m (k, v). mput k v m) (wj_Outputs j) (resolveJobOutputs outputVars (jd_Outputs d))\<rparr>)
       else j)"

definition captureJobOutputs :: "string \<Rightarrow> jval gomap \<Rightarrow> Hub \<Rightarrow> Hub" where
  "captureJobOutputs jobID body st =
     (if extractOutputVariables body = [] then st
      else case output_job jobID st of
             None \<Rightarrow> st
           | Some (i, key) \<Rightarrow> upd_workflow i (store_outputs key (extractOutputVariables body)) st)"

definition body_string :: "jval gomap \<Rightarrow> string \<Rightarrow> string" where
  "body_string body field = (case mget body field of Some (JString s) \<Rightarrow> s | _ \<Rightarrow> [])"

definition finished_job :: "string \<Rightarrow> jval gomap \<Rightarrow> Hub \<Rightarrow> Job option" where
  "finished_job planID body st =
     (case lookupJobByPlanID planID st of
        Some job \<Rightarrow> Some job
      | None \<Rightarrow> if body_string body ''jobId'' \<noteq> [] then mget (hb_Jobs st) (body_string body ''jobId'') else None)"

definition handleFinishJob :: "HubWorld \<Rightarrow> string \<Rightarrow> jval gomap \<Rightarrow> Hub \<Rightarrow> Hub" where
  "handleFinishJob w planID body st =
     (let result = body_string body ''result'' in
      case finished_job planID body st of
        None \<Rightarrow> st
      | Some job \<Rightarrow>
          let job = job\<lparr>jb_Status := ''completed'', jb_Result := (if result \<noteq> [] then result else ''Succeeded'')\<rparr>
          in onJobCompleted w (jb_ID job) (jb_Result job) (captureJobOutputs (jb_ID job) body (upd_job job st)))"

record WorkflowSubmitRequest =
  wr_Workflow :: string
  wr_Image :: string
  wr_EventName :: string
  wr_Ref :: string
  wr_Sha :: string
  wr_Repo :: string
  wr_Inputs :: "string gomap"

definition or_default :: "string \<Rightarrow> string \<Rightarrow> string" where
  "or_default s d = (if s = [] then d else s)"

definition submit_meta :: "WorkflowSubmitRequest \<Rightarrow> WorkflowEventMeta" where
  "submit_meta req =
     \<lparr>em_EventName = or_default (wr_EventName req) ''push'', em_Ref = or_default (wr_Ref req) ''refs/heads/main'',
      em_Sha = or_default (wr_Sha req) ''0000000000000000000000000000000000000000'', em_Repo = or_default (wr_Repo req) ''bleephub/test'',
      em_Inputs = wr_Inputs req\<rparr>"

text \<open>The expanded definition, with the server and the image remembered for later dispatches.\<close>

definition prepared_def :: "string \<Rightarrow> WorkflowSubmitRequest \<Rightarrow> WorkflowDef \<Rightarrow> WorkflowDef" where
  "prepared_def serverURL req wfDef =
     (let expandedDef = expandMatrixJobs wfDef;
          env = (case wd_Env expandedDef of Some env \<Rightarrow> env | None \<Rightarrow> [])
      in expandedDef\<lparr>wd_Env :=
           Some (mput ''__defaultImage'' (or_default (wr_Image req) ''alpine:latest'') (mput ''__serverURL'' serverURL env))\<rparr>)"

definition register_file :: "HubWorld \<Rightarrow> WorkflowSubmitRequest \<Rightarrow> WorkflowDef \<Rightarrow> Hub \<Rightarrow> Hub" where
  "register_file w req wfDef st =
     (let wfName = or_default (wd_Name wfDef) ''workflow'';
          (st, now) = time_Now w st
      in st\<lparr>hb_WorkflowFiles := RegisterWorkflowFile now (or_default (wr_Repo req) ''bleephub/test'')
             (''.github/workflows/'' @ wfName @ ''.yml'') wfName (wr_Workflow req) ''submitted'' (hb_WorkflowFiles st)\<rparr>)"

definition running_workflows :: "Hub \<Rightarrow> int" where
  "running_workflows st = int (length (filter (\<lambda>(_, wfl). wo_Status wfl = ''running'') (hb_Workflows st)))"

definition handleSubmitWorkflow ::
  "HubWorld \<Rightarrow> (string \<Rightarrow> WorkflowDef option) \<Rightarrow> int \<Rightarrow> string \<Rightarrow> WorkflowSubmitRequest \<Rightarrow> Hub \<Rightarrow> Hub \<times> (int + string)" where
  "handleSubmitWorkflow w ParseWorkflow maxConcurrentWorkflows serverURL req st =
     (if wr_Workflow req = [] then (st, Inl 400)
      else case ParseWorkflow (wr_Workflow req) of
        None \<Rightarrow> (st, Inl 400)
      | Some wfDef \<Rightarrow>
          if 0 < maxConcurrentWorkflows \<and> maxConcurrentWorkflows \<le> running_workflows st then (st, Inl 429)
          else
            let st = register_file w req wfDef st;
                (st, res) = submitWorkflow w (prepared_def serverURL req wfDef) (Some (submit_meta req)) st
            in (st, case res of Inl _ \<Rightarrow> Inl 400 | Inr i \<Rightarrow> Inr i))"

definition handleCancelWorkflow :: "string \<Rightarrow> Hub \<Rightarrow> Hub \<times> (int + unit)" where
  "handleCancelWorkflow wfID st =
     (case mget (hb_Workflows st) wfID of
        None \<Rightarrow> (st, Inl 404)
      | Some wfl \<Rightarrow> if wo_Status wfl = ''completed'' then (st, Inl 409) else (cancelWorkflow wfID st, Inr ()))"

section \<open>Histories\<close>

text \<open>\<open>OpTick\<close> is a tick of the timeout watcher of a workflow, which only a watched workflow has.\<close>

datatype hub_op =
    OpCreateSession string
  | OpDeleteSession string
  | OpGetMessage string
  | OpSubmitJob
  | OpSubmitWorkflow string WorkflowSubmitRequest
  | OpCancelWorkflow string
  | OpRenew string
  | OpComplete string string
  | OpFinish string "jval gomap"
  | OpTick string

definition hub_step :: "HubWorld \<Rightarrow> (string \<Rightarrow> WorkflowDef option) \<Rightarrow> int \<Rightarrow> Hub \<Rightarrow> hub_op \<Rightarrow> Hub" where
  "hub_step w parse limit st op =
     (case op of
        OpCreateSession owner \<Rightarrow> fst (handleCreateSession w owner st)
      | OpDeleteSession sid \<Rightarrow> handleDeleteSession sid st
      | OpGetMessage sid \<Rightarrow> fst (handleGetMessage sid st)
      | OpSubmitJob \<Rightarrow> fst (handleSubmitJob w st)
      | OpSubmitWorkflow url req \<Rightarrow> fst (handleSubmitWorkflow w parse limit url req st)
      | OpCancelWorkflow i \<Rightarrow> fst (handleCancelWorkflow i st)
      | OpRenew requestId \<Rightarrow> fst (handleRenewRequest w requestId st)
      | OpComplete requestId result \<Rightarrow> fst (handleCompleteRequest w requestId result st)
      | OpFinish planID body \<Rightarrow> handleFinishJob w planID body st
      | OpTick i \<Rightarrow>
          (case mget (hb_Workflows st) i of
             Some wfl \<Rightarrow> if wo_watched wfl then checkJobTimeouts w i st else st
           | None \<Rightarrow> st))"

definition hub_run :: "HubWorld \<Rightarrow> (string \<Rightarrow> WorkflowDef option) \<Rightarrow> int \<Rightarrow> hub_op list \<Rightarrow> Hub \<Rightarrow> Hub" where
  "hub_run w parse limit ops st = foldl (hub_step w parse limit) st ops"

end
