(* ===== verification/HubDemo.thy ===== *)
theory HubDemo
  imports RunService
begin

text \<open>
  A small hub for concrete runs: identifiers are words of one letter, the clock counts, and three workflows
  can be submitted by name. The properties of the hub are evaluated here at concrete histories.
\<close>

definition demo :: HubWorld where
  "demo = \<lparr>hw_uuid = (\<lambda>n. replicate n CHR ''u''), hw_now = (\<lambda>n. int n * 10 ^ 14)\<rparr>"

definition demo_job :: JobDef where
  "demo_job = \<lparr>jd_Name = [], jd_Needs = [], jd_Env = None, jd_Outputs = [(''v'', ''${{ steps.s.outputs.o }}'')], jd_Strategy = None,
     jd_If = [], jd_ContinueOnError = False, jd_TimeoutMinutes = 0\<rparr>"

definition demo_matrix :: StrategyDef where
  "demo_matrix = \<lparr>sd_Matrix = \<lparr>mx_Values = [(''x'', [YStr ''1'', YStr ''2''])], mx_Include = [], mx_Exclude = []\<rparr>,
     sd_FailFast = None, sd_MaxParallel = 1\<rparr>"

text \<open>\<open>group\<close>: one job in a concurrency group; \<open>chain\<close>: a job and its dependent; \<open>matrix\<close>: two copies, one at a time.\<close>

definition demo_parse :: "string \<Rightarrow> WorkflowDef option" where
  "demo_parse s =
     (if s = ''group'' then Some \<lparr>wd_Name = s, wd_Env = None, wd_Concurrency = Some \<lparr>cd_Group = ''g'', cd_CancelInProgress = False\<rparr>, wd_Jobs = [(''a'', demo_job)]\<rparr>
      else if s = ''chain'' then Some \<lparr>wd_Name = s, wd_Env = None, wd_Concurrency = None, wd_Jobs = [(''b'', demo_job\<lparr>jd_Needs := [''a'']\<rparr>), (''a'', demo_job)]\<rparr>
      else if s = ''matrix'' then Some \<lparr>wd_Name = s, wd_Env = None, wd_Concurrency = None, wd_Jobs = [(''m'', demo_job\<lparr>jd_Strategy := Some demo_matrix\<rparr>)]\<rparr>
      else None)"

definition demo_submit :: "string \<Rightarrow> hub_op" where
  "demo_submit s = OpSubmitWorkflow ''http://h''
     \<lparr>wr_Workflow = s, wr_Image = [], wr_EventName = [], wr_Ref = [], wr_Sha = [], wr_Repo = [], wr_Inputs = []\<rparr>"

definition demo_run :: "hub_op list \<Rightarrow> Hub" where
  "demo_run ops = hub_run demo demo_parse 0 ops NewHub"

definition demo_workflow :: "hub_op list \<Rightarrow> string \<Rightarrow> Workflow" where
  "demo_workflow ops i = the (mget (hb_Workflows (demo_run ops)) i)"

definition demo_statuses :: "hub_op list \<Rightarrow> string list" where
  "demo_statuses ops = map (\<lambda>(_, a). wo_Status a) (hb_Workflows (demo_run ops))"

lemma demo_inj: "inj (hw_uuid demo)"
  by (rule injI) (simp add: demo_def replicate_eq_replicate)

lemma demo_get: "\<not> Option.is_none (mget (hb_Workflows (demo_run ops)) i) \<Longrightarrow>
  mget (hb_Workflows (hub_run demo demo_parse 0 ops NewHub)) i = Some (demo_workflow ops i)"
  by (auto simp: demo_workflow_def demo_run_def Option.is_none_def)

end
