(* ===== verification/WorkflowLife.thy ===== *)
theory WorkflowLife
  imports HubDemo
begin

text \<open>
  The life cycle of a workflow as an abstract step relation, and the refinement: every operation of the
  hub takes each stored workflow along abstract steps. An invariant of the steps that holds of a workflow
  as submitted then holds of every workflow of every history: the locale \<open>life_invariant\<close>.
\<close>

section \<open>Abstract steps\<close>

definition deps_final :: "Workflow \<Rightarrow> WorkflowJob \<Rightarrow> bool" where
  "deps_final a j \<longleftrightarrow> (\<forall>dep \<in> set (wj_Needs j). \<exists>d. mget (wo_Jobs a) dep = Some d \<and> is_final d)"

definition room :: "Workflow \<Rightarrow> WorkflowJob \<Rightarrow> bool" where
  "room a j \<longleftrightarrow> \<not> (0 < wo_MaxParallel a \<and> wo_MaxParallel a \<le> int (active_siblings a j))"

inductive wf_step :: "Workflow \<Rightarrow> Workflow \<Rightarrow> bool" where
  queue: "mget (wo_Jobs a) key = Some j \<Longrightarrow> wj_Status j = ''pending'' \<Longrightarrow> deps_final a j \<Longrightarrow> room a j \<Longrightarrow>
     wf_step a (queue_job key now a)"
| skip: "mget (wo_Jobs a) key = Some j \<Longrightarrow> wj_Status j = ''pending'' \<Longrightarrow> deps_final a j \<Longrightarrow>
     wf_step a (mark_jobs (\<lambda>k _. k = key) ''skipped'' ''skipped'' a)"
| finish: "wf_step a (mark_jobs sel ''completed'' result a)"
| outputs: "wf_step a (store_outputs key vars a)"
| relabel: "wf_step a (a\<lparr>wo_Status := status, wo_Result := result, wo_watched := watched\<rparr>)"

declare wf_step.intros [intro]

abbreviation wf_steps :: "Workflow \<Rightarrow> Workflow \<Rightarrow> bool" where
  "wf_steps \<equiv> wf_step\<^sup>*\<^sup>*"

text \<open>What no step changes.\<close>

definition job_static :: "WorkflowJob \<Rightarrow> string \<times> string \<times> string list \<times> string \<times> JobDef option \<times> bool" where
  "job_static j = (wj_Key j, wj_JobID j, wj_Needs j, wj_MatrixGroup j, wj_Def j, wj_ContinueOnError j)"

definition jobs_static :: "Workflow \<Rightarrow> (string \<times> string \<times> string \<times> string list \<times> string \<times> JobDef option \<times> bool) list" where
  "jobs_static a = map (\<lambda>(k, j). (k, job_static j)) (wo_Jobs a)"

lemma map_jobs_static: "(\<And>k j. job_static (f k j) = job_static j) \<Longrightarrow> jobs_static (map_jobs f a) = jobs_static a"
  by (auto simp: jobs_static_def map_jobs_def)

lemma step_static: "wf_step a b \<Longrightarrow> jobs_static b = jobs_static a"
  by (induction rule: wf_step.induct)
    (auto simp: queue_job_def mark_jobs_def store_outputs_def intro!: map_jobs_static, auto simp: job_static_def jobs_static_def split: option.splits)

lemma step_frame:
  "wf_step a b \<Longrightarrow> wo_ID b = wo_ID a \<and> wo_MaxParallel b = wo_MaxParallel a \<and> wo_Env b = wo_Env a \<and>
     wo_ConcurrencyGroup b = wo_ConcurrencyGroup a \<and> wo_CreatedAt b = wo_CreatedAt a \<and> mkeys (wo_Jobs b) = mkeys (wo_Jobs a)"
  by (induction rule: wf_step.induct) (auto simp: queue_job_def mark_jobs_def store_outputs_def map_jobs_def)

lemma steps_frame:
  "wf_steps a b \<Longrightarrow> jobs_static b = jobs_static a \<and> wo_ID b = wo_ID a \<and> wo_MaxParallel b = wo_MaxParallel a \<and> wo_Env b = wo_Env a \<and>
     wo_ConcurrencyGroup b = wo_ConcurrencyGroup a \<and> wo_CreatedAt b = wo_CreatedAt a \<and> mkeys (wo_Jobs b) = mkeys (wo_Jobs a)"
  by (induction rule: rtranclp_induct) (auto dest: step_frame step_static)

section \<open>The verdict and the steps\<close>

lemma check_deps_final: "check_deps jobs deps failed = None \<longleftrightarrow> \<not> (\<forall>dep \<in> set deps. \<exists>d. mget jobs dep = Some d \<and> is_final d)"
  by (induction deps arbitrary: failed) (auto split: option.splits)

lemma deps_final_check: "deps_final a j \<longleftrightarrow> check_deps (wo_Jobs a) (wj_Needs j) False \<noteq> None"
  using check_deps_final [of "wo_Jobs a" "wj_Needs j" False] by (auto simp: deps_final_def)

lemma verdict_Queue: "job_verdict a j = Queue \<Longrightarrow> wj_Status j = ''pending'' \<and> deps_final a j \<and> room a j"
  by (auto simp: job_verdict_def deps_final_check room_def Let_def split: if_splits option.splits prod.splits)

lemma verdict_Skip: "job_verdict a j = Skip \<Longrightarrow> wj_Status j = ''pending'' \<and> deps_final a j"
  by (auto simp: job_verdict_def deps_final_check Let_def split: if_splits option.splits prod.splits)

lemma verdict_Wait: "job_verdict a j = Wait \<Longrightarrow> wj_Status j = ''pending'' \<Longrightarrow> \<not> deps_final a j \<or> \<not> room a j"
  by (auto simp: job_verdict_def deps_final_check room_def Let_def split: if_splits option.splits prod.splits)

section \<open>Dispatch takes abstract steps\<close>

lemma scan_job_step: "scan_job w (st, a, changed, todo) key = (st', b, changed', todo') \<Longrightarrow> wf_steps a b"
  by (erule scan_job_cases) (auto dest!: verdict_Queue verdict_Skip intro!: r_into_rtranclp)

lemma scan_step: "foldl (scan_job w) (st, a, changed, todo) keys = (st', b, changed', todo') \<Longrightarrow> wf_steps a b"
proof (induction keys arbitrary: st a changed todo)
  case (Cons key keys)
  obtain st1 a1 changed1 todo1 where scan: "scan_job w (st, a, changed, todo) key = (st1, a1, changed1, todo1)"
    by (metis prod.exhaust)
  from Cons.prems have "wf_steps a1 b" by (intro Cons.IH) (simp add: scan)
  with scan_job_step [OF scan] show ?case by simp
qed simp

lemma loop_step: "dispatch_loop w st a = (st', b) \<Longrightarrow> wf_steps a b"
proof (induction w st a rule: dispatch_loop.induct)
  case (1 w st a)
  obtain st1 a1 changed todo where scan: "scan_jobs w st a = (st1, a1, changed, todo)" by (metis prod.exhaust)
  then have "wf_steps a a1" by (auto simp: scan_jobs_def intro: scan_step)
  moreover have "wf_steps a1 b"
  proof (cases changed)
    case True
    with 1(2) scan show ?thesis by (intro 1(1) [OF scan [symmetric]]) (auto simp: dispatch_loop.simps [of w st a])
  next
    case False
    with 1(2) scan show ?thesis by (simp add: dispatch_loop.simps [of w st a])
  qed
  ultimately show ?case by simp
qed

section \<open>The operations of the engine\<close>

definition evolves :: "Hub \<Rightarrow> Hub \<Rightarrow> bool" where
  "evolves st st' \<longleftrightarrow> hb_uuids st \<le> hb_uuids st' \<and> mkeys (hb_Workflows st') = mkeys (hb_Workflows st) \<and>
     (\<forall>i a. mget (hb_Workflows st) i = Some a \<longrightarrow> (\<exists>b. mget (hb_Workflows st') i = Some b \<and> wf_steps a b))"

lemma evolves_back: "evolves st st' \<Longrightarrow> mget (hb_Workflows st') i = Some b \<Longrightarrow> \<exists>a. mget (hb_Workflows st) i = Some a \<and> wf_steps a b"
proof -
  assume e: "evolves st st'" and b: "mget (hb_Workflows st') i = Some b"
  then have "i \<in> set (mkeys (hb_Workflows st))" by (metis evolves_def map_of_eq_None_iff image_set option.distinct(1))
  then obtain a where "mget (hb_Workflows st) i = Some a" by (metis map_of_eq_None_iff image_set option.exhaust)
  with e b show ?thesis unfolding evolves_def by (metis option.inject)
qed

lemma evolves_refl [simp, intro]: "evolves st st"
  by (auto simp: evolves_def)

lemma evolves_trans [trans]: "evolves st st' \<Longrightarrow> evolves st' st'' \<Longrightarrow> evolves st st''"
  unfolding evolves_def by (metis (no_types) dual_order.trans rtranclp_trans)

lemma evolves_same: "hb_Workflows st' = hb_Workflows st \<Longrightarrow> hb_uuids st \<le> hb_uuids st' \<Longrightarrow> evolves st st'"
  by (auto simp: evolves_def)

lemma keys_put: "mget m k = Some v \<Longrightarrow> mkeys (mput k v' m) = mkeys m"
  by (rule update_keys [THEN trans]) (auto dest: mget_Some_in_set intro: rev_image_eqI)

lemma evolves_put: "mget (hb_Workflows st) i = Some a \<Longrightarrow> wf_steps a b \<Longrightarrow> hb_Workflows st' = mput i b (hb_Workflows st) \<Longrightarrow>
  hb_uuids st \<le> hb_uuids st' \<Longrightarrow> evolves st st'"
  by (auto simp: evolves_def keys_put)

lemma evolves_upd: "(\<And>a. wf_steps a (f a)) \<Longrightarrow> evolves st (upd_workflow i f st)"
  by (cases "mget (hb_Workflows st) i") (auto simp: upd_workflow_def intro!: evolves_put [of st i _ "f _"])

lemma relabel_steps:
  "wf_steps a (a\<lparr>wo_watched := watched\<rparr>)" "wf_steps a (a\<lparr>wo_Status := status\<rparr>)"
  "wf_steps a (a\<lparr>wo_Status := status, wo_Result := result, wo_watched := watched\<rparr>)"
  using relabel [where a = a and status = "wo_Status a" and result = "wo_Result a" and watched = watched]
    relabel [where a = a and status = status and result = "wo_Result a" and watched = "wo_watched a"]
    relabel [where a = a and status = status and result = result and watched = watched]
  by (simp_all add: r_into_rtranclp)

subsection \<open>Frames\<close>

lemma try_frame:
  "hb_Workflows (fst (try_sessions ids is msg st)) = hb_Workflows st \<and> hb_uuids (fst (try_sessions ids is msg st)) = hb_uuids st \<and>
   hb_WorkflowFiles (fst (try_sessions ids is msg st)) = hb_WorkflowFiles st \<and> hb_Jobs (fst (try_sessions ids is msg st)) = hb_Jobs st"
  by (induction ids "is" msg st rule: try_sessions.induct) (auto simp: Let_def push_message_def split: option.splits)

lemma send_frame:
  "hb_Workflows (fst (sendMessageToAgent msg st)) = hb_Workflows st" "hb_uuids (fst (sendMessageToAgent msg st)) = hb_uuids st"
  "hb_Jobs (fst (sendMessageToAgent msg st)) = hb_Jobs st"
  by (simp_all add: sendMessageToAgent_def Let_def try_frame)

lemma drain_frame:
  "drain_loop pending remaining st = (st', remaining') \<Longrightarrow>
   hb_Workflows st' = hb_Workflows st \<and> hb_uuids st' = hb_uuids st \<and> hb_Jobs st' = hb_Jobs st"
proof (induction pending remaining st rule: drain_loop.induct)
  case (2 msg pending remaining st)
  obtain st1 sent where send: "sendMessageToAgent msg st = (st1, sent)" by fastforce
  with 2 send_frame [of msg st] show ?case by (cases sent) auto
qed simp

lemma drainPending_frame:
  "hb_Workflows (drainPendingMessages st) = hb_Workflows st \<and> hb_uuids (drainPendingMessages st) = hb_uuids st \<and>
   hb_Jobs (drainPendingMessages st) = hb_Jobs st"
proof -
  obtain st' remaining where d: "drain_loop (hb_PendingMessages st) [] (st\<lparr>hb_PendingMessages := []\<rparr>) = (st', remaining)" by fastforce
  from drain_frame [OF d] d show ?thesis by (simp add: drainPendingMessages_def)
qed

lemma dispatch_frame:
  "hb_Workflows (dispatchWorkflowJob w a st key) = hb_Workflows st \<and> hb_uuids st \<le> hb_uuids (dispatchWorkflowJob w a st key)"
proof (cases "mget (wo_Jobs a) key")
  case (Some j)
  obtain st1 msg where post: "post_job w (wj_JobID j) (wj_Key j) st = (st1, msg)" by fastforce
  obtain st2 sent where send: "sendMessageToAgent msg st1 = (st2, sent)" by fastforce
  from Some post send post_job_frame [OF post] send_frame [of msg st1] show ?thesis
    by (simp add: dispatchWorkflowJob_def requeuePendingMessage_def)
qed (simp add: dispatchWorkflowJob_def)

lemma scan_frame:
  "foldl (scan_job w) (st, a, changed, todo) keys = (st', b, changed', todo') \<Longrightarrow> hb_Workflows st' = hb_Workflows st \<and> hb_uuids st' = hb_uuids st"
proof (induction keys arbitrary: st a changed todo)
  case (Cons key keys)
  obtain st1 a1 changed1 todo1 where scan: "scan_job w (st, a, changed, todo) key = (st1, a1, changed1, todo1)"
    by (metis prod.exhaust)
  then have "hb_Workflows st1 = hb_Workflows st \<and> hb_uuids st1 = hb_uuids st" by (rule scan_job_cases) (auto simp: time_Now_def)
  with Cons.IH [of st1 a1 changed1 todo1] Cons.prems scan show ?case by simp
qed simp

lemma dispatch_list_frame:
  "hb_Workflows (foldl (dispatchWorkflowJob w a) st keys) = hb_Workflows st \<and> hb_uuids st \<le> hb_uuids (foldl (dispatchWorkflowJob w a) st keys)"
proof (induction keys arbitrary: st)
  case (Cons key keys)
  with dispatch_frame [of w a st key] show ?case by (auto intro: order_trans)
qed simp

lemma loop_frame: "dispatch_loop w st a = (st', b) \<Longrightarrow> hb_Workflows st' = hb_Workflows st \<and> hb_uuids st \<le> hb_uuids st'"
proof (induction w st a rule: dispatch_loop.induct)
  case (1 w st a)
  obtain st1 a1 changed todo where scan: "scan_jobs w st a = (st1, a1, changed, todo)" by (metis prod.exhaust)
  let ?st2 = "foldl (dispatchWorkflowJob w a1) st1 todo"
  have st2: "hb_Workflows ?st2 = hb_Workflows st" "hb_uuids st \<le> hb_uuids ?st2"
    using scan_frame [of w st a False "[]"] scan dispatch_list_frame [of w a1 st1 todo] by (auto simp: scan_jobs_def)
  show ?case
  proof (cases changed)
    case True
    with 1(2) scan have *: "dispatch_loop w ?st2 a1 = (st', b)" by (simp add: dispatch_loop.simps [of w st a])
    have "hb_Workflows st' = hb_Workflows ?st2 \<and> hb_uuids ?st2 \<le> hb_uuids st'"
      by (rule 1(1) [OF scan [symmetric] refl refl refl True]) (use * in simp)
    with st2 show ?thesis by simp
  next
    case False
    with 1(2) scan st2 show ?thesis by (auto simp: dispatch_loop.simps [of w st a])
  qed
qed

subsection \<open>What holds of dispatch and of single updates holds of the engine\<close>

lemma complete_steps: "wf_steps a (complete_job key result a)"
proof -
  have "wf_steps a (mark_jobs sel ''completed'' r a)" for sel r a by auto
  then show ?thesis by (auto simp: complete_job_def Let_def split: option.split intro: rtranclp_trans)
qed

lemma cancel_steps: "wf_steps a ((cancel_jobs a)\<lparr>wo_Status := ''completed'', wo_Result := ''cancelled'', wo_watched := False\<rparr>)"
  by (auto simp: cancel_jobs_def intro: converse_rtranclp_into_rtranclp [OF finish relabel_steps(3)])

text \<open>
  The interface of the engine: a relation between hubs that composes, and holds of a dispatch, of an update
  of a workflow along abstract steps, of a job record and of the clock.
\<close>

locale engine_law =
  fixes R :: "Hub \<Rightarrow> Hub \<Rightarrow> bool"
  assumes refl: "R st st"
    and trans: "R st st' \<Longrightarrow> R st' st'' \<Longrightarrow> R st st''"
    and dispatch: "R st (dispatchReadyJobs w i st)"
    and update: "(\<And>a. wf_steps a (f a)) \<Longrightarrow> R st (upd_workflow i f st)"
    and job: "R st (upd_job job st)"
    and clock: "R st (fst (time_Now w st))"
begin

lemma redispatch: "R st (redispatch w i st)"
  by (auto simp: redispatch_def dispatch refl split: option.split)

lemma watch: "R st (startTimeoutWatcher i st)"
  unfolding startTimeoutWatcher_def by (rule update) (simp add: relabel_steps)

lemma cancel: "R st (cancelWorkflow i st)"
  unfolding cancelWorkflow_def by (rule update) (rule cancel_steps)

lemma start_pending: "R st (startPendingConcurrencyWorkflow w grp st)"
proof (cases "next_pending grp st")
  case (Some x)
  have "R st (upd_workflow (fst x) (wo_Status_update (\<lambda>_. ''running'')) st)" by (rule update) (simp add: relabel_steps)
  from trans [OF this trans [OF watch redispatch]] show ?thesis
    by (cases x) (simp add: startPendingConcurrencyWorkflow_def Some)
qed (simp add: startPendingConcurrencyWorkflow_def refl)

lemma completed: "R st (onJobCompleted w jobID result st)"
proof (cases "find_workflow_job jobID st")
  case (Some x)
  obtain i key where x: "x = (i, key)" by fastforce
  let ?st = "redispatch w i (upd_workflow i (complete_job key result) st)"
  have one: "R st ?st" by (rule trans [OF update [OF complete_steps] redispatch])
  have two: "R ?st (upd_workflow i settle ?st)" by (rule update) (simp add: settle_def relabel_steps)
  from trans [OF one two] trans [OF one trans [OF two start_pending]] one show ?thesis
    by (simp add: onJobCompleted_def Some x Let_def split: option.split)
qed (simp add: onJobCompleted_def refl)

lemma timeouts: "R st (checkJobTimeouts w i st)"
proof -
  have "R st (upd_workflow i (mark_jobs (timed_out now) ''completed'' ''cancelled'') (fst (time_Now w st)))" for now
    by (rule trans [OF clock update]) auto
  then show ?thesis
    by (auto simp: checkJobTimeouts_def Let_def split_beta refl split: option.split intro: trans [OF _ redispatch])
qed

lemma outputs: "R st (captureJobOutputs jobID body st)"
  by (auto simp: captureJobOutputs_def refl split: option.split prod.split intro!: update)

lemma finish_job: "R st (handleFinishJob w planID body st)"
  by (auto simp: handleFinishJob_def Let_def refl split: option.split intro: trans [OF trans [OF job outputs] completed])

lemma complete_request: "R st (fst (handleCompleteRequest w requestId result st))"
  by (auto simp: handleCompleteRequest_def Let_def refl split: sum.split intro: trans [OF job completed])

lemma cancel_request: "R st (fst (handleCancelWorkflow i st))"
  by (auto simp: handleCancelWorkflow_def refl cancel split: option.split)

lemma tick: "R st (hub_step w parse limit st (OpTick i))"
  by (auto simp: hub_step_def refl timeouts split: option.split)

end

subsection \<open>Every operation of the engine evolves the workflows\<close>

lemma evolves_dispatch: "evolves st (dispatchReadyJobs w i st)"
proof (cases "mget (hb_Workflows st) i")
  case (Some a)
  obtain st' b where loop: "dispatch_loop w st a = (st', b)" by fastforce
  from loop_step [OF loop] loop_frame [OF loop] Some loop show ?thesis
    by (auto simp: dispatchReadyJobs_def intro: evolves_put)
qed (simp add: dispatchReadyJobs_def)

interpretation ev: engine_law evolves
  by unfold_locales
    (auto intro: evolves_trans evolves_dispatch evolves_upd simp: upd_job_def time_Now_def evolves_same)

section \<open>A workflow as submitted\<close>

definition needs_of :: "Workflow \<Rightarrow> (string \<times> string) set" where
  "needs_of a = {(dep, k). \<exists>j. mget (wo_Jobs a) k = Some j \<and> dep \<in> set (wj_Needs j)}"

definition needs_known :: "Workflow \<Rightarrow> bool" where
  "needs_known a \<longleftrightarrow> (\<forall>(dep, k) \<in> needs_of a. mget (wo_Jobs a) dep \<noteq> None)"

definition fresh_workflow :: "Workflow \<Rightarrow> bool" where
  "fresh_workflow a \<longleftrightarrow> wf_map (wo_Jobs a) \<and> needs_known a \<and> acyclic (needs_of a) \<and>
     (\<forall>k j. mget (wo_Jobs a) k = Some j \<longrightarrow> wj_Key j = k \<and> wj_Status j = ''pending'' \<and> wj_Result j = [] \<and> wj_StartedAt j = None)"

lemma wf_expand: "wf_map (wd_Jobs (expandMatrixJobs wdef))"
proof -
  have "wf_map (expand_job jobs kj)" if "wf_map jobs" for jobs kj
  proof -
    have "wf_map (foldl (\<lambda>jobs (i, combo). mput (key i combo) (f i combo) jobs) jobs ics)"
      for key :: "nat \<Rightarrow> combo \<Rightarrow> string" and f ics
      by (rule foldl_invariant) (auto simp: that split: prod.split)
    then show ?thesis
      using that by (auto simp: expand_job_def Let_def comp_def split_beta split: prod.split)
  qed
  then show ?thesis by (auto simp: expandMatrixJobs_def intro: foldl_invariant)
qed

lemma add_jobs:
  "foldl (add_job w) (st, a) defs = (st', b) \<Longrightarrow> wf_map defs \<Longrightarrow> wf_map (wo_Jobs a) \<Longrightarrow>
   wf_map (wo_Jobs b) \<and> hb_uuids st \<le> hb_uuids st' \<and> hb_Workflows st' = hb_Workflows st \<and>
   wo_ID b = wo_ID a \<and> wo_Status b = wo_Status a \<and> wo_ConcurrencyGroup b = wo_ConcurrencyGroup a \<and> wo_Env b = wo_Env a \<and>
   wo_CancelInProgress b = wo_CancelInProgress a \<and>
   (\<forall>k. mget defs k = None \<longrightarrow> mget (wo_Jobs b) k = mget (wo_Jobs a) k) \<and>
   (\<forall>k jd. mget defs k = Some jd \<longrightarrow> (\<exists>jobID. mget (wo_Jobs b) k = Some (new_job k jd jobID)))"
proof (induction defs arbitrary: st a)
  case (Cons d defs)
  obtain key jd where d: "d = (key, jd)" by fastforce
  obtain st1 a1 where add: "add_job w (st, a) (key, jd) = (st1, a1)" by fastforce
  have a1: "wf_map (wo_Jobs a1)" "hb_uuids st \<le> hb_uuids st1" "hb_Workflows st1 = hb_Workflows st"
    "wo_ID a1 = wo_ID a" "wo_Status a1 = wo_Status a" "wo_ConcurrencyGroup a1 = wo_ConcurrencyGroup a" "wo_Env a1 = wo_Env a"
    "wo_CancelInProgress a1 = wo_CancelInProgress a"
    "\<exists>jobID. wo_Jobs a1 = mput key (new_job key jd jobID) (wo_Jobs a)"
    using add Cons.prems(3) by (auto simp: add_job_def Let_def uuid_New_def split: option.splits if_splits)
  have new: "mget defs key = None" using Cons.prems(2) by (simp add: d map_of_eq_None_iff)
  have "foldl (add_job w) (st1, a1) defs = (st', b)" "wf_map defs" using Cons.prems(1,2) by (simp_all add: d add)
  note IH = Cons.IH [OF this a1(1)]
  obtain jobID where jobID: "wo_Jobs a1 = mput key (new_job key jd jobID) (wo_Jobs a)" using a1(9) ..
  have "mget (wo_Jobs b) key = Some (new_job key jd jobID)" using IH new by (simp add: jobID)
  moreover have "\<forall>k. mget (d # defs) k = None \<longrightarrow> mget (wo_Jobs b) k = mget (wo_Jobs a) k" using IH by (simp add: d jobID)
  moreover have "wf_map (wo_Jobs b) \<and> hb_uuids st \<le> hb_uuids st' \<and> hb_Workflows st' = hb_Workflows st \<and>
     wo_ID b = wo_ID a \<and> wo_Status b = wo_Status a \<and> wo_ConcurrencyGroup b = wo_ConcurrencyGroup a \<and> wo_Env b = wo_Env a \<and>
     wo_CancelInProgress b = wo_CancelInProgress a"
    using IH a1(2-8) by simp
  ultimately show ?case using IH by (auto simp: d simp del: not_None_eq)
qed simp

lemma new_workflow_fresh:
  assumes "new_workflow w wdef em st = (st', a)" "wf_map (wd_Jobs wdef)" "validateJobGraph wdef = None"
  shows "fresh_workflow a" "wo_ID a = hw_uuid w (hb_uuids st)" "hb_uuids st < hb_uuids st'" "hb_Workflows st' = hb_Workflows st"
    "wo_Status a = ''running''" "wo_Env a = wd_Env wdef"
proof -
  obtain st0 a0 where init: "init_workflow w wdef st = (st0, a0)" by fastforce
  obtain st1 a1 where fold: "foldl (add_job w) (st0, a0) (wd_Jobs wdef) = (st1, a1)" by fastforce
  have zero: "wo_Jobs a0 = []" "wo_ID a0 = hw_uuid w (hb_uuids st)" "hb_uuids st0 = Suc (hb_uuids st)"
    "hb_Workflows st0 = hb_Workflows st" "wo_Status a0 = ''running''" "wo_Env a0 = wd_Env wdef"
    using init by (auto simp: init_workflow_def Let_def uuid_New_def time_Now_def)
  have one: "st' = st1" "wo_Jobs a = wo_Jobs a1" "wo_ID a = wo_ID a1" "wo_Status a = wo_Status a1" "wo_Env a = wo_Env a1"
    using assms(1) by (auto simp: new_workflow_def init fold set_meta_def split: option.splits)
  have "wf_map (wo_Jobs a0)" by (simp add: zero(1))
  note jobs = add_jobs [OF fold assms(2) this]
  have none: "\<forall>k. mget (wd_Jobs wdef) k = None \<longrightarrow> mget (wo_Jobs a) k = None"
    and some: "\<forall>k jd. mget (wd_Jobs wdef) k = Some jd \<longrightarrow> (\<exists>jobID. mget (wo_Jobs a) k = Some (new_job k jd jobID))"
    unfolding one(2) using jobs unfolding zero(1) list.map map_of.simps by blast+
  have all: "mget (wo_Jobs a) k = Some j \<Longrightarrow> \<exists>jd jobID. mget (wd_Jobs wdef) k = Some jd \<and> j = new_job k jd jobID" for k j
    using none some by (metis option.exhaust option.inject option.distinct(1))
  have dom: "mget (wd_Jobs wdef) k \<noteq> None \<Longrightarrow> mget (wo_Jobs a) k \<noteq> None" for k
    using some by (metis option.exhaust option.distinct(1))
  have sub: "needs_of a \<subseteq> needs_rel (wd_Jobs wdef)"
    using all by (fastforce simp: needs_of_def needs_rel_def new_job_def)
  have graph: "needs_closed (wd_Jobs wdef)" "acyclic (needs_rel (wd_Jobs wdef))"
    using assms(3) validate_decides by simp_all
  have "mget (wo_Jobs a) dep \<noteq> None" if "(dep, k) \<in> needs_of a" for dep k
    using that sub graph(1) unfolding needs_closed_def needs_rel_def by (intro dom) blast
  then have "needs_known a" unfolding needs_known_def by blast
  moreover have "acyclic (needs_of a)" using graph(2) sub by (rule acyclic_subset)
  moreover have "wf_map (wo_Jobs a)" using jobs zero(1) one(2) by simp
  ultimately show "fresh_workflow a" using all by (fastforce simp: fresh_workflow_def new_job_def)
  show "wo_ID a = hw_uuid w (hb_uuids st)" "hb_uuids st < hb_uuids st'" "hb_Workflows st' = hb_Workflows st"
    "wo_Status a = ''running''" "wo_Env a = wd_Env wdef"
    using jobs zero one by auto
qed

text \<open>What a submission does: nothing, or it adds a fresh workflow and takes every workflow along abstract steps.\<close>

definition adds :: "HubWorld \<Rightarrow> Hub \<Rightarrow> Hub \<Rightarrow> bool" where
  "adds w st st' \<longleftrightarrow> (\<exists>a st1. fresh_workflow a \<and> wo_ID a = hw_uuid w (hb_uuids st) \<and> evolves st st1 \<and> hb_uuids st < hb_uuids st1 \<and>
     evolves (store_workflow a st1) st')"

lemma fresh_status: "fresh_workflow (a\<lparr>wo_Status := status\<rparr>) = fresh_workflow a"
  by (simp add: fresh_workflow_def needs_known_def needs_of_def)

lemma fresh_meta: "fresh_workflow (set_meta em a) = fresh_workflow a"
  by (auto simp: fresh_workflow_def needs_known_def needs_of_def set_meta_def split: option.split)

lemma evolves_start: "evolves (store_workflow a st) (start_workflow w a st)"
  unfolding start_workflow_def by (rule evolves_trans [OF ev.watch evolves_dispatch])

lemma submit_adds:
  assumes "wf_map (wd_Jobs wdef)"
  shows "fst (submitWorkflow w wdef em st) = st \<or> adds w st (fst (submitWorkflow w wdef em st))"
proof (cases "validateJobGraph wdef")
  case None
  obtain st1 a where new: "new_workflow w wdef em st = (st1, a)" by fastforce
  note a = new_workflow_fresh [OF new assms None]
  have st1: "evolves st st1" using a(3,4) by (simp add: evolves_same)
  show ?thesis
  proof (cases "active_in_group a st1")
    case None
    with \<open>validateJobGraph wdef = None\<close> new a st1 evolves_start [of a st1 w] show ?thesis
      by (auto simp: submitWorkflow_def adds_def)
  next
    case (Some x)
    have "evolves st (cancelWorkflow (fst x) st1)" by (rule evolves_trans [OF st1 ev.cancel])
    moreover have "hb_uuids st < hb_uuids (cancelWorkflow (fst x) st1)"
      using a(3) ev.cancel [of st1 "fst x"] by (auto simp: evolves_def)
    ultimately have "adds w st (start_workflow w a (cancelWorkflow (fst x) st1))"
      using a(1,2) evolves_start [of a "cancelWorkflow (fst x) st1" w] by (auto simp: adds_def)
    moreover have "adds w st (store_workflow (a\<lparr>wo_Status := ''pending_concurrency''\<rparr>) st1)"
      using a(1-3) st1 unfolding adds_def by (intro exI [of _ "a\<lparr>wo_Status := ''pending_concurrency''\<rparr>"] exI [of _ st1]) (simp add: fresh_status)
    ultimately show ?thesis
      using None new Some \<open>validateJobGraph wdef = None\<close> by (cases x) (simp add: submitWorkflow_def)
  qed
qed (simp add: submitWorkflow_def)

lemma adds_from: "evolves st0 st \<Longrightarrow> hb_uuids st = hb_uuids st0 \<Longrightarrow> adds w st st' \<Longrightarrow> adds w st0 st'"
  unfolding adds_def using evolves_trans by (metis (no_types))

section \<open>Every operation of the hub\<close>

text \<open>The operations on sessions, single jobs and renewals leave the workflows alone.\<close>

lemma submit_job_frame:
  "hb_Workflows (fst (handleSubmitJob w st)) = hb_Workflows st" "hb_uuids st \<le> hb_uuids (fst (handleSubmitJob w st))"
proof -
  obtain st1 msg where post: "post_job w (hw_uuid w (hb_uuids st)) ''test'' (fst (uuid_New w st)) = (st1, msg)" by fastforce
  have "fst (handleSubmitJob w st) = fst (sendMessageToAgent msg st1)"
    using post by (simp add: handleSubmitJob_def uuid_New_def split_beta)
  then show "hb_Workflows (fst (handleSubmitJob w st)) = hb_Workflows st" "hb_uuids st \<le> hb_uuids (fst (handleSubmitJob w st))"
    using post_job_frame [OF post] send_frame [of msg st1] by (simp_all add: uuid_New_def)
qed

lemma quiet_step:
  "hb_Workflows (hub_step w parse limit st (OpCreateSession owner)) = hb_Workflows st"
  "hb_Workflows (hub_step w parse limit st (OpDeleteSession sid)) = hb_Workflows st"
  "hb_Workflows (hub_step w parse limit st (OpGetMessage sid)) = hb_Workflows st"
  "hb_Workflows (hub_step w parse limit st OpSubmitJob) = hb_Workflows st"
  "hb_Workflows (hub_step w parse limit st (OpRenew requestId)) = hb_Workflows st"
  by (simp_all add: hub_step_def handleCreateSession_def uuid_New_def Let_def drainPending_frame handleDeleteSession_def handleGetMessage_def
    submit_job_frame time_Now_def handleRenewRequest_def upd_job_def split: option.split list.split sum.split)

lemma hub_step_evolves: "evolves st (hub_step w parse limit st op) \<or> adds w st (hub_step w parse limit st op)"
proof (cases op)
  case (OpCreateSession owner)
  have "evolves st (fst (handleCreateSession w owner st))"
    by (rule evolves_same) (simp_all add: handleCreateSession_def uuid_New_def Let_def drainPending_frame)
  with OpCreateSession show ?thesis by (simp add: hub_step_def)
next
  case (OpDeleteSession sid)
  then show ?thesis by (simp add: hub_step_def handleDeleteSession_def evolves_same)
next
  case (OpGetMessage sid)
  then show ?thesis by (simp add: hub_step_def handleGetMessage_def evolves_same split: option.split list.split)
next
  case OpSubmitJob
  then show ?thesis by (simp add: hub_step_def evolves_same submit_job_frame)
next
  case (OpSubmitWorkflow url req)
  let ?st = "\<lambda>d. register_file w req d st" and ?def = "prepared_def url req"
  have st: "evolves st (?st d)" "hb_uuids (?st d) = hb_uuids st" for d
    by (simp_all add: register_file_def Let_def evolves_same time_Now_def)
  have "evolves st (fst (submitWorkflow w (?def d) em (?st d))) \<or> adds w st (fst (submitWorkflow w (?def d) em (?st d)))" for d em
  proof -
    have "wf_map (wd_Jobs (?def d))" by (simp add: prepared_def_def Let_def wf_expand)
    from submit_adds [OF this, of w em "?st d"] show ?thesis using adds_from [OF st] st(1) by metis
  qed
  then show ?thesis
    using OpSubmitWorkflow
    by (simp add: hub_step_def handleSubmitWorkflow_def Let_def split_beta split: option.split)
next
  case (OpCancelWorkflow i)
  then show ?thesis by (simp add: hub_step_def ev.cancel_request)
next
  case (OpRenew requestId)
  then show ?thesis
    by (auto simp: hub_step_def handleRenewRequest_def Let_def time_Now_def upd_job_def split: sum.split intro: evolves_same)
next
  case (OpComplete requestId result)
  then show ?thesis by (simp add: hub_step_def ev.complete_request)
next
  case (OpFinish planID body)
  then show ?thesis by (simp add: hub_step_def ev.finish_job)
next
  case (OpTick i)
  then show ?thesis by (simp add: ev.tick)
qed

end
