(* ===== verification/WorkflowInv.thy ===== *)
theory WorkflowInv
  imports WorkflowLife
begin

text \<open>
  Invariants of workflows over all histories of the hub. \<open>life_invariant\<close> lifts an invariant of the abstract
  steps to every stored workflow; it is interpreted for the shape of a workflow (keys, statuses and an
  acyclic graph), for the order of jobs and their dependencies, and for the limit on parallel jobs.
\<close>

section \<open>From steps to histories\<close>

definition all_workflows :: "(Workflow \<Rightarrow> bool) \<Rightarrow> Hub \<Rightarrow> bool" where
  "all_workflows P st \<longleftrightarrow> (\<forall>i a. mget (hb_Workflows st) i = Some a \<longrightarrow> P a)"

locale life_invariant =
  fixes P :: "Workflow \<Rightarrow> bool"
  assumes fresh: "fresh_workflow a \<Longrightarrow> P a"
    and step: "P a \<Longrightarrow> wf_step a b \<Longrightarrow> P b"
begin

lemma steps: "wf_steps a b \<Longrightarrow> P a \<Longrightarrow> P b"
  by (induction rule: rtranclp_induct) (auto intro: step)

lemma evolve: "evolves st st' \<Longrightarrow> all_workflows P st \<Longrightarrow> all_workflows P st'"
  unfolding all_workflows_def by (metis evolves_back steps)

lemma hub_step: "all_workflows P st \<Longrightarrow> all_workflows P (hub_step w parse limit st op)"
  using hub_step_evolves [of st w parse limit op]
proof
  assume all: "all_workflows P st" and "adds w st (hub_step w parse limit st op)"
  then obtain a st1 where a: "fresh_workflow a" "evolves st st1" "evolves (store_workflow a st1) (hub_step w parse limit st op)"
    by (auto simp: adds_def)
  have "all_workflows P (store_workflow a st1)"
    using evolve [OF a(2) all] fresh [OF a(1)] by (simp add: all_workflows_def store_workflow_def)
  from evolve [OF a(3) this] show ?thesis .
qed (rule evolve)

lemma hub_run: "all_workflows P (hub_run w parse limit ops NewHub)"
  unfolding hub_run_def
  by (rule foldl_invariant) (simp_all add: all_workflows_def NewHub_def hub_step [unfolded all_workflows_def])

lemma always: "mget (hb_Workflows (hub_run w parse limit ops NewHub)) i = Some a \<Longrightarrow> P a"
  using hub_run by (simp add: all_workflows_def)

end

section \<open>Shape\<close>

definition keyed :: "Workflow \<Rightarrow> bool" where
  "keyed a \<longleftrightarrow> wf_map (wo_Jobs a) \<and> (\<forall>(k, j) \<in> set (wo_Jobs a). wj_Key j = k)"

definition known_status :: "WorkflowJob \<Rightarrow> bool" where
  "known_status j \<longleftrightarrow> wj_Status j \<in> {''pending'', ''queued'', ''completed'', ''skipped''}"

definition shape :: "Workflow \<Rightarrow> bool" where
  "shape a \<longleftrightarrow> keyed a \<and> needs_known a \<and> acyclic (needs_of a) \<and> (\<forall>(k, j) \<in> set (wo_Jobs a). known_status j)"

lemma keyed_static: "keyed a \<longleftrightarrow> distinct (map fst (jobs_static a)) \<and> (\<forall>(k, s) \<in> set (jobs_static a). fst s = k)"
  by (auto simp: keyed_def jobs_static_def job_static_def comp_def split_beta)

lemma needs_of_static: "needs_of a = {(dep, k). \<exists>s. mget (jobs_static a) k = Some s \<and> dep \<in> set (fst (snd (snd s)))}"
  using mget_map_jobs [of "\<lambda>_. job_static" "wo_Jobs a"] by (auto simp: needs_of_def jobs_static_def job_static_def)

lemma needs_known_static: "needs_known a \<longleftrightarrow> (\<forall>(dep, k) \<in> needs_of a. mget (jobs_static a) dep \<noteq> None)"
  using mget_map_jobs [of "\<lambda>_. job_static" "wo_Jobs a"] by (auto simp: needs_known_def jobs_static_def)

lemma known_step: "wf_step a b \<Longrightarrow> \<forall>(k, j) \<in> set (wo_Jobs a). known_status j \<Longrightarrow> \<forall>(k, j) \<in> set (wo_Jobs b). known_status j"
  by (induction rule: wf_step.induct)
    (auto simp: queue_job_def mark_jobs_def store_outputs_def map_jobs_def known_status_def split: if_splits option.splits)

lemma fresh_keyed: "fresh_workflow a \<Longrightarrow> keyed a"
  by (auto simp: fresh_workflow_def keyed_def)

lemma keyedD: "keyed a \<Longrightarrow> (k, j) \<in> set (wo_Jobs a) \<Longrightarrow> wj_Key j = k \<and> mget (wo_Jobs a) k = Some j"
  unfolding keyed_def by (metis (mono_tags, lifting) case_prodD mget_in_set)

lemma fresh_job: "fresh_workflow a \<Longrightarrow> (k, j) \<in> set (wo_Jobs a) \<Longrightarrow> wj_Status j = ''pending'' \<and> wj_StartedAt j = None"
  unfolding fresh_workflow_def by (metis mget_in_set)

interpretation shape: life_invariant shape
proof unfold_locales
  fix a assume "fresh_workflow a"
  then show "shape a" using fresh_keyed [of a] by (auto simp: shape_def fresh_workflow_def known_status_def)
next
  fix a b assume a: "shape a" and step: "wf_step a b"
  note static = step_static [OF step]
  have "keyed b" "needs_known b" "acyclic (needs_of b)"
    using a unfolding shape_def keyed_static needs_known_static needs_of_static static by blast+
  with a known_step [OF step] show "shape b" by (simp add: shape_def)
qed

section \<open>No job starts before its dependencies are done\<close>

definition started_ready :: "Workflow \<Rightarrow> bool" where
  "started_ready a \<longleftrightarrow> (\<forall>k j. mget (wo_Jobs a) k = Some j \<longrightarrow> wj_StartedAt j \<noteq> None \<longrightarrow> deps_final a j)"

text \<open>A final job stays final.\<close>

lemma step_job:
  "wf_step a b \<Longrightarrow> mget (wo_Jobs a) k = Some j \<Longrightarrow>
   \<exists>j'. mget (wo_Jobs b) k = Some j' \<and> (is_final j \<longrightarrow> is_final j') \<and> wj_Needs j' = wj_Needs j \<and>
     (wj_StartedAt j' = wj_StartedAt j \<or> deps_final a j)"
  by (induction rule: wf_step.induct)
    (auto simp: queue_job_def mark_jobs_def store_outputs_def map_jobs_def mget_map_jobs is_final_def split: option.split)

lemma final_stays: "wf_step a b \<Longrightarrow> deps_final a j \<Longrightarrow> deps_final b j"
  unfolding deps_final_def by (meson step_job)

interpretation started: life_invariant started_ready
proof unfold_locales
  fix a assume "fresh_workflow a"
  then show "started_ready a" by (auto simp: started_ready_def fresh_workflow_def)
next
  fix a b assume a: "started_ready a" and step: "wf_step a b"
  show "started_ready b"
    unfolding started_ready_def
  proof (intro allI impI)
    fix k j' assume j': "mget (wo_Jobs b) k = Some j'" "wj_StartedAt j' \<noteq> None"
    have "k \<in> set (mkeys (wo_Jobs a))" using j'(1) step_frame [OF step] by (metis domI dom_map_of_conv_image_fst image_set)
    then obtain j where j: "mget (wo_Jobs a) k = Some j" by (metis map_of_eq_None_iff image_set option.exhaust)
    with step_job [OF step j] j' have j'j: "wj_Needs j' = wj_Needs j" "wj_StartedAt j' = wj_StartedAt j \<or> deps_final a j" by auto
    have "deps_final a j" using a j j'(2) j'j(2) by (auto simp: started_ready_def)
    from final_stays [OF step this] show "deps_final b j'" by (simp add: deps_final_def j'j(1))
  qed
qed

text \<open>
  C2: In every history: a job that was started has only dependencies that are completed or skipped.
\<close>

theorem jobs_start_after_dependencies:
  assumes "mget (hb_Workflows (hub_run w parse limit ops NewHub)) i = Some wfl"
    and "mget (wo_Jobs wfl) key = Some j" "wj_StartedAt j \<noteq> None" "dep \<in> set (wj_Needs j)"
  shows "\<exists>d. mget (wo_Jobs wfl) dep = Some d \<and> is_final d"
  using started.always [OF assms(1)] assms(2-4) by (auto simp: started_ready_def deps_final_def)

theorem jobs_start_after_dependencies_witness:
  "\<exists>j d. mget (wo_Jobs (demo_workflow [demo_submit ''chain'', OpComplete ''1'' ''Succeeded''] [])) ''b'' = Some j \<and> wj_StartedAt j \<noteq> None \<and>
     mget (wo_Jobs (demo_workflow [demo_submit ''chain'', OpComplete ''1'' ''Succeeded''] [])) ''a'' = Some d \<and> is_final d"
proof -
  let ?ops = "[demo_submit ''chain'', OpComplete ''1'' ''Succeeded'']"
  have get: "\<not> Option.is_none (mget (hb_Workflows (demo_run ?ops)) [])" by code_simp
  have "(case mget (wo_Jobs (demo_workflow ?ops [])) ''b'' of None \<Rightarrow> False | Some j \<Rightarrow> wj_StartedAt j \<noteq> None \<and> wj_Needs j = [''a''])" by code_simp
  then obtain j where j: "mget (wo_Jobs (demo_workflow ?ops [])) ''b'' = Some j" "wj_StartedAt j \<noteq> None" "''a'' \<in> set (wj_Needs j)"
    by (auto split: option.splits)
  from jobs_start_after_dependencies [OF demo_get [OF get] j] j(1,2) show ?thesis by blast
qed

section \<open>The limit on parallel jobs\<close>

definition active_in :: "string \<Rightarrow> Workflow \<Rightarrow> nat" where
  "active_in grp a = length (filter (\<lambda>(_, j). is_active j \<and> wj_MatrixGroup j = grp) (wo_Jobs a))"

definition bounded :: "Workflow \<Rightarrow> bool" where
  "bounded a \<longleftrightarrow> keyed a \<and> (0 < wo_MaxParallel a \<longrightarrow> (\<forall>grp. grp \<noteq> [] \<longrightarrow> int (active_in grp a) \<le> wo_MaxParallel a))"

lemma siblings_active:
  assumes "keyed a" "mget (wo_Jobs a) k = Some j" "\<not> is_active j" "wj_MatrixGroup j \<noteq> []"
  shows "active_siblings a j = active_in (wj_MatrixGroup j) a"
proof -
  have "wj_Key s \<noteq> wj_Key j" if "(k', s) \<in> set (wo_Jobs a)" "is_active s" for k' s
  proof
    assume eq: "wj_Key s = wj_Key j"
    have "s = j" using eq keyedD [OF assms(1) that(1)] keyedD [OF assms(1) mget_Some_in_set [OF assms(2)]] by simp
    with assms(3) that(2) show False by simp
  qed
  then have "filter (\<lambda>(_, s). wj_Key s \<noteq> wj_Key j \<and> is_active s \<and> wj_MatrixGroup s = wj_MatrixGroup j \<and> wj_MatrixGroup j \<noteq> []) (wo_Jobs a) =
      filter (\<lambda>(_, s). is_active s \<and> wj_MatrixGroup s = wj_MatrixGroup j) (wo_Jobs a)"
    using assms(4) by (intro filter_cong [OF refl]) blast
  then show ?thesis by (simp add: active_siblings_def active_in_def)
qed

lemma jobs_map: "wo_Jobs (map_jobs f a) = map (\<lambda>(k, j). (k, f k j)) (wo_Jobs a)"
  by (simp add: map_jobs_def)

lemma count_one_more:
  "wf_map m \<Longrightarrow> length (filter (\<lambda>(_, j). P j) (map (\<lambda>(k, j). (k, if k = key then f j else j)) m)) \<le> Suc (length (filter (\<lambda>(_, j). P j) m))"
proof (induction m)
  case (Cons x m)
  obtain k j where x: "x = (k, j)" by fastforce
  show ?case
  proof (cases "k = key")
    case True
    have "k' \<noteq> key" if "(k', j') \<in> set m" for k' j' using Cons.prems True that by (force simp: x)
    then have "map (\<lambda>(k, j). (k, if k = key then f j else j)) m = m" by (intro map_idI) auto
    then show ?thesis by (simp add: x del: filter_map)
  next
    case False
    with Cons show ?thesis by (simp add: x del: filter_map)
  qed
qed simp

lemma length_filter_map_cong: "(\<And>x. x \<in> set m \<Longrightarrow> P (g x) = P x) \<Longrightarrow> length (filter P (map g m)) = length (filter P m)"
  by (induction m) auto

lemma active_map: "(\<And>k j. is_active (f k j) \<and> wj_MatrixGroup (f k j) = grp \<Longrightarrow> is_active j \<and> wj_MatrixGroup j = grp) \<Longrightarrow>
  active_in grp (map_jobs f a) \<le> active_in grp a"
  unfolding active_in_def jobs_map by (rule filter_map_jobs(1)) blast

lemma mark_active: "status = ''skipped'' \<or> status = ''completed'' \<Longrightarrow> active_in grp (mark_jobs sel status result a) \<le> active_in grp a"
  unfolding mark_jobs_def by (rule active_map) (auto simp: is_active_def split: if_splits)

lemma active_step:
  assumes "wf_step a b" "keyed a"
  shows "active_in grp b \<le> active_in grp a \<or>
    (active_in grp b \<le> Suc (active_in grp a) \<and> (grp \<noteq> [] \<longrightarrow> wo_MaxParallel a \<le> 0 \<or> int (active_in grp a) < wo_MaxParallel a))"
  using assms
proof (induction rule: wf_step.induct)
  case (queue a key j now)
  show ?case
  proof (cases "wj_MatrixGroup j = grp")
    case True
    have "\<not> is_active j" using queue by (simp add: is_active_def)
    with queue True have "grp \<noteq> [] \<longrightarrow> wo_MaxParallel a \<le> 0 \<or> int (active_in grp a) < wo_MaxParallel a"
      using siblings_active [of a key j] by (auto simp: room_def)
    moreover have "active_in grp (queue_job key now a) \<le> Suc (active_in grp a)"
      unfolding active_in_def queue_job_def jobs_map
      by (rule count_one_more) (use queue in \<open>simp add: keyed_def\<close>)
    ultimately show ?thesis by blast
  next
    case False
    have "active_in grp (queue_job key now a) = active_in grp a"
      unfolding active_in_def queue_job_def jobs_map
    proof (rule length_filter_map_cong, clarsimp simp: is_active_def)
      fix j' assume "(key, j') \<in> set (wo_Jobs a)"
      then have "j' = j" using keyedD [OF queue(5)] queue(1) by auto
      with False show "wj_MatrixGroup j' = grp \<longleftrightarrow> (wj_Status j' = ''queued'' \<or> wj_Status j' = ''running'') \<and> wj_MatrixGroup j' = grp" by simp
    qed
    then show ?thesis by simp
  qed
next
  case (outputs a key vars)
  have "active_in grp (store_outputs key vars a) \<le> active_in grp a"
    unfolding store_outputs_def by (rule active_map) (auto simp: is_active_def split: if_splits option.splits)
  then show ?case ..
next
  case (relabel a status result watched)
  then show ?case by (simp add: active_in_def)
qed (rule disjI1, rule mark_active, simp)+

interpretation bounded: life_invariant bounded
proof unfold_locales
  fix a assume a: "fresh_workflow a"
  then have "active_in grp a = 0" for grp by (auto simp: active_in_def filter_empty_conv is_active_def dest: fresh_job)
  with fresh_keyed [OF a] show "bounded a" by (simp add: bounded_def)
next
  fix a b assume a: "bounded a" and step: "wf_step a b"
  have "keyed b" using a step_static [OF step] by (simp add: bounded_def keyed_static)
  moreover have "wo_MaxParallel b = wo_MaxParallel a" using step_frame [OF step] by simp
  moreover have "int (active_in grp b) \<le> wo_MaxParallel a" if "0 < wo_MaxParallel a" "grp \<noteq> []" for grp
    using a active_step [OF step, of grp] that by (fastforce simp: bounded_def)
  ultimately show "bounded b" by (simp add: bounded_def)
qed



section \<open>The hub refines the abstract life cycle\<close>

definition drawn_ids :: "HubWorld \<Rightarrow> Hub \<Rightarrow> bool" where
  "drawn_ids w st \<longleftrightarrow> (\<forall>i a. mget (hb_Workflows st) i = Some a \<longrightarrow> wo_ID a = i \<and> (\<exists>n < hb_uuids st. i = hw_uuid w n))"

lemma drawn_evolves: "evolves st st' \<Longrightarrow> drawn_ids w st \<Longrightarrow> drawn_ids w st'"
  unfolding drawn_ids_def
proof (intro allI impI)
  fix i b assume e: "evolves st st'" and ids: "\<forall>i a. mget (hb_Workflows st) i = Some a \<longrightarrow> wo_ID a = i \<and> (\<exists>n < hb_uuids st. i = hw_uuid w n)"
    and b: "mget (hb_Workflows st') i = Some b"
  obtain a where a: "mget (hb_Workflows st) i = Some a" "wf_steps a b" using evolves_back [OF e b] by blast
  with ids obtain n where n: "wo_ID a = i" "n < hb_uuids st" "i = hw_uuid w n" by blast
  have "n < hb_uuids st'" using e n(2) by (simp add: evolves_def)
  with n steps_frame [OF a(2)] show "wo_ID b = i \<and> (\<exists>n < hb_uuids st'. i = hw_uuid w n)" by auto
qed

lemma drawn_step: "drawn_ids w st \<Longrightarrow> drawn_ids w (hub_step w parse limit st op)"
  using hub_step_evolves [of st w parse limit op]
proof
  assume ids: "drawn_ids w st" and "adds w st (hub_step w parse limit st op)"
  then obtain a st1 where a: "wo_ID a = hw_uuid w (hb_uuids st)" "evolves st st1" "hb_uuids st < hb_uuids st1"
    "evolves (store_workflow a st1) (hub_step w parse limit st op)" by (auto simp: adds_def)
  have "drawn_ids w (store_workflow a st1)"
    using drawn_evolves [OF a(2) ids] a(1,3) by (auto simp: drawn_ids_def store_workflow_def)
  from drawn_evolves [OF a(4) this] show ?thesis .
qed (rule drawn_evolves)

lemma drawn_run: "drawn_ids w (hub_run w parse limit ops NewHub)"
  unfolding hub_run_def by (rule foldl_invariant) (simp add: drawn_ids_def NewHub_def, erule drawn_step)



end
