(* ===== verification/WorkflowProgress.thy ===== *)
theory WorkflowProgress
  imports WorkflowInv
begin

text \<open>
  Progress: after every history, a running workflow whose jobs are not all done has a job with a runner
  or on its way to one. The argument: the dispatch loop ends only when every pending job has to wait; in
  an acyclic graph a first unfinished job waits only for room, and then its group has an active job.
\<close>

section \<open>The dispatch loop runs to a fixed point\<close>

definition all_wait :: "Workflow \<Rightarrow> bool" where
  "all_wait a \<longleftrightarrow> (\<forall>k j. mget (wo_Jobs a) k = Some j \<longrightarrow> job_verdict a j = Wait)"

lemma scan_stable:
  "foldl (scan_job w) (st, a, False, todo) keys = (st', b, False, todo') \<Longrightarrow>
   b = a \<and> (\<forall>k \<in> set keys. \<forall>j. mget (wo_Jobs a) k = Some j \<longrightarrow> job_verdict a j = Wait)"
proof (induction keys arbitrary: st todo)
  case (Cons key keys)
  obtain st1 a1 changed1 todo1 where scan: "scan_job w (st, a, False, todo) key = (st1, a1, changed1, todo1)"
    by (metis prod.exhaust)
  have rest: "foldl (scan_job w) (st1, a1, changed1, todo1) keys = (st', b, False, todo')" using Cons.prems scan by simp
  with scan_pending [OF rest] have "\<not> changed1" by blast
  from scan have same: "a1 = a"
    by (cases rule: scan_job_cases) (use \<open>\<not> changed1\<close> in simp_all)
  have wait: "job_verdict a j = Wait" if "mget (wo_Jobs a) key = Some j" for j
    using scan that \<open>\<not> changed1\<close> by (auto simp: scan_job_def Let_def split: verdict.splits prod.splits)
  from rest Cons.IH [of st1 todo1] same wait \<open>\<not> changed1\<close> show ?case by auto
qed simp

lemma loop_stable: "dispatch_loop w st a = (st', b) \<Longrightarrow> all_wait b"
proof (induction w st a rule: dispatch_loop.induct)
  case (1 w st a)
  obtain st1 a1 changed todo where scan: "scan_jobs w st a = (st1, a1, changed, todo)" by (metis prod.exhaust)
  show ?case
  proof (cases changed)
    case True
    with 1(2) scan have *: "dispatch_loop w (foldl (dispatchWorkflowJob w a1) st1 todo) a1 = (st', b)"
      by (simp add: dispatch_loop.simps [of w st a])
    show ?thesis by (rule 1(1) [OF scan [symmetric] refl refl refl True]) (use * in simp)
  next
    case False
    with 1(2) scan have "b = a1" by (auto simp: dispatch_loop.simps [of w st a])
    moreover have "a1 = a \<and> (\<forall>k \<in> set (mkeys (wo_Jobs a)). \<forall>j. mget (wo_Jobs a) k = Some j \<longrightarrow> job_verdict a j = Wait)"
      using scan_stable [of w st a "[]"] scan False by (simp add: scan_jobs_def)
    moreover have "k \<in> set (mkeys (wo_Jobs a))" if "mget (wo_Jobs a) k = Some j" for k j
      using mget_Some_in_set [OF that] by force
    ultimately show ?thesis by (auto simp: all_wait_def)
  qed
qed

section \<open>A stable workflow is done or active\<close>

definition progress :: "Workflow \<Rightarrow> bool" where
  "progress a \<longleftrightarrow> all_done a \<or> (\<exists>(k, j) \<in> set (wo_Jobs a). is_active j)"

lemma finite_needs: "finite (needs_of a)"
proof -
  have "needs_of a \<subseteq> (\<Union>(k, j) \<in> set (wo_Jobs a). (\<lambda>dep. (dep, k)) ` set (wj_Needs j))"
    by (fastforce simp: needs_of_def dest: mget_Some_in_set)
  then show ?thesis by (rule finite_subset) auto
qed

lemma first_unfinished:
  assumes "shape a" "\<not> all_done a"
  obtains k j where "mget (wo_Jobs a) k = Some j" "\<not> is_final j" "deps_final a j"
proof -
  let ?open = "{k. \<exists>j. mget (wo_Jobs a) k = Some j \<and> \<not> is_final j}"
  have keyed: "keyed a" using assms(1) by (simp add: shape_def)
  obtain k j where "(k, j) \<in> set (wo_Jobs a)" "\<not> is_final j" using assms(2) by (auto simp: all_done_def list_all_iff)
  with keyedD [OF keyed] have "k \<in> ?open" by blast
  moreover have "Wellfounded.wf (needs_of a)"
    using assms(1) by (intro finite_acyclic_wf finite_needs) (simp add: shape_def)
  ultimately obtain k0 where k0: "k0 \<in> ?open" "\<And>dep. (dep, k0) \<in> needs_of a \<Longrightarrow> dep \<notin> ?open" using wfE_min [of "needs_of a" k ?open] by blast
  then obtain j0 where j0: "mget (wo_Jobs a) k0 = Some j0" "\<not> is_final j0" by blast
  have "\<exists>d. mget (wo_Jobs a) dep = Some d \<and> is_final d" if "dep \<in> set (wj_Needs j0)" for dep
  proof -
    have need: "(dep, k0) \<in> needs_of a" using j0 that by (auto simp: needs_of_def)
    then have "mget (wo_Jobs a) dep \<noteq> None" using assms(1) by (auto simp: shape_def needs_known_def)
    with k0(2) [OF need] show ?thesis by blast
  qed
  then have "deps_final a j0" by (simp add: deps_final_def)
  with j0 that show thesis by blast
qed

lemma wait_progress:
  assumes "shape a" "all_wait a"
  shows "progress a"
proof (rule ccontr)
  assume not: "\<not> progress a"
  then have idle: "\<not> is_active j" if "(k, j) \<in> set (wo_Jobs a)" for k j using that by (auto simp: progress_def)
  obtain k j where j: "mget (wo_Jobs a) k = Some j" "\<not> is_final j" "deps_final a j"
    using first_unfinished [OF assms(1)] not by (auto simp: progress_def)
  have "known_status j" using assms(1) mget_Some_in_set [OF j(1)] by (auto simp: shape_def)
  with j(2) idle [OF mget_Some_in_set [OF j(1)]] have "wj_Status j = ''pending''"
    by (auto simp: known_status_def is_final_def is_active_def)
  with assms(2) j(1,3) verdict_Wait have "\<not> room a j" by (auto simp: all_wait_def)
  then have "active_siblings a j \<noteq> 0" by (auto simp: room_def)
  then show False using idle by (auto simp: active_siblings_def filter_empty_conv)
qed

section \<open>Progress in every history\<close>

definition served :: "Workflow \<Rightarrow> bool" where
  "served a \<longleftrightarrow> (\<exists>env. wo_Env a = Some env \<and> mget env ''__serverURL'' \<noteq> None)"

definition moving :: "Workflow \<Rightarrow> bool" where
  "moving a \<longleftrightarrow> (wo_Status a = ''running'' \<longrightarrow> progress a)"

text \<open>All workflows are moving, but those in \<open>X\<close>, which an operation is about to dispatch.\<close>

definition lively :: "string set \<Rightarrow> Hub \<Rightarrow> bool" where
  "lively X st \<longleftrightarrow> (\<forall>i a. mget (hb_Workflows st) i = Some a \<longrightarrow> shape a \<and> served a \<and> (i \<notin> X \<longrightarrow> moving a))"

lemma lively_same: "hb_Workflows st' = hb_Workflows st \<Longrightarrow> lively X st' = lively X st"
  by (simp add: lively_def)

lemma base_steps: "wf_steps a b \<Longrightarrow> shape a \<Longrightarrow> served a \<Longrightarrow> shape b \<and> served b"
  using shape.steps [of a b] steps_frame [of a b] by (simp add: served_def)

lemma get_upd:
  "mget (hb_Workflows (upd_workflow i f st)) k = (if k = i then map_option f (mget (hb_Workflows st) i) else mget (hb_Workflows st) k)"
  by (simp add: upd_workflow_def split: option.split)

lemma lively_upd:
  assumes "lively X st" "\<And>a. wf_steps a (f a)"
  shows "lively (insert i X) (upd_workflow i f st)"
    and "(\<And>a. mget (hb_Workflows st) i = Some a \<Longrightarrow> moving a \<Longrightarrow> moving (f a)) \<Longrightarrow> lively X (upd_workflow i f st)"
    and "(\<And>a. moving (f a)) \<Longrightarrow> lively X (upd_workflow i f st)"
  using assms base_steps [OF assms(2)] by (auto simp: lively_def get_upd)

lemma lively_dispatch: "lively (insert i X) st \<Longrightarrow> lively X (dispatchReadyJobs w i st)"
proof (cases "mget (hb_Workflows st) i")
  case (Some a)
  assume live: "lively (insert i X) st"
  obtain st' b where loop: "dispatch_loop w st a = (st', b)" by fastforce
  have "shape b \<and> served b" using live Some loop_step [OF loop] base_steps by (auto simp: lively_def)
  moreover from this loop_stable [OF loop] have "moving b" by (simp add: moving_def wait_progress)
  ultimately show ?thesis
    using live Some loop loop_frame [OF loop] by (auto simp: dispatchReadyJobs_def lively_def)
next
  case None
  then show "lively (insert i X) st \<Longrightarrow> ?thesis"
    by (simp add: dispatchReadyJobs_def lively_def) (metis option.distinct(1))
qed

lemma lively_redispatch: "lively (insert i X) st \<Longrightarrow> lively X (redispatch w i st)"
proof (cases "mget (hb_Workflows st) i")
  case None
  then show "lively (insert i X) st \<Longrightarrow> ?thesis"
    by (simp add: redispatch_def lively_def) (metis option.distinct(1))
next
  case (Some a)
  assume live: "lively (insert i X) st"
  with Some have "served a" by (auto simp: lively_def)
  with Some lively_dispatch [OF live] show ?thesis by (auto simp: redispatch_def served_def)
qed

lemma lively_watch: "lively X st \<Longrightarrow> lively X (startTimeoutWatcher i st)"
  unfolding startTimeoutWatcher_def
  by (rule lively_upd(2)) (auto simp: relabel_steps moving_def progress_def all_done_def)

lemma lively_start_pending: "lively {} st \<Longrightarrow> lively {} (startPendingConcurrencyWorkflow w grp st)"
proof (cases "next_pending grp st")
  case (Some x)
  assume "lively {} st"
  then have "lively {fst x} (upd_workflow (fst x) (wo_Status_update (\<lambda>_. ''running'')) st)"
    by (rule lively_upd(1)) (simp add: relabel_steps)
  from lively_redispatch [OF lively_watch [OF this]] show ?thesis
    by (cases x) (simp add: startPendingConcurrencyWorkflow_def Some)
qed (simp add: startPendingConcurrencyWorkflow_def)

lemma lively_completed: "lively {} st \<Longrightarrow> lively {} (onJobCompleted w jobID result st)"
proof (cases "find_workflow_job jobID st")
  case (Some x)
  obtain i key where x: "x = (i, key)" by fastforce
  assume "lively {} st"
  then have "lively {i} (upd_workflow i (complete_job key result) st)" by (rule lively_upd(1)) (rule complete_steps)
  then have one: "lively {} (redispatch w i (upd_workflow i (complete_job key result) st))" by (rule lively_redispatch)
  then have "lively {} (upd_workflow i settle (redispatch w i (upd_workflow i (complete_job key result) st)))"
    by (rule lively_upd(3)) (simp_all add: settle_def relabel_steps moving_def)
  with one lively_start_pending show ?thesis by (auto simp: onJobCompleted_def Some x Let_def split: option.split)
qed (simp add: onJobCompleted_def)

lemma lively_cancel: "lively X st \<Longrightarrow> lively X (cancelWorkflow i st)"
  unfolding cancelWorkflow_def
  by (rule lively_upd(3)) (auto simp: moving_def cancel_steps)

lemma mark_none: "\<not> list_ex (\<lambda>(k, j). sel k j) (wo_Jobs a) \<Longrightarrow> mark_jobs sel status result a = a"
proof -
  assume "\<not> list_ex (\<lambda>(k, j). sel k j) (wo_Jobs a)"
  then have "map (\<lambda>(k, j). (k, if sel k j then j\<lparr>wj_Status := status, wj_Result := result\<rparr> else j)) (wo_Jobs a) = wo_Jobs a"
    by (intro map_idI) (auto simp: list_ex_iff)
  then show ?thesis by (simp add: mark_jobs_def map_jobs_def)
qed

lemma lively_timeouts: "lively {} st \<Longrightarrow> lively {} (checkJobTimeouts w i st)"
proof -
  assume "lively {} st"
  then have st: "lively {} (fst (time_Now w st))" by (simp add: lively_def time_Now_def)
  let ?f = "mark_jobs (timed_out (snd (time_Now w st))) ''completed'' ''cancelled''"
  have f: "wf_steps a (?f a)" for a by auto
  have "lively {} (redispatch w i (upd_workflow i ?f (fst (time_Now w st))))"
    by (rule lively_redispatch [OF lively_upd(1) [OF st f]])
  moreover have "lively {} (upd_workflow i ?f (fst (time_Now w st)))"
    if "mget (hb_Workflows st) i = Some a" "\<not> list_ex (\<lambda>(k, j). timed_out (snd (time_Now w st)) k j) (wo_Jobs a)" for a
    by (rule lively_upd(2) [OF st f]) (use that mark_none in \<open>auto simp: time_Now_def\<close>)
  ultimately show ?thesis using \<open>lively {} st\<close> by (simp add: checkJobTimeouts_def Let_def split_beta split: option.split)
qed

lemma progress_statuses:
  "progress a \<longleftrightarrow> list_all (\<lambda>s. s = ''completed'' \<or> s = ''skipped'') (map (wj_Status \<circ> snd) (wo_Jobs a)) \<or>
     list_ex (\<lambda>s. s = ''queued'' \<or> s = ''running'') (map (wj_Status \<circ> snd) (wo_Jobs a))"
  by (simp add: progress_def all_done_def list_all_iff list_ex_iff is_final_def is_active_def split_beta)

lemma outputs_moving: "moving (store_outputs key vars a) = moving a"
proof -
  have "map (wj_Status \<circ> snd) (wo_Jobs (store_outputs key vars a)) = map (wj_Status \<circ> snd) (wo_Jobs a)"
    "wo_Status (store_outputs key vars a) = wo_Status a"
    by (auto simp: store_outputs_def map_jobs_def split: option.split)
  then show ?thesis by (simp only: moving_def progress_statuses)
qed

lemma lively_finish: "lively {} st \<Longrightarrow> lively {} (handleFinishJob w planID body st)"
proof -
  assume st: "lively {} st"
  have "lively {} (captureJobOutputs jobID body (upd_job job st))" for jobID job
  proof -
    have job: "lively {} (upd_job job st)" using st by (simp add: lively_def upd_job_def)
    have "wf_steps a (store_outputs key vars a)" for key vars a by auto
    from lively_upd(2) [OF job this] job show ?thesis
      by (auto simp: captureJobOutputs_def outputs_moving split: option.split prod.split)
  qed
  with st lively_completed show ?thesis by (simp add: handleFinishJob_def Let_def split: option.split)
qed

lemma lively_start:
  assumes "lively {} st" "fresh_workflow a" "served a"
  shows "lively {} (start_workflow w a st)"
proof -
  have "lively {wo_ID a} (store_workflow a st)"
    using assms shape.fresh [OF assms(2)] by (auto simp: lively_def store_workflow_def)
  then show ?thesis unfolding start_workflow_def by (intro lively_dispatch lively_watch)
qed

lemma lively_submit:
  assumes "lively {} st" "wf_map (wd_Jobs wdef)" "wd_Env wdef = Some env" "mget env ''__serverURL'' \<noteq> None"
  shows "lively {} (fst (submitWorkflow w wdef em st))"
proof (cases "validateJobGraph wdef")
  case None
  obtain st1 a where new: "new_workflow w wdef em st = (st1, a)" by fastforce
  note a = new_workflow_fresh [OF new assms(2) None]
  have served: "served a" using assms(3,4) a(6) by (simp add: served_def)
  have st1: "lively {} st1" using assms(1) a(4) by (simp add: lively_def)
  have "lively {} (start_workflow w a st1)" "lively {} (start_workflow w a (cancelWorkflow i st1))" for i
    using lively_start [OF _ a(1) served] st1 lively_cancel by blast+
  moreover have "lively {} (store_workflow (a\<lparr>wo_Status := ''pending_concurrency''\<rparr>) st1)"
    using st1 shape.fresh [of "a\<lparr>wo_Status := ''pending_concurrency''\<rparr>"] a(1) served
    by (auto simp: lively_def store_workflow_def fresh_status moving_def served_def)
  ultimately show ?thesis using None new by (auto simp: submitWorkflow_def split: option.split)
qed (simp add: submitWorkflow_def assms(1))

lemma lively_step: "lively {} st \<Longrightarrow> lively {} (hub_step w parse limit st op)"
proof (cases op)
  case (OpSubmitWorkflow url req)
  assume st: "lively {} st"
  have "lively {} (fst (submitWorkflow w (prepared_def url req d) em (register_file w req d st)))" for d em
  proof -
    have "\<exists>env. wd_Env (prepared_def url req d) = Some env \<and> mget env ''__serverURL'' \<noteq> None" by (simp add: prepared_def_def Let_def)
    moreover have "lively {} (register_file w req d st)" using st by (simp add: lively_def register_file_def Let_def time_Now_def)
    moreover have "wf_map (wd_Jobs (prepared_def url req d))" by (simp add: prepared_def_def Let_def wf_expand)
    ultimately show ?thesis using lively_submit by blast
  qed
  with OpSubmitWorkflow st show ?thesis
    by (simp add: hub_step_def handleSubmitWorkflow_def Let_def split_beta split: option.split)
next
  case (OpComplete requestId result)
  assume "lively {} st"
  then have "lively {} (upd_job job st)" for job by (simp add: lively_def upd_job_def)
  with OpComplete \<open>lively {} st\<close> lively_completed show ?thesis
    by (simp add: hub_step_def handleCompleteRequest_def Let_def split: sum.split)
next
  case (OpCancelWorkflow i)
  assume "lively {} st"
  with OpCancelWorkflow show ?thesis by (simp add: hub_step_def handleCancelWorkflow_def lively_cancel split: option.split)
qed (simp_all add: lively_same [OF quiet_step(1)] lively_same [OF quiet_step(2)] lively_same [OF quiet_step(3)]
    lively_same [OF quiet_step(4)] lively_same [OF quiet_step(5)],
  simp_all add: hub_step_def lively_finish lively_timeouts split: option.split)

lemma lively_run: "lively {} (hub_run w parse limit ops NewHub)"
  unfolding hub_run_def by (rule foldl_invariant) (simp add: NewHub_def lively_def, erule lively_step)

text \<open>
  C22: After every history a running workflow with an unfinished job has a job that is queued: no workflow is
  stuck behind jobs that nobody will dispatch.
\<close>

theorem running_workflow_has_work:
  assumes "mget (hb_Workflows (hub_run w parse limit ops NewHub)) i = Some wfl" "wo_Status wfl = ''running''"
    and "\<not> all_done wfl"
  shows "\<exists>k j. mget (wo_Jobs wfl) k = Some j \<and> wj_Status j = ''queued''"
proof -
  have wfl: "shape wfl" "progress wfl"
    using lively_run [of w parse limit ops] assms(1,2) by (simp_all add: lively_def moving_def)
  then obtain k j where j: "(k, j) \<in> set (wo_Jobs wfl)" "is_active j" using assms(3) by (auto simp: progress_def)
  have "known_status j" "keyed wfl" using wfl(1) j(1) by (auto simp: shape_def)
  with j keyedD [OF \<open>keyed wfl\<close> j(1)] show ?thesis by (auto simp: is_active_def known_status_def)
qed

theorem running_workflow_has_work_witness:
  "\<exists>k j. mget (wo_Jobs (demo_workflow [demo_submit ''matrix''] [])) k = Some j \<and> wj_Status j = ''queued''"
proof -
  have get: "\<not> Option.is_none (mget (hb_Workflows (demo_run [demo_submit ''matrix''])) [])" by code_simp
  have "wo_Status (demo_workflow [demo_submit ''matrix''] []) = ''running''" "\<not> all_done (demo_workflow [demo_submit ''matrix''] [])"
    by code_simp+
  from running_workflow_has_work [OF demo_get [OF get] this] show ?thesis .
qed

end
