(* ===== verification/Concurrency.thy ===== *)
theory Concurrency
  imports WorkflowProgress
begin

text \<open>
  Concurrency groups. At most one workflow of a group runs, as long as a runner reports completions only for
  jobs of running workflows; a second report for a finished job starts a second workflow. Cancelling a
  workflow does not start the one queued behind it, a timeout never completes a workflow, and neither
  does the dispatch that skips every job.
\<close>

section \<open>Group and status of the workflows\<close>

definition status_of :: "Hub \<Rightarrow> string \<Rightarrow> (string \<times> string) option" where
  "status_of st i = map_option (\<lambda>a. (wo_ConcurrencyGroup a, wo_Status a)) (mget (hb_Workflows st) i)"

definition exclusive :: "(string \<Rightarrow> (string \<times> string) option) \<Rightarrow> bool" where
  "exclusive S \<longleftrightarrow> (\<forall>grp i i'. grp \<noteq> [] \<longrightarrow> S i = Some (grp, ''running'') \<longrightarrow> S i' = Some (grp, ''running'') \<longrightarrow> i = i')"

lemma exclusive_stop: "exclusive S \<Longrightarrow> status \<noteq> ''running'' \<Longrightarrow> exclusive (S(i \<mapsto> (grp, status)))"
  by (auto simp: exclusive_def)

lemma exclusive_start:
  "exclusive S \<Longrightarrow> (\<And>i'. grp \<noteq> [] \<Longrightarrow> i' \<noteq> i \<Longrightarrow> S i' \<noteq> Some (grp, ''running'')) \<Longrightarrow> exclusive (S(i \<mapsto> (grp, ''running'')))"
  by (auto simp: exclusive_def)

named_theorems status_rules \<open>how an operation changes group and status\<close>

lemma status_same: "hb_Workflows st' = hb_Workflows st \<Longrightarrow> status_of st' = status_of st"
  by (simp add: status_of_def fun_eq_iff)

lemma status_upd_same:
  "(\<And>a. wo_ConcurrencyGroup (f a) = wo_ConcurrencyGroup a \<and> wo_Status (f a) = wo_Status a) \<Longrightarrow> status_of (upd_workflow i f st) = status_of st"
  by (auto simp: status_of_def fun_eq_iff get_upd option.map_comp comp_def)

lemma status_upd:
  "(\<And>a. wo_ConcurrencyGroup (f a) = wo_ConcurrencyGroup a \<and> wo_Status (f a) = s) \<Longrightarrow> status_of st i = Some (grp, t) \<Longrightarrow>
   status_of (upd_workflow i f st) = (status_of st)(i \<mapsto> (grp, s))"
  by (auto simp: status_of_def fun_eq_iff get_upd)

lemma status_upd_None: "status_of st i = None \<Longrightarrow> upd_workflow i f st = st"
  by (simp add: status_of_def upd_workflow_def)

lemma status_store [status_rules]: "status_of (store_workflow a st) = (status_of st)(wo_ID a \<mapsto> (wo_ConcurrencyGroup a, wo_Status a))"
  by (auto simp: status_of_def store_workflow_def fun_eq_iff)

subsection \<open>Dispatch keeps them\<close>

lemma mark_status: "wo_Status (mark_jobs sel s r a) = wo_Status a" "wo_ConcurrencyGroup (mark_jobs sel s r a) = wo_ConcurrencyGroup a"
  by (simp_all add: mark_jobs_def map_jobs_def)

lemma queue_status: "wo_Status (queue_job key now a) = wo_Status a"
  by (simp add: queue_job_def map_jobs_def)

lemma scan_status: "foldl (scan_job w) (st, a, changed, todo) keys = (st', b, changed', todo') \<Longrightarrow> wo_Status b = wo_Status a"
proof (induction keys arbitrary: st a changed todo)
  case (Cons key keys)
  obtain st1 a1 changed1 todo1 where scan: "scan_job w (st, a, changed, todo) key = (st1, a1, changed1, todo1)"
    by (metis prod.exhaust)
  then have "wo_Status a1 = wo_Status a" by (cases rule: scan_job_cases) (simp_all add: mark_status queue_status)
  with Cons.IH [of st1 a1 changed1 todo1] Cons.prems scan show ?case by simp
qed simp

lemma loop_status: "dispatch_loop w st a = (st', b) \<Longrightarrow> wo_Status b = wo_Status a"
proof (induction w st a rule: dispatch_loop.induct)
  case (1 w st a)
  obtain st1 a1 changed todo where scan: "scan_jobs w st a = (st1, a1, changed, todo)" by (metis prod.exhaust)
  then have a1: "wo_Status a1 = wo_Status a" by (auto simp: scan_jobs_def intro: scan_status)
  show ?case
  proof (cases changed)
    case True
    with 1(2) scan have *: "dispatch_loop w (foldl (dispatchWorkflowJob w a1) st1 todo) a1 = (st', b)"
      by (simp add: dispatch_loop.simps [of w st a])
    have "wo_Status b = wo_Status a1" by (rule 1(1) [OF scan [symmetric] refl refl refl True]) (use * in simp)
    with a1 show ?thesis by simp
  next
    case False
    with 1(2) scan a1 show ?thesis by (simp add: dispatch_loop.simps [of w st a])
  qed
qed

lemma status_dispatch [status_rules]: "status_of (dispatchReadyJobs w i st) = status_of st"
proof (cases "mget (hb_Workflows st) i")
  case (Some a)
  obtain st' b where loop: "dispatch_loop w st a = (st', b)" by fastforce
  with Some loop_frame [OF loop] loop_status [OF loop] steps_frame [OF loop_step [OF loop]] show ?thesis
    by (auto simp: dispatchReadyJobs_def status_of_def fun_eq_iff)
qed (simp add: dispatchReadyJobs_def)

lemma status_redispatch [status_rules]: "status_of (redispatch w i st) = status_of st"
  by (simp add: redispatch_def status_dispatch split: option.split)

lemma status_watch [status_rules]: "status_of (startTimeoutWatcher i st) = status_of st"
  unfolding startTimeoutWatcher_def by (rule status_upd_same) simp

lemma status_start [status_rules]:
  "status_of (start_workflow w a st) = (status_of st)(wo_ID a \<mapsto> (wo_ConcurrencyGroup a, wo_Status a))"
  by (simp add: start_workflow_def status_rules)

lemma status_cancel [status_rules]:
  "status_of (cancelWorkflow i st) = (case status_of st i of None \<Rightarrow> status_of st | Some (grp, _) \<Rightarrow> (status_of st)(i \<mapsto> (grp, ''completed'')))"
proof (cases "status_of st i")
  case None
  then show ?thesis by (simp add: cancelWorkflow_def status_upd_None)
next
  case (Some x)
  obtain grp t where x: "x = (grp, t)" by fastforce
  with Some have "status_of st i = Some (grp, t)" by simp
  from status_upd [OF _ this, of _ "''completed''"] show ?thesis
    by (simp add: cancelWorkflow_def cancel_jobs_def mark_status Some x)
qed

subsection \<open>The next workflow of a group\<close>

lemma next_pending_Some:
  assumes "next_pending grp st = Some (i, a)"
  shows "(i, a) \<in> set (hb_Workflows st)" "pending_in_group grp a"
proof -
  let ?f = "\<lambda>best (i, wfl). if pending_in_group grp wfl
      then (case best of None \<Rightarrow> Some (i, wfl) | Some (_, b) \<Rightarrow> if wo_CreatedAt wfl < wo_CreatedAt b then Some (i, wfl) else best) else best"
  have "case foldl ?f None xs of None \<Rightarrow> True | Some (i, a) \<Rightarrow> (i, a) \<in> set xs \<and> pending_in_group grp a" for xs
    by (induction xs rule: rev_induct) (auto split: option.splits prod.splits if_splits)
  from this [of "hb_Workflows st"] assms show "(i, a) \<in> set (hb_Workflows st)" "pending_in_group grp a"
    by (simp_all add: next_pending_def)
qed

lemma status_start_pending:
  assumes "wf_map (hb_Workflows st)"
  shows "status_of (startPendingConcurrencyWorkflow w grp st) = status_of st \<or>
    (\<exists>i. status_of st i = Some (grp, ''pending_concurrency'') \<and>
       status_of (startPendingConcurrencyWorkflow w grp st) = (status_of st)(i \<mapsto> (grp, ''running'')))"
proof (cases "next_pending grp st")
  case (Some x)
  obtain i a where x: "x = (i, a)" by fastforce
  with Some have pend: "next_pending grp st = Some (i, a)" by simp
  have S: "status_of st i = Some (grp, ''pending_concurrency'')"
    using next_pending_Some(2) [OF pend] mget_in_set [THEN iffD1, OF assms next_pending_Some(1) [OF pend]]
    by (simp add: status_of_def pending_in_group_def)
  have "status_of (upd_workflow i (wo_Status_update (\<lambda>_. ''running'')) st) = (status_of st)(i \<mapsto> (grp, ''running''))"
    by (rule status_upd [OF _ S]) simp
  with S show ?thesis by (intro disjI2 exI [of _ i]) (simp add: startPendingConcurrencyWorkflow_def pend status_rules)
qed (simp add: startPendingConcurrencyWorkflow_def)

subsection \<open>Completion\<close>

lemma complete_status: "wo_ConcurrencyGroup (complete_job key result a) = wo_ConcurrencyGroup a \<and> wo_Status (complete_job key result a) = wo_Status a"
  by (simp add: complete_job_def Let_def mark_status split: option.split)

lemma wf_evolves: "evolves st st' \<Longrightarrow> wf_map (hb_Workflows st) \<Longrightarrow> wf_map (hb_Workflows st')"
  by (simp add: evolves_def)

lemma exclusive_completed:
  assumes "exclusive (status_of st)" "wf_map (hb_Workflows st)"
    and "\<And>i key. find_workflow_job jobID st = Some (i, key) \<Longrightarrow> \<exists>grp. status_of st i = Some (grp, ''running'')"
  shows "exclusive (status_of (onJobCompleted w jobID result st))"
proof (cases "find_workflow_job jobID st")
  case (Some x)
  obtain i key where x: "x = (i, key)" by fastforce
  with assms(3) Some obtain grp where S: "status_of st i = Some (grp, ''running'')" by auto
  let ?st = "redispatch w i (upd_workflow i (complete_job key result) st)"
  have same: "status_of ?st = status_of st" by (simp add: status_rules status_upd_same complete_status)
  have "evolves st ?st" by (rule evolves_trans [OF evolves_upd [OF complete_steps] ev.redispatch])
  from wf_evolves [OF this assms(2)] have map: "wf_map (hb_Workflows ?st)" .
  let ?fin = "upd_workflow i settle ?st"
  have fin: "status_of ?fin = (status_of st)(i \<mapsto> (grp, ''completed''))"
    using status_upd [of settle "''completed''" ?st i grp] S same by (simp add: settle_def)
  have "evolves ?st ?fin" by (rule evolves_upd) (simp add: settle_def relabel_steps)
  from wf_evolves [OF this map] have map': "wf_map (hb_Workflows ?fin)" .
  have ex: "exclusive (status_of ?fin)" unfolding fin by (rule exclusive_stop [OF assms(1)]) simp
  have next_ex: "exclusive (status_of (startPendingConcurrencyWorkflow w grp ?fin))"
    using status_start_pending [OF map', of w grp]
  proof
    assume "\<exists>i. status_of ?fin i = Some (grp, ''pending_concurrency'') \<and>
       status_of (startPendingConcurrencyWorkflow w grp ?fin) = (status_of ?fin)(i \<mapsto> (grp, ''running''))"
    then obtain i2 where i2: "status_of (startPendingConcurrencyWorkflow w grp ?fin) = (status_of ?fin)(i2 \<mapsto> (grp, ''running''))" by blast
    have "status_of ?fin i' \<noteq> Some (grp, ''running'')" if "grp \<noteq> []" for i'
      using assms(1) S that by (auto simp: fin exclusive_def)
    then show ?thesis unfolding i2 by (intro exclusive_start [OF ex])
  qed (simp add: ex)
  show ?thesis
  proof (cases "mget (hb_Workflows ?st) i")
    case None
    with Some x same assms(1) show ?thesis by (simp add: onJobCompleted_def Let_def)
  next
    case (Some a)
    have "wo_ConcurrencyGroup a = grp" using S same [THEN fun_cong, of i] Some by (auto simp: status_of_def)
    with Some \<open>find_workflow_job jobID st = Some x\<close> x same assms(1) ex next_ex show ?thesis
      by (simp add: onJobCompleted_def Let_def)
  qed
qed (simp add: onJobCompleted_def assms(1))

lemma status_timeouts [status_rules]: "status_of (checkJobTimeouts w i st) = status_of st"
proof -
  have "status_of (fst (time_Now w st)) = status_of st" by (rule status_same) (simp add: time_Now_def)
  moreover have "status_of (upd_workflow i (mark_jobs sel s r) st) = status_of st" for sel s r st
    by (rule status_upd_same) (simp add: mark_status)
  ultimately show ?thesis by (simp add: checkJobTimeouts_def Let_def status_redispatch split_beta split: option.split)
qed

lemma status_capture [status_rules]: "status_of (captureJobOutputs jobID body st) = status_of st"
  by (auto simp: captureJobOutputs_def store_outputs_def map_jobs_def intro!: status_upd_same split: option.split prod.split)

subsection \<open>Submission\<close>

lemma exclusive_submit:
  assumes "exclusive (status_of st)" "wf_map (hb_Workflows st)" "\<And>i a. mget (hb_Workflows st) i = Some a \<Longrightarrow> wo_ID a = i"
    and "wf_map (wd_Jobs wdef)"
  shows "exclusive (status_of (fst (submitWorkflow w wdef em st)))"
proof (cases "validateJobGraph wdef")
  case None
  obtain st1 a where new: "new_workflow w wdef em st = (st1, a)" by fastforce
  note a = new_workflow_fresh [OF new assms(4) None]
  have same: "status_of st1 = status_of st" by (rule status_same [OF a(4)])
  let ?grp = "wo_ConcurrencyGroup a"
  show ?thesis
  proof (cases "active_in_group a st1")
    case None
    have "status_of st i' \<noteq> Some (?grp, ''running'')" if "?grp \<noteq> []" "i' \<noteq> wo_ID a" for i'
    proof
      assume "status_of st i' = Some (?grp, ''running'')"
      then obtain e where e: "mget (hb_Workflows st) i' = Some e" "running_in_group ?grp e" by (auto simp: status_of_def running_in_group_def)
      with None that assms(3) [OF e(1)] mget_Some_in_set [OF e(1)] a(4) show False by (auto simp: active_in_group_def find_None_iff)
    qed
    then have "exclusive ((status_of st)(wo_ID a \<mapsto> (?grp, ''running'')))" by (intro exclusive_start [OF assms(1)])
    with None \<open>validateJobGraph wdef = None\<close> new a(5) same show ?thesis by (simp add: submitWorkflow_def status_start)
  next
    case (Some x)
    obtain i e where x: "x = (i, e)" by fastforce
    have grp: "?grp \<noteq> []" using Some by (auto simp: active_in_group_def split: if_splits)
    have "(i, e) \<in> set (hb_Workflows st)" "running_in_group ?grp e"
      using Some x a(4) by (auto simp: active_in_group_def dest: find_SomeD split: if_splits)
    then have S: "status_of st i = Some (?grp, ''running'')"
      using mget_in_set [THEN iffD1, OF assms(2)] by (simp add: status_of_def running_in_group_def)
    have ex: "exclusive ((status_of st)(i \<mapsto> (?grp, ''completed'')))" by (rule exclusive_stop [OF assms(1)]) simp
    have "exclusive ((status_of st)(i \<mapsto> (?grp, ''completed''), wo_ID a \<mapsto> (?grp, ''running'')))"
      by (rule exclusive_start [OF ex]) (use assms(1) S grp in \<open>auto simp: exclusive_def split: if_splits\<close>)
    moreover have "exclusive ((status_of st)(wo_ID a \<mapsto> (?grp, ''pending_concurrency'')))" by (rule exclusive_stop [OF assms(1)]) simp
    ultimately show ?thesis
      using Some x None new a(5) S by (simp add: submitWorkflow_def status_start status_cancel status_store same)
  qed
qed (simp add: submitWorkflow_def assms(1))

section \<open>Histories\<close>

text \<open>A report is timely if the workflow of the job it names is running.\<close>

definition job_timely :: "string \<Rightarrow> Hub \<Rightarrow> bool" where
  "job_timely jobID st \<longleftrightarrow>
     (case find_workflow_job jobID st of
        None \<Rightarrow> True
      | Some (i, _) \<Rightarrow> (case mget (hb_Workflows st) i of Some a \<Rightarrow> wo_Status a = ''running'' | None \<Rightarrow> False))"

definition timely :: "Hub \<Rightarrow> hub_op \<Rightarrow> bool" where
  "timely st op \<longleftrightarrow>
     (case op of
        OpComplete requestId _ \<Rightarrow> (case requested_job requestId st of Inl _ \<Rightarrow> True | Inr job \<Rightarrow> job_timely (jb_ID job) st)
      | OpFinish planID body \<Rightarrow> (case finished_job planID body st of None \<Rightarrow> True | Some job \<Rightarrow> job_timely (jb_ID job) st)
      | _ \<Rightarrow> True)"

fun timely_run :: "HubWorld \<Rightarrow> (string \<Rightarrow> WorkflowDef option) \<Rightarrow> int \<Rightarrow> hub_op list \<Rightarrow> Hub \<Rightarrow> bool" where
  "timely_run w parse limit [] st \<longleftrightarrow> True"
| "timely_run w parse limit (op # ops) st \<longleftrightarrow> timely st op \<and> timely_run w parse limit ops (hub_step w parse limit st op)"

definition hub_map :: "HubWorld \<Rightarrow> Hub \<Rightarrow> bool" where
  "hub_map w st \<longleftrightarrow> wf_map (hb_Workflows st) \<and> drawn_ids w st"

lemma hub_map_step: "hub_map w st \<Longrightarrow> hub_map w (hub_step w parse limit st op)"
proof -
  assume m: "hub_map w st"
  from hub_step_evolves [of st w parse limit op] have "wf_map (hb_Workflows (hub_step w parse limit st op))"
  proof
    assume "adds w st (hub_step w parse limit st op)"
    then obtain a st1 where a: "evolves st st1" "evolves (store_workflow a st1) (hub_step w parse limit st op)" by (auto simp: adds_def)
    have "wf_map (hb_Workflows (store_workflow a st1))" using wf_evolves [OF a(1)] m by (simp add: hub_map_def store_workflow_def)
    from wf_evolves [OF a(2) this] show ?thesis .
  qed (use m in \<open>simp add: hub_map_def wf_evolves\<close>)
  with m drawn_step show ?thesis by (simp add: hub_map_def)
qed

lemma timely_running:
  "job_timely jobID st \<Longrightarrow> find_workflow_job jobID st = Some (i, key) \<Longrightarrow> \<exists>grp. status_of st i = Some (grp, ''running'')"
  by (auto simp: job_timely_def status_of_def split: option.splits)

text \<open>Recording the result of a job and its outputs does not touch which job a later lookup finds.\<close>

lemma find_job_map: "(\<And>k j. wj_JobID (f k j) = wj_JobID j) \<Longrightarrow> map_option fst (find_job jobID (map_jobs f a)) = map_option fst (find_job jobID a)"
proof -
  assume f: "\<And>k j. wj_JobID (f k j) = wj_JobID j"
  have "map_option fst (find (\<lambda>(_, j). wj_JobID j = jobID) (map (\<lambda>(k, j). (k, f k j)) m)) = map_option fst (find (\<lambda>(_, j). wj_JobID j = jobID) m)" for m
  proof (induction m)
    case (Cons x m)
    then show ?case by (cases x) (simp add: f)
  qed simp
  then show ?thesis by (simp add: find_job_def jobs_map)
qed

lemma find_upd:
  assumes "\<And>a. map_option fst (find_job jobID (f a)) = map_option fst (find_job jobID a)" "wf_map (hb_Workflows st)"
  shows "find_workflow_job jobID (upd_workflow i f st) = find_workflow_job jobID st"
proof (cases "mget (hb_Workflows st) i")
  case (Some a)
  define g :: "Workflow gomap \<Rightarrow> (string \<times> string) option" where "g m = (case find (\<lambda>(_, wfl). find_job jobID wfl \<noteq> None) m of
        None \<Rightarrow> None | Some (i, wfl) \<Rightarrow> map_option (\<lambda>(key, _). (i, key)) (find_job jobID wfl))" for m
  have some: "(find_job jobID (f a) \<noteq> None) = (find_job jobID a \<noteq> None)"
    using assms(1) [of a] by (cases "find_job jobID a"; cases "find_job jobID (f a)") auto
  have pair: "map_option (\<lambda>(key, _). (k, key)) (find_job jobID (f a)) = map_option (\<lambda>(key, _). (k, key)) (find_job jobID a)" for k :: string
    using assms(1) [of a] by (cases "find_job jobID a"; cases "find_job jobID (f a)") auto
  have "g (mput i (f a) m) = g m" if "wf_map m" "mget m i = Some a" for m
  proof -
    have g_Cons: "g ((k, b) # m) = (if find_job jobID b \<noteq> None then map_option (\<lambda>(key, _). (k, key)) (find_job jobID b) else g m)" for k b m
      by (simp add: g_def)
    show ?thesis using that
    proof (induction m)
      case (Cons x m)
      then show ?case by (cases x) (auto simp: g_Cons some pair simp del: not_None_eq map_of_eq_Some_iff)
    qed simp
  qed
  with Some assms(2) show ?thesis by (simp add: find_workflow_job_def upd_workflow_def g_def)
qed (simp add: upd_workflow_def)

lemma find_capture: "wf_map (hb_Workflows st) \<Longrightarrow> find_workflow_job i (captureJobOutputs jobID body st) = find_workflow_job i st"
  by (auto simp: captureJobOutputs_def store_outputs_def intro!: find_upd find_job_map split: option.split prod.split)

lemma upd_job_same:
  "hb_Workflows (upd_job job st) = hb_Workflows st" "status_of (upd_job job st) = status_of st"
  "find_workflow_job i (upd_job job st) = find_workflow_job i st"
  by (simp_all add: upd_job_def status_of_def find_workflow_job_def fun_eq_iff)

lemma exclusive_step:
  assumes "exclusive (status_of st)" "hub_map w st" "timely st op"
  shows "exclusive (status_of (hub_step w parse limit st op))"
proof (cases op)
  case (OpSubmitWorkflow url req)
  have "exclusive (status_of (fst (submitWorkflow w (prepared_def url req d) em (register_file w req d st))))" for d em
  proof (rule exclusive_submit)
    have same: "hb_Workflows (register_file w req d st) = hb_Workflows st" by (simp add: register_file_def Let_def time_Now_def)
    then show "exclusive (status_of (register_file w req d st))" "wf_map (hb_Workflows (register_file w req d st))"
      using assms(1,2) unfolding status_same [OF same] by (simp_all add: hub_map_def)
    show "wo_ID a = i" if "mget (hb_Workflows (register_file w req d st)) i = Some a" for i a
      using that assms(2) unfolding same hub_map_def drawn_ids_def by blast
  qed (simp add: prepared_def_def Let_def wf_expand)
  with OpSubmitWorkflow assms(1) show ?thesis
    by (simp add: hub_step_def handleSubmitWorkflow_def Let_def split_beta split: option.split)
next
  case (OpComplete requestId result)
  have "exclusive (status_of (onJobCompleted w (jb_ID job) res (upd_job job' st)))" if "job_timely (jb_ID job) st" for job job' res
    by (rule exclusive_completed)
      (use assms(1,2) timely_running [OF that] in \<open>simp_all add: upd_job_same hub_map_def\<close>)
  with OpComplete assms show ?thesis
    by (cases "requested_job requestId st") (auto simp: hub_step_def handleCompleteRequest_def timely_def Let_def)
next
  case (OpFinish planID body)
  have "exclusive (status_of (onJobCompleted w (jb_ID job) res (captureJobOutputs (jb_ID job) body (upd_job job' st))))"
    if "job_timely (jb_ID job) st" for job job' res
  proof (rule exclusive_completed)
    have st: "wf_map (hb_Workflows (upd_job job' st))" "status_of (upd_job job' st) = status_of st"
      "find_workflow_job i (upd_job job' st) = find_workflow_job i st" for i
      using assms(2) by (simp_all add: hub_map_def upd_job_same)
    show "exclusive (status_of (captureJobOutputs (jb_ID job) body (upd_job job' st)))" by (simp add: status_capture st assms(1))
    have "evolves (upd_job job' st) (captureJobOutputs (jb_ID job) body (upd_job job' st))"
      by (rule ev.outputs)
    then show "wf_map (hb_Workflows (captureJobOutputs (jb_ID job) body (upd_job job' st)))" by (rule wf_evolves [OF _ st(1)])
    show "\<exists>grp. status_of (captureJobOutputs (jb_ID job) body (upd_job job' st)) i = Some (grp, ''running'')"
      if "find_workflow_job (jb_ID job) (captureJobOutputs (jb_ID job) body (upd_job job' st)) = Some (i, key)" for i key
      using timely_running [OF \<open>job_timely (jb_ID job) st\<close>] that by (simp add: find_capture st status_capture)
  qed
  from this [of "the (finished_job planID body st)"] OpFinish assms show ?thesis
    by (simp add: hub_step_def handleFinishJob_def timely_def Let_def split: option.splits)
next
  case (OpCancelWorkflow i)
  with assms(1) show ?thesis
    by (auto simp: hub_step_def handleCancelWorkflow_def status_cancel intro: exclusive_stop split: option.split)
qed (use assms(1) in \<open>simp_all add: status_same [OF quiet_step(1)] status_same [OF quiet_step(2)] status_same [OF quiet_step(3)]
    status_same [OF quiet_step(4)] status_same [OF quiet_step(5)]\<close>,
  use assms(1) in \<open>simp_all add: hub_step_def status_timeouts split: option.split\<close>)

lemma exclusive_run:
  "exclusive (status_of st) \<Longrightarrow> hub_map w st \<Longrightarrow> timely_run w parse limit ops st \<Longrightarrow> exclusive (status_of (hub_run w parse limit ops st))"
proof (induction ops arbitrary: st)
  case (Cons op ops)
  then show ?case using Cons.IH [OF exclusive_step hub_map_step] by (simp add: hub_run_def)
qed (simp add: hub_run_def)

text \<open>C9: At most one workflow of a concurrency group runs, in every history whose reports are timely.\<close>

theorem one_running_per_group:
  assumes "timely_run w parse limit ops NewHub"
    and "mget (hb_Workflows (hub_run w parse limit ops NewHub)) i = Some a" "wo_Status a = ''running''"
    and "mget (hb_Workflows (hub_run w parse limit ops NewHub)) i' = Some a'" "wo_Status a' = ''running''"
    and "wo_ConcurrencyGroup a' = wo_ConcurrencyGroup a" "wo_ConcurrencyGroup a \<noteq> []"
  shows "i' = i"
proof -
  have "exclusive (status_of (hub_run w parse limit ops NewHub))"
    by (rule exclusive_run [OF _ _ assms(1)]) (simp_all add: exclusive_def status_of_def hub_map_def drawn_ids_def NewHub_def)
  moreover have "status_of (hub_run w parse limit ops NewHub) i = Some (wo_ConcurrencyGroup a, ''running'')"
    "status_of (hub_run w parse limit ops NewHub) i' = Some (wo_ConcurrencyGroup a, ''running'')"
    using assms(2-6) by (simp_all add: status_of_def)
  ultimately show ?thesis using assms(7) unfolding exclusive_def by blast
qed

theorem one_running_per_group_witness:
  "timely_run demo demo_parse 0 [demo_submit ''group'', demo_submit ''group'', OpComplete ''1'' ''Succeeded''] NewHub \<and>
   {i. \<exists>a. mget (hb_Workflows (demo_run [demo_submit ''group'', demo_submit ''group'', OpComplete ''1'' ''Succeeded''])) i = Some a \<and>
      wo_Status a = ''running'' \<and> wo_ConcurrencyGroup a = ''g''} = {''uuuu''}"
proof -
  let ?ops = "[demo_submit ''group'', demo_submit ''group'', OpComplete ''1'' ''Succeeded'']"
  have timely: "timely_run demo demo_parse 0 ?ops NewHub" by code_simp
  have get: "\<not> Option.is_none (mget (hb_Workflows (demo_run ?ops)) ''uuuu'')" by code_simp
  have run: "wo_Status (demo_workflow ?ops ''uuuu'') = ''running''" "wo_ConcurrencyGroup (demo_workflow ?ops ''uuuu'') = ''g''" by code_simp+
  have "i = ''uuuu''" if "mget (hb_Workflows (demo_run ?ops)) i = Some a" "wo_Status a = ''running''" "wo_ConcurrencyGroup a = ''g''" for i a
    using one_running_per_group [OF timely demo_get [OF get] run(1), of i a] that run(2) by (simp add: demo_run_def)
  with timely run demo_get [OF get] show ?thesis unfolding demo_run_def by blast
qed

end
