(* ===== verification/Messages.thy ===== *)
theory Messages
  imports WorkflowLife
begin

text \<open>
  The messages of the hub over all histories: every message has an identifier of its own, none is delivered
  twice, and none is lost unless its session is deleted or it is the message of a single job that found
  no room. A single job submitted then is stored as queued, and nothing will send it.
\<close>

section \<open>What an operation of the engine does to the messages\<close>

definition ids :: "TaskAgentMessage multiset \<Rightarrow> int multiset" where
  "ids ms = image_mset tm_MessageID ms"

definition flows :: "Hub \<Rightarrow> Hub \<Rightarrow> bool" where
  "flows st st' \<longleftrightarrow> hb_uuids st \<le> hb_uuids st' \<and> hb_NextMsg st \<le> hb_NextMsg st' \<and> (wf_map (hb_Sessions st) \<longrightarrow>
     wf_map (hb_Sessions st') \<and> mkeys (hb_Sessions st') = mkeys (hb_Sessions st) \<and>
     ids (in_flight st') = ids (in_flight st) + mset [hb_NextMsg st..hb_NextMsg st' - 1])"

lemma upto_split: "a \<le> b \<Longrightarrow> b \<le> c \<Longrightarrow> mset [a..b - 1] + mset [b..c - 1] = mset [a..c - 1]" for a b c :: int
proof -
  assume "a \<le> b" "b \<le> c"
  then have "{a..c - 1} = {a..b - 1} \<union> {b..c - 1}" "{a..b - 1} \<inter> {b..c - 1} = {}" by auto
  then have "mset_set {a..c - 1} = mset_set {a..b - 1} + mset_set {b..c - 1}" by (simp add: mset_set_Union)
  then show ?thesis by (simp add: mset_set_set [symmetric] del: mset_set_set)
qed

lemma flows_trans: "flows st st' \<Longrightarrow> flows st' st'' \<Longrightarrow> flows st st''"
  using upto_split [of "hb_NextMsg st" "hb_NextMsg st'" "hb_NextMsg st''"] by (auto simp: flows_def add.assoc)

lemma flows_same:
  "hb_Sessions st' = hb_Sessions st \<Longrightarrow> hb_PendingMessages st' = hb_PendingMessages st \<Longrightarrow> hb_NextMsg st' = hb_NextMsg st \<Longrightarrow>
   hb_uuids st \<le> hb_uuids st' \<Longrightarrow> flows st st'"
  by (simp add: flows_def in_flight_def)

lemma try_next: "hb_NextMsg (fst (try_sessions ids' is msg st)) = hb_NextMsg st"
  by (induction ids' "is" msg st rule: try_sessions.induct) (auto simp: Let_def push_message_def split: option.splits)

lemma send_flow:
  assumes "sendMessageToAgent msg st = (st', sent)"
  shows "hb_NextMsg st' = hb_NextMsg st" "hb_uuids st' = hb_uuids st" "hb_PendingMessages st' = hb_PendingMessages st"
    "wf_map (hb_Sessions st) \<Longrightarrow> wf_map (hb_Sessions st') \<and> mkeys (hb_Sessions st') = mkeys (hb_Sessions st) \<and>
       in_flight st' = in_flight st + (if sent then {#msg#} else {#})"
proof -
  show "hb_NextMsg st' = hb_NextMsg st"
    using assms try_next by (auto simp: sendMessageToAgent_def Let_def split: if_splits) (metis fst_conv)
  show "hb_uuids st' = hb_uuids st" using send_frame(2) [of msg st] assms by simp
  have "hb_PendingMessages (fst (try_sessions k js msg st)) = hb_PendingMessages st" for k js
    by (induction k js msg st rule: try_sessions.induct) (auto simp: Let_def push_message_def split: option.splits)
  then show "hb_PendingMessages st' = hb_PendingMessages st"
    using assms by (auto simp: sendMessageToAgent_def Let_def split: if_splits) (metis fst_conv)
  assume "wf_map (hb_Sessions st)"
  then show "wf_map (hb_Sessions st') \<and> mkeys (hb_Sessions st') = mkeys (hb_Sessions st) \<and>
       in_flight st' = in_flight st + (if sent then {#msg#} else {#})"
    using assms try_in_flight [of _ _ msg st st' sent] by (auto simp: sendMessageToAgent_def Let_def split: if_splits)
qed

lemma flows_dispatch_job: "flows st (dispatchWorkflowJob w a st key)"
proof (cases "mget (wo_Jobs a) key")
  case (Some j)
  obtain st1 msg where post: "post_job w (wj_JobID j) (wj_Key j) st = (st1, msg)" by fastforce
  obtain st2 sent where send: "sendMessageToAgent msg st1 = (st2, sent)" by fastforce
  note p = post_job_frame [OF post]
  have "dispatchWorkflowJob w a st key = (if sent then st2 else requeuePendingMessage msg st2)"
    using Some post send by (simp add: dispatchWorkflowJob_def)
  moreover have "in_flight st1 = in_flight st" by (simp add: in_flight_def p)
  ultimately show ?thesis
    using send_flow [OF send] p by (auto simp: flows_def ids_def requeuePendingMessage_def in_flight_def)
qed (simp add: dispatchWorkflowJob_def flows_same)

lemma flows_refl: "flows st st"
  by (simp add: flows_same)

lemma flows_dispatch_list: "flows st (foldl (dispatchWorkflowJob w a) st keys)"
  by (induction keys rule: rev_induct) (auto intro: flows_refl flows_trans flows_dispatch_job)

lemma flows_scan: "foldl (scan_job w) (st, a, changed, todo) keys = (st', b, changed', todo') \<Longrightarrow> flows st st'"
proof (induction keys arbitrary: st a changed todo)
  case (Cons key keys)
  obtain st1 a1 changed1 todo1 where scan: "scan_job w (st, a, changed, todo) key = (st1, a1, changed1, todo1)"
    by (metis prod.exhaust)
  then have "flows st st1" by (cases rule: scan_job_cases) (simp_all add: time_Now_def flows_same)
  moreover have "flows st1 st'" using Cons.prems scan by (intro Cons.IH) simp
  ultimately show ?case by (rule flows_trans)
qed (simp add: flows_refl)

lemma flows_loop: "dispatch_loop w st a = (st', b) \<Longrightarrow> flows st st'"
proof (induction w st a rule: dispatch_loop.induct)
  case (1 w st a)
  obtain st1 a1 changed todo where scan: "scan_jobs w st a = (st1, a1, changed, todo)" by (metis prod.exhaust)
  let ?st2 = "foldl (dispatchWorkflowJob w a1) st1 todo"
  have "flows st st1" using scan by (auto simp: scan_jobs_def intro: flows_scan)
  then have st2: "flows st ?st2" by (rule flows_trans [OF _ flows_dispatch_list])
  show ?case
  proof (cases changed)
    case True
    with 1(2) scan have *: "dispatch_loop w ?st2 a1 = (st', b)" by (simp add: dispatch_loop.simps [of w st a])
    have "flows ?st2 st'" by (rule 1(1) [OF scan [symmetric] refl refl refl True]) (use * in simp)
    with st2 show ?thesis by (rule flows_trans)
  next
    case False
    with 1(2) scan st2 show ?thesis by (auto simp: dispatch_loop.simps [of w st a])
  qed
qed

lemma flows_dispatch: "flows st (dispatchReadyJobs w i st)"
proof (cases "mget (hb_Workflows st) i")
  case (Some a)
  obtain st' b where loop: "dispatch_loop w st a = (st', b)" by fastforce
  have "flows st st'" by (rule flows_loop [OF loop])
  moreover have "flows st' (st'\<lparr>hb_Workflows := mput i b (hb_Workflows st')\<rparr>)" by (simp add: flows_same)
  ultimately show ?thesis by (simp add: dispatchReadyJobs_def Some loop flows_trans)
qed (simp add: dispatchReadyJobs_def flows_refl)

interpretation fl: engine_law flows
  by unfold_locales
    (auto intro: flows_refl flows_trans flows_dispatch simp: upd_workflow_def upd_job_def time_Now_def flows_same split: option.split)

lemma flows_submit: "wf_map (wd_Jobs wdef) \<Longrightarrow> flows st (fst (submitWorkflow w wdef em st))"
proof (cases "validateJobGraph wdef")
  case None
  obtain st1 a where new: "new_workflow w wdef em st = (st1, a)" by fastforce
  have add: "flows st (fst (foldl (add_job w) (st, a) defs))" for st a defs
  proof (induction defs arbitrary: st a)
    case (Cons d defs)
    obtain st1 a1 where d: "add_job w (st, a) d = (st1, a1)" by fastforce
    then have "flows st st1" by (auto simp: add_job_def Let_def uuid_New_def flows_same split: prod.splits)
    with Cons.IH [of st1 a1] show ?case by (simp add: d flows_trans)
  qed (simp add: flows_refl)
  have "flows st (fst (init_workflow w wdef st))" by (simp add: init_workflow_def Let_def uuid_New_def time_Now_def flows_same)
  then have st1: "flows st st1"
    using new add [of "fst (init_workflow w wdef st)" "snd (init_workflow w wdef st)" "wd_Jobs wdef"]
    by (auto simp: new_workflow_def split: prod.splits intro: flows_trans)
  have store: "flows st (store_workflow a st)" for a st by (simp add: store_workflow_def flows_same)
  have start: "flows st (start_workflow w a st)" for a st
    unfolding start_workflow_def by (rule flows_trans [OF flows_trans [OF store fl.watch] flows_dispatch])
  from new None st1 show ?thesis
    by (auto simp: submitWorkflow_def split: option.split intro: flows_trans [OF _ start] flows_trans [OF _ store] flows_trans [OF _ flows_trans [OF fl.cancel start]])
qed (simp add: submitWorkflow_def flows_refl)

section \<open>Histories\<close>

text \<open>The messages an operation hands to a runner.\<close>

definition delivers :: "Hub \<Rightarrow> hub_op \<Rightarrow> TaskAgentMessage multiset" where
  "delivers st op = (case op of OpGetMessage sid \<Rightarrow> delivered (snd (handleGetMessage sid st)) | _ \<Rightarrow> {#})"

fun deliveries :: "HubWorld \<Rightarrow> (string \<Rightarrow> WorkflowDef option) \<Rightarrow> int \<Rightarrow> hub_op list \<Rightarrow> Hub \<Rightarrow> TaskAgentMessage multiset" where
  "deliveries w parse limit [] st = {#}"
| "deliveries w parse limit (op # ops) st = delivers st op + deliveries w parse limit ops (hub_step w parse limit st op)"

definition sessions_ok :: "HubWorld \<Rightarrow> Hub \<Rightarrow> bool" where
  "sessions_ok w st \<longleftrightarrow> wf_map (hb_Sessions st) \<and> fst ` set (hb_Sessions st) \<subseteq> hw_uuid w ` {..<hb_uuids st}"

text \<open>The operations that lose no message.\<close>

definition lossless :: "hub_op \<Rightarrow> bool" where
  "lossless op \<longleftrightarrow> (case op of OpDeleteSession _ \<Rightarrow> False | OpSubmitJob \<Rightarrow> False | _ \<Rightarrow> True)"

definition accounted :: "hub_op \<Rightarrow> Hub \<Rightarrow> TaskAgentMessage multiset \<Rightarrow> Hub \<Rightarrow> bool" where
  "accounted op st d st' \<longleftrightarrow> hb_NextMsg st \<le> hb_NextMsg st' \<and>
     ids d + ids (in_flight st') \<subseteq># ids (in_flight st) + mset [hb_NextMsg st..hb_NextMsg st' - 1] \<and>
     (lossless op \<longrightarrow> ids d + ids (in_flight st') = ids (in_flight st) + mset [hb_NextMsg st..hb_NextMsg st' - 1])"

lemma flows_accounted: "sessions_ok w st \<Longrightarrow> flows st st' \<Longrightarrow> sessions_ok w st' \<and> accounted op st {#} st'"
proof -
  assume s: "sessions_ok w st" and f: "flows st st'"
  then have keys: "mkeys (hb_Sessions st') = mkeys (hb_Sessions st)" "wf_map (hb_Sessions st')" "hb_uuids st \<le> hb_uuids st'"
    by (auto simp: flows_def sessions_ok_def)
  have "fst ` set (hb_Sessions st') = fst ` set (hb_Sessions st)" using arg_cong [OF keys(1), of set] by simp
  also have "\<dots> \<subseteq> hw_uuid w ` {..<hb_uuids st'}"
    using s keys(3) by (auto simp: sessions_ok_def dest!: subsetD intro: less_le_trans)
  finally have "sessions_ok w st'" using keys(2) by (simp add: sessions_ok_def)
  with s f show ?thesis by (auto simp: flows_def accounted_def ids_def sessions_ok_def)
qed

lemma drain_loop_frame:
  "drain_loop pending remaining st = (st', remaining') \<Longrightarrow> wf_map (hb_Sessions st) \<Longrightarrow>
   hb_NextMsg st' = hb_NextMsg st \<and> mkeys (hb_Sessions st') = mkeys (hb_Sessions st)"
proof (induction pending remaining st rule: drain_loop.induct)
  case (2 msg pending remaining st)
  obtain st1 sent where send: "sendMessageToAgent msg st = (st1, sent)" by fastforce
  from 2 send send_flow [OF send] show ?case by (cases sent) auto
qed simp

lemma flows_drain: "wf_map (hb_Sessions st) \<Longrightarrow> flows st (drainPendingMessages st)"
proof -
  assume m: "wf_map (hb_Sessions st)"
  obtain st' remaining where d: "drain_loop (hb_PendingMessages st) [] (st\<lparr>hb_PendingMessages := []\<rparr>) = (st', remaining)" by fastforce
  with drain_loop_frame [OF d] m drainPending_frame [of st] drainPending_in_flight [OF m] show ?thesis
    by (simp add: flows_def drainPendingMessages_def)
qed

lemma create_accounted:
  assumes "inj (hw_uuid w)" "sessions_ok w st"
  shows "sessions_ok w (fst (handleCreateSession w owner st)) \<and> accounted (OpCreateSession owner) st {#} (fst (handleCreateSession w owner st))"
proof -
  let ?sid = "hw_uuid w (hb_uuids st)"
  let ?s = "\<lparr>se_SessionID = ?sid, se_OwnerName = owner, se_MsgCh = []\<rparr>"
  let ?st = "(fst (uuid_New w st))\<lparr>hb_Sessions := mput ?sid ?s (hb_Sessions st)\<rparr>"
  have "?sid \<notin> hw_uuid w ` {..<hb_uuids st}" using assms(1) by (auto dest: injD)
  then have "?sid \<notin> fst ` set (hb_Sessions st)" using assms(2) by (auto simp only: sessions_ok_def)
  then have new: "mget (hb_Sessions st) ?sid = None" by (simp add: map_of_eq_None_iff)
  have ok: "sessions_ok w ?st" using assms(2) by (simp add: sessions_ok_def uuid_New_def lessThan_Suc subset_insertI2)
  have "in_flight ?st = in_flight st" using sum_mput_new [OF new, of ?s] by (simp add: in_flight_def uuid_New_def)
  moreover have "hb_NextMsg ?st = hb_NextMsg st" by (simp add: uuid_New_def)
  moreover have "handleCreateSession w owner st = (drainPendingMessages ?st, ?sid)" by (simp add: handleCreateSession_def uuid_New_def)
  ultimately show ?thesis
    using flows_accounted [OF ok flows_drain] ok by (simp add: sessions_ok_def accounted_def)
qed

lemma poll_accounted:
  assumes "sessions_ok w st"
  shows "sessions_ok w (fst (handleGetMessage sid st)) \<and>
    accounted (OpGetMessage sid) st (delivered (snd (handleGetMessage sid st))) (fst (handleGetMessage sid st))"
proof -
  obtain st' r where poll: "handleGetMessage sid st = (st', r)" by fastforce
  have m: "wf_map (hb_Sessions st)" using assms by (simp add: sessions_ok_def)
  have "sessions_ok w st' \<and> hb_NextMsg st' = hb_NextMsg st"
  proof (cases "mget (hb_Sessions st) sid")
    case None
    with poll assms show ?thesis by (simp add: handleGetMessage_def)
  next
    case (Some s)
    have keys: "fst ` set (mput sid s' (hb_Sessions st)) = fst ` set (hb_Sessions st)" for s'
      using mget_Some_in_set [OF Some] by (simp add: insert_absorb rev_image_eqI)
    show ?thesis
    proof (cases "se_MsgCh s")
      case Nil
      with poll Some assms show ?thesis by (simp add: handleGetMessage_def)
    next
      case (Cons msg rest)
      with poll Some have "st' = st\<lparr>hb_Sessions := mput sid (s\<lparr>se_MsgCh := rest\<rparr>) (hb_Sessions st)\<rparr>" by (simp add: handleGetMessage_def)
      with assms keys show ?thesis by (simp add: sessions_ok_def)
    qed
  qed
  moreover have "in_flight st = delivered r + in_flight st'" using poll_in_flight [OF m poll] by (simp add: add.commute)
  ultimately show ?thesis by (simp add: poll accounted_def ids_def)
qed

lemma delete_accounted:
  assumes "sessions_ok w st"
  shows "sessions_ok w (handleDeleteSession sid st) \<and> accounted (OpDeleteSession sid) st {#} (handleDeleteSession sid st)"
proof -
  have m: "wf_map (hb_Sessions st)" using assms by (simp add: sessions_ok_def)
  have "in_flight (handleDeleteSession sid st) \<subseteq># in_flight st"
  proof (cases "mget (hb_Sessions st) sid")
    case None
    then have "mdel sid (hb_Sessions st) = hb_Sessions st" by (simp add: delete_id map_of_eq_None_iff)
    then show ?thesis by (simp add: handleDeleteSession_def)
  next
    case (Some s)
    from delete_in_flight [OF m this] show ?thesis by (metis mset_subset_eq_add_left)
  qed
  then have "ids (in_flight (handleDeleteSession sid st)) \<subseteq># ids (in_flight st)" by (simp add: ids_def image_mset_subseteq_mono)
  moreover have "sessions_ok w (handleDeleteSession sid st)"
    using assms keys_mdel [of sid "hb_Sessions st"] wf_mdel [OF m, of sid] by (auto simp: sessions_ok_def handleDeleteSession_def)
  ultimately show ?thesis by (simp add: accounted_def lossless_def handleDeleteSession_def ids_def)
qed

text \<open>A single job: its message is sent if a session has room, and dropped if not.\<close>

lemma submit_job_send:
  obtains st1 msg where "post_job w (hw_uuid w (hb_uuids st)) ''test'' (fst (uuid_New w st)) = (st1, msg)"
    "fst (handleSubmitJob w st) = fst (sendMessageToAgent msg st1)"
  by (rule that [OF surjective_pairing]) (simp add: handleSubmitJob_def uuid_New_def split_beta)

lemma submit_accounted:
  assumes "sessions_ok w st"
  shows "sessions_ok w (fst (handleSubmitJob w st)) \<and> accounted OpSubmitJob st {#} (fst (handleSubmitJob w st))"
proof -
  obtain st1 msg where post: "post_job w (hw_uuid w (hb_uuids st)) ''test'' (fst (uuid_New w st)) = (st1, msg)"
    and res: "fst (handleSubmitJob w st) = fst (sendMessageToAgent msg st1)" by (rule submit_job_send)
  obtain st2 sent where send: "sendMessageToAgent msg st1 = (st2, sent)" by fastforce
  note p = post_job_frame [OF post]
  have m: "wf_map (hb_Sessions st1)" using assms p by (simp add: sessions_ok_def uuid_New_def)
  have "in_flight st1 = in_flight st" by (simp add: in_flight_def p uuid_New_def)
  moreover have "sessions_ok w st2"
  proof -
    have "mkeys (hb_Sessions st2) = mkeys (hb_Sessions st)" "wf_map (hb_Sessions st2)" "hb_uuids st2 = Suc (Suc (Suc (hb_uuids st)))"
      using send_flow [OF send] m p by (simp_all add: uuid_New_def)
    moreover from this(1) have "fst ` set (hb_Sessions st2) = fst ` set (hb_Sessions st)" by (metis image_set)
    ultimately show ?thesis using assms by (auto simp: sessions_ok_def lessThan_Suc)
  qed
  ultimately show ?thesis
    using send_flow [OF send] m p by (simp add: res send accounted_def lossless_def ids_def uuid_New_def)
qed

lemma hub_step_accounted:
  assumes "inj (hw_uuid w)" "sessions_ok w st"
  shows "sessions_ok w (hub_step w parse limit st op) \<and> accounted op st (delivers st op) (hub_step w parse limit st op)"
proof -
  have flow: "sessions_ok w st' \<and> accounted op st {#} st'" if "flows st st'" for st' op
    using flows_accounted [OF assms(2) that] that assms(2) by (simp add: accounted_def flows_def sessions_ok_def ids_def)
  show ?thesis
  proof (cases op)
    case (OpSubmitWorkflow url req)
    have "flows st (fst (submitWorkflow w (prepared_def url req d) em (register_file w req d st)))" for d em
      by (rule flows_trans [OF flows_same flows_submit]) (simp_all add: register_file_def prepared_def_def Let_def time_Now_def wf_expand)
    then have "flows st (hub_step w parse limit st op)"
      using OpSubmitWorkflow by (simp add: hub_step_def handleSubmitWorkflow_def Let_def split_beta flows_refl split: option.split)
    from flow [OF this] show ?thesis by (simp add: OpSubmitWorkflow delivers_def)
  next
    case (OpRenew requestId)
    have "flows st (hub_step w parse limit st op)"
      using OpRenew by (auto simp: hub_step_def handleRenewRequest_def Let_def time_Now_def upd_job_def intro: flows_same split: sum.split)
    from flow [OF this] show ?thesis by (simp add: OpRenew delivers_def)
  next
    case (OpDeleteSession sid)
    with delete_accounted [OF assms(2), of sid] show ?thesis by (simp add: hub_step_def delivers_def)
  next
    case (OpGetMessage sid)
    with poll_accounted [OF assms(2), of sid] show ?thesis by (simp add: hub_step_def delivers_def)
  qed (use assms create_accounted poll_accounted delete_accounted submit_accounted in \<open>simp add: hub_step_def delivers_def\<close>,
    simp_all add: hub_step_def delivers_def create_accounted poll_accounted delete_accounted submit_accounted assms
      flow [OF fl.cancel_request] flow [OF fl.complete_request] flow [OF fl.finish_job] flow [OF fl.tick, unfolded hub_step_def hub_op.case])
qed

lemma run_accounted:
  assumes "inj (hw_uuid w)" "sessions_ok w st"
  shows "hb_NextMsg st \<le> hb_NextMsg (hub_run w parse limit ops st) \<and>
    ids (deliveries w parse limit ops st) + ids (in_flight (hub_run w parse limit ops st))
      \<subseteq># ids (in_flight st) + mset [hb_NextMsg st..hb_NextMsg (hub_run w parse limit ops st) - 1] \<and>
    (list_all lossless ops \<longrightarrow>
      ids (deliveries w parse limit ops st) + ids (in_flight (hub_run w parse limit ops st)) =
        ids (in_flight st) + mset [hb_NextMsg st..hb_NextMsg (hub_run w parse limit ops st) - 1])"
  using assms(2)
proof (induction ops arbitrary: st)
  case Nil
  then show ?case by (simp add: hub_run_def ids_def)
next
  case (Cons op ops)
  let ?st = "hub_step w parse limit st op"
  have step: "sessions_ok w ?st" "accounted op st (delivers st op) ?st" using hub_step_accounted [OF assms(1) Cons.prems] by simp_all
  have run: "hub_run w parse limit (op # ops) st = hub_run w parse limit ops ?st" by (simp add: hub_run_def)
  let ?d = "ids (deliveries w parse limit ops ?st)" and ?f = "ids (in_flight (hub_run w parse limit ops ?st))"
    and ?dop = "ids (delivers st op)" and ?fop = "ids (in_flight ?st)" and ?e = "hb_NextMsg (hub_run w parse limit ops ?st)"
  note IH = Cons.IH [OF step(1)]
  have split: "mset [hb_NextMsg st..hb_NextMsg ?st - 1] + mset [hb_NextMsg ?st..?e - 1] = mset [hb_NextMsg st..?e - 1]"
    by (rule upto_split) (use step(2) IH in \<open>simp_all add: accounted_def\<close>)
  have "?dop + (?d + ?f) \<subseteq># ?dop + (?fop + mset [hb_NextMsg ?st..?e - 1])"
    by (rule subset_mset.add_left_mono [OF conjunct1 [OF conjunct2 [OF IH]]])
  also have "\<dots> = (?dop + ?fop) + mset [hb_NextMsg ?st..?e - 1]" by (simp only: add.assoc)
  also have "\<dots> \<subseteq># (ids (in_flight st) + mset [hb_NextMsg st..hb_NextMsg ?st - 1]) + mset [hb_NextMsg ?st..?e - 1]"
    by (rule subset_mset.add_right_mono) (use step(2) in \<open>simp only: accounted_def\<close>)
  also have "\<dots> = ids (in_flight st) + mset [hb_NextMsg st..?e - 1]" by (simp only: add.assoc split)
  finally have sub: "?dop + (?d + ?f) \<subseteq># ids (in_flight st) + mset [hb_NextMsg st..?e - 1]" .
  have eq: "?dop + (?d + ?f) = ids (in_flight st) + mset [hb_NextMsg st..?e - 1]" if "list_all lossless (op # ops)"
    using that IH step(2) by (simp add: accounted_def) (metis add.assoc split)
  have ids: "ids (deliveries w parse limit (op # ops) st) + ?f = ?dop + (?d + ?f)" by (simp add: ids_def add.assoc)
  have "hb_NextMsg st \<le> ?e" by (rule order_trans [OF _ conjunct1 [OF IH]]) (use step(2) in \<open>simp add: accounted_def\<close>)
  with sub eq show ?case unfolding run ids by blast
qed

lemma fresh_hub: "sessions_ok w NewHub" "in_flight NewHub = {#}" "hb_NextMsg NewHub = 1"
  by (simp_all add: sessions_ok_def NewHub_def in_flight_def)

text \<open>C12: No message is handed out twice, or handed out and still queued.\<close>

theorem no_message_delivered_twice:
  assumes "inj (hw_uuid w)"
  shows "count (ids (deliveries w parse limit ops NewHub + in_flight (hub_run w parse limit ops NewHub))) m \<le> 1"
proof -
  have "ids (deliveries w parse limit ops NewHub + in_flight (hub_run w parse limit ops NewHub)) \<subseteq>#
      mset [1..hb_NextMsg (hub_run w parse limit ops NewHub) - 1]"
    using run_accounted [OF assms fresh_hub(1), of parse limit ops] by (simp add: fresh_hub ids_def)
  then have "count (ids (deliveries w parse limit ops NewHub + in_flight (hub_run w parse limit ops NewHub))) m \<le>
      count (mset [1..hb_NextMsg (hub_run w parse limit ops NewHub) - 1]) m" by (rule mset_subset_eq_count)
  also have "\<dots> \<le> 1" by (simp add: distinct_count_atmost_1 [THEN iffD1, OF distinct_upto, rule_format])
  finally show ?thesis .
qed

theorem no_message_delivered_twice_witness:
  "count (ids (deliveries demo demo_parse 0 [demo_submit ''chain'', OpCreateSession ''r'', OpGetMessage ''uuuuu''] NewHub +
     in_flight (demo_run [demo_submit ''chain'', OpCreateSession ''r'', OpGetMessage ''uuuuu'']))) 1 \<le> 1"
  unfolding demo_run_def by (rule no_message_delivered_twice [OF demo_inj])

text \<open>
  C13: In a history without a deleted session and without a single job, every message the hub numbered was handed
  out or is queued.
\<close>

theorem no_message_lost:
  assumes "inj (hw_uuid w)" "list_all lossless ops"
  shows "ids (deliveries w parse limit ops NewHub + in_flight (hub_run w parse limit ops NewHub)) =
    mset [1..hb_NextMsg (hub_run w parse limit ops NewHub) - 1]"
  using run_accounted [OF assms(1) fresh_hub(1), of parse limit ops] assms(2) by (simp add: fresh_hub ids_def)

theorem no_message_lost_witness:
  "ids (deliveries demo demo_parse 0 [demo_submit ''chain'', OpCreateSession ''r'', OpGetMessage ''uuuuu''] NewHub +
     in_flight (demo_run [demo_submit ''chain'', OpCreateSession ''r'', OpGetMessage ''uuuuu''])) =
   mset [1..hb_NextMsg (demo_run [demo_submit ''chain'', OpCreateSession ''r'', OpGetMessage ''uuuuu'']) - 1]"
  unfolding demo_run_def by (rule no_message_lost [OF demo_inj]) (simp add: lossless_def demo_submit_def)

lemma full_try: "(\<And>k s. mget (hb_Sessions st) k = Some s \<Longrightarrow> 10 \<le> length (se_MsgCh s)) \<Longrightarrow> try_sessions ks is msg st = (st, False)"
proof (induction ks "is" msg st rule: try_sessions.induct)
  case (2 ks i "is" msg st)
  have "push_message ident msg st = None" for ident
    using 2(2) [of ident] by (auto simp: push_message_def split: option.split)
  with 2 show ?case by (simp add: Let_def)
qed simp

text \<open>A single job that finds every queue full is stored as queued, and its message is gone.\<close>

theorem job_without_room_is_dropped:
  assumes "\<forall>(k, s) \<in> set (hb_Sessions st). 10 \<le> length (se_MsgCh s)" "handleSubmitJob w st = (st', jobID)"
  shows "in_flight st' = in_flight st \<and> (\<exists>job. mget (hb_Jobs st') jobID = Some job \<and> jb_Status job = ''queued'')"
proof -
  obtain st1 msg where post: "post_job w (hw_uuid w (hb_uuids st)) ''test'' (fst (uuid_New w st)) = (st1, msg)"
    and res: "fst (handleSubmitJob w st) = fst (sendMessageToAgent msg st1)" by (rule submit_job_send)
  note p = post_job_frame [OF post]
  have full: "10 \<le> length (se_MsgCh s)" if "mget (hb_Sessions st1) k = Some s" for k s
    using assms(1) mget_Some_in_set [OF that] p(1) by (auto simp: uuid_New_def)
  have "sendMessageToAgent msg st1 = (st1, False)" by (simp add: sendMessageToAgent_def Let_def full_try [OF full])
  with res assms(2) have st': "st' = st1" by simp
  have "jobID = hw_uuid w (hb_uuids st)" using assms(2) by (auto simp: handleSubmitJob_def uuid_New_def split_beta)
  with p show ?thesis by (auto simp: st' in_flight_def uuid_New_def)
qed

theorem job_without_room_is_dropped_witness:
  "in_flight (fst (handleSubmitJob demo NewHub)) = in_flight NewHub \<and>
   (\<exists>job. mget (hb_Jobs (fst (handleSubmitJob demo NewHub))) (snd (handleSubmitJob demo NewHub)) = Some job \<and> jb_Status job = ''queued'')"
  by (rule job_without_room_is_dropped [OF _ surjective_pairing]) (simp add: NewHub_def)

end
