(* ===== verification/WorkflowBehaviour.thy ===== *)
theory WorkflowBehaviour
  imports Concurrency Messages
begin

text \<open>
  What single operations of the workflow engine do, and where they fall short: fail-fast, cancellation,
  timeouts, and reports that come twice or late.
\<close>

section \<open>Fail-fast\<close>

lemma get_mark: "mget (wo_Jobs (mark_jobs sel status result a)) k =
  map_option (\<lambda>j. if sel k j then j\<lparr>wj_Status := status, wj_Result := result\<rparr> else j) (mget (wo_Jobs a) k)"
  unfolding mark_jobs_def jobs_map by (rule mget_map_jobs)

text \<open>A failure in a matrix that fails fast leaves no job of the group pending or queued.\<close>

theorem fail_fast_finishes_group:
  assumes "shape wfl" "mget (wo_Jobs wfl) key = Some j" "normalizeResult result = ''failure''" "wj_MatrixGroup j \<noteq> []"
    and "FailFast (wj_Def j)" "mget (wo_Jobs (complete_job key result wfl)) k = Some s" "wj_MatrixGroup s = wj_MatrixGroup j"
  shows "is_final s \<and> (k \<noteq> key \<longrightarrow> mget (wo_Jobs wfl) k = Some s \<or> wj_Result s = ''cancelled'')"
proof -
  have keyed: "keyed wfl" using assms(1) by (simp add: shape_def)
  obtain s0 where s0: "mget (wo_Jobs wfl) k = Some s0"
    and s: "s = (let t = if k = key then s0\<lparr>wj_Status := ''completed'', wj_Result := ''failure''\<rparr> else s0 in
                 if siblings_to_cancel j k t then t\<lparr>wj_Status := ''completed'', wj_Result := ''cancelled''\<rparr> else t)"
    using assms(2-6) by (auto simp: complete_job_def Let_def get_mark)
  have known: "known_status s0" using assms(1) mget_Some_in_set [OF s0] by (auto simp: shape_def)
  have keys: "wj_Key s0 = k" "wj_Key j = key"
    using keyedD [OF keyed mget_Some_in_set [OF s0]] keyedD [OF keyed mget_Some_in_set [OF assms(2)]] by simp_all
  have grp: "wj_MatrixGroup s0 = wj_MatrixGroup j" using assms(7) s by (auto simp: Let_def split: if_splits)
  show ?thesis
  proof (cases "k = key")
    case True
    then show ?thesis using s keys by (simp add: siblings_to_cancel_def is_final_def)
  next
    case False
    then show ?thesis
      using s s0 keys grp known by (auto simp: siblings_to_cancel_def is_final_def known_status_def Let_def)
  qed
qed

theorem fail_fast_finishes_group_witness:
  "\<exists>s. mget (wo_Jobs (complete_job ''m_0'' ''Failed'' (demo_workflow [demo_submit ''matrix''] []))) ''m_1'' = Some s \<and> is_final s"
proof -
  let ?wfl = "demo_workflow [demo_submit ''matrix''] []"
  have get: "\<not> Option.is_none (mget (hb_Workflows (demo_run [demo_submit ''matrix''])) [])" by code_simp
  have shape: "shape ?wfl" by (rule shape.always [OF demo_get [OF get]])
  have "(case mget (wo_Jobs ?wfl) ''m_0'' of None \<Rightarrow> False | Some j \<Rightarrow> wj_MatrixGroup j = ''m'' \<and> FailFast (wj_Def j))" by code_simp
  then obtain j where j: "mget (wo_Jobs ?wfl) ''m_0'' = Some j" "wj_MatrixGroup j = ''m''" "FailFast (wj_Def j)" by (auto split: option.splits)
  have "(case mget (wo_Jobs (complete_job ''m_0'' ''Failed'' ?wfl)) ''m_1'' of None \<Rightarrow> False | Some s \<Rightarrow> wj_MatrixGroup s = ''m'')" by code_simp
  then obtain s where s: "mget (wo_Jobs (complete_job ''m_0'' ''Failed'' ?wfl)) ''m_1'' = Some s" "wj_MatrixGroup s = ''m''" by (auto split: option.splits)
  have "normalizeResult ''Failed'' = ''failure''" by (simp add: normalizeResult_def)
  from fail_fast_finishes_group [OF shape j(1) this _ j(3) s(1)] j(2) s show ?thesis by simp
qed

section \<open>Reports\<close>

text \<open>
  A runner ends a job with \<open>FinishJob\<close> and then deletes its request, and the code takes each for a completion.
  With three workflows in one group the second report starts the third while the second runs.
\<close>

theorem second_report_breaks_group:
  "demo_statuses [demo_submit ''group'', demo_submit ''group'', demo_submit ''group'', OpFinish ''uu'' []] =
     [''completed'', ''running'', ''pending_concurrency''] \<and>
   demo_statuses [demo_submit ''group'', demo_submit ''group'', demo_submit ''group'', OpFinish ''uu'' [], OpComplete ''1'' ''succeeded''] =
     [''completed'', ''running'', ''running'']"
  by code_simp

text \<open>A report that arrives after a cancellation turns the cancelled workflow into a success.\<close>

theorem late_report_undoes_cancellation:
  "wo_Result (demo_workflow [demo_submit ''group'', OpCancelWorkflow []] []) = ''cancelled'' \<and>
   wo_Result (demo_workflow [demo_submit ''group'', OpCancelWorkflow [], OpComplete ''1'' ''succeeded''] []) = ''success''"
  by code_simp

section \<open>Cancellation and timeouts\<close>

text \<open>Cancelling a workflow changes no other: the one queued behind it stays pending although its group is idle.\<close>

theorem cancel_starts_no_pending:
  assumes "i' \<noteq> i"
  shows "mget (hb_Workflows (fst (handleCancelWorkflow i st))) i' = mget (hb_Workflows st) i'"
  using assms by (simp add: handleCancelWorkflow_def cancelWorkflow_def get_upd split: option.split)

theorem cancel_starts_no_pending_witness:
  "demo_statuses [demo_submit ''group'', demo_submit ''group'', OpCancelWorkflow []] = [''completed'', ''pending_concurrency''] \<and>
   mget (hb_Workflows (fst (handleCancelWorkflow [] (demo_run [demo_submit ''group'', demo_submit ''group''])))) ''uuuu'' =
     mget (hb_Workflows (demo_run [demo_submit ''group'', demo_submit ''group''])) ''uuuu''"
proof
  show "demo_statuses [demo_submit ''group'', demo_submit ''group'', OpCancelWorkflow []] = [''completed'', ''pending_concurrency'']"
    by code_simp
qed (rule cancel_starts_no_pending, simp)

text \<open>
  A tick of the timeout watcher never completes a workflow: when the last job times out, all jobs are done
  and the workflow runs on, and its group stays taken.
\<close>

theorem timeout_never_completes:
  "(\<forall>w parse limit st i i'. status_of (hub_step w parse limit st (OpTick i)) i' = status_of st i') \<and>
   all_done (demo_workflow [demo_submit ''group'', OpTick []] []) \<and>
   wo_Status (demo_workflow [demo_submit ''group'', OpTick []] []) = ''running'' \<and>
   demo_statuses [demo_submit ''group'', OpTick [], demo_submit ''group''] = [''running'', ''pending_concurrency'']"
proof (intro conjI allI)
  show "status_of (hub_step w parse limit st (OpTick i)) i' = status_of st i'" for w parse limit st i i'
    by (simp add: hub_step_def status_timeouts split: option.split)
qed code_simp+

end
