(* ===== verification/Credentials.thy ===== *)
theory Credentials
  imports Prelude
begin

text \<open>
  Apps, installations and the tokens that authenticate requests (\<open>gh_apps_store.go\<close>, \<open>gh_apps_user_tokens.go\<close>, the tokens and codes
  of \<open>store.go\<close> and \<open>gh_oauth.go\<close>). The operations are given the reading of the clock they take and the random values they draw;
  an RSA key is the text of its PEM block.
\<close>

section \<open>Data\<close>

record Token =
  tk_Value :: string
  tk_UserID :: int
  tk_Scopes :: string
  tk_CreatedAt :: int

record DeviceCode =
  dc_Code :: string
  dc_UserCode :: string
  dc_Scopes :: string
  dc_Token :: string
  dc_UserID :: int
  dc_ExpiresAt :: int

record authCode =
  ac_Code :: string
  ac_ClientID :: string
  ac_RedirectURI :: string
  ac_Scopes :: string
  ac_State :: string
  ac_UserID :: int
  ac_CreatedAt :: int
  ac_ExpiresAt :: int

record App =
  ap_ID :: int
  ap_NodeID :: string
  ap_Slug :: string
  ap_Name :: string
  ap_ClientID :: string
  ap_ClientSecret :: string
  ap_Description :: string
  ap_ExternalURL :: string
  ap_WebhookURL :: string
  ap_WebhookSecret :: string
  ap_WebhookActive :: bool
  ap_WebhookEvents :: "string list"
  ap_PEMPrivateKey :: string
  ap_Permissions :: "string gomap option"
  ap_Events :: "string list option"
  ap_OwnerID :: int
  ap_CreatedAt :: int
  ap_UpdatedAt :: int

text \<open>The user who suspended an installation is kept as login, identifier and type.\<close>

record Installation =
  in_ID :: int
  in_AppID :: int
  in_AppSlug :: string
  in_TargetType :: string
  in_TargetID :: int
  in_TargetLogin :: string
  in_Permissions :: "string gomap option"
  in_Events :: "string list option"
  in_RepositorySelection :: string
  in_SelectedRepoIDs :: "int list"
  in_SuspendedAt :: "int option"
  in_SuspendedBy :: "(string \<times> int \<times> string) option"
  in_SingleFileName :: string
  in_CreatedAt :: int
  in_UpdatedAt :: int

record InstallationToken =
  it_Token :: string
  it_ExpiresAt :: int
  it_Permissions :: "string gomap option"
  it_RepositoryIDs :: "int list"
  it_InstallationID :: int
  it_AppID :: int

record OAuthApp =
  oa_ClientID :: string
  oa_ClientSecret :: string
  oa_Name :: string
  oa_Description :: string
  oa_URL :: string
  oa_CallbackURL :: string
  oa_OwnerID :: int
  oa_CreatedAt :: int
  oa_UpdatedAt :: int

record UserToServerToken =
  ut_Token :: string
  ut_UserID :: int
  ut_AppID :: int
  ut_OAuthAppClientID :: string
  ut_Scopes :: string
  ut_InstallationIDs :: "int list"
  ut_ExpiresAt :: int
  ut_RefreshTokenValue :: string
  ut_CreatedAt :: int

record RefreshToken =
  rt_Token :: string
  rt_UserID :: int
  rt_AppID :: int
  rt_OAuthAppClientID :: string
  rt_Scopes :: string
  rt_ExpiresAt :: int
  rt_CreatedAt :: int

record Vault =
  va_Tokens :: "Token gomap"
  va_DeviceCodes :: "DeviceCode gomap"
  va_AuthCodes :: "authCode gomap"
  va_Apps :: "(int \<times> App) list"
  va_AppsBySlug :: "int gomap"
  va_AppsByClientID :: "int gomap"
  va_OAuthApps :: "OAuthApp gomap"
  va_Installations :: "(int \<times> Installation) list"
  va_InstallationTokens :: "InstallationToken gomap"
  va_UserToServerTokens :: "UserToServerToken gomap"
  va_RefreshTokens :: "RefreshToken gomap"
  va_ManifestCodes :: "int gomap"
  va_NextAppID :: int
  va_NextInstallationID :: int

definition NewVault :: Vault where
  "NewVault = \<lparr>va_Tokens = [], va_DeviceCodes = [], va_AuthCodes = [], va_Apps = [], va_AppsBySlug = [], va_AppsByClientID = [],
     va_OAuthApps = [], va_Installations = [], va_InstallationTokens = [], va_UserToServerTokens = [], va_RefreshTokens = [],
     va_ManifestCodes = [], va_NextAppID = 1, va_NextInstallationID = 1\<rparr>"

abbreviation second :: int where "second \<equiv> 1000000000"
abbreviation hour :: int where "hour \<equiv> 3600 * second"

section \<open>Personal tokens, device codes and authorization codes\<close>

text \<open>\<open>rnd\<close> is the hexadecimal text of the random bytes drawn.\<close>

definition createTokenLocked :: "int \<Rightarrow> string \<Rightarrow> int \<Rightarrow> string \<Rightarrow> Vault \<Rightarrow> Vault \<times> Token" where
  "createTokenLocked now rnd userID scopes v =
     (let t = \<lparr>tk_Value = ''ghp_'' @ rnd, tk_UserID = userID, tk_Scopes = scopes, tk_CreatedAt = now\<rparr>
      in (v\<lparr>va_Tokens := mput (tk_Value t) t (va_Tokens v)\<rparr>, t))"

definition issue_device_code :: "int \<Rightarrow> string \<Rightarrow> string \<Rightarrow> int \<Rightarrow> string \<Rightarrow> Vault \<Rightarrow> Vault \<times> DeviceCode" where
  "issue_device_code now rnd uuid adminID scope v =
     (let (v, token) = createTokenLocked now rnd adminID ''repo, read:org, gist'' v;
          dc = \<lparr>dc_Code = uuid, dc_UserCode = ''BLEE-PHUB'', dc_Scopes = scope, dc_Token = tk_Value token, dc_UserID = adminID,
                dc_ExpiresAt = now + 900 * second\<rparr>
      in (v\<lparr>va_DeviceCodes := mput uuid dc (va_DeviceCodes v)\<rparr>, dc))"

text \<open>The token a device code is exchanged for; \<open>None\<close> is \<open>bad_verification_code\<close>.\<close>

definition device_token :: "string \<Rightarrow> Vault \<Rightarrow> string option" where
  "device_token deviceCode v = map_option dc_Token (mget (va_DeviceCodes v) deviceCode)"

definition issue_auth_code :: "int \<Rightarrow> string \<Rightarrow> int \<Rightarrow> string \<Rightarrow> string \<Rightarrow> string \<Rightarrow> string \<Rightarrow> Vault \<Rightarrow> Vault" where
  "issue_auth_code now code userID clientID redirectURI scopes state v =
     v\<lparr>va_AuthCodes := mput code
         \<lparr>ac_Code = code, ac_ClientID = clientID, ac_RedirectURI = redirectURI, ac_Scopes = (if scopes = [] then ''repo read:org gist'' else scopes),
          ac_State = state, ac_UserID = userID, ac_CreatedAt = now, ac_ExpiresAt = now + 600 * second\<rparr> (va_AuthCodes v)\<rparr>"

datatype oauth_error = bad_verification_code | incorrect_client_credentials | server_error

text \<open>The exchange of an authorization code: the code is spent whatever the answer. \<open>known\<close> tells which users exist.\<close>

definition handleWebFlowTokenForm ::
  "int \<Rightarrow> string \<Rightarrow> (int \<Rightarrow> bool) \<Rightarrow> string \<Rightarrow> string \<Rightarrow> Vault \<Rightarrow> Vault \<times> (oauth_error + Token)" where
  "handleWebFlowTokenForm now rnd known code clientID v =
     (case mget (va_AuthCodes v) code of
        None \<Rightarrow> (v, Inl bad_verification_code)
      | Some ac \<Rightarrow>
          let v = v\<lparr>va_AuthCodes := mdel code (va_AuthCodes v)\<rparr> in
          if ac_ExpiresAt ac < now then (v, Inl bad_verification_code)
          else if clientID \<noteq> [] \<and> ac_ClientID ac \<noteq> [] \<and> clientID \<noteq> ac_ClientID ac then (v, Inl incorrect_client_credentials)
          else if \<not> known (ac_UserID ac) then (v, Inl server_error)
          else let (v, tok) = createTokenLocked now rnd (ac_UserID ac) (ac_Scopes ac) v in (v, Inr tok))"

section \<open>Apps\<close>

text \<open>\<open>%08d\<close> of a positive number.\<close>

definition pad8 :: "int \<Rightarrow> string" where
  "pad8 n = replicate (8 - length (Itoa n)) CHR ''0'' @ Itoa n"

definition slugify :: "string \<Rightarrow> string" where
  "slugify name = map (\<lambda>c. if c = CHR '' '' then CHR ''-'' else c) (ToLower name)"

definition hex016 :: "int \<Rightarrow> string" where
  "hex016 n = (let s = hex_digits (nat n) in replicate (16 - length s) CHR ''0'' @ s)"

definition CreateApp ::
  "int \<Rightarrow> string \<Rightarrow> string \<Rightarrow> string \<Rightarrow> int \<Rightarrow> string \<Rightarrow> string \<Rightarrow> string gomap option \<Rightarrow> string list option \<Rightarrow> Vault \<Rightarrow> Vault \<times> App" where
  "CreateApp now secret wsecret privPEM ownerID name description perms events v =
     (let i = va_NextAppID v;
          slug = slugify name;
          app = \<lparr>ap_ID = i, ap_NodeID = ''A_kgDO'' @ pad8 i, ap_Slug = slug, ap_Name = name, ap_ClientID = ''Iv1.'' @ hex016 i, ap_ClientSecret = secret,
                 ap_Description = description, ap_ExternalURL = ''https://github.com/apps/'' @ slug, ap_WebhookURL = [],
                 ap_WebhookSecret = wsecret, ap_WebhookActive = True, ap_WebhookEvents = [], ap_PEMPrivateKey = privPEM,
                 ap_Permissions = perms, ap_Events = events, ap_OwnerID = ownerID, ap_CreatedAt = now, ap_UpdatedAt = now\<rparr>
      in (v\<lparr>va_NextAppID := i + 1, va_Apps := mput i app (va_Apps v), va_AppsBySlug := mput slug i (va_AppsBySlug v),
            va_AppsByClientID := mput (ap_ClientID app) i (va_AppsByClientID v)\<rparr>, app))"

definition UpdateAppHookConfig :: "int \<Rightarrow> int \<Rightarrow> (App \<Rightarrow> App) \<Rightarrow> Vault \<Rightarrow> Vault \<times> bool" where
  "UpdateAppHookConfig now appID fn v =
     (case mget (va_Apps v) appID of
        None \<Rightarrow> (v, False)
      | Some app \<Rightarrow> (v\<lparr>va_Apps := mput appID ((fn app)\<lparr>ap_UpdatedAt := now\<rparr>) (va_Apps v)\<rparr>, True))"

definition GetApp :: "int \<Rightarrow> Vault \<Rightarrow> App option" where
  "GetApp i v = mget (va_Apps v) i"

definition GetAppBySlug :: "string \<Rightarrow> Vault \<Rightarrow> App option" where
  "GetAppBySlug slug v = Option.bind (mget (va_AppsBySlug v) slug) (mget (va_Apps v))"

definition GetAppByClientID :: "string \<Rightarrow> Vault \<Rightarrow> App option" where
  "GetAppByClientID clientID v = Option.bind (mget (va_AppsByClientID v) clientID) (mget (va_Apps v))"

section \<open>Installations\<close>

definition CreateInstallation ::
  "int \<Rightarrow> int \<Rightarrow> string \<Rightarrow> int \<Rightarrow> string \<Rightarrow> string gomap option \<Rightarrow> string list option \<Rightarrow> Vault \<Rightarrow> Vault \<times> Installation option" where
  "CreateInstallation now appID targetType targetID targetLogin perms events v =
     (case mget (va_Apps v) appID of
        None \<Rightarrow> (v, None)
      | Some app \<Rightarrow>
          let i = va_NextInstallationID v;
              inst = \<lparr>in_ID = i, in_AppID = appID, in_AppSlug = ap_Slug app, in_TargetType = targetType, in_TargetID = targetID,
                      in_TargetLogin = targetLogin, in_Permissions = perms, in_Events = events, in_RepositorySelection = ''all'',
                      in_SelectedRepoIDs = [], in_SuspendedAt = None, in_SuspendedBy = None, in_SingleFileName = [],
                      in_CreatedAt = now, in_UpdatedAt = now\<rparr>
          in (v\<lparr>va_NextInstallationID := i + 1, va_Installations := mput i inst (va_Installations v)\<rparr>, Some inst))"

definition GetInstallation :: "int \<Rightarrow> Vault \<Rightarrow> Installation option" where
  "GetInstallation i v = mget (va_Installations v) i"

definition ListAppInstallations :: "int \<Rightarrow> Vault \<Rightarrow> Installation list" where
  "ListAppInstallations appID v = filter (\<lambda>inst. in_AppID inst = appID) (map snd (va_Installations v))"

definition GetRepoInstallation :: "string \<Rightarrow> Vault \<Rightarrow> Installation option" where
  "GetRepoInstallation ownerLogin v = find (\<lambda>inst. in_TargetLogin inst = ownerLogin) (map snd (va_Installations v))"

definition DeleteInstallation :: "int \<Rightarrow> Vault \<Rightarrow> Vault \<times> bool" where
  "DeleteInstallation i v =
     (if mget (va_Installations v) i = None then (v, False) else (v\<lparr>va_Installations := mdel i (va_Installations v)\<rparr>, True))"

definition put_installation :: "Installation \<Rightarrow> Vault \<Rightarrow> Vault" where
  "put_installation inst v = v\<lparr>va_Installations := mput (in_ID inst) inst (va_Installations v)\<rparr>"

definition SuspendInstallation :: "int \<Rightarrow> int \<Rightarrow> (string \<times> int \<times> string) option \<Rightarrow> Vault \<Rightarrow> Vault \<times> bool" where
  "SuspendInstallation now i user v =
     (case mget (va_Installations v) i of
        None \<Rightarrow> (v, False)
      | Some inst \<Rightarrow>
          if in_SuspendedAt inst \<noteq> None then (v, False)
          else (put_installation (inst\<lparr>in_SuspendedAt := Some now, in_SuspendedBy := user, in_UpdatedAt := now\<rparr>) v, True))"

definition UnsuspendInstallation :: "int \<Rightarrow> int \<Rightarrow> Vault \<Rightarrow> Vault \<times> bool" where
  "UnsuspendInstallation now i v =
     (case mget (va_Installations v) i of
        None \<Rightarrow> (v, False)
      | Some inst \<Rightarrow>
          if in_SuspendedAt inst = None then (v, False)
          else (put_installation (inst\<lparr>in_SuspendedAt := None, in_SuspendedBy := None, in_UpdatedAt := now\<rparr>) v, True))"

definition SetInstallationRepositorySelection :: "int \<Rightarrow> int \<Rightarrow> string \<Rightarrow> int list \<Rightarrow> Vault \<Rightarrow> Vault \<times> bool" where
  "SetInstallationRepositorySelection now i mode repoIDs v =
     (case mget (va_Installations v) i of
        None \<Rightarrow> (v, False)
      | Some inst \<Rightarrow>
          (put_installation (inst\<lparr>in_RepositorySelection := mode, in_SelectedRepoIDs := (if mode = ''selected'' then repoIDs else []),
             in_UpdatedAt := now\<rparr>) v, True))"

text \<open>The two flags: whether the set changed, whether the installation exists.\<close>

definition AddInstallationRepo :: "int \<Rightarrow> int \<Rightarrow> int \<Rightarrow> Vault \<Rightarrow> Vault \<times> bool \<times> bool" where
  "AddInstallationRepo now i repoID v =
     (case mget (va_Installations v) i of
        None \<Rightarrow> (v, False, False)
      | Some inst \<Rightarrow>
          if repoID \<in> set (in_SelectedRepoIDs inst) then (v, False, True)
          else (put_installation (inst\<lparr>in_SelectedRepoIDs := in_SelectedRepoIDs inst @ [repoID], in_RepositorySelection := ''selected'',
                  in_UpdatedAt := now\<rparr>) v, True, True))"

definition RemoveInstallationRepo :: "int \<Rightarrow> int \<Rightarrow> int \<Rightarrow> Vault \<Rightarrow> Vault \<times> bool \<times> bool" where
  "RemoveInstallationRepo now i repoID v =
     (case mget (va_Installations v) i of
        None \<Rightarrow> (v, False, False)
      | Some inst \<Rightarrow>
          if repoID \<in> set (in_SelectedRepoIDs inst)
          then (put_installation (inst\<lparr>in_SelectedRepoIDs := remove1 repoID (in_SelectedRepoIDs inst), in_UpdatedAt := now\<rparr>) v, True, True)
          else (v, False, True))"

section \<open>OAuth apps\<close>

definition CreateOAuthApp :: "int \<Rightarrow> string \<Rightarrow> string \<Rightarrow> int \<Rightarrow> string \<Rightarrow> string \<Rightarrow> string \<Rightarrow> string \<Rightarrow> Vault \<Rightarrow> Vault \<times> OAuthApp" where
  "CreateOAuthApp now clientID secret ownerID name description url callbackURL v =
     (let app = \<lparr>oa_ClientID = clientID, oa_ClientSecret = secret, oa_Name = name, oa_Description = description, oa_URL = url,
                 oa_CallbackURL = callbackURL, oa_OwnerID = ownerID, oa_CreatedAt = now, oa_UpdatedAt = now\<rparr>
      in (v\<lparr>va_OAuthApps := mput clientID app (va_OAuthApps v)\<rparr>, app))"

definition GetOAuthApp :: "string \<Rightarrow> Vault \<Rightarrow> OAuthApp option" where
  "GetOAuthApp clientID v = mget (va_OAuthApps v) clientID"

definition ListOAuthApps :: "Vault \<Rightarrow> OAuthApp list" where
  "ListOAuthApps v = map snd (va_OAuthApps v)"

definition VerifyOAuthAppSecret :: "string \<Rightarrow> string \<Rightarrow> Vault \<Rightarrow> OAuthApp option" where
  "VerifyOAuthAppSecret clientID clientSecret v =
     (case mget (va_OAuthApps v) clientID of Some app \<Rightarrow> if oa_ClientSecret app = clientSecret then Some app else None | None \<Rightarrow> None)"

definition VerifyAppClientSecret :: "string \<Rightarrow> string \<Rightarrow> Vault \<Rightarrow> App option" where
  "VerifyAppClientSecret clientID clientSecret v =
     (case GetAppByClientID clientID v of Some app \<Rightarrow> if ap_ClientSecret app = clientSecret then Some app else None | None \<Rightarrow> None)"

section \<open>Installation tokens\<close>

definition CreateInstallationToken :: "int \<Rightarrow> string \<Rightarrow> int \<Rightarrow> int \<Rightarrow> string gomap option \<Rightarrow> int list \<Rightarrow> Vault \<Rightarrow> Vault \<times> InstallationToken" where
  "CreateInstallationToken now rnd installationID appID perms repoIDs v =
     (let tok = \<lparr>it_Token = ''ghs_'' @ rnd, it_ExpiresAt = now + hour, it_Permissions = perms, it_RepositoryIDs = repoIDs,
                 it_InstallationID = installationID, it_AppID = appID\<rparr>
      in (v\<lparr>va_InstallationTokens := mput (it_Token tok) tok (va_InstallationTokens v)\<rparr>, tok))"

definition RevokeInstallationToken :: "string \<Rightarrow> Vault \<Rightarrow> Vault \<times> bool" where
  "RevokeInstallationToken tokenStr v =
     (if mget (va_InstallationTokens v) tokenStr = None then (v, False)
      else (v\<lparr>va_InstallationTokens := mdel tokenStr (va_InstallationTokens v)\<rparr>, True))"

definition LookupInstallationToken :: "int \<Rightarrow> string \<Rightarrow> Vault \<Rightarrow> (InstallationToken \<times> Installation option) option" where
  "LookupInstallationToken now tokenStr v =
     (case mget (va_InstallationTokens v) tokenStr of
        None \<Rightarrow> None
      | Some tok \<Rightarrow> if it_ExpiresAt tok < now then None else Some (tok, mget (va_Installations v) (it_InstallationID tok)))"

definition RegisterManifestCode :: "string \<Rightarrow> int \<Rightarrow> Vault \<Rightarrow> Vault" where
  "RegisterManifestCode code appID v = v\<lparr>va_ManifestCodes := mput code appID (va_ManifestCodes v)\<rparr>"

definition ConsumeManifestCode :: "string \<Rightarrow> Vault \<Rightarrow> Vault \<times> int option" where
  "ConsumeManifestCode code v =
     (case mget (va_ManifestCodes v) code of
        None \<Rightarrow> (v, None)
      | Some appID \<Rightarrow> (v\<lparr>va_ManifestCodes := mdel code (va_ManifestCodes v)\<rparr>, Some appID))"

section \<open>User-to-server tokens\<close>

definition createUserToServerTokenLocked ::
  "int \<Rightarrow> string \<Rightarrow> string \<Rightarrow> int \<Rightarrow> int \<Rightarrow> string \<Rightarrow> string \<Rightarrow> int \<Rightarrow> bool \<Rightarrow> Vault \<Rightarrow> Vault \<times> UserToServerToken \<times> RefreshToken option" where
  "createUserToServerTokenLocked now rnd rrnd userID appID oauthClientID scopes ttl withRefresh v =
     (let ttl = (if ttl \<le> 0 then 8 * hour else ttl);
          tok = \<lparr>ut_Token = (if 0 < appID then ''ghu_'' else ''gho_'') @ rnd, ut_UserID = userID, ut_AppID = appID,
                 ut_OAuthAppClientID = oauthClientID, ut_Scopes = scopes, ut_InstallationIDs = [], ut_ExpiresAt = now + ttl,
                 ut_RefreshTokenValue = (if withRefresh then ''ghr_'' @ rrnd else []), ut_CreatedAt = now\<rparr>;
          rt = \<lparr>rt_Token = ''ghr_'' @ rrnd, rt_UserID = userID, rt_AppID = appID, rt_OAuthAppClientID = oauthClientID, rt_Scopes = scopes,
                rt_ExpiresAt = now + 6 * 30 * 24 * hour, rt_CreatedAt = now\<rparr>;
          v = (if withRefresh then v\<lparr>va_RefreshTokens := mput (rt_Token rt) rt (va_RefreshTokens v)\<rparr> else v)
      in (v\<lparr>va_UserToServerTokens := mput (ut_Token tok) tok (va_UserToServerTokens v)\<rparr>, tok, if withRefresh then Some rt else None))"

definition LookupUserToServerToken :: "int \<Rightarrow> string \<Rightarrow> Vault \<Rightarrow> UserToServerToken option" where
  "LookupUserToServerToken now tokenStr v =
     (case mget (va_UserToServerTokens v) tokenStr of
        None \<Rightarrow> None
      | Some tok \<Rightarrow> if ut_ExpiresAt tok < now then None else Some tok)"

definition RevokeUserToServerToken :: "string \<Rightarrow> Vault \<Rightarrow> Vault \<times> bool" where
  "RevokeUserToServerToken tokenStr v =
     (case mget (va_UserToServerTokens v) tokenStr of
        None \<Rightarrow> (v, False)
      | Some tok \<Rightarrow>
          let v = v\<lparr>va_UserToServerTokens := mdel tokenStr (va_UserToServerTokens v)\<rparr>
          in (if ut_RefreshTokenValue tok \<noteq> [] then v\<lparr>va_RefreshTokens := mdel (ut_RefreshTokenValue tok) (va_RefreshTokens v)\<rparr> else v, True))"

text \<open>The first token paired with the refresh token goes, then the refresh token, and a fresh pair is made.\<close>

definition RotateUserToServerToken ::
  "int \<Rightarrow> string \<Rightarrow> string \<Rightarrow> string \<Rightarrow> Vault \<Rightarrow> Vault \<times> (UserToServerToken \<times> RefreshToken option) option" where
  "RotateUserToServerToken now rnd rrnd refreshTokenStr v =
     (case mget (va_RefreshTokens v) refreshTokenStr of
        None \<Rightarrow> (v, None)
      | Some rt \<Rightarrow>
          if rt_ExpiresAt rt < now then (v, None)
          else
            let v = (case find (\<lambda>(_, t). ut_RefreshTokenValue t = refreshTokenStr) (va_UserToServerTokens v) of
                       Some (k, _) \<Rightarrow> v\<lparr>va_UserToServerTokens := mdel k (va_UserToServerTokens v)\<rparr> | None \<Rightarrow> v);
                v = v\<lparr>va_RefreshTokens := mdel refreshTokenStr (va_RefreshTokens v)\<rparr>;
                (v, pair) = createUserToServerTokenLocked now rnd rrnd (rt_UserID rt) (rt_AppID rt) (rt_OAuthAppClientID rt) (rt_Scopes rt) (8 * hour) True v
            in (v, Some pair))"

definition granted_to :: "string \<Rightarrow> int \<Rightarrow> Vault \<Rightarrow> UserToServerToken \<Rightarrow> bool" where
  "granted_to clientID userID v t \<longleftrightarrow>
     ut_UserID t = userID \<and>
     (ut_OAuthAppClientID t = clientID \<or>
      (0 < ut_AppID t \<and> (case GetAppByClientID clientID v of Some app \<Rightarrow> ap_ID app = ut_AppID t | None \<Rightarrow> False)))"

definition RevokeUserGrant :: "string \<Rightarrow> int \<Rightarrow> Vault \<Rightarrow> Vault \<times> nat" where
  "RevokeUserGrant clientID userID v =
     (let gone = filter (\<lambda>(_, t). granted_to clientID userID v t) (va_UserToServerTokens v);
          refresh = map (\<lambda>(_, t). ut_RefreshTokenValue t) gone
      in (v\<lparr>va_UserToServerTokens := filter (\<lambda>(_, t). \<not> granted_to clientID userID v t) (va_UserToServerTokens v),
            va_RefreshTokens := filter (\<lambda>(k, _). k = [] \<or> k \<notin> set refresh) (va_RefreshTokens v)\<rparr>, length gone))"

definition tokenMatchesClient :: "UserToServerToken \<Rightarrow> string \<Rightarrow> Vault \<Rightarrow> bool" where
  "tokenMatchesClient tok clientID v \<longleftrightarrow>
     (if ut_OAuthAppClientID tok \<noteq> [] then ut_OAuthAppClientID tok = clientID
      else 0 < ut_AppID tok \<and> (case GetAppByClientID clientID v of Some app \<Rightarrow> ap_ID app = ut_AppID tok | None \<Rightarrow> False))"
end
