(* ===== verification/ForgeStore.thy ===== *)
theory ForgeStore
  imports Credentials
begin

text \<open>
  The objects of the GitHub server \<open>bleephub\<close> and the operations of its \<open>Store\<close> on them: \<open>store_repos.go\<close>,
  \<open>store_orgs.go\<close>, \<open>store_issues.go\<close>, \<open>store_pulls.go\<close>, \<open>webhooks_store.go\<close> and the users of \<open>store.go\<close>.
  A pointer to an object is its identifier: two maps that hold the same \<open>*Repo\<close> (\<open>Repos\<close> and \<open>ReposByName\<close>), or the
  same \<open>*Team\<close>, become a table of objects and an index of identifiers, so that an update through one is seen through the
  other. Each operation takes its lock once and is one step. The database behind the store is absent (\<open>persist\<close> nil).
\<close>

section \<open>Objects\<close>

record User =
  us_ID :: int
  us_NodeID :: string
  us_Login :: string
  us_Name :: string
  us_Email :: string
  us_AvatarURL :: string
  us_Bio :: string
  us_Type :: string
  us_SiteAdmin :: bool
  us_CreatedAt :: int
  us_UpdatedAt :: int

record Repo =
  re_ID :: int
  re_NodeID :: string
  re_Name :: string
  re_FullName :: string
  re_Description :: string
  re_DefaultBranch :: string
  re_Visibility :: string
  re_Language :: string
  re_Owner :: "User option"
  re_Private :: bool
  re_Fork :: bool
  re_Archived :: bool
  re_StargazersCount :: int
  re_Topics :: "string list"
  re_NextIssueNumber :: int
  re_NextMilestoneNumber :: int
  re_CreatedAt :: int
  re_UpdatedAt :: int
  re_PushedAt :: int

record Org =
  og_ID :: int
  og_NodeID :: string
  og_Login :: string
  og_Name :: string
  og_Description :: string
  og_Email :: string
  og_AvatarURL :: string
  og_Type :: string
  og_CreatedAt :: int
  og_UpdatedAt :: int

record Membership =
  mb_OrgID :: int
  mb_UserID :: int
  mb_Role :: string
  mb_State :: string

record Team =
  te_ID :: int
  te_NodeID :: string
  te_OrgID :: int
  te_Name :: string
  te_Slug :: string
  te_Description :: string
  te_Privacy :: string
  te_Permission :: string
  te_MemberIDs :: "int list"
  te_RepoNames :: "string list"
  te_CreatedAt :: int
  te_UpdatedAt :: int

record IssueLabel =
  lb_ID :: int
  lb_NodeID :: string
  lb_RepoID :: int
  lb_Name :: string
  lb_Description :: string
  lb_Color :: string
  lb_Default :: bool
  lb_CreatedAt :: int

record Milestone =
  mi_ID :: int
  mi_NodeID :: string
  mi_RepoID :: int
  mi_Number :: int
  mi_Title :: string
  mi_Description :: string
  mi_State :: string
  mi_DueOn :: "int option"
  mi_CreatedAt :: int
  mi_UpdatedAt :: int

record Issue =
  iu_ID :: int
  iu_NodeID :: string
  iu_Number :: int
  iu_RepoID :: int
  iu_Title :: string
  iu_Body :: string
  iu_State :: string
  iu_StateReason :: string
  iu_AuthorID :: int
  iu_AssigneeIDs :: "int list"
  iu_LabelIDs :: "int list"
  iu_MilestoneID :: int
  iu_Locked :: bool
  iu_ActiveLockReason :: string
  iu_CreatedAt :: int
  iu_UpdatedAt :: int
  iu_ClosedAt :: "int option"

record Comment =
  co_ID :: int
  co_NodeID :: string
  co_ParentType :: string
  co_IssueID :: int
  co_AuthorID :: int
  co_Body :: string
  co_CreatedAt :: int
  co_UpdatedAt :: int
  co_LastEditedAt :: "int option"
  co_EditorID :: int
  co_MinimizedReason :: string
  co_MinimizedByID :: int

record PullRequest =
  pu_ID :: int
  pu_NodeID :: string
  pu_Number :: int
  pu_RepoID :: int
  pu_Title :: string
  pu_Body :: string
  pu_State :: string
  pu_IsDraft :: bool
  pu_HeadRefName :: string
  pu_BaseRefName :: string
  pu_AuthorID :: int
  pu_AssigneeIDs :: "int list"
  pu_LabelIDs :: "int list"
  pu_MilestoneID :: int
  pu_Mergeable :: string
  pu_Additions :: int
  pu_Deletions :: int
  pu_ChangedFiles :: int
  pu_MergedByID :: int
  pu_Locked :: bool
  pu_ActiveLockReason :: string
  pu_CreatedAt :: int
  pu_UpdatedAt :: int
  pu_ClosedAt :: "int option"
  pu_MergedAt :: "int option"

record PullRequestReview =
  rv_ID :: int
  rv_NodeID :: string
  rv_PRID :: int
  rv_AuthorID :: int
  rv_State :: string
  rv_Body :: string
  rv_CreatedAt :: int
  rv_UpdatedAt :: int

record Webhook =
  hk_ID :: int
  hk_URL :: string
  hk_Secret :: string
  hk_Events :: "string list"
  hk_Active :: bool
  hk_RepoKey :: string
  hk_CreatedAt :: int
  hk_UpdatedAt :: int

text \<open>A delivery, without the headers and bodies exchanged. The duration is a decimal: mantissa and exponent of ten.\<close>

record WebhookDelivery =
  wd_ID :: int
  wd_HookID :: int
  wd_AppID :: int
  wd_InstallationID :: int
  wd_GUID :: string
  wd_Event :: string
  wd_Action :: string
  wd_StatusCode :: int
  wd_Duration :: "int \<times> int"
  wd_Redelivery :: bool
  wd_DeliveredAt :: int

text \<open>
  What a goroutine that was started has still to send: an event to a hook of a repository or to an app (with the
  installation it is about), or a recorded delivery once more.
\<close>

datatype outgoing =
    ToHook Webhook string string
  | ToApp App string string int
  | HookAgain Webhook WebhookDelivery
  | AppAgain App WebhookDelivery

section \<open>The store\<close>

text \<open>
  \<open>fg_Tick\<close> counts the readings of the clock, \<open>fg_Draws\<close> the random values. \<open>fg_Outbox\<close> holds the deliveries of webhooks that were
  started and have not run yet (the goroutines of \<open>emitWebhookEvent\<close> and its kin).
\<close>

record Forge =
  fg_Users :: "(int \<times> User) list"
  fg_UsersByLogin :: "int gomap"
  fg_Repos :: "(int \<times> Repo) list"
  fg_ReposByName :: "int gomap"
  fg_GitStorages :: "unit gomap"
  fg_Orgs :: "(int \<times> Org) list"
  fg_OrgsByLogin :: "int gomap"
  fg_Teams :: "(int \<times> Team) list"
  fg_TeamsBySlug :: "int gomap"
  fg_Memberships :: "Membership gomap"
  fg_Issues :: "(int \<times> Issue) list"
  fg_Labels :: "(int \<times> IssueLabel) list"
  fg_Milestones :: "(int \<times> Milestone) list"
  fg_Comments :: "(int \<times> Comment) list"
  fg_PullRequests :: "(int \<times> PullRequest) list"
  fg_PRReviews :: "(int \<times> PullRequestReview) list"
  fg_Hooks :: "Webhook list gomap"
  fg_HookDeliveries :: "(int \<times> WebhookDelivery list) list"
  fg_AppHookDeliveries :: "(int \<times> WebhookDelivery list) list"
  fg_Outbox :: "outgoing list"
  fg_Vault :: Vault
  fg_NextRepo :: int
  fg_NextOrg :: int
  fg_NextTeam :: int
  fg_NextIssue :: int
  fg_NextLabel :: int
  fg_NextMilestone :: int
  fg_NextComment :: int
  fg_NextPR :: int
  fg_NextPRReview :: int
  fg_NextHookID :: int
  fg_NextDeliveryID :: int
  fg_Tick :: nat
  fg_Draws :: nat

text \<open>
  The world: the n-th reading of the clock in nanoseconds, the RFC 3339 text of a time in the zone of the server, the
  hexadecimal SHA-256 of a text, the n-th random text drawn, and an address with parameters set in its query (\<open>net/url\<close>;
  \<open>None\<close> when the address does not parse).
\<close>

record ForgeWorld =
  fw_now :: "nat \<Rightarrow> int"
  fw_rfc3339 :: "int \<Rightarrow> string"
  fw_parse_time :: "string \<Rightarrow> int option"
  fw_sha256 :: "string \<Rightarrow> string"
  fw_random :: "nat \<Rightarrow> string"
  fw_with_query :: "string \<Rightarrow> (string \<times> string) list \<Rightarrow> string option"

definition NewForge :: Forge where
  "NewForge = \<lparr>fg_Users = [], fg_UsersByLogin = [], fg_Repos = [], fg_ReposByName = [], fg_GitStorages = [], fg_Orgs = [],
     fg_OrgsByLogin = [], fg_Teams = [], fg_TeamsBySlug = [], fg_Memberships = [], fg_Issues = [], fg_Labels = [],
     fg_Milestones = [], fg_Comments = [], fg_PullRequests = [], fg_PRReviews = [], fg_Hooks = [], fg_HookDeliveries = [], fg_AppHookDeliveries = [],
     fg_Outbox = [], fg_Vault = NewVault, fg_NextRepo = 1, fg_NextOrg = 1, fg_NextTeam = 1, fg_NextIssue = 1, fg_NextLabel = 1, fg_NextMilestone = 1,
     fg_NextComment = 1, fg_NextPR = 1, fg_NextPRReview = 1, fg_NextHookID = 1, fg_NextDeliveryID = 1, fg_Tick = 0, fg_Draws = 0\<rparr>"

definition clock :: "ForgeWorld \<Rightarrow> Forge \<Rightarrow> Forge \<times> int" where
  "clock w st = (st\<lparr>fg_Tick := Suc (fg_Tick st)\<rparr>, fw_now w (fg_Tick st))"

definition values_where :: "('v \<Rightarrow> bool) \<Rightarrow> ('k \<times> 'v) list \<Rightarrow> 'v list" where
  "values_where P m = filter P (map snd m)"

definition first_where :: "('v \<Rightarrow> bool) \<Rightarrow> ('k \<times> 'v) list \<Rightarrow> 'v option" where
  "first_where P m = find P (map snd m)"

definition draw :: "ForgeWorld \<Rightarrow> Forge \<Rightarrow> Forge \<times> string" where
  "draw w st = (st\<lparr>fg_Draws := Suc (fg_Draws st)\<rparr>, fw_random w (fg_Draws st))"

section \<open>Users\<close>

definition LookupUserByLogin :: "string \<Rightarrow> Forge \<Rightarrow> User option" where
  "LookupUserByLogin login st = Option.bind (mget (fg_UsersByLogin st) login) (mget (fg_Users st))"

section \<open>Repositories\<close>

definition new_repo :: "int \<Rightarrow> User \<Rightarrow> string \<Rightarrow> string \<Rightarrow> string \<Rightarrow> bool \<Rightarrow> int \<Rightarrow> Repo" where
  "new_repo i owner name fullName description private now =
     \<lparr>re_ID = i, re_NodeID = ''R_kgDO'' @ pad8 i, re_Name = name, re_FullName = fullName, re_Description = description,
      re_DefaultBranch = ''main'', re_Visibility = (if private then ''private'' else ''public''), re_Language = [], re_Owner = Some owner,
      re_Private = private, re_Fork = False, re_Archived = False, re_StargazersCount = 0, re_Topics = [],
      re_NextIssueNumber = 1, re_NextMilestoneNumber = 1, re_CreatedAt = now, re_UpdatedAt = now, re_PushedAt = now\<rparr>"

definition put_repo :: "Repo \<Rightarrow> Forge \<Rightarrow> Forge" where
  "put_repo repo st = st\<lparr>fg_NextRepo := fg_NextRepo st + 1, fg_Repos := mput (re_ID repo) repo (fg_Repos st),
     fg_ReposByName := mput (re_FullName repo) (re_ID repo) (fg_ReposByName st)\<rparr>"

definition CreateRepo :: "ForgeWorld \<Rightarrow> User \<Rightarrow> string \<Rightarrow> string \<Rightarrow> bool \<Rightarrow> Forge \<Rightarrow> Forge \<times> Repo option" where
  "CreateRepo w owner name description private st =
     (let fullName = us_Login owner @ ''/'' @ name in
      if mget (fg_ReposByName st) fullName \<noteq> None then (st, None)
      else
        let (st, now) = clock w st;
            repo = new_repo (fg_NextRepo st) owner name fullName description private now;
            st = put_repo repo st
        in (st\<lparr>fg_GitStorages := mput fullName () (fg_GitStorages st)\<rparr>, Some repo))"

definition CreateOrgRepo :: "ForgeWorld \<Rightarrow> Org \<Rightarrow> User \<Rightarrow> string \<Rightarrow> string \<Rightarrow> bool \<Rightarrow> Forge \<Rightarrow> Forge \<times> Repo option" where
  "CreateOrgRepo w org creator name description private st =
     (let fullName = og_Login org @ ''/'' @ name in
      if mget (fg_ReposByName st) fullName \<noteq> None then (st, None)
      else
        let (st, now) = clock w st;
            repo = new_repo (fg_NextRepo st) creator name fullName description private now
        in (put_repo repo st, Some repo))"

definition GetRepo :: "string \<Rightarrow> string \<Rightarrow> Forge \<Rightarrow> Repo option" where
  "GetRepo owner name st = Option.bind (mget (fg_ReposByName st) (owner @ ''/'' @ name)) (mget (fg_Repos st))"

definition upd_repo :: "int \<Rightarrow> (Repo \<Rightarrow> Repo) \<Rightarrow> Forge \<Rightarrow> Forge" where
  "upd_repo i f st = (case mget (fg_Repos st) i of Some r \<Rightarrow> st\<lparr>fg_Repos := mput i (f r) (fg_Repos st)\<rparr> | None \<Rightarrow> st)"

definition UpdateRepo :: "ForgeWorld \<Rightarrow> string \<Rightarrow> string \<Rightarrow> (Repo \<Rightarrow> Repo) \<Rightarrow> Forge \<Rightarrow> Forge \<times> bool" where
  "UpdateRepo w owner name fn st =
     (case mget (fg_ReposByName st) (owner @ ''/'' @ name) of
        None \<Rightarrow> (st, False)
      | Some i \<Rightarrow> let (st, now) = clock w st in (upd_repo i (\<lambda>r. (fn r)\<lparr>re_UpdatedAt := now\<rparr>) st, True))"

definition DeleteRepo :: "string \<Rightarrow> string \<Rightarrow> Forge \<Rightarrow> Forge \<times> bool" where
  "DeleteRepo owner name st =
     (let fullName = owner @ ''/'' @ name in
      case mget (fg_ReposByName st) fullName of
        None \<Rightarrow> (st, False)
      | Some i \<Rightarrow> (st\<lparr>fg_Repos := mdel i (fg_Repos st), fg_ReposByName := mdel fullName (fg_ReposByName st),
                     fg_GitStorages := mdel fullName (fg_GitStorages st)\<rparr>, True))"

definition ListReposByOwner :: "string \<Rightarrow> Forge \<Rightarrow> Repo list" where
  "ListReposByOwner login st =
     List.map_filter (\<lambda>(k, i). if HasPrefix k (login @ ''/'') then mget (fg_Repos st) i else None) (fg_ReposByName st)"

section \<open>Organizations, memberships and teams\<close>

definition membershipKey :: "string \<Rightarrow> int \<Rightarrow> string" where
  "membershipKey orgLogin userID = orgLogin @ ''/'' @ Itoa userID"

definition teamSlugKey :: "string \<Rightarrow> string \<Rightarrow> string" where
  "teamSlugKey orgLogin slug = orgLogin @ ''/'' @ slug"

definition CreateOrg :: "ForgeWorld \<Rightarrow> User \<Rightarrow> string \<Rightarrow> string \<Rightarrow> string \<Rightarrow> Forge \<Rightarrow> Forge \<times> Org option" where
  "CreateOrg w creator login name description st =
     (if mget (fg_OrgsByLogin st) login \<noteq> None then (st, None)
      else
        let (st, now) = clock w st;
            i = fg_NextOrg st;
            org = \<lparr>og_ID = i, og_NodeID = ''O_kgDO'' @ pad8 i, og_Login = login, og_Name = name, og_Description = description,
                   og_Email = [], og_AvatarURL = [], og_Type = ''Organization'', og_CreatedAt = now, og_UpdatedAt = now\<rparr>
        in (st\<lparr>fg_NextOrg := i + 1, fg_Orgs := mput i org (fg_Orgs st), fg_OrgsByLogin := mput login i (fg_OrgsByLogin st),
              fg_Memberships := mput (membershipKey login (us_ID creator))
                \<lparr>mb_OrgID = i, mb_UserID = us_ID creator, mb_Role = ''admin'', mb_State = ''active''\<rparr> (fg_Memberships st)\<rparr>, Some org))"

definition GetOrg :: "string \<Rightarrow> Forge \<Rightarrow> Org option" where
  "GetOrg login st = Option.bind (mget (fg_OrgsByLogin st) login) (mget (fg_Orgs st))"

definition UpdateOrg :: "ForgeWorld \<Rightarrow> string \<Rightarrow> (Org \<Rightarrow> Org) \<Rightarrow> Forge \<Rightarrow> Forge \<times> bool" where
  "UpdateOrg w login fn st =
     (case mget (fg_OrgsByLogin st) login of
        None \<Rightarrow> (st, False)
      | Some i \<Rightarrow>
          let (st, now) = clock w st in
          (case mget (fg_Orgs st) i of
             Some org \<Rightarrow> (st\<lparr>fg_Orgs := mput i ((fn org)\<lparr>og_UpdatedAt := now\<rparr>) (fg_Orgs st)\<rparr>, True)
           | None \<Rightarrow> (st, True)))"

definition DeleteOrg :: "string \<Rightarrow> Forge \<Rightarrow> Forge \<times> bool" where
  "DeleteOrg login st =
     (case mget (fg_OrgsByLogin st) login of
        None \<Rightarrow> (st, False)
      | Some i \<Rightarrow>
          let of_org = (\<lambda>t. case mget (fg_Teams st) t of Some team \<Rightarrow> te_OrgID team = i | None \<Rightarrow> False);
              gone = map snd (filter (\<lambda>(_, t). of_org t) (fg_TeamsBySlug st))
          in (st\<lparr>fg_Memberships := filter (\<lambda>(_, m). mb_OrgID m \<noteq> i) (fg_Memberships st),
                fg_Teams := filter (\<lambda>(t, _). t \<notin> set gone) (fg_Teams st),
                fg_TeamsBySlug := filter (\<lambda>(_, t). \<not> of_org t) (fg_TeamsBySlug st),
                fg_Orgs := mdel i (fg_Orgs st), fg_OrgsByLogin := mdel login (fg_OrgsByLogin st)\<rparr>, True))"

definition ListOrgsByUser :: "int \<Rightarrow> Forge \<Rightarrow> Org list" where
  "ListOrgsByUser userID st =
     List.map_filter (\<lambda>(_, m). if mb_UserID m = userID \<and> mb_State m = ''active'' then mget (fg_Orgs st) (mb_OrgID m) else None)
       (fg_Memberships st)"

definition SetMembership :: "string \<Rightarrow> int \<Rightarrow> string \<Rightarrow> Forge \<Rightarrow> Forge \<times> bool" where
  "SetMembership orgLogin userID role st =
     (case mget (fg_OrgsByLogin st) orgLogin of
        None \<Rightarrow> (st, False)
      | Some i \<Rightarrow> (st\<lparr>fg_Memberships := mput (membershipKey orgLogin userID)
                     \<lparr>mb_OrgID = i, mb_UserID = userID, mb_Role = role, mb_State = ''active''\<rparr> (fg_Memberships st)\<rparr>, True))"

definition GetMembership :: "string \<Rightarrow> int \<Rightarrow> Forge \<Rightarrow> Membership option" where
  "GetMembership orgLogin userID st = mget (fg_Memberships st) (membershipKey orgLogin userID)"

text \<open>The first occurrence goes, as in the loops over \<open>MemberIDs\<close>, \<open>RepoNames\<close> and \<open>LabelIDs\<close>.\<close>

definition RemoveMembership :: "string \<Rightarrow> int \<Rightarrow> Forge \<Rightarrow> Forge \<times> bool" where
  "RemoveMembership orgLogin userID st =
     (let key = membershipKey orgLogin userID in
      if mget (fg_Memberships st) key = None then (st, False)
      else
        let st = st\<lparr>fg_Memberships := mdel key (fg_Memberships st)\<rparr> in
        (case GetOrg orgLogin st of
           None \<Rightarrow> (st, True)
         | Some org \<Rightarrow>
             (st\<lparr>fg_Teams := map (\<lambda>(t, team). (t, if t \<in> set (map snd (fg_TeamsBySlug st)) \<and> te_OrgID team = og_ID org
                                                 then team\<lparr>te_MemberIDs := remove1 userID (te_MemberIDs team)\<rparr> else team)) (fg_Teams st)\<rparr>, True)))"

definition ListOrgMembers :: "string \<Rightarrow> Forge \<Rightarrow> User list" where
  "ListOrgMembers orgLogin st =
     (case GetOrg orgLogin st of
        None \<Rightarrow> []
      | Some org \<Rightarrow> List.map_filter (\<lambda>(_, m). if mb_OrgID m = og_ID org \<and> mb_State m = ''active'' then mget (fg_Users st) (mb_UserID m) else None)
                      (fg_Memberships st))"

definition GetTeam :: "string \<Rightarrow> string \<Rightarrow> Forge \<Rightarrow> Team option" where
  "GetTeam orgLogin slug st = Option.bind (mget (fg_TeamsBySlug st) (teamSlugKey orgLogin slug)) (mget (fg_Teams st))"

definition CreateTeam :: "ForgeWorld \<Rightarrow> string \<Rightarrow> string \<Rightarrow> string \<Rightarrow> string \<Rightarrow> string \<Rightarrow> Forge \<Rightarrow> Forge \<times> Team option" where
  "CreateTeam w orgLogin name description privacy permission st =
     (case GetOrg orgLogin st of
        None \<Rightarrow> (st, None)
      | Some org \<Rightarrow>
          let slug = slugify name; key = teamSlugKey orgLogin slug in
          if mget (fg_TeamsBySlug st) key \<noteq> None then (st, None)
          else
            let (st, now) = clock w st;
                i = fg_NextTeam st;
                team = \<lparr>te_ID = i, te_NodeID = ''T_kgDO'' @ pad8 i, te_OrgID = og_ID org, te_Name = name, te_Slug = slug,
                        te_Description = description, te_Privacy = (if privacy = [] then ''closed'' else privacy),
                        te_Permission = (if permission = [] then ''pull'' else permission), te_MemberIDs = [], te_RepoNames = [],
                        te_CreatedAt = now, te_UpdatedAt = now\<rparr>
            in (st\<lparr>fg_NextTeam := i + 1, fg_Teams := mput i team (fg_Teams st), fg_TeamsBySlug := mput key i (fg_TeamsBySlug st)\<rparr>, Some team))"

definition upd_team :: "int \<Rightarrow> (Team \<Rightarrow> Team) \<Rightarrow> Forge \<Rightarrow> Forge" where
  "upd_team i f st = (case mget (fg_Teams st) i of Some t \<Rightarrow> st\<lparr>fg_Teams := mput i (f t) (fg_Teams st)\<rparr> | None \<Rightarrow> st)"

definition UpdateTeam :: "ForgeWorld \<Rightarrow> string \<Rightarrow> string \<Rightarrow> (Team \<Rightarrow> Team) \<Rightarrow> Forge \<Rightarrow> Forge \<times> bool" where
  "UpdateTeam w orgLogin slug fn st =
     (case mget (fg_TeamsBySlug st) (teamSlugKey orgLogin slug) of
        None \<Rightarrow> (st, False)
      | Some i \<Rightarrow> let (st, now) = clock w st in (upd_team i (\<lambda>t. (fn t)\<lparr>te_UpdatedAt := now\<rparr>) st, True))"

definition DeleteTeam :: "string \<Rightarrow> string \<Rightarrow> Forge \<Rightarrow> Forge \<times> bool" where
  "DeleteTeam orgLogin slug st =
     (let key = teamSlugKey orgLogin slug in
      case mget (fg_TeamsBySlug st) key of
        None \<Rightarrow> (st, False)
      | Some i \<Rightarrow> (st\<lparr>fg_Teams := mdel i (fg_Teams st), fg_TeamsBySlug := mdel key (fg_TeamsBySlug st)\<rparr>, True))"

definition ListTeams :: "string \<Rightarrow> Forge \<Rightarrow> Team list" where
  "ListTeams orgLogin st =
     (case GetOrg orgLogin st of
        None \<Rightarrow> []
      | Some org \<Rightarrow> filter (\<lambda>t. te_OrgID t = og_ID org) (List.map_filter (\<lambda>(_, i). mget (fg_Teams st) i) (fg_TeamsBySlug st)))"

text \<open>The four operations on the members and repositories of a team: \<open>None\<close> when there is nothing to change.\<close>

definition change_team :: "ForgeWorld \<Rightarrow> Team \<Rightarrow> (Team \<Rightarrow> Team) \<Rightarrow> Forge \<Rightarrow> Forge" where
  "change_team w team f st = (let (st, now) = clock w st in upd_team (te_ID team) (\<lambda>t. (f t)\<lparr>te_UpdatedAt := now\<rparr>) st)"

definition AddTeamMember :: "ForgeWorld \<Rightarrow> string \<Rightarrow> string \<Rightarrow> int \<Rightarrow> Forge \<Rightarrow> Forge \<times> bool" where
  "AddTeamMember w orgLogin slug userID st =
     (case GetTeam orgLogin slug st of
        None \<Rightarrow> (st, False)
      | Some team \<Rightarrow>
          if userID \<in> set (te_MemberIDs team) then (st, True)
          else (change_team w team (\<lambda>t. t\<lparr>te_MemberIDs := te_MemberIDs t @ [userID]\<rparr>) st, True))"

definition RemoveTeamMember :: "ForgeWorld \<Rightarrow> string \<Rightarrow> string \<Rightarrow> int \<Rightarrow> Forge \<Rightarrow> Forge \<times> bool" where
  "RemoveTeamMember w orgLogin slug userID st =
     (case GetTeam orgLogin slug st of
        None \<Rightarrow> (st, False)
      | Some team \<Rightarrow>
          if userID \<in> set (te_MemberIDs team)
          then (change_team w team (\<lambda>t. t\<lparr>te_MemberIDs := remove1 userID (te_MemberIDs t)\<rparr>) st, True)
          else (st, False))"

definition AddTeamRepo :: "ForgeWorld \<Rightarrow> string \<Rightarrow> string \<Rightarrow> string \<Rightarrow> Forge \<Rightarrow> Forge \<times> bool" where
  "AddTeamRepo w orgLogin slug repoFullName st =
     (case GetTeam orgLogin slug st of
        None \<Rightarrow> (st, False)
      | Some team \<Rightarrow>
          if repoFullName \<in> set (te_RepoNames team) then (st, True)
          else (change_team w team (\<lambda>t. t\<lparr>te_RepoNames := te_RepoNames t @ [repoFullName]\<rparr>) st, True))"

definition RemoveTeamRepo :: "ForgeWorld \<Rightarrow> string \<Rightarrow> string \<Rightarrow> string \<Rightarrow> Forge \<Rightarrow> Forge \<times> bool" where
  "RemoveTeamRepo w orgLogin slug repoFullName st =
     (case GetTeam orgLogin slug st of
        None \<Rightarrow> (st, False)
      | Some team \<Rightarrow>
          if repoFullName \<in> set (te_RepoNames team)
          then (change_team w team (\<lambda>t. t\<lparr>te_RepoNames := remove1 repoFullName (te_RepoNames t)\<rparr>) st, True)
          else (st, False))"
end
