(* ===== verification/TrackerStore.thy ===== *)
theory TrackerStore
  imports ForgeStore
begin

text \<open>
  The store operations on labels, milestones, issues, comments, pull requests and reviews (\<open>store_issues.go\<close>, \<open>store_pulls.go\<close>)
  and on webhooks (\<open>webhooks_store.go\<close>). An update is given the change to apply; it gets a reading of the clock, and the time
  of the update is a second one.
\<close>

section \<open>Labels\<close>

definition label_named :: "int \<Rightarrow> string \<Rightarrow> IssueLabel \<Rightarrow> bool" where
  "label_named repoID name l \<longleftrightarrow> lb_RepoID l = repoID \<and> lb_Name l = name"

definition GetLabelByName :: "int \<Rightarrow> string \<Rightarrow> Forge \<Rightarrow> IssueLabel option" where
  "GetLabelByName repoID name st = first_where (label_named repoID name) (fg_Labels st)"

definition CreateLabel :: "ForgeWorld \<Rightarrow> int \<Rightarrow> string \<Rightarrow> string \<Rightarrow> string \<Rightarrow> Forge \<Rightarrow> Forge \<times> IssueLabel option" where
  "CreateLabel w repoID name description color st =
     (if GetLabelByName repoID name st \<noteq> None then (st, None)
      else
        let (st, now) = clock w st;
            i = fg_NextLabel st;
            label = \<lparr>lb_ID = i, lb_NodeID = ''LA_kgDO'' @ pad8 i, lb_RepoID = repoID, lb_Name = name, lb_Description = description,
                     lb_Color = color, lb_Default = False, lb_CreatedAt = now\<rparr>
        in (st\<lparr>fg_NextLabel := i + 1, fg_Labels := mput i label (fg_Labels st)\<rparr>, Some label))"

definition GetLabel :: "int \<Rightarrow> Forge \<Rightarrow> IssueLabel option" where
  "GetLabel i st = mget (fg_Labels st) i"

definition ListLabels :: "int \<Rightarrow> Forge \<Rightarrow> IssueLabel list" where
  "ListLabels repoID st = values_where (\<lambda>l. lb_RepoID l = repoID) (fg_Labels st)"

definition UpdateLabel :: "int \<Rightarrow> (IssueLabel \<Rightarrow> IssueLabel) \<Rightarrow> Forge \<Rightarrow> Forge \<times> bool" where
  "UpdateLabel i fn st =
     (case mget (fg_Labels st) i of
        None \<Rightarrow> (st, False)
      | Some l \<Rightarrow> (st\<lparr>fg_Labels := mput i (fn l) (fg_Labels st)\<rparr>, True))"

text \<open>The label leaves each issue: its first occurrence in the list of labels.\<close>

definition DeleteLabel :: "int \<Rightarrow> Forge \<Rightarrow> Forge \<times> bool" where
  "DeleteLabel i st =
     (if mget (fg_Labels st) i = None then (st, False)
      else (st\<lparr>fg_Labels := mdel i (fg_Labels st),
               fg_Issues := map (\<lambda>(k, issue). (k, issue\<lparr>iu_LabelIDs := remove1 i (iu_LabelIDs issue)\<rparr>)) (fg_Issues st)\<rparr>, True))"

section \<open>Milestones\<close>

definition CreateMilestone ::
  "ForgeWorld \<Rightarrow> int \<Rightarrow> string \<Rightarrow> string \<Rightarrow> string \<Rightarrow> int option \<Rightarrow> Forge \<Rightarrow> Forge \<times> Milestone option" where
  "CreateMilestone w repoID title description state dueOn st =
     (case mget (fg_Repos st) repoID of
        None \<Rightarrow> (st, None)
      | Some repo \<Rightarrow>
          let (st, now) = clock w st;
              i = fg_NextMilestone st;
              ms = \<lparr>mi_ID = i, mi_NodeID = ''MI_kgDO'' @ pad8 i, mi_RepoID = repoID, mi_Number = re_NextMilestoneNumber repo,
                    mi_Title = title, mi_Description = description, mi_State = (if state = [] then ''open'' else state),
                    mi_DueOn = dueOn, mi_CreatedAt = now, mi_UpdatedAt = now\<rparr>;
              st = upd_repo repoID (\<lambda>r. r\<lparr>re_NextMilestoneNumber := re_NextMilestoneNumber r + 1\<rparr>) st
          in (st\<lparr>fg_NextMilestone := i + 1, fg_Milestones := mput i ms (fg_Milestones st)\<rparr>, Some ms))"

definition GetMilestone :: "int \<Rightarrow> Forge \<Rightarrow> Milestone option" where
  "GetMilestone i st = mget (fg_Milestones st) i"

definition GetMilestoneByNumber :: "int \<Rightarrow> int \<Rightarrow> Forge \<Rightarrow> Milestone option" where
  "GetMilestoneByNumber repoID number st = first_where (\<lambda>ms. mi_RepoID ms = repoID \<and> mi_Number ms = number) (fg_Milestones st)"

definition ListMilestones :: "int \<Rightarrow> string \<Rightarrow> Forge \<Rightarrow> Milestone list" where
  "ListMilestones repoID state st =
     values_where (\<lambda>ms. mi_RepoID ms = repoID \<and> (state = [] \<or> state = ''all'' \<or> mi_State ms = state)) (fg_Milestones st)"

definition UpdateMilestone :: "ForgeWorld \<Rightarrow> int \<Rightarrow> (Milestone \<Rightarrow> Milestone) \<Rightarrow> Forge \<Rightarrow> Forge \<times> bool" where
  "UpdateMilestone w i fn st =
     (case mget (fg_Milestones st) i of
        None \<Rightarrow> (st, False)
      | Some ms \<Rightarrow> let (st, now) = clock w st in (st\<lparr>fg_Milestones := mput i ((fn ms)\<lparr>mi_UpdatedAt := now\<rparr>) (fg_Milestones st)\<rparr>, True))"

definition DeleteMilestone :: "int \<Rightarrow> Forge \<Rightarrow> Forge \<times> bool" where
  "DeleteMilestone i st =
     (if mget (fg_Milestones st) i = None then (st, False)
      else (st\<lparr>fg_Milestones := mdel i (fg_Milestones st),
               fg_Issues := map (\<lambda>(k, issue). (k, if iu_MilestoneID issue = i then issue\<lparr>iu_MilestoneID := 0\<rparr> else issue)) (fg_Issues st)\<rparr>, True))"

section \<open>Issues\<close>

text \<open>Issues and pull requests draw their numbers from one counter of their repository.\<close>

definition take_number :: "int \<Rightarrow> Forge \<Rightarrow> Forge" where
  "take_number repoID = upd_repo repoID (\<lambda>r. r\<lparr>re_NextIssueNumber := re_NextIssueNumber r + 1\<rparr>)"

definition CreateIssue ::
  "ForgeWorld \<Rightarrow> int \<Rightarrow> int \<Rightarrow> string \<Rightarrow> string \<Rightarrow> int list \<Rightarrow> int list \<Rightarrow> int \<Rightarrow> Forge \<Rightarrow> Forge \<times> Issue option" where
  "CreateIssue w repoID authorID title body labelIDs assigneeIDs milestoneID st =
     (case mget (fg_Repos st) repoID of
        None \<Rightarrow> (st, None)
      | Some repo \<Rightarrow>
          let (st, now) = clock w st;
              i = fg_NextIssue st;
              issue = \<lparr>iu_ID = i, iu_NodeID = ''I_kgDO'' @ pad8 i, iu_Number = re_NextIssueNumber repo, iu_RepoID = repoID,
                       iu_Title = title, iu_Body = body, iu_State = ''OPEN'', iu_StateReason = [], iu_AuthorID = authorID,
                       iu_AssigneeIDs = assigneeIDs, iu_LabelIDs = labelIDs, iu_MilestoneID = milestoneID, iu_Locked = False,
                       iu_ActiveLockReason = [], iu_CreatedAt = now, iu_UpdatedAt = now, iu_ClosedAt = None\<rparr>;
              st = take_number repoID st
          in (st\<lparr>fg_NextIssue := i + 1, fg_Issues := mput i issue (fg_Issues st)\<rparr>, Some issue))"

definition GetIssue :: "int \<Rightarrow> Forge \<Rightarrow> Issue option" where
  "GetIssue i st = mget (fg_Issues st) i"

definition issue_at :: "int \<Rightarrow> int \<Rightarrow> Issue \<Rightarrow> bool" where
  "issue_at repoID number issue \<longleftrightarrow> iu_RepoID issue = repoID \<and> iu_Number issue = number"

definition GetIssueByNumber :: "int \<Rightarrow> int \<Rightarrow> Forge \<Rightarrow> Issue option" where
  "GetIssueByNumber repoID number st = first_where (issue_at repoID number) (fg_Issues st)"

definition ListIssues :: "int \<Rightarrow> string \<Rightarrow> Forge \<Rightarrow> Issue list" where
  "ListIssues repoID state st =
     values_where (\<lambda>issue. iu_RepoID issue = repoID \<and> (state = [] \<or> state = ''all'' \<or> iu_State issue = state)) (fg_Issues st)"

definition UpdateIssue :: "ForgeWorld \<Rightarrow> int \<Rightarrow> (int \<Rightarrow> Issue \<Rightarrow> Issue) \<Rightarrow> Forge \<Rightarrow> Forge \<times> bool" where
  "UpdateIssue w i fn st =
     (case mget (fg_Issues st) i of
        None \<Rightarrow> (st, False)
      | Some issue \<Rightarrow>
          let (st, inner) = clock w st; (st, now) = clock w st
          in (st\<lparr>fg_Issues := mput i ((fn inner issue)\<lparr>iu_UpdatedAt := now\<rparr>) (fg_Issues st)\<rparr>, True))"

section \<open>Comments\<close>

definition CreateCommentFor :: "ForgeWorld \<Rightarrow> string \<Rightarrow> int \<Rightarrow> int \<Rightarrow> string \<Rightarrow> Forge \<Rightarrow> Forge \<times> Comment option" where
  "CreateCommentFor w parentType parentID authorID body st =
     (if (parentType = ''issue'' \<and> mget (fg_Issues st) parentID \<noteq> None) \<or>
         (parentType = ''pull_request'' \<and> mget (fg_PullRequests st) parentID \<noteq> None)
      then
        let (st, now) = clock w st;
            i = fg_NextComment st;
            c = \<lparr>co_ID = i, co_NodeID = ''IC_kgDO'' @ pad8 i, co_ParentType = parentType, co_IssueID = parentID, co_AuthorID = authorID,
                 co_Body = body, co_CreatedAt = now, co_UpdatedAt = now, co_LastEditedAt = None, co_EditorID = 0,
                 co_MinimizedReason = [], co_MinimizedByID = 0\<rparr>
        in (st\<lparr>fg_NextComment := i + 1, fg_Comments := mput i c (fg_Comments st)\<rparr>, Some c)
      else (st, None))"

definition CreateComment :: "ForgeWorld \<Rightarrow> int \<Rightarrow> int \<Rightarrow> string \<Rightarrow> Forge \<Rightarrow> Forge \<times> Comment option" where
  "CreateComment w issueID authorID body = CreateCommentFor w ''issue'' issueID authorID body"

definition ListCommentsFor :: "string \<Rightarrow> int \<Rightarrow> Forge \<Rightarrow> Comment list" where
  "ListCommentsFor parentType parentID st = values_where (\<lambda>c. co_ParentType c = parentType \<and> co_IssueID c = parentID) (fg_Comments st)"

definition ListComments :: "int \<Rightarrow> Forge \<Rightarrow> Comment list" where
  "ListComments issueID = ListCommentsFor ''issue'' issueID"

definition DeleteComment :: "int \<Rightarrow> Forge \<Rightarrow> Forge \<times> bool" where
  "DeleteComment i st =
     (if mget (fg_Comments st) i = None then (st, False) else (st\<lparr>fg_Comments := mdel i (fg_Comments st)\<rparr>, True))"

definition UpdateCommentBody :: "ForgeWorld \<Rightarrow> int \<Rightarrow> int \<Rightarrow> string \<Rightarrow> Forge \<Rightarrow> Forge \<times> Comment option" where
  "UpdateCommentBody w i editorID body st =
     (case mget (fg_Comments st) i of
        None \<Rightarrow> (st, None)
      | Some c \<Rightarrow>
          let (st, now) = clock w st;
              c = c\<lparr>co_Body := body, co_UpdatedAt := now, co_LastEditedAt := Some now, co_EditorID := editorID\<rparr>
          in (st\<lparr>fg_Comments := mput i c (fg_Comments st)\<rparr>, Some c))"

definition LookupCommentByNodeID :: "string \<Rightarrow> Forge \<Rightarrow> Comment option" where
  "LookupCommentByNodeID nodeID st = first_where (\<lambda>c. co_NodeID c = nodeID) (fg_Comments st)"

definition SetCommentMinimization :: "int \<Rightarrow> int \<Rightarrow> string \<Rightarrow> Forge \<Rightarrow> Forge \<times> Comment option" where
  "SetCommentMinimization i minimizerID reason st =
     (case mget (fg_Comments st) i of
        None \<Rightarrow> (st, None)
      | Some c \<Rightarrow>
          let c = c\<lparr>co_MinimizedReason := reason, co_MinimizedByID := (if reason = [] then 0 else minimizerID)\<rparr>
          in (st\<lparr>fg_Comments := mput i c (fg_Comments st)\<rparr>, Some c))"

section \<open>Pull requests\<close>

definition CreatePullRequest ::
  "ForgeWorld \<Rightarrow> int \<Rightarrow> int \<Rightarrow> string \<Rightarrow> string \<Rightarrow> string \<Rightarrow> string \<Rightarrow> bool \<Rightarrow> int list \<Rightarrow> int list \<Rightarrow> int \<Rightarrow>
     Forge \<Rightarrow> Forge \<times> PullRequest option" where
  "CreatePullRequest w repoID authorID title body headRefName baseRefName isDraft labelIDs assigneeIDs milestoneID st =
     (case mget (fg_Repos st) repoID of
        None \<Rightarrow> (st, None)
      | Some repo \<Rightarrow>
          let (st, now) = clock w st;
              i = fg_NextPR st;
              pr = \<lparr>pu_ID = i, pu_NodeID = ''PR_kgDO'' @ pad8 i, pu_Number = re_NextIssueNumber repo, pu_RepoID = repoID,
                    pu_Title = title, pu_Body = body, pu_State = ''OPEN'', pu_IsDraft = isDraft, pu_HeadRefName = headRefName,
                    pu_BaseRefName = (if baseRefName = [] then re_DefaultBranch repo else baseRefName), pu_AuthorID = authorID,
                    pu_AssigneeIDs = assigneeIDs, pu_LabelIDs = labelIDs, pu_MilestoneID = milestoneID, pu_Mergeable = ''MERGEABLE'',
                    pu_Additions = 0, pu_Deletions = 0, pu_ChangedFiles = 0, pu_MergedByID = 0, pu_Locked = False,
                    pu_ActiveLockReason = [], pu_CreatedAt = now, pu_UpdatedAt = now, pu_ClosedAt = None, pu_MergedAt = None\<rparr>;
              st = take_number repoID st
          in (st\<lparr>fg_NextPR := i + 1, fg_PullRequests := mput i pr (fg_PullRequests st)\<rparr>, Some pr))"

definition GetPullRequest :: "int \<Rightarrow> Forge \<Rightarrow> PullRequest option" where
  "GetPullRequest i st = mget (fg_PullRequests st) i"

definition pull_at :: "int \<Rightarrow> int \<Rightarrow> PullRequest \<Rightarrow> bool" where
  "pull_at repoID number pr \<longleftrightarrow> pu_RepoID pr = repoID \<and> pu_Number pr = number"

definition GetPullRequestByNumber :: "int \<Rightarrow> int \<Rightarrow> Forge \<Rightarrow> PullRequest option" where
  "GetPullRequestByNumber repoID number st = first_where (pull_at repoID number) (fg_PullRequests st)"

definition ListPullRequests :: "int \<Rightarrow> string \<Rightarrow> Forge \<Rightarrow> PullRequest list" where
  "ListPullRequests repoID state st =
     values_where (\<lambda>pr. pu_RepoID pr = repoID \<and>
       (state = [] \<or> state = ''all'' \<or>
        (if state = ''CLOSED'' then pu_State pr = ''CLOSED'' \<or> pu_State pr = ''MERGED'' else pu_State pr = state))) (fg_PullRequests st)"

definition UpdatePullRequest :: "ForgeWorld \<Rightarrow> int \<Rightarrow> (int \<Rightarrow> PullRequest \<Rightarrow> PullRequest) \<Rightarrow> Forge \<Rightarrow> Forge \<times> bool" where
  "UpdatePullRequest w i fn st =
     (case mget (fg_PullRequests st) i of
        None \<Rightarrow> (st, False)
      | Some pr \<Rightarrow>
          let (st, inner) = clock w st; (st, now) = clock w st
          in (st\<lparr>fg_PullRequests := mput i ((fn inner pr)\<lparr>pu_UpdatedAt := now\<rparr>) (fg_PullRequests st)\<rparr>, True))"

definition CreatePRReview :: "ForgeWorld \<Rightarrow> int \<Rightarrow> int \<Rightarrow> string \<Rightarrow> string \<Rightarrow> Forge \<Rightarrow> Forge \<times> PullRequestReview option" where
  "CreatePRReview w prID authorID state body st =
     (if mget (fg_PullRequests st) prID = None then (st, None)
      else
        let (st, now) = clock w st;
            i = fg_NextPRReview st;
            review = \<lparr>rv_ID = i, rv_NodeID = ''PRR_kgDO'' @ pad8 i, rv_PRID = prID, rv_AuthorID = authorID, rv_State = state,
                      rv_Body = body, rv_CreatedAt = now, rv_UpdatedAt = now\<rparr>
        in (st\<lparr>fg_NextPRReview := i + 1, fg_PRReviews := mput i review (fg_PRReviews st)\<rparr>, Some review))"

definition ListPRReviews :: "int \<Rightarrow> Forge \<Rightarrow> PullRequestReview list" where
  "ListPRReviews prID st = values_where (\<lambda>r. rv_PRID r = prID) (fg_PRReviews st)"

text \<open>The first issue with the number, else the first pull request.\<close>

definition SetIssueOrPRLock :: "int \<Rightarrow> int \<Rightarrow> bool \<Rightarrow> string \<Rightarrow> Forge \<Rightarrow> Forge \<times> bool" where
  "SetIssueOrPRLock repoID number locked reason st =
     (let reason = (if locked then reason else []) in
      case find (\<lambda>(_, i). issue_at repoID number i) (fg_Issues st) of
        Some (k, i) \<Rightarrow> (st\<lparr>fg_Issues := mput k (i\<lparr>iu_Locked := locked, iu_ActiveLockReason := reason\<rparr>) (fg_Issues st)\<rparr>, True)
      | None \<Rightarrow>
          (case find (\<lambda>(_, pr). pull_at repoID number pr) (fg_PullRequests st) of
             Some (k, pr) \<Rightarrow>
               (st\<lparr>fg_PullRequests := mput k (pr\<lparr>pu_Locked := locked, pu_ActiveLockReason := reason\<rparr>) (fg_PullRequests st)\<rparr>, True)
           | None \<Rightarrow> (st, False)))"

section \<open>Webhooks\<close>

definition hooks_of :: "string \<Rightarrow> Forge \<Rightarrow> Webhook list" where
  "hooks_of repoKey st = (case mget (fg_Hooks st) repoKey of Some hooks \<Rightarrow> hooks | None \<Rightarrow> [])"

definition CreateHook :: "ForgeWorld \<Rightarrow> string \<Rightarrow> string \<Rightarrow> string \<Rightarrow> string list \<Rightarrow> bool \<Rightarrow> Forge \<Rightarrow> Forge \<times> Webhook" where
  "CreateHook w repoKey url secret events active st =
     (let (st, now) = clock w st;
          hook = \<lparr>hk_ID = fg_NextHookID st, hk_URL = url, hk_Secret = secret, hk_Events = events, hk_Active = active,
                  hk_RepoKey = repoKey, hk_CreatedAt = now, hk_UpdatedAt = now\<rparr>
      in (st\<lparr>fg_NextHookID := fg_NextHookID st + 1, fg_Hooks := mput repoKey (hooks_of repoKey st @ [hook]) (fg_Hooks st)\<rparr>, hook))"

definition GetHook :: "string \<Rightarrow> int \<Rightarrow> Forge \<Rightarrow> Webhook option" where
  "GetHook repoKey hookID st = find (\<lambda>h. hk_ID h = hookID) (hooks_of repoKey st)"

definition ListHooks :: "string \<Rightarrow> Forge \<Rightarrow> Webhook list" where
  "ListHooks repoKey st = hooks_of repoKey st"

fun update_first :: "('a \<Rightarrow> bool) \<Rightarrow> ('a \<Rightarrow> 'a) \<Rightarrow> 'a list \<Rightarrow> 'a list" where
  "update_first P f [] = []"
| "update_first P f (x # xs) = (if P x then f x # xs else x # update_first P f xs)"

fun remove_first :: "('a \<Rightarrow> bool) \<Rightarrow> 'a list \<Rightarrow> 'a list" where
  "remove_first P [] = []"
| "remove_first P (x # xs) = (if P x then xs else x # remove_first P xs)"

definition UpdateHook :: "ForgeWorld \<Rightarrow> string \<Rightarrow> int \<Rightarrow> (Webhook \<Rightarrow> Webhook) \<Rightarrow> Forge \<Rightarrow> Forge \<times> bool" where
  "UpdateHook w repoKey hookID fn st =
     (if GetHook repoKey hookID st = None then (st, False)
      else
        let (st, now) = clock w st
        in (st\<lparr>fg_Hooks := mput repoKey (update_first (\<lambda>h. hk_ID h = hookID) (\<lambda>h. (fn h)\<lparr>hk_UpdatedAt := now\<rparr>) (hooks_of repoKey st)) (fg_Hooks st)\<rparr>, True))"

definition DeleteHook :: "string \<Rightarrow> int \<Rightarrow> Forge \<Rightarrow> Forge \<times> bool" where
  "DeleteHook repoKey hookID st =
     (if GetHook repoKey hookID st = None then (st, False)
      else (st\<lparr>fg_Hooks := mput repoKey (remove_first (\<lambda>h. hk_ID h = hookID) (hooks_of repoKey st)) (fg_Hooks st)\<rparr>, True))"

definition deliveries_of :: "int \<Rightarrow> Forge \<Rightarrow> WebhookDelivery list" where
  "deliveries_of hookID st = (case mget (fg_HookDeliveries st) hookID of Some ds \<Rightarrow> ds | None \<Rightarrow> [])"

definition AddDelivery :: "WebhookDelivery \<Rightarrow> Forge \<Rightarrow> Forge" where
  "AddDelivery delivery st =
     (let delivery = delivery\<lparr>wd_ID := fg_NextDeliveryID st\<rparr>; hookID = wd_HookID delivery
      in st\<lparr>fg_NextDeliveryID := fg_NextDeliveryID st + 1,
            fg_HookDeliveries := mput hookID (deliveries_of hookID st @ [delivery]) (fg_HookDeliveries st)\<rparr>)"

definition ListDeliveries :: "int \<Rightarrow> Forge \<Rightarrow> WebhookDelivery list" where
  "ListDeliveries hookID st = rev (deliveries_of hookID st)"

definition hookMatchesEvent :: "Webhook \<Rightarrow> string \<Rightarrow> bool" where
  "hookMatchesEvent hook eventType \<longleftrightarrow> list_ex (\<lambda>e. e = eventType \<or> e = ''*'') (hk_Events hook)"

text \<open>The deliveries are started and run later; the payload is the one of the event.\<close>

definition emitWebhookEvent :: "string \<Rightarrow> string \<Rightarrow> string \<Rightarrow> Forge \<Rightarrow> Forge" where
  "emitWebhookEvent repoKey eventType action st =
     st\<lparr>fg_Outbox := fg_Outbox st @
          map (\<lambda>h. ToHook h eventType action) (filter (\<lambda>h. hk_Active h \<and> hookMatchesEvent h eventType) (ListHooks repoKey st))\<rparr>"

section \<open>Deliveries\<close>

text \<open>The deliveries to apps, kept apart from those to the hooks of repositories (\<open>gh_app_hooks_rest.go\<close>).\<close>

definition app_deliveries_of :: "int \<Rightarrow> Forge \<Rightarrow> WebhookDelivery list" where
  "app_deliveries_of appID st = (case mget (fg_AppHookDeliveries st) appID of Some ds \<Rightarrow> ds | None \<Rightarrow> [])"

definition AddAppDelivery :: "int \<Rightarrow> WebhookDelivery \<Rightarrow> Forge \<Rightarrow> Forge" where
  "AddAppDelivery appID d st =
     st\<lparr>fg_NextDeliveryID := fg_NextDeliveryID st + 1,
        fg_AppHookDeliveries := mput appID (app_deliveries_of appID st @ [d\<lparr>wd_ID := fg_NextDeliveryID st\<rparr>]) (fg_AppHookDeliveries st)\<rparr>"

definition ListAppDeliveries :: "int \<Rightarrow> Forge \<Rightarrow> WebhookDelivery list" where
  "ListAppDeliveries appID st = rev (app_deliveries_of appID st)"

definition GetAppDelivery :: "int \<Rightarrow> int \<Rightarrow> Forge \<Rightarrow> WebhookDelivery option" where
  "GetAppDelivery appID deliveryID st = find (\<lambda>d. wd_ID d = deliveryID) (app_deliveries_of appID st)"

text \<open>One attempt: the receiver answers with a status, 0 when there is no answer, after a duration.\<close>

definition doDeliverAttempt ::
  "ForgeWorld \<Rightarrow> int \<Rightarrow> string \<Rightarrow> string \<Rightarrow> string \<Rightarrow> bool \<Rightarrow> int \<times> int \<times> int \<Rightarrow> Forge \<Rightarrow> Forge \<times> WebhookDelivery" where
  "doDeliverAttempt w hookID event action guid redelivery answer st =
     (let (st, now) = clock w st in
      (st, \<lparr>wd_ID = 0, wd_HookID = hookID, wd_AppID = 0, wd_InstallationID = 0, wd_GUID = guid, wd_Event = event, wd_Action = action,
            wd_StatusCode = fst answer, wd_Duration = snd answer, wd_Redelivery = redelivery, wd_DeliveredAt = now\<rparr>))"

definition attempt_ok :: "int \<times> int \<times> int \<Rightarrow> bool" where
  "attempt_ok answer \<longleftrightarrow> 200 \<le> fst answer \<and> fst answer < 300"

text \<open>The attempts of a delivery, each recorded, until one is answered with a 2xx status.\<close>

fun delivery_attempts ::
  "ForgeWorld \<Rightarrow> (WebhookDelivery \<Rightarrow> Forge \<Rightarrow> Forge) \<Rightarrow> int \<Rightarrow> string \<Rightarrow> string \<Rightarrow> string \<Rightarrow> bool \<Rightarrow> (int \<times> int \<times> int) list \<Rightarrow> Forge \<Rightarrow> Forge" where
  "delivery_attempts w add hookID event action guid redelivery [] st = st"
| "delivery_attempts w add hookID event action guid redelivery (answer # answers) st =
     (let (st, d) = doDeliverAttempt w hookID event action guid redelivery answer st;
          st = add d st
      in if attempt_ok answer then st else delivery_attempts w add hookID event action guid True answers st)"

text \<open>Three attempts; \<open>answers\<close> is what the receiver answers to each.\<close>

definition deliverWebhook :: "ForgeWorld \<Rightarrow> Webhook \<Rightarrow> string \<Rightarrow> string \<Rightarrow> (nat \<Rightarrow> int \<times> int \<times> int) \<Rightarrow> Forge \<Rightarrow> Forge" where
  "deliverWebhook w hook event action answers st =
     (let (st, guid) = draw w st
      in delivery_attempts w AddDelivery (hk_ID hook) event action guid False (map answers [0, 1, 2]) st)"

definition to_app :: "int \<Rightarrow> int \<Rightarrow> WebhookDelivery \<Rightarrow> Forge \<Rightarrow> Forge" where
  "to_app appID installationID d = AddAppDelivery appID (d\<lparr>wd_AppID := appID, wd_InstallationID := installationID\<rparr>)"

definition deliverAppWebhook ::
  "ForgeWorld \<Rightarrow> App \<Rightarrow> string \<Rightarrow> string \<Rightarrow> int \<Rightarrow> (nat \<Rightarrow> int \<times> int \<times> int) \<Rightarrow> Forge \<Rightarrow> Forge" where
  "deliverAppWebhook w app event action installationID answers st =
     (let (st, guid) = draw w st
      in delivery_attempts w (to_app (ap_ID app) installationID) (- ap_ID app) event action guid False (map answers [0, 1, 2]) st)"

definition redeliverAppWebhook :: "ForgeWorld \<Rightarrow> App \<Rightarrow> WebhookDelivery \<Rightarrow> int \<times> int \<times> int \<Rightarrow> Forge \<Rightarrow> Forge" where
  "redeliverAppWebhook w app original answer st =
     (if ap_WebhookURL app = [] then st
      else
        let (st, d) = doDeliverAttempt w (- ap_ID app) (wd_Event original) (wd_Action original) (wd_GUID original) True answer st
        in to_app (ap_ID app) (wd_InstallationID original) d st)"

text \<open>A goroutine of the outbox runs, in any order.\<close>

definition run_outgoing :: "ForgeWorld \<Rightarrow> nat \<Rightarrow> (nat \<Rightarrow> int \<times> int \<times> int) \<Rightarrow> Forge \<Rightarrow> Forge" where
  "run_outgoing w n answers st =
     (if n < length (fg_Outbox st) then
        let out = fg_Outbox st ! n; st = st\<lparr>fg_Outbox := take n (fg_Outbox st) @ drop (Suc n) (fg_Outbox st)\<rparr> in
        case out of
          ToHook hook event action \<Rightarrow> deliverWebhook w hook event action answers st
        | ToApp app event action i \<Rightarrow> deliverAppWebhook w app event action i answers st
        | HookAgain hook d \<Rightarrow>
            delivery_attempts w AddDelivery (hk_ID hook) (wd_Event d) (wd_Action d) (wd_GUID d) True [answers 0] st
        | AppAgain app d \<Rightarrow> redeliverAppWebhook w app d (answers 0) st
      else st)"
end
