(* ===== verification/Rest.thy ===== *)
theory Rest
  imports Prelude "HOL-Library.Word" "HOL-Library.List_Lexorder" "HOL-Library.Char_ord"
begin

text \<open>
  Requests and responses of the REST handlers: JSON values and their decoding into the fields of a request (\<open>encoding/json\<close>
  and \<open>gh_request_decode.go\<close>), the answers (\<open>gh_rest.go\<close>) and pagination (\<open>gh_pagination.go\<close>).
\<close>

section \<open>JSON\<close>

text \<open>\<open>JReal m e\<close> is a number literal with a fraction or an exponent, of value \<open>m * 10 ^ e\<close>.\<close>

datatype json = JNull | JBool bool | JInt int | JReal int int | JStr string | JArr "json list" | JObj "(string \<times> json) list"

text \<open>The members a struct or a map is decoded from; \<open>null\<close> leaves it empty, and other values are an error.\<close>

fun members :: "json \<Rightarrow> (string \<times> json) list option" where
  "members JNull = Some []"
| "members (JObj ms) = Some ms"
| "members _ = None"

text \<open>A body: absent, not JSON, or a value.\<close>

datatype body = EmptyBody | BadBody | Body json

fun decode_members :: "body \<Rightarrow> (string \<times> json) list option" where
  "decode_members (Body j) = members j"
| "decode_members _ = None"

text \<open>
  A field of a struct: every member whose name matches, ignoring case, is decoded into it; the last one stays. One member of
  the wrong type fails the decoding.
\<close>

definition struct_field :: "(json \<Rightarrow> 'a \<Rightarrow> 'a option) \<Rightarrow> string \<Rightarrow> 'a \<Rightarrow> (string \<times> json) list \<Rightarrow> 'a option" where
  "struct_field dec name zero ms =
     foldl (\<lambda>acc (k, j). if EqualFold k name then Option.bind acc (dec j) else acc) (Some zero) ms"

text \<open>Into a text, a number or a truth value \<open>null\<close> decodes to nothing, into a list to the empty list.\<close>

fun dec_string :: "json \<Rightarrow> string \<Rightarrow> string option" where
  "dec_string JNull old = Some old" | "dec_string (JStr s) old = Some s" | "dec_string _ old = None"

fun dec_int :: "json \<Rightarrow> int \<Rightarrow> int option" where
  "dec_int JNull old = Some old" | "dec_int (JInt i) old = (if int64_ok i then Some i else None)" | "dec_int _ old = None"

fun dec_bool :: "json \<Rightarrow> bool \<Rightarrow> bool option" where
  "dec_bool JNull old = Some old" | "dec_bool (JBool b) old = Some b" | "dec_bool _ old = None"

fun dec_strings :: "json \<Rightarrow> string list \<Rightarrow> string list option" where
  "dec_strings JNull old = Some []" | "dec_strings (JArr js) old = those (map (\<lambda>j. dec_string j []) js)" | "dec_strings _ old = None"

text \<open>\<open>flexBool\<close>, \<open>flexInt\<close> and \<open>flexIntSlice\<close>: typed values or their texts; \<open>null\<close> is the zero value.\<close>

fun flexBool :: "json \<Rightarrow> bool \<Rightarrow> bool option" where
  "flexBool JNull old = Some False"
| "flexBool (JBool b) old = Some b"
| "flexBool (JStr s) old =
     (if s \<in> {''true'', ''1'', ''yes''} then Some True else if s \<in> {''false'', ''0'', ''no'', []} then Some False else None)"
| "flexBool _ old = None"

fun flexInt :: "json \<Rightarrow> int \<Rightarrow> int option" where
  "flexInt JNull old = Some 0"
| "flexInt (JStr s) old = (if s = [] then Some 0 else Atoi s)"
| "flexInt j old = dec_int j old"

fun flexIntSlice :: "json \<Rightarrow> int list \<Rightarrow> int list option" where
  "flexIntSlice JNull old = Some []"
| "flexIntSlice (JArr js) old = those (map (\<lambda>j. flexInt j 0) js)"
| "flexIntSlice j old = map_option (\<lambda>n. [n]) (flexInt j 0)"

text \<open>A body decoded into a map: exact names, the last member of a name stays.\<close>

definition member :: "string \<Rightarrow> (string \<times> json) list \<Rightarrow> json" where
  "member name ms = (case map_of (rev ms) name of Some j \<Rightarrow> j | None \<Rightarrow> JNull)"

definition member_string :: "string \<Rightarrow> (string \<times> json) list \<Rightarrow> string option" where
  "member_string name ms = (case member name ms of JStr s \<Rightarrow> Some s | _ \<Rightarrow> None)"

definition or_keep :: "'a option \<Rightarrow> 'a \<Rightarrow> 'a" where
  "or_keep v old = (case v of Some x \<Rightarrow> x | None \<Rightarrow> old)"

fun coerceBool :: "json \<Rightarrow> bool option" where
  "coerceBool (JBool b) = Some b"
| "coerceBool (JStr s) =
     (if s \<in> {''true'', ''1'', ''yes''} then Some True else if s \<in> {''false'', ''0'', ''no''} then Some False else None)"
| "coerceBool (JInt i) = Some (i \<noteq> 0)"
| "coerceBool (JReal m e) = Some (m \<noteq> 0)"
| "coerceBool _ = None"

section \<open>Requests and answers\<close>

record Answer =
  an_Status :: int
  an_Body :: "json option"
  an_Link :: string
  an_Location :: string

definition writeJSON :: "int \<Rightarrow> json \<Rightarrow> Answer" where
  "writeJSON status v = \<lparr>an_Status = status, an_Body = Some v, an_Link = [], an_Location = []\<rparr>"

definition writeHeader :: "int \<Rightarrow> Answer" where
  "writeHeader status = \<lparr>an_Status = status, an_Body = None, an_Link = [], an_Location = []\<rparr>"

definition writeGHError :: "int \<Rightarrow> string \<Rightarrow> Answer" where
  "writeGHError status message =
     writeJSON status (JObj [(''message'', JStr message), (''documentation_url'', JStr ''https://docs.github.com/rest'')])"

definition writeGHValidationError :: "string \<Rightarrow> string \<Rightarrow> string \<Rightarrow> Answer" where
  "writeGHValidationError resource fld code =
     writeJSON 422 (JObj [(''message'', JStr ''Validation Failed''), (''documentation_url'', JStr ''https://docs.github.com/rest''),
       (''errors'', JArr [JObj [(''resource'', JStr resource), (''field'', JStr fld), (''code'', JStr code)]])])"

abbreviation notFound :: Answer where "notFound \<equiv> writeGHError 404 ''Not Found''"
abbreviation badCredentials :: Answer where "badCredentials \<equiv> writeGHError 401 ''Bad credentials''"
abbreviation badJSON :: Answer where "badJSON \<equiv> writeGHError 400 ''Problems parsing JSON''"

text \<open>A handler that panics: the server closes the connection.\<close>

definition panicked :: Answer where
  "panicked = \<lparr>an_Status = 0, an_Body = None, an_Link = [], an_Location = []\<rparr>"

section \<open>Pagination\<close>

text \<open>The query of a request: the values of each parameter in order.\<close>

type_synonym query = "string list gomap"

definition query_get :: "query \<Rightarrow> string \<Rightarrow> string" where
  "query_get q name = (case mget q name of Some (v # _) \<Rightarrow> v | _ \<Rightarrow> [])"

definition positive_param :: "query \<Rightarrow> string \<Rightarrow> int \<Rightarrow> int" where
  "positive_param q name other = (case Atoi (query_get q name) of Some n \<Rightarrow> if 0 < n then n else other | None \<Rightarrow> other)"

definition parsePagination :: "query \<Rightarrow> int \<times> int" where
  "parsePagination q = (positive_param q ''page'' 1, min 100 (positive_param q ''per_page'' 30))"

text \<open>The text of a query (\<open>url.Values.Encode\<close>): the keys sorted, everything but letters, digits and \<open>-_.~\<close> escaped.\<close>

definition upper_hex :: "nat \<Rightarrow> char" where
  "upper_hex d = ascii_upper (hex_char d)"

definition query_escape :: "string \<Rightarrow> string" where
  "query_escape s = concat (map (\<lambda>c.
     let n = of_char c :: nat in
     if is_digit c \<or> (65 \<le> n \<and> n \<le> 90) \<or> (97 \<le> n \<and> n \<le> 122) \<or> c \<in> set ''-_.~'' then [c]
     else if c = CHR '' '' then ''+''
     else [CHR ''%'', upper_hex (n div 16), upper_hex (n mod 16)]) s)"

definition query_encode :: "query \<Rightarrow> string" where
  "query_encode q = Join (concat (map (\<lambda>k. map (\<lambda>v. query_escape k @ ''='' @ query_escape v) (case mget q k of Some vs \<Rightarrow> vs | None \<Rightarrow> []))
     (sort (mkeys q)))) ''&''"

definition link_url :: "string \<Rightarrow> query \<Rightarrow> int \<Rightarrow> int \<Rightarrow> string" where
  "link_url path q perPage p =
     ''<'' @ path @ ''?'' @ query_encode (mput ''per_page'' [Itoa perPage] (mput ''page'' [Itoa p] (mdel ''page'' q))) @ ''>''"

definition buildLinkHeader :: "string \<Rightarrow> query \<Rightarrow> int \<Rightarrow> int \<Rightarrow> int \<Rightarrow> string" where
  "buildLinkHeader path q page perPage lastPage =
     (let url = link_url path q perPage in
      if lastPage \<le> 1 then []
      else Join ((if page < lastPage then [url (page + 1) @ ''; rel=\"next\"'', url lastPage @ ''; rel=\"last\"''] else []) @
                 (if 1 < page then [url 1 @ ''; rel=\"first\"'', url (page - 1) @ ''; rel=\"prev\"''] else [])) '', '')"

text \<open>
  The slice of a page. The product is computed in 64 bits; with a large page number it wraps, the slice starts before the
  list and the handler panics: \<open>None\<close>.
\<close>

definition page_start :: "int \<Rightarrow> int \<Rightarrow> int" where
  "page_start page perPage = sint (word_of_int ((page - 1) * perPage) :: 64 word)"

definition page_slice :: "int \<Rightarrow> int \<Rightarrow> 'a list \<Rightarrow> 'a list option" where
  "page_slice page perPage items =
     (let n = int (length items); start = min n (page_start page perPage); stop = min n (start + perPage) in
      if 0 \<le> start \<and> start \<le> stop then Some (take (nat (stop - start)) (drop (nat start) items)) else None)"

definition last_page :: "int \<Rightarrow> int \<Rightarrow> int" where
  "last_page perPage n = (if 0 < n then (n + perPage - 1) div perPage else 1)"

definition paginateAndLink :: "string \<Rightarrow> query \<Rightarrow> json list \<Rightarrow> Answer" where
  "paginateAndLink path q items =
     (let (page, perPage) = parsePagination q in
      case page_slice page perPage items of
        None \<Rightarrow> panicked
      | Some page_items \<Rightarrow>
          (writeJSON 200 (JArr page_items))\<lparr>an_Link := buildLinkHeader path q page perPage (last_page perPage (int (length items)))\<rparr>)"
end
