(* ===== verification/Access.thy ===== *)
theory Access
  imports TrackerStore Rest "HOL-Library.Monad_Syntax"
begin

text \<open>
  Who a request is from and what it may do: the authentication of \<open>ghHeadersMiddleware\<close> (\<open>gh_middleware.go\<close>), the decorator
  \<open>requirePerm\<close> (\<open>gh_apps_perms.go\<close>) and the checks on repositories and organizations (\<open>rbac.go\<close>).
\<close>

section \<open>Authentication\<close>

text \<open>What the middleware puts into the context of a request.\<close>

record Ctx =
  cx_User :: "User option"
  cx_App :: "App option"
  cx_Installation :: "Installation option"
  cx_InstallationToken :: "InstallationToken option"
  cx_UserToServerToken :: "UserToServerToken option"

definition no_ctx :: Ctx where
  "no_ctx = \<lparr>cx_User = None, cx_App = None, cx_Installation = None, cx_InstallationToken = None, cx_UserToServerToken = None\<rparr>"

definition looksLikeJWT :: "string \<Rightarrow> bool" where
  "looksLikeJWT s \<longleftrightarrow> HasPrefix s ''eyJ'' \<and> length (filter (\<lambda>c. c = CHR ''.'') s) = 2"

definition LookupToken :: "string \<Rightarrow> Forge \<Rightarrow> (Token \<times> User option) option" where
  "LookupToken tokenStr st = map_option (\<lambda>t. (t, mget (fg_Users st) (tk_UserID t))) (mget (va_Tokens (fg_Vault st)) tokenStr)"

text \<open>The user an installation token acts as.\<close>

definition bot_user :: "App \<Rightarrow> User" where
  "bot_user app = \<lparr>us_ID = - ap_ID app, us_NodeID = [], us_Login = ap_Slug app @ ''[bot]'', us_Name = [], us_Email = [], us_AvatarURL = [],
     us_Bio = [], us_Type = ''Bot'', us_SiteAdmin = False, us_CreatedAt = 0, us_UpdatedAt = 0\<rparr>"

definition bearer :: "string \<Rightarrow> string" where
  "bearer auth =
     (if HasPrefix auth ''token '' then TrimPrefix auth ''token '' else if HasPrefix auth ''Bearer '' then TrimPrefix auth ''Bearer '' else [])"

text \<open>\<open>verify\<close> checks the signature of an app's JWT (\<open>parseAndVerifyAppJWT\<close>, which verifies with the RSA library).\<close>

definition authenticate :: "(string \<Rightarrow> App option) \<Rightarrow> int \<Rightarrow> string \<Rightarrow> Forge \<Rightarrow> Ctx" where
  "authenticate verify now auth st =
     (let tokenStr = bearer auth; v = fg_Vault st in
      if tokenStr = [] then no_ctx
      else if looksLikeJWT tokenStr then no_ctx\<lparr>cx_App := verify tokenStr\<rparr>
      else if HasPrefix tokenStr ''ghs_'' then
        (case LookupInstallationToken now tokenStr v of
           None \<Rightarrow> no_ctx
         | Some (tok, inst) \<Rightarrow> no_ctx\<lparr>cx_Installation := inst, cx_InstallationToken := Some tok,
                                 cx_User := map_option bot_user (GetApp (it_AppID tok) v)\<rparr>)
      else if HasPrefix tokenStr ''gho_'' \<or> HasPrefix tokenStr ''ghu_'' then
        (case LookupUserToServerToken now tokenStr v of
           None \<Rightarrow> no_ctx
         | Some tok \<Rightarrow> no_ctx\<lparr>cx_UserToServerToken := Some tok, cx_User := mget (fg_Users st) (ut_UserID tok)\<rparr>)
      else if HasPrefix tokenStr ''ghr_'' then no_ctx
      else (case LookupToken tokenStr st of None \<Rightarrow> no_ctx | Some (_, user) \<Rightarrow> no_ctx\<lparr>cx_User := user\<rparr>))"

section \<open>Permissions\<close>

datatype permLevel = permRead | permWrite | permAdmin

primrec level_rank :: "permLevel \<Rightarrow> nat" where
  "level_rank permRead = 0" | "level_rank permWrite = 1" | "level_rank permAdmin = 2"

definition parsePermLevel :: "string \<Rightarrow> permLevel" where
  "parsePermLevel s = (if ToLower s = ''admin'' then permAdmin else if ToLower s = ''write'' then permWrite else permRead)"

definition hasPerm :: "string gomap option \<Rightarrow> string \<Rightarrow> permLevel \<Rightarrow> bool" where
  "hasPerm perms scope level =
     (case perms of
        None \<Rightarrow> False
      | Some perms \<Rightarrow>
          (case mget perms scope of
             None \<Rightarrow> scope = ''metadata'' \<and> level = permRead
           | Some got \<Rightarrow> level_rank level \<le> level_rank (parsePermLevel got)))"

definition classic_scopes :: "string \<Rightarrow> string list" where
  "classic_scopes scopes = filter (\<lambda>s. s \<noteq> []) (map TrimSpace (Split scopes CHR '',''))"

definition classicScopeCovers :: "string \<Rightarrow> string \<Rightarrow> permLevel \<Rightarrow> bool" where
  "classicScopeCovers scopes scope level =
     (let has = (\<lambda>s. s \<in> set (classic_scopes scopes)); upto_write = level_rank level \<le> 1 in
      if scope = ''metadata'' then level = permRead \<or> has ''repo'' \<or> has ''public_repo''
      else if scope \<in> {''contents'', ''issues'', ''pull_requests''} then (has ''repo'' \<or> has ''public_repo'') \<and> upto_write
      else if scope = ''checks'' then has ''repo'' \<and> upto_write
      else if scope = ''administration'' then has ''admin:repo_hook'' \<and> upto_write
      else if scope \<in> {''members'', ''organization_administration''} then
        (if has ''admin:org'' then True else if has ''write:org'' then upto_write else has ''read:org'' \<and> level = permRead)
      else if scope = ''secrets'' then has ''repo'' \<and> upto_write
      else False)"

definition userToServerHasPerm :: "UserToServerToken \<Rightarrow> string \<Rightarrow> permLevel \<Rightarrow> Vault \<Rightarrow> bool" where
  "userToServerHasPerm tok scope level v =
     (if 0 < ut_AppID tok then
        (case find (\<lambda>inst. in_AppID inst = ut_AppID tok) (map snd (va_Installations v)) of
           Some inst \<Rightarrow> hasPerm (in_Permissions inst) scope level
         | None \<Rightarrow> False)
      else classicScopeCovers (ut_Scopes tok) scope level)"

text \<open>The answer the decorator refuses the request with, or \<open>None\<close> when it calls the handler.\<close>

definition requirePerm :: "string \<Rightarrow> permLevel \<Rightarrow> Ctx \<Rightarrow> Forge \<Rightarrow> Answer option" where
  "requirePerm scope level ctx st =
     (let refused = writeGHError 403 ''Resource not accessible by integration'' in
      case cx_InstallationToken ctx of
        Some tok \<Rightarrow> if hasPerm (it_Permissions tok) scope level then None else Some refused
      | None \<Rightarrow>
          (case cx_UserToServerToken ctx of
             Some tok \<Rightarrow> if userToServerHasPerm tok scope level (fg_Vault st) then None else Some refused
           | None \<Rightarrow>
               if cx_App ctx \<noteq> None then Some (writeGHError 403 ''JWT can only be used for app-meta endpoints'')
               else if cx_User ctx \<noteq> None then None
               else Some badCredentials))"

section \<open>Repositories and organizations\<close>

definition canAdminOrg :: "User \<Rightarrow> Org \<Rightarrow> Forge \<Rightarrow> bool" where
  "canAdminOrg user org st = (case GetMembership (og_Login org) (us_ID user) st of Some m \<Rightarrow> mb_Role m = ''admin'' | None \<Rightarrow> False)"

definition permission_level :: "string \<Rightarrow> nat" where
  "permission_level p = (if p = ''pull'' then 1 else if p = ''push'' then 2 else if p = ''admin'' then 3 else 0)"

definition permissionAtLeast :: "string \<Rightarrow> string \<Rightarrow> bool" where
  "permissionAtLeast perm minPerm \<longleftrightarrow> permission_level minPerm \<le> permission_level perm"

definition grants_access :: "Org \<Rightarrow> int \<Rightarrow> string \<Rightarrow> string \<Rightarrow> Team \<Rightarrow> bool" where
  "grants_access org userID repoFullName minPermission team \<longleftrightarrow>
     te_OrgID team = og_ID org \<and> permissionAtLeast (te_Permission team) minPermission \<and>
     repoFullName \<in> set (te_RepoNames team) \<and> userID \<in> set (te_MemberIDs team)"

definition hasTeamAccess :: "string \<Rightarrow> int \<Rightarrow> string \<Rightarrow> string \<Rightarrow> Forge \<Rightarrow> bool" where
  "hasTeamAccess orgLogin userID repoFullName minPermission st =
     (case GetOrg orgLogin st of
        None \<Rightarrow> False
      | Some org \<Rightarrow>
          list_ex (\<lambda>(_, i). case mget (fg_Teams st) i of Some team \<Rightarrow> grants_access org userID repoFullName minPermission team | None \<Rightarrow> False)
            (fg_TeamsBySlug st))"

definition owned_by :: "Repo \<Rightarrow> User \<Rightarrow> bool" where
  "owned_by repo user \<longleftrightarrow> (case re_Owner repo of Some owner \<Rightarrow> us_ID owner = us_ID user | None \<Rightarrow> False)"

definition canReadRepo :: "User option \<Rightarrow> Repo \<Rightarrow> Forge \<Rightarrow> bool" where
  "canReadRepo user repo st =
     (if \<not> re_Private repo then True
      else case user of
        None \<Rightarrow> False
      | Some user \<Rightarrow>
          if owned_by repo user then True
          else case SplitN2 (re_FullName repo) CHR ''/'' of
            [orgLogin, _] \<Rightarrow>
              (if GetOrg orgLogin st = None then False
               else case GetMembership orgLogin (us_ID user) st of
                 Some m \<Rightarrow> if mb_State m = ''active'' then True else hasTeamAccess orgLogin (us_ID user) (re_FullName repo) ''pull'' st
               | None \<Rightarrow> hasTeamAccess orgLogin (us_ID user) (re_FullName repo) ''pull'' st)
          | _ \<Rightarrow> False)"

definition canAdminRepo :: "User option \<Rightarrow> Repo \<Rightarrow> Forge \<Rightarrow> bool" where
  "canAdminRepo user repo st =
     (case user of
        None \<Rightarrow> False
      | Some user \<Rightarrow>
          if owned_by repo user then True
          else case SplitN2 (re_FullName repo) CHR ''/'' of
            [orgLogin, _] \<Rightarrow> (case GetOrg orgLogin st of None \<Rightarrow> False | Some org \<Rightarrow> canAdminOrg user org st)
          | _ \<Rightarrow> False)"
end
