(* ===== verification/ForgeJson.thy ===== *)
theory ForgeJson
  imports Access
begin

text \<open>
  The JSON of the objects: \<open>userToJSON\<close> and its kin in the REST files. \<open>t\<close> formats a time (RFC 3339), \<open>base\<close> is the address of the
  server as the request saw it. A map of Go is the list of its members in the order of the source.
\<close>

definition jtime :: "ForgeWorld \<Rightarrow> int \<Rightarrow> json" where
  "jtime w t = JStr (fw_rfc3339 w t)"

definition jopt_time :: "ForgeWorld \<Rightarrow> int option \<Rightarrow> json" where
  "jopt_time w t = (case t of Some t \<Rightarrow> jtime w t | None \<Rightarrow> JNull)"

definition jopt :: "('a \<Rightarrow> json) \<Rightarrow> 'a option \<Rightarrow> json" where
  "jopt f x = (case x of Some x \<Rightarrow> f x | None \<Rightarrow> JNull)"

definition userToJSON :: "ForgeWorld \<Rightarrow> User \<Rightarrow> json" where
  "userToJSON w u = JObj
     [(''login'', JStr (us_Login u)), (''id'', JInt (us_ID u)), (''node_id'', JStr (us_NodeID u)), (''avatar_url'', JStr (us_AvatarURL u)),
      (''url'', JStr (''/api/v3/users/'' @ us_Login u)), (''html_url'', JStr (''/'' @ us_Login u)), (''type'', JStr (us_Type u)),
      (''site_admin'', JBool (us_SiteAdmin u)), (''name'', JStr (us_Name u)), (''email'', JStr (us_Email u)), (''bio'', JStr (us_Bio u)),
      (''created_at'', jtime w (us_CreatedAt u)), (''updated_at'', jtime w (us_UpdatedAt u))]"

definition issueLabelToJSON :: "IssueLabel \<Rightarrow> string \<Rightarrow> string \<Rightarrow> json" where
  "issueLabelToJSON l base repoFullName = JObj
     [(''id'', JInt (lb_ID l)), (''node_id'', JStr (lb_NodeID l)), (''url'', JStr (base @ ''/api/v3/repos/'' @ repoFullName @ ''/labels/'' @ lb_Name l)),
      (''name'', JStr (lb_Name l)), (''description'', JStr (lb_Description l)), (''color'', JStr (lb_Color l)), (''default'', JBool (lb_Default l))]"

definition milestoneToJSON :: "ForgeWorld \<Rightarrow> Milestone \<Rightarrow> string \<Rightarrow> string \<Rightarrow> json" where
  "milestoneToJSON w ms base repoFullName = JObj
     [(''id'', JInt (mi_ID ms)), (''node_id'', JStr (mi_NodeID ms)),
      (''url'', JStr (base @ ''/api/v3/repos/'' @ repoFullName @ ''/milestones/'' @ Itoa (mi_Number ms))),
      (''html_url'', JStr (base @ ''/'' @ repoFullName @ ''/milestone/'' @ Itoa (mi_Number ms))), (''number'', JInt (mi_Number ms)),
      (''title'', JStr (mi_Title ms)), (''description'', JStr (mi_Description ms)), (''state'', JStr (mi_State ms)),
      (''due_on'', jopt_time w (mi_DueOn ms)), (''created_at'', jtime w (mi_CreatedAt ms)), (''updated_at'', jtime w (mi_UpdatedAt ms))]"

text \<open>The parts that issues and pull requests share: the author, and the labels, assignees and milestone that still exist.\<close>

definition users_json :: "ForgeWorld \<Rightarrow> Forge \<Rightarrow> int list \<Rightarrow> json" where
  "users_json w st ids = JArr (map (userToJSON w) (List.map_filter (mget (fg_Users st)) ids))"

definition labels_json :: "Forge \<Rightarrow> string \<Rightarrow> string \<Rightarrow> int list \<Rightarrow> json" where
  "labels_json st base repoFullName ids =
     JArr (map (\<lambda>l. issueLabelToJSON l base repoFullName) (List.map_filter (mget (fg_Labels st)) ids))"

definition milestone_json :: "ForgeWorld \<Rightarrow> Forge \<Rightarrow> string \<Rightarrow> string \<Rightarrow> int \<Rightarrow> json" where
  "milestone_json w st base repoFullName i =
     (if 0 < i then jopt (\<lambda>ms. milestoneToJSON w ms base repoFullName) (mget (fg_Milestones st) i) else JNull)"

definition issueToJSON :: "ForgeWorld \<Rightarrow> Issue \<Rightarrow> Forge \<Rightarrow> string \<Rightarrow> string \<Rightarrow> json" where
  "issueToJSON w issue st base repoFullName =
     (let numStr = Itoa (iu_Number issue);
          commentCount = length (values_where (\<lambda>c. co_ParentType c = ''issue'' \<and> co_IssueID c = iu_ID issue) (fg_Comments st))
      in JObj
     [(''id'', JInt (iu_ID issue)), (''node_id'', JStr (iu_NodeID issue)),
      (''url'', JStr (base @ ''/api/v3/repos/'' @ repoFullName @ ''/issues/'' @ numStr)),
      (''html_url'', JStr (base @ ''/'' @ repoFullName @ ''/issues/'' @ numStr)),
      (''repository_url'', JStr (base @ ''/api/v3/repos/'' @ repoFullName)), (''number'', JInt (iu_Number issue)),
      (''title'', JStr (iu_Title issue)), (''body'', JStr (iu_Body issue)), (''state'', JStr (ToLower (iu_State issue))),
      (''state_reason'', JStr (iu_StateReason issue)), (''user'', jopt (userToJSON w) (mget (fg_Users st) (iu_AuthorID issue))),
      (''labels'', labels_json st base repoFullName (iu_LabelIDs issue)), (''assignees'', users_json w st (iu_AssigneeIDs issue)),
      (''milestone'', milestone_json w st base repoFullName (iu_MilestoneID issue)), (''locked'', JBool (iu_Locked issue)),
      (''comments'', JInt (int commentCount)), (''created_at'', jtime w (iu_CreatedAt issue)),
      (''updated_at'', jtime w (iu_UpdatedAt issue)), (''closed_at'', jopt_time w (iu_ClosedAt issue))])"

definition commentToJSON :: "ForgeWorld \<Rightarrow> Comment \<Rightarrow> Forge \<Rightarrow> string \<Rightarrow> string \<Rightarrow> int \<Rightarrow> json" where
  "commentToJSON w c st base repoFullName issueNumber = JObj
     [(''id'', JInt (co_ID c)), (''node_id'', JStr (co_NodeID c)),
      (''url'', JStr (base @ ''/api/v3/repos/'' @ repoFullName @ ''/issues/comments/'' @ Itoa (co_ID c))),
      (''html_url'', JStr (base @ ''/'' @ repoFullName @ ''/issues/'' @ Itoa issueNumber @ ''#issuecomment-'' @ Itoa (co_ID c))),
      (''issue_url'', JStr (base @ ''/api/v3/repos/'' @ repoFullName @ ''/issues/'' @ Itoa issueNumber)), (''body'', JStr (co_Body c)),
      (''user'', jopt (userToJSON w) (mget (fg_Users st) (co_AuthorID c))), (''created_at'', jtime w (co_CreatedAt c)),
      (''updated_at'', jtime w (co_UpdatedAt c))]"

text \<open>The commit of a branch is a hash of the identifier of the pull request.\<close>

definition fake_sha :: "ForgeWorld \<Rightarrow> string \<Rightarrow> int \<Rightarrow> json" where
  "fake_sha w kind i = JStr (take 40 (fw_sha256 w (kind @ ''-'' @ Itoa i)))"

definition pullRequestToJSON :: "ForgeWorld \<Rightarrow> PullRequest \<Rightarrow> Forge \<Rightarrow> string \<Rightarrow> string \<Rightarrow> json" where
  "pullRequestToJSON w pr st base repoFullName =
     (let numStr = Itoa (pu_Number pr); merged = (pu_State pr = ''MERGED'');
          reviewCount = length (values_where (\<lambda>r. rv_PRID r = pu_ID pr) (fg_PRReviews st)) in JObj
     [(''id'', JInt (pu_ID pr)), (''node_id'', JStr (pu_NodeID pr)),
      (''url'', JStr (base @ ''/api/v3/repos/'' @ repoFullName @ ''/pulls/'' @ numStr)),
      (''html_url'', JStr (base @ ''/'' @ repoFullName @ ''/pull/'' @ numStr)),
      (''diff_url'', JStr (base @ ''/'' @ repoFullName @ ''/pull/'' @ numStr @ ''.diff'')),
      (''patch_url'', JStr (base @ ''/'' @ repoFullName @ ''/pull/'' @ numStr @ ''.patch'')), (''number'', JInt (pu_Number pr)),
      (''title'', JStr (pu_Title pr)), (''body'', JStr (pu_Body pr)),
      (''state'', JStr (if merged then ''closed'' else ToLower (pu_State pr))), (''draft'', JBool (pu_IsDraft pr)),
      (''user'', jopt (userToJSON w) (mget (fg_Users st) (pu_AuthorID pr))),
      (''head'', JObj [(''ref'', JStr (pu_HeadRefName pr)), (''sha'', fake_sha w ''head'' (pu_ID pr)),
                       (''label'', JStr (repoFullName @ '':'' @ pu_HeadRefName pr))]),
      (''base'', JObj [(''ref'', JStr (pu_BaseRefName pr)), (''sha'', fake_sha w ''base'' (pu_ID pr)),
                       (''label'', JStr (repoFullName @ '':'' @ pu_BaseRefName pr))]),
      (''labels'', labels_json st base repoFullName (pu_LabelIDs pr)), (''assignees'', users_json w st (pu_AssigneeIDs pr)),
      (''milestone'', milestone_json w st base repoFullName (pu_MilestoneID pr)), (''requested_reviewers'', JArr []),
      (''merged'', JBool merged), (''mergeable'', JBool (pu_Mergeable pr = ''MERGEABLE'')), (''merged_at'', jopt_time w (pu_MergedAt pr)),
      (''merged_by'', if 0 < pu_MergedByID pr then jopt (userToJSON w) (mget (fg_Users st) (pu_MergedByID pr)) else JNull),
      (''additions'', JInt (pu_Additions pr)), (''deletions'', JInt (pu_Deletions pr)), (''changed_files'', JInt (pu_ChangedFiles pr)),
      (''comments'', JInt 0), (''review_comments'', JInt (int reviewCount)), (''commits'', JInt 1),
      (''created_at'', jtime w (pu_CreatedAt pr)), (''updated_at'', jtime w (pu_UpdatedAt pr)), (''closed_at'', jopt_time w (pu_ClosedAt pr))])"

definition reviewToJSON :: "ForgeWorld \<Rightarrow> PullRequestReview \<Rightarrow> Forge \<Rightarrow> string \<Rightarrow> string \<Rightarrow> int \<Rightarrow> json" where
  "reviewToJSON w review st base repoFullName prNumber = JObj
     [(''id'', JInt (rv_ID review)), (''node_id'', JStr (rv_NodeID review)),
      (''user'', jopt (userToJSON w) (mget (fg_Users st) (rv_AuthorID review))), (''body'', JStr (rv_Body review)),
      (''state'', JStr (rv_State review)),
      (''html_url'', JStr (base @ ''/'' @ repoFullName @ ''/pull/'' @ Itoa prNumber @ ''#pullrequestreview-'' @ Itoa (rv_ID review))),
      (''pull_request_url'', JStr (base @ ''/api/v3/repos/'' @ repoFullName @ ''/pulls/'' @ Itoa prNumber)),
      (''author_association'', JStr ''OWNER''), (''submitted_at'', jtime w (rv_CreatedAt review))]"

definition orgToJSON :: "ForgeWorld \<Rightarrow> Org \<Rightarrow> string \<Rightarrow> json" where
  "orgToJSON w org base =
     (let url = base @ ''/api/v3/orgs/'' @ og_Login org in JObj
     [(''login'', JStr (og_Login org)), (''id'', JInt (og_ID org)), (''node_id'', JStr (og_NodeID org)), (''url'', JStr url),
      (''repos_url'', JStr (url @ ''/repos'')), (''events_url'', JStr (url @ ''/events'')), (''hooks_url'', JStr (url @ ''/hooks'')),
      (''issues_url'', JStr (url @ ''/issues'')), (''members_url'', JStr (url @ ''/members{/member}'')),
      (''public_members_url'', JStr (url @ ''/public_members{/member}'')), (''avatar_url'', JStr (og_AvatarURL org)),
      (''description'', JStr (og_Description org)), (''name'', JStr (og_Name org)), (''email'', JStr (og_Email org)),
      (''type'', JStr (og_Type org)), (''html_url'', JStr (base @ ''/'' @ og_Login org)), (''created_at'', jtime w (og_CreatedAt org)),
      (''updated_at'', jtime w (og_UpdatedAt org))])"

definition teamToJSON :: "ForgeWorld \<Rightarrow> Team \<Rightarrow> Org \<Rightarrow> string \<Rightarrow> json" where
  "teamToJSON w team org base =
     (let url = base @ ''/api/v3/orgs/'' @ og_Login org @ ''/teams/'' @ te_Slug team in JObj
     [(''id'', JInt (te_ID team)), (''node_id'', JStr (te_NodeID team)), (''url'', JStr url),
      (''html_url'', JStr (base @ ''/orgs/'' @ og_Login org @ ''/teams/'' @ te_Slug team)), (''name'', JStr (te_Name team)),
      (''slug'', JStr (te_Slug team)), (''description'', JStr (te_Description team)), (''privacy'', JStr (te_Privacy team)),
      (''permission'', JStr (te_Permission team)), (''members_url'', JStr (url @ ''/members{/member}'')),
      (''repositories_url'', JStr (url @ ''/repos'')), (''organization'', orgToJSON w org base),
      (''created_at'', jtime w (te_CreatedAt team)), (''updated_at'', jtime w (te_UpdatedAt team))])"

definition membershipToJSON :: "ForgeWorld \<Rightarrow> Membership \<Rightarrow> User \<Rightarrow> Org \<Rightarrow> json" where
  "membershipToJSON w m user org = JObj
     [(''url'', JStr (''/api/v3/orgs/'' @ og_Login org @ ''/memberships/'' @ us_Login user)), (''state'', JStr (mb_State m)),
      (''role'', JStr (mb_Role m)), (''user'', userToJSON w user),
      (''organization'', JObj [(''login'', JStr (og_Login org)), (''id'', JInt (og_ID org))])]"

definition repoToJSON :: "ForgeWorld \<Rightarrow> Repo \<Rightarrow> string \<Rightarrow> json" where
  "repoToJSON w repo base = JObj
     [(''id'', JInt (re_ID repo)), (''node_id'', JStr (re_NodeID repo)), (''name'', JStr (re_Name repo)),
      (''full_name'', JStr (re_FullName repo)), (''owner'', case re_Owner repo of Some u \<Rightarrow> userToJSON w u | None \<Rightarrow> JObj []),
      (''private'', JBool (re_Private repo)), (''html_url'', JStr (base @ ''/'' @ re_FullName repo)),
      (''description'', JStr (re_Description repo)), (''fork'', JBool (re_Fork repo)),
      (''url'', JStr (base @ ''/api/v3/repos/'' @ re_FullName repo)), (''clone_url'', JStr (base @ ''/'' @ re_FullName repo @ ''.git'')),
      (''ssh_url'', JStr (''git@bleephub.local:'' @ re_FullName repo @ ''.git'')), (''default_branch'', JStr (re_DefaultBranch repo)),
      (''visibility'', JStr (re_Visibility repo)), (''language'', JStr (re_Language repo)), (''archived'', JBool (re_Archived repo)),
      (''stargazers_count'', JInt (re_StargazersCount repo)), (''topics'', JArr (map JStr (re_Topics repo))),
      (''permissions'', JObj [(''admin'', JBool True), (''push'', JBool True), (''pull'', JBool True)]),
      (''created_at'', jtime w (re_CreatedAt repo)), (''updated_at'', jtime w (re_UpdatedAt repo)), (''pushed_at'', jtime w (re_PushedAt repo))]"
end
