(* ===== verification/IssueHandlers.thy ===== *)
theory IssueHandlers
  imports ForgeJson
begin

text \<open>
  The handlers of labels, milestones, issues and comments: \<open>gh_labels_rest.go\<close>, \<open>gh_issues_rest.go\<close>, \<open>gh_issue_moderation.go\<close>. A
  handler goes from the store before a request to the store after it and the answer; \<open>routed\<close> puts the permission decorator
  of its route in front.
\<close>

section \<open>Requests\<close>

text \<open>
  \<open>rq_Auth\<close> is the \<open>Authorization\<close> header, \<open>rq_Ctx\<close> what the middleware made of it. \<open>rq_Path\<close> holds the values of the path pattern,
  \<open>rq_URL\<close> the path, \<open>rq_Form\<close> the values of a form, \<open>rq_Host\<close> and \<open>rq_Base\<close> the host and the address the request came to.
\<close>

record Request =
  rq_Auth :: string
  rq_Ctx :: Ctx
  rq_Path :: "string gomap"
  rq_URL :: string
  rq_Query :: query
  rq_Form :: "string gomap"
  rq_Body :: body
  rq_Host :: string
  rq_Base :: string

type_synonym handler = "ForgeWorld \<Rightarrow> Request \<Rightarrow> Forge \<Rightarrow> Forge \<times> Answer"

definition PathValue :: "Request \<Rightarrow> string \<Rightarrow> string" where
  "PathValue rq name = (case mget (rq_Path rq) name of Some v \<Rightarrow> v | None \<Rightarrow> [])"

text \<open>The checks with which the handlers open, each with the answer of its early return.\<close>

definition signed_in :: "Request \<Rightarrow> Forge \<Rightarrow> (User \<Rightarrow> Forge \<times> Answer) \<Rightarrow> Forge \<times> Answer" where
  "signed_in rq st k = (case cx_User (rq_Ctx rq) of None \<Rightarrow> (st, badCredentials) | Some user \<Rightarrow> k user)"

definition or_404 :: "Forge \<Rightarrow> 'a option \<Rightarrow> ('a \<Rightarrow> Forge \<times> Answer) \<Rightarrow> Forge \<times> Answer" where
  "or_404 st x k = (case x of None \<Rightarrow> (st, notFound) | Some y \<Rightarrow> k y)"

definition path_repo :: "Request \<Rightarrow> Forge \<Rightarrow> Repo option" where
  "path_repo rq st = GetRepo (PathValue rq ''owner'') (PathValue rq ''repo'') st"

definition path_number :: "Request \<Rightarrow> string \<Rightarrow> int option" where
  "path_number rq name = Atoi (PathValue rq name)"

definition repo_key :: "Request \<Rightarrow> string" where
  "repo_key rq = PathValue rq ''owner'' @ ''/'' @ PathValue rq ''repo''"

definition with_body :: "Request \<Rightarrow> Forge \<Rightarrow> ((string \<times> json) list \<Rightarrow> 'a option) \<Rightarrow> ('a \<Rightarrow> Forge \<times> Answer) \<Rightarrow> Forge \<times> Answer" where
  "with_body rq st dec k = (case Option.bind (decode_members (rq_Body rq)) dec of None \<Rightarrow> (st, badJSON) | Some req \<Rightarrow> k req)"

definition str_field :: "string \<Rightarrow> (string \<times> json) list \<Rightarrow> string option" where
  "str_field name = struct_field dec_string name []"

definition strs_field :: "string \<Rightarrow> (string \<times> json) list \<Rightarrow> string list option" where
  "strs_field name = struct_field dec_strings name []"

definition routed :: "(string \<times> permLevel) option \<Rightarrow> handler \<Rightarrow> handler" where
  "routed perm h w rq st =
     (case perm of
        None \<Rightarrow> h w rq st
      | Some (scope, level) \<Rightarrow> (case requirePerm scope level (rq_Ctx rq) st of Some refused \<Rightarrow> (st, refused) | None \<Rightarrow> h w rq st))"

definition listed :: "Request \<Rightarrow> ('a \<Rightarrow> json) \<Rightarrow> 'a list \<Rightarrow> Answer" where
  "listed rq f xs = paginateAndLink (rq_URL rq) (rq_Query rq) (map f xs)"

section \<open>Labels\<close>

definition label_req :: "(string \<times> json) list \<Rightarrow> (string \<times> string \<times> string) option" where
  "label_req ms = do { name \<leftarrow> str_field ''name'' ms; color \<leftarrow> str_field ''color'' ms; description \<leftarrow> str_field ''description'' ms;
                       Some (name, color, description) }"

definition handleCreateLabel :: handler where
  "handleCreateLabel w rq st =
     signed_in rq st (\<lambda>_. or_404 st (path_repo rq st) (\<lambda>repo. with_body rq st label_req (\<lambda>(name, color, description).
       if name = [] then (st, writeGHValidationError ''Label'' ''name'' ''missing_field'')
       else case CreateLabel w (re_ID repo) name description color st of
         (st, None) \<Rightarrow> (st, writeGHValidationError ''Label'' ''name'' ''already_exists'')
       | (st, Some label) \<Rightarrow> (st, writeJSON 201 (issueLabelToJSON label (rq_Base rq) (re_FullName repo))))))"

definition handleListLabels :: handler where
  "handleListLabels w rq st =
     or_404 st (path_repo rq st) (\<lambda>repo.
       (st, listed rq (\<lambda>l. issueLabelToJSON l (rq_Base rq) (re_FullName repo)) (ListLabels (re_ID repo) st)))"

definition handleGetLabel :: handler where
  "handleGetLabel w rq st =
     or_404 st (path_repo rq st) (\<lambda>repo. or_404 st (GetLabelByName (re_ID repo) (PathValue rq ''name'') st) (\<lambda>label.
       (st, writeJSON 200 (issueLabelToJSON label (rq_Base rq) (re_FullName repo)))))"

definition edit_label :: "(string \<times> json) list \<Rightarrow> IssueLabel \<Rightarrow> IssueLabel" where
  "edit_label req l =
     l\<lparr>lb_Name := or_keep (member_string ''new_name'' req) (lb_Name l), lb_Color := or_keep (member_string ''color'' req) (lb_Color l),
       lb_Description := or_keep (member_string ''description'' req) (lb_Description l)\<rparr>"

text \<open>The objects the code reads back after an update exist: a missing one would be a nil dereference.\<close>

definition read_back :: "Forge \<Rightarrow> 'a option \<Rightarrow> ('a \<Rightarrow> Answer) \<Rightarrow> Forge \<times> Answer" where
  "read_back st x k = (st, case x of Some y \<Rightarrow> k y | None \<Rightarrow> panicked)"

definition handleUpdateLabel :: handler where
  "handleUpdateLabel w rq st =
     signed_in rq st (\<lambda>_. or_404 st (path_repo rq st) (\<lambda>repo. or_404 st (GetLabelByName (re_ID repo) (PathValue rq ''name'') st) (\<lambda>label.
       with_body rq st Some (\<lambda>req.
         let (st, _) = UpdateLabel (lb_ID label) (edit_label req) st
         in read_back st (GetLabel (lb_ID label) st) (\<lambda>l. writeJSON 200 (issueLabelToJSON l (rq_Base rq) (re_FullName repo)))))))"

definition handleDeleteLabel :: handler where
  "handleDeleteLabel w rq st =
     signed_in rq st (\<lambda>_. or_404 st (path_repo rq st) (\<lambda>repo. or_404 st (GetLabelByName (re_ID repo) (PathValue rq ''name'') st) (\<lambda>label.
       (fst (DeleteLabel (lb_ID label) st), writeHeader 204))))"

section \<open>Milestones\<close>

definition milestone_req :: "(string \<times> json) list \<Rightarrow> (string \<times> string \<times> string \<times> string) option" where
  "milestone_req ms = do { title \<leftarrow> str_field ''title'' ms; description \<leftarrow> str_field ''description'' ms; state \<leftarrow> str_field ''state'' ms;
                           dueOn \<leftarrow> str_field ''due_on'' ms; Some (title, description, state, dueOn) }"

definition handleCreateMilestone :: handler where
  "handleCreateMilestone w rq st =
     signed_in rq st (\<lambda>_. or_404 st (path_repo rq st) (\<lambda>repo. with_body rq st milestone_req (\<lambda>(title, description, state, dueOn).
       if title = [] then (st, writeGHError 422 ''Validation Failed'')
       else
         let dueOn = (if dueOn = [] then None else fw_parse_time w dueOn) in
         case CreateMilestone w (re_ID repo) title description state dueOn st of
           (st, None) \<Rightarrow> (st, writeGHError 422 ''Validation Failed'')
         | (st, Some ms) \<Rightarrow> (st, writeJSON 201 (milestoneToJSON w ms (rq_Base rq) (re_FullName repo))))))"

definition or_open :: "string \<Rightarrow> string" where
  "or_open state = (if state = [] then ''open'' else state)"

definition handleListMilestones :: handler where
  "handleListMilestones w rq st =
     or_404 st (path_repo rq st) (\<lambda>repo.
       (st, listed rq (\<lambda>ms. milestoneToJSON w ms (rq_Base rq) (re_FullName repo))
              (ListMilestones (re_ID repo) (or_open (query_get (rq_Query rq) ''state'')) st)))"

definition path_milestone :: "Request \<Rightarrow> Repo \<Rightarrow> Forge \<Rightarrow> Milestone option" where
  "path_milestone rq repo st = Option.bind (path_number rq ''number'') (\<lambda>num. GetMilestoneByNumber (re_ID repo) num st)"

definition handleGetMilestone :: handler where
  "handleGetMilestone w rq st =
     or_404 st (path_repo rq st) (\<lambda>repo. or_404 st (path_milestone rq repo st) (\<lambda>ms.
       (st, writeJSON 200 (milestoneToJSON w ms (rq_Base rq) (re_FullName repo)))))"

definition edit_milestone :: "(string \<times> json) list \<Rightarrow> Milestone \<Rightarrow> Milestone" where
  "edit_milestone req m =
     m\<lparr>mi_Title := or_keep (member_string ''title'' req) (mi_Title m),
       mi_Description := or_keep (member_string ''description'' req) (mi_Description m),
       mi_State := or_keep (member_string ''state'' req) (mi_State m)\<rparr>"

definition handleUpdateMilestone :: handler where
  "handleUpdateMilestone w rq st =
     signed_in rq st (\<lambda>_. or_404 st (path_repo rq st) (\<lambda>repo. or_404 st (path_milestone rq repo st) (\<lambda>ms.
       with_body rq st Some (\<lambda>req.
         let (st, _) = UpdateMilestone w (mi_ID ms) (edit_milestone req) st
         in read_back st (GetMilestone (mi_ID ms) st) (\<lambda>m. writeJSON 200 (milestoneToJSON w m (rq_Base rq) (re_FullName repo)))))))"

definition handleDeleteMilestone :: handler where
  "handleDeleteMilestone w rq st =
     signed_in rq st (\<lambda>_. or_404 st (path_repo rq st) (\<lambda>repo. or_404 st (path_milestone rq repo st) (\<lambda>ms.
       (fst (DeleteMilestone (mi_ID ms) st), writeHeader 204))))"

section \<open>Issues\<close>

definition resolve_labels :: "int \<Rightarrow> string list \<Rightarrow> Forge \<Rightarrow> int list" where
  "resolve_labels repoID names st = map lb_ID (List.map_filter (\<lambda>name. GetLabelByName repoID name st) names)"

definition resolve_users :: "string list \<Rightarrow> Forge \<Rightarrow> int list" where
  "resolve_users logins st = map us_ID (List.map_filter (\<lambda>login. LookupUserByLogin login st) logins)"

definition resolve_milestone :: "int \<Rightarrow> int \<Rightarrow> Forge \<Rightarrow> int" where
  "resolve_milestone repoID number st =
     (if 0 < number then (case GetMilestoneByNumber repoID number st of Some ms \<Rightarrow> mi_ID ms | None \<Rightarrow> 0) else 0)"

definition issue_req :: "(string \<times> json) list \<Rightarrow> (string \<times> string \<times> string list \<times> string list \<times> int) option" where
  "issue_req ms = do { title \<leftarrow> str_field ''title'' ms; body \<leftarrow> str_field ''body'' ms; labels \<leftarrow> strs_field ''labels'' ms;
                       assignees \<leftarrow> strs_field ''assignees'' ms; milestone \<leftarrow> struct_field dec_int ''milestone'' 0 ms;
                       Some (title, body, labels, assignees, milestone) }"

definition handleCreateIssue :: handler where
  "handleCreateIssue w rq st =
     signed_in rq st (\<lambda>user. or_404 st (path_repo rq st) (\<lambda>repo. with_body rq st issue_req (\<lambda>(title, body, labels, assignees, milestone).
       if title = [] then (st, writeGHValidationError ''Issue'' ''title'' ''missing_field'')
       else case CreateIssue w (re_ID repo) (us_ID user) title body (resolve_labels (re_ID repo) labels st) (resolve_users assignees st)
                   (resolve_milestone (re_ID repo) milestone st) st of
         (st, None) \<Rightarrow> (st, writeGHError 422 ''Issue creation failed'')
       | (st, Some issue) \<Rightarrow>
           let st = emitWebhookEvent (repo_key rq) ''issues'' ''opened'' st
           in (st, writeJSON 201 (issueToJSON w issue st (rq_Base rq) (re_FullName repo))))))"

definition state_filter :: "string \<Rightarrow> string" where
  "state_filter state = (if state = ''closed'' then ''CLOSED'' else if state = ''all'' then ''all'' else ''OPEN'')"

definition issueHasAllLabels :: "Issue \<Rightarrow> string list \<Rightarrow> Forge \<Rightarrow> bool" where
  "issueHasAllLabels issue labelNames st =
     list_all (\<lambda>name. list_ex (\<lambda>i. case GetLabel i st of Some l \<Rightarrow> lb_Name l = TrimSpace name | None \<Rightarrow> False) (iu_LabelIDs issue)) labelNames"

text \<open>An unknown assignee filters nothing.\<close>

definition matching_issues :: "Request \<Rightarrow> Repo \<Rightarrow> Forge \<Rightarrow> Issue list" where
  "matching_issues rq repo st =
     (let issues = ListIssues (re_ID repo) (state_filter (or_open (query_get (rq_Query rq) ''state''))) st;
          labels = query_get (rq_Query rq) ''labels'';
          issues = (if labels = [] then issues else filter (\<lambda>issue. issueHasAllLabels issue (Split labels CHR '','') st) issues);
          assignee = query_get (rq_Query rq) ''assignee''
      in if assignee = [] then issues
         else case LookupUserByLogin assignee st of
           None \<Rightarrow> issues
         | Some u \<Rightarrow> filter (\<lambda>issue. us_ID u \<in> set (iu_AssigneeIDs issue)) issues)"

definition handleListIssues :: handler where
  "handleListIssues w rq st =
     or_404 st (path_repo rq st) (\<lambda>repo.
       (st, listed rq (\<lambda>issue. issueToJSON w issue st (rq_Base rq) (re_FullName repo)) (matching_issues rq repo st)))"

definition path_issue :: "Request \<Rightarrow> Repo \<Rightarrow> Forge \<Rightarrow> Issue option" where
  "path_issue rq repo st = Option.bind (path_number rq ''number'') (\<lambda>num. GetIssueByNumber (re_ID repo) num st)"

definition handleGetIssue :: handler where
  "handleGetIssue w rq st =
     or_404 st (path_repo rq st) (\<lambda>repo. or_404 st (path_issue rq repo st) (\<lambda>issue.
       (st, writeJSON 200 (issueToJSON w issue st (rq_Base rq) (re_FullName repo)))))"

text \<open>The change of a \<open>PATCH\<close>; \<open>now\<close> is the reading a closing takes.\<close>

definition edit_issue :: "(string \<times> json) list \<Rightarrow> int \<Rightarrow> Issue \<Rightarrow> Issue" where
  "edit_issue req now i =
     (let i = i\<lparr>iu_Title := or_keep (member_string ''title'' req) (iu_Title i), iu_Body := or_keep (member_string ''body'' req) (iu_Body i)\<rparr>;
          state = member_string ''state'' req;
          i = (if state = Some ''closed'' then
                 i\<lparr>iu_State := ''CLOSED'', iu_ClosedAt := Some now, iu_StateReason := (if iu_StateReason i = [] then ''COMPLETED'' else iu_StateReason i)\<rparr>
               else if state = Some ''open'' then i\<lparr>iu_State := ''OPEN'', iu_ClosedAt := None, iu_StateReason := []\<rparr>
               else i)
      in case member_string ''state_reason'' req of Some v \<Rightarrow> i\<lparr>iu_StateReason := ToUpper v\<rparr> | None \<Rightarrow> i)"

definition state_action :: "string \<Rightarrow> string" where
  "state_action v = (if v = ''closed'' then ''closed'' else if v = ''open'' then ''reopened'' else ''edited'')"

definition emit_state :: "Request \<Rightarrow> string \<Rightarrow> (string \<times> json) list \<Rightarrow> Forge \<Rightarrow> Forge" where
  "emit_state rq event req st =
     (case member_string ''state'' req of Some v \<Rightarrow> emitWebhookEvent (repo_key rq) event (state_action v) st | None \<Rightarrow> st)"

definition handleUpdateIssue :: handler where
  "handleUpdateIssue w rq st =
     signed_in rq st (\<lambda>_. or_404 st (path_repo rq st) (\<lambda>repo. or_404 st (path_issue rq repo st) (\<lambda>issue. with_body rq st Some (\<lambda>req.
       let (st, _) = UpdateIssue w (iu_ID issue) (edit_issue req) st;
           st = emit_state rq ''issues'' req st
       in read_back st (GetIssue (iu_ID issue) st) (\<lambda>i. writeJSON 200 (issueToJSON w i st (rq_Base rq) (re_FullName repo)))))))"

section \<open>Comments\<close>

text \<open>The issue, or else the pull request, with the number: its kind, identifier, number and lock.\<close>

definition path_parent :: "Request \<Rightarrow> Repo \<Rightarrow> Forge \<Rightarrow> (string \<times> int \<times> int \<times> bool) option" where
  "path_parent rq repo st =
     Option.bind (path_number rq ''number'') (\<lambda>num.
       case GetIssueByNumber (re_ID repo) num st of
         Some i \<Rightarrow> Some (''issue'', iu_ID i, iu_Number i, iu_Locked i)
       | None \<Rightarrow> map_option (\<lambda>pr. (''pull_request'', pu_ID pr, pu_Number pr, pu_Locked pr)) (GetPullRequestByNumber (re_ID repo) num st))"

definition handleCreateIssueComment :: handler where
  "handleCreateIssueComment w rq st =
     signed_in rq st (\<lambda>user. or_404 st (path_repo rq st) (\<lambda>repo. or_404 st (path_parent rq repo st) (\<lambda>(parentType, parentID, number, locked).
       if locked then (st, writeGHError 403 ''Conversation is locked.'')
       else with_body rq st (str_field ''body'') (\<lambda>body.
         if body = [] then (st, writeGHError 422 ''Validation Failed'')
         else case CreateCommentFor w parentType parentID (us_ID user) body st of
           (st, None) \<Rightarrow> (st, writeGHError 422 ''Comment creation failed'')
         | (st, Some c) \<Rightarrow> (st, writeJSON 201 (commentToJSON w c st (rq_Base rq) (re_FullName repo) number))))))"

definition handleListIssueComments :: handler where
  "handleListIssueComments w rq st =
     or_404 st (path_repo rq st) (\<lambda>repo. or_404 st (path_parent rq repo st) (\<lambda>(parentType, parentID, number, _).
       (st, listed rq (\<lambda>c. commentToJSON w c st (rq_Base rq) (re_FullName repo) number) (ListCommentsFor parentType parentID st))))"

definition commentParentNumber :: "Comment \<Rightarrow> Forge \<Rightarrow> int" where
  "commentParentNumber c st =
     (if co_ParentType c = ''issue'' then (case mget (fg_Issues st) (co_IssueID c) of Some i \<Rightarrow> iu_Number i | None \<Rightarrow> 0)
      else if co_ParentType c = ''pull_request'' then (case mget (fg_PullRequests st) (co_IssueID c) of Some pr \<Rightarrow> pu_Number pr | None \<Rightarrow> 0)
      else 0)"

definition handleUpdateIssueComment :: handler where
  "handleUpdateIssueComment w rq st =
     signed_in rq st (\<lambda>user. or_404 st (path_repo rq st) (\<lambda>repo. or_404 st (path_number rq ''comment_id'') (\<lambda>i.
       with_body rq st (str_field ''body'') (\<lambda>body.
         if body = [] then (st, writeGHError 422 ''Validation Failed'')
         else case UpdateCommentBody w i (us_ID user) body st of
           (st, None) \<Rightarrow> (st, notFound)
         | (st, Some c) \<Rightarrow> (st, writeJSON 200 (commentToJSON w c st (rq_Base rq) (re_FullName repo) (commentParentNumber c st)))))))"

definition handleDeleteIssueComment :: "string \<Rightarrow> handler" where
  "handleDeleteIssueComment idStr w rq st =
     signed_in rq st (\<lambda>_. or_404 st (Atoi idStr) (\<lambda>i.
       case DeleteComment i st of (st, True) \<Rightarrow> (st, writeHeader 204) | (st, False) \<Rightarrow> (st, notFound)))"

section \<open>Locks\<close>

definition validLockReasons :: "string list" where
  "validLockReasons = [''off-topic'', ''too heated'', ''resolved'', ''spam'']"

text \<open>An empty body locks without a reason.\<close>

definition lock_reason :: "body \<Rightarrow> string option" where
  "lock_reason b = (if b = EmptyBody then Some [] else Option.bind (decode_members b) (str_field ''lock_reason''))"

definition handleLockIssue :: handler where
  "handleLockIssue w rq st =
     signed_in rq st (\<lambda>_. or_404 st (path_repo rq st) (\<lambda>repo. or_404 st (path_number rq ''number'') (\<lambda>num.
       case lock_reason (rq_Body rq) of
         None \<Rightarrow> (st, badJSON)
       | Some reason \<Rightarrow>
           if reason \<noteq> [] \<and> reason \<notin> set validLockReasons then (st, writeGHError 422 ''Invalid lock reason'')
           else case SetIssueOrPRLock (re_ID repo) num True reason st of (st, True) \<Rightarrow> (st, writeHeader 204) | (st, False) \<Rightarrow> (st, notFound))))"

definition handleUnlockIssue :: "string \<Rightarrow> handler" where
  "handleUnlockIssue numberStr w rq st =
     signed_in rq st (\<lambda>_. or_404 st (path_repo rq st) (\<lambda>repo. or_404 st (Atoi numberStr) (\<lambda>num.
       case SetIssueOrPRLock (re_ID repo) num False [] st of (st, True) \<Rightarrow> (st, writeHeader 204) | (st, False) \<Rightarrow> (st, notFound))))"

definition handleIssuesDeleteDispatch :: handler where
  "handleIssuesDeleteDispatch w rq st =
     (let p1 = PathValue rq ''p1''; p2 = PathValue rq ''p2'' in
      if p1 = ''comments'' then handleDeleteIssueComment p2 w rq st
      else if p2 = ''lock'' then handleUnlockIssue p1 w rq st
      else (st, notFound))"

section \<open>The labels of an issue\<close>

text \<open>Labels the issue has are not added again.\<close>

definition add_labels :: "int list \<Rightarrow> Issue \<Rightarrow> Issue" where
  "add_labels ids i = foldl (\<lambda>i lid. if lid \<in> set (iu_LabelIDs i) then i else i\<lparr>iu_LabelIDs := iu_LabelIDs i @ [lid]\<rparr>) i ids"

definition handleAddIssueLabels :: handler where
  "handleAddIssueLabels w rq st =
     signed_in rq st (\<lambda>_. or_404 st (path_repo rq st) (\<lambda>repo. or_404 st (path_issue rq repo st) (\<lambda>issue.
       with_body rq st (strs_field ''labels'') (\<lambda>labels.
         let (st, _) = UpdateIssue w (iu_ID issue) (\<lambda>_. add_labels (resolve_labels (re_ID repo) labels st)) st
         in read_back st (GetIssue (iu_ID issue) st) (\<lambda>i. writeJSON 200 (labels_json st (rq_Base rq) (re_FullName repo) (iu_LabelIDs i)))))))"

definition handleRemoveIssueLabel :: handler where
  "handleRemoveIssueLabel w rq st =
     signed_in rq st (\<lambda>_. or_404 st (path_repo rq st) (\<lambda>repo. or_404 st (path_issue rq repo st) (\<lambda>issue.
       or_404 st (GetLabelByName (re_ID repo) (PathValue rq ''name'') st) (\<lambda>label.
         (fst (UpdateIssue w (iu_ID issue) (\<lambda>_ i. i\<lparr>iu_LabelIDs := remove1 (lb_ID label) (iu_LabelIDs i)\<rparr>) st), writeHeader 204)))))"
end
