(* ===== verification/HookHandlers.thy ===== *)
theory HookHandlers
  imports IssueHandlers
begin

text \<open>The handlers of the webhooks of a repository (\<open>gh_hooks_rest.go\<close>).\<close>

section \<open>JSON\<close>

definition strings_json :: "string list \<Rightarrow> json" where
  "strings_json ss = JArr (map JStr ss)"

definition hookToJSON :: "ForgeWorld \<Rightarrow> Webhook \<Rightarrow> json" where
  "hookToJSON w h = JObj
     [(''id'', JInt (hk_ID h)), (''type'', JStr ''Repository''), (''name'', JStr ''web''), (''active'', JBool (hk_Active h)),
      (''events'', strings_json (hk_Events h)),
      (''config'', JObj [(''url'', JStr (hk_URL h)), (''content_type'', JStr ''json''), (''insecure_ssl'', JStr ''0'')]),
      (''created_at'', jtime w (hk_CreatedAt h)), (''updated_at'', jtime w (hk_UpdatedAt h))]"

definition deliveryToJSON :: "ForgeWorld \<Rightarrow> WebhookDelivery \<Rightarrow> json" where
  "deliveryToJSON w d = JObj
     [(''id'', JInt (wd_ID d)), (''guid'', JStr (wd_GUID d)), (''event'', JStr (wd_Event d)), (''action'', JStr (wd_Action d)),
      (''status_code'', JInt (wd_StatusCode d)), (''duration'', JReal (fst (wd_Duration d)) (snd (wd_Duration d))),
      (''redelivery'', JBool (wd_Redelivery d)), (''delivered_at'', jtime w (wd_DeliveredAt d))]"

section \<open>Requests\<close>

text \<open>A pointer field: \<open>null\<close> leaves it nil, anything else is decoded into a fresh or the present value.\<close>

definition dec_ptr :: "(json \<Rightarrow> 'a \<Rightarrow> 'a option) \<Rightarrow> 'a \<Rightarrow> json \<Rightarrow> 'a option \<Rightarrow> 'a option option" where
  "dec_ptr dec zero j old = (if j = JNull then Some None else map_option Some (dec j (or_keep old zero)))"

text \<open>The struct \<open>config\<close>: its address and its secret.\<close>

definition dec_config :: "json \<Rightarrow> string \<times> string \<Rightarrow> (string \<times> string) option" where
  "dec_config j old =
     (case j of
        JNull \<Rightarrow> Some old
      | JObj ms \<Rightarrow> do { url \<leftarrow> struct_field dec_string ''url'' (fst old) ms; secret \<leftarrow> struct_field dec_string ''secret'' (snd old) ms;
                       Some (url, secret) }
      | _ \<Rightarrow> None)"

definition hook_req :: "(string \<times> json) list \<Rightarrow> ((string \<times> string) \<times> string list \<times> bool option) option" where
  "hook_req ms = do { config \<leftarrow> struct_field dec_config ''config'' ([], []) ms; events \<leftarrow> strs_field ''events'' ms;
                      active \<leftarrow> struct_field (dec_ptr flexBool False) ''active'' None ms; Some (config, events, active) }"

definition hook_patch ::
  "(string \<times> json) list \<Rightarrow> ((string \<times> string) option \<times> string list option \<times> bool option) option" where
  "hook_patch ms = do { config \<leftarrow> struct_field (dec_ptr dec_config ([], [])) ''config'' None ms;
                        events \<leftarrow> struct_field (dec_ptr dec_strings []) ''events'' None ms;
                        active \<leftarrow> struct_field (dec_ptr flexBool False) ''active'' None ms; Some (config, events, active) }"

definition handleCreateHook :: handler where
  "handleCreateHook w rq st =
     signed_in rq st (\<lambda>_. with_body rq st hook_req (\<lambda>((url, secret), events, active).
       if url = [] then (st, writeGHValidationError ''Hook'' ''url'' ''missing_field'')
       else let (st, hook) = CreateHook w (repo_key rq) url secret (if events = [] then [''push''] else events) (or_keep active True) st
            in (st, writeJSON 201 (hookToJSON w hook))))"

definition handleListHooks :: handler where
  "handleListHooks w rq st = signed_in rq st (\<lambda>_. (st, writeJSON 200 (JArr (map (hookToJSON w) (ListHooks (repo_key rq) st)))))"

definition path_hook :: "Request \<Rightarrow> Forge \<Rightarrow> Webhook option" where
  "path_hook rq st = Option.bind (path_number rq ''id'') (\<lambda>hookID. GetHook (repo_key rq) hookID st)"

definition handleGetHook :: handler where
  "handleGetHook w rq st = signed_in rq st (\<lambda>_. or_404 st (path_hook rq st) (\<lambda>hook. (st, writeJSON 200 (hookToJSON w hook))))"

definition edit_hook :: "(string \<times> string) option \<times> string list option \<times> bool option \<Rightarrow> Webhook \<Rightarrow> Webhook" where
  "edit_hook req h =
     (case req of (config, events, active) \<Rightarrow>
        let h = (case config of
                   Some (url, secret) \<Rightarrow> h\<lparr>hk_URL := (if url = [] then hk_URL h else url), hk_Secret := (if secret = [] then hk_Secret h else secret)\<rparr>
                 | None \<Rightarrow> h)
        in h\<lparr>hk_Events := or_keep events (hk_Events h), hk_Active := or_keep active (hk_Active h)\<rparr>)"

definition handleUpdateHook :: handler where
  "handleUpdateHook w rq st =
     signed_in rq st (\<lambda>_. or_404 st (path_number rq ''id'') (\<lambda>hookID. with_body rq st hook_patch (\<lambda>req.
       case UpdateHook w (repo_key rq) hookID (edit_hook req) st of
         (st, False) \<Rightarrow> (st, notFound)
       | (st, True) \<Rightarrow> read_back st (GetHook (repo_key rq) hookID st) (\<lambda>hook. writeJSON 200 (hookToJSON w hook)))))"

definition handleDeleteHook :: handler where
  "handleDeleteHook w rq st =
     signed_in rq st (\<lambda>_. or_404 st (path_number rq ''id'') (\<lambda>hookID.
       case DeleteHook (repo_key rq) hookID st of (st, True) \<Rightarrow> (st, writeHeader 204) | (st, False) \<Rightarrow> (st, notFound)))"

definition handleListHookDeliveries :: handler where
  "handleListHookDeliveries w rq st =
     signed_in rq st (\<lambda>_. or_404 st (path_hook rq st) (\<lambda>hook.
       (st, writeJSON 200 (JArr (map (deliveryToJSON w) (ListDeliveries (hk_ID hook) st))))))"

text \<open>A goroutine is started: it is put into the outbox.\<close>

definition start_outgoing :: "outgoing \<Rightarrow> Forge \<Rightarrow> Forge" where
  "start_outgoing out st = st\<lparr>fg_Outbox := fg_Outbox st @ [out]\<rparr>"

definition handlePingHook :: handler where
  "handlePingHook w rq st =
     signed_in rq st (\<lambda>_. or_404 st (path_hook rq st) (\<lambda>hook. (start_outgoing (ToHook hook ''ping'' []) st, writeHeader 204)))"

definition path_delivery :: "Request \<Rightarrow> Webhook \<Rightarrow> int \<Rightarrow> Forge \<Rightarrow> WebhookDelivery option" where
  "path_delivery rq hook deliveryID st = find (\<lambda>d. wd_ID d = deliveryID) (ListDeliveries (hk_ID hook) st)"

definition handleRedeliverHookDelivery :: handler where
  "handleRedeliverHookDelivery w rq st =
     signed_in rq st (\<lambda>_. or_404 st (path_number rq ''id'') (\<lambda>_. or_404 st (path_number rq ''delivery_id'') (\<lambda>deliveryID.
       or_404 st (path_hook rq st) (\<lambda>hook. or_404 st (path_delivery rq hook deliveryID st) (\<lambda>original.
         (start_outgoing (HookAgain hook original) st,
          writeJSON 202 (JObj [(''id'', JInt deliveryID), (''redelivery'', JBool True)])))))))"
end
