(* ===== verification/Base64.thy ===== *)
theory Base64
  imports Prelude "HOL-Library.Monad_Syntax"
begin

text \<open>The standard encoding of \<open>encoding/base64\<close>, which the Basic credentials and the cursors of the connections use.\<close>

definition base64_char :: "nat \<Rightarrow> char" where
  "base64_char n =
     (if n < 26 then char_of (65 + n) else if n < 52 then char_of (71 + n) else if n < 62 then char_of (n - 4)
      else if n = 62 then CHR ''+'' else CHR ''/'')"

definition base64_digit :: "char \<Rightarrow> nat option" where
  "base64_digit c =
     (let n = of_char c :: nat in
      if 65 \<le> n \<and> n \<le> 90 then Some (n - 65) else if 97 \<le> n \<and> n \<le> 122 then Some (n - 71)
      else if 48 \<le> n \<and> n \<le> 57 then Some (n + 4) else if c = CHR ''+'' then Some 62 else if c = CHR ''/'' then Some 63 else None)"

definition base64_chars :: "nat \<Rightarrow> nat \<Rightarrow> nat \<Rightarrow> string" where
  "base64_chars x y z =
     (let n = (x * 256 + y) * 256 + z
      in [base64_char (n div 262144), base64_char (n div 4096 mod 64), base64_char (n div 64 mod 64), base64_char (n mod 64)])"

fun base64_encode :: "string \<Rightarrow> string" where
  "base64_encode [] = []"
| "base64_encode [a] = take 2 (base64_chars (of_char a) 0 0) @ ''==''"
| "base64_encode [a, b] = take 3 (base64_chars (of_char a) (of_char b) 0) @ ''=''"
| "base64_encode (a # b # c # rest) = base64_chars (of_char a) (of_char b) (of_char c) @ base64_encode rest"

text \<open>Decoding skips line breaks; the last group is padded.\<close>

definition base64_group :: "char \<Rightarrow> char \<Rightarrow> char \<Rightarrow> char \<Rightarrow> string option" where
  "base64_group a b c d =
     do { x \<leftarrow> base64_digit a; y \<leftarrow> base64_digit b; z \<leftarrow> base64_digit c; u \<leftarrow> base64_digit d;
          let n = ((x * 64 + y) * 64 + z) * 64 + u;
          Some [char_of (n div 65536), char_of (n div 256 mod 256), char_of (n mod 256)] }"

fun base64_groups :: "string \<Rightarrow> string option" where
  "base64_groups [] = Some []"
| "base64_groups (a # b # c # d # rest) =
     (if rest = [] \<and> d = CHR ''='' then
        (if c = CHR ''='' then map_option (take 1) (base64_group a b CHR ''A'' CHR ''A'') else map_option (take 2) (base64_group a b c CHR ''A''))
      else do { g \<leftarrow> base64_group a b c d; s \<leftarrow> base64_groups rest; Some (g @ s) })"
| "base64_groups _ = None"

definition base64_decode :: "string \<Rightarrow> string option" where
  "base64_decode s = base64_groups (filter (\<lambda>c. c \<noteq> CHR 0x0A \<and> c \<noteq> CHR 0x0D) s)"

section \<open>Decoding undoes encoding\<close>

lemma base64_digit_char [simp]: "n < 64 \<Longrightarrow> base64_digit (base64_char n) = Some n"
  by (auto simp: base64_digit_def base64_char_def Let_def)

lemma base64_char_plain:
  assumes "n < 64" shows "base64_char n \<noteq> CHR ''=''" "base64_char n \<noteq> CHR 0x0A" "base64_char n \<noteq> CHR 0x0D"
proof -
  have "base64_digit (base64_char n) = Some n" using assms by simp
  moreover have "base64_digit CHR ''='' = None" "base64_digit CHR 0x0A = None" "base64_digit CHR 0x0D = None"
    by (simp_all add: base64_digit_def)
  ultimately show "base64_char n \<noteq> CHR ''=''" "base64_char n \<noteq> CHR 0x0A" "base64_char n \<noteq> CHR 0x0D" by (metis option.distinct(1))+
qed

lemma of_char_less [simp]: "(of_char (c :: char) :: nat) < 256"
  by (metis of_char_mod_256 mod_less_divisor zero_less_numeral)

lemma digits_base_64:
  "((n div 262144 * 64 + n div 4096 mod 64) * 64 + n div 64 mod 64) * 64 + n mod 64 = (n :: nat)"
proof -
  have "n div 262144 = n div 4096 div 64" "n div 4096 = n div 64 div 64" by (simp_all add: div_mult2_eq [symmetric])
  then show ?thesis by (metis div_mult_mod_eq)
qed

lemma digits_base_256:
  assumes "x < 256" "y < 256" "z < (256 :: nat)"
  defines "n \<equiv> (x * 256 + y) * 256 + z"
  shows "n div 262144 < 64" "n div 65536 = x" "n div 256 mod 256 = y" "n mod 256 = z"
proof -
  have "n div 256 = x * 256 + y" unfolding n_def using assms(3) by simp
  then show "n div 256 mod 256 = y" using assms(2) by simp
  show "n mod 256 = z" unfolding n_def using assms(3) by (metis mod_less mod_mult_self3)
  have "n div 65536 = n div 256 div 256" by (simp add: div_mult2_eq [symmetric])
  then show x: "n div 65536 = x" using \<open>n div 256 = _\<close> assms(2) by simp
  have "n div 262144 = n div 65536 div 4" by (simp add: div_mult2_eq [symmetric])
  then show "n div 262144 < 64" using x assms(1) by simp
qed

lemma base64_group_chars:
  assumes "x < 256" "y < 256" "z < (256 :: nat)"
  shows "\<exists>a b c d. base64_chars x y z = [a, b, c, d] \<and> base64_group a b c d = Some [char_of x, char_of y, char_of z] \<and>
    CHR ''='' \<notin> {a, b, c, d} \<and> CHR 0x0A \<notin> {a, b, c, d} \<and> CHR 0x0D \<notin> {a, b, c, d}"
proof -
  define n where "n = (x * 256 + y) * 256 + z"
  note d = digits_base_256 [OF assms, folded n_def]
  have l: "n div 262144 < 64" "n div 4096 mod 64 < 64" "n div 64 mod 64 < 64" "n mod 64 < 64" using d by simp_all
  define a b c e where "a = base64_char (n div 262144)" and "b = base64_char (n div 4096 mod 64)"
    and "c = base64_char (n div 64 mod 64)" and "e = base64_char (n mod 64)"
  have "base64_digit a = Some (n div 262144)" "base64_digit b = Some (n div 4096 mod 64)" "base64_digit c = Some (n div 64 mod 64)"
    "base64_digit e = Some (n mod 64)"
    using l by (simp_all only: a_def b_def c_def e_def base64_digit_char)
  then have "base64_group a b c e = Some [char_of x, char_of y, char_of z]"
    by (simp only: base64_group_def Let_def Option.bind.simps digits_base_64 d)
  moreover have "base64_chars x y z = [a, b, c, e]"
    by (simp only: base64_chars_def Let_def n_def [symmetric] a_def b_def c_def e_def)
  moreover have "{a, b, c, e} \<inter> {CHR ''='', CHR 0x0A, CHR 0x0D} = {}"
    using l base64_char_plain unfolding a_def b_def c_def e_def by blast
  ultimately show ?thesis by blast
qed

lemma base64_char_0 [simp]: "base64_char 0 = CHR ''A''"
  by code_simp

lemma base64_group_of:
  "\<exists>p q r t. base64_chars (of_char a) (of_char b) (of_char c) = [p, q, r, t] \<and> base64_group p q r t = Some [a, b, c] \<and>
     CHR ''='' \<notin> {p, q, r, t} \<and> CHR 0x0A \<notin> {p, q, r, t} \<and> CHR 0x0D \<notin> {p, q, r, t}"
  using base64_group_chars [of "of_char a" "of_char b" "of_char c"] by simp

lemma base64_chars_zero: "base64_chars x 0 0 ! 2 = CHR ''A''" "base64_chars x y 0 ! 3 = CHR ''A''"
  by (simp_all add: base64_chars_def Let_def)

lemma base64_groups_encode:
  "base64_groups (base64_encode s) = Some s \<and> set (base64_encode s) \<inter> {CHR 0x0A, CHR 0x0D} = {}"
proof (induction s rule: base64_encode.induct)
  case (2 a)
  obtain p q r t where g: "base64_chars (of_char a) (of_char CHR 0x00) (of_char CHR 0x00) = [p, q, r, t]"
      "base64_group p q r t = Some [a, CHR 0x00, CHR 0x00]" "CHR 0x0A \<notin> {p, q, r, t}" "CHR 0x0D \<notin> {p, q, r, t}"
    using base64_group_of [of a "CHR 0x00" "CHR 0x00"] by blast
  then have c: "base64_chars (of_char a) 0 0 = [p, q, r, t]" by simp
  then have "r = CHR ''A''" "t = CHR ''A''"
    using base64_chars_zero(1) [of "of_char a"] base64_chars_zero(2) [of "of_char a" 0] by (simp_all add: numeral_2_eq_2 numeral_3_eq_3)
  with g c show ?case by simp
next
  case (3 a b)
  obtain p q r t where g: "base64_chars (of_char a) (of_char b) (of_char CHR 0x00) = [p, q, r, t]" "CHR ''='' \<notin> {p, q, r, t}"
      "base64_group p q r t = Some [a, b, CHR 0x00]" "CHR 0x0A \<notin> {p, q, r, t}" "CHR 0x0D \<notin> {p, q, r, t}"
    using base64_group_of [of a b "CHR 0x00"] by blast
  then have c: "base64_chars (of_char a) (of_char b) 0 = [p, q, r, t]" by simp
  then have "t = CHR ''A''" using base64_chars_zero(2) [of "of_char a" "of_char b"] by (simp add: numeral_3_eq_3)
  with g c show ?case by auto
next
  case (4 a b c rest)
  obtain p q r t where g: "base64_chars (of_char a) (of_char b) (of_char c) = [p, q, r, t]" "CHR ''='' \<notin> {p, q, r, t}"
      "base64_group p q r t = Some [a, b, c]" "CHR 0x0A \<notin> {p, q, r, t}" "CHR 0x0D \<notin> {p, q, r, t}"
    using base64_group_of [of a b c] by blast
  with 4 show ?case by auto
qed simp

declare base64_encode.simps [simp del]

theorem base64_decode_encode [simp]: "base64_decode (base64_encode s) = Some s"
proof -
  have "set (base64_encode s) \<inter> {CHR 0x0A, CHR 0x0D} = {}" by (simp only: base64_groups_encode)
  then have "filter (\<lambda>c. c \<noteq> CHR 0x0A \<and> c \<noteq> CHR 0x0D) (base64_encode s) = base64_encode s" by (auto simp: filter_id_conv)
  then show ?thesis by (simp add: base64_decode_def base64_groups_encode)
qed
end
