(* ===== verification/OauthHandlers.thy ===== *)
theory OauthHandlers
  imports HookHandlers Base64
begin

text \<open>
  The OAuth flows (\<open>gh_oauth.go\<close>) and the management of the tokens of an OAuth client (\<open>gh_apps_oauth_mgmt.go\<close>). The text of
  the HTML pages is left out.
\<close>

section \<open>The vault inside the store\<close>

definition set_vault :: "Vault \<Rightarrow> Forge \<Rightarrow> Forge" where
  "set_vault v st = st\<lparr>fg_Vault := v\<rparr>"

text \<open>An operation on the vault, lifted to the store.\<close>

definition on_vault :: "(Vault \<Rightarrow> Vault \<times> 'a) \<Rightarrow> Forge \<Rightarrow> Forge \<times> 'a" where
  "on_vault f st = (let (v, x) = f (fg_Vault st) in (set_vault v st, x))"

definition FormValue :: "Request \<Rightarrow> string \<Rightarrow> string" where
  "FormValue rq name = (case mget (rq_Form rq) name of Some v \<Rightarrow> v | None \<Rightarrow> [])"

definition oauth_refused :: "string \<Rightarrow> Answer" where
  "oauth_refused code = writeJSON 200 (JObj [(''error'', JStr code)])"

section \<open>The device flow\<close>

text \<open>The code is issued for the user with identifier 1; without one the handler dereferences nil.\<close>

definition handleDeviceCode :: handler where
  "handleDeviceCode w rq st =
     (case mget (fg_Users st) 1 of
        None \<Rightarrow> (st, panicked)
      | Some admin \<Rightarrow>
          let (st, rnd) = draw w st; (st, uuid) = draw w st; (st, now) = clock w st;
              (st, dc) = on_vault (issue_device_code now rnd uuid (us_ID admin) (FormValue rq ''scope'')) st
          in (st, writeJSON 200 (JObj
               [(''device_code'', JStr (dc_Code dc)), (''user_code'', JStr (dc_UserCode dc)),
                (''verification_uri'', JStr (''http://'' @ rq_Host rq @ ''/login/device'')), (''expires_in'', JInt 900), (''interval'', JInt 1)])))"

definition granted :: "string \<Rightarrow> string \<Rightarrow> Answer" where
  "granted token scope =
     writeJSON 200 (JObj [(''access_token'', JStr token), (''token_type'', JStr ''bearer''), (''scope'', JStr scope)])"

definition handleDeviceTokenForm :: handler where
  "handleDeviceTokenForm w rq st =
     (st, case device_token (FormValue rq ''device_code'') (fg_Vault st) of
            None \<Rightarrow> oauth_refused ''bad_verification_code'' | Some token \<Rightarrow> granted token ''repo read:org gist'')"

section \<open>The web flow\<close>

primrec oauth_error_text :: "oauth_error \<Rightarrow> string" where
  "oauth_error_text bad_verification_code = ''bad_verification_code''"
| "oauth_error_text incorrect_client_credentials = ''incorrect_client_credentials''"
| "oauth_error_text server_error = ''server_error''"

definition handle_web_flow :: handler where
  "handle_web_flow w rq st =
     (let (st, now) = clock w st; (st, rnd) = draw w st;
          (st, r) = on_vault (handleWebFlowTokenForm now rnd (\<lambda>i. mget (fg_Users st) i \<noteq> None) (FormValue rq ''code'') (FormValue rq ''client_id'')) st
      in (st, case r of Inl e \<Rightarrow> oauth_refused (oauth_error_text e) | Inr tok \<Rightarrow> granted (tk_Value tok) (tk_Scopes tok)))"

definition handleOAuthAccessToken :: handler where
  "handleOAuthAccessToken w rq st =
     (if FormValue rq ''device_code'' \<noteq> [] then handleDeviceTokenForm w rq st
      else if FormValue rq ''code'' \<noteq> [] then handle_web_flow w rq st
      else (st, oauth_refused ''unsupported_grant_type''))"

text \<open>The user who grants: the one with identifier 1, else any (the first of the map).\<close>

definition granting_user :: "Forge \<Rightarrow> User option" where
  "granting_user st = (case mget (fg_Users st) 1 of Some u \<Rightarrow> Some u | None \<Rightarrow> first_where (\<lambda>_. True) (fg_Users st))"

definition completeAuthorize :: "string \<Rightarrow> string \<Rightarrow> string \<Rightarrow> string \<Rightarrow> handler" where
  "completeAuthorize clientID redirectURI scopes state w rq st =
     (case granting_user st of
        None \<Rightarrow> (st, writeGHError 500 ''no user available'')
      | Some user \<Rightarrow>
          let (st, code) = draw w st; (st, now) = clock w st;
              st = set_vault (issue_auth_code now code (us_ID user) clientID redirectURI scopes state (fg_Vault st)) st
          in (st, case fw_with_query w redirectURI ((''code'', code) # (if state = [] then [] else [(''state'', state)])) of
                    None \<Rightarrow> writeGHError 400 ''invalid redirect_uri''
                  | Some dest \<Rightarrow> (writeHeader 302)\<lparr>an_Location := dest\<rparr>))"

abbreviation needsClient :: Answer where "needsClient \<equiv> writeGHError 400 ''client_id and redirect_uri are required''"

definition handleOAuthAuthorize :: handler where
  "handleOAuthAuthorize w rq st =
     (let q = query_get (rq_Query rq) in
      if q ''client_id'' = [] \<or> q ''redirect_uri'' = [] then (st, needsClient)
      else if q ''auto'' = ''1'' then completeAuthorize (q ''client_id'') (q ''redirect_uri'') (q ''scope'') (q ''state'') w rq st
      else (st, writeHeader 200))"

definition handleOAuthAuthorizeApprove :: handler where
  "handleOAuthAuthorizeApprove w rq st =
     (let q = FormValue rq in
      if q ''client_id'' = [] \<or> q ''redirect_uri'' = [] then (st, needsClient)
      else completeAuthorize (q ''client_id'') (q ''redirect_uri'') (q ''scope'') (q ''state'') w rq st)"

section \<open>The tokens of a client\<close>

text \<open>The client that the Basic credentials of the request prove.\<close>

definition authenticateClientCreds :: "Request \<Rightarrow> string \<Rightarrow> Forge \<Rightarrow> (string \<times> bool) option" where
  "authenticateClientCreds rq pathClientID st =
     (if \<not> HasPrefix (rq_Auth rq) ''Basic '' then None
      else case base64_decode (TrimPrefix (rq_Auth rq) ''Basic '') of
        None \<Rightarrow> None
      | Some raw \<Rightarrow>
          (case SplitN2 raw CHR '':'' of
             [cid, secret] \<Rightarrow>
               if cid \<noteq> pathClientID then None
               else if VerifyOAuthAppSecret cid secret (fg_Vault st) \<noteq> None then Some (cid, True)
               else if VerifyAppClientSecret cid secret (fg_Vault st) \<noteq> None then Some (cid, False)
               else None
           | _ \<Rightarrow> None))"

text \<open>
  The common opening of the five handlers: the client, the access token of the body, its lookup and its owner. With an
  empty client identifier the handlers return without an answer, which the server turns into an empty 200.
\<close>

definition as_client ::
  "ForgeWorld \<Rightarrow> Request \<Rightarrow> Forge \<Rightarrow> ((string \<times> json) list \<Rightarrow> string option) \<Rightarrow> Answer \<Rightarrow>
     (string \<Rightarrow> UserToServerToken \<Rightarrow> Forge \<Rightarrow> Forge \<times> Answer) \<Rightarrow> Forge \<times> Answer" where
  "as_client w rq st dec unknown k =
     (case authenticateClientCreds rq (PathValue rq ''client_id'') st of
        None \<Rightarrow> (st, badCredentials)
      | Some (clientID, _) \<Rightarrow>
          if clientID = [] then (st, writeHeader 200)
          else case or_keep (Option.bind (decode_members (rq_Body rq)) dec) [] of
            [] \<Rightarrow> (st, writeGHError 422 ''access_token required'')
          | token \<Rightarrow>
              let (st, now) = clock w st in
              case LookupUserToServerToken now token (fg_Vault st) of
                None \<Rightarrow> (st, unknown)
              | Some tok \<Rightarrow>
                  if tokenMatchesClient tok clientID (fg_Vault st) then k clientID tok st
                  else (st, writeGHError 422 ''token does not match client_id''))"

definition oauthTokenInspectionJSON :: "ForgeWorld \<Rightarrow> UserToServerToken \<Rightarrow> User option \<Rightarrow> (string \<times> json) list" where
  "oauthTokenInspectionJSON w tok user =
     [(''id'', JInt 0), (''url'', JStr []), (''scopes'', strings_json (classic_scopes (ut_Scopes tok))), (''token'', JStr (ut_Token tok)),
      (''app'', JObj [(''client_id'', JStr (if ut_OAuthAppClientID tok = [] \<and> 0 < ut_AppID tok then ''(app)'' else ut_OAuthAppClientID tok)),
                      (''name'', JStr []), (''url'', JStr [])]),
      (''note'', JNull), (''note_url'', JNull), (''updated_at'', jtime w (ut_CreatedAt tok)), (''created_at'', jtime w (ut_CreatedAt tok)),
      (''fingerprint'', JNull), (''expires_at'', jtime w (ut_ExpiresAt tok))] @
     (case user of Some u \<Rightarrow> [(''user'', userToJSON w u)] | None \<Rightarrow> [])"

definition token_field :: "(string \<times> json) list \<Rightarrow> string option" where
  "token_field = str_field ''access_token''"

definition handleCheckOAuthToken :: handler where
  "handleCheckOAuthToken w rq st =
     as_client w rq st token_field notFound (\<lambda>_ tok st.
       (st, writeJSON 200 (JObj (oauthTokenInspectionJSON w tok (mget (fg_Users st) (ut_UserID tok))))))"

text \<open>The old token and its refresh token go, a fresh pair comes.\<close>

definition handleResetOAuthToken :: handler where
  "handleResetOAuthToken w rq st =
     as_client w rq st token_field notFound (\<lambda>_ tok st.
       let (st, _) = on_vault (RevokeUserToServerToken (ut_Token tok)) st;
           (st, now) = clock w st; (st, rnd) = draw w st; (st, rrnd) = draw w st;
           (st, fresh, refresh) = on_vault (createUserToServerTokenLocked now rnd rrnd (ut_UserID tok) (ut_AppID tok)
                                              (ut_OAuthAppClientID tok) (ut_Scopes tok) (8 * hour) (ut_RefreshTokenValue tok \<noteq> [])) st;
           (st, later) = clock w st
       in (st, writeJSON 200 (JObj (oauthTokenInspectionJSON w fresh (mget (fg_Users st) (ut_UserID fresh)) @
              (case refresh of
                 Some r \<Rightarrow> [(''refresh_token'', JStr (rt_Token r)), (''refresh_token_expires_in'', JInt ((rt_ExpiresAt r - later) div second))]
               | None \<Rightarrow> [])))))"

definition handleRevokeOAuthToken :: handler where
  "handleRevokeOAuthToken w rq st =
     as_client w rq st token_field (writeHeader 204) (\<lambda>_ tok st.
       let (st, _) = on_vault (RevokeUserToServerToken (ut_Token tok)) st in (st, writeHeader 204))"

text \<open>\<open>map[string]string\<close> and \<open>[]int\<close>; the handler checks the types and ignores the values.\<close>

fun dec_map :: "json \<Rightarrow> string gomap option \<Rightarrow> string gomap option option" where
  "dec_map JNull old = Some None"
| "dec_map (JObj ms) old =
     map_option Some (foldl (\<lambda>acc (k, j). Option.bind acc (\<lambda>m. map_option (\<lambda>s. mput k s m) (dec_string j []))) (Some (or_keep old [])) ms)"
| "dec_map _ old = None"

fun dec_ints :: "json \<Rightarrow> int list \<Rightarrow> int list option" where
  "dec_ints JNull old = Some []" | "dec_ints (JArr js) old = those (map (\<lambda>j. dec_int j 0) js)" | "dec_ints _ old = None"

definition scoped_req :: "(string \<times> json) list \<Rightarrow> string option" where
  "scoped_req ms = do { token \<leftarrow> token_field ms; str_field ''target'' ms; struct_field dec_int ''target_id'' 0 ms;
                        struct_field dec_map ''permissions'' None ms; strs_field ''repositories'' ms;
                        struct_field dec_ints ''repository_ids'' [] ms; Some token }"

definition handleScopeOAuthToken :: handler where
  "handleScopeOAuthToken w rq st =
     as_client w rq st scoped_req notFound (\<lambda>_ tok st.
       (st, writeJSON 200 (JObj (oauthTokenInspectionJSON w tok (mget (fg_Users st) (ut_UserID tok))))))"

definition handleRevokeOAuthGrant :: handler where
  "handleRevokeOAuthGrant w rq st =
     as_client w rq st token_field (writeHeader 204) (\<lambda>clientID tok st.
       let (st, _) = on_vault (RevokeUserGrant clientID (ut_UserID tok)) st in (st, writeHeader 204))"

section \<open>OAuth apps\<close>

definition oauthAppToJSON :: "ForgeWorld \<Rightarrow> OAuthApp \<Rightarrow> bool \<Rightarrow> json" where
  "oauthAppToJSON w a includeSecret = JObj
     ([(''client_id'', JStr (oa_ClientID a)), (''name'', JStr (oa_Name a)), (''description'', JStr (oa_Description a)), (''url'', JStr (oa_URL a)),
       (''callback_url'', JStr (oa_CallbackURL a)), (''owner_id'', JInt (oa_OwnerID a)), (''created_at'', jtime w (oa_CreatedAt a)),
       (''updated_at'', jtime w (oa_UpdatedAt a))] @ (if includeSecret then [(''client_secret'', JStr (oa_ClientSecret a))] else []))"

definition oauth_app_req :: "(string \<times> json) list \<Rightarrow> (string \<times> string \<times> string \<times> string) option" where
  "oauth_app_req ms = do { name \<leftarrow> str_field ''name'' ms; description \<leftarrow> str_field ''description'' ms; url \<leftarrow> str_field ''url'' ms;
                           callback \<leftarrow> str_field ''callback_url'' ms; Some (name, description, url, callback) }"

definition handleCreateOAuthAppMgmt :: handler where
  "handleCreateOAuthAppMgmt w rq st =
     signed_in rq st (\<lambda>user.
       let (name, description, url, callback) = or_keep (Option.bind (decode_members (rq_Body rq)) oauth_app_req) ([], [], [], []) in
       if name = [] then (st, writeGHValidationError ''OAuthApp'' ''name'' ''missing_field'')
       else
         let (st, clientID) = draw w st; (st, secret) = draw w st; (st, now) = clock w st;
             (st, app) = on_vault (CreateOAuthApp now clientID secret (us_ID user) name description url callback) st
         in (st, writeJSON 201 (oauthAppToJSON w app True)))"

definition handleListOAuthAppsMgmt :: handler where
  "handleListOAuthAppsMgmt w rq st =
     signed_in rq st (\<lambda>_. (st, writeJSON 200 (JArr (map (\<lambda>a. oauthAppToJSON w a False) (ListOAuthApps (fg_Vault st))))))"
end
