(* ===== verification/AppHandlers.thy ===== *)
theory AppHandlers
  imports OauthHandlers
begin

text \<open>
  The handlers of apps and their installations (\<open>gh_apps_rest.go\<close>) and of the webhook of an app (\<open>gh_app_hooks_rest.go\<close>). The
  payloads of the events are left out; a delivery records the event, the action and the installation.
\<close>

section \<open>JSON\<close>

definition perms_json :: "string gomap option \<Rightarrow> json" where
  "perms_json perms = jopt (\<lambda>m. JObj (map (\<lambda>(k, v). (k, JStr v)) m)) perms"

definition appToJSON :: "ForgeWorld \<Rightarrow> App \<Rightarrow> bool \<Rightarrow> json" where
  "appToJSON w app includePEM = JObj
     ([(''id'', JInt (ap_ID app)), (''node_id'', JStr (ap_NodeID app)), (''slug'', JStr (ap_Slug app)), (''name'', JStr (ap_Name app)),
       (''client_id'', JStr (ap_ClientID app)), (''description'', JStr (ap_Description app)), (''external_url'', JStr (ap_ExternalURL app)),
       (''html_url'', JStr (''https://github.com/apps/'' @ ap_Slug app)), (''events_url'', JStr (''/api/v3/apps/'' @ ap_Slug app @ ''/events'')),
       (''hooks_url'', JStr ''/api/v3/app/hook/deliveries''), (''installations_url'', JStr ''/api/v3/app/installations''),
       (''permissions'', perms_json (ap_Permissions app)), (''events'', jopt strings_json (ap_Events app)), (''installations_count'', JInt 0),
       (''created_at'', jtime w (ap_CreatedAt app)), (''updated_at'', jtime w (ap_UpdatedAt app)),
       (''owner'', JObj [(''login'', JStr ''admin''), (''id'', JInt (ap_OwnerID app)), (''type'', JStr ''User''), (''html_url'', JStr ''/admin''),
                         (''avatar_url'', JStr [])])] @
      (if includePEM then [(''pem'', JStr (ap_PEMPrivateKey app)), (''client_secret'', JStr (ap_ClientSecret app)),
                           (''webhook_secret'', JStr (ap_WebhookSecret app))] else []))"

definition installationToJSON :: "ForgeWorld \<Rightarrow> Installation \<Rightarrow> json" where
  "installationToJSON w inst = JObj
     [(''id'', JInt (in_ID inst)), (''app_id'', JInt (in_AppID inst)), (''app_slug'', JStr (in_AppSlug inst)),
      (''target_type'', JStr (in_TargetType inst)), (''target_id'', JInt (in_TargetID inst)), (''permissions'', perms_json (in_Permissions inst)),
      (''events'', jopt strings_json (in_Events inst)), (''repository_selection'', JStr (in_RepositorySelection inst)),
      (''single_file_name'', JStr (in_SingleFileName inst)), (''has_multiple_single_files'', JBool False), (''single_file_paths'', JArr []),
      (''created_at'', jtime w (in_CreatedAt inst)), (''updated_at'', jtime w (in_UpdatedAt inst)),
      (''account'', JObj [(''login'', JStr (in_TargetLogin inst)), (''id'', JInt (in_TargetID inst)), (''type'', JStr (in_TargetType inst)),
                          (''html_url'', JStr (''/'' @ in_TargetLogin inst)), (''avatar_url'', JStr [])]),
      (''html_url'', JStr (''/apps/'' @ in_AppSlug inst @ ''/installations/'' @ Itoa (in_ID inst))),
      (''access_tokens_url'', JStr (''/api/v3/app/installations/'' @ Itoa (in_ID inst) @ ''/access_tokens'')),
      (''repositories_url'', JStr ''/api/v3/installation/repositories''),
      (''events_url'', JStr (''/api/v3/apps/'' @ in_AppSlug inst @ ''/installations/'' @ Itoa (in_ID inst) @ ''/events'')),
      (''suspended_at'', jopt_time w (in_SuspendedAt inst)),
      (''suspended_by'', if in_SuspendedAt inst = None then JNull
         else jopt (\<lambda>(login, i, type). JObj [(''login'', JStr login), (''id'', JInt i), (''type'', JStr type)]) (in_SuspendedBy inst))]"

definition installationTokenToJSON :: "ForgeWorld \<Rightarrow> InstallationToken \<Rightarrow> json" where
  "installationTokenToJSON w token = JObj
     [(''token'', JStr (it_Token token)), (''expires_at'', jtime w (it_ExpiresAt token)), (''permissions'', perms_json (it_Permissions token))]"

section \<open>Events of apps\<close>

text \<open>\<open>emitInstallationEvent\<close> and \<open>emitInstallationRepositoriesEvent\<close>; an app that is gone gets nothing.\<close>

definition emit_app_event :: "string \<Rightarrow> App option \<Rightarrow> string \<Rightarrow> int \<Rightarrow> Forge \<Rightarrow> Forge" where
  "emit_app_event event app action installationID st =
     (case app of
        None \<Rightarrow> st
      | Some app \<Rightarrow>
          if ap_WebhookURL app = [] \<or> \<not> ap_WebhookActive app then st else start_outgoing (ToApp app event action installationID) st)"

definition emitInstallationEvent :: "App option \<Rightarrow> string \<Rightarrow> int \<Rightarrow> Forge \<Rightarrow> Forge" where
  "emitInstallationEvent = emit_app_event ''installation''"

definition emitInstallationRepositoriesEvent :: "App option \<Rightarrow> string \<Rightarrow> int \<Rightarrow> Forge \<Rightarrow> Forge" where
  "emitInstallationRepositoriesEvent = emit_app_event ''installation_repositories''"

section \<open>Openings of the handlers\<close>

abbreviation noJWT :: Answer where "noJWT \<equiv> writeGHError 401 ''A JSON web token could not be decoded''"

definition as_app :: "Request \<Rightarrow> Forge \<Rightarrow> (App \<Rightarrow> Forge \<times> Answer) \<Rightarrow> Forge \<times> Answer" where
  "as_app rq st k = (case cx_App (rq_Ctx rq) of None \<Rightarrow> (st, noJWT) | Some app \<Rightarrow> k app)"

definition numbered :: "Request \<Rightarrow> Forge \<Rightarrow> string \<Rightarrow> string \<Rightarrow> (int \<Rightarrow> Forge \<times> Answer) \<Rightarrow> Forge \<times> Answer" where
  "numbered rq st name what k =
     (case path_number rq name of None \<Rightarrow> (st, writeGHError 400 (''Invalid '' @ what @ '' ID'')) | Some i \<Rightarrow> k i)"

definition with_installation :: "Request \<Rightarrow> Forge \<Rightarrow> (Installation \<Rightarrow> Forge \<times> Answer) \<Rightarrow> Forge \<times> Answer" where
  "with_installation rq st k = numbered rq st ''id'' ''installation'' (\<lambda>i. or_404 st (GetInstallation i (fg_Vault st)) k)"

definition own_installation :: "Request \<Rightarrow> Forge \<Rightarrow> (App \<Rightarrow> Installation \<Rightarrow> Forge \<times> Answer) \<Rightarrow> Forge \<times> Answer" where
  "own_installation rq st k =
     as_app rq st (\<lambda>app. with_installation rq st (\<lambda>inst.
       if in_AppID inst \<noteq> ap_ID app then (st, writeGHError 403 ''Installation does not belong to this app'') else k app inst))"

section \<open>Apps\<close>

definition handleManifestConversion :: handler where
  "handleManifestConversion w rq st =
     (let (st, appID) = on_vault (ConsumeManifestCode (PathValue rq ''code'')) st in
      (st, case appID of
             None \<Rightarrow> writeGHError 404 ''Manifest code not found or already used''
           | Some i \<Rightarrow> (case GetApp i (fg_Vault st) of None \<Rightarrow> writeGHError 404 ''App not found'' | Some app \<Rightarrow> writeJSON 201 (appToJSON w app True))))"

definition handleGetAuthenticatedApp :: handler where
  "handleGetAuthenticatedApp w rq st = as_app rq st (\<lambda>app. (st, writeJSON 200 (appToJSON w app False)))"

definition handleGetAppBySlug :: handler where
  "handleGetAppBySlug w rq st =
     or_404 st (GetAppBySlug (PathValue rq ''app_slug'') (fg_Vault st)) (\<lambda>app. (st, writeJSON 200 (appToJSON w app False)))"

definition app_req :: "(string \<times> json) list \<Rightarrow> (string \<times> string \<times> string gomap option \<times> string list option) option" where
  "app_req ms = do { name \<leftarrow> str_field ''name'' ms; description \<leftarrow> str_field ''description'' ms;
                     permissions \<leftarrow> struct_field dec_map ''permissions'' None ms;
                     events \<leftarrow> struct_field (dec_ptr dec_strings []) ''events'' None ms; Some (name, description, permissions, events) }"

text \<open>\<open>rsa.GenerateKey\<close> and the two secrets are drawn.\<close>

definition handleCreateApp :: handler where
  "handleCreateApp w rq st =
     signed_in rq st (\<lambda>user. with_body rq st app_req (\<lambda>(name, description, permissions, events).
       if name = [] then (st, writeGHValidationError ''App'' ''name'' ''missing_field'')
       else
         let (st, pem) = draw w st; (st, now) = clock w st; (st, secret) = draw w st; (st, wsecret) = draw w st;
             (st, app) = on_vault (CreateApp now secret wsecret pem (us_ID user) name description permissions events) st
         in (st, writeJSON 201 (appToJSON w app True))))"

section \<open>Installations\<close>

definition handleListAppInstallations :: handler where
  "handleListAppInstallations w rq st =
     as_app rq st (\<lambda>app. (st, writeJSON 200 (JArr (map (installationToJSON w) (ListAppInstallations (ap_ID app) (fg_Vault st))))))"

definition handleGetAppInstallation :: handler where
  "handleGetAppInstallation w rq st = own_installation rq st (\<lambda>_ inst. (st, writeJSON 200 (installationToJSON w inst)))"

definition installation_token_req :: "(string \<times> json) list \<Rightarrow> (string gomap option \<times> int list \<times> string list) option" where
  "installation_token_req ms = do { permissions \<leftarrow> struct_field dec_map ''permissions'' None ms;
                                    ids \<leftarrow> struct_field flexIntSlice ''repository_ids'' [] ms; names \<leftarrow> strs_field ''repositories'' ms;
                                    Some (permissions, ids, names) }"

text \<open>A body that does not decode is taken for none; permissions of the body replace those of the installation.\<close>

definition handleCreateInstallationToken :: handler where
  "handleCreateInstallationToken w rq st =
     own_installation rq st (\<lambda>app inst.
       let (perms, repoIDs) =
             (case Option.bind (decode_members (rq_Body rq)) installation_token_req of
                None \<Rightarrow> (in_Permissions inst, [])
              | Some (permissions, ids, names) \<Rightarrow>
                  (if permissions = None then in_Permissions inst else permissions,
                   if ids = [] then map re_ID (List.map_filter (\<lambda>name. GetRepo (in_TargetLogin inst) name st) names) else ids)) in
       if in_SuspendedAt inst \<noteq> None then (st, writeGHError 403 ''This installation has been suspended.'')
       else
         let (st, rnd) = draw w st; (st, now) = clock w st;
             (st, token) = on_vault (CreateInstallationToken now rnd (in_ID inst) (ap_ID app) perms repoIDs) st
         in (st, writeJSON 201 (installationTokenToJSON w token)))"

definition handleDeleteAppInstallation :: handler where
  "handleDeleteAppInstallation w rq st =
     own_installation rq st (\<lambda>app inst.
       let (st, _) = on_vault (DeleteInstallation (in_ID inst)) st
       in (emitInstallationEvent (Some app) ''deleted'' (in_ID inst) st, writeHeader 204))"

definition bot_name :: "App \<Rightarrow> string \<times> int \<times> string" where
  "bot_name app = (us_Login (bot_user app), us_ID (bot_user app), us_Type (bot_user app))"

definition handleSuspendInstallation :: handler where
  "handleSuspendInstallation w rq st =
     own_installation rq st (\<lambda>app inst.
       let (st, now) = clock w st in
       case on_vault (SuspendInstallation now (in_ID inst) (Some (bot_name app))) st of
         (st, False) \<Rightarrow> (st, writeGHError 409 ''Installation already suspended'')
       | (st, True) \<Rightarrow> (emitInstallationEvent (Some app) ''suspend'' (in_ID inst) st, writeHeader 204))"

definition handleUnsuspendInstallation :: handler where
  "handleUnsuspendInstallation w rq st =
     own_installation rq st (\<lambda>app inst.
       let (st, now) = clock w st in
       case on_vault (UnsuspendInstallation now (in_ID inst)) st of
         (st, False) \<Rightarrow> (st, writeGHError 409 ''Installation not suspended'')
       | (st, True) \<Rightarrow> (emitInstallationEvent (Some app) ''unsuspend'' (in_ID inst) st, writeHeader 204))"

definition handleGetRepoInstallation :: handler where
  "handleGetRepoInstallation w rq st =
     signed_in rq st (\<lambda>_. or_404 st (GetRepoInstallation (PathValue rq ''owner'') (fg_Vault st)) (\<lambda>inst.
       (st, writeJSON 200 (installationToJSON w inst))))"

definition snapshotInstallations :: "Forge \<Rightarrow> Installation list" where
  "snapshotInstallations st = map snd (va_Installations (fg_Vault st))"

definition installation_on :: "string \<Rightarrow> string \<Rightarrow> Forge \<Rightarrow> Installation option" where
  "installation_on type login st = find (\<lambda>inst. in_TargetLogin inst = login \<and> in_TargetType inst = type) (snapshotInstallations st)"

definition handleGetOrgInstallation :: handler where
  "handleGetOrgInstallation w rq st =
     signed_in rq st (\<lambda>_. or_404 st (installation_on ''Organization'' (PathValue rq ''org'') st) (\<lambda>inst.
       (st, writeJSON 200 (installationToJSON w inst))))"

definition handleGetUserInstallation :: handler where
  "handleGetUserInstallation w rq st =
     signed_in rq st (\<lambda>_. or_404 st (installation_on ''User'' (PathValue rq ''username'') st) (\<lambda>inst.
       (st, writeJSON 200 (installationToJSON w inst))))"

text \<open>A page inside an object: the total and further members stand before the items.\<close>

definition paged :: "Request \<Rightarrow> ('a \<Rightarrow> json) \<Rightarrow> 'a list \<Rightarrow> (string \<times> json) list \<Rightarrow> string \<Rightarrow> Answer" where
  "paged rq f xs extra name =
     (let a = listed rq f xs in
      case an_Body a of
        Some page \<Rightarrow> a\<lparr>an_Body := Some (JObj ((''total_count'', JInt (int (length xs))) # extra @ [(name, page)]))\<rparr>
      | None \<Rightarrow> a)"

definition handleListUserInstallations :: handler where
  "handleListUserInstallations w rq st =
     signed_in rq st (\<lambda>_. (st, paged rq (installationToJSON w) (snapshotInstallations st) [] ''installations''))"

definition selection_json :: "Installation \<Rightarrow> (string \<times> json) list" where
  "selection_json inst = [(''repository_selection'', JStr (in_RepositorySelection inst))]"

definition handleListUserInstallationRepos :: handler where
  "handleListUserInstallationRepos w rq st =
     signed_in rq st (\<lambda>_. with_installation rq st (\<lambda>inst.
       (st, paged rq (\<lambda>r. repoToJSON w r (rq_Base rq)) (ListReposByOwner (in_TargetLogin inst) st) (selection_json inst) ''repositories'')))"

text \<open>The repositories the installation selects, narrowed to those of the token when it names any.\<close>

definition filterReposBySelection :: "Repo list \<Rightarrow> Installation \<Rightarrow> InstallationToken \<Rightarrow> Repo list" where
  "filterReposBySelection all inst tok =
     (let allowed = (if in_RepositorySelection inst = ''selected'' then in_SelectedRepoIDs inst else map re_ID all);
          allowed = (if it_RepositoryIDs tok = [] then allowed else filter (\<lambda>i. i \<in> set allowed) (it_RepositoryIDs tok))
      in filter (\<lambda>r. re_ID r \<in> set allowed) all)"

definition handleListInstallationRepositories :: handler where
  "handleListInstallationRepositories w rq st =
     (case (cx_InstallationToken (rq_Ctx rq), cx_Installation (rq_Ctx rq)) of
        (Some tok, Some inst) \<Rightarrow>
          (st, paged rq (\<lambda>r. repoToJSON w r (rq_Base rq)) (filterReposBySelection (ListReposByOwner (in_TargetLogin inst) st) inst tok)
                 (selection_json inst) ''repositories'')
      | _ \<Rightarrow> (st, badCredentials))"

definition change_selection ::
  "string \<Rightarrow> (int \<Rightarrow> int \<Rightarrow> int \<Rightarrow> Vault \<Rightarrow> Vault \<times> bool \<times> bool) \<Rightarrow> handler" where
  "change_selection action change w rq st =
     signed_in rq st (\<lambda>_. numbered rq st ''id'' ''installation'' (\<lambda>instID. numbered rq st ''repo_id'' ''repository'' (\<lambda>repoID.
       let (st, now) = clock w st; (st, changed, known) = on_vault (change now instID repoID) st in
       if \<not> known then (st, notFound)
       else case GetInstallation instID (fg_Vault st) of
         Some inst \<Rightarrow>
           (if changed then emitInstallationRepositoriesEvent (GetApp (in_AppID inst) (fg_Vault st)) action instID st else st, writeHeader 204)
       | None \<Rightarrow> (st, writeHeader 204))))"

definition handleAddUserInstallationRepo :: handler where
  "handleAddUserInstallationRepo = change_selection ''added'' AddInstallationRepo"

definition handleRemoveUserInstallationRepo :: handler where
  "handleRemoveUserInstallationRepo = change_selection ''removed'' RemoveInstallationRepo"

text \<open>The token of the header; one of fewer than four characters is sliced out of range, and the handler panics.\<close>

definition header_token :: "string \<Rightarrow> string" where
  "header_token auth =
     (if 6 < length auth \<and> HasPrefix auth ''token '' then drop 6 auth
      else if 7 < length auth \<and> HasPrefix auth ''Bearer '' then drop 7 auth else [])"

definition handleRevokeInstallationToken :: handler where
  "handleRevokeInstallationToken w rq st =
     (let tokenStr = header_token (rq_Auth rq) in
      if tokenStr = [] then (st, badCredentials)
      else if length tokenStr < 4 then (st, panicked)
      else if \<not> HasPrefix tokenStr ''ghs_'' then (st, badCredentials)
      else case on_vault (RevokeInstallationToken tokenStr) st of (st, False) \<Rightarrow> (st, badCredentials) | (st, True) \<Rightarrow> (st, writeHeader 204))"

section \<open>Management without a JWT\<close>

definition handleSuspendInstallationMgmt :: handler where
  "handleSuspendInstallationMgmt w rq st =
     signed_in rq st (\<lambda>user. with_installation rq st (\<lambda>inst.
       let (st, now) = clock w st in
       case on_vault (SuspendInstallation now (in_ID inst) (Some (us_Login user, us_ID user, us_Type user))) st of
         (st, False) \<Rightarrow> (st, writeGHError 409 ''Installation already suspended'')
       | (st, True) \<Rightarrow> (emitInstallationEvent (GetApp (in_AppID inst) (fg_Vault st)) ''suspend'' (in_ID inst) st, writeHeader 204)))"

definition handleUnsuspendInstallationMgmt :: handler where
  "handleUnsuspendInstallationMgmt w rq st =
     signed_in rq st (\<lambda>_. with_installation rq st (\<lambda>inst.
       let (st, now) = clock w st in
       case on_vault (UnsuspendInstallation now (in_ID inst)) st of
         (st, False) \<Rightarrow> (st, writeGHError 409 ''Installation not suspended'')
       | (st, True) \<Rightarrow> (emitInstallationEvent (GetApp (in_AppID inst) (fg_Vault st)) ''unsuspend'' (in_ID inst) st, writeHeader 204)))"

definition handleDeleteInstallationMgmt :: handler where
  "handleDeleteInstallationMgmt w rq st =
     signed_in rq st (\<lambda>_. with_installation rq st (\<lambda>inst.
       let (st, _) = on_vault (DeleteInstallation (in_ID inst)) st
       in (emitInstallationEvent (GetApp (in_AppID inst) (fg_Vault st)) ''deleted'' (in_ID inst) st, writeHeader 204)))"

definition installation_req ::
  "(string \<times> json) list \<Rightarrow> (string \<times> int \<times> string \<times> string gomap option \<times> string list option) option" where
  "installation_req ms = do { type \<leftarrow> str_field ''target_type'' ms; target \<leftarrow> struct_field flexInt ''target_id'' 0 ms;
                              login \<leftarrow> str_field ''target_login'' ms; permissions \<leftarrow> struct_field dec_map ''permissions'' None ms;
                              events \<leftarrow> struct_field (dec_ptr dec_strings []) ''events'' None ms; Some (type, target, login, permissions, events) }"

definition handleCreateInstallationMgmt :: handler where
  "handleCreateInstallationMgmt w rq st =
     signed_in rq st (\<lambda>_. numbered rq st ''app_id'' ''app'' (\<lambda>appID.
       case GetApp appID (fg_Vault st) of
         None \<Rightarrow> (st, writeGHError 404 ''App not found'')
       | Some app \<Rightarrow> with_body rq st installation_req (\<lambda>(type, target, login, permissions, events).
           let (st, now) = clock w st;
               (st, inst) = on_vault (CreateInstallation now appID (if type = [] then ''User'' else type) target login permissions events) st
           in case inst of
                None \<Rightarrow> (st, writeJSON 201 JNull)
              | Some inst \<Rightarrow> (emitInstallationEvent (Some app) ''created'' (in_ID inst) st, writeJSON 201 (installationToJSON w inst)))))"

section \<open>The webhook of an app\<close>

definition appHookConfigJSON :: "App \<Rightarrow> json" where
  "appHookConfigJSON app = JObj
     [(''url'', JStr (ap_WebhookURL app)), (''content_type'', JStr ''json''), (''insecure_ssl'', JStr ''0''), (''secret'', JStr ''********''),
      (''active'', JBool (ap_WebhookActive app))]"

definition handleGetAppHookConfig :: handler where
  "handleGetAppHookConfig w rq st = as_app rq st (\<lambda>app. (st, writeJSON 200 (appHookConfigJSON app)))"

definition app_hook_req :: "(string \<times> json) list \<Rightarrow> (string \<times> string) option" where
  "app_hook_req ms = do { url \<leftarrow> str_field ''url'' ms; secret \<leftarrow> str_field ''secret'' ms; str_field ''content_type'' ms;
                          str_field ''insecure_ssl'' ms; Some (url, secret) }"

definition handleUpdateAppHookConfig :: handler where
  "handleUpdateAppHookConfig w rq st =
     as_app rq st (\<lambda>app. with_body rq st app_hook_req (\<lambda>(url, secret).
       let (st, now) = clock w st;
           (st, _) = on_vault (UpdateAppHookConfig now (ap_ID app)
                       (\<lambda>a. a\<lparr>ap_WebhookURL := (if url = [] then ap_WebhookURL a else url),
                              ap_WebhookSecret := (if secret = [] then ap_WebhookSecret a else secret)\<rparr>)) st
       in read_back st (GetApp (ap_ID app) (fg_Vault st)) (\<lambda>a. writeJSON 200 (appHookConfigJSON a))))"

definition handleListAppHookDeliveries :: handler where
  "handleListAppHookDeliveries w rq st =
     as_app rq st (\<lambda>app. (st, listed rq (deliveryToJSON w) (ListAppDeliveries (ap_ID app) st)))"

definition handleRedeliverAppHookDelivery :: handler where
  "handleRedeliverAppHookDelivery w rq st =
     as_app rq st (\<lambda>app. or_404 st (path_number rq ''delivery_id'') (\<lambda>i. or_404 st (GetAppDelivery (ap_ID app) i st) (\<lambda>d.
       if ap_WebhookURL app = [] then (st, writeGHError 422 ''App has no webhook URL configured'')
       else (start_outgoing (AppAgain app d) st, writeJSON 202 (JObj [(''id'', JInt i), (''redelivery'', JBool True)])))))"
end
