(* ===== verification/PullHandlers.thy ===== *)
theory PullHandlers
  imports IssueHandlers
begin

text \<open>
  The handlers of pull requests and reviews (\<open>gh_pulls_rest.go\<close>). The workflows a new pull request triggers are submitted in the
  background (\<open>triggerWorkflowsForEvent\<close>, which reads a git repository) and are not part of the handler.
\<close>

definition pull_req :: "(string \<times> json) list \<Rightarrow> (string \<times> string \<times> string \<times> string \<times> bool) option" where
  "pull_req ms = do { title \<leftarrow> str_field ''title'' ms; body \<leftarrow> str_field ''body'' ms; head \<leftarrow> str_field ''head'' ms;
                      base \<leftarrow> str_field ''base'' ms; draft \<leftarrow> struct_field flexBool ''draft'' False ms;
                      Some (title, body, head, base, draft) }"

definition handleCreatePullRequest :: handler where
  "handleCreatePullRequest w rq st =
     signed_in rq st (\<lambda>user. or_404 st (path_repo rq st) (\<lambda>repo. with_body rq st pull_req (\<lambda>(title, body, head, base, draft).
       if head = [] then (st, writeGHValidationError ''PullRequest'' ''head'' ''missing_field'')
       else case CreatePullRequest w (re_ID repo) (us_ID user) title body head base draft [] [] 0 st of
         (st, None) \<Rightarrow> (st, writeGHError 422 ''Pull request creation failed'')
       | (st, Some pr) \<Rightarrow>
           let st = emitWebhookEvent (repo_key rq) ''pull_request'' ''opened'' st
           in (st, writeJSON 201 (pullRequestToJSON w pr st (rq_Base rq) (re_FullName repo))))))"

text \<open>\<open>head\<close> is a branch, or an owner and a branch.\<close>

definition head_branch :: "string \<Rightarrow> string" where
  "head_branch head = (case Cut head CHR '':'' of Some (_, branch) \<Rightarrow> branch | None \<Rightarrow> head)"

definition matching_pulls :: "Request \<Rightarrow> Repo \<Rightarrow> Forge \<Rightarrow> PullRequest list" where
  "matching_pulls rq repo st =
     (let prs = ListPullRequests (re_ID repo) (state_filter (or_open (query_get (rq_Query rq) ''state''))) st;
          head = query_get (rq_Query rq) ''head''; base = query_get (rq_Query rq) ''base'';
          prs = (if head = [] then prs else filter (\<lambda>pr. pu_HeadRefName pr = head_branch head) prs)
      in if base = [] then prs else filter (\<lambda>pr. pu_BaseRefName pr = base) prs)"

definition handleListPullRequests :: handler where
  "handleListPullRequests w rq st =
     or_404 st (path_repo rq st) (\<lambda>repo.
       (st, listed rq (\<lambda>pr. pullRequestToJSON w pr st (rq_Base rq) (re_FullName repo)) (matching_pulls rq repo st)))"

definition path_pull :: "Request \<Rightarrow> Repo \<Rightarrow> Forge \<Rightarrow> PullRequest option" where
  "path_pull rq repo st = Option.bind (path_number rq ''number'') (\<lambda>num. GetPullRequestByNumber (re_ID repo) num st)"

definition handleGetPullRequest :: handler where
  "handleGetPullRequest w rq st =
     or_404 st (path_repo rq st) (\<lambda>repo. or_404 st (path_pull rq repo st) (\<lambda>pr.
       (st, writeJSON 200 (pullRequestToJSON w pr st (rq_Base rq) (re_FullName repo)))))"

text \<open>The change of a \<open>PATCH\<close>: only an open pull request closes and only a closed one reopens.\<close>

definition edit_pull :: "(string \<times> json) list \<Rightarrow> int \<Rightarrow> PullRequest \<Rightarrow> PullRequest" where
  "edit_pull req now p =
     (let p = p\<lparr>pu_Title := or_keep (member_string ''title'' req) (pu_Title p), pu_Body := or_keep (member_string ''body'' req) (pu_Body p),
                pu_BaseRefName := or_keep (member_string ''base'' req) (pu_BaseRefName p)\<rparr>;
          state = member_string ''state'' req
      in if state = Some ''closed'' \<and> pu_State p = ''OPEN'' then p\<lparr>pu_State := ''CLOSED'', pu_ClosedAt := Some now\<rparr>
         else if state = Some ''open'' \<and> pu_State p = ''CLOSED'' then p\<lparr>pu_State := ''OPEN'', pu_ClosedAt := None\<rparr>
         else p)"

definition handleUpdatePullRequest :: handler where
  "handleUpdatePullRequest w rq st =
     signed_in rq st (\<lambda>_. or_404 st (path_repo rq st) (\<lambda>repo. or_404 st (path_pull rq repo st) (\<lambda>pr. with_body rq st Some (\<lambda>req.
       let (st, _) = UpdatePullRequest w (pu_ID pr) (edit_pull req) st;
           st = emit_state rq ''pull_request'' req st
       in read_back st (GetPullRequest (pu_ID pr) st) (\<lambda>p. writeJSON 200 (pullRequestToJSON w p st (rq_Base rq) (re_FullName repo)))))))"

definition merge_pull :: "int \<Rightarrow> int \<Rightarrow> PullRequest \<Rightarrow> PullRequest" where
  "merge_pull userID now p = p\<lparr>pu_State := ''MERGED'', pu_MergedAt := Some now, pu_ClosedAt := Some now, pu_MergedByID := userID\<rparr>"

definition handleMergePullRequest :: handler where
  "handleMergePullRequest w rq st =
     signed_in rq st (\<lambda>user. or_404 st (path_repo rq st) (\<lambda>repo. or_404 st (path_pull rq repo st) (\<lambda>pr.
       if pu_State pr = ''MERGED'' then (st, writeGHError 405 ''Pull Request is not mergeable'')
       else if pu_State pr = ''CLOSED'' then (st, writeGHError 422 ''Pull Request is closed'')
       else
         let (st, _) = UpdatePullRequest w (pu_ID pr) (merge_pull (us_ID user)) st;
             st = emitWebhookEvent (repo_key rq) ''pull_request'' ''closed'' st;
             (st, now) = clock w st
         in (st, writeJSON 200 (JObj
               [(''sha'', JStr (take 40 (fw_sha256 w (''merge-'' @ Itoa (pu_ID pr) @ ''-'' @ Itoa now)))), (''merged'', JBool True),
                (''message'', JStr ''Pull Request successfully merged'')])))))"

definition review_req :: "(string \<times> json) list \<Rightarrow> (string \<times> string) option" where
  "review_req ms = do { body \<leftarrow> str_field ''body'' ms; event \<leftarrow> str_field ''event'' ms; Some (body, event) }"

definition review_state :: "string \<Rightarrow> string" where
  "review_state event =
     (if ToUpper event = ''APPROVE'' then ''APPROVED'' else if ToUpper event = ''REQUEST_CHANGES'' then ''CHANGES_REQUESTED'' else ''COMMENTED'')"

definition handleCreatePRReview :: handler where
  "handleCreatePRReview w rq st =
     signed_in rq st (\<lambda>user. or_404 st (path_repo rq st) (\<lambda>repo. or_404 st (path_pull rq repo st) (\<lambda>pr.
       with_body rq st review_req (\<lambda>(body, event).
         case CreatePRReview w (pu_ID pr) (us_ID user) (review_state event) body st of
           (st, None) \<Rightarrow> (st, writeGHError 422 ''Review creation failed'')
         | (st, Some review) \<Rightarrow> (st, writeJSON 200 (reviewToJSON w review st (rq_Base rq) (re_FullName repo) (pu_Number pr)))))))"

definition handleListPRReviews :: handler where
  "handleListPRReviews w rq st =
     or_404 st (path_repo rq st) (\<lambda>repo. or_404 st (path_pull rq repo st) (\<lambda>pr.
       (st, listed rq (\<lambda>r. reviewToJSON w r st (rq_Base rq) (re_FullName repo) (pu_Number pr)) (ListPRReviews (pu_ID pr) st))))"

definition handleRequestReviewers :: handler where
  "handleRequestReviewers w rq st =
     signed_in rq st (\<lambda>_. or_404 st (path_repo rq st) (\<lambda>repo. or_404 st (path_pull rq repo st) (\<lambda>pr.
       (st, writeJSON 201 (pullRequestToJSON w pr st (rq_Base rq) (re_FullName repo))))))"
end
