(* ===== verification/OrgHandlers.thy ===== *)
theory OrgHandlers
  imports IssueHandlers
begin

text \<open>
  The handlers of repositories, organizations, teams and members: \<open>gh_repos_rest.go\<close>, \<open>gh_orgs_rest.go\<close>, \<open>gh_teams_rest.go\<close>,
  \<open>gh_members_rest.go\<close>, and of users (\<open>gh_rest.go\<close>).
\<close>

section \<open>Users\<close>

definition handleGHUser :: handler where
  "handleGHUser w rq st = signed_in rq st (\<lambda>user. (st, writeJSON 200 (userToJSON w user)))"

definition handleGHUserByLogin :: handler where
  "handleGHUserByLogin w rq st =
     or_404 st (LookupUserByLogin (PathValue rq ''username'') st) (\<lambda>user. (st, writeJSON 200 (userToJSON w user)))"

section \<open>Repositories\<close>

definition repo_req :: "(json \<Rightarrow> bool \<Rightarrow> bool option) \<Rightarrow> (string \<times> json) list \<Rightarrow> (string \<times> string \<times> bool) option" where
  "repo_req dec ms = do { name \<leftarrow> str_field ''name'' ms; description \<leftarrow> str_field ''description'' ms;
                          private \<leftarrow> struct_field dec ''private'' False ms; Some (name, description, private) }"

definition user_repo_req :: "(string \<times> json) list \<Rightarrow> (string \<times> string \<times> bool) option" where
  "user_repo_req ms = do { req \<leftarrow> repo_req flexBool ms; struct_field flexBool ''auto_init'' False ms; Some req }"

definition handleCreateRepo :: handler where
  "handleCreateRepo w rq st =
     signed_in rq st (\<lambda>user. with_body rq st user_repo_req (\<lambda>(name, description, private).
       if name = [] then (st, writeGHValidationError ''Repository'' ''name'' ''missing_field'')
       else case CreateRepo w user name description private st of
         (st, None) \<Rightarrow> (st, writeGHError 422 ''Repository creation failed.'')
       | (st, Some repo) \<Rightarrow> (st, writeJSON 201 (repoToJSON w repo (rq_Base rq)))))"

definition handleGetRepo :: handler where
  "handleGetRepo w rq st =
     or_404 st (path_repo rq st) (\<lambda>repo.
       if re_Private repo \<and> \<not> canReadRepo (cx_User (rq_Ctx rq)) repo st then (st, notFound)
       else (st, writeJSON 200 (repoToJSON w repo (rq_Base rq))))"

abbreviation notAdmin :: Answer where "notAdmin \<equiv> writeGHError 403 ''Must have admin rights to Repository.''"

definition edit_repo :: "(string \<times> json) list \<Rightarrow> Repo \<Rightarrow> Repo" where
  "edit_repo req r =
     (let r = r\<lparr>re_Description := or_keep (member_string ''description'' req) (re_Description r),
                re_DefaultBranch := or_keep (member_string ''default_branch'' req) (re_DefaultBranch r)\<rparr>;
          r = (case coerceBool (member ''private'' req) of
                 Some v \<Rightarrow> r\<lparr>re_Private := v, re_Visibility := (if v then ''private'' else ''public'')\<rparr> | None \<Rightarrow> r)
      in case coerceBool (member ''archived'' req) of Some v \<Rightarrow> r\<lparr>re_Archived := v\<rparr> | None \<Rightarrow> r)"

definition handleUpdateRepo :: handler where
  "handleUpdateRepo w rq st =
     signed_in rq st (\<lambda>user. or_404 st (path_repo rq st) (\<lambda>repo.
       if \<not> canAdminRepo (Some user) repo st then (st, notAdmin)
       else with_body rq st Some (\<lambda>req.
         let (st, _) = UpdateRepo w (PathValue rq ''owner'') (PathValue rq ''repo'') (edit_repo req) st
         in read_back st (path_repo rq st) (\<lambda>r. writeJSON 200 (repoToJSON w r (rq_Base rq))))))"

definition handleDeleteRepo :: handler where
  "handleDeleteRepo w rq st =
     signed_in rq st (\<lambda>user. or_404 st (path_repo rq st) (\<lambda>repo.
       if \<not> canAdminRepo (Some user) repo st then (st, notAdmin)
       else (fst (DeleteRepo (PathValue rq ''owner'') (PathValue rq ''repo'') st), writeHeader 204)))"

definition handleListAuthUserRepos :: handler where
  "handleListAuthUserRepos w rq st =
     signed_in rq st (\<lambda>user. (st, listed rq (\<lambda>r. repoToJSON w r (rq_Base rq)) (ListReposByOwner (us_Login user) st)))"

definition handleListUserRepos :: handler where
  "handleListUserRepos w rq st = (st, listed rq (\<lambda>r. repoToJSON w r (rq_Base rq)) (ListReposByOwner (PathValue rq ''username'') st))"

section \<open>Organizations\<close>

abbreviation notOwner :: Answer where "notOwner \<equiv> writeGHError 403 ''Must be an organization owner.''"

definition path_org :: "Request \<Rightarrow> Forge \<Rightarrow> Org option" where
  "path_org rq st = GetOrg (PathValue rq ''org'') st"

text \<open>The opening of the handlers that only an owner of the organization may use.\<close>

definition as_owner :: "Request \<Rightarrow> Forge \<Rightarrow> (Org \<Rightarrow> Forge \<times> Answer) \<Rightarrow> Forge \<times> Answer" where
  "as_owner rq st k =
     signed_in rq st (\<lambda>user. or_404 st (path_org rq st) (\<lambda>org. if canAdminOrg user org st then k org else (st, notOwner)))"

definition org_req :: "(string \<times> json) list \<Rightarrow> (string \<times> string \<times> string) option" where
  "org_req ms = do { login \<leftarrow> str_field ''login'' ms; name \<leftarrow> str_field ''name'' ms; description \<leftarrow> str_field ''description'' ms;
                     Some (login, name, description) }"

definition handleCreateOrg :: handler where
  "handleCreateOrg w rq st =
     signed_in rq st (\<lambda>user. with_body rq st org_req (\<lambda>(login, name, description).
       if login = [] then (st, writeGHError 422 ''Validation Failed'')
       else case CreateOrg w user login name description st of
         (st, None) \<Rightarrow> (st, writeGHError 422 ''Organization creation failed.'')
       | (st, Some org) \<Rightarrow> (st, writeJSON 201 (orgToJSON w org (rq_Base rq)))))"

definition handleGetOrg :: handler where
  "handleGetOrg w rq st = or_404 st (path_org rq st) (\<lambda>org. (st, writeJSON 200 (orgToJSON w org (rq_Base rq))))"

definition edit_org :: "(string \<times> json) list \<Rightarrow> Org \<Rightarrow> Org" where
  "edit_org req org =
     org\<lparr>og_Name := or_keep (member_string ''name'' req) (og_Name org),
         og_Description := or_keep (member_string ''description'' req) (og_Description org),
         og_Email := or_keep (member_string ''email'' req) (og_Email org)\<rparr>"

definition handleUpdateOrg :: handler where
  "handleUpdateOrg w rq st =
     as_owner rq st (\<lambda>_. with_body rq st Some (\<lambda>req.
       let (st, _) = UpdateOrg w (PathValue rq ''org'') (edit_org req) st
       in read_back st (path_org rq st) (\<lambda>org. writeJSON 200 (orgToJSON w org (rq_Base rq)))))"

definition handleDeleteOrg :: handler where
  "handleDeleteOrg w rq st = as_owner rq st (\<lambda>_. (fst (DeleteOrg (PathValue rq ''org'') st), writeHeader 204))"

definition handleListAuthUserOrgs :: handler where
  "handleListAuthUserOrgs w rq st =
     signed_in rq st (\<lambda>user. (st, listed rq (\<lambda>org. orgToJSON w org (rq_Base rq)) (ListOrgsByUser (us_ID user) st)))"

definition handleListUserOrgs :: handler where
  "handleListUserOrgs w rq st =
     or_404 st (LookupUserByLogin (PathValue rq ''username'') st) (\<lambda>user.
       (st, listed rq (\<lambda>org. orgToJSON w org (rq_Base rq)) (ListOrgsByUser (us_ID user) st)))"

definition handleCreateOrgRepo :: handler where
  "handleCreateOrgRepo w rq st =
     signed_in rq st (\<lambda>user. or_404 st (path_org rq st) (\<lambda>org.
       if GetMembership (PathValue rq ''org'') (us_ID user) st = None then (st, writeGHError 403 ''Must be a member of the organization.'')
       else with_body rq st (repo_req dec_bool) (\<lambda>(name, description, private).
         if name = [] then (st, writeGHError 422 ''Repository creation failed.'')
         else case CreateOrgRepo w org user name description private st of
           (st, None) \<Rightarrow> (st, writeGHError 422 ''Repository creation failed.'')
         | (st, Some repo) \<Rightarrow> (st, writeJSON 201 (repoToJSON w repo (rq_Base rq))))))"

section \<open>Teams\<close>

definition path_team :: "Request \<Rightarrow> Forge \<Rightarrow> Team option" where
  "path_team rq st = GetTeam (PathValue rq ''org'') (PathValue rq ''team_slug'') st"

definition team_req :: "(string \<times> json) list \<Rightarrow> (string \<times> string \<times> string \<times> string) option" where
  "team_req ms = do { name \<leftarrow> str_field ''name'' ms; description \<leftarrow> str_field ''description'' ms; privacy \<leftarrow> str_field ''privacy'' ms;
                      permission \<leftarrow> str_field ''permission'' ms; Some (name, description, privacy, permission) }"

definition handleCreateTeam :: handler where
  "handleCreateTeam w rq st =
     as_owner rq st (\<lambda>org. with_body rq st team_req (\<lambda>(name, description, privacy, permission).
       if name = [] then (st, writeGHError 422 ''Validation Failed'')
       else case CreateTeam w (PathValue rq ''org'') name description privacy permission st of
         (st, None) \<Rightarrow> (st, writeGHError 422 ''Validation Failed'')
       | (st, Some team) \<Rightarrow> (st, writeJSON 201 (teamToJSON w team org (rq_Base rq)))))"

definition handleListTeams :: handler where
  "handleListTeams w rq st =
     signed_in rq st (\<lambda>_. or_404 st (path_org rq st) (\<lambda>org.
       (st, listed rq (\<lambda>team. teamToJSON w team org (rq_Base rq)) (ListTeams (PathValue rq ''org'') st))))"

definition handleGetTeam :: handler where
  "handleGetTeam w rq st =
     signed_in rq st (\<lambda>_. or_404 st (path_org rq st) (\<lambda>org. or_404 st (path_team rq st) (\<lambda>team.
       (st, writeJSON 200 (teamToJSON w team org (rq_Base rq))))))"

text \<open>A new name changes the slug of the team, but not the key it is found under.\<close>

definition edit_team :: "(string \<times> json) list \<Rightarrow> Team \<Rightarrow> Team" where
  "edit_team req t =
     (let t = (case member_string ''name'' req of Some v \<Rightarrow> t\<lparr>te_Name := v, te_Slug := slugify v\<rparr> | None \<Rightarrow> t)
      in t\<lparr>te_Description := or_keep (member_string ''description'' req) (te_Description t),
           te_Privacy := or_keep (member_string ''privacy'' req) (te_Privacy t),
           te_Permission := or_keep (member_string ''permission'' req) (te_Permission t)\<rparr>)"

definition handleUpdateTeam :: handler where
  "handleUpdateTeam w rq st =
     as_owner rq st (\<lambda>org. or_404 st (path_team rq st) (\<lambda>_. with_body rq st Some (\<lambda>req.
       let (st, _) = UpdateTeam w (PathValue rq ''org'') (PathValue rq ''team_slug'') (edit_team req) st
       in or_404 st (path_team rq st) (\<lambda>team. (st, writeJSON 200 (teamToJSON w team org (rq_Base rq)))))))"

definition handleDeleteTeam :: handler where
  "handleDeleteTeam w rq st =
     as_owner rq st (\<lambda>_. case DeleteTeam (PathValue rq ''org'') (PathValue rq ''team_slug'') st of
       (st, True) \<Rightarrow> (st, writeHeader 204) | (st, False) \<Rightarrow> (st, notFound))"

section \<open>Members\<close>

definition path_user :: "Request \<Rightarrow> Forge \<Rightarrow> User option" where
  "path_user rq st = LookupUserByLogin (PathValue rq ''username'') st"

definition handleListOrgMembers :: handler where
  "handleListOrgMembers w rq st =
     or_404 st (path_org rq st) (\<lambda>_. (st, listed rq (userToJSON w) (ListOrgMembers (PathValue rq ''org'') st)))"

definition handleGetOrgMembership :: handler where
  "handleGetOrgMembership w rq st =
     signed_in rq st (\<lambda>_. or_404 st (path_org rq st) (\<lambda>org. or_404 st (path_user rq st) (\<lambda>target.
       or_404 st (GetMembership (PathValue rq ''org'') (us_ID target) st) (\<lambda>m. (st, writeJSON 200 (membershipToJSON w m target org))))))"

definition handleSetOrgMembership :: handler where
  "handleSetOrgMembership w rq st =
     as_owner rq st (\<lambda>org. or_404 st (path_user rq st) (\<lambda>target. with_body rq st (str_field ''role'') (\<lambda>role.
       let (st, _) = SetMembership (PathValue rq ''org'') (us_ID target) (if role = [] then ''member'' else role) st
       in read_back st (GetMembership (PathValue rq ''org'') (us_ID target) st) (\<lambda>m. writeJSON 200 (membershipToJSON w m target org)))))"

definition handleRemoveOrgMembership :: handler where
  "handleRemoveOrgMembership w rq st =
     as_owner rq st (\<lambda>_. or_404 st (path_user rq st) (\<lambda>target.
       case RemoveMembership (PathValue rq ''org'') (us_ID target) st of (st, True) \<Rightarrow> (st, writeHeader 204) | (st, False) \<Rightarrow> (st, notFound)))"

definition handleListTeamMembers :: handler where
  "handleListTeamMembers w rq st =
     signed_in rq st (\<lambda>_. or_404 st (path_org rq st) (\<lambda>_. or_404 st (path_team rq st) (\<lambda>team.
       (st, listed rq (userToJSON w) (List.map_filter (mget (fg_Users st)) (te_MemberIDs team))))))"

definition handleAddTeamMember :: handler where
  "handleAddTeamMember w rq st =
     as_owner rq st (\<lambda>_. or_404 st (path_team rq st) (\<lambda>_. or_404 st (path_user rq st) (\<lambda>target.
       (fst (AddTeamMember w (PathValue rq ''org'') (PathValue rq ''team_slug'') (us_ID target) st),
        writeJSON 200 (JObj [(''url'', JStr (rq_Base rq @ ''/api/v3/orgs/'' @ PathValue rq ''org'' @ ''/teams/'' @ PathValue rq ''team_slug'' @
                                     ''/memberships/'' @ PathValue rq ''username'')),
                             (''role'', JStr ''member''), (''state'', JStr ''active'')])))))"

definition handleRemoveTeamMember :: handler where
  "handleRemoveTeamMember w rq st =
     as_owner rq st (\<lambda>_. or_404 st (path_user rq st) (\<lambda>target.
       (fst (RemoveTeamMember w (PathValue rq ''org'') (PathValue rq ''team_slug'') (us_ID target) st), writeHeader 204)))"

definition handleAddTeamRepo :: handler where
  "handleAddTeamRepo w rq st =
     as_owner rq st (\<lambda>_. or_404 st (path_team rq st) (\<lambda>_. or_404 st (path_repo rq st) (\<lambda>_.
       (fst (AddTeamRepo w (PathValue rq ''org'') (PathValue rq ''team_slug'') (repo_key rq) st), writeHeader 204))))"

definition handleRemoveTeamRepo :: handler where
  "handleRemoveTeamRepo w rq st =
     as_owner rq st (\<lambda>_. (fst (RemoveTeamRepo w (PathValue rq ''org'') (PathValue rq ''team_slug'') (repo_key rq) st), writeHeader 204))"
end
