(* ===== verification/Cursors.thy ===== *)
theory Cursors
  imports Base64 "HOL-Library.Word"
begin

text \<open>
  The connections of the GraphQL schema: the cursors of \<open>gh_repos_graphql.go\<close> and the four functions that cut a page out of a
  list, \<open>paginateRepos\<close>, \<open>paginateIssuesGQL\<close>, \<open>paginatePullRequestsGQL\<close> and \<open>paginateOrgs\<close>, which are one function at four types.
\<close>

section \<open>Cursors\<close>

definition encodeCursor :: "int \<Rightarrow> string" where
  "encodeCursor idx = base64_encode (''cursor:'' @ Itoa idx)"

definition decodeCursor :: "string \<Rightarrow> int" where
  "decodeCursor s =
     (case base64_decode s of
        None \<Rightarrow> 0
      | Some str \<Rightarrow>
          if \<not> HasPrefix str ''cursor:'' then 0
          else case Atoi (TrimPrefix str ''cursor:'') of None \<Rightarrow> 0 | Some n \<Rightarrow> n)"

section \<open>Pages\<close>

record 'a Connection =
  cn_Nodes :: "'a list"
  cn_Edges :: "('a \<times> string) list"
  cn_TotalCount :: int
  cn_HasNextPage :: bool
  cn_HasPreviousPage :: bool
  cn_StartCursor :: "string option"
  cn_EndCursor :: "string option"

text \<open>
  The position after the cursor and the end of the page, in 64 bits. A start before the list or after the end slices out of
  range: \<open>None\<close>, which the library turns into an error of the field.
\<close>

definition cursor_start :: "string \<Rightarrow> int \<Rightarrow> int" where
  "cursor_start after n = min n (if after = [] then 0 else sint (word_of_int (decodeCursor after + 1) :: 64 word))"

definition connection :: "'a list \<Rightarrow> int \<Rightarrow> string \<Rightarrow> 'a Connection option" where
  "connection items limit after =
     (let n = int (length items); start = cursor_start after n; stop = min n (sint (word_of_int (start + limit) :: 64 word)) in
      if 0 \<le> start \<and> start \<le> stop then
        let nodes = take (nat (stop - start)) (drop (nat start) items);
            edges = zip nodes (map (\<lambda>i. encodeCursor (start + int i)) [0..<length nodes])
        in Some \<lparr>cn_Nodes = nodes, cn_Edges = edges, cn_TotalCount = n, cn_HasNextPage = stop < n, cn_HasPreviousPage = 0 < start,
                 cn_StartCursor = (if edges = [] then None else Some (snd (hd edges))),
                 cn_EndCursor = (if edges = [] then None else Some (snd (List.last edges)))\<rparr>
      else None)"

section \<open>Facts\<close>

lemma decodeCursor_encodeCursor:
  assumes "0 \<le> i" "i < 2 ^ 63" shows "decodeCursor (encodeCursor i) = i"
  using assms by (simp add: decodeCursor_def encodeCursor_def TrimPrefix_def HasPrefix_def Atoi_Itoa)

lemma encodeCursor_not_empty: "encodeCursor i \<noteq> []"
proof
  assume "encodeCursor i = []"
  then have "base64_decode (encodeCursor i) = Some []" by (simp add: base64_decode_def)
  then show False by (simp add: encodeCursor_def)
qed

lemma sint_small: "- (2 ^ 63) \<le> i \<Longrightarrow> i < 2 ^ 63 \<Longrightarrow> sint (word_of_int i :: 64 word) = i"
  by (simp add: signed_take_bit_int_eq_self sint_sbintrunc')

lemma sint_small_nat: "int k < 2 ^ 63 \<Longrightarrow> sint (word_of_nat k :: 64 word) = int k"
  using sint_small [of "int k"] by simp

text \<open>The page after the k-th item, and the first page.\<close>

lemma connection_page:
  assumes "0 < limit" "k \<le> length items" "int (length items) + limit < 2 ^ 63"
    and after: "k = 0 \<and> after = [] \<or> 0 < k \<and> after = encodeCursor (int k - 1)"
  shows "\<exists>c. connection items limit after = Some c \<and> cn_Nodes c = take (nat limit) (drop k items) \<and>
           cn_HasNextPage c = (int k + limit < int (length items)) \<and> cn_HasPreviousPage c = (0 < k) \<and>
           (cn_HasNextPage c \<longrightarrow> cn_EndCursor c = Some (encodeCursor (int k + limit - 1)))"
proof -
  have "sint (word_of_nat k :: 64 word) = int k" using assms(1-3) by (intro sint_small_nat) auto
  then have "cursor_start after (int (length items)) = int k"
    using after assms(1-3) by (auto simp: cursor_start_def encodeCursor_not_empty decodeCursor_encodeCursor min_def)
  moreover have "sint (word_of_int (int k + limit) :: 64 word) = int k + limit" using assms by (intro sint_small) auto
  ultimately have c: "connection items limit after =
      (let stop = min (int (length items)) (int k + limit); nodes = take (nat (stop - int k)) (drop k items);
           edges = zip nodes (map (\<lambda>i. encodeCursor (int k + int i)) [0..<length nodes])
       in Some \<lparr>cn_Nodes = nodes, cn_Edges = edges, cn_TotalCount = int (length items), cn_HasNextPage = stop < int (length items),
                cn_HasPreviousPage = 0 < int k, cn_StartCursor = (if edges = [] then None else Some (snd (hd edges))),
                cn_EndCursor = (if edges = [] then None else Some (snd (List.last edges)))\<rparr>)"
    using assms(1,2) by (simp add: connection_def Let_def)
  have nodes: "take (nat (min (int (length items)) (int k + limit) - int k)) (drop k items) = take (nat limit) (drop k items)"
    using assms(1,2) by (cases "int k + limit \<le> int (length items)") (simp_all add: min_def)
  have "snd (List.last (zip xs (map f [0..<length xs]))) = f (length xs - 1)" if "xs \<noteq> []" for f :: "nat \<Rightarrow> string" and xs :: "'a list"
    using that by (cases xs rule: rev_cases) simp_all
  note last = this
  define nodes where "nodes = take (nat limit) (drop k items)"
  have "nodes \<noteq> [] \<and> int (length nodes) = limit" if "int k + limit < int (length items)"
    using that assms(1) by (auto simp: nodes_def)
  then show ?thesis
    using assms(1,2) unfolding c Let_def nodes nodes_def [symmetric]
    by (auto simp: last min_def of_nat_diff add_diff_eq)
qed

section \<open>Walking the pages\<close>

text \<open>A client that follows the end cursors until there is no next page, in at most \<open>fuel\<close> requests.\<close>

fun walk :: "nat \<Rightarrow> 'a list \<Rightarrow> int \<Rightarrow> string \<Rightarrow> 'a list option" where
  "walk 0 items limit after = None"
| "walk (Suc fuel) items limit after =
     (case connection items limit after of
        None \<Rightarrow> None
      | Some c \<Rightarrow>
          if cn_HasNextPage c then
            (case cn_EndCursor c of None \<Rightarrow> None | Some cursor \<Rightarrow> map_option (\<lambda>rest. cn_Nodes c @ rest) (walk fuel items limit cursor))
          else Some (cn_Nodes c))"

lemma walk_from:
  assumes "0 < limit" "k \<le> length items" "int (length items) + limit < 2 ^ 63"
    and "k = 0 \<and> after = [] \<or> 0 < k \<and> after = encodeCursor (int k - 1)" "length items < fuel + k"
  shows "walk fuel items limit after = Some (drop k items)"
  using assms(2,4,5)
proof (induction fuel arbitrary: k after)
  case (Suc fuel)
  obtain c where c: "connection items limit after = Some c" "cn_Nodes c = take (nat limit) (drop k items)"
      "cn_HasNextPage c = (int k + limit < int (length items))" "cn_HasNextPage c \<longrightarrow> cn_EndCursor c = Some (encodeCursor (int k + limit - 1))"
    using connection_page [OF assms(1) Suc.prems(1) assms(3) Suc.prems(2)] by blast
  show ?case
  proof (cases "int k + limit < int (length items)")
    case True
    have "walk fuel items limit (encodeCursor (int k + limit - 1)) = Some (drop (k + nat limit) items)"
      using True assms(1) Suc.prems by (intro Suc.IH) auto
    moreover have "take (nat limit) (drop k items) @ drop (k + nat limit) items = drop k items"
      by (metis add.commute append_take_drop_id drop_drop)
    ultimately show ?thesis using True c by simp
  next
    case False
    then have "length items - k \<le> nat limit" by linarith
    with False c show ?thesis by simp
  qed
qed simp
end
