(* ===== verification/Graphql.thy ===== *)
theory Graphql
  imports PullHandlers OrgHandlers Cursors
begin

text \<open>
  The GraphQL mutations on repositories, issues, pull requests and comments, and the resolvers of the connections that list
  repositories, issues and pull requests: \<open>gh_repos_graphql.go\<close>, \<open>gh_issues_graphql.go\<close>, \<open>gh_pulls_graphql.go\<close> and
  \<open>gh_moderation_graphql.go\<close>. The library parses the query and checks the input against the schema; a resolver gets the input
  as arguments, an absent optional one as \<open>None\<close>, and answers an error text or the object its payload shows.
\<close>

section \<open>Node identifiers\<close>

definition findRepoByNodeID :: "string \<Rightarrow> Forge \<Rightarrow> Repo option" where
  "findRepoByNodeID nodeID st = first_where (\<lambda>r. re_NodeID r = nodeID) (fg_Repos st)"

definition findIssueByNodeID :: "string \<Rightarrow> Forge \<Rightarrow> Issue option" where
  "findIssueByNodeID nodeID st = first_where (\<lambda>i. iu_NodeID i = nodeID) (fg_Issues st)"

definition findLabelByNodeID :: "string \<Rightarrow> Forge \<Rightarrow> IssueLabel option" where
  "findLabelByNodeID nodeID st = first_where (\<lambda>l. lb_NodeID l = nodeID) (fg_Labels st)"

definition findMilestoneByNodeID :: "string \<Rightarrow> Forge \<Rightarrow> Milestone option" where
  "findMilestoneByNodeID nodeID st = first_where (\<lambda>m. mi_NodeID m = nodeID) (fg_Milestones st)"

definition findUserByNodeID :: "string \<Rightarrow> Forge \<Rightarrow> User option" where
  "findUserByNodeID nodeID st = first_where (\<lambda>u. us_NodeID u = nodeID) (fg_Users st)"

definition findPullRequestByNodeID :: "string \<Rightarrow> Forge \<Rightarrow> PullRequest option" where
  "findPullRequestByNodeID nodeID st = first_where (\<lambda>p. pu_NodeID p = nodeID) (fg_PullRequests st)"

definition label_ids :: "string list \<Rightarrow> Forge \<Rightarrow> int list" where
  "label_ids nodeIDs st = map lb_ID (List.map_filter (\<lambda>n. findLabelByNodeID n st) nodeIDs)"

definition user_ids :: "string list \<Rightarrow> Forge \<Rightarrow> int list" where
  "user_ids nodeIDs st = map us_ID (List.map_filter (\<lambda>n. findUserByNodeID n st) nodeIDs)"

section \<open>Mutations\<close>

datatype payload = PRepo Repo | PNothing | PIssue Issue | PPull PullRequest | PComment Comment | PLocked string bool string

type_synonym result = "string + payload"

abbreviation needs_login :: result where "needs_login \<equiv> Inl ''authentication required''"

definition as_user :: "User option \<Rightarrow> Forge \<Rightarrow> (User \<Rightarrow> Forge \<times> result) \<Rightarrow> Forge \<times> result" where
  "as_user user st k = (case user of None \<Rightarrow> (st, needs_login) | Some user \<Rightarrow> k user)"

definition found :: "string \<Rightarrow> Forge \<Rightarrow> 'a option \<Rightarrow> ('a \<Rightarrow> Forge \<times> result) \<Rightarrow> Forge \<times> result" where
  "found err st x k = (case x of None \<Rightarrow> (st, Inl err) | Some y \<Rightarrow> k y)"

definition opt_list :: "'a list option \<Rightarrow> 'a list" where
  "opt_list xs = (case xs of Some xs \<Rightarrow> xs | None \<Rightarrow> [])"

text \<open>The error of an identifier that names nothing.\<close>

definition unresolved :: "string \<Rightarrow> string \<Rightarrow> string" where
  "unresolved kind i = ''could not resolve to '' @ kind @ '' with the global id of '' @ [CHR 0x27] @ i @ [CHR 0x27]"

definition gql_createRepository :: "ForgeWorld \<Rightarrow> User option \<Rightarrow> string \<Rightarrow> string option \<Rightarrow> string option \<Rightarrow> Forge \<Rightarrow> Forge \<times> result" where
  "gql_createRepository w user name description visibility st =
     as_user user st (\<lambda>user.
       case CreateRepo w user name (or_keep description []) (ToUpper (or_keep visibility []) = ''PRIVATE'') st of
         (st, None) \<Rightarrow> (st, Inl ''repository creation failed'') | (st, Some repo) \<Rightarrow> (st, Inr (PRepo repo)))"

text \<open>The repository is deleted under the login of its owner: for one of an organization that is not its name.\<close>

definition gql_deleteRepository :: "User option \<Rightarrow> string \<Rightarrow> Forge \<Rightarrow> Forge \<times> result" where
  "gql_deleteRepository user repositoryId st =
     as_user user st (\<lambda>_. found (unresolved ''a Repository'' repositoryId) st (findRepoByNodeID repositoryId st) (\<lambda>repo.
       case re_Owner repo of
         None \<Rightarrow> (st, Inl ''runtime error: invalid memory address or nil pointer dereference'')
       | Some owner \<Rightarrow> (fst (DeleteRepo (us_Login owner) (re_Name repo) st), Inr PNothing)))"

definition gql_createIssue ::
  "ForgeWorld \<Rightarrow> User option \<Rightarrow> string \<Rightarrow> string \<Rightarrow> string option \<Rightarrow> string list option \<Rightarrow> string list option \<Rightarrow> string option \<Rightarrow> Forge \<Rightarrow> Forge \<times> result" where
  "gql_createIssue w user repositoryId title body labelIds assigneeIds milestoneId st =
     as_user user st (\<lambda>user.
       found (unresolved ''a Repository'' repositoryId) st (findRepoByNodeID repositoryId st) (\<lambda>repo.
         let ms = (case milestoneId of
                     Some n \<Rightarrow> if n = [] then 0 else (case findMilestoneByNodeID n st of Some m \<Rightarrow> mi_ID m | None \<Rightarrow> 0) | None \<Rightarrow> 0)
         in case CreateIssue w (re_ID repo) (us_ID user) title (or_keep body []) (label_ids (opt_list labelIds) st)
                   (user_ids (opt_list assigneeIds) st) ms st of
              (st, None) \<Rightarrow> (st, Inl ''issue creation failed'') | (st, Some issue) \<Rightarrow> (st, Inr (PIssue issue))))"

text \<open>The payload reads the object back after the update.\<close>

definition issue_back :: "int \<Rightarrow> Forge \<Rightarrow> Forge \<times> result" where
  "issue_back i st = (st, case GetIssue i st of Some issue \<Rightarrow> Inr (PIssue issue) | None \<Rightarrow> Inl [])"

definition pull_back :: "int \<Rightarrow> Forge \<Rightarrow> Forge \<times> result" where
  "pull_back i st = (st, case GetPullRequest i st of Some pr \<Rightarrow> Inr (PPull pr) | None \<Rightarrow> Inl [])"

abbreviation noIssue :: string where "noIssue \<equiv> ''could not resolve to an Issue''"
abbreviation noPull :: string where "noPull \<equiv> ''could not resolve to a PullRequest''"

definition gql_closeIssue :: "ForgeWorld \<Rightarrow> User option \<Rightarrow> string \<Rightarrow> string option \<Rightarrow> Forge \<Rightarrow> Forge \<times> result" where
  "gql_closeIssue w user issueId stateReason st =
     as_user user st (\<lambda>_. found noIssue st (findIssueByNodeID issueId st) (\<lambda>issue.
       let reason = (case stateReason of Some r \<Rightarrow> if r = [] then ''COMPLETED'' else r | None \<Rightarrow> ''COMPLETED'');
           (st, _) = UpdateIssue w (iu_ID issue) (\<lambda>now i. i\<lparr>iu_State := ''CLOSED'', iu_StateReason := reason, iu_ClosedAt := Some now\<rparr>) st
       in issue_back (iu_ID issue) st))"

definition gql_reopenIssue :: "ForgeWorld \<Rightarrow> User option \<Rightarrow> string \<Rightarrow> Forge \<Rightarrow> Forge \<times> result" where
  "gql_reopenIssue w user issueId st =
     as_user user st (\<lambda>_. found noIssue st (findIssueByNodeID issueId st) (\<lambda>issue.
       let (st, _) = UpdateIssue w (iu_ID issue) (\<lambda>_ i. i\<lparr>iu_State := ''OPEN'', iu_StateReason := [], iu_ClosedAt := None\<rparr>) st
       in issue_back (iu_ID issue) st))"

definition gql_addComment :: "ForgeWorld \<Rightarrow> User option \<Rightarrow> string \<Rightarrow> string \<Rightarrow> Forge \<Rightarrow> Forge \<times> result" where
  "gql_addComment w user subjectId body st =
     as_user user st (\<lambda>user. found (unresolved ''a node'' subjectId) st (findIssueByNodeID subjectId st) (\<lambda>issue.
       case CreateComment w (iu_ID issue) (us_ID user) body st of
         (st, None) \<Rightarrow> (st, Inl ''comment creation failed'') | (st, Some c) \<Rightarrow> (st, Inr (PComment c))))"

definition gql_edit_issue :: "string option \<Rightarrow> string option \<Rightarrow> string option \<Rightarrow> Issue \<Rightarrow> Issue" where
  "gql_edit_issue title body state i =
     i\<lparr>iu_Title := or_keep title (iu_Title i), iu_Body := or_keep body (iu_Body i), iu_State := or_keep (map_option ToUpper state) (iu_State i)\<rparr>"

definition gql_updateIssue :: "ForgeWorld \<Rightarrow> User option \<Rightarrow> string \<Rightarrow> string option \<Rightarrow> string option \<Rightarrow> string option \<Rightarrow> Forge \<Rightarrow> Forge \<times> result" where
  "gql_updateIssue w user issueId title body state st =
     as_user user st (\<lambda>_. found noIssue st (findIssueByNodeID issueId st) (\<lambda>issue.
       let (st, _) = UpdateIssue w (iu_ID issue) (\<lambda>_. gql_edit_issue title body state) st in issue_back (iu_ID issue) st))"

definition gql_createPullRequest ::
  "ForgeWorld \<Rightarrow> User option \<Rightarrow> string \<Rightarrow> string \<Rightarrow> string option \<Rightarrow> string \<Rightarrow> string \<Rightarrow> bool option \<Rightarrow> Forge \<Rightarrow> Forge \<times> result" where
  "gql_createPullRequest w user repositoryId title body headRefName baseRefName draft st =
     as_user user st (\<lambda>user.
       found (unresolved ''a Repository'' repositoryId) st (findRepoByNodeID repositoryId st) (\<lambda>repo.
         case CreatePullRequest w (re_ID repo) (us_ID user) title (or_keep body []) headRefName baseRefName (or_keep draft False) [] [] 0 st of
           (st, None) \<Rightarrow> (st, Inl ''pull request creation failed'') | (st, Some pr) \<Rightarrow> (st, Inr (PPull pr))))"

definition close_pull :: "int \<Rightarrow> PullRequest \<Rightarrow> PullRequest" where
  "close_pull now p = p\<lparr>pu_State := ''CLOSED'', pu_ClosedAt := Some now\<rparr>"

definition reopen_pull :: "int \<Rightarrow> PullRequest \<Rightarrow> PullRequest" where
  "reopen_pull now p = p\<lparr>pu_State := ''OPEN'', pu_ClosedAt := None\<rparr>"

definition gql_closePullRequest :: "ForgeWorld \<Rightarrow> User option \<Rightarrow> string \<Rightarrow> Forge \<Rightarrow> Forge \<times> result" where
  "gql_closePullRequest w user pullRequestId st =
     as_user user st (\<lambda>_. found noPull st (findPullRequestByNodeID pullRequestId st) (\<lambda>pr.
       let (st, _) = UpdatePullRequest w (pu_ID pr) close_pull st in pull_back (pu_ID pr) st))"

definition gql_reopenPullRequest :: "ForgeWorld \<Rightarrow> User option \<Rightarrow> string \<Rightarrow> Forge \<Rightarrow> Forge \<times> result" where
  "gql_reopenPullRequest w user pullRequestId st =
     as_user user st (\<lambda>_. found noPull st (findPullRequestByNodeID pullRequestId st) (\<lambda>pr.
       if pu_State pr = ''MERGED'' then (st, Inl ''pull request is merged and cannot be reopened'')
       else let (st, _) = UpdatePullRequest w (pu_ID pr) reopen_pull st in pull_back (pu_ID pr) st))"

definition gql_mergePullRequest :: "ForgeWorld \<Rightarrow> User option \<Rightarrow> string \<Rightarrow> Forge \<Rightarrow> Forge \<times> result" where
  "gql_mergePullRequest w user pullRequestId st =
     as_user user st (\<lambda>user. found noPull st (findPullRequestByNodeID pullRequestId st) (\<lambda>pr.
       if pu_State pr \<noteq> ''OPEN'' then (st, Inl ''pull request is not open'')
       else let (st, _) = UpdatePullRequest w (pu_ID pr) (merge_pull (us_ID user)) st in pull_back (pu_ID pr) st))"

definition gql_updatePullRequest ::
  "ForgeWorld \<Rightarrow> User option \<Rightarrow> string \<Rightarrow> string option \<Rightarrow> string option \<Rightarrow> string option \<Rightarrow> string list option \<Rightarrow> string list option \<Rightarrow> Forge \<Rightarrow> Forge \<times> result" where
  "gql_updatePullRequest w user pullRequestId title body baseRefName labelIds assigneeIds st =
     as_user user st (\<lambda>_. found noPull st (findPullRequestByNodeID pullRequestId st) (\<lambda>pr.
       let (st, _) = UpdatePullRequest w (pu_ID pr)
             (\<lambda>_ p. p\<lparr>pu_Title := or_keep title (pu_Title p), pu_Body := or_keep body (pu_Body p), pu_BaseRefName := or_keep baseRefName (pu_BaseRefName p),
                      pu_LabelIDs := or_keep (map_option (\<lambda>ns. label_ids ns st) labelIds) (pu_LabelIDs p),
                      pu_AssigneeIDs := or_keep (map_option (\<lambda>ns. user_ids ns st) assigneeIds) (pu_AssigneeIDs p)\<rparr>) st
       in pull_back (pu_ID pr) st))"

section \<open>Moderation\<close>

definition gql_minimizeComment :: "User option \<Rightarrow> string \<Rightarrow> string \<Rightarrow> Forge \<Rightarrow> Forge \<times> result" where
  "gql_minimizeComment user subjectId classifier st =
     as_user user st (\<lambda>user. found (unresolved ''a node'' subjectId) st (LookupCommentByNodeID subjectId st) (\<lambda>c.
       case SetCommentMinimization (co_ID c) (us_ID user) classifier st of
         (st, Some c) \<Rightarrow> (st, Inr (PComment c)) | (st, None) \<Rightarrow> (st, Inl [])))"

definition gql_unminimizeComment :: "User option \<Rightarrow> string \<Rightarrow> Forge \<Rightarrow> Forge \<times> result" where
  "gql_unminimizeComment user subjectId st = gql_minimizeComment user subjectId [] st"

definition graphqlToRESTLockReason :: "string \<Rightarrow> string" where
  "graphqlToRESTLockReason enum =
     (if enum = ''OFF_TOPIC'' then ''off-topic'' else if enum = ''TOO_HEATED'' then ''too heated''
      else if enum = ''RESOLVED'' then ''resolved'' else if enum = ''SPAM'' then ''spam'' else [])"

definition lockByNodeID :: "string \<Rightarrow> bool \<Rightarrow> string \<Rightarrow> Forge \<Rightarrow> Forge \<times> payload option" where
  "lockByNodeID nodeID locked reason st =
     (case findIssueByNodeID nodeID st of
        Some issue \<Rightarrow>
          let (st, _) = SetIssueOrPRLock (iu_RepoID issue) (iu_Number issue) locked reason st;
              i = (case GetIssue (iu_ID issue) st of Some i \<Rightarrow> i | None \<Rightarrow> issue)
          in (st, Some (PLocked (iu_NodeID i) (iu_Locked i) (iu_ActiveLockReason i)))
      | None \<Rightarrow>
          (case findPullRequestByNodeID nodeID st of
             Some pr \<Rightarrow>
               let (st, _) = SetIssueOrPRLock (pu_RepoID pr) (pu_Number pr) locked reason st;
                   p = (case GetPullRequest (pu_ID pr) st of Some p \<Rightarrow> p | None \<Rightarrow> pr)
               in (st, Some (PLocked (pu_NodeID p) (pu_Locked p) (pu_ActiveLockReason p)))
           | None \<Rightarrow> (st, None)))"

definition gql_lock :: "User option \<Rightarrow> string \<Rightarrow> bool \<Rightarrow> string \<Rightarrow> Forge \<Rightarrow> Forge \<times> result" where
  "gql_lock user lockableId locked reason st =
     as_user user st (\<lambda>_. case lockByNodeID lockableId locked reason st of
       (st, Some p) \<Rightarrow> (st, Inr p)
     | (st, None) \<Rightarrow> (st, Inl (unresolved ''a lockable node'' lockableId)))"

definition gql_lockLockable :: "User option \<Rightarrow> string \<Rightarrow> string option \<Rightarrow> Forge \<Rightarrow> Forge \<times> result" where
  "gql_lockLockable user lockableId lockReason st = gql_lock user lockableId True (graphqlToRESTLockReason (or_keep lockReason [])) st"

definition gql_unlockLockable :: "User option \<Rightarrow> string \<Rightarrow> Forge \<Rightarrow> Forge \<times> result" where
  "gql_unlockLockable user lockableId st = gql_lock user lockableId False [] st"

section \<open>Reviews\<close>

definition deriveReviewDecision :: "int \<Rightarrow> Forge \<Rightarrow> string" where
  "deriveReviewDecision prID st =
     (let states = map rv_State (ListPRReviews prID st) in
      if ''CHANGES_REQUESTED'' \<in> set states then ''CHANGES_REQUESTED'' else if ''APPROVED'' \<in> set states then ''APPROVED'' else [])"

section \<open>Connections\<close>

text \<open>
  The arguments are optional; an empty list of states or labels, an empty branch and an unknown assignee filter nothing. The
  newest come first; objects of the same time stay in the order of the map.
\<close>

definition newest_first :: "('a \<Rightarrow> int) \<Rightarrow> 'a list \<Rightarrow> 'a list" where
  "newest_first created = sort_key (\<lambda>x. - created x)"

definition page_limit :: "int option \<Rightarrow> int" where
  "page_limit limit = (case limit of Some n \<Rightarrow> if 0 < n then n else 30 | None \<Rightarrow> 30)"

definition paginateRepos :: "Repo list \<Rightarrow> int \<Rightarrow> string \<Rightarrow> Repo Connection option" where
  "paginateRepos repos limit after = connection repos limit after"

definition paginateIssuesGQL :: "Issue list \<Rightarrow> int \<Rightarrow> string \<Rightarrow> Issue Connection option" where
  "paginateIssuesGQL issues limit after = connection issues limit after"

definition paginatePullRequestsGQL :: "PullRequest list \<Rightarrow> int \<Rightarrow> string \<Rightarrow> PullRequest Connection option" where
  "paginatePullRequestsGQL prs limit after = connection prs limit after"

definition paginateOrgs :: "Org list \<Rightarrow> int \<Rightarrow> string \<Rightarrow> Org Connection option" where
  "paginateOrgs orgs limit after = connection orgs limit after"

definition gql_repositories :: "string \<Rightarrow> string option \<Rightarrow> bool option \<Rightarrow> int option \<Rightarrow> string option \<Rightarrow> Forge \<Rightarrow> Repo Connection option" where
  "gql_repositories login privacy isFork limit after st =
     (let repos = ListReposByOwner login st;
          repos = (case privacy of
                     None \<Rightarrow> repos
                   | Some p \<Rightarrow> filter (\<lambda>r. ToUpper p = ''PUBLIC'' \<and> \<not> re_Private r \<or> ToUpper p = ''PRIVATE'' \<and> re_Private r) repos);
          repos = (case isFork of None \<Rightarrow> repos | Some f \<Rightarrow> filter (\<lambda>r. re_Fork r = f) repos)
      in paginateRepos (newest_first re_CreatedAt repos) (page_limit limit) (or_keep after []))"

definition gql_issues ::
  "int \<Rightarrow> string list \<Rightarrow> string list \<Rightarrow> string \<Rightarrow> int option \<Rightarrow> string option \<Rightarrow> Forge \<Rightarrow> Issue Connection option" where
  "gql_issues repoID states labels assignee limit after st =
     (let issues = ListIssues repoID [] st;
          issues = (if states = [] then issues else filter (\<lambda>i. iu_State i \<in> set states) issues);
          issues = (if labels = [] then issues else filter (\<lambda>i. issueHasAllLabels i labels st) issues);
          issues = (if assignee = [] then issues
                    else case LookupUserByLogin assignee st of
                      None \<Rightarrow> issues | Some u \<Rightarrow> filter (\<lambda>i. us_ID u \<in> set (iu_AssigneeIDs i)) issues)
      in paginateIssuesGQL (newest_first iu_CreatedAt issues) (page_limit limit) (or_keep after []))"

definition prHasAllLabels :: "PullRequest \<Rightarrow> string list \<Rightarrow> Forge \<Rightarrow> bool" where
  "prHasAllLabels pr labelNames st =
     list_all (\<lambda>name. list_ex (\<lambda>i. case GetLabel i st of Some l \<Rightarrow> lb_Name l = TrimSpace name | None \<Rightarrow> False) (pu_LabelIDs pr)) labelNames"

definition gql_pullRequests ::
  "int \<Rightarrow> string list \<Rightarrow> string list \<Rightarrow> string \<Rightarrow> string \<Rightarrow> int option \<Rightarrow> string option \<Rightarrow> Forge \<Rightarrow> PullRequest Connection option" where
  "gql_pullRequests repoID states labels head base limit after st =
     (let prs = ListPullRequests repoID [] st;
          prs = (if states = [] then prs else filter (\<lambda>p. pu_State p \<in> set states) prs);
          prs = (if labels = [] then prs else filter (\<lambda>p. prHasAllLabels p labels st) prs);
          prs = (if head = [] then prs else filter (\<lambda>p. pu_HeadRefName p = head) prs);
          prs = (if base = [] then prs else filter (\<lambda>p. pu_BaseRefName p = base) prs)
      in paginatePullRequestsGQL (newest_first pu_CreatedAt prs) (page_limit limit) (or_keep after []))"
end
