(* ===== verification/ForgeRun.thy ===== *)
theory ForgeRun
  imports AppHandlers Graphql
begin

text \<open>
  The server as a whole: the routes with their permission decorators (the \<open>register\<close> functions of the REST files), the GraphQL
  endpoint, and the histories of requests and deliveries.
\<close>

section \<open>Routes\<close>

text \<open>A route: its pattern, the permission its decorator requires, and its handler.\<close>

type_synonym route = "string \<times> (string \<times> permLevel) option \<times> handler"

definition issue_routes :: "route list" where
  "issue_routes =
    [(''POST /api/v3/repos/{owner}/{repo}/labels'', Some (''issues'', permWrite), handleCreateLabel),
     (''GET /api/v3/repos/{owner}/{repo}/labels'', None, handleListLabels),
     (''GET /api/v3/repos/{owner}/{repo}/labels/{name}'', None, handleGetLabel),
     (''PATCH /api/v3/repos/{owner}/{repo}/labels/{name}'', Some (''issues'', permWrite), handleUpdateLabel),
     (''DELETE /api/v3/repos/{owner}/{repo}/labels/{name}'', Some (''issues'', permWrite), handleDeleteLabel),
     (''POST /api/v3/repos/{owner}/{repo}/milestones'', Some (''issues'', permWrite), handleCreateMilestone),
     (''GET /api/v3/repos/{owner}/{repo}/milestones'', None, handleListMilestones),
     (''GET /api/v3/repos/{owner}/{repo}/milestones/{number}'', None, handleGetMilestone),
     (''PATCH /api/v3/repos/{owner}/{repo}/milestones/{number}'', Some (''issues'', permWrite), handleUpdateMilestone),
     (''DELETE /api/v3/repos/{owner}/{repo}/milestones/{number}'', Some (''issues'', permWrite), handleDeleteMilestone),
     (''POST /api/v3/repos/{owner}/{repo}/issues'', Some (''issues'', permWrite), handleCreateIssue),
     (''GET /api/v3/repos/{owner}/{repo}/issues'', None, handleListIssues),
     (''GET /api/v3/repos/{owner}/{repo}/issues/{number}'', None, handleGetIssue),
     (''PATCH /api/v3/repos/{owner}/{repo}/issues/{number}'', Some (''issues'', permWrite), handleUpdateIssue),
     (''POST /api/v3/repos/{owner}/{repo}/issues/{number}/comments'', Some (''issues'', permWrite), handleCreateIssueComment),
     (''GET /api/v3/repos/{owner}/{repo}/issues/{number}/comments'', None, handleListIssueComments),
     (''PATCH /api/v3/repos/{owner}/{repo}/issues/comments/{comment_id}'', Some (''issues'', permWrite), handleUpdateIssueComment),
     (''DELETE /api/v3/repos/{owner}/{repo}/issues/{p1}/{p2}'', Some (''issues'', permWrite), handleIssuesDeleteDispatch),
     (''PUT /api/v3/repos/{owner}/{repo}/issues/{number}/lock'', Some (''issues'', permWrite), handleLockIssue),
     (''POST /api/v3/repos/{owner}/{repo}/issues/{number}/labels'', Some (''issues'', permWrite), handleAddIssueLabels),
     (''DELETE /api/v3/repos/{owner}/{repo}/issues/{number}/labels/{name}'', Some (''issues'', permWrite), handleRemoveIssueLabel)]"

definition pull_routes :: "route list" where
  "pull_routes =
    [(''POST /api/v3/repos/{owner}/{repo}/pulls'', Some (''pull_requests'', permWrite), handleCreatePullRequest),
     (''GET /api/v3/repos/{owner}/{repo}/pulls'', None, handleListPullRequests),
     (''GET /api/v3/repos/{owner}/{repo}/pulls/{number}'', None, handleGetPullRequest),
     (''PATCH /api/v3/repos/{owner}/{repo}/pulls/{number}'', Some (''pull_requests'', permWrite), handleUpdatePullRequest),
     (''PUT /api/v3/repos/{owner}/{repo}/pulls/{number}/merge'', Some (''contents'', permWrite), handleMergePullRequest),
     (''POST /api/v3/repos/{owner}/{repo}/pulls/{number}/reviews'', Some (''pull_requests'', permWrite), handleCreatePRReview),
     (''GET /api/v3/repos/{owner}/{repo}/pulls/{number}/reviews'', None, handleListPRReviews),
     (''POST /api/v3/repos/{owner}/{repo}/pulls/{number}/requested_reviewers'', Some (''pull_requests'', permWrite), handleRequestReviewers)]"

definition user_routes :: "route list" where
  "user_routes =
    [(''GET /api/v3/user'', None, handleGHUser),
     (''GET /api/v3/users/{username}'', None, handleGHUserByLogin)]"

definition repo_routes :: "route list" where
  "repo_routes =
    [(''POST /api/v3/user/repos'', Some (''contents'', permWrite), handleCreateRepo),
     (''GET /api/v3/user/repos'', None, handleListAuthUserRepos),
     (''GET /api/v3/repos/{owner}/{repo}'', None, handleGetRepo),
     (''PATCH /api/v3/repos/{owner}/{repo}'', Some (''administration'', permWrite), handleUpdateRepo),
     (''DELETE /api/v3/repos/{owner}/{repo}'', Some (''administration'', permWrite), handleDeleteRepo),
     (''GET /api/v3/users/{username}/repos'', None, handleListUserRepos)]"

definition org_routes :: "route list" where
  "org_routes =
    [(''POST /api/v3/user/orgs'', None, handleCreateOrg),
     (''GET /api/v3/user/orgs'', None, handleListAuthUserOrgs),
     (''GET /api/v3/orgs/{org}'', None, handleGetOrg),
     (''PATCH /api/v3/orgs/{org}'', None, handleUpdateOrg),
     (''DELETE /api/v3/orgs/{org}'', None, handleDeleteOrg),
     (''GET /api/v3/users/{username}/orgs'', None, handleListUserOrgs),
     (''POST /api/v3/orgs/{org}/repos'', None, handleCreateOrgRepo)]"

definition team_routes :: "route list" where
  "team_routes =
    [(''POST /api/v3/orgs/{org}/teams'', None, handleCreateTeam),
     (''GET /api/v3/orgs/{org}/teams'', None, handleListTeams),
     (''GET /api/v3/orgs/{org}/teams/{team_slug}'', None, handleGetTeam),
     (''PATCH /api/v3/orgs/{org}/teams/{team_slug}'', None, handleUpdateTeam),
     (''DELETE /api/v3/orgs/{org}/teams/{team_slug}'', None, handleDeleteTeam)]"

definition member_routes :: "route list" where
  "member_routes =
    [(''GET /api/v3/orgs/{org}/members'', None, handleListOrgMembers),
     (''GET /api/v3/orgs/{org}/memberships/{username}'', None, handleGetOrgMembership),
     (''PUT /api/v3/orgs/{org}/memberships/{username}'', None, handleSetOrgMembership),
     (''DELETE /api/v3/orgs/{org}/memberships/{username}'', None, handleRemoveOrgMembership),
     (''GET /api/v3/orgs/{org}/teams/{team_slug}/members'', None, handleListTeamMembers),
     (''PUT /api/v3/orgs/{org}/teams/{team_slug}/memberships/{username}'', None, handleAddTeamMember),
     (''DELETE /api/v3/orgs/{org}/teams/{team_slug}/memberships/{username}'', None, handleRemoveTeamMember),
     (''PUT /api/v3/orgs/{org}/teams/{team_slug}/repos/{owner}/{repo}'', None, handleAddTeamRepo),
     (''DELETE /api/v3/orgs/{org}/teams/{team_slug}/repos/{owner}/{repo}'', None, handleRemoveTeamRepo)]"

definition hook_routes :: "route list" where
  "hook_routes =
    [(''POST /api/v3/repos/{owner}/{repo}/hooks'', Some (''administration'', permWrite), handleCreateHook),
     (''GET /api/v3/repos/{owner}/{repo}/hooks'', Some (''administration'', permRead), handleListHooks),
     (''GET /api/v3/repos/{owner}/{repo}/hooks/{id}'', Some (''administration'', permRead), handleGetHook),
     (''PATCH /api/v3/repos/{owner}/{repo}/hooks/{id}'', Some (''administration'', permWrite), handleUpdateHook),
     (''DELETE /api/v3/repos/{owner}/{repo}/hooks/{id}'', Some (''administration'', permWrite), handleDeleteHook),
     (''GET /api/v3/repos/{owner}/{repo}/hooks/{id}/deliveries'', Some (''administration'', permRead), handleListHookDeliveries),
     (''POST /api/v3/repos/{owner}/{repo}/hooks/{id}/deliveries/{delivery_id}/attempts'', Some (''administration'', permWrite), handleRedeliverHookDelivery),
     (''POST /api/v3/repos/{owner}/{repo}/hooks/{id}/pings'', Some (''administration'', permWrite), handlePingHook)]"

definition oauth_routes :: "route list" where
  "oauth_routes =
    [(''POST /login/device/code'', None, handleDeviceCode),
     (''POST /login/oauth/access_token'', None, handleOAuthAccessToken),
     (''GET /login/oauth/authorize'', None, handleOAuthAuthorize),
     (''POST /login/oauth/authorize'', None, handleOAuthAuthorizeApprove)]"

definition app_routes :: "route list" where
  "app_routes =
    [(''POST /api/v3/app-manifests/{code}/conversions'', None, handleManifestConversion),
     (''GET /api/v3/app'', None, handleGetAuthenticatedApp),
     (''GET /api/v3/apps/{app_slug}'', None, handleGetAppBySlug),
     (''GET /api/v3/app/installations'', None, handleListAppInstallations),
     (''GET /api/v3/app/installations/{id}'', None, handleGetAppInstallation),
     (''POST /api/v3/app/installations/{id}/access_tokens'', None, handleCreateInstallationToken),
     (''DELETE /api/v3/app/installations/{id}'', None, handleDeleteAppInstallation),
     (''PUT /api/v3/app/installations/{id}/suspended'', None, handleSuspendInstallation),
     (''DELETE /api/v3/app/installations/{id}/suspended'', None, handleUnsuspendInstallation),
     (''GET /api/v3/repos/{owner}/{repo}/installation'', None, handleGetRepoInstallation),
     (''GET /api/v3/orgs/{org}/installation'', None, handleGetOrgInstallation),
     (''GET /api/v3/users/{username}/installation'', None, handleGetUserInstallation),
     (''GET /api/v3/user/installations'', None, handleListUserInstallations),
     (''GET /api/v3/user/installations/{id}/repositories'', None, handleListUserInstallationRepos),
     (''PUT /api/v3/user/installations/{id}/repositories/{repo_id}'', None, handleAddUserInstallationRepo),
     (''DELETE /api/v3/user/installations/{id}/repositories/{repo_id}'', None, handleRemoveUserInstallationRepo),
     (''DELETE /api/v3/installation/token'', None, handleRevokeInstallationToken),
     (''GET /api/v3/installation/repositories'', None, handleListInstallationRepositories),
     (''POST /api/v3/bleephub/apps'', None, handleCreateApp),
     (''POST /api/v3/bleephub/apps/{app_id}/installations'', None, handleCreateInstallationMgmt),
     (''POST /api/v3/bleephub/installations/{id}/suspend'', None, handleSuspendInstallationMgmt),
     (''POST /api/v3/bleephub/installations/{id}/unsuspend'', None, handleUnsuspendInstallationMgmt),
     (''DELETE /api/v3/bleephub/installations/{id}'', None, handleDeleteInstallationMgmt)]"

definition client_routes :: "route list" where
  "client_routes =
    [(''POST /api/v3/applications/{client_id}/token'', None, handleCheckOAuthToken),
     (''PATCH /api/v3/applications/{client_id}/token'', None, handleResetOAuthToken),
     (''DELETE /api/v3/applications/{client_id}/token'', None, handleRevokeOAuthToken),
     (''POST /api/v3/applications/{client_id}/token/scoped'', None, handleScopeOAuthToken),
     (''DELETE /api/v3/applications/{client_id}/grant'', None, handleRevokeOAuthGrant),
     (''POST /api/v3/bleephub/oauth-apps'', None, handleCreateOAuthAppMgmt),
     (''GET /api/v3/bleephub/oauth-apps'', None, handleListOAuthAppsMgmt)]"

definition app_hook_routes :: "route list" where
  "app_hook_routes =
    [(''GET /api/v3/app/hook/config'', None, handleGetAppHookConfig),
     (''PATCH /api/v3/app/hook/config'', None, handleUpdateAppHookConfig),
     (''GET /api/v3/app/hook/deliveries'', None, handleListAppHookDeliveries),
     (''POST /api/v3/app/hook/deliveries/{delivery_id}/attempts'', None, handleRedeliverAppHookDelivery)]"

definition routes :: "route list" where
  "routes = issue_routes @ pull_routes @ user_routes @ repo_routes @ org_routes @ team_routes @ member_routes @ hook_routes @
     oauth_routes @ app_routes @ client_routes @ app_hook_routes"

text \<open>The route of a pattern.\<close>

definition route_of :: "string \<Rightarrow> ((string \<times> permLevel) option \<times> handler) option" where
  "route_of pattern = map_of routes pattern"

section \<open>A request\<close>

text \<open>
  \<open>verify\<close> checks a JWT against the keys of the apps (\<open>parseAndVerifyAppJWT\<close>). The middleware puts what the credentials prove into
  the context; it leaves the paths under \<open>/login\<close> alone, whose handlers do not read the context.
\<close>

type_synonym verifier = "int \<Rightarrow> (int \<times> App) list \<Rightarrow> string \<Rightarrow> App option"

definition ghHeadersMiddleware :: "verifier \<Rightarrow> int \<Rightarrow> Request \<Rightarrow> Forge \<Rightarrow> Request" where
  "ghHeadersMiddleware verify now rq st = rq\<lparr>rq_Ctx := authenticate (verify now (va_Apps (fg_Vault st))) now (rq_Auth rq) st\<rparr>"

definition serve :: "verifier \<Rightarrow> ForgeWorld \<Rightarrow> string \<Rightarrow> Request \<Rightarrow> Forge \<Rightarrow> Forge \<times> Answer" where
  "serve verify w pattern rq st =
     (let (st, now) = clock w st; rq = ghHeadersMiddleware verify now rq st in
      case route_of pattern of None \<Rightarrow> (st, writeHeader 404) | Some (perm, h) \<Rightarrow> routed perm h w rq st)"

section \<open>GraphQL\<close>

datatype mutation =
    MCreateRepository string "string option" "string option"
  | MDeleteRepository string
  | MCreateIssue string string "string option" "string list option" "string list option" "string option"
  | MCloseIssue string "string option"
  | MReopenIssue string
  | MAddComment string string
  | MUpdateIssue string "string option" "string option" "string option"
  | MCreatePullRequest string string "string option" string string "bool option"
  | MClosePullRequest string
  | MReopenPullRequest string
  | MMergePullRequest string
  | MUpdatePullRequest string "string option" "string option" "string option" "string list option" "string list option"
  | MMinimizeComment string string
  | MUnminimizeComment string
  | MLockLockable string "string option"
  | MUnlockLockable string

primrec gql_resolve :: "ForgeWorld \<Rightarrow> User option \<Rightarrow> mutation \<Rightarrow> Forge \<Rightarrow> Forge \<times> result" where
  "gql_resolve w user (MCreateRepository name description visibility) = gql_createRepository w user name description visibility"
| "gql_resolve w user (MDeleteRepository i) = gql_deleteRepository user i"
| "gql_resolve w user (MCreateIssue repo title text labels assignees ms) = gql_createIssue w user repo title text labels assignees ms"
| "gql_resolve w user (MCloseIssue i reason) = gql_closeIssue w user i reason"
| "gql_resolve w user (MReopenIssue i) = gql_reopenIssue w user i"
| "gql_resolve w user (MAddComment i text) = gql_addComment w user i text"
| "gql_resolve w user (MUpdateIssue i title text state) = gql_updateIssue w user i title text state"
| "gql_resolve w user (MCreatePullRequest repo title text head base draft) = gql_createPullRequest w user repo title text head base draft"
| "gql_resolve w user (MClosePullRequest i) = gql_closePullRequest w user i"
| "gql_resolve w user (MReopenPullRequest i) = gql_reopenPullRequest w user i"
| "gql_resolve w user (MMergePullRequest i) = gql_mergePullRequest w user i"
| "gql_resolve w user (MUpdatePullRequest i title text base labels assignees) = gql_updatePullRequest w user i title text base labels assignees"
| "gql_resolve w user (MMinimizeComment i classifier) = gql_minimizeComment user i classifier"
| "gql_resolve w user (MUnminimizeComment i) = gql_unminimizeComment user i"
| "gql_resolve w user (MLockLockable i reason) = gql_lockLockable user i reason"
| "gql_resolve w user (MUnlockLockable i) = gql_unlockLockable user i"

text \<open>The GraphQL endpoint has no permission decorator; the resolvers only ask for a user.\<close>

definition handleGraphQL :: "verifier \<Rightarrow> ForgeWorld \<Rightarrow> string \<Rightarrow> mutation \<Rightarrow> Forge \<Rightarrow> Forge \<times> result" where
  "handleGraphQL verify w auth m st =
     (let (st, now) = clock w st
      in gql_resolve w (cx_User (authenticate (verify now (va_Apps (fg_Vault st))) now auth st)) m st)"

section \<open>Histories\<close>

datatype forge_op = Rest string Request | Mutate string mutation | Deliver nat "nat \<Rightarrow> int \<times> int \<times> int"

text \<open>The steps that are not mutations.\<close>

primrec is_rest :: "forge_op \<Rightarrow> bool" where
  "is_rest (Rest pattern rq) = True"
| "is_rest (Mutate auth m) = False"
| "is_rest (Deliver n answers) = True"

primrec forge_step :: "verifier \<Rightarrow> ForgeWorld \<Rightarrow> forge_op \<Rightarrow> Forge \<Rightarrow> Forge" where
  "forge_step verify w (Rest pattern rq) st = fst (serve verify w pattern rq st)"
| "forge_step verify w (Mutate auth m) st = fst (handleGraphQL verify w auth m st)"
| "forge_step verify w (Deliver n answers) st = run_outgoing w n answers st"

definition forge_run :: "verifier \<Rightarrow> ForgeWorld \<Rightarrow> forge_op list \<Rightarrow> Forge \<Rightarrow> Forge" where
  "forge_run verify w ops st = foldl (\<lambda>st op. forge_step verify w op st) st ops"

text \<open>The store of a server that starts without a database: the users, and a token for each that has one.\<close>

definition SeedDefaultUser :: "ForgeWorld \<Rightarrow> Forge \<Rightarrow> Forge" where
  "SeedDefaultUser w st =
     (let (st, now) = clock w st;
          u = \<lparr>us_ID = 1, us_NodeID = ''U_kgDOBdefault'', us_Login = ''admin'', us_Name = ''Admin'', us_Email = ''admin@bleephub.local'',
               us_AvatarURL = [], us_Bio = [], us_Type = ''User'', us_SiteAdmin = True, us_CreatedAt = now, us_UpdatedAt = now\<rparr>;
          t = \<lparr>tk_Value = ''ghp_'' @ replicate 40 CHR ''0'', tk_UserID = us_ID u, tk_Scopes = ''repo, read:org, gist'', tk_CreatedAt = now\<rparr>;
          v = fg_Vault st
      in st\<lparr>fg_Users := mput (us_ID u) u (fg_Users st), fg_UsersByLogin := mput (us_Login u) (us_ID u) (fg_UsersByLogin st),
            fg_Vault := v\<lparr>va_Tokens := mput (tk_Value t) t (va_Tokens v)\<rparr>\<rparr>)"

definition add_user :: "User \<Rightarrow> Token \<Rightarrow> Forge \<Rightarrow> Forge" where
  "add_user u t st =
     st\<lparr>fg_Users := mput (us_ID u) u (fg_Users st), fg_UsersByLogin := mput (us_Login u) (us_ID u) (fg_UsersByLogin st),
        fg_Vault := (fg_Vault st)\<lparr>va_Tokens := mput (tk_Value t) t (va_Tokens (fg_Vault st))\<rparr>\<rparr>"

definition forge_start :: "ForgeWorld \<Rightarrow> (User \<times> Token) list \<Rightarrow> Forge" where
  "forge_start w us = foldl (\<lambda>st (u, t). add_user u t st) (SeedDefaultUser w NewForge) us"
end
