(* ===== verification/ForgeFrame.thy ===== *)
theory ForgeFrame
  imports ForgeRun
begin

text \<open>
  What holds of every step of the server. A locale has a relation between stores that is reflexive and transitive and that the
  operations of the store respect; then the handlers of the routes respect it. \<open>account_relation\<close> has the operations on
  repositories, webhooks and credentials, \<open>org_relation\<close> those on organizations, members and teams, \<open>tracker_relation\<close> those
  on issues and pull requests, \<open>rest_relation\<close> all of them, \<open>mutation_relation\<close> those of the GraphQL mutations and
  \<open>forge_relation\<close> every step of a history. An invariant \<open>I\<close> is the relation \<open>I a \<longrightarrow> I b\<close>.
\<close>

section \<open>What the changes given to the updates keep\<close>

definition keeps_repo :: "(Repo \<Rightarrow> Repo) \<Rightarrow> bool" where
  "keeps_repo f \<longleftrightarrow> (\<forall>r. re_ID (f r) = re_ID r \<and> re_Name (f r) = re_Name r \<and> re_FullName (f r) = re_FullName r \<and> re_Owner (f r) = re_Owner r \<and>
     re_NextIssueNumber (f r) = re_NextIssueNumber r \<and> re_NextMilestoneNumber (f r) = re_NextMilestoneNumber r)"

definition keeps_org :: "(Org \<Rightarrow> Org) \<Rightarrow> bool" where
  "keeps_org f \<longleftrightarrow> (\<forall>x. og_ID (f x) = og_ID x \<and> og_Login (f x) = og_Login x)"

definition keeps_team :: "(Team \<Rightarrow> Team) \<Rightarrow> bool" where
  "keeps_team f \<longleftrightarrow> (\<forall>t. te_ID (f t) = te_ID t \<and> te_OrgID (f t) = te_OrgID t \<and> te_MemberIDs (f t) = te_MemberIDs t \<and> te_RepoNames (f t) = te_RepoNames t)"

definition keeps_label :: "(IssueLabel \<Rightarrow> IssueLabel) \<Rightarrow> bool" where
  "keeps_label f \<longleftrightarrow> (\<forall>l. lb_ID (f l) = lb_ID l \<and> lb_RepoID (f l) = lb_RepoID l)"

definition keeps_milestone :: "(Milestone \<Rightarrow> Milestone) \<Rightarrow> bool" where
  "keeps_milestone f \<longleftrightarrow> (\<forall>m. mi_ID (f m) = mi_ID m \<and> mi_RepoID (f m) = mi_RepoID m \<and> mi_Number (f m) = mi_Number m)"

definition keeps_issue :: "(int \<Rightarrow> Issue \<Rightarrow> Issue) \<Rightarrow> bool" where
  "keeps_issue f \<longleftrightarrow> (\<forall>t i. iu_ID (f t i) = iu_ID i \<and> iu_NodeID (f t i) = iu_NodeID i \<and> iu_RepoID (f t i) = iu_RepoID i \<and> iu_Number (f t i) = iu_Number i)"

definition keeps_pull :: "(int \<Rightarrow> PullRequest \<Rightarrow> PullRequest) \<Rightarrow> bool" where
  "keeps_pull f \<longleftrightarrow> (\<forall>t p. pu_ID (f t p) = pu_ID p \<and> pu_NodeID (f t p) = pu_NodeID p \<and> pu_RepoID (f t p) = pu_RepoID p \<and> pu_Number (f t p) = pu_Number p)"

definition closes_or_reopens :: "(int \<Rightarrow> PullRequest \<Rightarrow> PullRequest) \<Rightarrow> bool" where
  "closes_or_reopens f \<longleftrightarrow> (\<forall>t p. pu_State (f t p) = pu_State p \<or>
     pu_State p = ''OPEN'' \<and> pu_State (f t p) = ''CLOSED'' \<or> pu_State p = ''CLOSED'' \<and> pu_State (f t p) = ''OPEN'')"

definition keeps_hook :: "(Webhook \<Rightarrow> Webhook) \<Rightarrow> bool" where
  "keeps_hook f \<longleftrightarrow> (\<forall>h. hk_ID (f h) = hk_ID h \<and> hk_RepoKey (f h) = hk_RepoKey h)"

definition keeps_app :: "(App \<Rightarrow> App) \<Rightarrow> bool" where
  "keeps_app f \<longleftrightarrow> (\<forall>a. ap_ID (f a) = ap_ID a \<and> ap_Slug (f a) = ap_Slug a \<and> ap_ClientID (f a) = ap_ClientID a \<and> ap_ClientSecret (f a) = ap_ClientSecret a)"

definition pull_states :: "(int \<Rightarrow> PullRequest \<Rightarrow> PullRequest) \<Rightarrow> bool" where
  "pull_states f \<longleftrightarrow> (\<forall>t p. pu_State (f t p) \<in> {pu_State p, ''OPEN'', ''CLOSED'', ''MERGED''})"

lemma keeps_edit_repo: "keeps_repo (edit_repo req)"
  by (simp add: keeps_repo_def edit_repo_def Let_def split: option.split)

lemma keeps_edit_org: "keeps_org (edit_org req)"
  by (simp add: keeps_org_def edit_org_def)

lemma keeps_edit_team: "keeps_team (edit_team req)"
  by (simp add: keeps_team_def edit_team_def Let_def split: option.split)

lemma keeps_edit_label: "keeps_label (edit_label req)"
  by (simp add: keeps_label_def edit_label_def)

lemma keeps_edit_milestone: "keeps_milestone (edit_milestone req)"
  by (simp add: keeps_milestone_def edit_milestone_def)

lemma add_labels_keeps: "iu_ID (add_labels ids i) = iu_ID i \<and> iu_NodeID (add_labels ids i) = iu_NodeID i \<and>
    iu_RepoID (add_labels ids i) = iu_RepoID i \<and> iu_Number (add_labels ids i) = iu_Number i"
  unfolding add_labels_def by (rule foldl_invariant) auto

lemma keeps_issue_edits:
  "keeps_issue (edit_issue req)" "keeps_issue (\<lambda>_. add_labels ids)" "keeps_issue (\<lambda>_ i. i\<lparr>iu_LabelIDs := remove1 l (iu_LabelIDs i)\<rparr>)"
  "keeps_issue (\<lambda>now i. i\<lparr>iu_State := s, iu_StateReason := r, iu_ClosedAt := Some now\<rparr>)"
  "keeps_issue (\<lambda>_ i. i\<lparr>iu_State := s, iu_StateReason := r, iu_ClosedAt := None\<rparr>)" "keeps_issue (\<lambda>_. gql_edit_issue title content state)"
  by (simp_all add: keeps_issue_def edit_issue_def Let_def gql_edit_issue_def add_labels_keeps split: option.split)

lemma keeps_pull_edits:
  "keeps_pull (edit_pull req)" "keeps_pull (merge_pull u)" "keeps_pull close_pull" "keeps_pull reopen_pull"
  "keeps_pull (\<lambda>_ p. p\<lparr>pu_Title := t p, pu_Body := b p, pu_BaseRefName := r p, pu_LabelIDs := l p, pu_AssigneeIDs := a p\<rparr>)"
  by (simp_all add: keeps_pull_def edit_pull_def Let_def merge_pull_def close_pull_def reopen_pull_def)

lemma pull_states_edits:
  "pull_states (edit_pull req)" "pull_states (merge_pull u)" "pull_states close_pull" "pull_states reopen_pull"
  "pull_states (\<lambda>_ p. p\<lparr>pu_Title := t p, pu_Body := b p, pu_BaseRefName := r p, pu_LabelIDs := l p, pu_AssigneeIDs := a p\<rparr>)"
  by (simp_all add: pull_states_def edit_pull_def Let_def merge_pull_def close_pull_def reopen_pull_def)

lemma closes_or_reopens_edit: "closes_or_reopens (edit_pull req)"
  by (simp add: closes_or_reopens_def edit_pull_def Let_def)

lemma keeps_edit_hook: "keeps_hook (edit_hook req)"
  by (simp add: keeps_hook_def edit_hook_def Let_def split: prod.split option.split)

lemma keeps_hook_config: "keeps_app (\<lambda>a. a\<lparr>ap_WebhookURL := u a, ap_WebhookSecret := s a\<rparr>)"
  by (simp add: keeps_app_def)

lemmas keeps = keeps_edit_repo keeps_edit_org keeps_edit_team keeps_edit_label keeps_edit_milestone keeps_issue_edits keeps_pull_edits
  pull_states_edits closes_or_reopens_edit keeps_edit_hook keeps_hook_config

section \<open>The handlers\<close>

text \<open>The definitions of the handlers of each route table.\<close>

lemmas issue_handlers =
  handleCreateLabel_def handleListLabels_def handleGetLabel_def handleUpdateLabel_def handleDeleteLabel_def handleCreateMilestone_def
  handleListMilestones_def handleGetMilestone_def handleUpdateMilestone_def handleDeleteMilestone_def handleCreateIssue_def handleListIssues_def
  handleGetIssue_def handleUpdateIssue_def handleCreateIssueComment_def handleListIssueComments_def handleUpdateIssueComment_def
  handleIssuesDeleteDispatch_def handleLockIssue_def handleAddIssueLabels_def handleRemoveIssueLabel_def

lemmas pull_handlers =
  handleCreatePullRequest_def handleListPullRequests_def handleGetPullRequest_def handleUpdatePullRequest_def handleMergePullRequest_def
  handleCreatePRReview_def handleListPRReviews_def handleRequestReviewers_def

lemmas user_handlers =
  handleGHUser_def handleGHUserByLogin_def

lemmas repo_handlers =
  handleCreateRepo_def handleListAuthUserRepos_def handleGetRepo_def handleUpdateRepo_def handleDeleteRepo_def handleListUserRepos_def

lemmas org_handlers =
  handleCreateOrg_def handleListAuthUserOrgs_def handleGetOrg_def handleUpdateOrg_def handleDeleteOrg_def handleListUserOrgs_def
  handleCreateOrgRepo_def

lemmas team_handlers =
  handleCreateTeam_def handleListTeams_def handleGetTeam_def handleUpdateTeam_def handleDeleteTeam_def

lemmas member_handlers =
  handleListOrgMembers_def handleGetOrgMembership_def handleSetOrgMembership_def handleRemoveOrgMembership_def handleListTeamMembers_def
  handleAddTeamMember_def handleRemoveTeamMember_def handleAddTeamRepo_def handleRemoveTeamRepo_def

lemmas hook_handlers =
  handleCreateHook_def handleListHooks_def handleGetHook_def handleUpdateHook_def handleDeleteHook_def handleListHookDeliveries_def
  handleRedeliverHookDelivery_def handlePingHook_def

lemmas oauth_handlers =
  handleDeviceCode_def handleOAuthAccessToken_def handleOAuthAuthorize_def handleOAuthAuthorizeApprove_def

lemmas app_handlers =
  handleManifestConversion_def handleGetAuthenticatedApp_def handleGetAppBySlug_def handleListAppInstallations_def handleGetAppInstallation_def
  handleCreateInstallationToken_def handleDeleteAppInstallation_def handleSuspendInstallation_def handleUnsuspendInstallation_def
  handleGetRepoInstallation_def handleGetOrgInstallation_def handleGetUserInstallation_def handleListUserInstallations_def
  handleListUserInstallationRepos_def handleAddUserInstallationRepo_def handleRemoveUserInstallationRepo_def handleRevokeInstallationToken_def
  handleListInstallationRepositories_def handleCreateApp_def handleCreateInstallationMgmt_def handleSuspendInstallationMgmt_def
  handleUnsuspendInstallationMgmt_def handleDeleteInstallationMgmt_def

lemmas client_handlers =
  handleCheckOAuthToken_def handleResetOAuthToken_def handleRevokeOAuthToken_def handleScopeOAuthToken_def handleRevokeOAuthGrant_def
  handleCreateOAuthAppMgmt_def handleListOAuthAppsMgmt_def

lemmas app_hook_handlers =
  handleGetAppHookConfig_def handleUpdateAppHookConfig_def handleListAppHookDeliveries_def handleRedeliverAppHookDelivery_def

section \<open>The requests on repositories, webhooks and credentials\<close>

locale account_relation =
  fixes w :: ForgeWorld
    and R :: "Forge \<Rightarrow> Forge \<Rightarrow> bool"
  assumes refl_R: "R st st"
    and trans_R: "R a b \<Longrightarrow> R b c \<Longrightarrow> R a c"
    and clock_R: "R st (fst (clock w st))"
    and draw_R: "R st (fst (draw w st))"
    and CreateRepo_R: "R st (fst (CreateRepo w user name description private st))"
    and CreateOrgRepo_R: "R st (fst (CreateOrgRepo w org creator name description private st))"
    and UpdateRepo_R: "keeps_repo repo_fn \<Longrightarrow> R st (fst (UpdateRepo w login name repo_fn st))"
    and DeleteRepo_R: "R st (fst (DeleteRepo login name st))"
    and CreateHook_R: "R st (fst (CreateHook w key url secret events active st))"
    and UpdateHook_R: "keeps_hook hook_fn \<Longrightarrow> R st (fst (UpdateHook w key i hook_fn st))"
    and DeleteHook_R: "R st (fst (DeleteHook key i st))"
    and emitWebhookEvent_R: "R st (emitWebhookEvent key event action st)"
    and start_outgoing_R: "R st (start_outgoing out st)"
    and run_outgoing_R: "R st (run_outgoing w n answers st)"
    and issue_device_code_R: "R st (fst (on_vault (issue_device_code now rnd code i scope) st))"
    and issue_auth_code_R: "R st (let (st, code) = draw w st; (st, now) = clock w st in set_vault (issue_auth_code now code i client url scope state (fg_Vault st)) st)"
    and handleWebFlowTokenForm_R: "R st (fst (on_vault (handleWebFlowTokenForm now rnd known code client) st))"
    and RevokeUserToServerToken_R: "R st (fst (on_vault (RevokeUserToServerToken tok) st))"
    and createUserToServerTokenLocked_R: "LookupUserToServerToken now tok (fg_Vault old) = Some t \<Longrightarrow> R start old \<Longrightarrow> R start st \<Longrightarrow> R start (fst (on_vault (createUserToServerTokenLocked now' rnd rrnd i j client scopes ttl refresh) st))"
    and RevokeUserGrant_R: "R st (fst (on_vault (RevokeUserGrant client i) st))"
    and CreateOAuthApp_R: "R st (fst (on_vault (CreateOAuthApp now client secret i name description url callback) st))"
    and ConsumeManifestCode_R: "R st (fst (on_vault (ConsumeManifestCode code) st))"
    and CreateApp_R: "R st (fst (on_vault (CreateApp now secret wsecret pem i name description perms app_events) st))"
    and CreateInstallationToken_R: "R st (fst (on_vault (CreateInstallationToken now rnd i j perms ids) st))"
    and DeleteInstallation_R: "R st (fst (on_vault (DeleteInstallation i) st))"
    and SuspendInstallation_R: "R st (fst (on_vault (SuspendInstallation now i by_user) st))"
    and UnsuspendInstallation_R: "R st (fst (on_vault (UnsuspendInstallation now i) st))"
    and AddInstallationRepo_R: "R st (fst (on_vault (AddInstallationRepo now i j) st))"
    and RemoveInstallationRepo_R: "R st (fst (on_vault (RemoveInstallationRepo now i j) st))"
    and RevokeInstallationToken_R: "R st (fst (on_vault (RevokeInstallationToken tok) st))"
    and CreateInstallation_R: "R st (fst (on_vault (CreateInstallation now i kind j login perms app_events) st))"
    and UpdateAppHookConfig_R: "keeps_app app_fn \<Longrightarrow> R st (fst (on_vault (UpdateAppHookConfig now i app_fn) st))"
begin

text \<open>The same facts in the form that takes a goal apart from its end.\<close>

lemmas steps =
  trans_R [OF _ clock_R] trans_R [OF _ draw_R] trans_R [OF _ CreateRepo_R] trans_R [OF _ CreateOrgRepo_R] trans_R [OF _ UpdateRepo_R]
  trans_R [OF _ DeleteRepo_R] trans_R [OF _ CreateHook_R] trans_R [OF _ UpdateHook_R] trans_R [OF _ DeleteHook_R]
  trans_R [OF _ emitWebhookEvent_R] trans_R [OF _ start_outgoing_R] trans_R [OF _ run_outgoing_R] trans_R [OF _ issue_device_code_R]
  trans_R [OF _ handleWebFlowTokenForm_R] trans_R [OF _ RevokeUserToServerToken_R] trans_R [OF _ RevokeUserGrant_R]
  trans_R [OF _ CreateOAuthApp_R] trans_R [OF _ ConsumeManifestCode_R] trans_R [OF _ CreateApp_R] trans_R [OF _ CreateInstallationToken_R]
  trans_R [OF _ DeleteInstallation_R] trans_R [OF _ SuspendInstallation_R] trans_R [OF _ UnsuspendInstallation_R]
  trans_R [OF _ AddInstallationRepo_R] trans_R [OF _ RemoveInstallationRepo_R] trans_R [OF _ RevokeInstallationToken_R]
  trans_R [OF _ CreateInstallation_R] trans_R [OF _ UpdateAppHookConfig_R]

lemma R_signed_in: "R a b \<Longrightarrow> (\<And>u. R a (fst (k u))) \<Longrightarrow> R a (fst (signed_in rq b k))"
  by (simp add: signed_in_def split: option.split)

lemma R_or_404: "R a b \<Longrightarrow> (\<And>y. x = Some y \<Longrightarrow> R a (fst (k y))) \<Longrightarrow> R a (fst (or_404 b x k))"
  by (simp add: or_404_def split: option.split)

lemma R_with_body: "R a b \<Longrightarrow> (\<And>y. R a (fst (k y))) \<Longrightarrow> R a (fst (with_body rq b dec k))"
  by (simp add: with_body_def split: option.split)

lemma R_read_back: "R a b \<Longrightarrow> R a (fst (read_back b x k))"
  by (simp add: read_back_def)

lemma R_as_owner: "R a b \<Longrightarrow> (\<And>y. R a (fst (k y))) \<Longrightarrow> R a (fst (as_owner rq b k))"
  by (simp add: as_owner_def R_signed_in R_or_404)

lemma R_as_app: "R a b \<Longrightarrow> (\<And>y. R a (fst (k y))) \<Longrightarrow> R a (fst (as_app rq b k))"
  by (simp add: as_app_def split: option.split)

lemma R_numbered: "R a b \<Longrightarrow> (\<And>y. R a (fst (k y))) \<Longrightarrow> R a (fst (numbered rq b name what k))"
  by (simp add: numbered_def split: option.split)

lemma R_with_installation: "R a b \<Longrightarrow> (\<And>y. R a (fst (k y))) \<Longrightarrow> R a (fst (with_installation rq b k))"
  by (simp add: with_installation_def R_numbered R_or_404)

lemma R_own_installation: "R a b \<Longrightarrow> (\<And>x y. R a (fst (k x y))) \<Longrightarrow> R a (fst (own_installation rq b k))"
  by (simp add: own_installation_def R_as_app R_with_installation)

lemma R_as_client:
  assumes "R a b"
    and k: "\<And>x tok st now t. R a st \<Longrightarrow> LookupUserToServerToken now t (fg_Vault st) = Some tok \<Longrightarrow> R a (fst (k x tok st))"
  shows "R a (fst (as_client w rq b dec unknown k))"
proof -
  have "R a (fst (clock w b))" using assms(1) by (rule steps(1))
  with assms(1) show ?thesis by (auto simp: as_client_def Let_def case_prod_unfold intro: k split: option.split list.split)
qed

lemma R_if: "(c \<Longrightarrow> R a (fst x)) \<Longrightarrow> (\<not> c \<Longrightarrow> R a (fst y)) \<Longrightarrow> R a (fst (if c then x else y))"
  by simp

lemma R_option: "R a (fst x) \<Longrightarrow> (\<And>z. opt = Some z \<Longrightarrow> R a (fst (y z))) \<Longrightarrow> R a (fst (case opt of None \<Rightarrow> x | Some z \<Rightarrow> y z))"
  by (simp split: option.split)

lemma R_bool: "R a (fst x) \<Longrightarrow> R a (fst y) \<Longrightarrow> R a (fst (case c of True \<Rightarrow> x | False \<Rightarrow> y))"
  by (simp split: bool.split)

lemmas walk_R = refl_R steps createUserToServerTokenLocked_R R_signed_in R_or_404 R_with_body R_read_back R_as_owner R_as_app R_numbered R_with_installation
  R_own_installation R_as_client R_if R_option R_bool

lemma handleDeviceTokenForm_R: "R st (fst (handleDeviceTokenForm w rq st))"
  by (auto simp: handleDeviceTokenForm_def Let_def case_prod_unfold intro!: walk_R keeps split: option.split)

lemma handle_web_flow_R: "R st (fst (handle_web_flow w rq st))"
  by (auto simp: handle_web_flow_def Let_def case_prod_unfold intro!: walk_R keeps split: option.split)

lemma completeAuthorize_R: "R st (fst (completeAuthorize client url scopes state w rq st))"
  using issue_auth_code_R [of st] by (auto simp: completeAuthorize_def Let_def case_prod_unfold refl_R split: option.split)

lemma change_selection_R:
  assumes "\<And>now i j st. R st (fst (on_vault (change now i j) st))"
  shows "R st (fst (change_selection action change w rq st))"
  by (auto simp: change_selection_def Let_def case_prod_unfold emitInstallationRepositoriesEvent_def emit_app_event_def
        intro!: walk_R trans_R [OF _ assms] split: option.split)

lemma user_routes_R: "(pattern, perm, h) \<in> set user_routes \<Longrightarrow> R st (fst (h w rq st))"
  by (auto simp: user_routes_def user_handlers Let_def case_prod_unfold
        intro!: walk_R keeps split: option.split)

lemma repo_routes_R: "(pattern, perm, h) \<in> set repo_routes \<Longrightarrow> R st (fst (h w rq st))"
  by (auto simp: repo_routes_def repo_handlers Let_def case_prod_unfold
        intro!: walk_R keeps split: option.split)

lemma hook_routes_R: "(pattern, perm, h) \<in> set hook_routes \<Longrightarrow> R st (fst (h w rq st))"
  by (auto simp: hook_routes_def hook_handlers Let_def case_prod_unfold
        intro!: walk_R keeps split: option.split)

lemma oauth_routes_R: "(pattern, perm, h) \<in> set oauth_routes \<Longrightarrow> R st (fst (h w rq st))"
  by (auto simp: oauth_routes_def oauth_handlers Let_def case_prod_unfold
        intro!: walk_R keeps handleDeviceTokenForm_R handle_web_flow_R completeAuthorize_R split: option.split)

lemma app_routes_R: "(pattern, perm, h) \<in> set app_routes \<Longrightarrow> R st (fst (h w rq st))"
  by (auto simp: app_routes_def app_handlers emitInstallationEvent_def emit_app_event_def Let_def case_prod_unfold
        intro!: walk_R keeps change_selection_R AddInstallationRepo_R RemoveInstallationRepo_R split: option.split)

lemma client_routes_R: "(pattern, perm, h) \<in> set client_routes \<Longrightarrow> R st (fst (h w rq st))"
  by (auto simp: client_routes_def client_handlers Let_def case_prod_unfold
        intro!: walk_R keeps split: option.split)

lemma app_hook_routes_R: "(pattern, perm, h) \<in> set app_hook_routes \<Longrightarrow> R st (fst (h w rq st))"
  by (auto simp: app_hook_routes_def app_hook_handlers Let_def case_prod_unfold
        intro!: walk_R keeps split: option.split)

lemmas account_routes_R = user_routes_R repo_routes_R hook_routes_R oauth_routes_R app_routes_R client_routes_R app_hook_routes_R

end

section \<open>The requests on organizations\<close>

locale org_relation = account_relation +
  assumes CreateOrg_R: "R st (fst (CreateOrg w creator login name description st))"
    and UpdateOrg_R: "keeps_org org_fn \<Longrightarrow> R st (fst (UpdateOrg w login org_fn st))"
    and DeleteOrg_R: "R st (fst (DeleteOrg login st))"
    and SetMembership_R: "R st (fst (SetMembership login i role st))"
    and RemoveMembership_R: "R st (fst (RemoveMembership login i st))"
    and CreateTeam_R: "R st (fst (CreateTeam w login name description privacy permission st))"
    and UpdateTeam_R: "keeps_team team_fn \<Longrightarrow> R st (fst (UpdateTeam w login slug team_fn st))"
    and DeleteTeam_R: "R st (fst (DeleteTeam login slug st))"
    and AddTeamMember_R: "R st (fst (AddTeamMember w login slug i st))"
    and RemoveTeamMember_R: "R st (fst (RemoveTeamMember w login slug i st))"
    and AddTeamRepo_R: "R st (fst (AddTeamRepo w login slug name st))"
    and RemoveTeamRepo_R: "R st (fst (RemoveTeamRepo w login slug name st))"
begin

lemmas org_steps =
  trans_R [OF _ CreateOrg_R] trans_R [OF _ UpdateOrg_R] trans_R [OF _ DeleteOrg_R] trans_R [OF _ SetMembership_R]
  trans_R [OF _ RemoveMembership_R] trans_R [OF _ CreateTeam_R] trans_R [OF _ UpdateTeam_R] trans_R [OF _ DeleteTeam_R]
  trans_R [OF _ AddTeamMember_R] trans_R [OF _ RemoveTeamMember_R] trans_R [OF _ AddTeamRepo_R] trans_R [OF _ RemoveTeamRepo_R]

lemma org_routes_R: "(pattern, perm, h) \<in> set org_routes \<Longrightarrow> R st (fst (h w rq st))"
  by (auto simp: org_routes_def org_handlers Let_def case_prod_unfold
        intro!: org_steps walk_R keeps split: option.split)

lemma team_routes_R: "(pattern, perm, h) \<in> set team_routes \<Longrightarrow> R st (fst (h w rq st))"
  by (auto simp: team_routes_def team_handlers Let_def case_prod_unfold
        intro!: org_steps walk_R keeps split: option.split)

lemma member_routes_R: "(pattern, perm, h) \<in> set member_routes \<Longrightarrow> R st (fst (h w rq st))"
  by (auto simp: member_routes_def member_handlers Let_def case_prod_unfold
        intro!: org_steps walk_R keeps split: option.split)

end

section \<open>The requests on issues and pull requests\<close>

locale tracker_relation = account_relation +
  assumes CreateLabel_R: "R st (fst (CreateLabel w i name description color st))"
    and UpdateLabel_R: "keeps_label label_fn \<Longrightarrow> R st (fst (UpdateLabel i label_fn st))"
    and DeleteLabel_R: "R st (fst (DeleteLabel i st))"
    and CreateMilestone_R: "R st (fst (CreateMilestone w i title description state due st))"
    and UpdateMilestone_R: "keeps_milestone ms_fn \<Longrightarrow> R st (fst (UpdateMilestone w i ms_fn st))"
    and DeleteMilestone_R: "R st (fst (DeleteMilestone i st))"
    and CreateIssue_R: "R st (fst (CreateIssue w i author title content labels assignees ms st))"
    and UpdateIssue_R: "keeps_issue issue_fn \<Longrightarrow> R st (fst (UpdateIssue w i issue_fn st))"
    and CreateCommentFor_R: "R st (fst (CreateCommentFor w kind i author content st))"
    and DeleteComment_R: "R st (fst (DeleteComment i st))"
    and UpdateCommentBody_R: "R st (fst (UpdateCommentBody w i author content st))"
    and SetIssueOrPRLock_R: "R st (fst (SetIssueOrPRLock i number locked reason st))"
    and CreatePullRequest_R: "R st (fst (CreatePullRequest w i author title content head_ref base_ref draft labels assignees ms st))"
    and EditPullRequest_R: "keeps_pull pull_fn \<Longrightarrow> closes_or_reopens pull_fn \<Longrightarrow> R st (fst (UpdatePullRequest w i pull_fn st))"
    and MergePullRequest_R: "pr \<in> snd ` set (fg_PullRequests st) \<Longrightarrow> pu_State pr \<notin> {''MERGED'', ''CLOSED''} \<Longrightarrow> R st (fst (UpdatePullRequest w (pu_ID pr) (merge_pull u) st))"
    and CreatePRReview_R: "R st (fst (CreatePRReview w i author state content st))"
begin

lemmas tracker_steps =
  trans_R [OF _ CreateLabel_R] trans_R [OF _ UpdateLabel_R] trans_R [OF _ DeleteLabel_R] trans_R [OF _ CreateMilestone_R]
  trans_R [OF _ UpdateMilestone_R] trans_R [OF _ DeleteMilestone_R] trans_R [OF _ CreateIssue_R] trans_R [OF _ UpdateIssue_R]
  trans_R [OF _ CreateCommentFor_R] trans_R [OF _ DeleteComment_R] trans_R [OF _ UpdateCommentBody_R] trans_R [OF _ SetIssueOrPRLock_R]
  trans_R [OF _ CreatePullRequest_R] trans_R [OF _ EditPullRequest_R] trans_R [OF _ MergePullRequest_R] trans_R [OF _ CreatePRReview_R]

lemma handleDeleteIssueComment_R: "R st (fst (handleDeleteIssueComment s w rq st))"
  by (auto simp: handleDeleteIssueComment_def Let_def case_prod_unfold intro!: tracker_steps walk_R keeps split: option.split)

lemma handleUnlockIssue_R: "R st (fst (handleUnlockIssue s w rq st))"
  by (auto simp: handleUnlockIssue_def Let_def case_prod_unfold intro!: tracker_steps walk_R keeps split: option.split)

lemma issue_routes_R: "(pattern, perm, h) \<in> set issue_routes \<Longrightarrow> R st (fst (h w rq st))"
  by (auto simp: issue_routes_def issue_handlers emit_state_def Let_def case_prod_unfold
        intro!: tracker_steps walk_R keeps handleDeleteIssueComment_R handleUnlockIssue_R split: option.split)

lemma GetPullRequestByNumber_in: "GetPullRequestByNumber i n st = Some pr \<Longrightarrow> pr \<in> snd ` set (fg_PullRequests st)"
  by (force simp: GetPullRequestByNumber_def first_where_def dest!: find_SomeD)

lemma path_pull_in: "path_pull rq repo st = Some pr \<Longrightarrow> pr \<in> snd ` set (fg_PullRequests st)"
  by (auto simp: path_pull_def bind_eq_Some_conv GetPullRequestByNumber_in)

lemma pull_routes_R: "(pattern, perm, h) \<in> set pull_routes \<Longrightarrow> R st (fst (h w rq st))"
  by (auto simp: pull_routes_def pull_handlers emit_state_def path_pull_in Let_def case_prod_unfold
        intro!: tracker_steps walk_R keeps split: option.split)

end

section \<open>All REST requests\<close>

locale rest_relation = org_relation + tracker_relation
begin

lemma route_R: "route_of pattern = Some (perm, h) \<Longrightarrow> R st (fst (h w rq st))"
  unfolding route_of_def routes_def
  by (drule map_of_SomeD) (auto intro: account_routes_R org_routes_R team_routes_R member_routes_R issue_routes_R pull_routes_R)

lemma serve_R: "R st (fst (serve verify w pattern rq st))"
proof -
  have "R (fst (clock w st)) (fst (routed perm h w rq' (fst (clock w st))))" if "route_of pattern = Some (perm, h)" for perm h rq'
    using route_R [OF that] by (auto simp: routed_def refl_R split: option.split)
  moreover have "R st (fst (clock w st))" by (rule clock_R)
  ultimately show ?thesis by (auto simp: serve_def Let_def case_prod_unfold intro: trans_R split: option.split)
qed

lemma rest_step_R: "is_rest op \<Longrightarrow> R st (forge_step verify w op st)"
  by (cases op) (simp_all add: serve_R run_outgoing_R)

lemma rest_run_R: "list_all is_rest ops \<Longrightarrow> R st (forge_run verify w ops st)"
  unfolding forge_run_def by (rule foldl_invariant) (auto simp: list_all_iff intro: refl_R trans_R [OF _ rest_step_R])

end

section \<open>The GraphQL mutations\<close>

locale mutation_relation = tracker_relation +
  assumes UpdatePullRequest_R: "keeps_pull pull_fn \<Longrightarrow> pull_states pull_fn \<Longrightarrow> R st (fst (UpdatePullRequest w i pull_fn st))"
    and SetCommentMinimization_R: "R st (fst (SetCommentMinimization i u reason st))"
begin

lemma R_as_user: "R a b \<Longrightarrow> (\<And>u. R a (fst (k u))) \<Longrightarrow> R a (fst (as_user user b k))"
  by (simp add: as_user_def split: option.split)

lemma R_found: "R a b \<Longrightarrow> (\<And>y. R a (fst (k y))) \<Longrightarrow> R a (fst (found err b x k))"
  by (simp add: found_def split: option.split)

lemma R_back: "R a b \<Longrightarrow> R a (fst (issue_back i b))" "R a b \<Longrightarrow> R a (fst (pull_back i b))"
  by (simp_all add: issue_back_def pull_back_def)

lemmas gql_R = tracker_steps walk_R R_as_user R_found R_back trans_R [OF _ UpdatePullRequest_R] trans_R [OF _ SetCommentMinimization_R]

lemma lockByNodeID_R: "R st (fst (lockByNodeID i locked reason st))"
  by (auto simp: lockByNodeID_def Let_def case_prod_unfold intro!: gql_R split: option.split)

lemma gql_resolve_R: "R st (fst (gql_resolve w user m st))"
  by (cases m)
     (auto simp: gql_createRepository_def gql_deleteRepository_def gql_createIssue_def gql_closeIssue_def gql_reopenIssue_def gql_addComment_def
        CreateComment_def gql_updateIssue_def gql_createPullRequest_def gql_closePullRequest_def gql_reopenPullRequest_def gql_mergePullRequest_def
        gql_updatePullRequest_def gql_minimizeComment_def gql_unminimizeComment_def gql_lockLockable_def gql_unlockLockable_def gql_lock_def
        Let_def case_prod_unfold intro!: gql_R keeps lockByNodeID_R split: option.split)

lemma handleGraphQL_R: "R st (fst (handleGraphQL verify w auth m st))"
  using trans_R [OF clock_R gql_resolve_R] by (simp add: handleGraphQL_def Let_def case_prod_unfold)

end

section \<open>All steps\<close>

locale forge_relation = rest_relation + mutation_relation
begin

lemma forge_step_R: "R st (forge_step verify w op st)"
  by (cases op) (simp_all add: serve_R handleGraphQL_R run_outgoing_R)

lemma forge_run_R: "R st (forge_run verify w ops st)"
  unfolding forge_run_def by (rule foldl_invariant) (auto intro: refl_R trans_R [OF _ forge_step_R])

end

end
