(* ===== verification/Still.thy ===== *)
theory Still
  imports ForgeFrame
begin

text \<open>Apart from the clock, the random values, the outbox and the deliveries.\<close>

definition still :: "Forge \<Rightarrow> Forge" where
  "still st = st\<lparr>fg_Outbox := [], fg_HookDeliveries := [], fg_AppHookDeliveries := [], fg_NextDeliveryID := 0, fg_Tick := 0, fg_Draws := 0\<rparr>"

lemma still_clock [simp]: "still (fst (clock w st)) = still st"
  by (simp add: still_def clock_def)

lemma still_draw [simp]: "still (fst (draw w st)) = still st"
  by (simp add: still_def draw_def)

lemma still_deliveries [simp]: "still (AddDelivery d st) = still st" "still (AddAppDelivery i d st) = still st" "still (to_app i j d st) = still st"
  by (simp_all add: still_def AddDelivery_def AddAppDelivery_def to_app_def Let_def)

lemma still_attempt [simp]: "still (fst (doDeliverAttempt w i event action guid redelivery answer st)) = still st"
  by (simp add: doDeliverAttempt_def case_prod_unfold Let_def)

lemma still_attempts:
  "(\<And>d st. still (add d st) = still st) \<Longrightarrow> still (delivery_attempts w add i event action guid redelivery answers st) = still st"
  by (induction answers arbitrary: redelivery st) (simp_all add: Let_def case_prod_unfold)

lemma still_outbox [simp]:
  "still (st\<lparr>fg_Outbox := out\<rparr>) = still st" "still (st\<lparr>fg_Tick := t\<rparr>) = still st" "still (st\<lparr>fg_Draws := t\<rparr>) = still st"
  by (simp_all add: still_def)

lemma still_emit [simp]: "still (emitWebhookEvent key event action st) = still st" "still (start_outgoing out st) = still st"
  by (simp_all add: emitWebhookEvent_def start_outgoing_def)

lemma still_deliverWebhook [simp]: "still (deliverWebhook w hook event action answers st) = still st"
  by (simp add: deliverWebhook_def still_attempts case_prod_unfold Let_def del: delivery_attempts.simps list.map)

lemma still_deliverAppWebhook [simp]: "still (deliverAppWebhook w app inst event action answers st) = still st"
  by (simp add: deliverAppWebhook_def still_attempts case_prod_unfold Let_def del: delivery_attempts.simps list.map)

lemma still_redeliverAppWebhook [simp]: "still (redeliverAppWebhook w app d answers st) = still st"
  by (simp add: redeliverAppWebhook_def still_attempts Let_def case_prod_unfold)

lemma still_run_outgoing [simp]: "still (run_outgoing w n answers st) = still st"
  by (simp add: run_outgoing_def Let_def still_attempts del: delivery_attempts.simps split: outgoing.split)

text \<open>The fields that \<open>still\<close> keeps are kept by what is quiet.\<close>

lemma field_still:
  "fg_Users (still st) = fg_Users st" "fg_UsersByLogin (still st) = fg_UsersByLogin st" "fg_Repos (still st) = fg_Repos st"
  "fg_ReposByName (still st) = fg_ReposByName st" "fg_GitStorages (still st) = fg_GitStorages st" "fg_Orgs (still st) = fg_Orgs st"
  "fg_OrgsByLogin (still st) = fg_OrgsByLogin st" "fg_Teams (still st) = fg_Teams st" "fg_TeamsBySlug (still st) = fg_TeamsBySlug st"
  "fg_Memberships (still st) = fg_Memberships st" "fg_Issues (still st) = fg_Issues st" "fg_Labels (still st) = fg_Labels st"
  "fg_Milestones (still st) = fg_Milestones st" "fg_Comments (still st) = fg_Comments st" "fg_PullRequests (still st) = fg_PullRequests st"
  "fg_PRReviews (still st) = fg_PRReviews st" "fg_Hooks (still st) = fg_Hooks st" "fg_Vault (still st) = fg_Vault st"
  "fg_NextRepo (still st) = fg_NextRepo st" "fg_NextOrg (still st) = fg_NextOrg st" "fg_NextTeam (still st) = fg_NextTeam st"
  "fg_NextIssue (still st) = fg_NextIssue st" "fg_NextLabel (still st) = fg_NextLabel st" "fg_NextMilestone (still st) = fg_NextMilestone st"
  "fg_NextComment (still st) = fg_NextComment st" "fg_NextPR (still st) = fg_NextPR st" "fg_NextPRReview (still st) = fg_NextPRReview st"
  "fg_NextHookID (still st) = fg_NextHookID st"
  by (simp_all add: still_def)

lemmas still_fields =
  arg_cong [where f = fg_Users and x = "still a" and y = "still b" for a b, unfolded field_still]
  arg_cong [where f = fg_UsersByLogin and x = "still a" and y = "still b" for a b, unfolded field_still]
  arg_cong [where f = fg_Repos and x = "still a" and y = "still b" for a b, unfolded field_still]
  arg_cong [where f = fg_ReposByName and x = "still a" and y = "still b" for a b, unfolded field_still]
  arg_cong [where f = fg_GitStorages and x = "still a" and y = "still b" for a b, unfolded field_still]
  arg_cong [where f = fg_Orgs and x = "still a" and y = "still b" for a b, unfolded field_still]
  arg_cong [where f = fg_OrgsByLogin and x = "still a" and y = "still b" for a b, unfolded field_still]
  arg_cong [where f = fg_Teams and x = "still a" and y = "still b" for a b, unfolded field_still]
  arg_cong [where f = fg_TeamsBySlug and x = "still a" and y = "still b" for a b, unfolded field_still]
  arg_cong [where f = fg_Memberships and x = "still a" and y = "still b" for a b, unfolded field_still]
  arg_cong [where f = fg_Issues and x = "still a" and y = "still b" for a b, unfolded field_still]
  arg_cong [where f = fg_Labels and x = "still a" and y = "still b" for a b, unfolded field_still]
  arg_cong [where f = fg_Milestones and x = "still a" and y = "still b" for a b, unfolded field_still]
  arg_cong [where f = fg_Comments and x = "still a" and y = "still b" for a b, unfolded field_still]
  arg_cong [where f = fg_PullRequests and x = "still a" and y = "still b" for a b, unfolded field_still]
  arg_cong [where f = fg_PRReviews and x = "still a" and y = "still b" for a b, unfolded field_still]
  arg_cong [where f = fg_Hooks and x = "still a" and y = "still b" for a b, unfolded field_still]
  arg_cong [where f = fg_Vault and x = "still a" and y = "still b" for a b, unfolded field_still]
  arg_cong [where f = fg_NextRepo and x = "still a" and y = "still b" for a b, unfolded field_still]
  arg_cong [where f = fg_NextOrg and x = "still a" and y = "still b" for a b, unfolded field_still]
  arg_cong [where f = fg_NextTeam and x = "still a" and y = "still b" for a b, unfolded field_still]
  arg_cong [where f = fg_NextIssue and x = "still a" and y = "still b" for a b, unfolded field_still]
  arg_cong [where f = fg_NextLabel and x = "still a" and y = "still b" for a b, unfolded field_still]
  arg_cong [where f = fg_NextMilestone and x = "still a" and y = "still b" for a b, unfolded field_still]
  arg_cong [where f = fg_NextComment and x = "still a" and y = "still b" for a b, unfolded field_still]
  arg_cong [where f = fg_NextPR and x = "still a" and y = "still b" for a b, unfolded field_still]
  arg_cong [where f = fg_NextPRReview and x = "still a" and y = "still b" for a b, unfolded field_still]
  arg_cong [where f = fg_NextHookID and x = "still a" and y = "still b" for a b, unfolded field_still]

lemma clock_fields [simp]: "fst (clock w st) = st\<lparr>fg_Tick := Suc (fg_Tick st)\<rparr>"
  by (simp add: clock_def)

lemma draw_fields [simp]: "fst (draw w st) = st\<lparr>fg_Draws := Suc (fg_Draws st)\<rparr>"
  by (simp add: draw_def)

lemma quiet_emit [simp]:
  "fg_Users (emitWebhookEvent key event action st) = fg_Users st"
  "fg_UsersByLogin (emitWebhookEvent key event action st) = fg_UsersByLogin st"
  "fg_Repos (emitWebhookEvent key event action st) = fg_Repos st" "fg_ReposByName (emitWebhookEvent key event action st) = fg_ReposByName st"
  "fg_GitStorages (emitWebhookEvent key event action st) = fg_GitStorages st" "fg_Orgs (emitWebhookEvent key event action st) = fg_Orgs st"
  "fg_OrgsByLogin (emitWebhookEvent key event action st) = fg_OrgsByLogin st" "fg_Teams (emitWebhookEvent key event action st) = fg_Teams st"
  "fg_TeamsBySlug (emitWebhookEvent key event action st) = fg_TeamsBySlug st"
  "fg_Memberships (emitWebhookEvent key event action st) = fg_Memberships st"
  "fg_Issues (emitWebhookEvent key event action st) = fg_Issues st" "fg_Labels (emitWebhookEvent key event action st) = fg_Labels st"
  "fg_Milestones (emitWebhookEvent key event action st) = fg_Milestones st"
  "fg_Comments (emitWebhookEvent key event action st) = fg_Comments st"
  "fg_PullRequests (emitWebhookEvent key event action st) = fg_PullRequests st"
  "fg_PRReviews (emitWebhookEvent key event action st) = fg_PRReviews st" "fg_Hooks (emitWebhookEvent key event action st) = fg_Hooks st"
  "fg_Vault (emitWebhookEvent key event action st) = fg_Vault st" "fg_NextRepo (emitWebhookEvent key event action st) = fg_NextRepo st"
  "fg_NextOrg (emitWebhookEvent key event action st) = fg_NextOrg st" "fg_NextTeam (emitWebhookEvent key event action st) = fg_NextTeam st"
  "fg_NextIssue (emitWebhookEvent key event action st) = fg_NextIssue st"
  "fg_NextLabel (emitWebhookEvent key event action st) = fg_NextLabel st"
  "fg_NextMilestone (emitWebhookEvent key event action st) = fg_NextMilestone st"
  "fg_NextComment (emitWebhookEvent key event action st) = fg_NextComment st"
  "fg_NextPR (emitWebhookEvent key event action st) = fg_NextPR st"
  "fg_NextPRReview (emitWebhookEvent key event action st) = fg_NextPRReview st"
  "fg_NextHookID (emitWebhookEvent key event action st) = fg_NextHookID st"
  by (simp_all add: emitWebhookEvent_def)

lemmas quiet_run [simp] = still_fields [OF still_run_outgoing]

text \<open>An operation on the vault changes nothing else.\<close>

lemma fst_on_vault: "fst (on_vault f st) = st\<lparr>fg_Vault := fst (f (fg_Vault st))\<rparr>"
  by (simp add: on_vault_def set_vault_def case_prod_unfold Let_def)

text \<open>Tables.\<close>

lemma mput_fresh: "k \<notin> fst ` set m \<Longrightarrow> mput k v m = m @ [(k, v)]"
  by (induction m) auto

lemma set_mput: "wf_map m \<Longrightarrow> set (mput k v m) = insert (k, v) {(k', v') \<in> set m. k' \<noteq> k}"
  by (induction m) (auto simp: image_iff)

lemma set_mdel: "set (mdel k m) = {(k', v') \<in> set m. k' \<noteq> k}"
  by (auto simp: AList.delete_eq)

lemma find_mget: "wf_map m \<Longrightarrow> find P m = Some (k, v) \<Longrightarrow> mget m k = Some v"
  by (metis find_SomeD map_of_is_SomeI)

lemma start_tables:
  "fg_Repos (forge_start w us) = [] \<and> fg_Issues (forge_start w us) = [] \<and> fg_PullRequests (forge_start w us) = [] \<and>
   fg_Orgs (forge_start w us) = [] \<and> fg_OrgsByLogin (forge_start w us) = [] \<and> fg_Memberships (forge_start w us) = [] \<and>
   fg_Teams (forge_start w us) = [] \<and> fg_NextRepo (forge_start w us) = 1 \<and> fg_NextIssue (forge_start w us) = 1 \<and>
   fg_NextPR (forge_start w us) = 1"
  unfolding forge_start_def
  by (rule foldl_invariant) (auto simp: add_user_def SeedDefaultUser_def clock_def NewForge_def Let_def)

text \<open>The definitions of the operations of the store that change only their own tables.\<close>

lemmas store_defs = CreateOrg_def UpdateOrg_def DeleteOrg_def SetMembership_def RemoveMembership_def CreateTeam_def UpdateTeam_def DeleteTeam_def
  AddTeamMember_def RemoveTeamMember_def AddTeamRepo_def RemoveTeamRepo_def change_team_def upd_team_def CreateLabel_def UpdateLabel_def
  UpdateMilestone_def CreateCommentFor_def DeleteComment_def UpdateCommentBody_def
  SetCommentMinimization_def CreatePRReview_def CreateHook_def UpdateHook_def DeleteHook_def set_vault_def fst_on_vault

end
