(* ===== verification/Numbers.thy ===== *)
theory Numbers
  imports Still
begin

text \<open>
  The numbers of issues and pull requests: in every history the two kinds share one sequence per repository, and no number is
  given twice.
\<close>

section \<open>Tables seen through a projection\<close>

definition seen :: "('v \<Rightarrow> 'a) \<Rightarrow> ('k \<times> 'v) list \<Rightarrow> ('k \<times> 'a) list" where
  "seen f m = map (\<lambda>(k, v). (k, f v)) m"

lemma seen_mput [simp]: "seen f (mput k v m) = mput k (f v) (seen f m)"
  by (induction m) (auto simp: seen_def)

lemma seen_mdel [simp]: "seen f (mdel k m) = mdel k (seen f m)"
  by (induction m) (auto simp: seen_def AList.delete_eq)

lemma mget_seen [simp]: "mget (seen f m) k = map_option f (mget m k)"
  by (induction m) (auto simp: seen_def)

lemma seen_keys [simp]: "map fst (seen f m) = map fst m"
  by (induction m) (auto simp: seen_def)

lemma seen_change: "mget m k = Some v \<Longrightarrow> f v' = f v \<Longrightarrow> mput k (f v') (seen f m) = seen f m"
  by (simp add: update_triv)

lemma seen_map: "(\<And>k v. (k, v) \<in> set m \<Longrightarrow> f (g (k, v)) = f v) \<Longrightarrow> seen f (map (\<lambda>(k, v). (k, g (k, v))) m) = seen f m"
  by (induction m) (auto simp: seen_def)

lemma in_seen: "(k, v) \<in> set m \<Longrightarrow> (k, f v) \<in> set (seen f m)"
  by (force simp: seen_def)

section \<open>The invariant\<close>

definition repo_tag :: "Repo \<Rightarrow> int \<times> int" where "repo_tag r = (re_ID r, re_NextIssueNumber r)"
definition issue_tag :: "Issue \<Rightarrow> int \<times> int \<times> int" where "issue_tag i = (iu_ID i, iu_RepoID i, iu_Number i)"
definition pull_tag :: "PullRequest \<Rightarrow> int \<times> int \<times> int" where "pull_tag p = (pu_ID p, pu_RepoID p, pu_Number p)"

definition given :: "(int \<times> int \<times> int \<times> int) list \<Rightarrow> (int \<times> int) list" where
  "given xs = map (\<lambda>(k, i, tag). tag) xs"

text \<open>
  Keys are identifiers below the counters; the numbers given out in a repository that exists are below its counter; no number
  of a repository is given twice, to issues or pull requests.
\<close>

definition tags_ok ::
  "(int \<times> int \<times> int) list \<Rightarrow> int \<Rightarrow> (int \<times> int \<times> int \<times> int) list \<Rightarrow> int \<Rightarrow> (int \<times> int \<times> int \<times> int) list \<Rightarrow> int \<Rightarrow> bool" where
  "tags_ok rs nr is ni ps np \<longleftrightarrow>
     wf_map rs \<and> wf_map is \<and> wf_map ps \<and> (\<forall>k i n. (k, i, n) \<in> set rs \<longrightarrow> i = k \<and> k < nr \<and> 1 \<le> n) \<and>
     (\<forall>k i t. (k, i, t) \<in> set is \<longrightarrow> i = k \<and> k < ni) \<and> (\<forall>k i t. (k, i, t) \<in> set ps \<longrightarrow> i = k \<and> k < np) \<and>
     (\<forall>r m. (r, m) \<in> set (given is) \<union> set (given ps) \<longrightarrow> r < nr \<and> 1 \<le> m) \<and>
     (\<forall>r m i n. (r, m) \<in> set (given is) \<union> set (given ps) \<longrightarrow> (r, i, n) \<in> set rs \<longrightarrow> m < n) \<and>
     distinct (given is) \<and> distinct (given ps) \<and> set (given is) \<inter> set (given ps) = {}"

definition numbers_ok :: "Forge \<Rightarrow> bool" where
  "numbers_ok st \<longleftrightarrow>
     tags_ok (seen repo_tag (fg_Repos st)) (fg_NextRepo st) (seen issue_tag (fg_Issues st)) (fg_NextIssue st)
       (seen pull_tag (fg_PullRequests st)) (fg_NextPR st)"

text \<open>The four changes: a repository comes or goes, an issue or a pull request takes a number.\<close>

lemma tags_okD:
  assumes "tags_ok rs nr is ni ps np"
  shows "(k, i, n) \<in> set rs \<Longrightarrow> i = k \<and> k < nr \<and> 1 \<le> n" "(k, i, t) \<in> set is \<Longrightarrow> i = k \<and> k < ni" "(k, i, t) \<in> set ps \<Longrightarrow> i = k \<and> k < np"
    and "(r, m) \<in> set (given is) \<union> set (given ps) \<Longrightarrow> r < nr \<and> 1 \<le> m" "(r, m) \<in> set (given is) \<union> set (given ps) \<Longrightarrow> (r, i, n) \<in> set rs \<Longrightarrow> m < n"
    and "distinct (given is)" "distinct (given ps)" "set (given is) \<inter> set (given ps) = {}"
    and "wf_map rs" "wf_map is" "wf_map ps"
  using assms unfolding tags_ok_def by blast+

lemma tags_okI:
  assumes "wf_map rs" "wf_map is" "wf_map ps" "\<And>k i n. (k, i, n) \<in> set rs \<Longrightarrow> i = k \<and> k < nr \<and> 1 \<le> n"
    "\<And>k i t. (k, i, t) \<in> set is \<Longrightarrow> i = k \<and> k < ni" "\<And>k i t. (k, i, t) \<in> set ps \<Longrightarrow> i = k \<and> k < np"
    "\<And>r m. (r, m) \<in> set (given is) \<union> set (given ps) \<Longrightarrow> r < nr \<and> 1 \<le> m"
    "\<And>r m i n. (r, m) \<in> set (given is) \<union> set (given ps) \<Longrightarrow> (r, i, n) \<in> set rs \<Longrightarrow> m < n"
    "distinct (given is)" "distinct (given ps)" "set (given is) \<inter> set (given ps) = {}"
  shows "tags_ok rs nr is ni ps np"
  unfolding tags_ok_def using assms by (intro conjI allI impI) blast+

lemma tags_ok_new_repo:
  assumes "tags_ok rs nr is ni ps np" shows "tags_ok (mput nr (nr, 1) rs) (nr + 1) is ni ps np"
proof -
  note d = tags_okD [OF assms]
  show ?thesis
  proof (rule tags_okI)
    show "i = k \<and> k < nr + 1 \<and> 1 \<le> n" if "(k, i, n) \<in> set (mput nr (nr, 1) rs)" for k i n
      using that d(1) [of k i n] d(9) by (auto simp: set_mput)
    show "r < nr + 1 \<and> 1 \<le> m" if "(r, m) \<in> set (given is) \<union> set (given ps)" for r m using d(4) [OF that] by auto
    show "m < n" if "(r, m) \<in> set (given is) \<union> set (given ps)" "(r, i, n) \<in> set (mput nr (nr, 1) rs)" for r m i n
      using that d(4) [OF that(1)] d(5) [OF that(1), of i n] d(9) by (auto simp: set_mput)
  qed (use d(2,3,6-11) in \<open>simp_all\<close>)
qed

lemma tags_ok_no_repo:
  assumes "tags_ok rs nr is ni ps np" shows "tags_ok (mdel k rs) nr is ni ps np"
proof -
  note d = tags_okD [OF assms]
  show ?thesis
  proof (rule tags_okI)
    show "m < n" if "(r, m) \<in> set (given is) \<union> set (given ps)" "(r, i, n) \<in> set (mdel k rs)" for r m i n
      using that(2) d(5) [OF that(1), of i n] by (simp add: set_mdel)
    show "i = k' \<and> k' < nr \<and> 1 \<le> n" if "(k', i, n) \<in> set (mdel k rs)" for k' i n
      using that d(1) [of k' i n] by (simp add: set_mdel)
    show "r < nr \<and> 1 \<le> m" if "(r, m) \<in> set (given is) \<union> set (given ps)" for r m using d(4) [OF that] .
  qed (use d(2,3,6-11) in \<open>simp_all\<close>)
qed

lemma tags_ok_new_issue:
  assumes ok: "tags_ok rs nr is ni ps np" and r: "mget rs r = Some (i, n)"
  shows "tags_ok (mput r (i, n + 1) rs) nr (mput ni (ni, r, n) is) (ni + 1) ps np"
proof -
  note d = tags_okD [OF ok]
  have in_rs: "(r, i, n) \<in> set rs" using r by (rule map_of_SomeD)
  have only: "i' = i \<and> m = n" if "(r, i', m) \<in> set rs" for i' m using that r d(9) by (metis map_of_is_SomeI option.inject prod.inject)
  have fresh: "ni \<notin> fst ` set is" using d(2) by fastforce
  have given': "set (given (mput ni (ni, r, n) is)) = insert (r, n) (set (given is))" "distinct (given (mput ni (ni, r, n) is)) \<longleftrightarrow> (r, n) \<notin> set (given is) \<and> distinct (given is)"
    by (auto simp: mput_fresh [OF fresh] given_def)
  have new: "(r, n) \<notin> set (given is) \<union> set (given ps)" using d(5) [OF _ in_rs] by fastforce
  show ?thesis
  proof (rule tags_okI)
    show "i' = k \<and> k < nr \<and> 1 \<le> m" if "(k, i', m) \<in> set (mput r (i, n + 1) rs)" for k i' m
      using that d(1) [of k i' m] d(1) [OF in_rs] d(9) by (auto simp: set_mput)
    show "i' = k \<and> k < ni + 1" if "(k, i', t) \<in> set (mput ni (ni, r, n) is)" for k i' t
      using that d(2) [of k i' t] by (auto simp: mput_fresh [OF fresh])
    show "r' < nr \<and> 1 \<le> m" if "(r', m) \<in> set (given (mput ni (ni, r, n) is)) \<union> set (given ps)" for r' m
      using that d(4) [of r' m] d(1) [OF in_rs] unfolding given' by auto
    show "m < q" if "(r', m) \<in> set (given (mput ni (ni, r, n) is)) \<union> set (given ps)" "(r', j, q) \<in> set (mput r (i, n + 1) rs)" for r' m j q
    proof -
      have "(r', j, q) \<in> set rs \<and> r' \<noteq> r \<or> r' = r \<and> q = n + 1" using that(2) d(9) by (auto simp: set_mput)
      then show ?thesis
        using that(1) d(5) [of r' m j q] d(5) [of r m i n] in_rs unfolding given' by auto
    qed
  qed (use d(3,6-11) new in \<open>auto simp: given'\<close>)
qed

lemma tags_ok_swap: "tags_ok rs nr is ni ps np \<Longrightarrow> tags_ok rs nr ps np is ni"
  unfolding tags_ok_def by blast

lemma tags_ok_new_pull:
  "tags_ok rs nr is ni ps np \<Longrightarrow> mget rs r = Some (i, n) \<Longrightarrow> tags_ok (mput r (i, n + 1) rs) nr is ni (mput np (np, r, n) ps) (np + 1)"
  by (metis tags_ok_new_issue tags_ok_swap)

section \<open>Every operation keeps the invariant\<close>

lemma numbers_frame [simp]:
  "numbers_ok (st\<lparr>fg_Users := x0\<rparr>) = numbers_ok st"
  "numbers_ok (st\<lparr>fg_UsersByLogin := x1\<rparr>) = numbers_ok st"
  "numbers_ok (st\<lparr>fg_ReposByName := x3\<rparr>) = numbers_ok st"
  "numbers_ok (st\<lparr>fg_GitStorages := x4\<rparr>) = numbers_ok st" "numbers_ok (st\<lparr>fg_Orgs := x5\<rparr>) = numbers_ok st"
  "numbers_ok (st\<lparr>fg_OrgsByLogin := x6\<rparr>) = numbers_ok st" "numbers_ok (st\<lparr>fg_Teams := x7\<rparr>) = numbers_ok st"
  "numbers_ok (st\<lparr>fg_TeamsBySlug := x8\<rparr>) = numbers_ok st"
  "numbers_ok (st\<lparr>fg_Memberships := x9\<rparr>) = numbers_ok st"
  "numbers_ok (st\<lparr>fg_Labels := x11\<rparr>) = numbers_ok st"
  "numbers_ok (st\<lparr>fg_Milestones := x12\<rparr>) = numbers_ok st"
  "numbers_ok (st\<lparr>fg_Comments := x13\<rparr>) = numbers_ok st"
  "numbers_ok (st\<lparr>fg_PRReviews := x15\<rparr>) = numbers_ok st" "numbers_ok (st\<lparr>fg_Hooks := x16\<rparr>) = numbers_ok st"
  "numbers_ok (st\<lparr>fg_HookDeliveries := x17\<rparr>) = numbers_ok st"
  "numbers_ok (st\<lparr>fg_AppHookDeliveries := x18\<rparr>) = numbers_ok st"
  "numbers_ok (st\<lparr>fg_Outbox := x19\<rparr>) = numbers_ok st" "numbers_ok (st\<lparr>fg_Vault := x20\<rparr>) = numbers_ok st"
  "numbers_ok (st\<lparr>fg_NextOrg := x22\<rparr>) = numbers_ok st"
  "numbers_ok (st\<lparr>fg_NextTeam := x23\<rparr>) = numbers_ok st"
  "numbers_ok (st\<lparr>fg_NextLabel := x25\<rparr>) = numbers_ok st"
  "numbers_ok (st\<lparr>fg_NextMilestone := x26\<rparr>) = numbers_ok st"
  "numbers_ok (st\<lparr>fg_NextComment := x27\<rparr>) = numbers_ok st"
  "numbers_ok (st\<lparr>fg_NextPRReview := x29\<rparr>) = numbers_ok st"
  "numbers_ok (st\<lparr>fg_NextHookID := x30\<rparr>) = numbers_ok st"
  "numbers_ok (st\<lparr>fg_NextDeliveryID := x31\<rparr>) = numbers_ok st"
  "numbers_ok (st\<lparr>fg_Tick := x32\<rparr>) = numbers_ok st" "numbers_ok (st\<lparr>fg_Draws := x33\<rparr>) = numbers_ok st"
  by (simp_all add: numbers_ok_def)

lemma numbers_ok_still: "numbers_ok (still st) = numbers_ok st"
  by (simp add: numbers_ok_def still_def)

lemma numbers_ok_cong: "still a = still b \<Longrightarrow> numbers_ok a = numbers_ok b"
  by (metis numbers_ok_still)

lemma numbers_quiet [simp]:
  "numbers_ok (fst (clock w st)) = numbers_ok st" "numbers_ok (fst (draw w st)) = numbers_ok st"
  "numbers_ok (emitWebhookEvent key event action st) = numbers_ok st" "numbers_ok (start_outgoing out st) = numbers_ok st"
  "numbers_ok (run_outgoing w n answers st) = numbers_ok st"
  by (rule numbers_ok_cong, simp)+

lemma seen_issue [simp]: "keeps_issue f \<Longrightarrow> mget m k = Some i \<Longrightarrow> mput k (issue_tag (f t i\<lparr>iu_UpdatedAt := n\<rparr>)) (seen issue_tag m) = seen issue_tag m"
  by (rule seen_change) (auto simp: keeps_issue_def issue_tag_def)

lemma seen_pull [simp]: "keeps_pull f \<Longrightarrow> mget m k = Some p \<Longrightarrow> mput k (pull_tag (f t p\<lparr>pu_UpdatedAt := n\<rparr>)) (seen pull_tag m) = seen pull_tag m"
  by (rule seen_change) (auto simp: keeps_pull_def pull_tag_def)

lemma seen_same [simp]: "mget m k = Some v \<Longrightarrow> mput k (f v) (seen f m) = seen f m"
  by (rule seen_change) simp_all

lemma numbers_upd_repo: "(\<And>r. repo_tag (f r) = repo_tag r) \<Longrightarrow> numbers_ok (upd_repo i f st) = numbers_ok st"
  by (auto simp: numbers_ok_def upd_repo_def split: option.split)

lemma numbers_put_repo: "numbers_ok st \<Longrightarrow> re_ID r = fg_NextRepo st \<Longrightarrow> re_NextIssueNumber r = 1 \<Longrightarrow> numbers_ok (put_repo r st)"
  using tags_ok_new_repo by (simp add: numbers_ok_def put_repo_def repo_tag_def)

lemma numbers_CreateRepo: "numbers_ok st \<Longrightarrow> numbers_ok (fst (CreateRepo w user name description private st))"
  using numbers_put_repo [of "fst (clock w st)"]
  by (simp add: CreateRepo_def Let_def case_prod_unfold new_repo_def numbers_ok_def)


lemma numbers_CreateOrgRepo: "numbers_ok st \<Longrightarrow> numbers_ok (fst (CreateOrgRepo w org user name description private st))"
  using numbers_put_repo [of "fst (clock w st)"]
  by (simp add: CreateOrgRepo_def Let_def case_prod_unfold new_repo_def numbers_ok_def)

lemma numbers_UpdateRepo: "keeps_repo f \<Longrightarrow> numbers_ok st \<Longrightarrow> numbers_ok (fst (UpdateRepo w login name f st))"
  by (simp add: UpdateRepo_def Let_def case_prod_unfold keeps_repo_def repo_tag_def numbers_upd_repo split: option.split)

lemma numbers_DeleteRepo: "numbers_ok st \<Longrightarrow> numbers_ok (fst (DeleteRepo login name st))"
  by (simp add: DeleteRepo_def Let_def numbers_ok_def tags_ok_no_repo split: option.split)

lemma numbers_CreateIssue: "numbers_ok st \<Longrightarrow> numbers_ok (fst (CreateIssue w i author title content labels assignees ms st))"
  by (auto simp: CreateIssue_def Let_def case_prod_unfold take_number_def upd_repo_def numbers_ok_def repo_tag_def issue_tag_def
        intro!: tags_ok_new_issue split: option.split)

lemma numbers_CreatePullRequest:
  "numbers_ok st \<Longrightarrow> numbers_ok (fst (CreatePullRequest w i author title content head_ref base_ref draft labels assignees ms st))"
  by (auto simp: CreatePullRequest_def Let_def case_prod_unfold take_number_def upd_repo_def numbers_ok_def repo_tag_def pull_tag_def
        intro!: tags_ok_new_pull split: option.split)

lemma numbers_UpdateIssue: "keeps_issue f \<Longrightarrow> numbers_ok st \<Longrightarrow> numbers_ok (fst (UpdateIssue w i f st))"
  by (simp add: UpdateIssue_def Let_def case_prod_unfold numbers_ok_def split: option.split)

lemma numbers_UpdatePullRequest: "keeps_pull f \<Longrightarrow> numbers_ok st \<Longrightarrow> numbers_ok (fst (UpdatePullRequest w i f st))"
  by (simp add: UpdatePullRequest_def Let_def case_prod_unfold numbers_ok_def split: option.split)

lemma seen_map_same: "(\<And>k i. f (g k i) = f i) \<Longrightarrow> seen f (map (\<lambda>(k, i). (k, g k i)) m) = seen f m"
  by (induction m) (auto simp: seen_def)

lemma numbers_map_issues: "(\<And>k i. issue_tag (g k i) = issue_tag i) \<Longrightarrow>
    numbers_ok (st\<lparr>fg_Issues := map (\<lambda>(k, i). (k, g k i)) (fg_Issues st)\<rparr>) = numbers_ok st"
  by (simp add: numbers_ok_def seen_map_same)

lemma numbers_DeleteLabel: "numbers_ok st \<Longrightarrow> numbers_ok (fst (DeleteLabel i st))"
  using numbers_map_issues [of "\<lambda>k iss. iss\<lparr>iu_LabelIDs := remove1 i (iu_LabelIDs iss)\<rparr>" "st\<lparr>fg_Labels := mdel i (fg_Labels st)\<rparr>"]
  by (simp add: DeleteLabel_def issue_tag_def)

lemma numbers_DeleteMilestone: "numbers_ok st \<Longrightarrow> numbers_ok (fst (DeleteMilestone i st))"
  using numbers_map_issues [of "\<lambda>k iss. if iu_MilestoneID iss = i then iss\<lparr>iu_MilestoneID := 0\<rparr> else iss" "st\<lparr>fg_Milestones := mdel i (fg_Milestones st)\<rparr>"]
  by (simp add: DeleteMilestone_def issue_tag_def)

lemma numbers_wf: "numbers_ok st \<Longrightarrow> wf_map (fg_Repos st)" "numbers_ok st \<Longrightarrow> wf_map (fg_Issues st)" "numbers_ok st \<Longrightarrow> wf_map (fg_PullRequests st)"
  unfolding numbers_ok_def by (metis seen_keys tags_okD(9), metis seen_keys tags_okD(10), metis seen_keys tags_okD(11))

lemma numbers_put_issue: "numbers_ok st \<Longrightarrow> mget (fg_Issues st) k = Some i \<Longrightarrow> issue_tag i' = issue_tag i \<Longrightarrow>
    numbers_ok (st\<lparr>fg_Issues := mput k i' (fg_Issues st)\<rparr>)"
  by (simp add: numbers_ok_def)

lemma numbers_put_pull: "numbers_ok st \<Longrightarrow> mget (fg_PullRequests st) k = Some i \<Longrightarrow> pull_tag i' = pull_tag i \<Longrightarrow>
    numbers_ok (st\<lparr>fg_PullRequests := mput k i' (fg_PullRequests st)\<rparr>)"
  by (simp add: numbers_ok_def)

lemma numbers_SetIssueOrPRLock: "numbers_ok st \<Longrightarrow> numbers_ok (fst (SetIssueOrPRLock i number locked reason st))"
  by (auto simp: SetIssueOrPRLock_def Let_def issue_tag_def pull_tag_def
        intro!: numbers_put_issue numbers_put_pull find_mget numbers_wf split: option.split)

lemma numbers_CreateMilestone: "numbers_ok st \<Longrightarrow> numbers_ok (fst (CreateMilestone w i title description state due st))"
  by (simp add: CreateMilestone_def Let_def case_prod_unfold numbers_upd_repo repo_tag_def split: option.split)

interpretation numbers: forge_relation w "\<lambda>a b. numbers_ok a \<longrightarrow> numbers_ok b" for w
  by unfold_locales
    (auto simp: numbers_CreateRepo numbers_CreateOrgRepo numbers_UpdateRepo numbers_DeleteRepo numbers_CreateIssue numbers_CreatePullRequest
       numbers_UpdateIssue numbers_UpdatePullRequest numbers_SetIssueOrPRLock numbers_CreateMilestone numbers_DeleteLabel numbers_DeleteMilestone
       keeps_pull_edits store_defs Let_def case_prod_unfold split: option.split)

section \<open>Every history\<close>

lemma numbers_start: "numbers_ok (forge_start w us)"
  by (simp add: numbers_ok_def start_tables seen_def tags_ok_def given_def)

lemma numbers_run: "numbers_ok (forge_run verify w ops (forge_start w us))"
  using numbers.forge_run_R numbers_start by blast

lemma given_issue: "given (seen issue_tag is) = map (\<lambda>(k, i). (iu_RepoID i, iu_Number i)) is"
  by (simp add: given_def seen_def issue_tag_def case_prod_unfold)

lemma given_pull: "given (seen pull_tag ps) = map (\<lambda>(k, p). (pu_RepoID p, pu_Number p)) ps"
  by (simp add: given_def seen_def pull_tag_def case_prod_unfold)

lemma find_distinct: "distinct (map f xs) \<Longrightarrow> find (\<lambda>x. f x = a) xs = Some x \<longleftrightarrow> x \<in> set xs \<and> f x = a"
  by (induction xs) (auto simp: image_iff)

text \<open>
  C3: In every history of REST requests, GraphQL mutations and deliveries from a started server, the issues and pull requests of
  a repository share one sequence of numbers and no number is given twice, and \<open>GetIssueByNumber\<close> and
  \<open>GetPullRequestByNumber\<close> find exactly what is in the store.
\<close>
theorem numbers_never_repeat:
  "let st = forge_run verify w ops (forge_start w us) in
   distinct (map (\<lambda>(k, i). (iu_RepoID i, iu_Number i)) (fg_Issues st) @ map (\<lambda>(k, p). (pu_RepoID p, pu_Number p)) (fg_PullRequests st)) \<and>
   {(r, n, i). GetIssueByNumber r n st = Some i} = {(iu_RepoID i, iu_Number i, i) |i. i \<in> snd ` set (fg_Issues st)} \<and>
   {(r, n, p). GetPullRequestByNumber r n st = Some p} = {(pu_RepoID p, pu_Number p, p) |p. p \<in> snd ` set (fg_PullRequests st)}"
proof -
  define st where "st = forge_run verify w ops (forge_start w us)"
  have ok: "numbers_ok st" unfolding st_def by (rule numbers_run)
  note d = tags_okD [OF ok [unfolded numbers_ok_def], unfolded given_issue given_pull]
  have i: "distinct (map (\<lambda>i. (iu_RepoID i, iu_Number i)) (map snd (fg_Issues st)))"
    and p: "distinct (map (\<lambda>p. (pu_RepoID p, pu_Number p)) (map snd (fg_PullRequests st)))"
    using d(6,7) by (simp_all add: comp_def case_prod_unfold)
  have "issue_at r n = (\<lambda>i. (iu_RepoID i, iu_Number i) = (r, n))" "pull_at r n = (\<lambda>p. (pu_RepoID p, pu_Number p) = (r, n))" for r n
    by (auto simp: issue_at_def pull_at_def)
  then have "GetIssueByNumber r n st = Some x \<longleftrightarrow> x \<in> snd ` set (fg_Issues st) \<and> (iu_RepoID x, iu_Number x) = (r, n)"
    and "GetPullRequestByNumber r n st = Some y \<longleftrightarrow> y \<in> snd ` set (fg_PullRequests st) \<and> (pu_RepoID y, pu_Number y) = (r, n)" for r n x y
    using find_distinct [OF i, of "(r, n)"] find_distinct [OF p, of "(r, n)"] by (simp_all add: GetIssueByNumber_def GetPullRequestByNumber_def first_where_def)
  then show ?thesis
    using d(6-8) unfolding st_def [symmetric] Let_def by (simp add: set_eq_iff) blast
qed

end
