(* ===== verification/ForgeDemo.thy ===== *)
theory ForgeDemo
  imports ForgeRun
begin

text \<open>A world, a user and requests on which the statements are instantiated.\<close>

definition sample_world :: ForgeWorld where
  "sample_world = \<lparr>fw_now = (\<lambda>n. int n * second), fw_rfc3339 = (\<lambda>t. Itoa t), fw_parse_time = (\<lambda>s. None), fw_sha256 = (\<lambda>s. s),
     fw_random = (\<lambda>n. replicate n CHR ''a''), fw_with_query = (\<lambda>url q. Some url)\<rparr>"

definition no_jwt :: verifier where
  "no_jwt now apps token = None"

definition request :: "string \<Rightarrow> (string \<times> string) list \<Rightarrow> body \<Rightarrow> Request" where
  "request auth path b =
     \<lparr>rq_Auth = auth, rq_Ctx = no_ctx, rq_Path = path, rq_URL = ''/'', rq_Query = [], rq_Form = [], rq_Body = b, rq_Host = ''hub'', rq_Base = ''http://hub''\<rparr>"

text \<open>The seeded administrator and the token.\<close>

definition admin :: User where
  "admin = \<lparr>us_ID = 1, us_NodeID = ''U_kgDOBdefault'', us_Login = ''admin'', us_Name = ''Admin'', us_Email = ''admin@bleephub.local'',
     us_AvatarURL = [], us_Bio = [], us_Type = ''User'', us_SiteAdmin = True, us_CreatedAt = 0, us_UpdatedAt = 0\<rparr>"

definition admin_token :: string where
  "admin_token = ''ghp_'' @ replicate 40 CHR ''0''"

definition admin_auth :: string where
  "admin_auth = ''token '' @ admin_token"

definition demo_start :: Forge where
  "demo_start = NewForge\<lparr>fg_Tick := 1, fg_Users := [(1, admin)], fg_UsersByLogin := [(''admin'', 1)],
     fg_Vault := NewVault\<lparr>va_Tokens := [(admin_token, \<lparr>tk_Value = admin_token, tk_UserID = 1, tk_Scopes = ''repo, read:org, gist'', tk_CreatedAt = 0\<rparr>)]\<rparr>\<rparr>"

lemma demo_fields: "fw_now sample_world n = int n * second" "fw_random sample_world n = replicate n CHR ''a''"
  by (simp_all add: sample_world_def)

lemma pad8_one: "pad8 1 = ''00000001''"
  by code_simp

lemma started: "forge_start sample_world [] = demo_start"
  by (simp add: forge_start_def demo_start_def SeedDefaultUser_def admin_def admin_token_def NewForge_def NewVault_def Let_def clock_def sample_world_def)

lemma bearer_admin: "bearer admin_auth = admin_token"
  by (simp add: bearer_def admin_auth_def HasPrefix_def TrimPrefix_def)

lemma admin_is_classic: "looksLikeJWT admin_token = False" "HasPrefix admin_token ''ghs_'' = False" "HasPrefix admin_token ''gho_'' = False"
  "HasPrefix admin_token ''ghu_'' = False" "HasPrefix admin_token ''ghr_'' = False" "admin_token \<noteq> []"
  by (simp_all add: admin_token_def looksLikeJWT_def HasPrefix_def)

lemma admin_signed_in:
  assumes "mget (va_Tokens (fg_Vault st)) admin_token = Some t" "mget (fg_Users st) (tk_UserID t) = Some u"
  shows "authenticate v now admin_auth st = no_ctx\<lparr>cx_User := Some u\<rparr>"
  using assms by (simp add: authenticate_def bearer_admin admin_is_classic LookupToken_def Let_def)

lemmas demo_defs = demo_start_def NewForge_def NewVault_def

text \<open>A history of mutations by the administrator: a private repository, a pull request, its merge.\<close>

definition sample_store :: "mutation list \<Rightarrow> Forge" where
  "sample_store ms = forge_run no_jwt sample_world (map (Mutate admin_auth) ms) (forge_start sample_world [])"

lemma demo_step: "mget (va_Tokens (fg_Vault st)) admin_token = Some t \<Longrightarrow> mget (fg_Users st) (tk_UserID t) = Some u \<Longrightarrow>
    forge_step no_jwt sample_world (Mutate admin_auth m) st = fst (gql_resolve sample_world (Some u) m (st\<lparr>fg_Tick := Suc (fg_Tick st)\<rparr>))"
  using admin_signed_in [of "st\<lparr>fg_Tick := Suc (fg_Tick st)\<rparr>" t u] by (simp add: handleGraphQL_def Let_def clock_def no_ctx_def)

definition new_repository :: mutation where "new_repository = MCreateRepository ''r'' None (Some ''private'')"
definition new_pull :: mutation where "new_pull = MCreatePullRequest ''R_kgDO00000001'' ''t'' None ''b'' [] None"

lemmas demo_run = sample_store_def forge_run_def started demo_step demo_defs demo_fields admin_def as_user_def found_def clock_def Let_def or_keep_def
  pad8_one ToUpper_def
  new_repository_def gql_createRepository_def CreateRepo_def new_repo_def put_repo_def

lemma demo_repository: "fg_ReposByName (sample_store [new_repository]) = [(''admin/r'', 1)]"
  by (simp add: demo_run del: forge_step.simps)

lemmas demo_pull_run = new_pull_def gql_createPullRequest_def CreatePullRequest_def findRepoByNodeID_def first_where_def take_number_def upd_repo_def
  gql_mergePullRequest_def findPullRequestByNodeID_def UpdatePullRequest_def merge_pull_def pull_back_def

definition merged :: "mutation list" where
  "merged = [new_repository, new_pull, MMergePullRequest ''PR_kgDO00000001'']"

lemma demo_merged: "\<exists>pr. findPullRequestByNodeID ''PR_kgDO00000001'' (sample_store merged) = Some pr \<and> pu_State pr = ''MERGED''"
  by (simp add: merged_def demo_run demo_pull_run del: forge_step.simps)

definition with_issue :: "mutation list" where
  "with_issue = [new_repository, MCreateIssue ''R_kgDO00000001'' ''secret'' None None None None]"

lemmas demo_issue_run = gql_createIssue_def CreateIssue_def findRepoByNodeID_def first_where_def take_number_def upd_repo_def label_ids_def user_ids_def
  opt_list_def

lemma demo_issue: "fg_Tick (sample_store with_issue) = 5 \<and> length (fg_Issues (sample_store with_issue)) = 1 \<and>
    (\<exists>i. findIssueByNodeID ''I_kgDO00000001'' (sample_store with_issue) = Some i \<and> GetIssue (iu_ID i) (sample_store with_issue) = Some i \<and> iu_State i = ''OPEN'')"
  by (simp add: with_issue_def demo_run demo_issue_run findIssueByNodeID_def GetIssue_def del: forge_step.simps)

end
