(* ===== verification/PullLife.thy ===== *)
theory PullLife
  imports Still ForgeDemo
begin

text \<open>
  The life of a pull request. The specification is a relation on the three states; the REST requests refine it, the GraphQL
  mutations do not.
\<close>

section \<open>The specification\<close>

inductive pull_event :: "string \<Rightarrow> string \<Rightarrow> bool" where
  closes: "pull_event ''OPEN'' ''CLOSED''"
| reopens: "pull_event ''CLOSED'' ''OPEN''"
| merges: "pull_event ''OPEN'' ''MERGED''"

inductive_simps pull_event_from [simp]: "pull_event ''MERGED'' x" "pull_event ''OPEN'' x" "pull_event ''CLOSED'' x"

abbreviation pull_event_star :: "string \<Rightarrow> string \<Rightarrow> bool" where "pull_event_star \<equiv> pull_event\<^sup>*\<^sup>*"

lemma merged_stays: "pull_event_star ''MERGED'' x \<longleftrightarrow> x = ''MERGED''"
  by (auto elim: converse_rtranclpE)

section \<open>The table of pull requests\<close>

definition pull_state :: "string \<Rightarrow> bool" where
  "pull_state s \<longleftrightarrow> s \<in> {''OPEN'', ''CLOSED'', ''MERGED''}"

lemma pull_state_simps [simp]: "pull_state ''OPEN''" "pull_state ''CLOSED''" "pull_state ''MERGED''"
  by (simp_all add: pull_state_def)

definition pulls_ok :: "(int \<times> PullRequest) list \<Rightarrow> int \<Rightarrow> bool" where
  "pulls_ok ps n \<longleftrightarrow>
     wf_map ps \<and> (\<forall>(k, p) \<in> set ps. pu_ID p = k \<and> k < n \<and> pull_state (pu_State p))"

definition lived :: "(int \<times> PullRequest) list \<Rightarrow> (int \<times> PullRequest) list \<Rightarrow> bool" where
  "lived ps qs \<longleftrightarrow> (\<forall>k p. mget ps k = Some p \<longrightarrow> (\<exists>q. mget qs k = Some q \<and> pull_event_star (pu_State p) (pu_State q)))"

definition pulls_live :: "Forge \<Rightarrow> Forge \<Rightarrow> bool" where
  "pulls_live a b \<longleftrightarrow> (pulls_ok (fg_PullRequests a) (fg_NextPR a) \<longrightarrow>
     pulls_ok (fg_PullRequests b) (fg_NextPR b) \<and> lived (fg_PullRequests a) (fg_PullRequests b))"

lemma lived_refl [simp]: "lived ps ps"
  by (simp add: lived_def)

lemma lived_trans: "lived a b \<Longrightarrow> lived b c \<Longrightarrow> lived a c"
  unfolding lived_def by (meson rtranclp_trans)

lemma lived_new: "mget ps k = None \<Longrightarrow> lived ps (mput k p ps)"
  by (auto simp: lived_def)

lemma lived_put: "mget ps k = Some p \<Longrightarrow> pull_event_star (pu_State p) (pu_State q) \<Longrightarrow> lived ps (mput k q ps)"
  by (simp add: lived_def)

lemma pulls_ok_mput: "pulls_ok ps n \<Longrightarrow> pu_ID p = k \<Longrightarrow> k < n \<Longrightarrow> pull_state (pu_State p) \<Longrightarrow> pulls_ok (mput k p ps) n"
  by (auto simp: pulls_ok_def set_mput)

lemma pulls_ok_mget: "pulls_ok ps n \<Longrightarrow> mget ps k = Some p \<Longrightarrow> pu_ID p = k \<and> k < n \<and> pull_state (pu_State p)"
  unfolding pulls_ok_def by (drule map_of_SomeD) blast

lemma pulls_ok_fresh: "pulls_ok ps n \<Longrightarrow> mget ps n = None"
  by (metis less_irrefl not_None_eq pulls_ok_mget)

lemma pulls_ok_more: "pulls_ok ps n \<Longrightarrow> pulls_ok ps (n + 1)"
  by (auto simp: pulls_ok_def)

lemma pulls_live_trans: "pulls_live a b \<Longrightarrow> pulls_live b c \<Longrightarrow> pulls_live a c"
  unfolding pulls_live_def by (meson lived_trans)

lemma pulls_live_same: "fg_PullRequests b = fg_PullRequests a \<Longrightarrow> fg_NextPR b = fg_NextPR a \<Longrightarrow> pulls_live a b"
  by (simp add: pulls_live_def)

lemma pulls_ok_wf: "pulls_ok ps n \<Longrightarrow> wf_map ps"
  by (simp add: pulls_ok_def)

section \<open>The operations\<close>

lemma pulls_CreatePullRequest: "pulls_live st (fst (CreatePullRequest w i author title content head_ref base_ref draft labels assignees ms st))"
  by (auto simp: pulls_live_def CreatePullRequest_def Let_def case_prod_unfold take_number_def upd_repo_def pulls_ok_more
        intro!: pulls_ok_mput lived_new pulls_ok_fresh split: option.split)

lemma pull_event_state: "pull_event s t \<Longrightarrow> pull_state t"
  by (auto elim: pull_event.cases)

lemma pull_state_star: "pull_event_star s t \<Longrightarrow> pull_state s \<Longrightarrow> pull_state t"
  by (auto elim: rtranclp.cases dest: pull_event_state)

lemma pulls_put:
  assumes "pulls_ok (fg_PullRequests st) (fg_NextPR st) \<Longrightarrow> mget (fg_PullRequests st) k = Some p \<and> pu_ID q = pu_ID p \<and> pull_event_star (pu_State p) (pu_State q)"
    and "fg_PullRequests st' = mput k q (fg_PullRequests st)" "fg_NextPR st' = fg_NextPR st"
  shows "pulls_live st st'"
  unfolding pulls_live_def assms(2,3)
proof (intro impI conjI)
  assume ok: "pulls_ok (fg_PullRequests st) (fg_NextPR st)"
  note a = assms(1) [OF ok]
  with pulls_ok_mget [OF ok] have "pu_ID q = k \<and> k < fg_NextPR st \<and> pull_state (pu_State q)" by (metis pull_state_star)
  with ok show "pulls_ok (mput k q (fg_PullRequests st)) (fg_NextPR st)" by (simp add: pulls_ok_mput)
  show "lived (fg_PullRequests st) (mput k q (fg_PullRequests st))" using a by (blast intro: lived_put)
qed

lemma pulls_UpdatePullRequest:
  assumes "\<And>t p. mget (fg_PullRequests st) i = Some p \<Longrightarrow> pulls_ok (fg_PullRequests st) (fg_NextPR st) \<Longrightarrow>
      pu_ID (f t p) = pu_ID p \<and> pull_event_star (pu_State p) (pu_State (f t p))"
  shows "pulls_live st (fst (UpdatePullRequest w i f st))"
proof (cases "mget (fg_PullRequests st) i")
  case None then show ?thesis by (simp add: UpdatePullRequest_def pulls_live_same)
next
  case (Some p)
  then show ?thesis by (intro pulls_put [of _ i p]) (use assms [of p] in \<open>simp_all add: UpdatePullRequest_def Let_def case_prod_unfold\<close>)
qed

lemma closes_or_reopensD: "closes_or_reopens f \<Longrightarrow> pu_State (f t p) = pu_State p \<or> pull_event (pu_State p) (pu_State (f t p))"
  unfolding closes_or_reopens_def by (elim allE [of _ t] allE [of _ p] disjE conjE) (simp_all add: pull_event.intros)

lemma pulls_edit: "keeps_pull f \<Longrightarrow> closes_or_reopens f \<Longrightarrow> pulls_live st (fst (UpdatePullRequest w i f st))"
  using closes_or_reopensD [of f] by (intro pulls_UpdatePullRequest) (metis keeps_pull_def r_into_rtranclp rtranclp.rtrancl_refl)

lemma pulls_merge:
  assumes pr: "pr \<in> snd ` set (fg_PullRequests st)" and state: "pu_State pr \<notin> {''MERGED'', ''CLOSED''}"
  shows "pulls_live st (fst (UpdatePullRequest w (pu_ID pr) (merge_pull u) st))"
proof (rule pulls_UpdatePullRequest)
  fix t p assume p: "mget (fg_PullRequests st) (pu_ID pr) = Some p" and ok: "pulls_ok (fg_PullRequests st) (fg_NextPR st)"
  obtain k where "(k, pr) \<in> set (fg_PullRequests st)" using pr by auto
  with ok have "mget (fg_PullRequests st) (pu_ID pr) = Some pr" unfolding pulls_ok_def by (auto intro: map_of_is_SomeI)
  with p state pulls_ok_mget [OF ok p] have "pu_State p = ''OPEN''" by (auto simp: pull_state_def)
  then show "pu_ID (merge_pull u t p) = pu_ID p \<and> pull_event_star (pu_State p) (pu_State (merge_pull u t p))" by (auto simp: merge_pull_def)
qed

lemma pulls_lock: "find P (fg_PullRequests st) = Some (k, p) \<Longrightarrow>
    pulls_live st (st\<lparr>fg_PullRequests := mput k (p\<lparr>pu_Locked := locked, pu_ActiveLockReason := r\<rparr>) (fg_PullRequests st)\<rparr>)"
  by (rule pulls_put [of _ k p]) (auto dest: find_mget pulls_ok_wf)

lemma pulls_SetIssueOrPRLock: "pulls_live st (fst (SetIssueOrPRLock i number locked reason st))"
  by (auto simp: SetIssueOrPRLock_def Let_def intro: pulls_lock simp: pulls_live_same split: option.split)

text \<open>The operations of the other tables.\<close>

lemmas other_defs = store_defs upd_repo_def put_repo_def take_number_def CreateRepo_def CreateOrgRepo_def UpdateRepo_def DeleteRepo_def
  CreateMilestone_def DeleteMilestone_def DeleteLabel_def CreateIssue_def UpdateIssue_def

lemma pulls_live_vault [simp]: "pulls_live a (b\<lparr>fg_Vault := v\<rparr>) = pulls_live a b"
  by (simp add: pulls_live_def)

interpretation life: rest_relation w pulls_live for w
  by (unfold_locales; (fact pulls_live_trans)?)
    (auto simp: pulls_CreatePullRequest pulls_edit pulls_merge pulls_SetIssueOrPRLock start_outgoing_def
       other_defs Let_def case_prod_unfold intro!: pulls_live_same split: option.split)

text \<open>With the mutations the table stays well formed, whatever becomes of the states.\<close>

definition pulls_keep :: "Forge \<Rightarrow> Forge \<Rightarrow> bool" where
  "pulls_keep a b \<longleftrightarrow> (pulls_ok (fg_PullRequests a) (fg_NextPR a) \<longrightarrow> pulls_ok (fg_PullRequests b) (fg_NextPR b))"

lemma live_keep: "pulls_live a b \<Longrightarrow> pulls_keep a b"
  by (simp add: pulls_live_def pulls_keep_def)

lemma keep_same: "fg_PullRequests b = fg_PullRequests a \<Longrightarrow> fg_NextPR b = fg_NextPR a \<Longrightarrow> pulls_keep a b"
  by (simp add: pulls_keep_def)

lemma keep_trans: "pulls_keep a b \<Longrightarrow> pulls_keep b c \<Longrightarrow> pulls_keep a c"
  by (simp add: pulls_keep_def)

lemma keep_UpdatePullRequest: "keeps_pull f \<Longrightarrow> pull_states f \<Longrightarrow> pulls_keep st (fst (UpdatePullRequest w i f st))"
proof -
  assume f: "keeps_pull f" "pull_states f"
  have "pull_state (pu_State (f t p))" if "pull_state (pu_State p)" for t p
    using f(2) that unfolding pull_states_def pull_state_def by (metis insert_absorb)
  with f(1) show ?thesis
    by (auto simp: pulls_keep_def UpdatePullRequest_def keeps_pull_def Let_def case_prod_unfold intro!: pulls_ok_mput split: option.split dest: pulls_ok_mget)
qed

lemma pulls_keep_vault [simp]: "pulls_keep a (b\<lparr>fg_Vault := v\<rparr>) = pulls_keep a b"
  by (simp add: pulls_keep_def)

interpretation pulls: forge_relation w pulls_keep for w
  by (unfold_locales; (fact keep_trans)?)
    (auto simp: live_keep [OF pulls_CreatePullRequest] live_keep [OF pulls_edit] live_keep [OF pulls_merge] live_keep [OF pulls_SetIssueOrPRLock]
       keep_UpdatePullRequest start_outgoing_def other_defs Let_def case_prod_unfold intro!: keep_same split: option.split)

section \<open>Every history\<close>

text \<open>
  C4: Over any stretch of REST requests and deliveries, in any history, no pull request is lost, and each moves along the life
  cycle: open and closed alternate, an open one may be merged, and a merged one stays merged.
\<close>
theorem rest_refines_pull_life:
  assumes "list_all is_rest later"
  shows "let a = forge_run verify w ops (forge_start w us); b = forge_run verify w later a in
    dom (mget (fg_PullRequests a)) \<subseteq> dom (mget (fg_PullRequests b)) \<and>
    {(pu_State p, pu_State q) |i p q. GetPullRequest i a = Some p \<and> GetPullRequest i b = Some q} \<subseteq> {(x, y). pull_event\<^sup>*\<^sup>* x y}"
proof -
  define a where "a = forge_run verify w ops (forge_start w us)"
  define b where "b = forge_run verify w later a"
  have "pulls_ok (fg_PullRequests (forge_start w us)) (fg_NextPR (forge_start w us))" by (simp add: start_tables pulls_ok_def)
  then have "pulls_ok (fg_PullRequests a) (fg_NextPR a)" using pulls.forge_run_R unfolding pulls_keep_def a_def by blast
  with life.rest_run_R [OF assms] have "lived (fg_PullRequests a) (fg_PullRequests b)" unfolding pulls_live_def b_def by blast
  then show ?thesis
    unfolding a_def [symmetric] Let_def b_def [symmetric] lived_def GetPullRequest_def by (auto simp: dom_def) fastforce
qed

theorem rest_refines_pull_life_witness:
  "\<exists>later a b. later = [Rest ''POST /api/v3/repos/{owner}/{repo}/pulls'' (request admin_auth [(''owner'', ''admin''), (''repo'', ''r'')]
        (Body (JObj [(''head'', JStr ''b'')]))), Deliver 0 (\<lambda>_. (200, 0, 0))] \<and>
     a = forge_run no_jwt sample_world (map (Mutate admin_auth) merged) (forge_start sample_world []) \<and> b = forge_run no_jwt sample_world later a \<and>
     {(pu_State p, pu_State q) |i p q. GetPullRequest i a = Some p \<and> GetPullRequest i b = Some q} \<subseteq> {(x, y). pull_event\<^sup>*\<^sup>* x y}"
  using rest_refines_pull_life [of "[Rest ''POST /api/v3/repos/{owner}/{repo}/pulls'' (request admin_auth [(''owner'', ''admin''), (''repo'', ''r'')]
        (Body (JObj [(''head'', JStr ''b'')]))), Deliver 0 (\<lambda>_. (200, 0, 0))]" no_jwt sample_world "map (Mutate admin_auth) merged" "[]"]
  unfolding Let_def by simp

text \<open>The finding: the mutation \<open>closePullRequest\<close> does not ask for the state.\<close>

lemma first_where_pair: "first_where P m = Some v \<Longrightarrow> \<exists>k. find (\<lambda>(_, v). P v) m = Some (k, v)"
  by (induction m) (auto simp: first_where_def split: if_splits)

lemma first_where_mput: "find (\<lambda>(_, v). P v) m = Some (k, v) \<Longrightarrow> P v' \<Longrightarrow> first_where P (mput k v' m) = Some v'"
  by (induction m) (auto simp: first_where_def split: if_splits)

text \<open>A mutation of the pull request that a node id names.\<close>

lemma mutated:
  assumes ok: "pulls_ok (fg_PullRequests st) (fg_NextPR st)" and f: "keeps_pull f" "pull_states f"
    and n: "findPullRequestByNodeID n st = Some pr" and st': "UpdatePullRequest w (pu_ID pr) f st = (st', x)"
  obtains t now where "findPullRequestByNodeID n st' = Some (f t pr\<lparr>pu_UpdatedAt := now\<rparr>)"
    "GetPullRequest (pu_ID pr) st' = Some (f t pr\<lparr>pu_UpdatedAt := now\<rparr>)" "pulls_ok (fg_PullRequests st') (fg_NextPR st')"
proof -
  obtain k where k: "find (\<lambda>(_, p). pu_NodeID p = n) (fg_PullRequests st) = Some (k, pr)"
    using first_where_pair n unfolding findPullRequestByNodeID_def by fastforce
  then have get: "mget (fg_PullRequests st) k = Some pr" by (rule find_mget [OF pulls_ok_wf [OF ok]])
  then have id: "pu_ID pr = k" using pulls_ok_mget [OF ok get] by simp
  have node: "pu_NodeID pr = n" using k by (auto dest: find_SomeD)
  have "pulls_ok (fg_PullRequests st') (fg_NextPR st')"
    using keep_UpdatePullRequest [OF f, of st w "pu_ID pr"] ok st' by (simp add: pulls_keep_def)
  moreover obtain t now where "fg_PullRequests st' = mput k (f t pr\<lparr>pu_UpdatedAt := now\<rparr>) (fg_PullRequests st)"
    using st' get id by (auto simp: UpdatePullRequest_def Let_def case_prod_unfold)
  ultimately show thesis
    using first_where_mput [OF k] f(1) node id that [of now t]
    by (simp add: findPullRequestByNodeID_def GetPullRequest_def keeps_pull_def)
qed

lemma pulls_run: "pulls_ok (fg_PullRequests (forge_run verify w ops (forge_start w us))) (fg_NextPR (forge_run verify w ops (forge_start w us)))"
  using pulls.forge_run_R [of "forge_start w us"] by (simp add: pulls_keep_def start_tables pulls_ok_def)

text \<open>
  In any history, a merged pull request that a GraphQL client closes is \<open>CLOSED\<close> with its merge time still set; the client can
  then reopen it and merge it a second time.
\<close>
theorem merged_pull_merges_again:
  assumes st: "st = forge_run verify w ops (forge_start w us)"
    and n: "findPullRequestByNodeID n st = Some pr" and m: "pu_State pr = ''MERGED''"
  shows "\<exists>s1 s2 s3 p1 p2 p3.
     gql_resolve w (Some u) (MClosePullRequest n) st = (s1, Inr (PPull p1)) \<and> pu_State p1 = ''CLOSED'' \<and> pu_MergedAt p1 = pu_MergedAt pr \<and>
     gql_resolve w (Some u) (MReopenPullRequest n) s1 = (s2, Inr (PPull p2)) \<and> pu_State p2 = ''OPEN'' \<and> pu_MergedAt p2 = pu_MergedAt pr \<and>
     gql_resolve w (Some u) (MMergePullRequest n) s2 = (s3, Inr (PPull p3)) \<and> pu_State p3 = ''MERGED'' \<and> pu_MergedByID p3 = us_ID u"
proof -
  have ok: "pulls_ok (fg_PullRequests st) (fg_NextPR st)" unfolding st by (rule pulls_run)
  obtain s1 x1 where u1: "UpdatePullRequest w (pu_ID pr) close_pull st = (s1, x1)" by fastforce
  obtain t1 n1 where p1: "findPullRequestByNodeID n s1 = Some (close_pull t1 pr\<lparr>pu_UpdatedAt := n1\<rparr>)"
      "GetPullRequest (pu_ID pr) s1 = Some (close_pull t1 pr\<lparr>pu_UpdatedAt := n1\<rparr>)" "pulls_ok (fg_PullRequests s1) (fg_NextPR s1)"
    by (rule mutated [OF ok keeps_pull_edits(3) pull_states_edits(3) n u1])
  let ?p1 = "close_pull t1 pr\<lparr>pu_UpdatedAt := n1\<rparr>"
  obtain s2 x2 where u2: "UpdatePullRequest w (pu_ID ?p1) reopen_pull s1 = (s2, x2)" by fastforce
  obtain t2 n2 where p2: "findPullRequestByNodeID n s2 = Some (reopen_pull t2 ?p1\<lparr>pu_UpdatedAt := n2\<rparr>)"
      "GetPullRequest (pu_ID ?p1) s2 = Some (reopen_pull t2 ?p1\<lparr>pu_UpdatedAt := n2\<rparr>)" "pulls_ok (fg_PullRequests s2) (fg_NextPR s2)"
    by (rule mutated [OF p1(3) keeps_pull_edits(4) pull_states_edits(4) p1(1) u2])
  let ?p2 = "reopen_pull t2 ?p1\<lparr>pu_UpdatedAt := n2\<rparr>"
  obtain s3 x3 where u3: "UpdatePullRequest w (pu_ID ?p2) (merge_pull (us_ID u)) s2 = (s3, x3)" by fastforce
  obtain t3 n3 where p3: "findPullRequestByNodeID n s3 = Some (merge_pull (us_ID u) t3 ?p2\<lparr>pu_UpdatedAt := n3\<rparr>)"
      "GetPullRequest (pu_ID ?p2) s3 = Some (merge_pull (us_ID u) t3 ?p2\<lparr>pu_UpdatedAt := n3\<rparr>)" "pulls_ok (fg_PullRequests s3) (fg_NextPR s3)"
    by (rule mutated [OF p2(3) keeps_pull_edits(2) pull_states_edits(2) p2(1) u3])
  have "gql_resolve w (Some u) (MClosePullRequest n) st = (s1, Inr (PPull ?p1))"
    using n u1 p1(2) by (simp add: gql_closePullRequest_def as_user_def found_def pull_back_def)
  moreover have "gql_resolve w (Some u) (MReopenPullRequest n) s1 = (s2, Inr (PPull ?p2))"
    using p1(1) u2 p2(2) by (simp add: gql_reopenPullRequest_def as_user_def found_def pull_back_def close_pull_def)
  moreover have "gql_resolve w (Some u) (MMergePullRequest n) s2 = (s3, Inr (PPull (merge_pull (us_ID u) t3 ?p2\<lparr>pu_UpdatedAt := n3\<rparr>)))"
    using p2(1) u3 p3(2) by (simp add: gql_mergePullRequest_def as_user_def found_def pull_back_def reopen_pull_def)
  ultimately show ?thesis by (auto simp: close_pull_def reopen_pull_def merge_pull_def)
qed

theorem merged_pull_merges_again_witness:
  "\<exists>s1 s2 s3 p1 p2 p3.
     gql_resolve sample_world (Some admin) (MClosePullRequest ''PR_kgDO00000001'') (sample_store merged) = (s1, Inr (PPull p1)) \<and> pu_State p1 = ''CLOSED'' \<and>
     gql_resolve sample_world (Some admin) (MReopenPullRequest ''PR_kgDO00000001'') s1 = (s2, Inr (PPull p2)) \<and> pu_State p2 = ''OPEN'' \<and>
     gql_resolve sample_world (Some admin) (MMergePullRequest ''PR_kgDO00000001'') s2 = (s3, Inr (PPull p3)) \<and> pu_State p3 = ''MERGED'' \<and> pu_MergedByID p3 = 1"
proof -
  obtain pr where "findPullRequestByNodeID ''PR_kgDO00000001'' (sample_store merged) = Some pr" "pu_State pr = ''MERGED''" using demo_merged by blast
  from merged_pull_merges_again [OF sample_store_def this, of admin] show ?thesis by (fastforce simp: admin_def)
qed

end
