(* ===== verification/Anonymous.thy ===== *)
theory Anonymous
  imports Still
begin

text \<open>
  Requests without credentials: the handlers ask for a user, an app or a client before they change anything. The OAuth flows
  and the manifest conversion are open to everybody.
\<close>

definition anonymous :: "Request \<Rightarrow> bool" where
  "anonymous rq \<longleftrightarrow> rq_Ctx rq = no_ctx \<and> rq_Auth rq = []"

lemma anonymous_guards [simp]:
  assumes "anonymous rq"
  shows "signed_in rq st k = (st, badCredentials)" "as_owner rq st k' = (st, badCredentials)"
    "as_client w rq st dec unknown k2 = (st, badCredentials)" "cx_User (rq_Ctx rq) = None" "cx_App (rq_Ctx rq) = None"
    "cx_InstallationToken (rq_Ctx rq) = None" "cx_Installation (rq_Ctx rq) = None" "header_token (rq_Auth rq) = []"
    "fst (own_installation rq st k3) = st" "fst (as_app rq st k4) = st"
  using assms
  by (simp_all add: anonymous_def no_ctx_def signed_in_def as_owner_def as_client_def authenticateClientCreds_def HasPrefix_def
      header_token_def own_installation_def as_app_def)

lemmas reading = still_clock or_404_def with_body_def read_back_def numbered_def with_installation_def

lemma anonymous_tracker:
  "anonymous rq \<Longrightarrow> (pattern, perm, h) \<in> set (issue_routes @ pull_routes) \<Longrightarrow> still (fst (h w rq st)) = still st"
  by (auto simp: issue_routes_def issue_handlers pull_routes_def pull_handlers handleUnlockIssue_def handleDeleteIssueComment_def
       reading Let_def split: option.split)

lemma anonymous_repos:
  "anonymous rq \<Longrightarrow> (pattern, perm, h) \<in> set (user_routes @ repo_routes @ org_routes @ team_routes @ member_routes @ hook_routes) \<Longrightarrow>
    still (fst (h w rq st)) = still st"
  by (auto simp: user_routes_def user_handlers repo_routes_def repo_handlers org_routes_def org_handlers team_routes_def team_handlers
       member_routes_def member_handlers hook_routes_def hook_handlers reading Let_def split: option.split)

lemma anonymous_apps:
  "anonymous rq \<Longrightarrow> (pattern, perm, h) \<in> set (tl app_routes @ client_routes @ app_hook_routes) \<Longrightarrow>
    still (fst (h w rq st)) = still st"
  by (auto simp: app_routes_def app_handlers client_routes_def client_handlers app_hook_routes_def app_hook_handlers change_selection_def
       reading Let_def split: option.split)

lemma anonymous_mutation: "still (fst (gql_resolve w None m st)) = still st"
  by (cases m) (simp_all add: gql_createRepository_def gql_deleteRepository_def gql_createIssue_def gql_closeIssue_def gql_reopenIssue_def
    gql_addComment_def gql_updateIssue_def gql_createPullRequest_def gql_closePullRequest_def gql_reopenPullRequest_def
    gql_mergePullRequest_def gql_updatePullRequest_def gql_minimizeComment_def gql_unminimizeComment_def gql_lockLockable_def
    gql_unlockLockable_def gql_lock_def as_user_def)

text \<open>The routes that ask for no credentials: the OAuth flows and the manifest conversion.\<close>

definition open_route :: "string \<Rightarrow> bool" where
  "open_route pattern \<longleftrightarrow> pattern \<in> fst ` set oauth_routes \<or> pattern = ''POST /api/v3/app-manifests/{code}/conversions''"

lemma app_routes_split: "(pattern, perm, h) \<in> set app_routes \<Longrightarrow> \<not> open_route pattern \<Longrightarrow> (pattern, perm, h) \<in> set (tl app_routes)"
  by (auto simp: app_routes_def open_route_def)

lemma anonymous_route:
  assumes "anonymous rq" "route_of pattern = Some (perm, h)" "\<not> open_route pattern"
  shows "still (fst (h w rq st)) = still st"
proof -
  have r: "(pattern, perm, h) \<in> set routes" using assms(2) unfolding route_of_def by (rule map_of_SomeD)
  have "(pattern, perm, h) \<notin> set oauth_routes" using assms(3) by (force simp: open_route_def)
  with r show ?thesis unfolding routes_def
    using app_routes_split [OF _ assms(3), of perm h] anonymous_tracker [OF assms(1), of pattern perm h] anonymous_repos [OF assms(1), of pattern perm h]
      anonymous_apps [OF assms(1), of pattern perm h] by auto
qed

lemma authenticate_empty: "authenticate v now [] st = no_ctx"
  by (simp add: authenticate_def bearer_def HasPrefix_def)



end
