(* ===== verification/Permissions.thy ===== *)
theory Permissions
  imports Still ForgeDemo
begin

text \<open>
  What an installation token may change: the permission decorator stands in front of every REST route that changes issues, pull
  requests or what hangs on them; the GraphQL endpoint has none.
\<close>

section \<open>The tables of the tracker\<close>

definition tracker :: "Forge \<Rightarrow> (int \<times> Issue) list \<times> (int \<times> IssueLabel) list \<times> (int \<times> Milestone) list \<times> (int \<times> Comment) list \<times>
    (int \<times> PullRequest) list \<times> (int \<times> PullRequestReview) list" where
  "tracker st = (fg_Issues st, fg_Labels st, fg_Milestones st, fg_Comments st, fg_PullRequests st, fg_PRReviews st)"

text \<open>No request on repositories, organizations, webhooks or credentials touches them.\<close>

interpretation outside: org_relation w "\<lambda>a b. tracker b = tracker a" for w
  by unfold_locales (auto simp: tracker_def start_outgoing_def store_defs upd_repo_def put_repo_def CreateRepo_def CreateOrgRepo_def
    UpdateRepo_def DeleteRepo_def Let_def case_prod_unfold split: option.split)

section \<open>The decorated routes\<close>

definition tracker_scopes :: "string set" where
  "tracker_scopes = {''issues'', ''pull_requests'', ''contents''}"

text \<open>A route of the tracker either only reads or is decorated with a write permission.\<close>

lemma tracker_routes:
  "(pattern, perm, h) \<in> set (issue_routes @ pull_routes) \<Longrightarrow>
    (\<exists>scope \<in> tracker_scopes. perm = Some (scope, permWrite)) \<or> (\<forall>w rq st. fst (h w rq st) = st)"
  by (auto simp: issue_routes_def pull_routes_def tracker_scopes_def handleListLabels_def handleGetLabel_def handleListMilestones_def
    handleGetMilestone_def handleListIssues_def handleGetIssue_def handleListIssueComments_def handleListPullRequests_def
    handleGetPullRequest_def handleListPRReviews_def or_404_def split: option.split)

lemma refused: "cx_InstallationToken ctx = Some tok \<Longrightarrow> \<not> hasPerm (it_Permissions tok) scope level \<Longrightarrow> requirePerm scope level ctx st \<noteq> None"
  by (simp add: requirePerm_def Let_def)

text \<open>
  C8: A REST request with an installation token that has no write permission for issues, pull requests or contents changes no
  issue, label, milestone, comment, pull request or review, whatever its route.
\<close>
theorem read_token_cannot_write:
  assumes "cx_InstallationToken (rq_Ctx (ghHeadersMiddleware verify (snd (clock w st)) rq (fst (clock w st)))) = Some tok"
    and "\<not> hasPerm (it_Permissions tok) ''issues'' permWrite" "\<not> hasPerm (it_Permissions tok) ''pull_requests'' permWrite"
      "\<not> hasPerm (it_Permissions tok) ''contents'' permWrite"
  shows "tracker (fst (serve verify w pattern rq st)) = tracker st"
proof -
  define rq' where "rq' = ghHeadersMiddleware verify (snd (clock w st)) rq (fst (clock w st))"
  have tok: "cx_InstallationToken (rq_Ctx rq') = Some tok" using assms(1) unfolding rq'_def .
  have no: "\<not> hasPerm (it_Permissions tok) scope permWrite" if "scope \<in> tracker_scopes" for scope
    using that assms(2-4) unfolding tracker_scopes_def by blast
  have "tracker (fst (routed perm h w rq' st')) = tracker st'" if r: "route_of pattern = Some (perm, h)" for perm h st'
  proof -
    have "(pattern, perm, h) \<in> set routes" using r unfolding route_of_def by (rule map_of_SomeD)
    then consider "(pattern, perm, h) \<in> set (issue_routes @ pull_routes)" | "tracker (fst (h w rq' st')) = tracker st'"
      unfolding routes_def by (auto intro: outside.account_routes_R outside.org_routes_R outside.team_routes_R outside.member_routes_R)
    then show ?thesis
    proof cases
      case 1
      then show ?thesis
        using tracker_routes [OF 1] refused [OF tok no, of _ st'] by (fastforce simp: routed_def split: option.split)
    next
      case 2
      then show ?thesis by (auto simp: routed_def split: option.split)
    qed
  qed
  moreover have "tracker (fst (clock w st)) = tracker st" by (simp add: tracker_def)
  ultimately show ?thesis
    by (auto simp: serve_def Let_def case_prod_unfold rq'_def [symmetric] simp del: clock_fields split: option.split)
qed

text \<open>A store in which an app has a token with read permissions, on an issue of a repository.\<close>

definition reader :: InstallationToken where
  "reader = \<lparr>it_Token = ''ghs_r'', it_ExpiresAt = hour, it_Permissions = Some [(''issues'', ''read'')], it_RepositoryIDs = [], it_InstallationID = 1, it_AppID = 1\<rparr>"

definition reader_app :: App where
  "reader_app = snd (CreateApp 0 ''s'' ''w'' ''pem'' 1 ''app'' [] None None NewVault)"

definition with_reader :: "Forge \<Rightarrow> Forge" where
  "with_reader st = st\<lparr>fg_Vault := (fg_Vault st)\<lparr>va_Apps := [(1, reader_app)], va_InstallationTokens := [(''ghs_r'', reader)]\<rparr>\<rparr>"

lemma reader_ctx:
  assumes "va_Apps (fg_Vault st) = [(1, reader_app)]" "va_InstallationTokens (fg_Vault st) = [(''ghs_r'', reader)]" "now \<le> hour"
  shows "cx_InstallationToken (authenticate v now ''token ghs_r'' st) = Some reader"
    and "cx_User (authenticate v now ''token ghs_r'' st) = Some (bot_user reader_app)"
  using assms
  by (simp_all add: authenticate_def bearer_def HasPrefix_def TrimPrefix_def looksLikeJWT_def LookupInstallationToken_def reader_def
      GetApp_def no_ctx_def Let_def)

abbreviation reader_store :: Forge where "reader_store \<equiv> with_reader (sample_store with_issue)"

lemma reader_reads: "\<not> hasPerm (it_Permissions reader) ''issues'' permWrite" "\<not> hasPerm (it_Permissions reader) ''pull_requests'' permWrite"
  "\<not> hasPerm (it_Permissions reader) ''contents'' permWrite"
  by (simp_all add: reader_def hasPerm_def parsePermLevel_def ToLower_def)

lemma reader_store: "fg_Tick reader_store = 5" "fg_Issues reader_store = fg_Issues (sample_store with_issue)"
  "va_Apps (fg_Vault reader_store) = [(1, reader_app)]" "va_InstallationTokens (fg_Vault reader_store) = [(''ghs_r'', reader)]"
  using demo_issue by (simp_all add: with_reader_def)

theorem read_token_cannot_write_witness:
  "\<forall>pattern path b. tracker (fst (serve no_jwt sample_world pattern (request ''token ghs_r'' path b) reader_store)) = tracker reader_store"
  by (intro allI read_token_cannot_write [where tok = reader])
     (simp_all add: reader_ctx reader_store reader_reads ghHeadersMiddleware_def request_def clock_def demo_fields)

section \<open>GraphQL\<close>

text \<open>
  C36: The GraphQL endpoint asks for no permission: a mutation with an installation token that may only read issues closes one.
\<close>
theorem graphql_ignores_permissions:
  assumes "cx_InstallationToken (authenticate (verify (snd (clock w st)) (va_Apps (fg_Vault st))) (snd (clock w st)) auth (fst (clock w st))) = Some tok"
    and "cx_User (authenticate (verify (snd (clock w st)) (va_Apps (fg_Vault st))) (snd (clock w st)) auth (fst (clock w st))) = Some u"
    and "\<not> hasPerm (it_Permissions tok) ''issues'' permWrite"
    and "findIssueByNodeID n st = Some i" "GetIssue (iu_ID i) st = Some i"
  shows "\<exists>st' i'. handleGraphQL verify w auth (MCloseIssue n None) st = (st', Inr (PIssue i')) \<and>
     GetIssue (iu_ID i) st' = Some i' \<and> iu_State i' = ''CLOSED''"
  using assms(2,4,5)
  by (auto simp: handleGraphQL_def gql_closeIssue_def as_user_def found_def UpdateIssue_def GetIssue_def findIssueByNodeID_def issue_back_def
      clock_def Let_def)

theorem graphql_ignores_permissions_witness:
  "\<exists>st' i'. handleGraphQL no_jwt sample_world ''token ghs_r'' (MCloseIssue ''I_kgDO00000001'' None) reader_store = (st', Inr (PIssue i')) \<and>
     iu_State i' = ''CLOSED''"
proof -
  obtain i where i: "findIssueByNodeID ''I_kgDO00000001'' (sample_store with_issue) = Some i" "GetIssue (iu_ID i) (sample_store with_issue) = Some i"
    using demo_issue by blast
  then have "findIssueByNodeID ''I_kgDO00000001'' reader_store = Some i" "GetIssue (iu_ID i) reader_store = Some i"
    by (simp_all add: findIssueByNodeID_def GetIssue_def reader_store)
  from graphql_ignores_permissions [OF _ _ reader_reads(1) this, of no_jwt sample_world "''token ghs_r''" "bot_user reader_app"]
  show ?thesis by (auto simp: reader_ctx reader_store clock_def demo_fields)
qed

end
