(* ===== verification/TokenLife.thy ===== *)
theory TokenLife
  imports Permissions
begin

text \<open>
  The life of credentials: authorization codes are spent once, user-to-server tokens are never made, and the tokens of an
  installation outlive it.
\<close>

section \<open>Where codes and tokens come from\<close>

lemmas vault_defs = issue_device_code_def createTokenLocked_def issue_auth_code_def handleWebFlowTokenForm_def RevokeUserToServerToken_def
  RevokeUserGrant_def CreateOAuthApp_def ConsumeManifestCode_def CreateApp_def CreateInstallationToken_def DeleteInstallation_def
  SuspendInstallation_def UnsuspendInstallation_def AddInstallationRepo_def RemoveInstallationRepo_def RevokeInstallationToken_def
  CreateInstallation_def UpdateAppHookConfig_def put_installation_def createUserToServerTokenLocked_def

lemmas other_tables = start_outgoing_def store_defs upd_repo_def put_repo_def take_number_def CreateRepo_def CreateOrgRepo_def
  UpdateRepo_def DeleteRepo_def CreateMilestone_def DeleteMilestone_def DeleteLabel_def CreateIssue_def UpdateIssue_def CreatePullRequest_def
  UpdatePullRequest_def SetIssueOrPRLock_def

text \<open>An authorization code that is there later was there before, or was drawn since.\<close>

definition codes :: "Forge \<Rightarrow> string set" where
  "codes st = set (mkeys (va_AuthCodes (fg_Vault st)))"

definition codes_from :: "ForgeWorld \<Rightarrow> Forge \<Rightarrow> Forge \<Rightarrow> bool" where
  "codes_from w a b \<longleftrightarrow> fg_Draws a \<le> fg_Draws b \<and> codes b \<subseteq> codes a \<union> fw_random w ` {fg_Draws a..<fg_Draws b}"

lemma codes_from_trans: "codes_from w a b \<Longrightarrow> codes_from w b c \<Longrightarrow> codes_from w a c"
  unfolding codes_from_def by (auto simp: subset_iff image_iff) (metis atLeastLessThan_iff le_trans less_le_trans)+

lemma codes_from_same: "fg_Draws b = fg_Draws a \<Longrightarrow> codes b \<subseteq> codes a \<Longrightarrow> codes_from w a b"
  by (auto simp: codes_from_def)

lemma draws_deliveries [simp]:
  "fg_Draws (AddDelivery d st) = fg_Draws st" "fg_Draws (AddAppDelivery i d st) = fg_Draws st" "fg_Draws (to_app i j d st) = fg_Draws st"
  "fg_Draws (fst (doDeliverAttempt w i event action guid redelivery answer st)) = fg_Draws st"
  by (simp_all add: AddDelivery_def AddAppDelivery_def to_app_def doDeliverAttempt_def Let_def case_prod_unfold)

lemma draws_attempts:
  "(\<And>d st. fg_Draws (add d st) = fg_Draws st) \<Longrightarrow> fg_Draws (delivery_attempts w add i event action guid redelivery answers st) = fg_Draws st"
  by (induction answers arbitrary: redelivery st) (simp_all add: Let_def case_prod_unfold)

lemma draws_emit [simp]: "fg_Draws (emitWebhookEvent key event action st) = fg_Draws st" "fg_Draws (start_outgoing out st) = fg_Draws st"
  by (simp_all add: emitWebhookEvent_def start_outgoing_def)

lemma draws_run_outgoing: "fg_Draws st \<le> fg_Draws (run_outgoing w n answers st)"
  by (simp add: run_outgoing_def deliverWebhook_def deliverAppWebhook_def redeliverAppWebhook_def draws_attempts Let_def case_prod_unfold
      del: delivery_attempts.simps list.map split: outgoing.split)

lemma codes_run_outgoing: "codes_from w st (run_outgoing w n answers st)"
  using draws_run_outgoing [of st w n answers] by (auto simp: codes_from_def codes_def)

lemma codes_auth_code:
  "codes_from w st (let (st, code) = draw w st; (st, now) = clock w st in set_vault (issue_auth_code now code i client url scope state (fg_Vault st)) st)"
  by (auto simp: codes_from_def codes_def draw_def clock_def set_vault_def issue_auth_code_def)

lemma codes_draw: "codes_from w st (fst (draw w st))"
  by (auto simp: codes_from_def codes_def)

lemma codes_user_token:
  "LookupUserToServerToken now tok (fg_Vault old) = Some t \<Longrightarrow> codes_from w start old \<Longrightarrow> codes_from w start st \<Longrightarrow>
    codes_from w start (fst (on_vault (createUserToServerTokenLocked now' rnd rrnd i j client scopes ttl refresh) st))"
  by (auto simp: codes_from_def codes_def fst_on_vault createUserToServerTokenLocked_def Let_def)

interpretation codes: forge_relation w "codes_from w" for w
  by (unfold_locales; (fact codes_from_trans codes_run_outgoing codes_auth_code codes_draw codes_user_token)?)
    (auto simp: other_tables vault_defs codes_def set_mdel Let_def case_prod_unfold
       intro!: codes_from_same split: option.split)


text \<open>No request makes a user-to-server token: the only handler that makes one, \<open>handleResetOAuthToken\<close>, has to find one first.\<close>

definition no_user_tokens :: "Forge \<Rightarrow> bool" where
  "no_user_tokens st \<longleftrightarrow> va_UserToServerTokens (fg_Vault st) = [] \<and> va_RefreshTokens (fg_Vault st) = []"

lemma no_user_token:
  "LookupUserToServerToken now tok (fg_Vault old) = Some t \<Longrightarrow> no_user_tokens start \<longrightarrow> no_user_tokens old \<Longrightarrow> no_user_tokens start \<longrightarrow> no_user_tokens st \<Longrightarrow>
    no_user_tokens start \<longrightarrow> no_user_tokens (fst (on_vault (createUserToServerTokenLocked now' rnd rrnd i j client scopes ttl refresh) st))"
  by (auto simp: no_user_tokens_def LookupUserToServerToken_def)

interpretation user_tokens: forge_relation w "\<lambda>a b. no_user_tokens a \<longrightarrow> no_user_tokens b" for w
  by (unfold_locales; (fact no_user_token)?)
    (auto simp: other_tables vault_defs no_user_tokens_def Let_def case_prod_unfold split: option.split)

lemma start_vault: "va_UserToServerTokens (fg_Vault (forge_start w us)) = [] \<and> va_RefreshTokens (fg_Vault (forge_start w us)) = [] \<and>
    va_AuthCodes (fg_Vault (forge_start w us)) = []"
  unfolding forge_start_def
  by (rule foldl_invariant) (auto simp: add_user_def SeedDefaultUser_def clock_def NewForge_def NewVault_def Let_def)

section \<open>Claims\<close>

text \<open>
  C27: The server never holds a user-to-server token or a refresh token, in any history: every flow mints a personal token. So
  every request of the five endpoints that manage such tokens is answered as if the token did not exist.
\<close>
theorem no_user_to_server_tokens:
  "va_UserToServerTokens (fg_Vault (forge_run verify w ops (forge_start w us))) = [] \<and>
   va_RefreshTokens (fg_Vault (forge_run verify w ops (forge_start w us))) = []"
  using user_tokens.forge_run_R [of "forge_start w us" verify w ops] start_vault [of w us] by (simp add: no_user_tokens_def)

text \<open>
  C14: An authorization code is spent by its first exchange, whatever the answer: when the random values are distinct, every later
  exchange of the same code is refused, after any further history.
\<close>
theorem auth_code_spent_once:
  assumes "inj (fw_random w)" "st = forge_run verify w ops (forge_start w us)" "code \<in> set (mkeys (va_AuthCodes (fg_Vault st)))"
    and "FormValue rq ''code'' = code" "FormValue rq ''device_code'' = []" "FormValue rq' ''code'' = code" "FormValue rq' ''device_code'' = []"
    and "later = forge_run verify w ops' (fst (handleOAuthAccessToken w rq st))"
  shows "snd (handleOAuthAccessToken w rq' later) = oauth_refused (if code = [] then ''unsupported_grant_type'' else ''bad_verification_code'')"
proof (cases "code = []")
  case True then show ?thesis using assms(6,7) by (simp add: handleOAuthAccessToken_def)
next
  case False
  define b where "b = fst (handleOAuthAccessToken w rq st)"
  have "codes_from w (forge_start w us) st" unfolding assms(2) by (rule codes.forge_run_R)
  then obtain n where n: "code = fw_random w n" "n < fg_Draws st"
    using assms(3) start_vault [of w us] by (auto simp: codes_from_def codes_def)
  have b: "code \<notin> codes b" "fg_Draws st \<le> fg_Draws b"
    using assms(4,5) False by (auto simp: b_def handleOAuthAccessToken_def handle_web_flow_def fst_on_vault handleWebFlowTokenForm_def
      codes_def set_mdel createTokenLocked_def Let_def case_prod_unfold split: option.split dest!: weak_map_of_SomeI)
  have "codes_from w b later" unfolding assms(8) b_def by (rule codes.forge_run_R)
  moreover have "code \<notin> fw_random w ` {fg_Draws b..<fg_Draws later}" using b(2) n by (simp add: inj_image_mem_iff [OF assms(1)])
  ultimately have "code \<notin> codes later" using b(1) unfolding codes_from_def by blast
  then have "mget (va_AuthCodes (fg_Vault later)) code = None" by (simp add: codes_def map_of_eq_None_iff)
  then show ?thesis
    using assms(6,7) False by (simp add: handleOAuthAccessToken_def handle_web_flow_def on_vault_def handleWebFlowTokenForm_def set_vault_def clock_def draw_def Let_def)
qed

definition authorize :: Request where
  "authorize = (request [] [] EmptyBody)\<lparr>rq_Query := [(''client_id'', [''c'']), (''redirect_uri'', [''u'']), (''auto'', [''1''])]\<rparr>"

definition exchange :: Request where
  "exchange = (request [] [] EmptyBody)\<lparr>rq_Form := [(''code'', ''a'')]\<rparr>"

abbreviation auth_store :: Forge where
  "auth_store \<equiv> forge_run no_jwt sample_world [Rest ''GET /login/oauth/authorize'' authorize, Rest ''GET /login/oauth/authorize'' authorize] (forge_start sample_world [])"

lemma authorize_route: "route_of ''GET /login/oauth/authorize'' = Some (None, handleOAuthAuthorize)"
  by (simp add: route_of_def routes_def issue_routes_def pull_routes_def user_routes_def repo_routes_def org_routes_def team_routes_def
    member_routes_def hook_routes_def oauth_routes_def)

lemma authorize_step: "mget (fg_Users st) 1 = Some u \<Longrightarrow>
    forge_step no_jwt sample_world (Rest ''GET /login/oauth/authorize'' authorize) st =
      st\<lparr>fg_Tick := fg_Tick st + 2, fg_Draws := Suc (fg_Draws st),
         fg_Vault := issue_auth_code (fw_now sample_world (Suc (fg_Tick st))) (fw_random sample_world (fg_Draws st)) (us_ID u) ''c'' ''u'' [] [] (fg_Vault st)\<rparr>"
  by (simp add: serve_def authorize_route routed_def ghHeadersMiddleware_def authorize_def request_def handleOAuthAuthorize_def query_get_def
    completeAuthorize_def granting_user_def set_vault_def Let_def clock_def draw_def)

lemma auth_store: "''a'' \<in> set (mkeys (va_AuthCodes (fg_Vault auth_store)))"
  by (simp add: forge_run_def started authorize_step demo_start_def NewForge_def NewVault_def issue_auth_code_def demo_fields del: forge_step.simps)

theorem auth_code_spent_once_witness:
  "snd (handleOAuthAccessToken sample_world exchange (fst (handleOAuthAccessToken sample_world exchange auth_store))) = oauth_refused ''bad_verification_code''"
proof -
  have inj: "inj (fw_random sample_world)" by (simp add: inj_def sample_world_def)
  show ?thesis
    using auth_code_spent_once [where w = sample_world and ops' = "[]" and rq = exchange and rq' = exchange, OF inj refl auth_store]
    by (simp add: exchange_def FormValue_def request_def forge_run_def)
qed

section \<open>The tokens of an installation\<close>

text \<open>
  C37: Deleting or suspending an installation leaves its tokens: after each of the four requests that do so, every token proves what
  it proved before, and acts as the same user.
\<close>
theorem installation_tokens_survive:
  assumes "h \<in> {handleDeleteAppInstallation, handleDeleteInstallationMgmt, handleSuspendInstallation, handleSuspendInstallationMgmt}"
  shows "cx_InstallationToken (authenticate verify now auth (fst (h w rq st))) = cx_InstallationToken (authenticate verify now auth st) \<and>
    cx_User (authenticate verify now auth (fst (h w rq st))) = cx_User (authenticate verify now auth st)"
proof -
  have "va_Apps (fg_Vault (fst (h w rq st))) = va_Apps (fg_Vault st) \<and> va_Tokens (fg_Vault (fst (h w rq st))) = va_Tokens (fg_Vault st) \<and>
      va_InstallationTokens (fg_Vault (fst (h w rq st))) = va_InstallationTokens (fg_Vault st) \<and>
      va_UserToServerTokens (fg_Vault (fst (h w rq st))) = va_UserToServerTokens (fg_Vault st) \<and> fg_Users (fst (h w rq st)) = fg_Users st"
    using assms
    by (auto simp: handleDeleteAppInstallation_def handleDeleteInstallationMgmt_def handleSuspendInstallation_def handleSuspendInstallationMgmt_def
      own_installation_def as_app_def with_installation_def numbered_def signed_in_def or_404_def emitInstallationEvent_def emit_app_event_def
      start_outgoing_def fst_on_vault DeleteInstallation_def SuspendInstallation_def put_installation_def Let_def case_prod_unfold
      split: option.split bool.split)
  then show ?thesis
    by (auto simp: authenticate_def LookupInstallationToken_def LookupUserToServerToken_def LookupToken_def GetApp_def Let_def no_ctx_def split: option.split)
qed

theorem installation_tokens_survive_witness:
  "\<forall>rq. cx_InstallationToken (authenticate (no_jwt 0 []) 0 ''token ghs_r'' (fst (handleDeleteInstallationMgmt sample_world rq reader_store))) = Some reader"
  using installation_tokens_survive [of handleDeleteInstallationMgmt "no_jwt 0 []" 0 "''token ghs_r''" sample_world _ reader_store]
    reader_ctx(1) [OF reader_store(3,4), of 0 "no_jwt 0 []"] by simp

lemma permissions_member:
  "EqualFold ''permissions'' ''permissions''" "\<not> EqualFold ''permissions'' ''repository_ids''" "\<not> EqualFold ''permissions'' ''repositories''"
  by code_simp+

lemma admin_level: "parsePermLevel ''admin'' = permAdmin"
  by code_simp

lemma requested: "installation_token_req [(''permissions'', JObj [(scope, JStr ''admin'')])] = Some (Some [(scope, ''admin'')], [], [])"
  by (simp add: installation_token_req_def struct_field_def permissions_member strs_field_def or_keep_def)

text \<open>
  C38: A request for an installation token may name permissions of its own. Whatever the installation was granted, the token has
  what the request asks for: with \<open>admin\<close> on a scope it passes the check of that scope at every level.
\<close>
theorem requested_permissions_granted:
  assumes "cx_App (rq_Ctx rq) = Some app" "path_number rq ''id'' = Some i" "GetInstallation i (fg_Vault st) = Some inst"
    and "in_AppID inst = ap_ID app" "in_SuspendedAt inst = None" "rq_Body rq = Body (JObj [(''permissions'', JObj [(scope, JStr ''admin'')])])"
    and "auth = ''token ghs_'' @ fw_random w (fg_Draws st)" "st' = fst (handleCreateInstallationToken w rq st)" "now \<le> fw_now w (fg_Tick st) + hour"
  shows "requirePerm scope level (authenticate verify now auth st') st' = None"
proof -
  define tok where "tok = ''ghs_'' @ fw_random w (fg_Draws st)"
  have "\<exists>t. mget (va_InstallationTokens (fg_Vault st')) tok = Some t \<and> it_Permissions t = Some [(scope, ''admin'')] \<and> now \<le> it_ExpiresAt t"
    using assms(1-6,9) unfolding assms(8)
    by (simp add: handleCreateInstallationToken_def own_installation_def as_app_def with_installation_def numbered_def or_404_def requested
      fst_on_vault CreateInstallationToken_def tok_def Let_def case_prod_unfold clock_def draw_def)
  moreover have "bearer auth = tok" "\<not> looksLikeJWT tok" "HasPrefix tok ''ghs_''" "tok \<noteq> []"
    by (simp_all add: assms(7) tok_def bearer_def HasPrefix_def TrimPrefix_def looksLikeJWT_def)
  ultimately have "\<exists>t. cx_InstallationToken (authenticate verify now auth st') = Some t \<and> it_Permissions t = Some [(scope, ''admin'')]"
    by (auto simp: authenticate_def LookupInstallationToken_def Let_def no_ctx_def)
  moreover have "level_rank level \<le> level_rank (parsePermLevel ''admin'')"
    by (cases level) (simp_all add: admin_level)
  ultimately show ?thesis by (auto simp: requirePerm_def hasPerm_def Let_def)
qed

text \<open>An installation that may read issues, and a request of its app for the administration of repositories.\<close>

definition reads_issues :: Installation where
  "reads_issues = \<lparr>in_ID = 1, in_AppID = 1, in_AppSlug = ''app'', in_TargetType = ''User'', in_TargetID = 1, in_TargetLogin = ''admin'',
     in_Permissions = Some [(''issues'', ''read'')], in_Events = None, in_RepositorySelection = ''all'', in_SelectedRepoIDs = [],
     in_SuspendedAt = None, in_SuspendedBy = None, in_SingleFileName = [], in_CreatedAt = 0, in_UpdatedAt = 0\<rparr>"

definition installed :: Forge where
  "installed = demo_start\<lparr>fg_Vault := (fg_Vault demo_start)\<lparr>va_Apps := [(1, reader_app)], va_Installations := [(1, reads_issues)]\<rparr>\<rparr>"

definition escalate :: Request where
  "escalate = (request [] [(''id'', ''1'')] (Body (JObj [(''permissions'', JObj [(''administration'', JStr ''admin'')])])))
     \<lparr>rq_Ctx := no_ctx\<lparr>cx_App := Some reader_app\<rparr>\<rparr>"

theorem requested_permissions_granted_witness:
  "requirePerm ''administration'' permAdmin
     (authenticate (no_jwt 0 []) 0 ''token ghs_'' (fst (handleCreateInstallationToken sample_world escalate installed)))
     (fst (handleCreateInstallationToken sample_world escalate installed)) = None"
proof (rule requested_permissions_granted [OF _ _ _ _ _ _ _ refl])
  show "path_number escalate ''id'' = Some 1" by code_simp
  show "cx_App (rq_Ctx escalate) = Some reader_app" by (simp add: escalate_def)
  show "GetInstallation 1 (fg_Vault installed) = Some reads_issues" by (simp add: installed_def GetInstallation_def)
  show "in_AppID reads_issues = ap_ID reader_app" by (simp add: reads_issues_def reader_app_def CreateApp_def NewVault_def Let_def)
  show "in_SuspendedAt reads_issues = None" by (simp add: reads_issues_def)
  show "rq_Body escalate = Body (JObj [(''permissions'', JObj [(''administration'', JStr ''admin'')])])" by (simp add: escalate_def request_def)
  show "''token ghs_'' = ''token ghs_'' @ fw_random sample_world (fg_Draws installed)"
    by (simp add: installed_def demo_start_def NewForge_def demo_fields)
  show "(0::int) \<le> fw_now sample_world (fg_Tick installed) + hour" by (simp add: demo_fields)
qed
end
