(* ===== verification/OrgAdmin.thy ===== *)
theory OrgAdmin
  imports Still ForgeDemo
begin

text \<open>Who changes organizations and memberships. The invariant \<open>orgs_ok\<close> ties the three tables of the organizations together.\<close>

section \<open>The key of a membership\<close>

lemma digits_no: "\<not> is_digit c \<Longrightarrow> c \<notin> set (nat_digits n)"
  using nat_digits_all_digits [of n] by (auto simp: list_all_iff)

lemma minus_no_digit: "CHR ''-'' \<notin> set (nat_digits n)" "CHR ''/'' \<notin> set (nat_digits n)"
  by (rule digits_no, simp add: is_digit_def)+

lemma minus_digits [simp]: "CHR ''-'' # xs \<noteq> nat_digits n" "nat_digits n \<noteq> CHR ''-'' # xs"
  using minus_no_digit(1) [of n] by (metis list.set_intros(1))+

lemma Itoa_inject [simp]: "Itoa i = Itoa j \<longleftrightarrow> i = j"
  by (auto simp: Itoa_def dest!: nat_digits_inj)

lemma Itoa_no_slash: "CHR ''/'' \<notin> set (Itoa i)"
  by (simp add: Itoa_def minus_no_digit)

lemma split_last:
  assumes "l @ c # s = l' @ c # s'" "c \<notin> set s" "c \<notin> set s'"
  shows "l = l' \<and> s = s'"
proof -
  have e: "takeWhile (\<lambda>x. x \<noteq> c) (rev s @ c # xs) = rev s" if "c \<notin> set s" for s xs
    using that by (subst takeWhile_append2) auto
  have "rev s @ c # rev l = rev s' @ c # rev l'" using arg_cong [OF assms(1), of rev] by simp
  then have "s = s'" using e [OF assms(2), of "rev l"] e [OF assms(3), of "rev l'"] by simp
  with assms(1) show ?thesis by simp
qed

lemma membershipKey_eq [simp]: "membershipKey l i = membershipKey l' j \<longleftrightarrow> l = l' \<and> i = j"
  using split_last [of l "CHR ''/''" "Itoa i" l' "Itoa j"] by (auto simp: membershipKey_def Itoa_no_slash)

section \<open>The organizations are consistent\<close>

definition org_ok :: "Forge \<Rightarrow> string \<Rightarrow> int \<Rightarrow> bool" where
  "org_ok st login i \<longleftrightarrow> i < fg_NextOrg st \<and> (\<exists>org. mget (fg_Orgs st) i = Some org \<and> og_ID org = i \<and> og_Login org = login)"

definition orgs_ok :: "Forge \<Rightarrow> bool" where
  "orgs_ok st \<longleftrightarrow> (\<forall>login i. mget (fg_OrgsByLogin st) login = Some i \<longrightarrow> org_ok st login i)"

lemma orgs_okD: "orgs_ok st \<Longrightarrow> mget (fg_OrgsByLogin st) login = Some i \<Longrightarrow> org_ok st login i"
  by (simp add: orgs_ok_def)

lemma orgs_distinct: "orgs_ok st \<Longrightarrow> mget (fg_OrgsByLogin st) l = Some i \<Longrightarrow> mget (fg_OrgsByLogin st) l' = Some i \<Longrightarrow> l = l'"
  using orgs_okD [of st l i] orgs_okD [of st l' i] by (auto simp: org_ok_def)

lemma GetOrg_Some:
  assumes "orgs_ok st" "GetOrg login st = Some org"
  shows "og_Login org = login \<and> mget (fg_OrgsByLogin st) login = Some (og_ID org) \<and> og_ID org < fg_NextOrg st"
  using assms orgs_okD [OF assms(1), of login] by (auto simp: GetOrg_def bind_eq_Some_conv org_ok_def)

text \<open>A membership is stored under the login of an organization that exists, and its user.\<close>

definition member_ok :: "Forge \<Rightarrow> string \<Rightarrow> Membership \<Rightarrow> bool" where
  "member_ok st k m \<longleftrightarrow> (\<exists>login. k = membershipKey login (mb_UserID m) \<and> mget (fg_OrgsByLogin st) login = Some (mb_OrgID m))"

definition members_ok :: "Forge \<Rightarrow> bool" where
  "members_ok st \<longleftrightarrow> wf_map (fg_Memberships st) \<and> (\<forall>k m. mget (fg_Memberships st) k = Some m \<longrightarrow> member_ok st k m)"

lemma members_okI: "wf_map (fg_Memberships st) \<Longrightarrow> (\<And>k m. mget (fg_Memberships st) k = Some m \<Longrightarrow> member_ok st k m) \<Longrightarrow> members_ok st"
  by (simp add: members_ok_def)

lemma members_okD: "members_ok st \<Longrightarrow> mget (fg_Memberships st) k = Some m \<Longrightarrow> member_ok st k m" "members_ok st \<Longrightarrow> wf_map (fg_Memberships st)"
  unfolding members_ok_def by blast+

lemma members_ok_put:
  assumes "members_ok st" and b: "fg_Memberships b = mput key m (fg_Memberships st)" "key = membershipKey login (mb_UserID m)"
    and kept: "\<And>l i. mget (fg_OrgsByLogin st) l = Some i \<Longrightarrow> mget (fg_OrgsByLogin b) l = Some i"
    and here: "mget (fg_OrgsByLogin b) login = Some (mb_OrgID m)"
  shows "members_ok b"
proof (rule members_okI)
  fix k m' assume k: "mget (fg_Memberships b) k = Some m'"
  show "member_ok b k m'"
  proof (cases "k = membershipKey login (mb_UserID m)")
    case True then show ?thesis using k b here by (auto simp: member_ok_def)
  next
    case False
    then have "member_ok st k m'" using k b by (intro members_okD(1) [OF assms(1)]) simp
    then show ?thesis using kept by (auto simp: member_ok_def)
  qed
qed (simp add: b members_okD(2) [OF assms(1)])

lemma members_ok_CreateOrg: "members_ok st \<Longrightarrow> members_ok (fst (CreateOrg w u login name description st))"
  by (cases "mget (fg_OrgsByLogin st) login")
     (simp_all add: CreateOrg_def Let_def case_prod_unfold, erule members_ok_put [where login = login], simp, auto)

lemma members_ok_UpdateOrg: "members_ok st \<Longrightarrow> members_ok (fst (UpdateOrg w login f st))"
  by (simp add: UpdateOrg_def Let_def case_prod_unfold members_ok_def member_ok_def split: option.split)

lemma members_ok_DeleteOrg:
  assumes "members_ok st" shows "members_ok (fst (DeleteOrg login st))" (is "members_ok ?b")
proof (rule members_okI)
  fix k m assume "mget (fg_Memberships ?b) k = Some m"
  then have "member_ok st k m \<and> mget (fg_OrgsByLogin st) login \<noteq> Some (mb_OrgID m)"
    using members_okD(1) [OF assms, of k] members_okD(2) [OF assms]
    by (auto simp: DeleteOrg_def Let_def mget_filter split: option.splits if_splits)
  then show "member_ok ?b k m" by (auto simp: DeleteOrg_def Let_def member_ok_def split: option.split)
qed (use members_okD(2) [OF assms] in \<open>simp add: DeleteOrg_def Let_def split: option.split\<close>)

lemma members_ok_SetMembership: "members_ok st \<Longrightarrow> members_ok (fst (SetMembership login i role st))"
  by (cases "mget (fg_OrgsByLogin st) login")
     (simp_all add: SetMembership_def, erule members_ok_put [where login = login], simp, auto)

lemma members_ok_RemoveMembership:
  assumes "members_ok st" shows "members_ok (fst (RemoveMembership login i st))" (is "members_ok ?b")
proof (rule members_okI)
  fix k m assume "mget (fg_Memberships ?b) k = Some m"
  then have "member_ok st k m"
    using members_okD(1) [OF assms, of k m] by (auto simp: RemoveMembership_def Let_def split: option.splits if_splits)
  then show "member_ok ?b k m" by (auto simp: RemoveMembership_def Let_def member_ok_def split: option.split)
qed (use members_okD(2) [OF assms] in \<open>simp add: RemoveMembership_def Let_def split: option.split\<close>)

definition org_view :: "Forge \<Rightarrow> (int \<times> Org) list \<times> int gomap \<times> Membership gomap \<times> int" where
  "org_view st = (fg_Orgs st, fg_OrgsByLogin st, fg_Memberships st, fg_NextOrg st)"

lemma org_view_eq: "org_view b = org_view a \<Longrightarrow> orgs_ok b = orgs_ok a \<and> members_ok b = members_ok a"
  by (simp add: org_view_def orgs_ok_def org_ok_def members_ok_def member_ok_def)

lemma orgs_okI: "(\<And>login i. mget (fg_OrgsByLogin st) login = Some i \<Longrightarrow> org_ok st login i) \<Longrightarrow> orgs_ok st"
  by (simp add: orgs_ok_def)

lemma orgs_ok_add:
  assumes "orgs_ok st" "fg_NextOrg b = fg_NextOrg st + 1" "fg_Orgs b = mput (fg_NextOrg st) org (fg_Orgs st)"
    "fg_OrgsByLogin b = mput (og_Login org) (fg_NextOrg st) (fg_OrgsByLogin st)" "og_ID org = fg_NextOrg st"
  shows "orgs_ok b"
proof (rule orgs_okI)
  fix l i assume l: "mget (fg_OrgsByLogin b) l = Some i"
  show "org_ok b l i"
  proof (cases "l = og_Login org")
    case True then show ?thesis using l assms by (simp add: org_ok_def)
  next
    case False
    then have "org_ok st l i" using l assms(4) by (intro orgs_okD [OF assms(1)]) simp
    then show ?thesis using assms(2,3) by (fastforce simp: org_ok_def)
  qed
qed

lemma orgs_ok_CreateOrg:
  assumes "orgs_ok st" shows "orgs_ok (fst (CreateOrg w u login name description st))"
  using assms by (simp add: CreateOrg_def Let_def case_prod_unfold orgs_ok_add)

lemma orgs_ok_UpdateOrg:
  assumes "keeps_org f" "orgs_ok st" shows "orgs_ok (fst (UpdateOrg w login f st))"
proof (rule orgs_okI)
  fix l i assume "mget (fg_OrgsByLogin (fst (UpdateOrg w login f st))) l = Some i"
  then have "org_ok st l i" by (intro orgs_okD [OF assms(2)]) (simp add: UpdateOrg_def Let_def case_prod_unfold split: option.splits)
  then show "org_ok (fst (UpdateOrg w login f st)) l i"
    using assms(1) by (auto simp: UpdateOrg_def Let_def case_prod_unfold org_ok_def keeps_org_def split: option.split)
qed

lemma orgs_ok_DeleteOrg: "orgs_ok st \<Longrightarrow> orgs_ok (fst (DeleteOrg login st))"
  using orgs_distinct [of st login] unfolding orgs_ok_def
  by (auto simp: DeleteOrg_def Let_def org_ok_def split: option.split)

lemma orgs_ok_members: "orgs_ok st \<Longrightarrow> orgs_ok (fst (SetMembership login i role st))" "orgs_ok st \<Longrightarrow> orgs_ok (fst (RemoveMembership login i st))"
  by (simp_all add: SetMembership_def RemoveMembership_def Let_def orgs_ok_def org_ok_def split: option.split)

lemma org_view_members [simp]:
  "fg_Orgs (fst (SetMembership login i role st)) = fg_Orgs st" "fg_OrgsByLogin (fst (SetMembership login i role st)) = fg_OrgsByLogin st"
  "fg_NextOrg (fst (SetMembership login i role st)) = fg_NextOrg st" "fg_Orgs (fst (RemoveMembership login i st)) = fg_Orgs st"
  "fg_OrgsByLogin (fst (RemoveMembership login i st)) = fg_OrgsByLogin st" "fg_NextOrg (fst (RemoveMembership login i st)) = fg_NextOrg st"
  by (simp_all add: SetMembership_def RemoveMembership_def Let_def split: option.split)

lemma org_view_vault [simp]: "org_view (st\<lparr>fg_Vault := v\<rparr>) = org_view st" by (simp add: org_view_def)

text \<open>The operations on repositories, credentials, issues and pull requests, and the mutations, do not touch the organizations.\<close>

interpretation elsewhere: mutation_relation w "\<lambda>a b. org_view b = org_view a" for w
  by unfold_locales (auto simp: org_view_def start_outgoing_def store_defs upd_repo_def put_repo_def take_number_def CreateRepo_def CreateOrgRepo_def
    UpdateRepo_def DeleteRepo_def CreateMilestone_def DeleteMilestone_def DeleteLabel_def CreateIssue_def UpdateIssue_def CreatePullRequest_def
    UpdatePullRequest_def SetIssueOrPRLock_def Let_def case_prod_unfold split: option.split)

text \<open>Every step keeps the invariant.\<close>

definition orgs_consistent :: "Forge \<Rightarrow> bool" where
  "orgs_consistent st \<longleftrightarrow> orgs_ok st \<and> members_ok st"

lemma same_orgs: "org_view b = org_view a \<Longrightarrow> orgs_consistent b = orgs_consistent a"
  using org_view_eq [of b a] by (simp add: orgs_consistent_def)

lemma consistent_vault [simp]: "orgs_consistent (fst (on_vault f st)) = orgs_consistent st"
  by (rule same_orgs) (simp add: fst_on_vault)

lemma consistent_auth_code:
  "orgs_consistent st \<Longrightarrow>
    orgs_consistent (let (st, code) = draw w st; (st, now) = clock w st in set_vault (issue_auth_code now code i client url scope state (fg_Vault st)) st)"
  by (erule same_orgs [THEN iffD2, rotated]) (simp add: org_view_def set_vault_def draw_def clock_def)

lemma imp_trans: "(A \<longrightarrow> B) \<Longrightarrow> (B \<longrightarrow> C) \<Longrightarrow> A \<longrightarrow> C" by blast

lemma consistent_pull: "orgs_consistent (fst (UpdatePullRequest w i pull_fn st)) = orgs_consistent st"
  by (rule same_orgs) (simp add: org_view_def UpdatePullRequest_def Let_def case_prod_unfold split: option.split)

lemma consistent_teams [simp]:
  "orgs_consistent (fst (CreateTeam w login name description privacy permission st)) = orgs_consistent st"
  "orgs_consistent (fst (UpdateTeam w login slug team_fn st)) = orgs_consistent st" "orgs_consistent (fst (DeleteTeam login slug st)) = orgs_consistent st"
  "orgs_consistent (fst (AddTeamMember w login slug i st)) = orgs_consistent st" "orgs_consistent (fst (RemoveTeamMember w login slug i st)) = orgs_consistent st"
  "orgs_consistent (fst (AddTeamRepo w login slug name st)) = orgs_consistent st" "orgs_consistent (fst (RemoveTeamRepo w login slug name st)) = orgs_consistent st"
  by (rule same_orgs, simp add: org_view_def store_defs Let_def case_prod_unfold split: option.split)+

lemma consistent_orgs:
  assumes "orgs_consistent st"
  shows "orgs_consistent (fst (CreateOrg w creator login name description st))" "keeps_org org_fn \<Longrightarrow> orgs_consistent (fst (UpdateOrg w login org_fn st))"
    "orgs_consistent (fst (DeleteOrg login st))" "orgs_consistent (fst (SetMembership login i role st))" "orgs_consistent (fst (RemoveMembership login i st))"
  using assms by (simp_all add: orgs_consistent_def orgs_ok_CreateOrg orgs_ok_UpdateOrg orgs_ok_DeleteOrg orgs_ok_members members_ok_CreateOrg
    members_ok_UpdateOrg members_ok_DeleteOrg members_ok_SetMembership members_ok_RemoveMembership)

lemmas elsewhere_consistent =
  elsewhere.clock_R [THEN same_orgs] elsewhere.draw_R [THEN same_orgs] elsewhere.CreateRepo_R [THEN same_orgs] elsewhere.CreateOrgRepo_R [THEN same_orgs]
  elsewhere.UpdateRepo_R [THEN same_orgs] elsewhere.DeleteRepo_R [THEN same_orgs] elsewhere.CreateHook_R [THEN same_orgs]
  elsewhere.UpdateHook_R [THEN same_orgs] elsewhere.DeleteHook_R [THEN same_orgs] elsewhere.emitWebhookEvent_R [THEN same_orgs]
  elsewhere.start_outgoing_R [THEN same_orgs] elsewhere.run_outgoing_R [THEN same_orgs] elsewhere.CreateLabel_R [THEN same_orgs]
  elsewhere.UpdateLabel_R [THEN same_orgs] elsewhere.DeleteLabel_R [THEN same_orgs] elsewhere.CreateMilestone_R [THEN same_orgs]
  elsewhere.UpdateMilestone_R [THEN same_orgs] elsewhere.DeleteMilestone_R [THEN same_orgs] elsewhere.CreateIssue_R [THEN same_orgs]
  elsewhere.UpdateIssue_R [THEN same_orgs] elsewhere.CreateCommentFor_R [THEN same_orgs] elsewhere.DeleteComment_R [THEN same_orgs]
  elsewhere.UpdateCommentBody_R [THEN same_orgs] elsewhere.SetIssueOrPRLock_R [THEN same_orgs] elsewhere.CreatePullRequest_R [THEN same_orgs]
  elsewhere.CreatePRReview_R [THEN same_orgs] elsewhere.SetCommentMinimization_R [THEN same_orgs]

interpretation organizations: forge_relation w "\<lambda>a b. orgs_consistent a \<longrightarrow> orgs_consistent b" for w
  by unfold_locales
    (erule (1) imp_trans | assumption | rule impI consistent_auth_code consistent_orgs elsewhere_consistent [THEN iffD2] consistent_vault [THEN iffD2] consistent_pull [THEN iffD2]
       consistent_teams [THEN iffD2] | erule (1) mp)+

lemma orgs_always_consistent: "orgs_consistent (forge_run verify w ops (forge_start w us))"
proof -
  have "orgs_consistent (forge_start w us)"
    using start_tables [of w us] by (simp add: orgs_consistent_def orgs_ok_def members_ok_def)
  then show ?thesis using organizations.forge_run_R by blast
qed

section \<open>Only an owner changes an organization\<close>

text \<open>The organization and its members are the same before and after.\<close>

definition unaffected :: "string \<Rightarrow> Forge \<Rightarrow> Forge \<Rightarrow> bool" where
  "unaffected login a b \<longleftrightarrow> GetOrg login b = GetOrg login a \<and> (\<forall>i. GetMembership login i b = GetMembership login i a)"

lemma unaffected_same: "org_view b = org_view a \<Longrightarrow> unaffected login a b"
  by (simp add: unaffected_def org_view_def GetOrg_def GetMembership_def)

lemma unaffected_refl [simp]: "unaffected login st st" by (simp add: unaffected_def)

locale other_org =
  fixes st :: Forge and login :: string and i :: int
  assumes ok: "orgs_ok st" and mok: "members_ok st" and known: "mget (fg_OrgsByLogin st) login = Some i"
begin

lemma other: "l \<noteq> login \<Longrightarrow> mget (fg_OrgsByLogin st) l \<noteq> Some i"
  using orgs_distinct [OF ok known] by blast

lemma fresh: "i \<noteq> fg_NextOrg st" using orgs_okD [OF ok known] by (simp add: org_ok_def)

lemma unaffected_CreateOrg: "unaffected login st (fst (CreateOrg w u l name description st))"
  using known fresh by (auto simp: unaffected_def CreateOrg_def GetOrg_def GetMembership_def Let_def case_prod_unfold)

lemma unaffected_UpdateOrg: "l \<noteq> login \<Longrightarrow> unaffected login st (fst (UpdateOrg w l f st))"
  using known other [of l]
  by (auto simp: unaffected_def UpdateOrg_def GetOrg_def GetMembership_def Let_def case_prod_unfold split: option.split)

lemma member_of: "(membershipKey login j, m) \<in> set (fg_Memberships st) \<Longrightarrow> mb_OrgID m = i"
  using members_okD [OF mok] known unfolding mget_in_set [OF members_okD(2) [OF mok]] by (metis member_ok_def membershipKey_eq option.inject)

lemma unaffected_DeleteOrg: "l \<noteq> login \<Longrightarrow> unaffected login st (fst (DeleteOrg l st))"
  using known other [of l] members_okD(2) [OF mok]
  by (auto simp: unaffected_def DeleteOrg_def GetOrg_def GetMembership_def Let_def mget_filter split: option.split dest!: member_of)

lemma unaffected_SetMembership: "l \<noteq> login \<Longrightarrow> unaffected login st (fst (SetMembership l j role st))"
  by (auto simp: unaffected_def SetMembership_def GetOrg_def GetMembership_def split: option.split)

lemma unaffected_RemoveMembership: "l \<noteq> login \<Longrightarrow> unaffected login st (fst (RemoveMembership l j st))"
  by (auto simp: unaffected_def RemoveMembership_def GetOrg_def GetMembership_def Let_def split: option.split)

end
text \<open>The opening of a handler for owners lets nobody through who is not an owner of the organization in the path.\<close>

definition outsider :: "Request \<Rightarrow> string \<Rightarrow> Forge \<Rightarrow> bool" where
  "outsider rq login st \<longleftrightarrow> (\<forall>u org. cx_User (rq_Ctx rq) = Some u \<longrightarrow> GetOrg login st = Some org \<longrightarrow> \<not> canAdminOrg u org st)"

lemma unaffected_as_owner:
  "outsider rq login st \<Longrightarrow> (\<And>org. PathValue rq ''org'' \<noteq> login \<Longrightarrow> unaffected login st (fst (k org))) \<Longrightarrow> unaffected login st (fst (as_owner rq st k))"
  by (auto simp: as_owner_def signed_in_def or_404_def path_org_def outsider_def split: option.split)

lemma unaffected_signed_in: "(\<And>u. unaffected login st (fst (k u))) \<Longrightarrow> unaffected login st (fst (signed_in rq st k))"
  by (simp add: signed_in_def split: option.split)

lemma unaffected_or_404: "unaffected login st b \<Longrightarrow> (\<And>y. unaffected login st (fst (k y))) \<Longrightarrow> unaffected login st (fst (or_404 b x k))"
  by (simp add: or_404_def split: option.split)

lemma unaffected_with_body: "(\<And>y. unaffected login st (fst (k y))) \<Longrightarrow> unaffected login st (fst (with_body rq st dec k))"
  by (simp add: with_body_def split: option.split)

lemma unaffected_read_back: "unaffected login st b \<Longrightarrow> unaffected login st (fst (read_back b x k))"
  by (simp add: read_back_def)

lemma unaffected_teams [simp]:
  "unaffected l st (fst (CreateTeam w login name description privacy permission st))"
  "unaffected l st (fst (UpdateTeam w login slug team_fn st))" "unaffected l st (fst (DeleteTeam login slug st))"
  "unaffected l st (fst (AddTeamMember w login slug i st))" "unaffected l st (fst (RemoveTeamMember w login slug i st))"
  "unaffected l st (fst (AddTeamRepo w login slug name st))" "unaffected l st (fst (RemoveTeamRepo w login slug name st))"
  "unaffected l st (fst (CreateOrgRepo w org creator name description private st))"
  by (rule unaffected_same, simp add: org_view_def store_defs CreateOrgRepo_def put_repo_def Let_def case_prod_unfold split: option.split)+

context other_org begin

lemmas unaffected = unaffected_CreateOrg unaffected_UpdateOrg unaffected_DeleteOrg unaffected_SetMembership unaffected_RemoveMembership
  unaffected_as_owner unaffected_signed_in unaffected_or_404 unaffected_with_body unaffected_read_back

lemma unaffected_routes:
  "outsider rq login st \<Longrightarrow> (pattern, perm, h) \<in> set (org_routes @ team_routes @ member_routes) \<Longrightarrow> unaffected login st (fst (h w rq st))"
  by (auto simp: org_routes_def org_handlers team_routes_def team_handlers member_routes_def member_handlers Let_def case_prod_unfold
       intro!: unaffected split: option.split bool.split)

end

section \<open>The claim\<close>

text \<open>The context that the middleware makes for a request.\<close>

definition context_of :: "verifier \<Rightarrow> ForgeWorld \<Rightarrow> Request \<Rightarrow> Forge \<Rightarrow> Ctx" where
  "context_of verify w rq st = rq_Ctx (ghHeadersMiddleware verify (snd (clock w st)) rq (fst (clock w st)))"

lemma unaffected_clock: "unaffected login (fst (clock w st)) b = unaffected login st b"
  by (simp add: unaffected_def GetOrg_def GetMembership_def)

lemma unaffected_route:
  assumes "orgs_consistent st" "GetOrg login st = Some org" "outsider rq login st" "route_of pattern = Some (perm, h)"
  shows "unaffected login st (fst (h w rq st))"
proof -
  have "(pattern, perm, h) \<in> set routes" using assms(4) unfolding route_of_def by (rule map_of_SomeD)
  moreover have "other_org st login (og_ID org)"
    using assms(1,2) GetOrg_Some by (auto simp: other_org_def orgs_consistent_def)
  ultimately show ?thesis
    using other_org.unaffected_routes [OF _ assms(3), of _ pattern perm h w] elsewhere.account_routes_R [of pattern perm h]
      elsewhere.issue_routes_R [of pattern perm h] elsewhere.pull_routes_R [of pattern perm h]
    by (auto simp: routes_def intro: unaffected_same)
qed

text \<open>
  C7: After any history, a request changes an organization or its memberships only when its user is an administrator of that
  organization: without one, the organization and each of its memberships are the same after the request, whatever its route.
\<close>
theorem org_changes_need_admin:
  assumes "st = forge_run verify w ops (forge_start w us)" "GetOrg login st = Some org"
    and "\<And>u. cx_User (context_of verify w rq st) = Some u \<Longrightarrow> \<not> canAdminOrg u org st"
  shows "GetOrg login (fst (serve verify w pattern rq st)) = Some org \<and>
    (\<forall>i. GetMembership login i (fst (serve verify w pattern rq st)) = GetMembership login i st)"
proof -
  define st1 where "st1 = fst (clock w st)"
  define rq' where "rq' = ghHeadersMiddleware verify (snd (clock w st)) rq st1"
  have "orgs_consistent st1" using orgs_always_consistent assms(1) organizations.clock_R by (simp add: st1_def del: clock_fields)
  moreover have "GetOrg login st1 = Some org" "outsider rq' login st1"
    using assms(2,3) by (auto simp: rq'_def st1_def outsider_def context_of_def GetOrg_def canAdminOrg_def GetMembership_def)
  ultimately have "unaffected login st1 (fst (serve verify w pattern rq st))"
    using unaffected_route by (auto simp: serve_def Let_def case_prod_unfold routed_def rq'_def [symmetric] st1_def [symmetric] simp del: clock_fields split: option.split)
  then show ?thesis using assms(2) unfolding st1_def unaffected_clock by (simp add: unaffected_def)
qed

text \<open>A store with a second user, and an organization that the administrator made.\<close>

definition bob :: User where "bob = admin\<lparr>us_ID := 2, us_Login := ''bob'', us_SiteAdmin := False\<rparr>"

definition bob_token :: Token where "bob_token = \<lparr>tk_Value = ''b'', tk_UserID = 2, tk_Scopes = ''repo'', tk_CreatedAt = 0\<rparr>"

definition bob_start :: Forge where "bob_start = forge_start sample_world [(bob, bob_token)]"

definition new_org :: forge_op where
  "new_org = Rest ''POST /api/v3/user/orgs'' (request admin_auth [] (Body (JObj [(''login'', JStr ''o'')])))"

abbreviation org_store :: Forge where "org_store \<equiv> forge_run no_jwt sample_world [new_org] (forge_start sample_world [(bob, bob_token)])"

lemma org_route: "route_of ''POST /api/v3/user/orgs'' = Some (None, handleCreateOrg)"
  by (simp add: route_of_def routes_def issue_routes_def pull_routes_def user_routes_def repo_routes_def org_routes_def)

lemma bob_started: "bob_start = add_user bob bob_token demo_start"
  using started by (simp add: bob_start_def forge_start_def)

lemma org_request: "org_req [(''login'', JStr ''o'')] = Some (''o'', [], [])"
  by code_simp

lemma org_admin: "authenticate v now admin_auth (bob_start\<lparr>fg_Tick := t\<rparr>) = no_ctx\<lparr>cx_User := Some admin\<rparr>"
  by (rule admin_signed_in [where t = "\<lparr>tk_Value = admin_token, tk_UserID = 1, tk_Scopes = ''repo, read:org, gist'', tk_CreatedAt = 0\<rparr>"])
     (simp_all add: bob_started add_user_def bob_token_def bob_def demo_defs admin_token_def admin_def)

lemma org_store_eq: "org_store = fst (CreateOrg sample_world admin ''o'' [] [] (bob_start\<lparr>fg_Tick := Suc (fg_Tick bob_start)\<rparr>))"
  unfolding bob_start_def [symmetric]
  by (simp add: forge_run_def new_org_def serve_def org_route routed_def ghHeadersMiddleware_def request_def org_admin handleCreateOrg_def
    signed_in_def with_body_def org_request Let_def clock_def no_ctx_def case_prod_unfold split: option.split)

lemma org_store: "\<exists>org. GetOrg ''o'' org_store = Some org \<and> og_Login org = ''o''" "GetMembership ''o'' 2 org_store = None"
  "mget (va_Tokens (fg_Vault org_store)) ''b'' = Some bob_token" "mget (fg_Users org_store) 2 = Some bob"
  unfolding org_store_eq
  by (simp_all add: CreateOrg_def GetOrg_def GetMembership_def bob_started add_user_def demo_defs bob_token_def admin_token_def bob_def admin_def Let_def clock_def)

definition bob_deletes :: Request where
  "bob_deletes = request ''token b'' [(''org'', ''o'')] EmptyBody"

lemma bob_context: "cx_User (context_of no_jwt sample_world bob_deletes org_store) = Some bob"
  using org_store(3,4)
  by (simp add: context_of_def ghHeadersMiddleware_def bob_deletes_def request_def authenticate_def bearer_def HasPrefix_def TrimPrefix_def
    looksLikeJWT_def LookupToken_def bob_token_def no_ctx_def clock_def Let_def)

theorem org_changes_need_admin_witness:
  "\<exists>org. GetOrg ''o'' (fst (serve no_jwt sample_world ''DELETE /api/v3/orgs/{org}'' bob_deletes org_store)) = Some org"
proof -
  obtain org where org: "GetOrg ''o'' org_store = Some org" "og_Login org = ''o''" using org_store(1) by blast
  have "\<not> canAdminOrg u org org_store" if "cx_User (context_of no_jwt sample_world bob_deletes org_store) = Some u" for u
    using that org(2) org_store(2) by (simp add: bob_context canAdminOrg_def) (auto simp: bob_def)
  then show ?thesis using org_changes_need_admin [OF refl org(1)] by blast
qed
end
