(* ===== verification/Leaks.thy ===== *)
theory Leaks
  imports OrgAdmin
begin

text \<open>Who reads and deletes a repository: removed members, requests without credentials, and the GraphQL deletion.\<close>

section \<open>Removed members\<close>

text \<open>No team lists a member twice, so the loop of \<open>RemoveMembership\<close>, which takes out the first entry, takes out all.\<close>

definition team_ok :: "int \<Rightarrow> Team \<Rightarrow> bool" where
  "team_ok i t \<longleftrightarrow> te_ID t = i \<and> distinct (te_MemberIDs t)"

definition teams_ok :: "Forge \<Rightarrow> bool" where
  "teams_ok st \<longleftrightarrow> (\<forall>(i, t) \<in> set (fg_Teams st). team_ok i t)"

lemma teams_okD: "teams_ok st \<Longrightarrow> mget (fg_Teams st) i = Some t \<Longrightarrow> team_ok i t"
  by (auto simp: teams_ok_def dest!: map_of_SomeD)

lemma in_mput: "x \<in> set (mput k v m) \<Longrightarrow> x = (k, v) \<or> x \<in> set m"
  by (induction m) (auto split: if_splits)

lemma teams_ok_put: "fg_Teams b = mput i t (fg_Teams st) \<Longrightarrow> teams_ok st \<Longrightarrow> team_ok i t \<Longrightarrow> teams_ok b"
  unfolding teams_ok_def by (auto dest!: in_mput)

lemma teams_ok_sub: "set (fg_Teams b) \<subseteq> set (fg_Teams st) \<Longrightarrow> teams_ok st \<Longrightarrow> teams_ok b"
  by (auto simp: teams_ok_def)

lemma teams_ok_upd: "teams_ok st \<Longrightarrow> (\<And>t. mget (fg_Teams st) i = Some t \<Longrightarrow> team_ok i (f t)) \<Longrightarrow> teams_ok (upd_team i f st)"
  by (cases "mget (fg_Teams st) i") (auto simp: upd_team_def intro: teams_ok_put)

lemma teams_ok_change:
  assumes "teams_ok st" "GetTeam login slug st = Some team" "team_ok (te_ID team) (f team)" "\<And>t. te_ID (f t) = te_ID t"
  shows "teams_ok (change_team w team f st)"
proof -
  obtain i where "mget (fg_Teams st) i = Some team" using assms(2) by (auto simp: GetTeam_def bind_eq_Some_conv)
  moreover from this have "te_ID team = i" using teams_okD [OF assms(1)] by (simp add: team_ok_def)
  moreover have "teams_ok (fst (clock w st))" by (rule teams_ok_sub [OF _ assms(1)]) simp
  ultimately show ?thesis using assms(3) by (auto simp: change_team_def Let_def case_prod_unfold team_ok_def intro!: teams_ok_upd)
qed

lemma GetTeam_ok: "teams_ok st \<Longrightarrow> GetTeam login slug st = Some team \<Longrightarrow> team_ok (te_ID team) team"
  by (auto simp: GetTeam_def bind_eq_Some_conv team_ok_def dest!: teams_okD)

lemma teams_ok_team_ops:
  assumes "teams_ok st"
  shows "teams_ok (fst (AddTeamMember w login slug i st))" "teams_ok (fst (RemoveTeamMember w login slug i st))"
    "teams_ok (fst (AddTeamRepo w login slug name st))" "teams_ok (fst (RemoveTeamRepo w login slug name st))"
  using assms GetTeam_ok [OF assms, of login slug]
  by (auto simp: AddTeamMember_def RemoveTeamMember_def AddTeamRepo_def RemoveTeamRepo_def team_ok_def intro!: teams_ok_change split: option.split)

lemma teams_ok_CreateTeam:
  assumes "teams_ok st" shows "teams_ok (fst (CreateTeam w login name description privacy permission st))"
  by (simp add: CreateTeam_def Let_def case_prod_unfold assms split: option.split)
     (intro allI impI conjI; (rule teams_ok_put [OF _ assms], simp, simp add: team_ok_def))

lemma teams_ok_UpdateTeam:
  assumes "keeps_team f" "teams_ok st" shows "teams_ok (fst (UpdateTeam w login slug f st))"
proof -
  have "teams_ok (upd_team i (\<lambda>t. (f t)\<lparr>te_UpdatedAt := now\<rparr>) (fst (clock w st)))" for i now
    using assms(1) teams_okD [OF assms(2), of i]
    by (intro teams_ok_upd teams_ok_sub [OF _ assms(2)]) (auto simp: keeps_team_def team_ok_def)
  then show ?thesis by (auto simp: UpdateTeam_def Let_def case_prod_unfold assms(2) split: option.split)
qed

lemma teams_ok_removals:
  assumes "teams_ok st"
  shows "teams_ok (fst (DeleteTeam login slug st))" "teams_ok (fst (DeleteOrg login st))" "teams_ok (fst (RemoveMembership login i st))"
proof -
  show "teams_ok (fst (DeleteTeam login slug st))" "teams_ok (fst (DeleteOrg login st))"
    using assms by (auto simp: DeleteTeam_def DeleteOrg_def Let_def set_mdel split: option.split intro!: teams_ok_sub [of _ st])
  show "teams_ok (fst (RemoveMembership login i st))"
    using assms by (auto simp: RemoveMembership_def Let_def teams_ok_def team_ok_def split: option.split)
qed

interpretation teams: forge_relation w "\<lambda>a b. teams_ok a \<longrightarrow> teams_ok b" for w
  by unfold_locales
    (auto simp: teams_ok_team_ops teams_ok_CreateTeam teams_ok_UpdateTeam teams_ok_removals
       start_outgoing_def set_vault_def fst_on_vault CreateOrg_def UpdateOrg_def SetMembership_def
       upd_repo_def put_repo_def take_number_def CreateRepo_def CreateOrgRepo_def UpdateRepo_def DeleteRepo_def CreateMilestone_def
       DeleteMilestone_def DeleteLabel_def CreateIssue_def UpdateIssue_def CreatePullRequest_def UpdatePullRequest_def SetIssueOrPRLock_def
       CreateLabel_def UpdateLabel_def UpdateMilestone_def CreateCommentFor_def DeleteComment_def UpdateCommentBody_def
       SetCommentMinimization_def CreatePRReview_def CreateHook_def UpdateHook_def DeleteHook_def
       Let_def case_prod_unfold intro: teams_ok_sub [rotated] split: option.split)


lemma in_map_pair: "(i, y) \<in> set (map (\<lambda>(t, x). (t, f t x)) m) \<Longrightarrow> \<exists>x. (i, x) \<in> set m \<and> y = f i x"
  by auto




section \<open>Private repositories without credentials\<close>

lemma repo_route: "route_of ''GET /api/v3/repos/{owner}/{repo}'' = Some (None, handleGetRepo)"
  by (simp add: route_of_def routes_def issue_routes_def pull_routes_def user_routes_def repo_routes_def)

lemma issue_route: "route_of ''GET /api/v3/repos/{owner}/{repo}/issues/{number}'' = Some (None, handleGetIssue)"
  by (simp add: route_of_def routes_def issue_routes_def)

text \<open>
  C39: The handler of a repository hides a private one from a request without credentials, but those of its issues and pull requests
  do not look at who asks: the same request reads any issue of it.
\<close>
theorem private_issues_readable:
  assumes "rq_Auth rq = []" "path_repo rq st = Some repo" "re_Private repo" "path_issue rq repo st = Some issue"
  shows "snd (serve verify w ''GET /api/v3/repos/{owner}/{repo}'' rq st) = notFound \<and>
    snd (serve verify w ''GET /api/v3/repos/{owner}/{repo}/issues/{number}'' rq st) =
      writeJSON 200 (issueToJSON w issue (fst (clock w st)) (rq_Base rq) (re_FullName repo))"
proof -
  define rq' where "rq' = ghHeadersMiddleware verify (snd (clock w st)) rq (fst (clock w st))"
  have rq': "cx_User (rq_Ctx rq') = None" "PathValue rq' = PathValue rq" "rq_Base rq' = rq_Base rq"
    using assms(1) by (auto simp: rq'_def ghHeadersMiddleware_def authenticate_def bearer_def HasPrefix_def no_ctx_def PathValue_def fun_eq_iff)
  have "path_repo rq' (fst (clock w st)) = Some repo" "path_issue rq' repo (fst (clock w st)) = Some issue"
    using assms(2,4) by (simp_all add: path_repo_def path_issue_def path_number_def rq' GetRepo_def GetIssueByNumber_def)
  then show ?thesis
    using assms(3) rq' by (simp add: serve_def repo_route issue_route routed_def handleGetRepo_def handleGetIssue_def or_404_def canReadRepo_def
      Let_def case_prod_unfold rq'_def [symmetric] del: clock_fields)
qed

definition stranger :: Request where
  "stranger = request [] [(''owner'', ''admin''), (''repo'', ''r''), (''number'', ''1'')] EmptyBody"

lemma private_issue: "\<exists>repo issue. path_repo stranger (sample_store with_issue) = Some repo \<and> re_Private repo \<and>
    path_issue stranger repo (sample_store with_issue) = Some issue \<and> iu_Title issue = ''secret''"
proof -
  have "Atoi ''1'' = Some 1" "map ascii_upper ''private'' = ''PRIVATE''" by code_simp+
  then show ?thesis
    by (simp add: issue_at_def with_issue_def demo_run demo_issue_run stranger_def request_def path_repo_def path_issue_def path_number_def PathValue_def GetRepo_def
      GetIssueByNumber_def del: forge_step.simps)
qed

theorem private_issues_readable_witness:
  "\<exists>(issue :: Issue) (repo :: Repo). iu_Title issue = ''secret'' \<and>
    snd (serve no_jwt sample_world ''GET /api/v3/repos/{owner}/{repo}'' stranger (sample_store with_issue)) = notFound \<and>
    snd (serve no_jwt sample_world ''GET /api/v3/repos/{owner}/{repo}/issues/{number}'' stranger (sample_store with_issue)) =
      writeJSON 200 (issueToJSON sample_world issue (fst (clock sample_world (sample_store with_issue))) ''http://hub'' (re_FullName repo))"
proof -
  have auth: "rq_Auth stranger = []" and base: "rq_Base stranger = ''http://hub''" by (simp_all add: stranger_def request_def)
  obtain repo issue where here: "path_repo stranger (sample_store with_issue) = Some repo" "re_Private repo"
      "path_issue stranger repo (sample_store with_issue) = Some issue" and title: "iu_Title issue = ''secret''"
    using private_issue by blast
  note private_issues_readable [OF auth here, of no_jwt sample_world, unfolded base]
  with title show ?thesis by blast
qed

section \<open>The GraphQL deletion\<close>

text \<open>
  C40: The mutation \<open>deleteRepository\<close> deletes under the login of the user who created the repository. For a repository of an
  organization that is the creator's own repository of the same name: that one goes, the one that was named stays, and the
  answer is a success. Any signed-in user may do so.
\<close>
theorem deletes_namesake:
  assumes "cx_User (authenticate (verify (snd (clock w st)) (va_Apps (fg_Vault st))) (snd (clock w st)) auth (fst (clock w st))) = Some u"
    and "findRepoByNodeID n st = Some repo" "re_Owner repo = Some owner" "mget (fg_Repos st) (re_ID repo) = Some repo"
    and "mget (fg_ReposByName st) (us_Login owner @ ''/'' @ re_Name repo) = Some j" "j \<noteq> re_ID repo"
  shows "\<exists>st'. handleGraphQL verify w auth (MDeleteRepository n) st = (st', Inr PNothing) \<and>
    mget (fg_Repos st') j = None \<and> mget (fg_Repos st') (re_ID repo) = Some repo"
  using assms
  by (simp add: handleGraphQL_def gql_deleteRepository_def as_user_def found_def findRepoByNodeID_def DeleteRepo_def clock_def Let_def)

text \<open>Two repositories with one name: the first of the administrator, the second of an organization the administrator made it for.\<close>

definition demo_org :: Org where
  "demo_org = \<lparr>og_ID = 1, og_NodeID = [], og_Login = ''o'', og_Name = [], og_Description = [], og_Email = [], og_AvatarURL = [], og_Type = [],
     og_CreatedAt = 0, og_UpdatedAt = 0\<rparr>"

definition namesakes :: Forge where
  "namesakes = fst (CreateOrgRepo sample_world demo_org admin ''r'' [] False (fst (CreateRepo sample_world admin ''r'' [] False demo_start)))"

theorem deletes_namesake_witness:
  "\<exists>st'. handleGraphQL no_jwt sample_world admin_auth (MDeleteRepository ''R_kgDO00000002'') namesakes = (st', Inr PNothing) \<and>
    mget (fg_Repos st') 1 = None \<and> mget (fg_Repos st') 2 \<noteq> None"
proof -
  have pad: "pad8 2 = ''00000002''" by code_simp
  define repo where "repo = new_repo 2 admin ''r'' ''o/r'' [] False (2 * second)"
  have t: "fg_Repos namesakes = [(1, new_repo 1 admin ''r'' ''admin/r'' [] False second), (2, repo)]" "fg_ReposByName namesakes = [(''admin/r'', 1), (''o/r'', 2)]"
    "mget (va_Tokens (fg_Vault namesakes)) admin_token = Some \<lparr>tk_Value = admin_token, tk_UserID = 1, tk_Scopes = ''repo, read:org, gist'', tk_CreatedAt = 0\<rparr>"
    "mget (fg_Users namesakes) 1 = Some admin"
    by (simp_all add: namesakes_def CreateOrgRepo_def CreateRepo_def put_repo_def demo_org_def demo_defs new_repo_def admin_def repo_def clock_def
      sample_world_def Let_def)
  have "authenticate v now admin_auth (fst (clock sample_world namesakes)) = no_ctx\<lparr>cx_User := Some admin\<rparr>" for v now
    using t by (intro admin_signed_in) auto
  then have a: "cx_User (authenticate v now admin_auth (fst (clock sample_world namesakes))) = Some admin" for v now by simp
  have "findRepoByNodeID ''R_kgDO00000002'' namesakes = Some repo"
    by (simp add: findRepoByNodeID_def first_where_def t) (simp add: repo_def new_repo_def pad pad8_one)
  moreover have "re_Owner repo = Some admin" "mget (fg_Repos namesakes) (re_ID repo) = Some repo" "re_ID repo = 2"
      "mget (fg_ReposByName namesakes) (us_Login admin @ ''/'' @ re_Name repo) = Some 1"
    by (simp_all add: t repo_def new_repo_def admin_def)
  ultimately show ?thesis using deletes_namesake [OF a, of "''R_kgDO00000002''" repo admin 1] by auto
qed
end
