(* ===== verification/Paging.thy ===== *)
theory Paging
  imports Rest Cursors
begin

text \<open>Clients that follow pages: those of the REST lists (\<open>gh_pagination.go\<close>) and those of the GraphQL connections.\<close>

section \<open>Pages of a REST list\<close>

lemma page_slice_eq:
  assumes "0 < k" "k \<le> 100" "int (length items) < 2 ^ 62" "1 \<le> p" "p \<le> last_page k (int (length items))"
  shows "page_slice p k items = Some (take (nat k) (drop (nat ((p - 1) * k)) items))"
proof -
  have start: "0 \<le> (p - 1) * k \<and> (p - 1) * k \<le> int (length items)"
  proof (cases "items = []")
    case True then show ?thesis using assms by (simp add: last_page_def)
  next
    case False
    then have "p - 1 \<le> (int (length items) + k - 1) div k - 1" using assms(5) by (simp add: last_page_def)
    also have "\<dots> = (int (length items) - 1) div k"
      using assms(1) div_add_self2 [of k "int (length items) - 1"] by (simp add: algebra_simps)
    finally have "(p - 1) * k \<le> (int (length items) - 1) div k * k" using assms(1) by (intro mult_right_mono) auto
    also have "\<dots> \<le> int (length items) - 1" 
      using div_mult_mod_eq [of "int (length items) - 1" k] pos_mod_sign [of k "int (length items) - 1"] assms(1) by linarith
    finally show ?thesis using assms(1,4) by simp
  qed
  then have "page_start p k = (p - 1) * k" using assms(3) unfolding page_start_def by (intro sint_small) auto
  then show ?thesis using start assms(1)
    by (cases "(p - 1) * k + k \<le> int (length items)") (auto simp: page_slice_def Let_def min_def nat_le_eq_zle)
qed

lemma concat_slices: "concat (map (\<lambda>i. take k (drop (i * k) xs)) [0..<m]) = take (m * k) xs"
  by (induction m) (simp_all, metis add.commute take_add)

lemma last_page_covers: assumes "0 < k" shows "n \<le> last_page k n * k"
proof -
  have "n \<le> (n + k - 1) div k * k"
    using div_mult_mod_eq [of "n + k - 1" k] pos_mod_bound [OF assms, of "n + k - 1"] by linarith
  then show ?thesis using assms by (simp add: last_page_def)
qed

text \<open>The page of a request without an error, and the empty list.\<close>

definition page_items :: "int \<Rightarrow> 'a list \<Rightarrow> int \<Rightarrow> 'a list" where
  "page_items perPage items p = (case page_slice p perPage items of Some xs \<Rightarrow> xs | None \<Rightarrow> [])"



text \<open>
  The product of page and page size is computed in 64 bits. With a large page number it wraps to a negative start, and the
  handler panics, whatever the list.
\<close>
theorem huge_page_panics:
  "paginateAndLink path [(''page'', [''92233720368547760'']), (''per_page'', [''100''])] items = panicked"
proof -
  have "parsePagination [(''page'', [''92233720368547760'']), (''per_page'', [''100''])] = (92233720368547760, 100)"
    by (simp add: parsePagination_def positive_param_def query_get_def Atoi_def sign_split_def parse_digits_def digits_val_def is_digit_def int64_ok_def)
  moreover have start: "page_start 92233720368547760 100 < 0" by (simp add: page_start_def)
  have "page_slice 92233720368547760 100 items = None"
    unfolding page_slice_def Let_def using start by (simp only: min_def not_less [symmetric] split: if_splits) auto
  ultimately show ?thesis by (simp only: paginateAndLink_def Let_def prod.case option.case)
qed

section \<open>Pages of a connection\<close>

text \<open>
  C26: A client that asks for pages of a positive size and follows the end cursors gets the whole list, in order, each item once, in
  at most one request more than there are items.
\<close>
theorem cursor_walk_lists_all:
  assumes "0 < limit" "int (length items) + limit < 2 ^ 63"
  shows "walk (Suc (length items)) items limit [] = Some items"
  using walk_from [OF assms(1) _ assms(2), of 0 "[]"] by (simp del: walk.simps)

theorem cursor_walk_lists_all_witness: "walk 6 ''abcde'' 2 [] = Some ''abcde''"
  using cursor_walk_lists_all [of 2 "''abcde''"] by (simp add: numeral_eq_Suc del: walk.simps)

end
