(* ===== verification/Spec2Isabelle.thy ===== *)
theory Spec2Isabelle
  imports Behaviour Cleanup WorkflowBehaviour Numbers PullLife Anonymous TokenLife Leaks Paging
begin

text \<open>
  Verification of two programs of sockerless: the base server (\<open>backends/core\<close> with the types of \<open>api\<close>), a
  Docker and Podman API over an in-memory store that every cloud backend embeds; and \<open>bleephub\<close>, a GitHub
  server for CI, in two parts: the engine that runs workflows on registered runners, and the forge, GitHub's
  REST and GraphQL interface to repositories, issues, pull requests, organizations and apps.

  The base server. A request handler of \<open>BaseServer\<close> (\<open>backend_impl.go\<close>, \<open>backend_impl_pods.go\<close>) resolves a
  reference (\<open>resolve.go\<close>), checks its guards, updates the \<open>Store\<close> (\<open>store.go\<close>) and publishes events
  (\<open>event_bus.go\<close>). The store holds generic tables (\<open>StateStore[T]\<close>), the pod registry (\<open>pod.go\<close>), the
  address pools (\<open>ipam.go\<close>) and per-container maps (wait channels, log buffers, staging and tmpfs
  directories, health checks). Networks go through a driver (\<open>drivers_network.go\<close>). Background work
  records probe results (\<open>health.go\<close>), restarts containers (\<open>restart_policy.go\<close>) and ends execs.
  \<^item> \<open>Prelude\<close>: Go maps as association lists, strings and numbers of the Go library.
  \<^item> \<open>StateStore\<close>, \<open>Ipam\<close>, \<open>Pods\<close>, \<open>EventBus\<close>: the four containers of the store, each with its
    invariant; the contracts are the locales \<open>kv_store\<close>, \<open>address_pool\<close> and \<open>reverse_index\<close>, interpreted
    on the definitions of the code.
  \<^item> \<open>ApiTypes\<close>, \<open>Filters\<close>: the data of the API, its errors with their status codes, and the filters.
  \<^item> \<open>Server\<close>: the store as one record, the effects of the world (identifiers, clock, temporary
    directories: the record \<open>World\<close> supplies the n-th value of each), lookups, stop and restart.
  \<^item> \<open>Networks\<close>, \<open>Containers\<close>, \<open>PodOps\<close>, \<open>ExecVolume\<close>: the handlers, one definition per handler,
    from the old store to the new store and an error or a result.
  \<^item> \<open>ImageRefs\<close>, \<open>Images\<close>: the two parsers of image references and their printer (\<open>image_ref.go\<close>,
    \<open>registry.go\<close>), the image cache with its aliases, and pull, tag, list, remove, history and prune.
  \<^item> \<open>Safety\<close>, \<open>Histories\<close>, \<open>Lifecycle\<close>: invariants of the whole store (channels and pods; the name
    index; state records, process identifiers and waiters), kept by all 29 operations of \<open>srv_op\<close>, so true
    after every history \<open>srv_run\<close> of a fresh server.
  \<^item> \<open>Failures\<close>, \<open>Behaviour\<close>, \<open>Cleanup\<close>: which error a refused request answers with and that it changes
    nothing; what single operations compute; what removal and pruning leave behind.

  The workflow engine. A submission (\<open>jobs.go\<close>) is parsed, its matrix jobs are expanded (\<open>matrix.go\<close>), the graph
  of its jobs is checked, and \<open>submitWorkflow\<close> (\<open>workflows.go\<close>) stores it running, or pending when its concurrency
  group is taken. \<open>dispatchReadyJobs\<close> skips or queues the jobs whose dependencies are final, evaluating their
  conditions (\<open>expressions.go\<close>); the broker (\<open>broker.go\<close>) puts their messages into the queue of a session or into
  the list of pending messages. Runners report through \<open>run_service.go\<close>; \<open>onJobCompleted\<close> completes the job,
  dispatches, settles the workflow and starts the next one of its group.
  \<^item> \<open>Matrix\<close>, \<open>Expressions\<close>, \<open>JobGraph\<close>, \<open>Outputs\<close>, \<open>WorkflowFiles\<close>: the pure parts and the table of files, each with
    its specification.
  \<^item> \<open>Broker\<close>, \<open>Workflows\<close>, \<open>RunService\<close>: the hub as one record, its messages, its engine and its handlers;
    \<open>hub_step\<close> and \<open>hub_run\<close> compose the operations. \<open>HubDemo\<close> is a small hub for concrete histories.
  \<^item> \<open>WorkflowLife\<close>: the abstract life cycle \<open>wf_step\<close> of one workflow and the locale \<open>engine_law\<close> of relations that
    hold between the hub before and after; \<open>WorkflowInv\<close>: the refinement, the locale \<open>life_invariant\<close> and its
    three instances.
  \<^item> \<open>WorkflowProgress\<close>, \<open>Concurrency\<close>, \<open>Messages\<close>: that work is always queued, that groups are exclusive, and that
    messages are neither lost nor handed out twice; \<open>WorkflowBehaviour\<close>: what single steps do.

  The forge. A request passes \<open>ghHeadersMiddleware\<close> (\<open>gh_middleware.go\<close>), which turns its \<open>Authorization\<close> header into a
  context (a user, an app or an installation); the route's decorator (\<open>gh_apps_perms.go\<close>) may demand a permission of an
  installation token; the handler (\<open>gh_*_rest.go\<close>) decodes the body, checks its guards and calls operations of the store
  (\<open>store_repos.go\<close>, \<open>store_orgs.go\<close>, \<open>store_issues.go\<close>, \<open>store_pulls.go\<close>, \<open>gh_apps_store.go\<close>); changes are announced to
  webhooks (\<open>webhooks.go\<close>). The GraphQL endpoint has the middleware but no decorator; its mutations call the same store.
  \<^item> \<open>Credentials\<close>, \<open>ForgeStore\<close>, \<open>TrackerStore\<close>: the vault of apps, installations, tokens and codes; repositories,
    organizations, teams and hooks; labels, milestones, issues, comments, pull requests and reviews. One definition per
    method of the store, on the record \<open>Forge\<close>.
  \<^item> \<open>Access\<close>: the middleware, the decorators and the access rules of \<open>rbac.go\<close>. \<open>Rest\<close>, \<open>Base64\<close>, \<open>Cursors\<close>, \<open>ForgeJson\<close>:
    bodies, answers and pages; Basic credentials; the connections of GraphQL; the JSON of the objects.
  \<^item> \<open>IssueHandlers\<close>, \<open>PullHandlers\<close>, \<open>OrgHandlers\<close>, \<open>HookHandlers\<close>, \<open>OauthHandlers\<close>, \<open>AppHandlers\<close>, \<open>Graphql\<close>: the handlers
    and the mutations, one definition each. \<open>ForgeRun\<close>: the table of routes, one step (\<open>forge_step\<close>) and histories
    (\<open>forge_run\<close>). \<open>ForgeDemo\<close> is a small forge for concrete histories.
  \<^item> \<open>ForgeFrame\<close>: what holds of every step. Its locales have a reflexive and transitive relation between stores that the
    operations respect (\<open>account_relation\<close>, \<open>org_relation\<close>, \<open>tracker_relation\<close>, \<open>rest_relation\<close>, \<open>mutation_relation\<close>, joined in
    \<open>forge_relation\<close>) and conclude that the routes respect it; each property of histories is an interpretation.
  \<^item> \<open>Numbers\<close>: issues and pull requests share one sequence of numbers. \<open>PullLife\<close>: REST refines the life cycle of a pull
    request. \<open>Still\<close>, \<open>Anonymous\<close>, \<open>Permissions\<close>, \<open>OrgAdmin\<close>, \<open>Leaks\<close>: who may change and read what. \<open>TokenLife\<close>: codes,
    tokens and installations over time. \<open>Paging\<close>: clients that follow pages see every item once.

  Conventions. A table is an association list in insertion order: a \<open>range\<close> over a Go map visits it in
  that order, one of those Go allows. A channel is a number; closing one twice, or dereferencing a nil
  pod, sets \<open>st_panicked\<close>. A handler runs as one step: the code takes the lock of each table separately,
  and interleavings inside a handler are not modelled. Time is in nanoseconds. Integers of Go that the
  code only counts with are \<open>int\<close>; ports and sizes are words. The cloud provider of a backend is absent
  (\<open>CloudState\<close> nil), as in the base server. In the hub a runner message is the identifier and job it
  carries, the decoder of YAML is a parameter, and a tick of the timeout watcher is an operation. In the forge the
  record \<open>ForgeWorld\<close> supplies the clock, the random tokens, hashes and the formatting of times and addresses, and
  the verification of a signed JWT is a parameter; a pointer shared by two maps is the identifier of one object.

  Fuel. Loops are structural, or have a measure, but for two searches. \<open>visit\<close> gets one more than the number of jobs:
  each nested call turns a white job grey, so it never runs out (\<open>validateJobGraph_correct\<close>). \<open>parseOr\<close> gets one
  more than the length of the text: each nested parenthesis consumes a character (\<open>parser_returns\<close>).
  \<open>RestartDelay\<close> loops as often as the restart count says. \<open>walk\<close>, a client of a connection, gets one request more than
  the list has items: every page but the last is not empty (\<open>cursor_walk_lists_all\<close>).

  Not modelled. In the base server: the HTTP layer and JSON, streams (logs, attach, stats, archives), the probe loop and
  exec over the agent, transfers with registries. In the engine: the JSON body of a runner message, lines of the console
  log. In the forge: the payloads and signatures of webhooks and \<open>handleGetHookDelivery\<close>, which shows them; runs that an
  event triggers; git storage and the endpoints that read it; the execution of a GraphQL query by its library (the
  selection of fields, fragments, introspection); releases, deployments, checks, reactions, review comments, projects,
  artifacts and secrets; persistence and telemetry. The cloud backends and their dispatchers translate to the calls of
  cloud services, the simulators imitate such services, and the agent, commands and user interface are processes,
  terminals and pages: what they compute is in services and kernels that are not part of this repository.
\<close>

end
